(* ===== verification/Prelude.thy ===== *)
theory Prelude
  imports Main "HOL-Library.Word" "HOL-Library.Monad_Syntax"
begin

text \<open>
  What every component shares: the C integer types of the 32-bit ARM build as words, byte
  arrays as explicit stores with their size, and the lemmas that let the simplifier run a
  sequence of accesses over such a store.

  A computation of type \<open>'a option\<close> is \<open>None\<close> where the C code has undefined
  behaviour (an access outside an array, a signed overflow of an offset, a write through a
  null pointer) and \<open>Some\<close> of the result otherwise.
\<close>

unbundle bit_operations_syntax

section \<open>C integers\<close>

type_synonym c_char = "8 word"
type_synonym c_short = "16 word"
type_synonym c_int = "32 word"
type_synonym c_llong = "64 word"

text \<open>
  A \<open>float\<close> or \<open>double\<close> that is only stored and copied is its bit pattern.
\<close>

type_synonym c_float = "32 word"
type_synonym c_double = "64 word"

abbreviation c_true :: c_int where "c_true \<equiv> 1"
abbreviation c_false :: c_int where "c_false \<equiv> 0"
abbreviation c_minus1 :: c_int where "c_minus1 \<equiv> - 1"

definition c_bool :: "bool \<Rightarrow> c_int" where
  "c_bool b = (if b then 1 else 0)"

lemma c_bool_simps [simp]: "c_bool True = 1" "c_bool False = 0"
  by (simp_all add: c_bool_def)

lemma c_bool_nonzero [simp]: "(c_bool b \<noteq> 0) = b"
  by (simp add: c_bool_def)

text \<open>Lemma collections: byte-array accesses, and the definitions a component unfolds.\<close>

named_theorems store_simps \<open>running accesses over a byte array\<close>
named_theorems sender_defs \<open>the message senders\<close>
named_theorems fsm_defs \<open>the handlers of the daemon\<close>

lemma bind_eq_map: "r \<bind> (\<lambda>x. Some (g x)) = map_option g r"
  by (cases r) auto

section \<open>Words\<close>

lemma sint_of_nat_small:
  "k < 2 ^ 31 \<Longrightarrow> sint (word_of_nat k :: c_int) = int k"
  by (simp add: signed_of_nat signed_take_bit_int_eq_self)

lemma word16_from_bytes:
  fixes v :: c_short
  shows "(ucast (ucast v :: c_char) :: c_short) OR push_bit 8 (ucast (ucast (drop_bit 8 v) :: c_char)) = v"
  by (rule bit_word_eqI) (auto simp: bit_simps)

lemma word32_from_shorts:
  fixes v :: c_int
  shows "(ucast (ucast v :: c_short) :: c_int) OR push_bit 16 (ucast (ucast (drop_bit 16 v) :: c_short)) = v"
  by (rule bit_word_eqI) (auto simp: bit_simps)

lemma word64_from_ints:
  fixes v :: c_llong
  shows "(ucast (ucast v :: c_int) :: c_llong) OR push_bit 32 (ucast (ucast (drop_bit 32 v) :: c_int)) = v"
  by (rule bit_word_eqI) (auto simp: bit_simps)

section \<open>Byte arrays\<close>

text \<open>
  \<open>char buff[N]\<close> with a running \<open>int offset\<close>: the array's size, its contents, and the
  offset the coder functions advance through \<open>int* offset\<close>.
\<close>

record cursor =
  cap :: int
  mem :: "int \<Rightarrow> c_char"
  off :: int

definition list_mem :: "c_char list \<Rightarrow> int \<Rightarrow> c_char" where
  "list_mem bs i = (if 0 \<le> i \<and> i < int (length bs) then bs ! nat i else 0)"

definition rd :: "nat \<Rightarrow> c_char list \<Rightarrow> c_char list \<Rightarrow> cursor" where
  "rd n pre suf = \<lparr>cap = int n, mem = list_mem (pre @ suf), off = int (length pre)\<rparr>"

text \<open>\<open>char buff[N] = {0}; int offset = 0;\<close>\<close>

definition zero_buff :: "nat \<Rightarrow> cursor" where
  "zero_buff n = \<lparr>cap = int n, mem = (\<lambda>_. 0), off = 0\<rparr>"

text \<open>A zeroed \<open>buff[N]\<close> into which \<open>recvfrom\<close> copied the datagram \<open>d\<close> (cut at N bytes).\<close>

definition recv_buff :: "nat \<Rightarrow> c_char list \<Rightarrow> cursor" where
  "recv_buff n d = \<lparr>cap = int n, mem = list_mem (take n d), off = 0\<rparr>"

text \<open>The first \<open>offset\<close> bytes of the array: what the senders hand to \<open>sendto\<close>.\<close>

definition sent :: "cursor \<Rightarrow> c_char list" where
  "sent c = map (mem c) [0..off c - 1]"

lemma list_mem_Nil [simp]: "list_mem [] = (\<lambda>_. 0)"
  by (rule ext) (auto simp: list_mem_def)

lemma list_mem_nth: "i < length bs \<Longrightarrow> list_mem bs (int i) = bs ! i"
  by (simp add: list_mem_def)

lemma zero_buff_rd: "zero_buff n = rd n [] []"
  by (simp add: zero_buff_def rd_def)

lemma recv_buff_rd: "length d \<le> n \<Longrightarrow> recv_buff n d = rd n [] d"
  by (simp add: recv_buff_def rd_def)

lemma map_list_mem: "map (list_mem bs) [0..int (length bs) - 1] = bs"
proof (rule nth_equalityI)
  fix i assume "i < length (map (list_mem bs) [0..int (length bs) - 1])"
  then have "i < length bs" by simp
  then show "map (list_mem bs) [0..int (length bs) - 1] ! i = bs ! i"
    by (simp add: list_mem_nth)
qed simp

lemma sent_rd: "sent (rd n bs []) = bs"
  by (simp add: sent_def rd_def map_list_mem)

lemma off_rd [simp]: "off (rd n pre suf) = int (length pre)"
  by (simp add: rd_def)

lemma cap_rd [simp]: "cap (rd n pre suf) = int n"
  by (simp add: rd_def)

lemma mem_rd_here: "mem (rd n pre (b # suf)) (int (length pre)) = b"
  by (simp add: rd_def list_mem_def nth_append)

lemma rd_advance: "rd n pre (bs @ suf)\<lparr>off := int (length pre) + int (length bs)\<rparr> = rd n (pre @ bs) suf"
  by (simp add: rd_def)

lemma list_mem_snoc: "(list_mem bs)(int (length bs) := b) = list_mem (bs @ [b])"
  by (rule ext) (auto simp: list_mem_def nth_append nat_less_iff)

lemma list_mem_append:
  "(\<lambda>i. if int (length bs) \<le> i \<and> i < int (length bs) + int (length xs)
        then xs ! nat (i - int (length bs)) else list_mem bs i) = list_mem (bs @ xs)"
  by (rule ext) (auto simp: list_mem_def nth_append nat_diff_distrib nat_less_iff)

end
