(* ===== verification/Data_Coder.thy ===== *)
theory Data_Coder
  imports Prelude
begin

text \<open>
  \<^verbatim>\<open>mtk/gps/mtk_mnld/utility/src/data_coder.c\<close> (the copies under
  \<^verbatim>\<open>gps_hal/src\<close> and \<^verbatim>\<open>wifi2agps/interface\<close> are the same file): the functions that
  write values into a byte array and read them back. Every read and write that would fall
  outside the array is \<open>None\<close>. The interface \<open>codec\<close> states what the message layers
  rely on; it is interpreted for every pair of functions.
\<close>

section \<open>Reading\<close>

definition get_byte :: "cursor \<Rightarrow> (c_char \<times> cursor) option" where
  "get_byte c =
     (if 0 \<le> off c \<and> off c < cap c
      then Some (mem c (off c), c\<lparr>off := off c + 1\<rparr>) else None)"

text \<open>
  The C code computes in \<open>int\<close>: a \<open>char\<close> (unsigned on ARM) is zero-extended, a
  \<open>short\<close> sign-extended, and \<open>ret |= ...\<close> truncates to the type of \<open>ret\<close>.
\<close>

definition get_short :: "cursor \<Rightarrow> (c_short \<times> cursor) option" where
  "get_short c = do {
     (b0, c) \<leftarrow> get_byte c;
     let ret = (ucast ((scast (0 :: c_short) :: c_int) OR ((ucast b0 :: c_int) AND 0xff)) :: c_short);
     (b1, c) \<leftarrow> get_byte c;
     Some (ucast ((scast ret :: c_int) OR push_bit 8 (ucast b1 :: c_int)), c)
   }"

definition get_int :: "cursor \<Rightarrow> (c_int \<times> cursor) option" where
  "get_int c = do {
     (s0, c) \<leftarrow> get_short c;
     let ret = (0 :: c_int) OR ((scast s0 :: c_int) AND 0xffff);
     (s1, c) \<leftarrow> get_short c;
     Some (ret OR push_bit 16 (scast s1 :: c_int), c)
   }"

text \<open>\<open>0xffffffffL\<close> is an \<open>unsigned long\<close> of 32 bits here, so the first half is
  zero-extended; the second is cast to \<open>long long\<close> before the shift.\<close>

definition get_long :: "cursor \<Rightarrow> (c_llong \<times> cursor) option" where
  "get_long c = do {
     (i0, c) \<leftarrow> get_int c;
     let ret = (0 :: c_llong) OR (ucast (i0 AND 0xffffffff) :: c_llong);
     (i1, c) \<leftarrow> get_int c;
     Some (ret OR push_bit 32 (scast i1 :: c_llong), c)
   }"

definition get_float :: "cursor \<Rightarrow> (c_float \<times> cursor) option" where
  "get_float c = get_int c"

definition get_double :: "cursor \<Rightarrow> (c_double \<times> cursor) option" where
  "get_double c = get_long c"

text \<open>\<open>*offset += len\<close> on signed ints: overflow is undefined.\<close>

definition add_offset :: "cursor \<Rightarrow> c_int \<Rightarrow> cursor option" where
  "add_offset c len =
     (let n = off c + sint len
      in if - (2 ^ 31) \<le> n \<and> n < 2 ^ 31 then Some (c\<lparr>off := n\<rparr>) else None)"

text \<open>The result is a pointer into the array (its index), or \<open>NULL\<close>.\<close>

definition get_string :: "cursor \<Rightarrow> (int option \<times> cursor) option" where
  "get_string c = do {
     (ret, c) \<leftarrow> get_byte c;
     if ret = 0 then Some (None, c)
     else do {
       (len, c) \<leftarrow> get_int c;
       c' \<leftarrow> add_offset c len;
       Some (Some (off c), c')
     }
   }"

text \<open>What a reader of such a pointer sees: the bytes up to the first NUL, if there is one
  inside the array.\<close>

function c_str :: "cursor \<Rightarrow> int \<Rightarrow> c_char list option" where
  "c_str c p =
     (if 0 \<le> p \<and> p < cap c
      then if mem c p = 0 then Some [] else map_option ((#) (mem c p)) (c_str c (p + 1))
      else None)"
  by pat_completeness auto
termination
  by (relation "measure (\<lambda>(c, p). nat (cap c - p))") auto

declare c_str.simps [simp del]

text \<open>A string argument as a callee finds it: \<open>None\<close> for \<open>NULL\<close>.\<close>

type_synonym c_string = "c_char list option"

definition deref :: "cursor \<Rightarrow> int option \<Rightarrow> c_string option" where
  "deref c p = (case p of None \<Rightarrow> Some None | Some i \<Rightarrow> map_option Some (c_str c i))"

text \<open>
  \<open>get_string\<close> together with the contents the returned pointer leads to. The second
  component is itself optional: a pointer to a run of bytes without NUL is harmless until
  it is followed.
\<close>

definition get_str :: "cursor \<Rightarrow> (c_string option \<times> cursor) option" where
  "get_str c = do { (p, c) \<leftarrow> get_string c; Some (deref c p, c) }"

definition get_string2 :: "cursor \<Rightarrow> (c_string option \<times> cursor) option" where
  "get_string2 c = do {
     (output, c) \<leftarrow> get_string c;
     case output of None \<Rightarrow> Some (Some (Some []), c) | Some i \<Rightarrow> Some (deref c (Some i), c)
   }"

text \<open>\<open>memcpy(output, &buff[*offset], len)\<close>, where \<open>output\<close> is an array with the
  contents \<open>out\<close>.\<close>

definition take_bytes :: "cursor \<Rightarrow> int \<Rightarrow> c_char list" where
  "take_bytes c n = map (mem c) [off c..off c + n - 1]"

definition get_binary :: "c_char list \<Rightarrow> cursor \<Rightarrow> (c_int \<times> c_char list \<times> cursor) option" where
  "get_binary out c = do {
     (len, c) \<leftarrow> get_int c;
     if 0 < sint len
     then if 0 \<le> off c \<and> off c + sint len \<le> cap c \<and> sint len \<le> int (length out)
       then do {
         c' \<leftarrow> add_offset c len;
         Some (len, take_bytes c (sint len) @ drop (nat (sint len)) out, c')
       } else None
     else Some (len, out, c)
   }"

section \<open>Writing\<close>

definition put_byte :: "cursor \<Rightarrow> c_char \<Rightarrow> cursor option" where
  "put_byte c input =
     (if 0 \<le> off c \<and> off c < cap c
      then Some (c\<lparr>mem := (mem c)(off c := input), off := off c + 1\<rparr>) else None)"

definition put_short :: "cursor \<Rightarrow> c_short \<Rightarrow> cursor option" where
  "put_short c input = do {
     c \<leftarrow> put_byte c (ucast ((scast input :: c_int) AND 0xff));
     put_byte c (ucast (signed_drop_bit 8 (scast input :: c_int) AND 0xff))
   }"

definition put_int :: "cursor \<Rightarrow> c_int \<Rightarrow> cursor option" where
  "put_int c input = do {
     c \<leftarrow> put_short c (ucast (input AND 0xffff));
     put_short c (ucast (signed_drop_bit 16 input AND 0xffff))
   }"

definition put_long :: "cursor \<Rightarrow> c_llong \<Rightarrow> cursor option" where
  "put_long c input = do {
     c \<leftarrow> put_int c (ucast (input AND 0xffffffff));
     put_int c (ucast (signed_drop_bit 32 input AND 0xffffffff))
   }"

definition put_float :: "cursor \<Rightarrow> c_float \<Rightarrow> cursor option" where
  "put_float c input = put_int c input"

definition put_double :: "cursor \<Rightarrow> c_double \<Rightarrow> cursor option" where
  "put_double c input = put_long c input"

text \<open>\<open>memcpy(&buff[*offset], input, len); *offset += len\<close>.\<close>

definition put_bytes :: "cursor \<Rightarrow> c_char list \<Rightarrow> cursor option" where
  "put_bytes c bs =
     (if 0 \<le> off c \<and> off c + int (length bs) \<le> cap c
      then Some (c\<lparr>mem := (\<lambda>i. if off c \<le> i \<and> i < off c + int (length bs)
                             then bs ! nat (i - off c) else mem c i),
                   off := off c + int (length bs)\<rparr>)
      else None)"

definition c_strlen :: "c_char list \<Rightarrow> nat" where
  "c_strlen s = length (takeWhile (\<lambda>b. b \<noteq> 0) s)"

definition put_string :: "cursor \<Rightarrow> c_string \<Rightarrow> cursor option" where
  "put_string c input =
     (case input of
        None \<Rightarrow> put_byte c 0
      | Some s \<Rightarrow> do {
          let len = (word_of_nat (c_strlen s + 1) :: c_int);
          c \<leftarrow> put_byte c 1;
          c \<leftarrow> put_int c len;
          put_bytes c (take (unat len) (takeWhile (\<lambda>b. b \<noteq> 0) s @ [0]))
        })"

definition put_binary :: "cursor \<Rightarrow> c_char list \<Rightarrow> c_int \<Rightarrow> cursor option" where
  "put_binary c input len = do {
     c \<leftarrow> put_int c len;
     if 0 < sint len
     then if sint len \<le> int (length input) then put_bytes c (take (nat (sint len)) input) else None
     else Some c
   }"

section \<open>The byte format\<close>

text \<open>What the writers are meant to produce: little-endian integers, and a string as a
  presence byte, a length that counts the NUL, and the bytes with the NUL.\<close>

definition enc_byte :: "c_char \<Rightarrow> c_char list" where
  "enc_byte b = [b]"

definition enc_short :: "c_short \<Rightarrow> c_char list" where
  "enc_short v = [ucast v, ucast (drop_bit 8 v)]"

definition enc_int :: "c_int \<Rightarrow> c_char list" where
  "enc_int v = enc_short (ucast v) @ enc_short (ucast (drop_bit 16 v))"

definition enc_long :: "c_llong \<Rightarrow> c_char list" where
  "enc_long v = enc_int (ucast v) @ enc_int (ucast (drop_bit 32 v))"

definition enc_string :: "c_string \<Rightarrow> c_char list" where
  "enc_string s = (case s of None \<Rightarrow> [0]
     | Some t \<Rightarrow> 1 # enc_int (word_of_nat (length t + 1)) @ t @ [0])"

definition enc_binary :: "c_char list \<Rightarrow> c_char list" where
  "enc_binary bs = enc_int (word_of_nat (length bs)) @ bs"

text \<open>The values the format can carry: strings without an embedded NUL, lengths below
  2 to the 31.\<close>

fun string_ok :: "c_string \<Rightarrow> bool" where
  "string_ok None = True"
| "string_ok (Some t) = (0 \<notin> set t \<and> length t + 1 < 2 ^ 31)"

definition binary_ok :: "c_char list \<Rightarrow> bool" where
  "binary_ok bs = (length bs < 2 ^ 31)"

lemma length_enc [simp]:
  "length (enc_byte b) = 1" "length (enc_short s) = 2" "length (enc_int i) = 4"
  "length (enc_long l) = 8"
  by (simp_all add: enc_byte_def enc_short_def enc_int_def enc_long_def)

lemma length_enc_string [simp]:
  "length (enc_string s) = (case s of None \<Rightarrow> 1 | Some t \<Rightarrow> length t + 6)"
  by (simp add: enc_string_def split: option.split)

lemma length_enc_binary [simp]: "length (enc_binary bs) = length bs + 4"
  by (simp add: enc_binary_def)

section \<open>The functions on a buffer with known contents\<close>

lemma get_byte_rd [store_simps]: "length pre < n \<Longrightarrow> get_byte (rd n pre (b # suf)) = Some (b, rd n (pre @ [b]) suf)"
  by (simp add: get_byte_def mem_rd_here) (simp add: rd_def)

lemma put_byte_rd [store_simps]: "put_byte (rd n bs []) b =
   (if length bs < n then Some (rd n (bs @ [b]) []) else None)"
  by (simp add: put_byte_def) (simp add: rd_def list_mem_snoc)

lemma masks: "(0xff :: c_int) = mask 8" "(0xffff :: c_int) = mask 16" "(0xffffffff :: c_int) = mask 32" "(0xffffffff :: c_llong) = mask 32"
  by (simp_all add: mask_eq_exp_minus_1)

lemma short_low: "ucast (((scast (v :: c_short)) :: c_int) AND 0xff) = (ucast v :: c_char)"
  unfolding masks by (rule bit_word_eqI) (auto simp: bit_simps)
lemma short_high: "ucast (signed_drop_bit 8 (scast (v :: c_short) :: c_int) AND 0xff) = (ucast (drop_bit 8 v) :: c_char)"
  unfolding masks by (rule bit_word_eqI) (auto simp: bit_simps)
lemma int_low: "ucast ((v :: c_int) AND 0xffff) = (ucast v :: c_short)"
  unfolding masks by (rule bit_word_eqI) (auto simp: bit_simps)
lemma int_high: "(ucast (signed_drop_bit 16 (v :: c_int) AND 0xffff) :: c_short) = ucast (drop_bit 16 v)"
  unfolding masks by (rule bit_word_eqI) (auto simp: bit_simps)
lemma int_high': "(ucast (signed_drop_bit 16 (v :: c_int)) :: c_short) = ucast (drop_bit 16 v)"
   by (rule bit_word_eqI) (auto simp: bit_simps)
lemma long_low: "ucast ((v :: c_llong) AND 0xffffffff) = (ucast v :: c_int)"
  unfolding masks by (rule bit_word_eqI) (auto simp: bit_simps)
lemma long_high: "(ucast (signed_drop_bit 32 (v :: c_llong) AND 0xffffffff) :: c_int) = ucast (drop_bit 32 v)"
  unfolding masks by (rule bit_word_eqI) (auto simp: bit_simps)
lemma long_high': "(ucast (signed_drop_bit 32 (v :: c_llong)) :: c_int) = ucast (drop_bit 32 v)"
   by (rule bit_word_eqI) (auto simp: bit_simps)

lemma scast_high_16: "push_bit 16 (scast (x :: c_short) :: c_int) = push_bit 16 (ucast x)"
proof (rule bit_word_eqI)
  fix n assume n: "n < LENGTH(32)"
  show "bit (push_bit 16 (scast x :: c_int)) n = bit (push_bit 16 (ucast x :: c_int)) n"
  proof (cases "n = 31")
    case False
    with n show ?thesis by (cases "16 \<le> n") (auto simp: bit_simps)
  qed (simp add: bit_simps)
qed

lemma scast_high_32: "push_bit 32 (scast (x :: c_int) :: c_llong) = push_bit 32 (ucast x)"
proof (rule bit_word_eqI)
  fix n assume n: "n < LENGTH(64)"
  show "bit (push_bit 32 (scast x :: c_llong)) n = bit (push_bit 32 (ucast x :: c_llong)) n"
  proof (cases "n = 63")
    case False
    with n show ?thesis by (cases "32 \<le> n") (auto simp: bit_simps)
  qed (simp add: bit_simps)
qed

lemma scast_low_16: "(scast (x :: c_short) :: c_int) AND 0xffff = ucast x"
proof (rule bit_word_eqI)
  fix n assume n: "n < LENGTH(32)"
  show "bit ((scast x :: c_int) AND 0xffff) n = bit (ucast x :: c_int) n"
    unfolding masks by (cases "n \<le> 15") (use n in \<open>auto simp: bit_simps min_absorb2 dest: bit_imp_le_length\<close>)
qed

lemma and_mask_32: "(x :: c_int) AND 0xffffffff = x"
  unfolding masks by (rule bit_word_eqI) (auto simp: bit_simps)

lemma short_join:
  "(ucast ((scast (ucast ((ucast (b0 :: c_char) :: c_int) AND 0xff) :: c_short) :: c_int)
     OR push_bit 8 (ucast (b1 :: c_char) :: c_int)) :: c_short) = ucast b0 OR push_bit 8 (ucast b1)"
  unfolding masks by (rule bit_word_eqI) (auto simp: bit_simps dest: bit_imp_le_length)

lemma get_short_rd [store_simps]: "length pre + 2 + length suf \<le> n \<Longrightarrow> get_short (rd n pre (enc_short v @ suf)) = Some (v, rd n (pre @ enc_short v) suf)"
  by (simp add: get_short_def enc_short_def get_byte_rd Let_def short_join word16_from_bytes)

lemma get_int_rd [store_simps]: "length pre + 4 + length suf \<le> n \<Longrightarrow> get_int (rd n pre (enc_int v @ suf)) = Some (v, rd n (pre @ enc_int v) suf)"
  by (simp add: get_int_def enc_int_def get_short_rd Let_def scast_low_16 scast_high_16 word32_from_shorts)

lemma get_long_rd [store_simps]: "length pre + 8 + length suf \<le> n \<Longrightarrow> get_long (rd n pre (enc_long v @ suf)) = Some (v, rd n (pre @ enc_long v) suf)"
  by (simp add: get_long_def enc_long_def get_int_rd Let_def and_mask_32 scast_high_32 word64_from_ints)

lemma put_short_rd [store_simps]: "put_short (rd n bs []) v = (if length bs + 2 \<le> n then Some (rd n (bs @ enc_short v) []) else None)"
  by (auto simp: put_short_def put_byte_rd short_low short_high enc_short_def)
lemma put_int_rd [store_simps]: "put_int (rd n bs []) v = (if length bs + 4 \<le> n then Some (rd n (bs @ enc_int v) []) else None)"
  by (auto simp: put_int_def put_short_rd int_low int_high int_high' enc_int_def)
lemma put_long_rd [store_simps]: "put_long (rd n bs []) v = (if length bs + 8 \<le> n then Some (rd n (bs @ enc_long v) []) else None)"
  by (auto simp: put_long_def put_int_rd long_low long_high long_high' enc_long_def)

lemma put_bytes_rd [store_simps]: "put_bytes (rd n bs []) xs = (if length bs + length xs \<le> n then Some (rd n (bs @ xs) []) else None)"
  by (simp add: put_bytes_def) (simp add: rd_def list_mem_append cong: if_cong)

lemma takeWhile_no_nul: "0 \<notin> set t \<Longrightarrow> takeWhile (\<lambda>b. b \<noteq> (0 :: c_char)) t = t"
  by (auto simp: takeWhile_eq_all_conv)

lemma put_string_rd [store_simps]: "string_ok s \<Longrightarrow> put_string (rd n bs []) s = (if length bs + length (enc_string s) \<le> n then Some (rd n (bs @ enc_string s) []) else None)"
  by (cases s) (auto simp: put_string_def put_byte_rd put_int_rd put_bytes_rd enc_string_def c_strlen_def takeWhile_no_nul
    Let_def unat_of_nat simp del: of_nat_Suc of_nat_add)


lemma c_str_rd:
  "0 \<notin> set t \<Longrightarrow> length pre + length t < n \<Longrightarrow> length pre + length t < k \<Longrightarrow>
   c_str \<lparr>cap = int n, mem = list_mem (pre @ t @ 0 # suf), off = m\<rparr> (int (length pre)) = Some t"
proof (induction t arbitrary: pre)
  case Nil
  then show ?case by (simp add: c_str.simps list_mem_def nth_append)
next
  case (Cons b t)
  have "c_str \<lparr>cap = int n, mem = list_mem ((pre @ [b]) @ t @ 0 # suf), off = m\<rparr> (int (length (pre @ [b]))) = Some t"
    by (rule Cons.IH) (use Cons.prems in auto)
  then show ?case
    using Cons.prems by (subst c_str.simps) (auto simp: list_mem_def nth_append add.commute)
qed


lemma add_offset_rd:
  assumes "length bs < 2 ^ 31" "length pre + length bs < 2 ^ 31"
  shows "add_offset (rd n pre (bs @ suf)) (word_of_nat (length bs)) = Some (rd n (pre @ bs) suf)"
  using assms by (simp add: add_offset_def sint_of_nat_small Let_def rd_advance)

lemma c_str_rd':
  assumes "0 \<notin> set t" "length pre + length t < n"
  shows "c_str (rd n (pre @ t @ [0]) suf) (int (length pre)) = Some t"
  using c_str_rd [OF assms assms(2), of suf "int (length pre + length t + 1)"]
  by (simp add: rd_def add.commute)

lemma get_str_rd [store_simps]:
  assumes "string_ok s" "length pre + length (enc_string s) + length suf \<le> n" "n < 2 ^ 31"
  shows "get_str (rd n pre (enc_string s @ suf)) = Some (Some s, rd n (pre @ enc_string s) suf)"
proof (cases s)
  case None
  then show ?thesis
    using assms by (simp add: get_str_def get_string_def enc_string_def get_byte_rd deref_def)
next
  case (Some t)
  let ?len = "word_of_nat (length t + 1) :: c_int"
  have adv: "add_offset (rd n (pre @ 1 # enc_int ?len) ((t @ [0]) @ suf)) (word_of_nat (length (t @ [0])))
      = Some (rd n (pre @ 1 # enc_int ?len @ t @ [0]) suf)"
    using assms Some by (subst add_offset_rd) auto
  have str: "c_str (rd n ((pre @ 1 # enc_int ?len) @ t @ [0]) suf) (int (length (pre @ 1 # enc_int ?len))) = Some t"
    using assms Some by (intro c_str_rd') auto
  show ?thesis
    using assms Some adv str
    by (simp add: get_str_def get_string_def enc_string_def get_byte_rd get_int_rd deref_def del: of_nat_Suc of_nat_add)
qed

lemma take_bytes_rd: "take_bytes (rd n pre (bs @ suf)) (int (length bs)) = bs"
proof (rule nth_equalityI)
  fix i assume "i < length (take_bytes (rd n pre (bs @ suf)) (int (length bs)))"
  then have i: "i < length bs" by (simp add: take_bytes_def)
  then have "nat (int (length pre) + int i) = length pre + i" by simp
  with i show "take_bytes (rd n pre (bs @ suf)) (int (length bs)) ! i = bs ! i"
    by (simp add: take_bytes_def) (simp add: rd_def list_mem_def nth_append)
qed (simp add: take_bytes_def)

lemma get_binary_rd [store_simps]:
  assumes "length bs \<le> length out" "length pre + length (enc_binary bs) + length suf \<le> n" "n < 2 ^ 31"
  shows "get_binary out (rd n pre (enc_binary bs @ suf)) =
     Some (word_of_nat (length bs), bs @ drop (length bs) out, rd n (pre @ enc_binary bs) suf)"
proof (cases "bs = []")
  case True
  then show ?thesis using assms by (simp add: get_binary_def enc_binary_def get_int_rd)
next
  case False
  have adv: "add_offset (rd n (pre @ enc_int (word_of_nat (length bs))) (bs @ suf)) (word_of_nat (length bs)) =
     Some (rd n ((pre @ enc_int (word_of_nat (length bs))) @ bs) suf)"
    using assms by (intro add_offset_rd) auto
  have "length bs < 2 ^ 31" using assms by auto
  with assms False adv show ?thesis
    by (simp add: get_binary_def enc_binary_def get_int_rd sint_of_nat_small take_bytes_rd)
qed

lemma put_binary_rd [store_simps]:
  assumes "binary_ok bs"
  shows "put_binary (rd n pre []) bs (word_of_nat (length bs)) =
    (if length pre + length (enc_binary bs) \<le> n then Some (rd n (pre @ enc_binary bs) []) else None)"
  using assms by (auto simp: put_binary_def put_int_rd put_bytes_rd enc_binary_def binary_ok_def sint_of_nat_small)

lemma put_float_rd [store_simps]: "put_float (rd n bs []) v =
    (if length bs + 4 \<le> n then Some (rd n (bs @ enc_int v) []) else None)"
  by (simp add: put_float_def put_int_rd)

lemma put_double_rd [store_simps]: "put_double (rd n bs []) v =
    (if length bs + 8 \<le> n then Some (rd n (bs @ enc_long v) []) else None)"
  by (simp add: put_double_def put_long_rd)

lemma get_float_rd [store_simps]: "length pre + 4 + length suf \<le> n \<Longrightarrow>
    get_float (rd n pre (enc_int v @ suf)) = Some (v, rd n (pre @ enc_int v) suf)"
  by (simp add: get_float_def get_int_rd)

lemma get_double_rd [store_simps]: "length pre + 8 + length suf \<le> n \<Longrightarrow>
    get_double (rd n pre (enc_long v @ suf)) = Some (v, rd n (pre @ enc_long v) suf)"
  by (simp add: get_double_def get_long_rd)

text \<open>Only the first \<open>len\<close> bytes of the array count.\<close>

lemma put_binary_prefix:
  "length bs < 2 ^ 31 \<Longrightarrow>
     put_binary c (bs @ xs) (word_of_nat (length bs)) = put_binary c bs (word_of_nat (length bs))"
  by (simp add: put_binary_def sint_of_nat_small split: Option.bind_splits)

text \<open>\<open>T x; get_binary(buff, &offset, (char* )&x)\<close> and
  \<open>put_binary(buff, &offset, (const char* )&x, sizeof(x))\<close>: structures travel as their bytes.\<close>

definition get_struct :: "c_char list \<Rightarrow> cursor \<Rightarrow> (c_char list \<times> cursor) option" where
  "get_struct x c = do { (_, bs, c) \<leftarrow> get_binary x c; Some (bs, c) }"

definition put_struct :: "cursor \<Rightarrow> c_char list \<Rightarrow> cursor option" where
  "put_struct c x = put_binary c x (word_of_nat (length x))"

lemma put_struct_rd [store_simps]: "binary_ok x \<Longrightarrow> put_struct (rd n pre []) x =
    (if length pre + length x + 4 \<le> n then Some (rd n (pre @ enc_binary x) []) else None)"
  by (simp add: put_struct_def put_binary_rd)

lemma get_struct_rd [store_simps]:
  assumes "length x \<le> length y" "length pre + length x + 4 + length suf \<le> n" "n < 2 ^ 31"
  shows "get_struct y (rd n pre (enc_binary x @ suf)) =
    Some (x @ drop (length x) y, rd n (pre @ enc_binary x) suf)"
  using assms by (simp add: get_struct_def get_binary_rd)

text \<open>The same at the end of the buffer's contents.\<close>

lemmas get_last_rd [store_simps] =
  get_short_rd [where suf = "[]", simplified] get_int_rd [where suf = "[]", simplified]
  get_long_rd [where suf = "[]", simplified] get_float_rd [where suf = "[]", simplified]
  get_double_rd [where suf = "[]", simplified] get_str_rd [where suf = "[]", simplified]
  get_binary_rd [where suf = "[]", simplified] get_struct_rd [where suf = "[]", simplified]

section \<open>The coder interface\<close>

text \<open>
  What a client of a pair of coder functions relies on: writing appends the encoding when it
  fits and is out of bounds otherwise; reading a buffer that holds the encoding at the
  offset returns the value and moves past it.
\<close>

locale codec =
  fixes enc :: "'v \<Rightarrow> c_char list"
    and put :: "cursor \<Rightarrow> 'v \<Rightarrow> cursor option"
    and get :: "cursor \<Rightarrow> ('v \<times> cursor) option"
    and ok :: "'v \<Rightarrow> bool"
  assumes put_rd: "ok v \<Longrightarrow> put (rd n bs []) v =
      (if length bs + length (enc v) \<le> n then Some (rd n (bs @ enc v) []) else None)"
    and get_rd: "ok v \<Longrightarrow> n < 2 ^ 31 \<Longrightarrow> length pre + length (enc v) + length suf \<le> n \<Longrightarrow>
      get (rd n pre (enc v @ suf)) = Some (v, rd n (pre @ enc v) suf)"
begin

lemma put_sent:
  assumes "ok v" "put (rd n bs []) v = Some c"
  shows "sent c = bs @ enc v" and "length bs + length (enc v) \<le> n"
  using assms by (auto simp: put_rd sent_rd split: if_splits)

lemma put_fails_iff: "ok v \<Longrightarrow> (put (rd n bs []) v = None) = (n < length bs + length (enc v))"
  by (auto simp: put_rd)

lemma round_trip:
  assumes "ok v" "n < 2 ^ 31" "put (zero_buff n) v = Some c"
  shows "\<exists>c'. get (recv_buff n (sent c)) = Some (v, c')"
proof -
  have len: "length (enc v) \<le> n" and sent: "sent c = enc v"
    using assms put_sent [of v n "[]" c] by (auto simp: zero_buff_rd)
  then have "get (recv_buff n (sent c)) = Some (v, rd n (enc v) [])"
    using get_rd [OF assms(1,2), of "[]" "[]"] by (simp add: recv_buff_rd)
  then show ?thesis by blast
qed

lemma prefix_free:
  assumes "ok v" "ok w" "enc v @ s = enc w @ t" "length (enc v @ s) < 2 ^ 31"
  shows "v = w \<and> s = t"
proof -
  let ?n = "length (enc v @ s)"
  have "get (rd ?n [] (enc v @ s)) = Some (v, rd ?n (enc v) s)"
    using get_rd [OF assms(1,4), of "[]" s] by simp
  moreover have "get (rd ?n [] (enc w @ t)) = Some (w, rd ?n (enc w) t)"
    using get_rd [OF assms(2,4), of "[]" t] by (simp add: assms(3))
  ultimately have "v = w" using assms(3) by simp
  then show ?thesis using assms(3) by simp
qed

end

section \<open>The coder functions implement the interface\<close>

interpretation byte_codec: codec enc_byte put_byte get_byte "\<lambda>_. True"
  by unfold_locales (auto simp: enc_byte_def store_simps)

interpretation short_codec: codec enc_short put_short get_short "\<lambda>_. True"
  by unfold_locales (auto simp: store_simps)

interpretation int_codec: codec enc_int put_int get_int "\<lambda>_. True"
  by unfold_locales (auto simp: store_simps)

interpretation long_codec: codec enc_long put_long get_long "\<lambda>_. True"
  by unfold_locales (auto simp: store_simps)

interpretation float_codec: codec enc_int put_float get_float "\<lambda>_. True"
  by unfold_locales (auto simp: store_simps)

interpretation double_codec: codec enc_long put_double get_double "\<lambda>_. True"
  by unfold_locales (auto simp: store_simps)

text \<open>\<open>get_string\<close> with its pointer followed.\<close>

definition get_cstr :: "cursor \<Rightarrow> (c_string \<times> cursor) option" where
  "get_cstr c = do { (r, c) \<leftarrow> get_str c; s \<leftarrow> r; Some (s, c) }"

interpretation string_codec: codec enc_string put_string get_cstr string_ok
  by unfold_locales (simp_all add: get_cstr_def put_string_rd get_str_rd)

interpretation struct_codec: codec enc_binary put_struct "get_struct (replicate k 0)"
    "\<lambda>x. length x = k \<and> binary_ok x" for k
  by unfold_locales (auto simp: put_struct_rd get_struct_rd)

end
