(* ===== verification/Lbs_Utility.thy ===== *)
theory Lbs_Utility
  imports Data_Coder "HOL-Library.Signed_Division"
begin

text \<open>
  \<^verbatim>\<open>mtk/gps/mtk_mnld/utility/src/mtk_lbs_utility.c\<close>: the retry loops around
  \<open>recvfrom\<close> and \<open>sendto\<close>, the timer arithmetic, and the two text conversions of the
  network-initiated notifications. The kernel is a list of outcomes, one for each call a
  loop makes; when the list is exhausted the (non-blocking) socket keeps reporting
  \<open>EAGAIN\<close>.
\<close>

section \<open>Socket loops\<close>

datatype errno = EINTR | EAGAIN | EOTHER

datatype rx = RxData "c_char list" | RxErr errno

text \<open>\<open>recvfrom(fd, buff, len, ...)\<close> cuts a datagram at \<open>len\<close> bytes.\<close>

fun recv_loop :: "nat \<Rightarrow> int \<Rightarrow> rx list \<Rightarrow> int \<times> c_char list \<times> rx list" where
  "recv_loop len retry [] = (- 1, [], [])"
| "recv_loop len retry (RxData d # rs) = (int (length (take len d)), take len d, rs)"
| "recv_loop len retry (RxErr EINTR # rs) = recv_loop len retry rs"
| "recv_loop len retry (RxErr EAGAIN # rs) =
     (if 0 < retry then recv_loop len (retry - 1) rs else (- 1, [], rs))"
| "recv_loop len retry (RxErr EOTHER # rs) = (- 1, [], rs)"

definition safe_recvfrom :: "nat \<Rightarrow> rx list \<Rightarrow> int \<times> c_char list \<times> rx list" where
  "safe_recvfrom len rs = recv_loop len 10 rs"

datatype tx = TxOk | TxErr errno

text \<open>The result is what \<open>sendto\<close> returned, and the rest of the outcomes.\<close>

fun send_loop :: "nat \<Rightarrow> int \<Rightarrow> tx list \<Rightarrow> int \<times> tx list" where
  "send_loop len retry [] = (- 1, [])"
| "send_loop len retry (TxOk # ts) = (int len, ts)"
| "send_loop len retry (TxErr EINTR # ts) = send_loop len retry ts"
| "send_loop len retry (TxErr EAGAIN # ts) =
     (if 0 < retry then send_loop len (retry - 1) ts else (- 1, ts))"
| "send_loop len retry (TxErr EOTHER # ts) = (- 1, ts)"

text \<open>\<open>safe_sendto(path, buff, len)\<close>; the first flag says whether \<open>socket()\<close> gave a
  descriptor.\<close>

definition safe_sendto :: "bool \<Rightarrow> tx list \<Rightarrow> c_char list \<Rightarrow> int \<times> tx list" where
  "safe_sendto socket_ok ts d = (if socket_ok then send_loop (length d) 10 ts else (- 1, ts))"

fun transient_rx :: "rx \<Rightarrow> bool" where
  "transient_rx (RxErr EINTR) = True"
| "transient_rx (RxErr EAGAIN) = True"
| "transient_rx _ = False"

definition eagains :: "rx list \<Rightarrow> nat" where
  "eagains rs = length (filter (\<lambda>r. r = RxErr EAGAIN) rs)"

lemma eagains_simps [simp]:
  "eagains [] = 0" "eagains (RxErr EAGAIN # rs) = Suc (eagains rs)"
  "eagains (RxErr EINTR # rs) = eagains rs"
  by (simp_all add: eagains_def)

lemma recv_loop_delivers:
  "\<forall>r\<in>set es. transient_rx r \<Longrightarrow> int (eagains es) \<le> retry \<Longrightarrow>
   recv_loop len retry (es @ RxData d # rs) = (int (length (take len d)), take len d, rs)"
proof (induction es arbitrary: retry)
  case (Cons e es)
  then show ?case
    by (cases e rule: transient_rx.cases) auto
qed simp

lemma recv_loop_gives_up:
  "\<forall>r\<in>set es. transient_rx r \<Longrightarrow> retry < int (eagains es) \<Longrightarrow> 0 \<le> retry \<Longrightarrow>
   fst (recv_loop len retry (es @ rs)) = - 1"
proof (induction es arbitrary: retry)
  case (Cons e es)
  then show ?case
    by (cases e rule: transient_rx.cases) auto
qed simp

lemma recv_loop_length:
  "recv_loop len retry rs = (n, d, rs') \<Longrightarrow> 0 \<le> n \<Longrightarrow> n = int (length d) \<and> length d \<le> len"
  by (induction len retry rs rule: recv_loop.induct) (auto split: if_splits)

section \<open>Timers\<close>

text \<open>\<open>start_timer\<close>: the one-shot \<open>it_value\<close> as seconds and nanoseconds; C division
  truncates.\<close>

definition start_timer :: "int \<Rightarrow> int \<times> int" where
  "start_timer milliseconds = (milliseconds sdiv 1000, (milliseconds smod 1000) * 1000000)"

definition stop_timer :: "int \<times> int" where
  "stop_timer = start_timer 0"

lemma start_timer_nonneg:
  assumes "0 \<le> ms"
  shows "start_timer ms = (ms div 1000, (ms mod 1000) * 1000000)"
  using assms by (simp add: start_timer_def signed_divide_int_def signed_modulo_int_def sgn_if minus_mult_div_eq_mod)

section \<open>Text conversions\<close>

text \<open>A store \<open>out[i] = b\<close> into a C array with the contents \<open>out\<close>.\<close>

definition write_at :: "c_char list \<Rightarrow> nat \<Rightarrow> c_char \<Rightarrow> c_char list option" where
  "write_at out i b = (if i < length out then Some (out[i := b]) else None)"

fun ucs2_loop :: "c_char list \<Rightarrow> nat \<Rightarrow> c_char list \<Rightarrow> (nat \<times> c_char list) option" where
  "ucs2_loop out len [] = Some (len, out)"
| "ucs2_loop out len (b # bs) =
     (if b = 0 then Some (len, out)
      else do {
        out \<leftarrow> write_at out len 0;
        out \<leftarrow> write_at out (len + 1) b;
        ucs2_loop out (len + 2) bs
      })"

text \<open>A \<open>NULL\<close> input is dereferenced, which is undefined.\<close>

definition asc_str_to_usc2_str :: "c_char list \<Rightarrow> c_string \<Rightarrow> (nat \<times> c_char list) option" where
  "asc_str_to_usc2_str output input = do {
     s \<leftarrow> input;
     output \<leftarrow> write_at output 0 0xfe;
     output \<leftarrow> write_at output 1 0xff;
     (len, output) \<leftarrow> ucs2_loop output 2 s;
     output \<leftarrow> write_at output len 0;
     output \<leftarrow> write_at output (len + 1) 0;
     Some (len, output)
   }"

definition hex_digit :: "c_int \<Rightarrow> c_char" where
  "hex_digit tmp =
     (if 0 \<le> sint tmp \<and> sint tmp \<le> 9 then ucast (tmp + 0x30) else ucast ((tmp - 10) + 0x41))"

fun hex_loop :: "c_char list \<Rightarrow> nat \<Rightarrow> c_char list \<Rightarrow> c_char list option" where
  "hex_loop out i [] = write_at out (i * 2) 0"
| "hex_loop out i (b # bs) = do {
     out \<leftarrow> write_at out (i * 2) (hex_digit (signed_drop_bit 4 (ucast b :: c_int) AND 0xf));
     out \<leftarrow> write_at out (i * 2 + 1) (hex_digit ((ucast b :: c_int) AND 0xf));
     hex_loop out (i + 1) bs
   }"

definition raw_data_to_hex_string :: "c_char list \<Rightarrow> c_char list \<Rightarrow> nat \<Rightarrow> c_char list option" where
  "raw_data_to_hex_string output input input_len =
     (if input_len \<le> length input then hex_loop output 0 (take input_len input) else None)"

section \<open>What the conversions compute\<close>

text \<open>UCS-2 in big-endian order, one unit per ASCII byte; and upper-case hexadecimal with its
  inverse.\<close>

definition ucs2 :: "c_char list \<Rightarrow> c_char list" where
  "ucs2 s = concat (map (\<lambda>b. [0, b]) s)"

lemma length_ucs2 [simp]: "length (ucs2 s) = 2 * length s"
  by (induction s) (simp_all add: ucs2_def)

lemma write_at_here: "write_at (pre @ r # rest) (length pre) b = Some ((pre @ [b]) @ rest)"
  by (simp add: write_at_def)

lemma write_at_end: "write_at pre (length pre) b = None"
  by (simp add: write_at_def)

lemma ucs2_loop_spec:
  "0 \<notin> set s \<Longrightarrow> ucs2_loop (pre @ rest) (length pre) s =
    (if 2 * length s \<le> length rest
     then Some (length pre + 2 * length s, pre @ ucs2 s @ drop (2 * length s) rest) else None)"
proof (induction s arbitrary: pre rest)
  case Nil
  then show ?case by (simp add: ucs2_def)
next
  case (Cons b s)
  show ?case
  proof (cases "2 \<le> length rest")
    case False
    then consider "rest = []" | r where "rest = [r]"
      by (cases rest; cases "tl rest") auto
    then show ?thesis
      using Cons.prems by cases (auto simp: write_at_def)
  next
    case True
    then obtain r1 r2 rest' where rest: "rest = r1 # r2 # rest'"
      by (cases rest; cases "tl rest") auto
    have w1: "write_at (pre @ rest) (length pre) 0 = Some ((pre @ [0]) @ r2 # rest')"
      by (simp only: rest write_at_here)
    have w2: "write_at ((pre @ [0]) @ r2 # rest') (length pre + 1) b = Some ((pre @ [0, b]) @ rest')"
      using write_at_here [of "pre @ [0]" r2 rest' b] by simp
    have "ucs2_loop (pre @ rest) (length pre) (b # s) = ucs2_loop ((pre @ [0, b]) @ rest') (length (pre @ [0, b])) s"
      using Cons.prems w1 w2 by simp
    also have "\<dots> = (if 2 * length (b # s) \<le> length rest
     then Some (length pre + 2 * length (b # s), pre @ ucs2 (b # s) @ drop (2 * length (b # s)) rest) else None)"
      using Cons.prems by (subst Cons.IH) (auto simp: rest ucs2_def)
    finally show ?thesis .
  qed
qed

lemma asc_str_to_usc2_str_spec:
  assumes "0 \<notin> set s"
  shows "asc_str_to_usc2_str out (Some s) =
    (if 2 * length s + 4 \<le> length out
     then Some (2 * length s + 2, [0xfe, 0xff] @ ucs2 s @ [0, 0] @ drop (2 * length s + 4) out)
     else None)"
proof (cases "2 \<le> length out")
  case False
  then show ?thesis by (cases out; cases "tl out") (auto simp: asc_str_to_usc2_str_def write_at_def)
next
  case True
  then obtain r1 r2 rest where out_eq: "out = r1 # r2 # rest"
    by (cases out; cases "tl out") auto
  let ?n = "2 * length s"
  have len2: "length [0xfe :: c_char, 0xff] = 2" by simp
  have loop: "ucs2_loop (0xfe # 0xff # rest) 2 s =
     (if ?n \<le> length rest then Some (2 + ?n, [0xfe, 0xff] @ ucs2 s @ drop ?n rest) else None)"
    using ucs2_loop_spec [OF assms, of "[0xfe, 0xff]" rest] unfolding len2 by simp
  let ?pre = "[0xfe, 0xff] @ ucs2 s"
  show ?thesis
  proof (cases "?n + 2 \<le> length rest")
    case True
    then obtain a b r where r: "drop ?n rest = a # b # r"
      by (cases "drop ?n rest"; cases "tl (drop ?n rest)") (auto dest: arg_cong [where f = length])
    then have r': "drop (?n + 2) rest = r"
      by (metis add.commute drop_drop drop0 drop_Suc_Cons numeral_2_eq_2)
    have r'': "drop (?n + 4) (r1 # r2 # rest) = r"
      using r' by (simp add: eval_nat_numeral)
    have w1: "write_at (?pre @ a # b # r) (2 + ?n) 0 = Some ((?pre @ [0]) @ b # r)"
      using write_at_here [of ?pre a "b # r" 0] by simp
    have w2: "write_at ((?pre @ [0]) @ b # r) (2 + ?n + 1) 0 = Some ((?pre @ [0, 0]) @ r)"
      using write_at_here [of "?pre @ [0]" b r 0] by simp
    show ?thesis
      using True loop w1 w2 r r'' by (simp add: out_eq asc_str_to_usc2_str_def write_at_def [of _ 0] write_at_def [of _ "Suc 0"])
  next
    case False
    then show ?thesis
      using loop by (auto simp: out_eq asc_str_to_usc2_str_def write_at_def)
  qed
qed

definition hex_char :: "nat \<Rightarrow> c_char" where
  "hex_char n = (if n \<le> 9 then word_of_nat (48 + n) else word_of_nat (55 + n))"

definition hex_string :: "c_char list \<Rightarrow> c_char list" where
  "hex_string bs = concat (map (\<lambda>b. [hex_char (unat b div 16), hex_char (unat b mod 16)]) bs)"

lemma length_hex_string [simp]: "length (hex_string bs) = 2 * length bs"
  by (induction bs) (simp_all add: hex_string_def)

lemma nibble_cases: "n < (16 :: nat) \<Longrightarrow> n \<in> {0,1,2,3,4,5,6,7,8,9,10,11,12,13,14,15}"
  by (simp, presburger)

lemma hex_digit_nat: "n < 16 \<Longrightarrow> hex_digit (word_of_nat n) = hex_char n"
  by (drule nibble_cases) (auto simp: hex_digit_def hex_char_def)

lemma unat_char_lt: "unat (b :: c_char) < 256"
  using unsigned_less [of b] by simp

lemma word_of_unat: "unat w = n \<Longrightarrow> w = word_of_nat n"
  by auto

lemma mask4: "(0xf :: c_int) = mask 4"
  by (simp add: mask_eq_exp_minus_1)

lemma high_nibble: "signed_drop_bit 4 (ucast (b :: c_char) :: c_int) AND 0xf = word_of_nat (unat b div 16)"
proof -
  have "signed_drop_bit 4 (ucast b :: c_int) AND mask 4 = ucast (drop_bit 4 b)"
    by (rule bit_word_eqI) (auto simp: bit_simps dest: bit_imp_le_length)
  moreover have "unat (ucast (drop_bit 4 b) :: c_int) = unat b div 16"
    using unat_char_lt [of b]
    by (simp add: unsigned_ucast_eq drop_bit_eq_div unat_div_distrib take_bit_nat_eq_self)
  ultimately show ?thesis
    by (metis (no_types) mask4 word_of_unat)
qed

lemma low_nibble: "(ucast (b :: c_char) :: c_int) AND 0xf = word_of_nat (unat b mod 16)"
proof -
  have "(ucast b :: c_int) AND mask 4 = ucast (take_bit 4 b)"
    by (rule bit_word_eqI) (auto simp: bit_simps dest: bit_imp_le_length)
  moreover have "unat (ucast (take_bit 4 b) :: c_int) = unat b mod 16"
    by (simp add: unsigned_ucast_eq take_bit_eq_mod unat_mod_distrib)
  ultimately show ?thesis
    by (metis (no_types) mask4 word_of_unat)
qed

lemma hex_pair:
  "hex_digit (signed_drop_bit 4 (ucast (b :: c_char) :: c_int) AND 0xf) = hex_char (unat b div 16)"
  "hex_digit ((ucast (b :: c_char) :: c_int) AND 0xf) = hex_char (unat b mod 16)"
  using unat_char_lt [of b] by (simp_all only: high_nibble low_nibble, simp_all add: hex_digit_nat)

definition unhex_char :: "c_char \<Rightarrow> nat" where
  "unhex_char c = (if unat c \<le> 57 then unat c - 48 else unat c - 55)"

lemma unhex_hex_char: "n < 16 \<Longrightarrow> unhex_char (hex_char n) = n"
  by (drule nibble_cases) (auto simp: unhex_char_def hex_char_def)

fun unhex :: "c_char list \<Rightarrow> c_char list" where
  "unhex (h # l # cs) = word_of_nat (16 * unhex_char h + unhex_char l) # unhex cs"
| "unhex _ = []"

lemma unhex_hex_string: "unhex (hex_string bs) = bs"
proof (induction bs)
  case (Cons b bs)
  have "unat b div 16 < 16" "unat b mod 16 < 16" using unat_char_lt [of b] by simp_all
  then have "16 * unhex_char (hex_char (unat b div 16)) + unhex_char (hex_char (unat b mod 16)) = unat b"
    by (simp add: unhex_hex_char)
  with Cons show ?case by (simp add: hex_string_def del: of_nat_add of_nat_mult)
qed (simp add: hex_string_def)

lemma hex_loop_spec:
  "hex_loop (pre @ rest) i bs = (if 2 * length bs + 1 \<le> length rest
     then Some (pre @ hex_string bs @ 0 # drop (2 * length bs + 1) rest) else None)"
  if "length pre = 2 * i"
  using that
proof (induction bs arbitrary: pre rest i)
  case Nil
  then show ?case by (cases rest) (auto simp: write_at_def hex_string_def list_update_append)
next
  case (Cons b bs)
  show ?case
  proof (cases "2 \<le> length rest")
    case False
    then consider "rest = []" | r where "rest = [r]"
      by (cases rest; cases "tl rest") auto
    then show ?thesis
      using Cons.prems by cases (auto simp: write_at_def)
  next
    case True
    then obtain r1 r2 rest' where rest: "rest = r1 # r2 # rest'"
      by (cases rest; cases "tl rest") auto
    let ?h = "hex_char (unat b div 16)" and ?l = "hex_char (unat b mod 16)"
    have w1: "write_at (pre @ rest) (i * 2) ?h = Some ((pre @ [?h]) @ r2 # rest')"
      using write_at_here [of pre r1 "r2 # rest'" ?h] Cons.prems by (simp add: rest mult.commute)
    have w2: "write_at ((pre @ [?h]) @ r2 # rest') (i * 2 + 1) ?l = Some ((pre @ [?h, ?l]) @ rest')"
      using write_at_here [of "pre @ [?h]" r2 rest' ?l] Cons.prems by (simp add: mult.commute)
    have "hex_loop (pre @ rest) i (b # bs) = hex_loop ((pre @ [?h, ?l]) @ rest') (i + 1) bs"
      using w1 w2 by (simp add: hex_pair)
    also have "\<dots> = (if 2 * length (b # bs) + 1 \<le> length rest
     then Some (pre @ hex_string (b # bs) @ 0 # drop (2 * length (b # bs) + 1) rest) else None)"
      using Cons.prems by (subst Cons.IH) (auto simp: rest hex_string_def)
    finally show ?thesis .
  qed
qed

lemma raw_data_to_hex_string_spec:
  assumes "input_len \<le> length input"
  shows "raw_data_to_hex_string out input input_len =
    (if 2 * input_len + 1 \<le> length out
     then Some (hex_string (take input_len input) @ 0 # drop (2 * input_len + 1) out) else None)"
  using hex_loop_spec [of "[]" 0 out "take input_len input"] assms
  by (simp add: raw_data_to_hex_string_def min_absorb2)

section \<open>Channels\<close>

text \<open>The datagram sockets of the system.\<close>

datatype dest = MTK_HAL2MNL | MTK_MNL2HAL | AGPS_TO_MNL | MNL_TO_AGPS | MNLD_MAIN_SOCKET
  | MNLD_GPS_CONTROL_SOCKET | MNLD_EPO_DOWNLOAD_SOCKET | MNLD_QEPO_DOWNLOAD_SOCKET
  | WIFI_2_AGPS | AGPS_2_WIFI

text \<open>
  A thread that waits on a socket calls the handler once for every readable event;
  \<open>serve\<close> is \<open>n\<close> such calls, \<open>calls\<close> the procedure calls they stand for.
\<close>

fun serve :: "(rx list \<Rightarrow> 's \<Rightarrow> ('r \<times> 's \<times> rx list) option) \<Rightarrow> nat \<Rightarrow> rx list \<Rightarrow> 's \<Rightarrow> ('s \<times> rx list) option" where
  "serve hdlr 0 rs s = Some (s, rs)"
| "serve hdlr (Suc n) rs s = do { (_, s, rs) \<leftarrow> hdlr rs s; serve hdlr n rs s }"

fun calls :: "('m \<Rightarrow> 's \<Rightarrow> ('r \<times> 's) option) \<Rightarrow> 'm list \<Rightarrow> 's \<Rightarrow> 's option" where
  "calls call [] s = Some s"
| "calls call (m # ms) s = do { (_, s) \<leftarrow> call m s; calls call ms s }"

locale channel =
  fixes send :: "'m \<Rightarrow> c_char list option"
    and hdlr :: "rx list \<Rightarrow> 's \<Rightarrow> ('r \<times> 's \<times> rx list) option"
    and call :: "'m \<Rightarrow> 's \<Rightarrow> ('r \<times> 's) option"
    and ok :: "'m \<Rightarrow> bool"
  assumes delivers: "ok m \<Longrightarrow> send m = Some d \<Longrightarrow>
      hdlr (RxData d # rs) s = map_option (\<lambda>(r, s). (r, s, rs)) (call m s)"
begin

lemma serve_calls:
  "\<forall>m\<in>set ms. ok m \<Longrightarrow> map send ms = map Some ds \<Longrightarrow>
   serve hdlr (length ms) (map RxData ds @ rs) s = map_option (\<lambda>s. (s, rs)) (calls call ms s)"
proof (induction ms arbitrary: ds s)
  case (Cons m ms)
  then obtain d ds' where ds: "ds = d # ds'" and d: "send m = Some d" and tl: "map send ms = map Some ds'"
    by (cases ds) auto
  have step: "hdlr (RxData d # map RxData ds' @ rs) s =
      map_option (\<lambda>(r, s). (r, s, map RxData ds' @ rs)) (call m s)"
    using Cons.prems d by (intro delivers) auto
  show ?case
    using Cons.prems Cons.IH [OF _ tl] step by (cases "call m s") (auto simp: ds)
qed simp

lemma one_datagram_one_call:
  assumes "ok m" "send m = Some d" "call m s = Some (r, s')"
  shows "serve hdlr 1 [RxData d] s = Some (s', [])"
  using serve_calls [of "[m]" "[d]" "[]" s] assms by simp

end

end
