(* ===== verification/C_Float.thy ===== *)
theory C_Float
  imports Prelude "HOL-Library.Log_Nat" Complex_Main
begin

text \<open>
  Binary floating point as rounded rationals: the value of a \<open>float\<close> (24-bit significand)
  or \<open>double\<close> (53 bits) expression is the exact rational result rounded to nearest, ties
  to even. Overflow to infinity, NaN and the subnormal range are outside this reading; the
  code evaluates such expressions only on integers, intervals and coordinates far inside the
  normal range.
\<close>

definition round_even :: "rat \<Rightarrow> int" where
  "round_even x =
     (let f = \<lfloor>x\<rfloor>; r = x - of_int f
      in if r < 1 / 2 then f else if 1 / 2 < r then f + 1 else if even f then f else f + 1)"

text \<open>The exponent of the leading bit of a positive rational.\<close>

definition rat_log2 :: "rat \<Rightarrow> int" where
  "rat_log2 x =
     (let (p, q) = quotient_of x;
          e = int (floorlog 2 (nat p)) - int (floorlog 2 (nat q))
      in if 2 powi e \<le> x then e else e - 1)"

definition fl :: "nat \<Rightarrow> rat \<Rightarrow> rat" where
  "fl p x =
     (if x = 0 then 0
      else let e = rat_log2 \<bar>x\<bar> - (int p - 1)
           in of_int (round_even (x / 2 powi e)) * 2 powi e)"

abbreviation fl32 :: "rat \<Rightarrow> rat" where "fl32 \<equiv> fl 24"
abbreviation fl64 :: "rat \<Rightarrow> rat" where "fl64 \<equiv> fl 53"

lemma round_even_of_int [simp]: "round_even (of_int i) = i"
  by (simp add: round_even_def)

lemma quotient_of_of_nat: "quotient_of (of_nat n) = (int n, 1)"
  using quotient_of_int [of "int n"] by (simp add: Rat.of_int_def)

lemma rat_log2_of_nat:
  assumes "0 < n"
  shows "rat_log2 (of_nat n) = int (floorlog 2 n) - 1"
proof -
  have b: "2 ^ (floorlog 2 n - 1) \<le> n" "n < 2 ^ floorlog 2 n" and pos: "0 < floorlog 2 n"
    using floorlog_bounds [OF assms, of 2] assms by (auto simp: floorlog_def)
  have "floorlog 2 (nat 1) = 1" by (simp add: floorlog_def)
  moreover have "2 powi (int (floorlog 2 n) - 1) \<le> (of_nat n :: rat)"
  proof -
    have "int (floorlog 2 n) - 1 = int (floorlog 2 n - 1)" using pos by simp
    then have "(2 :: rat) powi (int (floorlog 2 n) - 1) = of_nat (2 ^ (floorlog 2 n - 1))"
      by (simp only: power_int_of_nat) simp
    also have "\<dots> \<le> of_nat n" using b by (simp only: of_nat_le_iff)
    finally show ?thesis .
  qed
  ultimately show ?thesis
    by (simp add: rat_log2_def quotient_of_of_nat)
qed

text \<open>Integers below 2 to the precision are exact.\<close>

lemma fl_of_nat:
  assumes "n < 2 ^ p"
  shows "fl p (of_nat n) = of_nat n"
proof (cases "n = 0")
  case True
  then show ?thesis by (simp add: fl_def)
next
  case False
  then have pos: "0 < n" by simp
  have "floorlog 2 n \<le> p"
    using assms by (simp add: floorlog_leD floorlog_le_iff)
  then obtain k where k: "p = floorlog 2 n + k" by (auto simp: le_iff_add)
  define e where "e = rat_log2 (of_nat n) - (int p - 1)"
  have e: "e = - int k" by (simp add: e_def rat_log2_of_nat [OF pos] k)
  have div: "(of_nat n :: rat) / 2 powi e = of_int (int n * 2 ^ k)"
    by (simp add: e power_int_minus divide_inverse)
  have "fl p (of_nat n) = of_int (round_even (of_nat n / 2 powi e)) * 2 powi e"
    using pos by (simp add: fl_def e_def Let_def)
  also have "\<dots> = of_nat n"
    unfolding div round_even_of_int by (simp add: e power_int_minus)
  finally show ?thesis .
qed

text \<open>
  The conversion of a \<open>float\<close>, given by its bits, to \<open>int\<close>: truncation toward zero, with
  undefined behaviour for NaN, infinities and values that do not fit.
\<close>

definition float_to_int :: "c_float \<Rightarrow> c_int option" where
  "float_to_int w =
     (let e = uint (take_bit 8 (drop_bit 23 w));
          m = uint (take_bit 23 w) + 2 ^ 23;
          v = (if e < 127 then 0
               else if e < 150 then m div 2 ^ nat (150 - e) else m * 2 ^ nat (e - 150));
          x = (if bit w 31 then - v else v)
      in if e < 255 \<and> - (2 ^ 31) \<le> x \<and> x < 2 ^ 31 then Some (word_of_int x) else None)"

end
