(* ===== verification/Hal2Mnl.thy ===== *)
theory Hal2Mnl
  imports Lbs_Utility C_Float
begin

text \<open>
  GPS HAL to daemon: the senders of \<^verbatim>\<open>mtk/gps/gps_hal/src/hal2mnl_interface.c\<close> and the
  receiver \<open>hal2mnl_hdlr\<close> of \<^verbatim>\<open>mtk/gps/mtk_mnld/mnld_entity/src/mnl2hal_interface.c\<close>.
  A sender yields the socket and the datagram it hands to \<open>safe_sendto\<close>, or \<open>None\<close> when
  it writes outside its buffer. The receiver takes the outcomes of \<open>recvfrom\<close>, the table
  of function pointers (a null pointer is \<open>None\<close>) and the state the callbacks act on.
\<close>

abbreviation HAL_MNL_BUFF_SIZE :: nat where "HAL_MNL_BUFF_SIZE \<equiv> 16384"
abbreviation HAL_MNL_INTERFACE_VERSION :: c_int where "HAL_MNL_INTERFACE_VERSION \<equiv> 1"

abbreviation HAL2MNL_HAL_REBOOT :: c_int where "HAL2MNL_HAL_REBOOT \<equiv> 0"
abbreviation HAL2MNL_GPS_INIT :: c_int where "HAL2MNL_GPS_INIT \<equiv> 101"
abbreviation HAL2MNL_GPS_START :: c_int where "HAL2MNL_GPS_START \<equiv> 102"
abbreviation HAL2MNL_GPS_STOP :: c_int where "HAL2MNL_GPS_STOP \<equiv> 103"
abbreviation HAL2MNL_GPS_CLEANUP :: c_int where "HAL2MNL_GPS_CLEANUP \<equiv> 104"
abbreviation HAL2MNL_GPS_INJECT_TIME :: c_int where "HAL2MNL_GPS_INJECT_TIME \<equiv> 105"
abbreviation HAL2MNL_GPS_INJECT_LOCATION :: c_int where "HAL2MNL_GPS_INJECT_LOCATION \<equiv> 106"
abbreviation HAL2MNL_GPS_DELETE_AIDING_DATA :: c_int where "HAL2MNL_GPS_DELETE_AIDING_DATA \<equiv> 107"
abbreviation HAL2MNL_GPS_SET_POSITION_MODE :: c_int where "HAL2MNL_GPS_SET_POSITION_MODE \<equiv> 108"
abbreviation HAL2MNL_DATA_CONN_OPEN :: c_int where "HAL2MNL_DATA_CONN_OPEN \<equiv> 201"
abbreviation HAL2MNL_DATA_CONN_OPEN_WITH_APN_IP_TYPE :: c_int where "HAL2MNL_DATA_CONN_OPEN_WITH_APN_IP_TYPE \<equiv> 202"
abbreviation HAL2MNL_DATA_CONN_CLOSED :: c_int where "HAL2MNL_DATA_CONN_CLOSED \<equiv> 203"
abbreviation HAL2MNL_DATA_CONN_FAILED :: c_int where "HAL2MNL_DATA_CONN_FAILED \<equiv> 204"
abbreviation HAL2MNL_SET_SERVER :: c_int where "HAL2MNL_SET_SERVER \<equiv> 301"
abbreviation HAL2MNL_SET_REF_LOCATION :: c_int where "HAL2MNL_SET_REF_LOCATION \<equiv> 302"
abbreviation HAL2MNL_SET_ID :: c_int where "HAL2MNL_SET_ID \<equiv> 303"
abbreviation HAL2MNL_NI_MESSAGE :: c_int where "HAL2MNL_NI_MESSAGE \<equiv> 401"
abbreviation HAL2MNL_NI_RESPOND :: c_int where "HAL2MNL_NI_RESPOND \<equiv> 402"
abbreviation HAL2MNL_UPDATE_NETWORK_STATE :: c_int where "HAL2MNL_UPDATE_NETWORK_STATE \<equiv> 501"
abbreviation HAL2MNL_UPDATE_NETWORK_AVAILABILITY :: c_int where "HAL2MNL_UPDATE_NETWORK_AVAILABILITY \<equiv> 502"
abbreviation HAL2MNL_GPS_MEASUREMENT :: c_int where "HAL2MNL_GPS_MEASUREMENT \<equiv> 601"
abbreviation HAL2MNL_GPS_NAVIGATION :: c_int where "HAL2MNL_GPS_NAVIGATION \<equiv> 602"

section \<open>Senders\<close>

definition hal2mnl_hal_reboot :: "(dest \<times> c_char list) option" where
  "hal2mnl_hal_reboot = do {
     c \<leftarrow> put_int (zero_buff HAL_MNL_BUFF_SIZE) HAL_MNL_INTERFACE_VERSION;
     c \<leftarrow> put_int c HAL2MNL_HAL_REBOOT;
     Some (MTK_HAL2MNL, sent c)
   }"

definition hal2mnl_gps_init :: "(dest \<times> c_char list) option" where
  "hal2mnl_gps_init = do {
     c \<leftarrow> put_int (zero_buff HAL_MNL_BUFF_SIZE) HAL_MNL_INTERFACE_VERSION;
     c \<leftarrow> put_int c HAL2MNL_GPS_INIT;
     Some (MTK_HAL2MNL, sent c)
   }"

definition hal2mnl_gps_start :: "(dest \<times> c_char list) option" where
  "hal2mnl_gps_start = do {
     c \<leftarrow> put_int (zero_buff HAL_MNL_BUFF_SIZE) HAL_MNL_INTERFACE_VERSION;
     c \<leftarrow> put_int c HAL2MNL_GPS_START;
     Some (MTK_HAL2MNL, sent c)
   }"

definition hal2mnl_gps_stop :: "(dest \<times> c_char list) option" where
  "hal2mnl_gps_stop = do {
     c \<leftarrow> put_int (zero_buff HAL_MNL_BUFF_SIZE) HAL_MNL_INTERFACE_VERSION;
     c \<leftarrow> put_int c HAL2MNL_GPS_STOP;
     Some (MTK_HAL2MNL, sent c)
   }"

definition hal2mnl_gps_cleanup :: "(dest \<times> c_char list) option" where
  "hal2mnl_gps_cleanup = do {
     c \<leftarrow> put_int (zero_buff HAL_MNL_BUFF_SIZE) HAL_MNL_INTERFACE_VERSION;
     c \<leftarrow> put_int c HAL2MNL_GPS_CLEANUP;
     Some (MTK_HAL2MNL, sent c)
   }"

definition hal2mnl_gps_inject_time :: "c_llong \<Rightarrow> c_llong \<Rightarrow> c_int \<Rightarrow> (dest \<times> c_char list) option" where
  "hal2mnl_gps_inject_time time time_reference uncertainty = do {
     c \<leftarrow> put_int (zero_buff HAL_MNL_BUFF_SIZE) HAL_MNL_INTERFACE_VERSION;
     c \<leftarrow> put_int c HAL2MNL_GPS_INJECT_TIME;
     c \<leftarrow> put_long c time;
     c \<leftarrow> put_long c time_reference;
     c \<leftarrow> put_int c uncertainty;
     Some (MTK_HAL2MNL, sent c)
   }"

definition hal2mnl_gps_inject_location :: "c_double \<Rightarrow> c_double \<Rightarrow> c_float \<Rightarrow> (dest \<times> c_char list) option" where
  "hal2mnl_gps_inject_location lat lng acc = do {
     c \<leftarrow> put_int (zero_buff HAL_MNL_BUFF_SIZE) HAL_MNL_INTERFACE_VERSION;
     c \<leftarrow> put_int c HAL2MNL_GPS_INJECT_LOCATION;
     c \<leftarrow> put_double c lat;
     c \<leftarrow> put_double c lng;
     c \<leftarrow> put_float c acc;
     Some (MTK_HAL2MNL, sent c)
   }"

definition hal2mnl_gps_delete_aiding_data :: "c_int \<Rightarrow> (dest \<times> c_char list) option" where
  "hal2mnl_gps_delete_aiding_data flags = do {
     c \<leftarrow> put_int (zero_buff HAL_MNL_BUFF_SIZE) HAL_MNL_INTERFACE_VERSION;
     c \<leftarrow> put_int c HAL2MNL_GPS_DELETE_AIDING_DATA;
     c \<leftarrow> put_int c flags;
     Some (MTK_HAL2MNL, sent c)
   }"

text \<open>\<open>report_time_interval\<close>, a static of the file that the receiver of the other
  direction reads.\<close>

definition report_interval :: "c_int \<Rightarrow> rat" where
  "report_interval min_interval =
     (if sint min_interval \<le> 1000 then 1 else fl32 (fl32 (of_int (sint min_interval)) / 1000))"

definition hal2mnl_gps_set_position_mode :: "c_int \<Rightarrow> c_int \<Rightarrow> c_int \<Rightarrow> c_int \<Rightarrow> c_int \<Rightarrow> (rat \<times> dest \<times> c_char list) option" where
  "hal2mnl_gps_set_position_mode mode recurrence min_interval preferred_acc preferred_time = do {
     c \<leftarrow> put_int (zero_buff HAL_MNL_BUFF_SIZE) HAL_MNL_INTERFACE_VERSION;
     c \<leftarrow> put_int c HAL2MNL_GPS_SET_POSITION_MODE;
     c \<leftarrow> put_int c mode;
     c \<leftarrow> put_int c recurrence;
     c \<leftarrow> put_int c min_interval;
     c \<leftarrow> put_int c preferred_acc;
     c \<leftarrow> put_int c preferred_time;
     Some (report_interval min_interval, MTK_HAL2MNL, sent c)
   }"

definition hal2mnl_data_conn_open :: "c_string \<Rightarrow> (dest \<times> c_char list) option" where
  "hal2mnl_data_conn_open apn = do {
     c \<leftarrow> put_int (zero_buff HAL_MNL_BUFF_SIZE) HAL_MNL_INTERFACE_VERSION;
     c \<leftarrow> put_int c HAL2MNL_DATA_CONN_OPEN;
     c \<leftarrow> put_string c apn;
     Some (MTK_HAL2MNL, sent c)
   }"

definition hal2mnl_data_conn_open_with_apn_ip_type :: "c_string \<Rightarrow> c_int \<Rightarrow> (dest \<times> c_char list) option" where
  "hal2mnl_data_conn_open_with_apn_ip_type apn ip_type = do {
     c \<leftarrow> put_int (zero_buff HAL_MNL_BUFF_SIZE) HAL_MNL_INTERFACE_VERSION;
     c \<leftarrow> put_int c HAL2MNL_DATA_CONN_OPEN_WITH_APN_IP_TYPE;
     c \<leftarrow> put_string c apn;
     c \<leftarrow> put_int c ip_type;
     Some (MTK_HAL2MNL, sent c)
   }"

definition hal2mnl_data_conn_closed :: "(dest \<times> c_char list) option" where
  "hal2mnl_data_conn_closed = do {
     c \<leftarrow> put_int (zero_buff HAL_MNL_BUFF_SIZE) HAL_MNL_INTERFACE_VERSION;
     c \<leftarrow> put_int c HAL2MNL_DATA_CONN_CLOSED;
     Some (MTK_HAL2MNL, sent c)
   }"

definition hal2mnl_data_conn_failed :: "(dest \<times> c_char list) option" where
  "hal2mnl_data_conn_failed = do {
     c \<leftarrow> put_int (zero_buff HAL_MNL_BUFF_SIZE) HAL_MNL_INTERFACE_VERSION;
     c \<leftarrow> put_int c HAL2MNL_DATA_CONN_FAILED;
     Some (MTK_HAL2MNL, sent c)
   }"

definition hal2mnl_set_server :: "c_int \<Rightarrow> c_string \<Rightarrow> c_int \<Rightarrow> (dest \<times> c_char list) option" where
  "hal2mnl_set_server type hostname port = do {
     c \<leftarrow> put_int (zero_buff HAL_MNL_BUFF_SIZE) HAL_MNL_INTERFACE_VERSION;
     c \<leftarrow> put_int c HAL2MNL_SET_SERVER;
     c \<leftarrow> put_int c type;
     c \<leftarrow> put_string c hostname;
     c \<leftarrow> put_int c port;
     Some (MTK_HAL2MNL, sent c)
   }"

definition hal2mnl_set_ref_location :: "c_int \<Rightarrow> c_int \<Rightarrow> c_int \<Rightarrow> c_int \<Rightarrow> c_int \<Rightarrow> (dest \<times> c_char list) option" where
  "hal2mnl_set_ref_location type mcc mnc lac cid = do {
     c \<leftarrow> put_int (zero_buff HAL_MNL_BUFF_SIZE) HAL_MNL_INTERFACE_VERSION;
     c \<leftarrow> put_int c HAL2MNL_SET_REF_LOCATION;
     c \<leftarrow> put_int c type;
     c \<leftarrow> put_int c mcc;
     c \<leftarrow> put_int c mnc;
     c \<leftarrow> put_int c lac;
     c \<leftarrow> put_int c cid;
     Some (MTK_HAL2MNL, sent c)
   }"

definition hal2mnl_set_id :: "c_int \<Rightarrow> c_string \<Rightarrow> (dest \<times> c_char list) option" where
  "hal2mnl_set_id type setid = do {
     c \<leftarrow> put_int (zero_buff HAL_MNL_BUFF_SIZE) HAL_MNL_INTERFACE_VERSION;
     c \<leftarrow> put_int c HAL2MNL_SET_ID;
     c \<leftarrow> put_int c type;
     c \<leftarrow> put_string c setid;
     Some (MTK_HAL2MNL, sent c)
   }"

definition hal2mnl_ni_message :: "c_char list \<Rightarrow> c_int \<Rightarrow> (dest \<times> c_char list) option" where
  "hal2mnl_ni_message msg len = do {
     c \<leftarrow> put_int (zero_buff HAL_MNL_BUFF_SIZE) HAL_MNL_INTERFACE_VERSION;
     c \<leftarrow> put_int c HAL2MNL_NI_MESSAGE;
     c \<leftarrow> put_binary c msg len;
     Some (MTK_HAL2MNL, sent c)
   }"

definition hal2mnl_ni_respond :: "c_int \<Rightarrow> c_int \<Rightarrow> (dest \<times> c_char list) option" where
  "hal2mnl_ni_respond notif_id user_response = do {
     c \<leftarrow> put_int (zero_buff HAL_MNL_BUFF_SIZE) HAL_MNL_INTERFACE_VERSION;
     c \<leftarrow> put_int c HAL2MNL_NI_RESPOND;
     c \<leftarrow> put_int c notif_id;
     c \<leftarrow> put_int c user_response;
     Some (MTK_HAL2MNL, sent c)
   }"

definition hal2mnl_update_network_state :: "c_int \<Rightarrow> c_int \<Rightarrow> c_int \<Rightarrow> c_string \<Rightarrow> (dest \<times> c_char list) option" where
  "hal2mnl_update_network_state conn type roaming extra_info = do {
     c \<leftarrow> put_int (zero_buff HAL_MNL_BUFF_SIZE) HAL_MNL_INTERFACE_VERSION;
     c \<leftarrow> put_int c HAL2MNL_UPDATE_NETWORK_STATE;
     c \<leftarrow> put_int c conn;
     c \<leftarrow> put_int c type;
     c \<leftarrow> put_int c roaming;
     c \<leftarrow> put_string c extra_info;
     Some (MTK_HAL2MNL, sent c)
   }"

definition hal2mnl_update_network_availability :: "c_int \<Rightarrow> c_string \<Rightarrow> (dest \<times> c_char list) option" where
  "hal2mnl_update_network_availability available apn = do {
     c \<leftarrow> put_int (zero_buff HAL_MNL_BUFF_SIZE) HAL_MNL_INTERFACE_VERSION;
     c \<leftarrow> put_int c HAL2MNL_UPDATE_NETWORK_AVAILABILITY;
     c \<leftarrow> put_int c available;
     c \<leftarrow> put_string c apn;
     Some (MTK_HAL2MNL, sent c)
   }"

definition hal2mnl_set_gps_measurement :: "bool \<Rightarrow> (dest \<times> c_char list) option" where
  "hal2mnl_set_gps_measurement enabled = do {
     c \<leftarrow> put_int (zero_buff HAL_MNL_BUFF_SIZE) HAL_MNL_INTERFACE_VERSION;
     c \<leftarrow> put_int c HAL2MNL_GPS_MEASUREMENT;
     c \<leftarrow> put_int c (c_bool enabled);
     Some (MTK_HAL2MNL, sent c)
   }"

definition hal2mnl_set_gps_navigation :: "bool \<Rightarrow> (dest \<times> c_char list) option" where
  "hal2mnl_set_gps_navigation enabled = do {
     c \<leftarrow> put_int (zero_buff HAL_MNL_BUFF_SIZE) HAL_MNL_INTERFACE_VERSION;
     c \<leftarrow> put_int c HAL2MNL_GPS_NAVIGATION;
     c \<leftarrow> put_int c (c_bool enabled);
     Some (MTK_HAL2MNL, sent c)
   }"

lemmas hal2mnl_senders [sender_defs] =
  hal2mnl_hal_reboot_def
  hal2mnl_gps_init_def
  hal2mnl_gps_start_def
  hal2mnl_gps_stop_def
  hal2mnl_gps_cleanup_def
  hal2mnl_gps_inject_time_def
  hal2mnl_gps_inject_location_def
  hal2mnl_gps_delete_aiding_data_def
  hal2mnl_gps_set_position_mode_def
  hal2mnl_data_conn_open_def
  hal2mnl_data_conn_open_with_apn_ip_type_def
  hal2mnl_data_conn_closed_def
  hal2mnl_data_conn_failed_def
  hal2mnl_set_server_def
  hal2mnl_set_ref_location_def
  hal2mnl_set_id_def
  hal2mnl_ni_message_def
  hal2mnl_ni_respond_def
  hal2mnl_update_network_state_def
  hal2mnl_update_network_availability_def
  hal2mnl_set_gps_measurement_def
  hal2mnl_set_gps_navigation_def

section \<open>The receiver\<close>

record 's hal2mnl_interface =
  hm_hal_reboot :: "('s \<Rightarrow> 's option) option"
  hm_gps_init :: "('s \<Rightarrow> 's option) option"
  hm_gps_start :: "('s \<Rightarrow> 's option) option"
  hm_gps_stop :: "('s \<Rightarrow> 's option) option"
  hm_gps_cleanup :: "('s \<Rightarrow> 's option) option"
  hm_gps_inject_time :: "(c_llong \<Rightarrow> c_llong \<Rightarrow> c_int \<Rightarrow> 's \<Rightarrow> 's option) option"
  hm_gps_inject_location :: "(c_double \<Rightarrow> c_double \<Rightarrow> c_float \<Rightarrow> 's \<Rightarrow> 's option) option"
  hm_gps_delete_aiding_data :: "(c_int \<Rightarrow> 's \<Rightarrow> 's option) option"
  hm_gps_set_position_mode :: "(c_int \<Rightarrow> c_int \<Rightarrow> c_int \<Rightarrow> c_int \<Rightarrow> c_int \<Rightarrow> 's \<Rightarrow> 's option) option"
  hm_data_conn_open :: "(c_string \<Rightarrow> 's \<Rightarrow> 's option) option"
  hm_data_conn_open_with_apn_ip_type :: "(c_string \<Rightarrow> c_int \<Rightarrow> 's \<Rightarrow> 's option) option"
  hm_data_conn_closed :: "('s \<Rightarrow> 's option) option"
  hm_data_conn_failed :: "('s \<Rightarrow> 's option) option"
  hm_set_server :: "(c_int \<Rightarrow> c_string \<Rightarrow> c_int \<Rightarrow> 's \<Rightarrow> 's option) option"
  hm_set_ref_location :: "(c_int \<Rightarrow> c_int \<Rightarrow> c_int \<Rightarrow> c_int \<Rightarrow> c_int \<Rightarrow> 's \<Rightarrow> 's option) option"
  hm_set_id :: "(c_int \<Rightarrow> c_string \<Rightarrow> 's \<Rightarrow> 's option) option"
  hm_ni_message :: "(c_char list \<Rightarrow> c_int \<Rightarrow> 's \<Rightarrow> 's option) option"
  hm_ni_respond :: "(c_int \<Rightarrow> c_int \<Rightarrow> 's \<Rightarrow> 's option) option"
  hm_update_network_state :: "(c_int \<Rightarrow> c_int \<Rightarrow> c_int \<Rightarrow> c_string \<Rightarrow> 's \<Rightarrow> 's option) option"
  hm_update_network_availability :: "(c_int \<Rightarrow> c_string \<Rightarrow> 's \<Rightarrow> 's option) option"
  hm_set_gps_measurement :: "(bool \<Rightarrow> 's \<Rightarrow> 's option) option"
  hm_set_gps_navigation :: "(bool \<Rightarrow> 's \<Rightarrow> 's option) option"

text \<open>A callback ran: the handler's result stays 0.\<close>

definition ret0 :: "'s option \<Rightarrow> (int \<times> 's) option" where
  "ret0 r = map_option (\<lambda>s. (0, s)) r"

text \<open>The \<open>switch\<close> over the command, in three parts that follow its order.\<close>

definition hal2mnl_hdlr_ni ::
  "c_int \<Rightarrow> cursor \<Rightarrow> 's hal2mnl_interface \<Rightarrow> 's \<Rightarrow> (int \<times> 's) option" where
  "hal2mnl_hdlr_ni cmd c hdlr s =
    (if cmd = HAL2MNL_NI_MESSAGE then
       (case hm_ni_message hdlr of
          Some f \<Rightarrow> do {
            (len, msg, c) \<leftarrow> get_binary (replicate 1024 0) c;
            ret0 (f msg len s)
          }
        | None \<Rightarrow> Some (- 1, s))
     else if cmd = HAL2MNL_NI_RESPOND then
       (case hm_ni_respond hdlr of
          Some f \<Rightarrow> do {
            (notif_id, c) \<leftarrow> get_int c;
            (user_response, c) \<leftarrow> get_int c;
            ret0 (f notif_id user_response s)
          }
        | None \<Rightarrow> Some (- 1, s))
     else if cmd = HAL2MNL_UPDATE_NETWORK_STATE then
       (case hm_update_network_state hdlr of
          Some f \<Rightarrow> do {
            (conn, c) \<leftarrow> get_int c;
            (type, c) \<leftarrow> get_int c;
            (roaming, c) \<leftarrow> get_int c;
            (extra_info, c) \<leftarrow> get_str c;
            extra_info \<leftarrow> extra_info;
            ret0 (f conn type roaming extra_info s)
          }
        | None \<Rightarrow> Some (- 1, s))
     else if cmd = HAL2MNL_UPDATE_NETWORK_AVAILABILITY then
       (case hm_update_network_availability hdlr of
          Some f \<Rightarrow> do {
            (available, c) \<leftarrow> get_int c;
            (apn, c) \<leftarrow> get_str c;
            apn \<leftarrow> apn;
            ret0 (f available apn s)
          }
        | None \<Rightarrow> Some (- 1, s))
     else if cmd = HAL2MNL_GPS_MEASUREMENT then
       (case hm_set_gps_measurement hdlr of
          Some f \<Rightarrow> do {
            (enabled, c) \<leftarrow> get_int c;
            ret0 (f (enabled \<noteq> 0) s)
          }
        | None \<Rightarrow> Some (- 1, s))
     else if cmd = HAL2MNL_GPS_NAVIGATION then
       (case hm_set_gps_navigation hdlr of
          Some f \<Rightarrow> do {
            (enabled, c) \<leftarrow> get_int c;
            ret0 (f (enabled \<noteq> 0) s)
          }
        | None \<Rightarrow> Some (- 1, s))
     else Some (- 1, s))"

definition hal2mnl_hdlr_agps ::
  "c_int \<Rightarrow> cursor \<Rightarrow> 's hal2mnl_interface \<Rightarrow> 's \<Rightarrow> (int \<times> 's) option" where
  "hal2mnl_hdlr_agps cmd c hdlr s =
    (if cmd = HAL2MNL_DATA_CONN_OPEN then
       (case hm_data_conn_open hdlr of
          Some f \<Rightarrow> do {
            (apn, c) \<leftarrow> get_str c;
            apn \<leftarrow> apn;
            ret0 (f apn s)
          }
        | None \<Rightarrow> Some (- 1, s))
     else if cmd = HAL2MNL_DATA_CONN_OPEN_WITH_APN_IP_TYPE then
       (case hm_data_conn_open_with_apn_ip_type hdlr of
          Some f \<Rightarrow> do {
            (apn, c) \<leftarrow> get_str c;
            (ip_type, c) \<leftarrow> get_int c;
            apn \<leftarrow> apn;
            ret0 (f apn ip_type s)
          }
        | None \<Rightarrow> Some (- 1, s))
     else if cmd = HAL2MNL_DATA_CONN_CLOSED then
       (case hm_data_conn_closed hdlr of Some f \<Rightarrow> ret0 (f s) | None \<Rightarrow> Some (- 1, s))
     else if cmd = HAL2MNL_DATA_CONN_FAILED then
       (case hm_data_conn_failed hdlr of Some f \<Rightarrow> ret0 (f s) | None \<Rightarrow> Some (- 1, s))
     else if cmd = HAL2MNL_SET_SERVER then
       (case hm_set_server hdlr of
          Some f \<Rightarrow> do {
            (type, c) \<leftarrow> get_int c;
            (hostname, c) \<leftarrow> get_str c;
            (port, c) \<leftarrow> get_int c;
            hostname \<leftarrow> hostname;
            ret0 (f type hostname port s)
          }
        | None \<Rightarrow> Some (- 1, s))
     else if cmd = HAL2MNL_SET_REF_LOCATION then
       (case hm_set_ref_location hdlr of
          Some f \<Rightarrow> do {
            (type, c) \<leftarrow> get_int c;
            (mcc, c) \<leftarrow> get_int c;
            (mnc, c) \<leftarrow> get_int c;
            (lac, c) \<leftarrow> get_int c;
            (cid, c) \<leftarrow> get_int c;
            ret0 (f type mcc mnc lac cid s)
          }
        | None \<Rightarrow> Some (- 1, s))
     else if cmd = HAL2MNL_SET_ID then
       (case hm_set_id hdlr of
          Some f \<Rightarrow> do {
            (type, c) \<leftarrow> get_int c;
            (setid, c) \<leftarrow> get_str c;
            setid \<leftarrow> setid;
            ret0 (f type setid s)
          }
        | None \<Rightarrow> Some (- 1, s))
     else hal2mnl_hdlr_ni cmd c hdlr s)"

definition hal2mnl_hdlr_gps ::
  "c_int \<Rightarrow> cursor \<Rightarrow> 's hal2mnl_interface \<Rightarrow> 's \<Rightarrow> (int \<times> 's) option" where
  "hal2mnl_hdlr_gps cmd c hdlr s =
    (if cmd = HAL2MNL_HAL_REBOOT then
       (case hm_hal_reboot hdlr of Some f \<Rightarrow> ret0 (f s) | None \<Rightarrow> Some (- 1, s))
     else if cmd = HAL2MNL_GPS_INIT then
       (case hm_gps_init hdlr of Some f \<Rightarrow> ret0 (f s) | None \<Rightarrow> Some (- 1, s))
     else if cmd = HAL2MNL_GPS_START then
       (case hm_gps_start hdlr of Some f \<Rightarrow> ret0 (f s) | None \<Rightarrow> Some (- 1, s))
     else if cmd = HAL2MNL_GPS_STOP then
       (case hm_gps_stop hdlr of Some f \<Rightarrow> ret0 (f s) | None \<Rightarrow> Some (- 1, s))
     else if cmd = HAL2MNL_GPS_CLEANUP then
       (case hm_gps_cleanup hdlr of Some f \<Rightarrow> ret0 (f s) | None \<Rightarrow> Some (- 1, s))
     else if cmd = HAL2MNL_GPS_INJECT_TIME then
       (case hm_gps_inject_time hdlr of
          Some f \<Rightarrow> do {
            (time, c) \<leftarrow> get_long c;
            (time_reference, c) \<leftarrow> get_long c;
            (uncertainty, c) \<leftarrow> get_int c;
            ret0 (f time time_reference uncertainty s)
          }
        | None \<Rightarrow> Some (- 1, s))
     else if cmd = HAL2MNL_GPS_INJECT_LOCATION then
       (case hm_gps_inject_location hdlr of
          Some f \<Rightarrow> do {
            (lat, c) \<leftarrow> get_double c;
            (lng, c) \<leftarrow> get_double c;
            (acc, c) \<leftarrow> get_float c;
            ret0 (f lat lng acc s)
          }
        | None \<Rightarrow> Some (- 1, s))
     else if cmd = HAL2MNL_GPS_DELETE_AIDING_DATA then
       (case hm_gps_delete_aiding_data hdlr of
          Some f \<Rightarrow> do {
            (flags, c) \<leftarrow> get_int c;
            ret0 (f flags s)
          }
        | None \<Rightarrow> Some (- 1, s))
     else if cmd = HAL2MNL_GPS_SET_POSITION_MODE then
       (case hm_gps_set_position_mode hdlr of
          Some f \<Rightarrow> do {
            (mode, c) \<leftarrow> get_int c;
            (recurrence, c) \<leftarrow> get_int c;
            (min_interval, c) \<leftarrow> get_int c;
            (preferred_acc, c) \<leftarrow> get_int c;
            (preferred_time, c) \<leftarrow> get_int c;
            ret0 (f mode recurrence min_interval preferred_acc preferred_time s)
          }
        | None \<Rightarrow> Some (- 1, s))
     else hal2mnl_hdlr_agps cmd c hdlr s)"

definition hal2mnl_hdlr ::
  "rx list \<Rightarrow> 's hal2mnl_interface \<Rightarrow> 's \<Rightarrow> (int \<times> 's \<times> rx list) option" where
  "hal2mnl_hdlr rs hdlr s =
     (case safe_recvfrom HAL_MNL_BUFF_SIZE rs of
        (read_len, d, rs) \<Rightarrow>
          if read_len \<le> 0 then Some (- 1, s, rs)
          else do {
            (ver, c) \<leftarrow> get_int (recv_buff HAL_MNL_BUFF_SIZE d);
            (cmd, c) \<leftarrow> get_int c;
            (ret, s) \<leftarrow> hal2mnl_hdlr_gps cmd c hdlr s;
            Some (ret, s, rs)
          })"

section \<open>Messages\<close>

text \<open>A message is a call of one sender; \<open>call_hal2mnl\<close> is the callback it is for.\<close>

datatype hal2mnl_msg =
    H2M_hal_reboot 
  | H2M_gps_init 
  | H2M_gps_start 
  | H2M_gps_stop 
  | H2M_gps_cleanup 
  | H2M_gps_inject_time c_llong c_llong c_int
  | H2M_gps_inject_location c_double c_double c_float
  | H2M_gps_delete_aiding_data c_int
  | H2M_gps_set_position_mode c_int c_int c_int c_int c_int
  | H2M_data_conn_open c_string
  | H2M_data_conn_open_with_apn_ip_type c_string c_int
  | H2M_data_conn_closed 
  | H2M_data_conn_failed 
  | H2M_set_server c_int c_string c_int
  | H2M_set_ref_location c_int c_int c_int c_int c_int
  | H2M_set_id c_int c_string
  | H2M_ni_message "c_char list"
  | H2M_ni_respond c_int c_int
  | H2M_update_network_state c_int c_int c_int c_string
  | H2M_update_network_availability c_int c_string
  | H2M_set_gps_measurement bool
  | H2M_set_gps_navigation bool

fun send_hal2mnl :: "hal2mnl_msg \<Rightarrow> (dest \<times> c_char list) option" where
  "send_hal2mnl H2M_hal_reboot =
     hal2mnl_hal_reboot"
| "send_hal2mnl H2M_gps_init =
     hal2mnl_gps_init"
| "send_hal2mnl H2M_gps_start =
     hal2mnl_gps_start"
| "send_hal2mnl H2M_gps_stop =
     hal2mnl_gps_stop"
| "send_hal2mnl H2M_gps_cleanup =
     hal2mnl_gps_cleanup"
| "send_hal2mnl (H2M_gps_inject_time time time_reference uncertainty) =
     hal2mnl_gps_inject_time time time_reference uncertainty"
| "send_hal2mnl (H2M_gps_inject_location lat lng acc) =
     hal2mnl_gps_inject_location lat lng acc"
| "send_hal2mnl (H2M_gps_delete_aiding_data flags) =
     hal2mnl_gps_delete_aiding_data flags"
| "send_hal2mnl (H2M_gps_set_position_mode mode recurrence min_interval preferred_acc preferred_time) =
     map_option snd (hal2mnl_gps_set_position_mode mode recurrence min_interval preferred_acc preferred_time)"
| "send_hal2mnl (H2M_data_conn_open apn) =
     hal2mnl_data_conn_open apn"
| "send_hal2mnl (H2M_data_conn_open_with_apn_ip_type apn ip_type) =
     hal2mnl_data_conn_open_with_apn_ip_type apn ip_type"
| "send_hal2mnl H2M_data_conn_closed =
     hal2mnl_data_conn_closed"
| "send_hal2mnl H2M_data_conn_failed =
     hal2mnl_data_conn_failed"
| "send_hal2mnl (H2M_set_server type hostname port) =
     hal2mnl_set_server type hostname port"
| "send_hal2mnl (H2M_set_ref_location type mcc mnc lac cid) =
     hal2mnl_set_ref_location type mcc mnc lac cid"
| "send_hal2mnl (H2M_set_id type setid) =
     hal2mnl_set_id type setid"
| "send_hal2mnl (H2M_ni_message msg) =
     hal2mnl_ni_message msg (word_of_nat (length msg))"
| "send_hal2mnl (H2M_ni_respond notif_id user_response) =
     hal2mnl_ni_respond notif_id user_response"
| "send_hal2mnl (H2M_update_network_state conn type roaming extra_info) =
     hal2mnl_update_network_state conn type roaming extra_info"
| "send_hal2mnl (H2M_update_network_availability available apn) =
     hal2mnl_update_network_availability available apn"
| "send_hal2mnl (H2M_set_gps_measurement enabled) =
     hal2mnl_set_gps_measurement enabled"
| "send_hal2mnl (H2M_set_gps_navigation enabled) =
     hal2mnl_set_gps_navigation enabled"

fun call_hal2mnl :: "'s hal2mnl_interface \<Rightarrow> hal2mnl_msg \<Rightarrow> 's \<Rightarrow> (int \<times> 's) option" where
  "call_hal2mnl h H2M_hal_reboot s =
     (case hm_hal_reboot h of Some f \<Rightarrow> ret0 (f s) | None \<Rightarrow> Some (- 1, s))"
| "call_hal2mnl h H2M_gps_init s =
     (case hm_gps_init h of Some f \<Rightarrow> ret0 (f s) | None \<Rightarrow> Some (- 1, s))"
| "call_hal2mnl h H2M_gps_start s =
     (case hm_gps_start h of Some f \<Rightarrow> ret0 (f s) | None \<Rightarrow> Some (- 1, s))"
| "call_hal2mnl h H2M_gps_stop s =
     (case hm_gps_stop h of Some f \<Rightarrow> ret0 (f s) | None \<Rightarrow> Some (- 1, s))"
| "call_hal2mnl h H2M_gps_cleanup s =
     (case hm_gps_cleanup h of Some f \<Rightarrow> ret0 (f s) | None \<Rightarrow> Some (- 1, s))"
| "call_hal2mnl h (H2M_gps_inject_time time time_reference uncertainty) s =
     (case hm_gps_inject_time h of Some f \<Rightarrow> ret0 (f time time_reference uncertainty s) | None \<Rightarrow> Some (- 1, s))"
| "call_hal2mnl h (H2M_gps_inject_location lat lng acc) s =
     (case hm_gps_inject_location h of Some f \<Rightarrow> ret0 (f lat lng acc s) | None \<Rightarrow> Some (- 1, s))"
| "call_hal2mnl h (H2M_gps_delete_aiding_data flags) s =
     (case hm_gps_delete_aiding_data h of Some f \<Rightarrow> ret0 (f flags s) | None \<Rightarrow> Some (- 1, s))"
| "call_hal2mnl h (H2M_gps_set_position_mode mode recurrence min_interval preferred_acc preferred_time) s =
     (case hm_gps_set_position_mode h of Some f \<Rightarrow> ret0 (f mode recurrence min_interval preferred_acc preferred_time s) | None \<Rightarrow> Some (- 1, s))"
| "call_hal2mnl h (H2M_data_conn_open apn) s =
     (case hm_data_conn_open h of Some f \<Rightarrow> ret0 (f apn s) | None \<Rightarrow> Some (- 1, s))"
| "call_hal2mnl h (H2M_data_conn_open_with_apn_ip_type apn ip_type) s =
     (case hm_data_conn_open_with_apn_ip_type h of Some f \<Rightarrow> ret0 (f apn ip_type s) | None \<Rightarrow> Some (- 1, s))"
| "call_hal2mnl h H2M_data_conn_closed s =
     (case hm_data_conn_closed h of Some f \<Rightarrow> ret0 (f s) | None \<Rightarrow> Some (- 1, s))"
| "call_hal2mnl h H2M_data_conn_failed s =
     (case hm_data_conn_failed h of Some f \<Rightarrow> ret0 (f s) | None \<Rightarrow> Some (- 1, s))"
| "call_hal2mnl h (H2M_set_server type hostname port) s =
     (case hm_set_server h of Some f \<Rightarrow> ret0 (f type hostname port s) | None \<Rightarrow> Some (- 1, s))"
| "call_hal2mnl h (H2M_set_ref_location type mcc mnc lac cid) s =
     (case hm_set_ref_location h of Some f \<Rightarrow> ret0 (f type mcc mnc lac cid s) | None \<Rightarrow> Some (- 1, s))"
| "call_hal2mnl h (H2M_set_id type setid) s =
     (case hm_set_id h of Some f \<Rightarrow> ret0 (f type setid s) | None \<Rightarrow> Some (- 1, s))"
| "call_hal2mnl h (H2M_ni_message msg) s =
     (case hm_ni_message h of Some f \<Rightarrow> ret0 (f (msg @ replicate (1024 - length msg) 0) (word_of_nat (length msg)) s) | None \<Rightarrow> Some (- 1, s))"
| "call_hal2mnl h (H2M_ni_respond notif_id user_response) s =
     (case hm_ni_respond h of Some f \<Rightarrow> ret0 (f notif_id user_response s) | None \<Rightarrow> Some (- 1, s))"
| "call_hal2mnl h (H2M_update_network_state conn type roaming extra_info) s =
     (case hm_update_network_state h of Some f \<Rightarrow> ret0 (f conn type roaming extra_info s) | None \<Rightarrow> Some (- 1, s))"
| "call_hal2mnl h (H2M_update_network_availability available apn) s =
     (case hm_update_network_availability h of Some f \<Rightarrow> ret0 (f available apn s) | None \<Rightarrow> Some (- 1, s))"
| "call_hal2mnl h (H2M_set_gps_measurement enabled) s =
     (case hm_set_gps_measurement h of Some f \<Rightarrow> ret0 (f enabled s) | None \<Rightarrow> Some (- 1, s))"
| "call_hal2mnl h (H2M_set_gps_navigation enabled) s =
     (case hm_set_gps_navigation h of Some f \<Rightarrow> ret0 (f enabled s) | None \<Rightarrow> Some (- 1, s))"

text \<open>The arguments the wire format carries: C strings, and a message that fits the
  receiver's \<open>char msg[1024]\<close>.\<close>

fun hal2mnl_ok :: "hal2mnl_msg \<Rightarrow> bool" where
  "hal2mnl_ok (H2M_data_conn_open apn) = string_ok apn"
| "hal2mnl_ok (H2M_data_conn_open_with_apn_ip_type apn _) = string_ok apn"
| "hal2mnl_ok (H2M_set_server _ hostname _) = string_ok hostname"
| "hal2mnl_ok (H2M_set_id _ setid) = string_ok setid"
| "hal2mnl_ok (H2M_ni_message msg) = (length msg \<le> 1024)"
| "hal2mnl_ok (H2M_update_network_state _ _ _ extra_info) = string_ok extra_info"
| "hal2mnl_ok (H2M_update_network_availability _ apn) = string_ok apn"
| "hal2mnl_ok _ = True"

text \<open>The wire format.\<close>

fun wire_hal2mnl :: "hal2mnl_msg \<Rightarrow> c_char list" where
  "wire_hal2mnl H2M_hal_reboot =
     enc_int HAL_MNL_INTERFACE_VERSION @ enc_int HAL2MNL_HAL_REBOOT"
| "wire_hal2mnl H2M_gps_init =
     enc_int HAL_MNL_INTERFACE_VERSION @ enc_int HAL2MNL_GPS_INIT"
| "wire_hal2mnl H2M_gps_start =
     enc_int HAL_MNL_INTERFACE_VERSION @ enc_int HAL2MNL_GPS_START"
| "wire_hal2mnl H2M_gps_stop =
     enc_int HAL_MNL_INTERFACE_VERSION @ enc_int HAL2MNL_GPS_STOP"
| "wire_hal2mnl H2M_gps_cleanup =
     enc_int HAL_MNL_INTERFACE_VERSION @ enc_int HAL2MNL_GPS_CLEANUP"
| "wire_hal2mnl (H2M_gps_inject_time time time_reference uncertainty) =
     enc_int HAL_MNL_INTERFACE_VERSION @ enc_int HAL2MNL_GPS_INJECT_TIME @ enc_long time @ enc_long time_reference @ enc_int uncertainty"
| "wire_hal2mnl (H2M_gps_inject_location lat lng acc) =
     enc_int HAL_MNL_INTERFACE_VERSION @ enc_int HAL2MNL_GPS_INJECT_LOCATION @ enc_long lat @ enc_long lng @ enc_int acc"
| "wire_hal2mnl (H2M_gps_delete_aiding_data flags) =
     enc_int HAL_MNL_INTERFACE_VERSION @ enc_int HAL2MNL_GPS_DELETE_AIDING_DATA @ enc_int flags"
| "wire_hal2mnl (H2M_gps_set_position_mode mode recurrence min_interval preferred_acc preferred_time) =
     enc_int HAL_MNL_INTERFACE_VERSION @ enc_int HAL2MNL_GPS_SET_POSITION_MODE @ enc_int mode @ enc_int recurrence @ enc_int min_interval @ enc_int preferred_acc @ enc_int preferred_time"
| "wire_hal2mnl (H2M_data_conn_open apn) =
     enc_int HAL_MNL_INTERFACE_VERSION @ enc_int HAL2MNL_DATA_CONN_OPEN @ enc_string apn"
| "wire_hal2mnl (H2M_data_conn_open_with_apn_ip_type apn ip_type) =
     enc_int HAL_MNL_INTERFACE_VERSION @ enc_int HAL2MNL_DATA_CONN_OPEN_WITH_APN_IP_TYPE @ enc_string apn @ enc_int ip_type"
| "wire_hal2mnl H2M_data_conn_closed =
     enc_int HAL_MNL_INTERFACE_VERSION @ enc_int HAL2MNL_DATA_CONN_CLOSED"
| "wire_hal2mnl H2M_data_conn_failed =
     enc_int HAL_MNL_INTERFACE_VERSION @ enc_int HAL2MNL_DATA_CONN_FAILED"
| "wire_hal2mnl (H2M_set_server type hostname port) =
     enc_int HAL_MNL_INTERFACE_VERSION @ enc_int HAL2MNL_SET_SERVER @ enc_int type @ enc_string hostname @ enc_int port"
| "wire_hal2mnl (H2M_set_ref_location type mcc mnc lac cid) =
     enc_int HAL_MNL_INTERFACE_VERSION @ enc_int HAL2MNL_SET_REF_LOCATION @ enc_int type @ enc_int mcc @ enc_int mnc @ enc_int lac @ enc_int cid"
| "wire_hal2mnl (H2M_set_id type setid) =
     enc_int HAL_MNL_INTERFACE_VERSION @ enc_int HAL2MNL_SET_ID @ enc_int type @ enc_string setid"
| "wire_hal2mnl (H2M_ni_message msg) =
     enc_int HAL_MNL_INTERFACE_VERSION @ enc_int HAL2MNL_NI_MESSAGE @ enc_binary msg"
| "wire_hal2mnl (H2M_ni_respond notif_id user_response) =
     enc_int HAL_MNL_INTERFACE_VERSION @ enc_int HAL2MNL_NI_RESPOND @ enc_int notif_id @ enc_int user_response"
| "wire_hal2mnl (H2M_update_network_state conn type roaming extra_info) =
     enc_int HAL_MNL_INTERFACE_VERSION @ enc_int HAL2MNL_UPDATE_NETWORK_STATE @ enc_int conn @ enc_int type @ enc_int roaming @ enc_string extra_info"
| "wire_hal2mnl (H2M_update_network_availability available apn) =
     enc_int HAL_MNL_INTERFACE_VERSION @ enc_int HAL2MNL_UPDATE_NETWORK_AVAILABILITY @ enc_int available @ enc_string apn"
| "wire_hal2mnl (H2M_set_gps_measurement enabled) =
     enc_int HAL_MNL_INTERFACE_VERSION @ enc_int HAL2MNL_GPS_MEASUREMENT @ enc_int (c_bool enabled)"
| "wire_hal2mnl (H2M_set_gps_navigation enabled) =
     enc_int HAL_MNL_INTERFACE_VERSION @ enc_int HAL2MNL_GPS_NAVIGATION @ enc_int (c_bool enabled)"
lemma ret0_simps [simp]: "ret0 None = None" "ret0 (Some s) = Some (0, s)"
  by (simp_all add: ret0_def)

section \<open>The senders produce the wire format, the receiver calls the callback\<close>

lemma send_hal2mnl_eq:
  assumes "hal2mnl_ok m"
  shows "send_hal2mnl m = (if length (wire_hal2mnl m) \<le> HAL_MNL_BUFF_SIZE
           then Some (MTK_HAL2MNL, wire_hal2mnl m) else None)"
  using assms
  by (cases m) (auto simp: sender_defs zero_buff_rd sent_rd store_simps binary_ok_def)

lemma hal2mnl_switch:
  assumes "hal2mnl_ok m" "length (wire_hal2mnl m) \<le> HAL_MNL_BUFF_SIZE"
  shows "do { (ver, c) \<leftarrow> get_int (rd HAL_MNL_BUFF_SIZE [] (wire_hal2mnl m));
              (cmd, c) \<leftarrow> get_int c; hal2mnl_hdlr_gps cmd c h s } = call_hal2mnl h m s"
  using assms
  by (cases m) (auto simp: store_simps hal2mnl_hdlr_gps_def hal2mnl_hdlr_agps_def hal2mnl_hdlr_ni_def
      split: option.splits)

lemma hal2mnl_hdlr_unfold:
  assumes "0 < length d" "length d \<le> HAL_MNL_BUFF_SIZE"
  shows "hal2mnl_hdlr (RxData d # rs) h s =
    map_option (\<lambda>(r, s). (r, s, rs))
      (do { (ver, c) \<leftarrow> get_int (rd HAL_MNL_BUFF_SIZE [] d);
            (cmd, c) \<leftarrow> get_int c; hal2mnl_hdlr_gps cmd c h s })"
  using assms by (auto simp: hal2mnl_hdlr_def safe_recvfrom_def recv_buff_rd split: Option.bind_splits)

lemma wire_hal2mnl_pos: "0 < length (wire_hal2mnl m)"
  by (cases m) auto

lemma hal2mnl_delivered:
  assumes "hal2mnl_ok m" "send_hal2mnl m = Some (q, d)"
  shows "hal2mnl_hdlr (RxData d # rs) h s = map_option (\<lambda>(r, s). (r, s, rs)) (call_hal2mnl h m s)"
proof -
  have d: "d = wire_hal2mnl m" and len: "length (wire_hal2mnl m) \<le> HAL_MNL_BUFF_SIZE"
    using assms by (auto simp: send_hal2mnl_eq split: if_splits)
  show ?thesis
    unfolding d hal2mnl_hdlr_unfold [OF wire_hal2mnl_pos len] hal2mnl_switch [OF assms(1) len] ..
qed

interpretation h2m: channel "\<lambda>m. map_option snd (send_hal2mnl m)" "\<lambda>rs s. hal2mnl_hdlr rs h s"
    "call_hal2mnl h" hal2mnl_ok for h
  by unfold_locales (auto intro: hal2mnl_delivered)

section \<open>Properties\<close>

definition no_hal2mnl_callbacks :: "'s hal2mnl_interface" where
  "no_hal2mnl_callbacks = \<lparr>hm_hal_reboot = None, hm_gps_init = None, hm_gps_start = None,
     hm_gps_stop = None, hm_gps_cleanup = None, hm_gps_inject_time = None,
     hm_gps_inject_location = None, hm_gps_delete_aiding_data = None,
     hm_gps_set_position_mode = None, hm_data_conn_open = None,
     hm_data_conn_open_with_apn_ip_type = None, hm_data_conn_closed = None,
     hm_data_conn_failed = None, hm_set_server = None, hm_set_ref_location = None,
     hm_set_id = None, hm_ni_message = None, hm_ni_respond = None,
     hm_update_network_state = None, hm_update_network_availability = None,
     hm_set_gps_measurement = None, hm_set_gps_navigation = None\<rparr>"

text \<open>A table that logs the strings and flags it is called with.\<close>

definition logging_callbacks :: "(c_int \<times> c_string) list hal2mnl_interface" where
  "logging_callbacks = no_hal2mnl_callbacks\<lparr>
     hm_set_id := Some (\<lambda>t x s. Some (s @ [(t, x)])),
     hm_ni_message := Some (\<lambda>m n s. Some (s @ [(n, Some m)])),
     hm_hal_reboot := Some (\<lambda>s. Some [])\<rparr>"

lemma send_set_id_sample:
  "send_hal2mnl (H2M_set_id 2 (Some [0x37, 0x38])) = Some (MTK_HAL2MNL, wire_hal2mnl (H2M_set_id 2 (Some [0x37, 0x38])))"
  by (subst send_hal2mnl_eq) auto

text \<open>A burst of messages is processed in the order it was sent: serving the queued
  datagrams is the sequence of callbacks, and leaves the rest of the queue.\<close>

theorem hal2mnl_in_order:
  assumes "\<forall>m\<in>set ms. hal2mnl_ok m" "map send_hal2mnl ms = map (\<lambda>d. Some (MTK_HAL2MNL, d)) ds"
  shows "serve (\<lambda>rs s. hal2mnl_hdlr rs h s) (length ms) (map RxData ds @ rs) s =
    map_option (\<lambda>s. (s, rs)) (calls (call_hal2mnl h) ms s)"
proof (rule h2m.serve_calls [OF assms(1)])
  have "map (map_option snd) (map send_hal2mnl ms) = map (map_option snd) (map (\<lambda>d. Some (MTK_HAL2MNL, d)) ds)"
    by (simp only: assms(2))
  then show "map (\<lambda>m. map_option snd (send_hal2mnl m)) ms = map Some ds" by (simp add: comp_def)
qed

lemma send_reboot_sample: "send_hal2mnl H2M_hal_reboot = Some (MTK_HAL2MNL, wire_hal2mnl H2M_hal_reboot)"
  by (subst send_hal2mnl_eq) auto

theorem hal2mnl_in_order_witness:
  "serve (\<lambda>rs s. hal2mnl_hdlr rs logging_callbacks s)
     (length [H2M_hal_reboot, H2M_set_id 2 (Some [0x37, 0x38])])
     (map RxData [wire_hal2mnl H2M_hal_reboot, wire_hal2mnl (H2M_set_id 2 (Some [0x37, 0x38]))] @ [])
     [(1, None)] = Some ([(2, Some [0x37, 0x38])], [])"
  by (subst hal2mnl_in_order)
    (simp_all add: send_reboot_sample send_set_id_sample logging_callbacks_def del: send_hal2mnl.simps)

text \<open>A sender stays inside its 16 KB buffer exactly when the message fits; only the
  string and binary arguments can make it too long, and nothing in the senders checks them.\<close>

theorem hal2mnl_sender_overflow:
  assumes "hal2mnl_ok m"
  shows "send_hal2mnl m = None \<longleftrightarrow> 16384 < length (wire_hal2mnl m)"
  using assms by (simp add: send_hal2mnl_eq)

theorem hal2mnl_sender_overflow_witness:
  "send_hal2mnl (H2M_data_conn_open (Some (replicate 16370 1))) \<noteq> None \<and>
   send_hal2mnl (H2M_data_conn_open (Some (replicate 16371 1))) = None"
  using hal2mnl_sender_overflow [of "H2M_data_conn_open (Some (replicate 16370 1))"]
    hal2mnl_sender_overflow [of "H2M_data_conn_open (Some (replicate 16371 1))"]
  by (simp add: set_replicate_conv_if)

text \<open>A network-initiated message longer than the receiver's array.\<close>

lemma get_binary_too_long:
  assumes "length out < length bs" "length pre + length bs + 4 \<le> n" "n < 2 ^ 31"
  shows "get_binary out (rd n pre (enc_binary bs)) = None"
proof -
  have "length bs < 2 ^ 31" "bs \<noteq> []" using assms by auto
  then show ?thesis
    using assms by (simp add: get_binary_def enc_binary_def store_simps sint_of_nat_small)
qed

text \<open>\<open>hal2mnl_ni_message\<close> transmits any length that fits the 16 KB datagram, but the
  daemon copies the bytes into \<open>char msg[1024]\<close> with no check: every longer message, sent by
  the HAL's own sender, overruns that array.\<close>

theorem hal2mnl_ni_message_overflow:
  assumes "1024 < length msg" "length msg \<le> 16372" "hm_ni_message h = Some f"
  shows "send_hal2mnl (H2M_ni_message msg) = Some (MTK_HAL2MNL, wire_hal2mnl (H2M_ni_message msg)) \<and>
    hal2mnl_hdlr (RxData (wire_hal2mnl (H2M_ni_message msg)) # rs) h s = None"
proof -
  have send: "send_hal2mnl (H2M_ni_message msg) = Some (MTK_HAL2MNL, wire_hal2mnl (H2M_ni_message msg))"
    using assms by (simp add: sender_defs zero_buff_rd sent_rd store_simps binary_ok_def)
  have "get_binary (replicate 1024 0) (rd HAL_MNL_BUFF_SIZE (enc_int 1 @ enc_int 401) (enc_binary msg)) = None"
    using assms by (intro get_binary_too_long) auto
  then have "hal2mnl_hdlr (RxData (wire_hal2mnl (H2M_ni_message msg)) # rs) h s = None"
    using assms by (subst hal2mnl_hdlr_unfold)
      (auto simp: store_simps hal2mnl_hdlr_gps_def hal2mnl_hdlr_agps_def hal2mnl_hdlr_ni_def)
  with send show ?thesis ..
qed

theorem hal2mnl_ni_message_overflow_witness:
  "hal2mnl_hdlr [RxData (wire_hal2mnl (H2M_ni_message (replicate 2000 7)))] logging_callbacks [] = None"
  using hal2mnl_ni_message_overflow [of "replicate 2000 7" logging_callbacks _ "[]" "[]"]
  by (auto simp: logging_callbacks_def)

text \<open>Messages whose strings are C strings and whose lengths are of type \<open>int\<close>, and those that overrun the daemon.\<close>

definition hal2mnl_args :: "hal2mnl_msg \<Rightarrow> bool" where
  "hal2mnl_args m = (case m of H2M_ni_message msg \<Rightarrow> length msg < 2 ^ 31 | _ \<Rightarrow> hal2mnl_ok m)"

definition overruns :: "'s hal2mnl_interface \<Rightarrow> hal2mnl_msg \<Rightarrow> bool" where
  "overruns h m = (case m of H2M_ni_message msg \<Rightarrow> 1024 < length msg \<and> hm_ni_message h \<noteq> None | _ \<Rightarrow> False)"

lemma hal2mnl_null_ni:
  assumes "hm_ni_message h = None" "length msg \<le> 16372"
  shows "hal2mnl_hdlr (RxData (wire_hal2mnl (H2M_ni_message msg)) # rs) h s = Some (- 1, s, rs)"
  using assms by (subst hal2mnl_hdlr_unfold) (auto simp: store_simps hal2mnl_hdlr_gps_def hal2mnl_hdlr_agps_def hal2mnl_hdlr_ni_def)

lemma ni_message_sent:
  assumes "length msg < 2 ^ 31" "send_hal2mnl (H2M_ni_message msg) = Some (q, d)"
  shows "length msg \<le> 16372 \<and> q = MTK_HAL2MNL \<and> d = wire_hal2mnl (H2M_ni_message msg)"
  using assms by (auto simp: sender_defs zero_buff_rd sent_rd store_simps binary_ok_def split: if_splits Option.bind_splits)

text \<open>C34. Every message that the HAL sends, its strings being C strings and its lengths of type \<open>int\<close>, runs in the daemon exactly the callback it is for, on exactly the
  arguments given to the sender, or gives -1 for a null callback; the one exception is an NI message of more than 1024 bytes, which
  overruns the array of the daemon.\<close>

theorem hal2mnl_round_trip:
  assumes "hal2mnl_args m" "send_hal2mnl m = Some (q, d)"
  shows "q = MTK_HAL2MNL \<and>
    hal2mnl_hdlr (RxData d # rs) h s = (if overruns h m then None else map_option (\<lambda>(r, s). (r, s, rs)) (call_hal2mnl h m s))"
proof (cases "hal2mnl_ok m")
  case True
  then have "\<not> overruns h m" by (cases m) (simp_all add: overruns_def)
  then show ?thesis using True assms hal2mnl_delivered [OF True assms(2)] by (auto simp: send_hal2mnl_eq split: if_splits)
next
  case False
  then obtain msg where m: "m = H2M_ni_message msg" "1024 < length msg"
    using assms(1) by (cases m) (auto simp: hal2mnl_args_def)
  have "length msg < 2 ^ 31" using assms(1) m(1) by (simp add: hal2mnl_args_def)
  note sent = ni_message_sent [OF this assms(2) [unfolded m(1)]]
  show ?thesis
  proof (cases "hm_ni_message h")
    case None
    then show ?thesis using sent hal2mnl_null_ni [OF None, of msg] by (simp add: m(1) overruns_def)
  next
    case (Some f)
    then show ?thesis using sent hal2mnl_ni_message_overflow [OF m(2) _ Some] m(2) by (simp add: m(1) overruns_def)
  qed
qed

theorem hal2mnl_round_trip_witness:
  "hal2mnl_hdlr [RxData (wire_hal2mnl (H2M_set_id 2 (Some [0x37, 0x38])))] logging_callbacks [] =
     Some (0, [(2, Some [0x37, 0x38])], [])"
  using hal2mnl_round_trip [OF _ send_set_id_sample, of "[]" logging_callbacks "[]"]
  by (simp add: logging_callbacks_def hal2mnl_args_def overruns_def)

lemma list_mem_zeros: "list_mem (bs @ replicate k 0) = list_mem bs"
  by (rule ext) (auto simp: list_mem_def nth_append)

lemma rd_zeros: "rd n [] (bs @ replicate k 0) = rd n [] bs"
  by (simp add: rd_def list_mem_zeros)

lemma four_bytes_enc_int: "length bs = 4 \<Longrightarrow> \<exists>v. bs = enc_int v"
proof -
  assume "length bs = 4"
  then obtain a b c d where bs: "bs = [a, b, c, d]"
    by (auto simp: length_Suc_conv eval_nat_numeral)
  let ?v = "(ucast a OR push_bit 8 (ucast b) OR push_bit 16 (ucast c) OR push_bit 24 (ucast d)) :: c_int"
  have "ucast (ucast ?v :: c_short) = a" "ucast (drop_bit 8 (ucast ?v :: c_short)) = b"
    "ucast (ucast (drop_bit 16 ?v) :: c_short) = c" "ucast (drop_bit 8 (ucast (drop_bit 16 ?v) :: c_short)) = d"
    by (rule bit_word_eqI; auto simp: bit_simps dest: bit_imp_le_length)+
  then have "bs = enc_int ?v" by (simp add: bs enc_int_def enc_short_def)
  then show ?thesis ..
qed

lemma enc_int_0: "enc_int 0 = [0, 0, 0, 0]"
  by (simp add: enc_int_def enc_short_def)

text \<open>The receiver never compares the number of bytes read with what it decodes. A datagram
  of one to four bytes leaves the command in the zeroed part of the buffer, and 0 is
  \<open>HAL2MNL_HAL_REBOOT\<close>: any such datagram runs the \<open>hal_reboot\<close> callback.\<close>

theorem short_datagram_is_reboot:
  assumes "0 < length d" "length d \<le> 4"
  shows "hal2mnl_hdlr (RxData d # rs) h s =
    map_option (\<lambda>(r, s). (r, s, rs)) (call_hal2mnl h H2M_hal_reboot s)"
proof -
  obtain v where v: "d @ replicate (4 - length d) 0 = enc_int v"
    using four_bytes_enc_int [of "d @ replicate (4 - length d) 0"] assms by auto
  have "enc_int v @ enc_int 0 = d @ replicate (8 - length d) 0"
  proof -
    have "8 - length d = (4 - length d) + 4" using assms by simp
    then have "d @ replicate (8 - length d) 0 = (d @ replicate (4 - length d) 0) @ replicate 4 0"
      by (simp only: replicate_add append_assoc)
    moreover have "replicate 4 (0 :: c_char) = enc_int 0" by (simp add: enc_int_0 eval_nat_numeral)
    ultimately show ?thesis by (simp only: v)
  qed
  then have "rd HAL_MNL_BUFF_SIZE [] d = rd HAL_MNL_BUFF_SIZE [] (enc_int v @ enc_int 0)"
    by (simp add: rd_zeros)
  then show ?thesis
    using assms by (subst hal2mnl_hdlr_unfold)
      (auto simp: store_simps hal2mnl_hdlr_gps_def split: option.split)
qed

theorem short_datagram_is_reboot_witness:
  "hal2mnl_hdlr [RxData [42]] logging_callbacks [(1, None)] = Some (0, [], [])"
  using short_datagram_is_reboot [of "[42]" "[]" logging_callbacks "[(1, None)]"]
  by (simp add: logging_callbacks_def)

text \<open>A command the switch does not list leaves the state unchanged and gives -1.\<close>

theorem hal2mnl_unknown_command:
  assumes "cmd \<notin> {0, 101, 102, 103, 104, 105, 106, 107, 108, 201, 202, 203, 204, 301, 302, 303,
      401, 402, 501, 502, 601, 602}"
    and "length bs \<le> 16376"
  shows "hal2mnl_hdlr (RxData (enc_int ver @ enc_int cmd @ bs) # rs) h s = Some (- 1, s, rs)"
  using assms by (subst hal2mnl_hdlr_unfold)
    (auto simp: store_simps hal2mnl_hdlr_gps_def hal2mnl_hdlr_agps_def hal2mnl_hdlr_ni_def)

theorem hal2mnl_unknown_command_witness:
  "hal2mnl_hdlr [RxData (enc_int 1 @ enc_int 700 @ [])] logging_callbacks [] = Some (- 1, [], [])"
  by (rule hal2mnl_unknown_command) simp_all

end
