(* ===== verification/Mnl2Hal.thy ===== *)
theory Mnl2Hal
  imports Hal2Mnl
begin

text \<open>
  Daemon to GPS HAL: the senders of \<^verbatim>\<open>mtk/gps/mtk_mnld/mnld_entity/src/mnl2hal_interface.c\<close>
  and the receiver \<open>mnl2hal_hdlr\<close> of \<^verbatim>\<open>mtk/gps/gps_hal/src/hal2mnl_interface.c\<close> with its
  throttle of location reports. A structure argument is its bytes; the sizes are those of the
  32-bit ARM layout: 56 for \<open>gps_location\<close>, 1284 for \<open>gnss_sv_info\<close>, 7752 for
  \<open>gps_data\<close>, 8784 for \<open>gnss_data\<close>, 52 for \<open>gps_nav_msg\<close>, 24 for
  \<open>gnss_nav_msg\<close> and 128 for \<open>sockaddr_storage\<close>.
\<close>

abbreviation MNL2HAL_MNLD_REBOOT :: c_int where "MNL2HAL_MNLD_REBOOT \<equiv> 1"
abbreviation MNL2HAL_LOCATION :: c_int where "MNL2HAL_LOCATION \<equiv> 101"
abbreviation MNL2HAL_GPS_STATUS :: c_int where "MNL2HAL_GPS_STATUS \<equiv> 102"
abbreviation MNL2HAL_GPS_SV :: c_int where "MNL2HAL_GPS_SV \<equiv> 103"
abbreviation MNL2HAL_NMEA :: c_int where "MNL2HAL_NMEA \<equiv> 104"
abbreviation MNL2HAL_GPS_CAPABILITIES :: c_int where "MNL2HAL_GPS_CAPABILITIES \<equiv> 105"
abbreviation MNL2HAL_GPS_MEASUREMENTS :: c_int where "MNL2HAL_GPS_MEASUREMENTS \<equiv> 106"
abbreviation MNL2HAL_GPS_NAVIGATION :: c_int where "MNL2HAL_GPS_NAVIGATION \<equiv> 107"
abbreviation MNL2HAL_GNSS_MEASUREMENTS :: c_int where "MNL2HAL_GNSS_MEASUREMENTS \<equiv> 108"
abbreviation MNL2HAL_GNSS_NAVIGATION :: c_int where "MNL2HAL_GNSS_NAVIGATION \<equiv> 109"
abbreviation MNL2HAL_REQUEST_WAKELOCK :: c_int where "MNL2HAL_REQUEST_WAKELOCK \<equiv> 201"
abbreviation MNL2HAL_RELEASE_WAKELOCK :: c_int where "MNL2HAL_RELEASE_WAKELOCK \<equiv> 202"
abbreviation MNL2HAL_REQUEST_UTC_TIME :: c_int where "MNL2HAL_REQUEST_UTC_TIME \<equiv> 301"
abbreviation MNL2HAL_REQUEST_DATA_CONN :: c_int where "MNL2HAL_REQUEST_DATA_CONN \<equiv> 302"
abbreviation MNL2HAL_RELEASE_DATA_CONN :: c_int where "MNL2HAL_RELEASE_DATA_CONN \<equiv> 303"
abbreviation MNL2HAL_REQUEST_NI_NOTIFY :: c_int where "MNL2HAL_REQUEST_NI_NOTIFY \<equiv> 304"
abbreviation MNL2HAL_REQUEST_SET_ID :: c_int where "MNL2HAL_REQUEST_SET_ID \<equiv> 305"
abbreviation MNL2HAL_REQUEST_REF_LOC :: c_int where "MNL2HAL_REQUEST_REF_LOC \<equiv> 306"

section \<open>Senders\<close>

definition mnl2hal_mnld_reboot :: "(dest \<times> c_char list) option" where
  "mnl2hal_mnld_reboot = do {
     c \<leftarrow> put_int (zero_buff HAL_MNL_BUFF_SIZE) HAL_MNL_INTERFACE_VERSION;
     c \<leftarrow> put_int c MNL2HAL_MNLD_REBOOT;
     Some (MTK_MNL2HAL, sent c)
   }"

definition mnl2hal_location :: "c_char list \<Rightarrow> (dest \<times> c_char list) option" where
  "mnl2hal_location location = do {
     c \<leftarrow> put_int (zero_buff HAL_MNL_BUFF_SIZE) HAL_MNL_INTERFACE_VERSION;
     c \<leftarrow> put_int c MNL2HAL_LOCATION;
     c \<leftarrow> put_struct c location;
     Some (MTK_MNL2HAL, sent c)
   }"

definition mnl2hal_gps_status :: "c_int \<Rightarrow> (dest \<times> c_char list) option" where
  "mnl2hal_gps_status status = do {
     c \<leftarrow> put_int (zero_buff HAL_MNL_BUFF_SIZE) HAL_MNL_INTERFACE_VERSION;
     c \<leftarrow> put_int c MNL2HAL_GPS_STATUS;
     c \<leftarrow> put_struct c (enc_int status);
     Some (MTK_MNL2HAL, sent c)
   }"

definition mnl2hal_gps_sv :: "c_char list \<Rightarrow> (dest \<times> c_char list) option" where
  "mnl2hal_gps_sv sv = do {
     c \<leftarrow> put_int (zero_buff HAL_MNL_BUFF_SIZE) HAL_MNL_INTERFACE_VERSION;
     c \<leftarrow> put_int c MNL2HAL_GPS_SV;
     c \<leftarrow> put_struct c sv;
     Some (MTK_MNL2HAL, sent c)
   }"

definition mnl2hal_nmea :: "c_llong \<Rightarrow> c_string \<Rightarrow> c_int \<Rightarrow> (dest \<times> c_char list) option" where
  "mnl2hal_nmea timestamp nmea nmea_length = do {
     c \<leftarrow> put_int (zero_buff HAL_MNL_BUFF_SIZE) HAL_MNL_INTERFACE_VERSION;
     c \<leftarrow> put_int c MNL2HAL_NMEA;
     c \<leftarrow> put_long c timestamp;
     c \<leftarrow> put_string c nmea;
     c \<leftarrow> put_int c nmea_length;
     Some (MTK_MNL2HAL, sent c)
   }"

definition mnl2hal_gps_capabilities :: "c_int \<Rightarrow> (dest \<times> c_char list) option" where
  "mnl2hal_gps_capabilities capabilities = do {
     c \<leftarrow> put_int (zero_buff HAL_MNL_BUFF_SIZE) HAL_MNL_INTERFACE_VERSION;
     c \<leftarrow> put_int c MNL2HAL_GPS_CAPABILITIES;
     c \<leftarrow> put_struct c (enc_int capabilities);
     Some (MTK_MNL2HAL, sent c)
   }"

definition mnl2hal_gps_measurements :: "c_char list \<Rightarrow> (dest \<times> c_char list) option" where
  "mnl2hal_gps_measurements data = do {
     c \<leftarrow> put_int (zero_buff HAL_MNL_BUFF_SIZE) HAL_MNL_INTERFACE_VERSION;
     c \<leftarrow> put_int c MNL2HAL_GPS_MEASUREMENTS;
     c \<leftarrow> put_struct c data;
     Some (MTK_MNL2HAL, sent c)
   }"

definition mnl2hal_gps_navigation :: "c_char list \<Rightarrow> (dest \<times> c_char list) option" where
  "mnl2hal_gps_navigation msg = do {
     c \<leftarrow> put_int (zero_buff HAL_MNL_BUFF_SIZE) HAL_MNL_INTERFACE_VERSION;
     c \<leftarrow> put_int c MNL2HAL_GPS_NAVIGATION;
     c \<leftarrow> put_struct c msg;
     Some (MTK_MNL2HAL, sent c)
   }"

definition mnl2hal_gnss_measurements :: "c_char list \<Rightarrow> (dest \<times> c_char list) option" where
  "mnl2hal_gnss_measurements data = do {
     c \<leftarrow> put_int (zero_buff HAL_MNL_BUFF_SIZE) HAL_MNL_INTERFACE_VERSION;
     c \<leftarrow> put_int c MNL2HAL_GNSS_MEASUREMENTS;
     c \<leftarrow> put_struct c data;
     Some (MTK_MNL2HAL, sent c)
   }"

definition mnl2hal_gnss_navigation :: "c_char list \<Rightarrow> (dest \<times> c_char list) option" where
  "mnl2hal_gnss_navigation msg = do {
     c \<leftarrow> put_int (zero_buff HAL_MNL_BUFF_SIZE) HAL_MNL_INTERFACE_VERSION;
     c \<leftarrow> put_int c MNL2HAL_GNSS_NAVIGATION;
     c \<leftarrow> put_struct c msg;
     Some (MTK_MNL2HAL, sent c)
   }"

definition mnl2hal_request_wakelock :: "(dest \<times> c_char list) option" where
  "mnl2hal_request_wakelock = do {
     c \<leftarrow> put_int (zero_buff HAL_MNL_BUFF_SIZE) HAL_MNL_INTERFACE_VERSION;
     c \<leftarrow> put_int c MNL2HAL_REQUEST_WAKELOCK;
     Some (MTK_MNL2HAL, sent c)
   }"

definition mnl2hal_release_wakelock :: "(dest \<times> c_char list) option" where
  "mnl2hal_release_wakelock = do {
     c \<leftarrow> put_int (zero_buff HAL_MNL_BUFF_SIZE) HAL_MNL_INTERFACE_VERSION;
     c \<leftarrow> put_int c MNL2HAL_RELEASE_WAKELOCK;
     Some (MTK_MNL2HAL, sent c)
   }"

definition mnl2hal_request_utc_time :: "(dest \<times> c_char list) option" where
  "mnl2hal_request_utc_time = do {
     c \<leftarrow> put_int (zero_buff HAL_MNL_BUFF_SIZE) HAL_MNL_INTERFACE_VERSION;
     c \<leftarrow> put_int c MNL2HAL_REQUEST_UTC_TIME;
     Some (MTK_MNL2HAL, sent c)
   }"

definition mnl2hal_request_data_conn :: "c_char list \<Rightarrow> (dest \<times> c_char list) option" where
  "mnl2hal_request_data_conn addr = do {
     c \<leftarrow> put_int (zero_buff HAL_MNL_BUFF_SIZE) HAL_MNL_INTERFACE_VERSION;
     c \<leftarrow> put_int c MNL2HAL_REQUEST_DATA_CONN;
     c \<leftarrow> put_struct c addr;
     Some (MTK_MNL2HAL, sent c)
   }"

definition mnl2hal_release_data_conn :: "(dest \<times> c_char list) option" where
  "mnl2hal_release_data_conn = do {
     c \<leftarrow> put_int (zero_buff HAL_MNL_BUFF_SIZE) HAL_MNL_INTERFACE_VERSION;
     c \<leftarrow> put_int c MNL2HAL_RELEASE_DATA_CONN;
     Some (MTK_MNL2HAL, sent c)
   }"

definition mnl2hal_request_ni_notify :: "c_int \<Rightarrow> c_int \<Rightarrow> c_string \<Rightarrow> c_string \<Rightarrow> c_int \<Rightarrow> c_int \<Rightarrow> (dest \<times> c_char list) option" where
  "mnl2hal_request_ni_notify session_id type requestor_id client_name requestor_id_encoding client_name_encoding = do {
     c \<leftarrow> put_int (zero_buff HAL_MNL_BUFF_SIZE) HAL_MNL_INTERFACE_VERSION;
     c \<leftarrow> put_int c MNL2HAL_REQUEST_NI_NOTIFY;
     c \<leftarrow> put_int c session_id;
     c \<leftarrow> put_int c type;
     c \<leftarrow> put_string c requestor_id;
     c \<leftarrow> put_string c client_name;
     c \<leftarrow> put_int c requestor_id_encoding;
     c \<leftarrow> put_int c client_name_encoding;
     Some (MTK_MNL2HAL, sent c)
   }"

definition mnl2hal_request_set_id :: "c_int \<Rightarrow> (dest \<times> c_char list) option" where
  "mnl2hal_request_set_id flags = do {
     c \<leftarrow> put_int (zero_buff HAL_MNL_BUFF_SIZE) HAL_MNL_INTERFACE_VERSION;
     c \<leftarrow> put_int c MNL2HAL_REQUEST_SET_ID;
     c \<leftarrow> put_int c flags;
     Some (MTK_MNL2HAL, sent c)
   }"

definition mnl2hal_request_ref_loc :: "c_int \<Rightarrow> (dest \<times> c_char list) option" where
  "mnl2hal_request_ref_loc flags = do {
     c \<leftarrow> put_int (zero_buff HAL_MNL_BUFF_SIZE) HAL_MNL_INTERFACE_VERSION;
     c \<leftarrow> put_int c MNL2HAL_REQUEST_REF_LOC;
     c \<leftarrow> put_int c flags;
     Some (MTK_MNL2HAL, sent c)
   }"

lemmas mnl2hal_senders [sender_defs] =
  mnl2hal_mnld_reboot_def
  mnl2hal_location_def
  mnl2hal_gps_status_def
  mnl2hal_gps_sv_def
  mnl2hal_nmea_def
  mnl2hal_gps_capabilities_def
  mnl2hal_gps_measurements_def
  mnl2hal_gps_navigation_def
  mnl2hal_gnss_measurements_def
  mnl2hal_gnss_navigation_def
  mnl2hal_request_wakelock_def
  mnl2hal_release_wakelock_def
  mnl2hal_request_utc_time_def
  mnl2hal_request_data_conn_def
  mnl2hal_release_data_conn_def
  mnl2hal_request_ni_notify_def
  mnl2hal_request_set_id_def
  mnl2hal_request_ref_loc_def

section \<open>The receiver\<close>

text \<open>The bytes of an uninitialised local, and an \<open>int\<close> read from its bytes.\<close>

definition uninit :: "(nat \<Rightarrow> c_char) \<Rightarrow> nat \<Rightarrow> c_char list" where
  "uninit u n = map u [0..<n]"

lemma length_uninit [simp]: "length (uninit u n) = n"
  by (simp add: uninit_def)

definition le32 :: "c_char list \<Rightarrow> c_int" where
  "le32 bs = ucast (bs ! 0) OR push_bit 8 (ucast (bs ! 1)) OR push_bit 16 (ucast (bs ! 2))
     OR push_bit 24 (ucast (bs ! 3))"

lemma le32_enc_int_append [simp]: "le32 (enc_int v @ bs) = v"
proof (rule bit_word_eqI)
  fix n assume "n < LENGTH(32)"
  then show "bit (le32 (enc_int v @ bs)) n = bit v n"
    by (cases "24 \<le> n") (auto simp: le32_def enc_int_def enc_short_def bit_simps)
qed

lemma le32_enc_int [simp]: "le32 (enc_int v) = v"
  using le32_enc_int_append [of v "[]"] by simp

record 's mnl2hal_interface =
  mh_mnld_reboot :: "('s \<Rightarrow> 's option) option"
  mh_location :: "(c_char list \<Rightarrow> 's \<Rightarrow> 's option) option"
  mh_gps_status :: "(c_int \<Rightarrow> 's \<Rightarrow> 's option) option"
  mh_gps_sv :: "(c_char list \<Rightarrow> 's \<Rightarrow> 's option) option"
  mh_nmea :: "(c_llong \<Rightarrow> c_string \<Rightarrow> c_int \<Rightarrow> 's \<Rightarrow> 's option) option"
  mh_gps_capabilities :: "(c_int \<Rightarrow> 's \<Rightarrow> 's option) option"
  mh_gps_measurements :: "(c_char list \<Rightarrow> 's \<Rightarrow> 's option) option"
  mh_gps_navigation :: "(c_char list \<Rightarrow> 's \<Rightarrow> 's option) option"
  mh_gnss_measurements :: "(c_char list \<Rightarrow> 's \<Rightarrow> 's option) option"
  mh_gnss_navigation :: "(c_char list \<Rightarrow> 's \<Rightarrow> 's option) option"
  mh_request_wakelock :: "('s \<Rightarrow> 's option) option"
  mh_release_wakelock :: "('s \<Rightarrow> 's option) option"
  mh_request_utc_time :: "('s \<Rightarrow> 's option) option"
  mh_request_data_conn :: "(c_char list \<Rightarrow> 's \<Rightarrow> 's option) option"
  mh_release_data_conn :: "('s \<Rightarrow> 's option) option"
  mh_request_ni_notify :: "(c_int \<Rightarrow> c_int \<Rightarrow> c_string \<Rightarrow> c_string \<Rightarrow> c_int \<Rightarrow> c_int \<Rightarrow> 's \<Rightarrow> 's option) option"
  mh_request_set_id :: "(c_int \<Rightarrow> 's \<Rightarrow> 's option) option"
  mh_request_ref_loc :: "(c_int \<Rightarrow> 's \<Rightarrow> 's option) option"

text \<open>The statics of the file: \<open>count\<close> and \<open>report_time_interval\<close>, both \<open>float\<close>.\<close>

record throttle =
  count :: rat
  report_time_interval :: rat

definition throttle_init :: throttle where
  "throttle_init = \<lparr>count = 0, report_time_interval = 0\<rparr>"

text \<open>\<open>report_time_interval > ++count\<close>: the new counter and whether the report is dropped.\<close>

definition throttle_tick :: "throttle \<Rightarrow> bool \<times> throttle" where
  "throttle_tick t =
     (let n = fl32 (count t + 1)
      in if n < report_time_interval t then (True, t\<lparr>count := n\<rparr>) else (False, t\<lparr>count := 0\<rparr>))"

definition mnl2hal_hdlr_location ::
  "(nat \<Rightarrow> c_char) \<Rightarrow> cursor \<Rightarrow> 's mnl2hal_interface \<Rightarrow> 's \<times> throttle \<Rightarrow> (int \<times> 's \<times> throttle) option" where
  "mnl2hal_hdlr_location u c hdlr st =
     (case st of (s, t) \<Rightarrow>
        (case throttle_tick t of
           (True, t) \<Rightarrow> Some (0, s, t)
         | (False, t) \<Rightarrow>
             (case mh_location hdlr of
                Some f \<Rightarrow> do {
                  (location, c) \<leftarrow> get_struct (uninit u 56) c;
                  s \<leftarrow> f location s;
                  Some (0, s, t)
                }
              | None \<Rightarrow> Some (- 1, s, t))))"

definition mnl2hal_hdlr_request ::
  "(nat \<Rightarrow> c_char) \<Rightarrow> c_int \<Rightarrow> cursor \<Rightarrow> 's mnl2hal_interface \<Rightarrow> 's \<Rightarrow> (int \<times> 's) option" where
  "mnl2hal_hdlr_request u cmd c hdlr s =
    (if cmd = MNL2HAL_REQUEST_WAKELOCK then
       (case mh_request_wakelock hdlr of Some f \<Rightarrow> ret0 (f s) | None \<Rightarrow> Some (- 1, s))
     else if cmd = MNL2HAL_RELEASE_WAKELOCK then
       (case mh_release_wakelock hdlr of Some f \<Rightarrow> ret0 (f s) | None \<Rightarrow> Some (- 1, s))
     else if cmd = MNL2HAL_REQUEST_UTC_TIME then
       (case mh_request_utc_time hdlr of Some f \<Rightarrow> ret0 (f s) | None \<Rightarrow> Some (- 1, s))
     else if cmd = MNL2HAL_REQUEST_DATA_CONN then
       (case mh_request_data_conn hdlr of
          Some f \<Rightarrow> do {
            (addr, c) \<leftarrow> get_struct (uninit u 128) c;
            ret0 (f addr s)
          }
        | None \<Rightarrow> Some (- 1, s))
     else if cmd = MNL2HAL_RELEASE_DATA_CONN then
       (case mh_release_data_conn hdlr of Some f \<Rightarrow> ret0 (f s) | None \<Rightarrow> Some (- 1, s))
     else if cmd = MNL2HAL_REQUEST_NI_NOTIFY then
       (case mh_request_ni_notify hdlr of
          Some f \<Rightarrow> do {
            (session_id, c) \<leftarrow> get_int c;
            (type, c) \<leftarrow> get_int c;
            (requestor_id, c) \<leftarrow> get_str c;
            (client_name, c) \<leftarrow> get_str c;
            (requestor_id_encoding, c) \<leftarrow> get_int c;
            (client_name_encoding, c) \<leftarrow> get_int c;
            requestor_id \<leftarrow> requestor_id;
            client_name \<leftarrow> client_name;
            ret0 (f session_id type requestor_id client_name requestor_id_encoding client_name_encoding s)
          }
        | None \<Rightarrow> Some (- 1, s))
     else if cmd = MNL2HAL_REQUEST_SET_ID then
       (case mh_request_set_id hdlr of
          Some f \<Rightarrow> do {
            (flags, c) \<leftarrow> get_int c;
            ret0 (f flags s)
          }
        | None \<Rightarrow> Some (- 1, s))
     else if cmd = MNL2HAL_REQUEST_REF_LOC then
       (case mh_request_ref_loc hdlr of
          Some f \<Rightarrow> do {
            (flags, c) \<leftarrow> get_int c;
            ret0 (f flags s)
          }
        | None \<Rightarrow> Some (- 1, s))
     else Some (- 1, s))"

definition mnl2hal_hdlr_report ::
  "(nat \<Rightarrow> c_char) \<Rightarrow> c_int \<Rightarrow> cursor \<Rightarrow> 's mnl2hal_interface \<Rightarrow> 's \<Rightarrow> (int \<times> 's) option" where
  "mnl2hal_hdlr_report u cmd c hdlr s =
    (if cmd = MNL2HAL_MNLD_REBOOT then
       (case mh_mnld_reboot hdlr of Some f \<Rightarrow> ret0 (f s) | None \<Rightarrow> Some (- 1, s))
     else if cmd = MNL2HAL_GPS_STATUS then
       (case mh_gps_status hdlr of
          Some f \<Rightarrow> do {
            (status, c) \<leftarrow> get_struct (uninit u 4) c;
            ret0 (f (le32 status) s)
          }
        | None \<Rightarrow> Some (- 1, s))
     else if cmd = MNL2HAL_GPS_SV then
       (case mh_gps_sv hdlr of
          Some f \<Rightarrow> do {
            (sv, c) \<leftarrow> get_struct (uninit u 1284) c;
            ret0 (f sv s)
          }
        | None \<Rightarrow> Some (- 1, s))
     else if cmd = MNL2HAL_NMEA then
       (case mh_nmea hdlr of
          Some f \<Rightarrow> do {
            (timestamp, c) \<leftarrow> get_long c;
            (nmea, c) \<leftarrow> get_str c;
            (nmea_length, c) \<leftarrow> get_int c;
            nmea \<leftarrow> nmea;
            ret0 (f timestamp nmea nmea_length s)
          }
        | None \<Rightarrow> Some (- 1, s))
     else if cmd = MNL2HAL_GPS_CAPABILITIES then
       (case mh_gps_capabilities hdlr of
          Some f \<Rightarrow> do {
            (capabilities, c) \<leftarrow> get_struct (uninit u 4) c;
            ret0 (f (le32 capabilities) s)
          }
        | None \<Rightarrow> Some (- 1, s))
     else if cmd = MNL2HAL_GPS_MEASUREMENTS then
       (case mh_gps_measurements hdlr of
          Some f \<Rightarrow> do {
            (data, c) \<leftarrow> get_struct (uninit u 7752) c;
            ret0 (f data s)
          }
        | None \<Rightarrow> Some (- 1, s))
     else if cmd = MNL2HAL_GPS_NAVIGATION then
       (case mh_gps_navigation hdlr of
          Some f \<Rightarrow> do {
            (msg, c) \<leftarrow> get_struct (uninit u 52) c;
            ret0 (f msg s)
          }
        | None \<Rightarrow> Some (- 1, s))
     else if cmd = MNL2HAL_GNSS_MEASUREMENTS then
       (case mh_gnss_measurements hdlr of
          Some f \<Rightarrow> do {
            (data, c) \<leftarrow> get_struct (uninit u 8784) c;
            ret0 (f data s)
          }
        | None \<Rightarrow> Some (- 1, s))
     else if cmd = MNL2HAL_GNSS_NAVIGATION then
       (case mh_gnss_navigation hdlr of
          Some f \<Rightarrow> do {
            (msg, c) \<leftarrow> get_struct (uninit u 24) c;
            ret0 (f msg s)
          }
        | None \<Rightarrow> Some (- 1, s))
     else mnl2hal_hdlr_request u cmd c hdlr s)"

definition mnl2hal_switch ::
  "(nat \<Rightarrow> c_char) \<Rightarrow> c_int \<Rightarrow> cursor \<Rightarrow> 's mnl2hal_interface \<Rightarrow> 's \<times> throttle \<Rightarrow> (int \<times> 's \<times> throttle) option" where
  "mnl2hal_switch u cmd c hdlr st =
     (if cmd = MNL2HAL_LOCATION then mnl2hal_hdlr_location u c hdlr st
      else map_option (\<lambda>(ret, s). (ret, s, snd st)) (mnl2hal_hdlr_report u cmd c hdlr (fst st)))"

definition mnl2hal_hdlr ::
  "(nat \<Rightarrow> c_char) \<Rightarrow> rx list \<Rightarrow> 's mnl2hal_interface \<Rightarrow> 's \<times> throttle \<Rightarrow>
   (int \<times> ('s \<times> throttle) \<times> rx list) option" where
  "mnl2hal_hdlr u rs hdlr st =
     (case safe_recvfrom HAL_MNL_BUFF_SIZE rs of
        (read_len, d, rs) \<Rightarrow>
          if read_len \<le> 0 then Some (- 1, st, rs)
          else do {
            (ver, c) \<leftarrow> get_int (recv_buff HAL_MNL_BUFF_SIZE d);
            (cmd, c) \<leftarrow> get_int c;
            (ret, st) \<leftarrow> mnl2hal_switch u cmd c hdlr st;
            Some (ret, st, rs)
          })"

section \<open>Messages\<close>

datatype mnl2hal_msg =
    M2H_mnld_reboot 
  | M2H_location "c_char list"
  | M2H_gps_status c_int
  | M2H_gps_sv "c_char list"
  | M2H_nmea c_llong c_string c_int
  | M2H_gps_capabilities c_int
  | M2H_gps_measurements "c_char list"
  | M2H_gps_navigation "c_char list"
  | M2H_gnss_measurements "c_char list"
  | M2H_gnss_navigation "c_char list"
  | M2H_request_wakelock 
  | M2H_release_wakelock 
  | M2H_request_utc_time 
  | M2H_request_data_conn "c_char list"
  | M2H_release_data_conn 
  | M2H_request_ni_notify c_int c_int c_string c_string c_int c_int
  | M2H_request_set_id c_int
  | M2H_request_ref_loc c_int

fun send_mnl2hal :: "mnl2hal_msg \<Rightarrow> (dest \<times> c_char list) option" where
  "send_mnl2hal M2H_mnld_reboot = mnl2hal_mnld_reboot"
| "send_mnl2hal (M2H_location location) = mnl2hal_location location"
| "send_mnl2hal (M2H_gps_status status) = mnl2hal_gps_status status"
| "send_mnl2hal (M2H_gps_sv sv) = mnl2hal_gps_sv sv"
| "send_mnl2hal (M2H_nmea timestamp nmea nmea_length) = mnl2hal_nmea timestamp nmea nmea_length"
| "send_mnl2hal (M2H_gps_capabilities capabilities) = mnl2hal_gps_capabilities capabilities"
| "send_mnl2hal (M2H_gps_measurements data) = mnl2hal_gps_measurements data"
| "send_mnl2hal (M2H_gps_navigation msg) = mnl2hal_gps_navigation msg"
| "send_mnl2hal (M2H_gnss_measurements data) = mnl2hal_gnss_measurements data"
| "send_mnl2hal (M2H_gnss_navigation msg) = mnl2hal_gnss_navigation msg"
| "send_mnl2hal M2H_request_wakelock = mnl2hal_request_wakelock"
| "send_mnl2hal M2H_release_wakelock = mnl2hal_release_wakelock"
| "send_mnl2hal M2H_request_utc_time = mnl2hal_request_utc_time"
| "send_mnl2hal (M2H_request_data_conn addr) = mnl2hal_request_data_conn addr"
| "send_mnl2hal M2H_release_data_conn = mnl2hal_release_data_conn"
| "send_mnl2hal (M2H_request_ni_notify session_id type requestor_id client_name requestor_id_encoding client_name_encoding) = mnl2hal_request_ni_notify session_id type requestor_id client_name requestor_id_encoding client_name_encoding"
| "send_mnl2hal (M2H_request_set_id flags) = mnl2hal_request_set_id flags"
| "send_mnl2hal (M2H_request_ref_loc flags) = mnl2hal_request_ref_loc flags"

text \<open>The callback a message is for; a location report first passes the throttle.\<close>

fun call_mnl2hal :: "'s mnl2hal_interface \<Rightarrow> mnl2hal_msg \<Rightarrow> 's \<times> throttle \<Rightarrow> (int \<times> 's \<times> throttle) option" where
  "call_mnl2hal h M2H_mnld_reboot (s, t) =
     (case mh_mnld_reboot h of Some f \<Rightarrow> map_option (\<lambda>s. (0, s, t)) (f s) | None \<Rightarrow> Some (- 1, s, t))"
| "call_mnl2hal h (M2H_location location) (s, t) =
     (case throttle_tick t of (True, t) \<Rightarrow> Some (0, s, t)
      | (False, t) \<Rightarrow> (case mh_location h of Some f \<Rightarrow> map_option (\<lambda>s. (0, s, t)) (f location s)
                          | None \<Rightarrow> Some (- 1, s, t)))"
| "call_mnl2hal h (M2H_gps_status status) (s, t) =
     (case mh_gps_status h of Some f \<Rightarrow> map_option (\<lambda>s. (0, s, t)) (f status s) | None \<Rightarrow> Some (- 1, s, t))"
| "call_mnl2hal h (M2H_gps_sv sv) (s, t) =
     (case mh_gps_sv h of Some f \<Rightarrow> map_option (\<lambda>s. (0, s, t)) (f sv s) | None \<Rightarrow> Some (- 1, s, t))"
| "call_mnl2hal h (M2H_nmea timestamp nmea nmea_length) (s, t) =
     (case mh_nmea h of Some f \<Rightarrow> map_option (\<lambda>s. (0, s, t)) (f timestamp nmea nmea_length s) | None \<Rightarrow> Some (- 1, s, t))"
| "call_mnl2hal h (M2H_gps_capabilities capabilities) (s, t) =
     (case mh_gps_capabilities h of Some f \<Rightarrow> map_option (\<lambda>s. (0, s, t)) (f capabilities s) | None \<Rightarrow> Some (- 1, s, t))"
| "call_mnl2hal h (M2H_gps_measurements data) (s, t) =
     (case mh_gps_measurements h of Some f \<Rightarrow> map_option (\<lambda>s. (0, s, t)) (f data s) | None \<Rightarrow> Some (- 1, s, t))"
| "call_mnl2hal h (M2H_gps_navigation msg) (s, t) =
     (case mh_gps_navigation h of Some f \<Rightarrow> map_option (\<lambda>s. (0, s, t)) (f msg s) | None \<Rightarrow> Some (- 1, s, t))"
| "call_mnl2hal h (M2H_gnss_measurements data) (s, t) =
     (case mh_gnss_measurements h of Some f \<Rightarrow> map_option (\<lambda>s. (0, s, t)) (f data s) | None \<Rightarrow> Some (- 1, s, t))"
| "call_mnl2hal h (M2H_gnss_navigation msg) (s, t) =
     (case mh_gnss_navigation h of Some f \<Rightarrow> map_option (\<lambda>s. (0, s, t)) (f msg s) | None \<Rightarrow> Some (- 1, s, t))"
| "call_mnl2hal h M2H_request_wakelock (s, t) =
     (case mh_request_wakelock h of Some f \<Rightarrow> map_option (\<lambda>s. (0, s, t)) (f s) | None \<Rightarrow> Some (- 1, s, t))"
| "call_mnl2hal h M2H_release_wakelock (s, t) =
     (case mh_release_wakelock h of Some f \<Rightarrow> map_option (\<lambda>s. (0, s, t)) (f s) | None \<Rightarrow> Some (- 1, s, t))"
| "call_mnl2hal h M2H_request_utc_time (s, t) =
     (case mh_request_utc_time h of Some f \<Rightarrow> map_option (\<lambda>s. (0, s, t)) (f s) | None \<Rightarrow> Some (- 1, s, t))"
| "call_mnl2hal h (M2H_request_data_conn addr) (s, t) =
     (case mh_request_data_conn h of Some f \<Rightarrow> map_option (\<lambda>s. (0, s, t)) (f addr s) | None \<Rightarrow> Some (- 1, s, t))"
| "call_mnl2hal h M2H_release_data_conn (s, t) =
     (case mh_release_data_conn h of Some f \<Rightarrow> map_option (\<lambda>s. (0, s, t)) (f s) | None \<Rightarrow> Some (- 1, s, t))"
| "call_mnl2hal h (M2H_request_ni_notify session_id type requestor_id client_name requestor_id_encoding client_name_encoding) (s, t) =
     (case mh_request_ni_notify h of Some f \<Rightarrow> map_option (\<lambda>s. (0, s, t)) (f session_id type requestor_id client_name requestor_id_encoding client_name_encoding s) | None \<Rightarrow> Some (- 1, s, t))"
| "call_mnl2hal h (M2H_request_set_id flags) (s, t) =
     (case mh_request_set_id h of Some f \<Rightarrow> map_option (\<lambda>s. (0, s, t)) (f flags s) | None \<Rightarrow> Some (- 1, s, t))"
| "call_mnl2hal h (M2H_request_ref_loc flags) (s, t) =
     (case mh_request_ref_loc h of Some f \<Rightarrow> map_option (\<lambda>s. (0, s, t)) (f flags s) | None \<Rightarrow> Some (- 1, s, t))"

fun mnl2hal_ok :: "mnl2hal_msg \<Rightarrow> bool" where
  "mnl2hal_ok (M2H_location location) = (length location = 56)"
| "mnl2hal_ok (M2H_gps_sv sv) = (length sv = 1284)"
| "mnl2hal_ok (M2H_nmea _ nmea _) = string_ok nmea"
| "mnl2hal_ok (M2H_gps_measurements data) = (length data = 7752)"
| "mnl2hal_ok (M2H_gps_navigation msg) = (length msg = 52)"
| "mnl2hal_ok (M2H_gnss_measurements data) = (length data = 8784)"
| "mnl2hal_ok (M2H_gnss_navigation msg) = (length msg = 24)"
| "mnl2hal_ok (M2H_request_data_conn addr) = (length addr = 128)"
| "mnl2hal_ok (M2H_request_ni_notify _ _ requestor_id client_name _ _) = (string_ok requestor_id \<and> string_ok client_name)"
| "mnl2hal_ok _ = True"

text \<open>The wire format.\<close>

fun wire_mnl2hal :: "mnl2hal_msg \<Rightarrow> c_char list" where
  "wire_mnl2hal M2H_mnld_reboot =
     enc_int HAL_MNL_INTERFACE_VERSION @ enc_int MNL2HAL_MNLD_REBOOT"
| "wire_mnl2hal (M2H_location location) =
     enc_int HAL_MNL_INTERFACE_VERSION @ enc_int MNL2HAL_LOCATION @ enc_binary location"
| "wire_mnl2hal (M2H_gps_status status) =
     enc_int HAL_MNL_INTERFACE_VERSION @ enc_int MNL2HAL_GPS_STATUS @ enc_binary (enc_int status)"
| "wire_mnl2hal (M2H_gps_sv sv) =
     enc_int HAL_MNL_INTERFACE_VERSION @ enc_int MNL2HAL_GPS_SV @ enc_binary sv"
| "wire_mnl2hal (M2H_nmea timestamp nmea nmea_length) =
     enc_int HAL_MNL_INTERFACE_VERSION @ enc_int MNL2HAL_NMEA @ enc_long timestamp @ enc_string nmea @ enc_int nmea_length"
| "wire_mnl2hal (M2H_gps_capabilities capabilities) =
     enc_int HAL_MNL_INTERFACE_VERSION @ enc_int MNL2HAL_GPS_CAPABILITIES @ enc_binary (enc_int capabilities)"
| "wire_mnl2hal (M2H_gps_measurements data) =
     enc_int HAL_MNL_INTERFACE_VERSION @ enc_int MNL2HAL_GPS_MEASUREMENTS @ enc_binary data"
| "wire_mnl2hal (M2H_gps_navigation msg) =
     enc_int HAL_MNL_INTERFACE_VERSION @ enc_int MNL2HAL_GPS_NAVIGATION @ enc_binary msg"
| "wire_mnl2hal (M2H_gnss_measurements data) =
     enc_int HAL_MNL_INTERFACE_VERSION @ enc_int MNL2HAL_GNSS_MEASUREMENTS @ enc_binary data"
| "wire_mnl2hal (M2H_gnss_navigation msg) =
     enc_int HAL_MNL_INTERFACE_VERSION @ enc_int MNL2HAL_GNSS_NAVIGATION @ enc_binary msg"
| "wire_mnl2hal M2H_request_wakelock =
     enc_int HAL_MNL_INTERFACE_VERSION @ enc_int MNL2HAL_REQUEST_WAKELOCK"
| "wire_mnl2hal M2H_release_wakelock =
     enc_int HAL_MNL_INTERFACE_VERSION @ enc_int MNL2HAL_RELEASE_WAKELOCK"
| "wire_mnl2hal M2H_request_utc_time =
     enc_int HAL_MNL_INTERFACE_VERSION @ enc_int MNL2HAL_REQUEST_UTC_TIME"
| "wire_mnl2hal (M2H_request_data_conn addr) =
     enc_int HAL_MNL_INTERFACE_VERSION @ enc_int MNL2HAL_REQUEST_DATA_CONN @ enc_binary addr"
| "wire_mnl2hal M2H_release_data_conn =
     enc_int HAL_MNL_INTERFACE_VERSION @ enc_int MNL2HAL_RELEASE_DATA_CONN"
| "wire_mnl2hal (M2H_request_ni_notify session_id type requestor_id client_name requestor_id_encoding client_name_encoding) =
     enc_int HAL_MNL_INTERFACE_VERSION @ enc_int MNL2HAL_REQUEST_NI_NOTIFY @ enc_int session_id @ enc_int type @ enc_string requestor_id @ enc_string client_name @ enc_int requestor_id_encoding @ enc_int client_name_encoding"
| "wire_mnl2hal (M2H_request_set_id flags) =
     enc_int HAL_MNL_INTERFACE_VERSION @ enc_int MNL2HAL_REQUEST_SET_ID @ enc_int flags"
| "wire_mnl2hal (M2H_request_ref_loc flags) =
     enc_int HAL_MNL_INTERFACE_VERSION @ enc_int MNL2HAL_REQUEST_REF_LOC @ enc_int flags"
section \<open>The senders produce the wire format, the receiver calls the callback\<close>

lemma send_mnl2hal_eq:
  assumes "mnl2hal_ok m"
  shows "send_mnl2hal m = (if length (wire_mnl2hal m) \<le> HAL_MNL_BUFF_SIZE
           then Some (MTK_MNL2HAL, wire_mnl2hal m) else None)"
  using assms
  by (cases m) (auto simp: sender_defs zero_buff_rd sent_rd store_simps binary_ok_def)

lemma mnl2hal_run:
  assumes "mnl2hal_ok m" "length (wire_mnl2hal m) \<le> HAL_MNL_BUFF_SIZE"
  shows "do { (ver, c) \<leftarrow> get_int (rd HAL_MNL_BUFF_SIZE [] (wire_mnl2hal m));
              (cmd, c) \<leftarrow> get_int c; mnl2hal_switch u cmd c h (s, t) } = call_mnl2hal h m (s, t)"
  using assms
  by (cases m) (auto simp: store_simps mnl2hal_switch_def mnl2hal_hdlr_location_def
      mnl2hal_hdlr_report_def mnl2hal_hdlr_request_def option.map_comp comp_def ret0_def bind_eq_map
      split: option.splits prod.splits bool.splits)

lemma mnl2hal_hdlr_unfold:
  assumes "0 < length d" "length d \<le> HAL_MNL_BUFF_SIZE"
  shows "mnl2hal_hdlr u (RxData d # rs) h st =
    map_option (\<lambda>(r, st). (r, st, rs))
      (do { (ver, c) \<leftarrow> get_int (rd HAL_MNL_BUFF_SIZE [] d);
            (cmd, c) \<leftarrow> get_int c; mnl2hal_switch u cmd c h st })"
  using assms by (auto simp: mnl2hal_hdlr_def safe_recvfrom_def recv_buff_rd split: Option.bind_splits)

lemma wire_mnl2hal_pos: "0 < length (wire_mnl2hal m)"
  by (cases m) auto

lemma mnl2hal_delivered:
  assumes "mnl2hal_ok m" "send_mnl2hal m = Some (q, d)"
  shows "mnl2hal_hdlr u (RxData d # rs) h st = map_option (\<lambda>(r, st). (r, st, rs)) (call_mnl2hal h m st)"
proof -
  obtain s t where st: "st = (s, t)" by (cases st)
  have d: "d = wire_mnl2hal m" and len: "length (wire_mnl2hal m) \<le> HAL_MNL_BUFF_SIZE"
    using assms by (auto simp: send_mnl2hal_eq split: if_splits)
  show ?thesis
    unfolding d st mnl2hal_hdlr_unfold [OF wire_mnl2hal_pos len] mnl2hal_run [OF assms(1) len] ..
qed

interpretation m2h: channel "\<lambda>m. map_option snd (send_mnl2hal m)" "\<lambda>rs st. mnl2hal_hdlr u rs h st"
    "call_mnl2hal h" mnl2hal_ok for u h
  by unfold_locales (auto intro: mnl2hal_delivered)

section \<open>The throttle\<close>

text \<open>Every \<open>k\<close>-th element, when \<open>j\<close> have been passed over since the last one.\<close>

fun every :: "nat \<Rightarrow> nat \<Rightarrow> 'a list \<Rightarrow> 'a list" where
  "every k j [] = []"
| "every k j (x # xs) = (if Suc j < k then every k (Suc j) xs else x # every k 0 xs)"

lemma every_nths: "j < k \<Longrightarrow> every k j xs = nths xs {i. k dvd Suc (i + j)}"
proof (induction xs arbitrary: j)
  case (Cons x xs)
  show ?case
  proof (cases "Suc j < k")
    case True
    then have "\<not> k dvd Suc j" by (auto dest: dvd_imp_le)
    with True Cons.IH [of "Suc j"] show ?thesis by (simp add: nths_Cons)
  next
    case False
    with Cons.prems have k: "k = Suc j" by simp
    have "{i. k dvd Suc (Suc i + j)} = {i. k dvd Suc i}"
    proof -
      have "k dvd Suc (Suc i + j) \<longleftrightarrow> k dvd Suc i" for i
      proof -
        have eq: "Suc (Suc i + j) = Suc i + k" by (simp add: k)
        show ?thesis unfolding eq by (simp only: dvd_add_triv_right_iff)
      qed
      then show ?thesis by simp
    qed
    with False k Cons.IH [of 0] show ?thesis by (simp add: nths_Cons)
  qed
qed simp

definition interval_steps :: "rat \<Rightarrow> nat" where
  "interval_steps r = max 1 (nat \<lceil>r\<rceil>)"

lemma throttle_tick_count:
  assumes "Suc j < 2 ^ 24" "count t = of_nat j"
  shows "throttle_tick t =
    (if Suc j < interval_steps (report_time_interval t)
     then (True, t\<lparr>count := of_nat (Suc j)\<rparr>) else (False, t\<lparr>count := 0\<rparr>))"
proof -
  have "fl32 (count t + 1) = of_nat (Suc j)"
    using fl_of_nat [OF assms(1)] assms(2) by (simp add: add.commute)
  moreover have "(of_nat (Suc j) < report_time_interval t) = (Suc j < interval_steps (report_time_interval t))"
  proof -
    have "(of_nat (Suc j) < report_time_interval t) = (int (Suc j) < \<lceil>report_time_interval t\<rceil>)"
      by (simp add: less_ceiling_iff)
    then show ?thesis by (auto simp: interval_steps_def)
  qed
  ultimately show ?thesis by (simp add: throttle_tick_def Let_def)
qed

lemma calls_location:
  assumes "mh_location h = Some (\<lambda>l s. Some (s @ [l]))"
    and "interval_steps (report_time_interval t) < 2 ^ 24"
    and "count t = of_nat j" "j < interval_steps (report_time_interval t)"
  shows "\<exists>t'. calls (call_mnl2hal h) (map M2H_location ls) (s, t) =
     Some (s @ every (interval_steps (report_time_interval t)) j ls, t')"
  using assms(2-4)
proof (induction ls arbitrary: s t j)
  case (Cons l ls)
  let ?k = "interval_steps (report_time_interval t)"
  show ?case
  proof (cases "Suc j < ?k")
    case True
    then have "throttle_tick t = (True, t\<lparr>count := of_nat (Suc j)\<rparr>)"
      using Cons.prems by (subst throttle_tick_count [of j]) auto
    then show ?thesis
      using True Cons.prems Cons.IH [of "t\<lparr>count := of_nat (Suc j)\<rparr>" "Suc j" s] by simp
  next
    case False
    then have "throttle_tick t = (False, t\<lparr>count := 0\<rparr>)"
      using Cons.prems by (subst throttle_tick_count [of j]) auto
    then show ?thesis
      using False Cons.prems assms(1) Cons.IH [of "t\<lparr>count := 0\<rparr>" 0 "s @ [l]"]
      by (simp add: interval_steps_def)
  qed
qed simp

lemma report_interval_seconds:
  assumes "1 \<le> n" "1000 * n < 2 ^ 24"
  shows "report_interval (word_of_nat (1000 * n)) = of_nat n"
proof -
  have s: "sint (word_of_nat (1000 * n) :: c_int) = int (1000 * n)"
    using assms by (intro sint_of_nat_small) simp
  show ?thesis
  proof (cases "n = 1")
    case True
    then show ?thesis by (simp add: report_interval_def)
  next
    case False
    have exact: "fl32 (of_nat (1000 * n)) = of_nat (1000 * n)" "fl32 (of_nat n) = of_nat n"
      using assms by (intro fl_of_nat; simp)+
    have div: "(of_nat (1000 * n) :: rat) / 1000 = of_nat n" by simp
    have "report_interval (word_of_nat (1000 * n)) = fl32 (fl32 (of_int (int (1000 * n))) / 1000)"
      unfolding report_interval_def s using assms False by simp
    also have "\<dots> = of_nat n"
      by (simp only: of_int_of_nat_eq exact div)
    finally show ?thesis .
  qed
qed

lemma interval_steps_of_nat [simp]: "interval_steps (of_nat n) = max 1 n"
proof -
  have "\<lceil>of_nat n :: rat\<rceil> = int n" by (metis ceiling_of_nat)
  then show ?thesis by (simp add: interval_steps_def)
qed

section \<open>Properties\<close>

text \<open>C35. A message the daemon sends, with structures of their declared sizes and C strings, runs, in the HAL, exactly the
  callback it is for with the sender's arguments; but a location report runs it only when the throttle of the HAL lets it pass.\<close>

theorem mnl2hal_round_trip:
  assumes "mnl2hal_ok m" "send_mnl2hal m = Some (q, d)"
  shows "q = MTK_MNL2HAL \<and>
    mnl2hal_hdlr u (RxData d # rs) h st = map_option (\<lambda>(r, st). (r, st, rs)) (call_mnl2hal h m st)"
  using assms mnl2hal_delivered [OF assms, of u rs h st] by (auto simp: send_mnl2hal_eq split: if_splits)

definition no_mnl2hal_callbacks :: "'s mnl2hal_interface" where
  "no_mnl2hal_callbacks = \<lparr>mh_mnld_reboot = None, mh_location = None, mh_gps_status = None,
     mh_gps_sv = None, mh_nmea = None, mh_gps_capabilities = None, mh_gps_measurements = None,
     mh_gps_navigation = None, mh_gnss_measurements = None, mh_gnss_navigation = None,
     mh_request_wakelock = None, mh_release_wakelock = None, mh_request_utc_time = None,
     mh_request_data_conn = None, mh_release_data_conn = None, mh_request_ni_notify = None,
     mh_request_set_id = None, mh_request_ref_loc = None\<rparr>"

definition logging_reports :: "c_char list list mnl2hal_interface" where
  "logging_reports = no_mnl2hal_callbacks\<lparr>
     mh_location := Some (\<lambda>l s. Some (s @ [l])),
     mh_gps_status := Some (\<lambda>x s. Some (s @ [enc_int x]))\<rparr>"

lemma send_status_sample:
  "send_mnl2hal (M2H_gps_status 3) = Some (MTK_MNL2HAL, wire_mnl2hal (M2H_gps_status 3))"
  by (subst send_mnl2hal_eq) auto

theorem mnl2hal_round_trip_witness:
  "mnl2hal_hdlr (\<lambda>_. 0) [RxData (wire_mnl2hal (M2H_gps_status 3))] logging_reports ([], throttle_init) =
     Some (0, ([enc_int 3], throttle_init), [])"
  using mnl2hal_round_trip [OF _ send_status_sample, of "\<lambda>_. 0" "[]" logging_reports "([], throttle_init)"]
  by (simp add: logging_reports_def)

text \<open>After the application asked for a fix every \<open>n\<close> seconds (through
  \<open>hal2mnl_gps_set_position_mode\<close>), a stream of location reports from the daemon reaches the
  application's callback once in every \<open>n\<close> reports: exactly the reports number \<open>n\<close>,
  \<open>2 n\<close>, ... of the stream, in order.\<close>

theorem location_throttle:
  assumes "1 \<le> n" "1000 * n < 2 ^ 24"
    and "hal2mnl_gps_set_position_mode mode rec (word_of_nat (1000 * n)) acc pt = Some (iv, q, d)"
    and "mh_location h = Some (\<lambda>l s. Some (s @ [l]))" "\<forall>l\<in>set ls. length l = 56"
  shows "\<exists>t. serve (\<lambda>rs st. mnl2hal_hdlr u rs h st) (length ls)
       (map (\<lambda>l. RxData (wire_mnl2hal (M2H_location l))) ls) ([], \<lparr>count = 0, report_time_interval = iv\<rparr>) =
     Some ((nths ls {i. n dvd Suc i}, t), [])"
proof -
  have iv: "iv = of_nat n"
    using assms(1-3) report_interval_seconds [of n]
    by (simp add: sender_defs zero_buff_rd sent_rd store_simps)
  let ?t = "\<lparr>count = 0, report_time_interval = iv\<rparr>"
  have k: "interval_steps (report_time_interval ?t) = n"
    using assms(1) by (simp add: iv)
  obtain t where t: "calls (call_mnl2hal h) (map M2H_location ls) ([], ?t) = Some (every n 0 ls, t)"
    using calls_location [OF assms(4), of ?t 0 ls "[]"] assms(1,2) unfolding k by auto
  have sends: "send_mnl2hal (M2H_location l) = Some (MTK_MNL2HAL, wire_mnl2hal (M2H_location l))"
    if "length l = 56" for l
    using that by (subst send_mnl2hal_eq) auto
  have "serve (\<lambda>rs st. mnl2hal_hdlr u rs h st) (length (map M2H_location ls))
      (map RxData (map (\<lambda>l. wire_mnl2hal (M2H_location l)) ls) @ []) ([], ?t) =
    map_option (\<lambda>s. (s, [])) (calls (call_mnl2hal h) (map M2H_location ls) ([], ?t))"
    using assms(5) sends by (intro m2h.serve_calls) (auto simp del: send_mnl2hal.simps)
  then show ?thesis
    using assms(1) by (simp add: t every_nths comp_def)
qed

theorem location_throttle_witness:
  "\<exists>t. serve (\<lambda>rs st. mnl2hal_hdlr (\<lambda>_. 0) rs logging_reports st) 5
       (map (\<lambda>l. RxData (wire_mnl2hal (M2H_location l))) (map (replicate 56) [1, 2, 3, 4, 5]))
       ([], \<lparr>count = 0, report_time_interval = 2\<rparr>) =
     Some (([replicate 56 2, replicate 56 4], t), [])"
proof -
  let ?ls = "map (replicate 56) [1, 2, 3, 4, 5] :: c_char list list"
  have iv: "report_interval 2000 = 2"
    using report_interval_seconds [of 2] by simp
  have mode: "hal2mnl_gps_set_position_mode 0 0 (word_of_nat (1000 * 2)) 0 0 =
      Some (2, MTK_HAL2MNL, wire_hal2mnl (H2M_gps_set_position_mode 0 0 2000 0 0))"
    by (simp add: sender_defs zero_buff_rd sent_rd store_simps iv)
  have "nths ?ls {i. 2 dvd Suc i} = [replicate 56 2, replicate 56 4]"
    by (simp add: nths_Cons)
  moreover have "length ?ls = 5" by simp
  moreover have "\<forall>l\<in>set ?ls. length l = 56" by simp
  ultimately show ?thesis
    using location_throttle [OF _ _ mode, of logging_reports ?ls "\<lambda>_. 0"]
    by (simp only: logging_reports_def) simp
qed

end
