(* ===== verification/Mnl2Agps.thy ===== *)
theory Mnl2Agps
  imports Mnl2Hal
begin

text \<open>
  Daemon to AGPS daemon: the senders of
  \<^verbatim>\<open>mtk/gps/mtk_mnld/mnl_agps_interface/src/mnl2agps_interface.c\<close> and the receiver
  \<open>mnl2agps_hdlr\<close> of \<^verbatim>\<open>agps2mnl_interface.c\<close> beside it. The receiver reads the arguments
  before it looks at the function pointer (except for \<open>location_sync\<close>), and returns nothing.
\<close>

abbreviation MNL_AGPS_MAX_BUFF_SIZE :: nat where "MNL_AGPS_MAX_BUFF_SIZE \<equiv> 8192"
abbreviation MNL_AGPS_INTERFACE_VERSION :: c_int where "MNL_AGPS_INTERFACE_VERSION \<equiv> 1"

abbreviation MNL_AGPS_TYPE_MNL_REBOOT :: c_int where "MNL_AGPS_TYPE_MNL_REBOOT \<equiv> 100"
abbreviation MNL_AGPS_TYPE_AGPS_OPEN_GPS_DONE :: c_int where "MNL_AGPS_TYPE_AGPS_OPEN_GPS_DONE \<equiv> 110"
abbreviation MNL_AGPS_TYPE_AGPS_CLOSE_GPS_DONE :: c_int where "MNL_AGPS_TYPE_AGPS_CLOSE_GPS_DONE \<equiv> 111"
abbreviation MNL_AGPS_TYPE_AGPS_RESET_GPS_DONE :: c_int where "MNL_AGPS_TYPE_AGPS_RESET_GPS_DONE \<equiv> 112"
abbreviation MNL_AGPS_TYPE_GPS_INIT :: c_int where "MNL_AGPS_TYPE_GPS_INIT \<equiv> 120"
abbreviation MNL_AGPS_TYPE_GPS_CLEANUP :: c_int where "MNL_AGPS_TYPE_GPS_CLEANUP \<equiv> 121"
abbreviation MNL_AGPS_TYPE_SET_SERVER :: c_int where "MNL_AGPS_TYPE_SET_SERVER \<equiv> 132"
abbreviation MNL_AGPS_TYPE_DELETE_AIDING_DATA :: c_int where "MNL_AGPS_TYPE_DELETE_AIDING_DATA \<equiv> 122"
abbreviation MNL_AGPS_TYPE_GPS_OPEN :: c_int where "MNL_AGPS_TYPE_GPS_OPEN \<equiv> 123"
abbreviation MNL_AGPS_TYPE_GPS_CLOSE :: c_int where "MNL_AGPS_TYPE_GPS_CLOSE \<equiv> 124"
abbreviation MNL_AGPS_TYPE_DATA_CONN_OPEN :: c_int where "MNL_AGPS_TYPE_DATA_CONN_OPEN \<equiv> 125"
abbreviation MNL_AGPS_TYPE_DATA_CONN_OPEN_IP_TYPE :: c_int where "MNL_AGPS_TYPE_DATA_CONN_OPEN_IP_TYPE \<equiv> 135"
abbreviation MNL_AGPS_TYPE_INSTALL_CERTIFICATES :: c_int where "MNL_AGPS_TYPE_INSTALL_CERTIFICATES \<equiv> 136"
abbreviation MNL_AGPS_TYPE_REVOKE_CERTIFICATES :: c_int where "MNL_AGPS_TYPE_REVOKE_CERTIFICATES \<equiv> 137"
abbreviation MNL_AGPS_TYPE_DATA_CONN_FAILED :: c_int where "MNL_AGPS_TYPE_DATA_CONN_FAILED \<equiv> 126"
abbreviation MNL_AGPS_TYPE_DATA_CONN_CLOSED :: c_int where "MNL_AGPS_TYPE_DATA_CONN_CLOSED \<equiv> 127"
abbreviation MNL_AGPS_TYPE_NI_MESSAGE :: c_int where "MNL_AGPS_TYPE_NI_MESSAGE \<equiv> 128"
abbreviation MNL_AGPS_TYPE_NI_RESPOND :: c_int where "MNL_AGPS_TYPE_NI_RESPOND \<equiv> 129"
abbreviation MNL_AGPS_TYPE_SET_REF_LOC :: c_int where "MNL_AGPS_TYPE_SET_REF_LOC \<equiv> 130"
abbreviation MNL_AGPS_TYPE_SET_SET_ID :: c_int where "MNL_AGPS_TYPE_SET_SET_ID \<equiv> 131"
abbreviation MNL_AGPS_TYPE_UPDATE_NETWORK_STATE :: c_int where "MNL_AGPS_TYPE_UPDATE_NETWORK_STATE \<equiv> 133"
abbreviation MNL_AGPS_TYPE_UPDATE_NETWORK_AVAILABILITY :: c_int where "MNL_AGPS_TYPE_UPDATE_NETWORK_AVAILABILITY \<equiv> 134"
abbreviation MNL_AGPS_TYPE_MNL2AGPS_PMTK :: c_int where "MNL_AGPS_TYPE_MNL2AGPS_PMTK \<equiv> 150"
abbreviation MNL_AGPS_TYPE_RAW_DBG :: c_int where "MNL_AGPS_TYPE_RAW_DBG \<equiv> 151"
abbreviation MNL_AGPS_TYPE_REAIDING :: c_int where "MNL_AGPS_TYPE_REAIDING \<equiv> 152"
abbreviation MNL_AGPS_TYPE_LOCATION_SYNC :: c_int where "MNL_AGPS_TYPE_LOCATION_SYNC \<equiv> 153"
abbreviation MNL_AGPS_TYPE_SETTINGS_ACK :: c_int where "MNL_AGPS_TYPE_SETTINGS_ACK \<equiv> 154"

section \<open>Senders\<close>

definition mnl2agps_mnl_reboot :: "(dest \<times> c_char list) option" where
  "mnl2agps_mnl_reboot = do {
     c \<leftarrow> put_int (zero_buff MNL_AGPS_MAX_BUFF_SIZE) MNL_AGPS_INTERFACE_VERSION;
     c \<leftarrow> put_int c MNL_AGPS_TYPE_MNL_REBOOT;
     Some (MNL_TO_AGPS, sent c)
   }"

definition mnl2agps_open_gps_done :: "(dest \<times> c_char list) option" where
  "mnl2agps_open_gps_done = do {
     c \<leftarrow> put_int (zero_buff MNL_AGPS_MAX_BUFF_SIZE) MNL_AGPS_INTERFACE_VERSION;
     c \<leftarrow> put_int c MNL_AGPS_TYPE_AGPS_OPEN_GPS_DONE;
     Some (MNL_TO_AGPS, sent c)
   }"

definition mnl2agps_close_gps_done :: "(dest \<times> c_char list) option" where
  "mnl2agps_close_gps_done = do {
     c \<leftarrow> put_int (zero_buff MNL_AGPS_MAX_BUFF_SIZE) MNL_AGPS_INTERFACE_VERSION;
     c \<leftarrow> put_int c MNL_AGPS_TYPE_AGPS_CLOSE_GPS_DONE;
     Some (MNL_TO_AGPS, sent c)
   }"

definition mnl2agps_reset_gps_done :: "(dest \<times> c_char list) option" where
  "mnl2agps_reset_gps_done = do {
     c \<leftarrow> put_int (zero_buff MNL_AGPS_MAX_BUFF_SIZE) MNL_AGPS_INTERFACE_VERSION;
     c \<leftarrow> put_int c MNL_AGPS_TYPE_AGPS_RESET_GPS_DONE;
     Some (MNL_TO_AGPS, sent c)
   }"

definition mnl2agps_gps_init :: "(dest \<times> c_char list) option" where
  "mnl2agps_gps_init = do {
     c \<leftarrow> put_int (zero_buff MNL_AGPS_MAX_BUFF_SIZE) MNL_AGPS_INTERFACE_VERSION;
     c \<leftarrow> put_int c MNL_AGPS_TYPE_GPS_INIT;
     Some (MNL_TO_AGPS, sent c)
   }"

definition mnl2agps_gps_cleanup :: "(dest \<times> c_char list) option" where
  "mnl2agps_gps_cleanup = do {
     c \<leftarrow> put_int (zero_buff MNL_AGPS_MAX_BUFF_SIZE) MNL_AGPS_INTERFACE_VERSION;
     c \<leftarrow> put_int c MNL_AGPS_TYPE_GPS_CLEANUP;
     Some (MNL_TO_AGPS, sent c)
   }"

definition mnl2agps_set_server :: "c_int \<Rightarrow> c_string \<Rightarrow> c_int \<Rightarrow> (dest \<times> c_char list) option" where
  "mnl2agps_set_server ty hostname port = do {
     c \<leftarrow> put_int (zero_buff MNL_AGPS_MAX_BUFF_SIZE) MNL_AGPS_INTERFACE_VERSION;
     c \<leftarrow> put_int c MNL_AGPS_TYPE_SET_SERVER;
     c \<leftarrow> put_int c ty;
     c \<leftarrow> put_string c hostname;
     c \<leftarrow> put_int c port;
     Some (MNL_TO_AGPS, sent c)
   }"

definition mnl2agps_delete_aiding_data :: "c_int \<Rightarrow> (dest \<times> c_char list) option" where
  "mnl2agps_delete_aiding_data flags = do {
     c \<leftarrow> put_int (zero_buff MNL_AGPS_MAX_BUFF_SIZE) MNL_AGPS_INTERFACE_VERSION;
     c \<leftarrow> put_int c MNL_AGPS_TYPE_DELETE_AIDING_DATA;
     c \<leftarrow> put_int c flags;
     Some (MNL_TO_AGPS, sent c)
   }"

definition mnl2agps_gps_open :: "c_int \<Rightarrow> (dest \<times> c_char list) option" where
  "mnl2agps_gps_open assist_req = do {
     c \<leftarrow> put_int (zero_buff MNL_AGPS_MAX_BUFF_SIZE) MNL_AGPS_INTERFACE_VERSION;
     c \<leftarrow> put_int c MNL_AGPS_TYPE_GPS_OPEN;
     c \<leftarrow> put_int c assist_req;
     Some (MNL_TO_AGPS, sent c)
   }"

definition mnl2agps_gps_close :: "(dest \<times> c_char list) option" where
  "mnl2agps_gps_close = do {
     c \<leftarrow> put_int (zero_buff MNL_AGPS_MAX_BUFF_SIZE) MNL_AGPS_INTERFACE_VERSION;
     c \<leftarrow> put_int c MNL_AGPS_TYPE_GPS_CLOSE;
     Some (MNL_TO_AGPS, sent c)
   }"

definition mnl2agps_data_conn_open :: "c_string \<Rightarrow> (dest \<times> c_char list) option" where
  "mnl2agps_data_conn_open apn = do {
     c \<leftarrow> put_int (zero_buff MNL_AGPS_MAX_BUFF_SIZE) MNL_AGPS_INTERFACE_VERSION;
     c \<leftarrow> put_int c MNL_AGPS_TYPE_DATA_CONN_OPEN;
     c \<leftarrow> put_string c apn;
     Some (MNL_TO_AGPS, sent c)
   }"

definition mnl2agps_data_conn_open_ip_type :: "c_string \<Rightarrow> c_int \<Rightarrow> (dest \<times> c_char list) option" where
  "mnl2agps_data_conn_open_ip_type apn ip_type = do {
     c \<leftarrow> put_int (zero_buff MNL_AGPS_MAX_BUFF_SIZE) MNL_AGPS_INTERFACE_VERSION;
     c \<leftarrow> put_int c MNL_AGPS_TYPE_DATA_CONN_OPEN_IP_TYPE;
     c \<leftarrow> put_string c apn;
     c \<leftarrow> put_int c ip_type;
     Some (MNL_TO_AGPS, sent c)
   }"

definition mnl2agps_install_certificates :: "c_int \<Rightarrow> c_int \<Rightarrow> c_char list \<Rightarrow> c_int \<Rightarrow> (dest \<times> c_char list) option" where
  "mnl2agps_install_certificates index tot data len = do {
     c \<leftarrow> put_int (zero_buff MNL_AGPS_MAX_BUFF_SIZE) MNL_AGPS_INTERFACE_VERSION;
     c \<leftarrow> put_int c MNL_AGPS_TYPE_INSTALL_CERTIFICATES;
     c \<leftarrow> put_int c index;
     c \<leftarrow> put_int c tot;
     c \<leftarrow> put_binary c data len;
     Some (MNL_TO_AGPS, sent c)
   }"

definition mnl2agps_revoke_certificates :: "c_char list \<Rightarrow> c_int \<Rightarrow> (dest \<times> c_char list) option" where
  "mnl2agps_revoke_certificates data len = do {
     c \<leftarrow> put_int (zero_buff MNL_AGPS_MAX_BUFF_SIZE) MNL_AGPS_INTERFACE_VERSION;
     c \<leftarrow> put_int c MNL_AGPS_TYPE_REVOKE_CERTIFICATES;
     c \<leftarrow> put_binary c data len;
     Some (MNL_TO_AGPS, sent c)
   }"

definition mnl2agps_data_conn_failed :: "(dest \<times> c_char list) option" where
  "mnl2agps_data_conn_failed = do {
     c \<leftarrow> put_int (zero_buff MNL_AGPS_MAX_BUFF_SIZE) MNL_AGPS_INTERFACE_VERSION;
     c \<leftarrow> put_int c MNL_AGPS_TYPE_DATA_CONN_FAILED;
     Some (MNL_TO_AGPS, sent c)
   }"

definition mnl2agps_data_conn_closed :: "(dest \<times> c_char list) option" where
  "mnl2agps_data_conn_closed = do {
     c \<leftarrow> put_int (zero_buff MNL_AGPS_MAX_BUFF_SIZE) MNL_AGPS_INTERFACE_VERSION;
     c \<leftarrow> put_int c MNL_AGPS_TYPE_DATA_CONN_CLOSED;
     Some (MNL_TO_AGPS, sent c)
   }"

definition mnl2agps_ni_message :: "c_char list \<Rightarrow> c_int \<Rightarrow> (dest \<times> c_char list) option" where
  "mnl2agps_ni_message msg len = do {
     c \<leftarrow> put_int (zero_buff MNL_AGPS_MAX_BUFF_SIZE) MNL_AGPS_INTERFACE_VERSION;
     c \<leftarrow> put_int c MNL_AGPS_TYPE_NI_MESSAGE;
     c \<leftarrow> put_binary c msg len;
     Some (MNL_TO_AGPS, sent c)
   }"

definition mnl2agps_ni_respond :: "c_int \<Rightarrow> c_int \<Rightarrow> (dest \<times> c_char list) option" where
  "mnl2agps_ni_respond session_id user_response = do {
     c \<leftarrow> put_int (zero_buff MNL_AGPS_MAX_BUFF_SIZE) MNL_AGPS_INTERFACE_VERSION;
     c \<leftarrow> put_int c MNL_AGPS_TYPE_NI_RESPOND;
     c \<leftarrow> put_int c session_id;
     c \<leftarrow> put_int c user_response;
     Some (MNL_TO_AGPS, sent c)
   }"

definition mnl2agps_set_ref_loc :: "c_int \<Rightarrow> c_int \<Rightarrow> c_int \<Rightarrow> c_int \<Rightarrow> c_int \<Rightarrow> (dest \<times> c_char list) option" where
  "mnl2agps_set_ref_loc ty mcc mnc lac cid = do {
     c \<leftarrow> put_int (zero_buff MNL_AGPS_MAX_BUFF_SIZE) MNL_AGPS_INTERFACE_VERSION;
     c \<leftarrow> put_int c MNL_AGPS_TYPE_SET_REF_LOC;
     c \<leftarrow> put_int c ty;
     c \<leftarrow> put_int c mcc;
     c \<leftarrow> put_int c mnc;
     c \<leftarrow> put_int c lac;
     c \<leftarrow> put_int c cid;
     Some (MNL_TO_AGPS, sent c)
   }"

definition mnl2agps_set_set_id :: "c_int \<Rightarrow> c_string \<Rightarrow> (dest \<times> c_char list) option" where
  "mnl2agps_set_set_id ty setid = do {
     c \<leftarrow> put_int (zero_buff MNL_AGPS_MAX_BUFF_SIZE) MNL_AGPS_INTERFACE_VERSION;
     c \<leftarrow> put_int c MNL_AGPS_TYPE_SET_SET_ID;
     c \<leftarrow> put_int c ty;
     c \<leftarrow> put_string c setid;
     Some (MNL_TO_AGPS, sent c)
   }"

definition mnl2agps_update_network_state :: "c_int \<Rightarrow> c_int \<Rightarrow> c_int \<Rightarrow> c_string \<Rightarrow> (dest \<times> c_char list) option" where
  "mnl2agps_update_network_state conn ty roaming extra_info = do {
     c \<leftarrow> put_int (zero_buff MNL_AGPS_MAX_BUFF_SIZE) MNL_AGPS_INTERFACE_VERSION;
     c \<leftarrow> put_int c MNL_AGPS_TYPE_UPDATE_NETWORK_STATE;
     c \<leftarrow> put_int c conn;
     c \<leftarrow> put_int c ty;
     c \<leftarrow> put_int c roaming;
     c \<leftarrow> put_string c extra_info;
     Some (MNL_TO_AGPS, sent c)
   }"

definition mnl2agps_update_network_availability :: "c_int \<Rightarrow> c_string \<Rightarrow> (dest \<times> c_char list) option" where
  "mnl2agps_update_network_availability available apn = do {
     c \<leftarrow> put_int (zero_buff MNL_AGPS_MAX_BUFF_SIZE) MNL_AGPS_INTERFACE_VERSION;
     c \<leftarrow> put_int c MNL_AGPS_TYPE_UPDATE_NETWORK_AVAILABILITY;
     c \<leftarrow> put_int c available;
     c \<leftarrow> put_string c apn;
     Some (MNL_TO_AGPS, sent c)
   }"

definition mnl2agps_pmtk :: "c_string \<Rightarrow> (dest \<times> c_char list) option" where
  "mnl2agps_pmtk pmtk = do {
     c \<leftarrow> put_int (zero_buff MNL_AGPS_MAX_BUFF_SIZE) MNL_AGPS_INTERFACE_VERSION;
     c \<leftarrow> put_int c MNL_AGPS_TYPE_MNL2AGPS_PMTK;
     c \<leftarrow> put_string c pmtk;
     Some (MNL_TO_AGPS, sent c)
   }"

definition mnl2agps_raw_dbg :: "c_int \<Rightarrow> (dest \<times> c_char list) option" where
  "mnl2agps_raw_dbg enabled = do {
     c \<leftarrow> put_int (zero_buff MNL_AGPS_MAX_BUFF_SIZE) MNL_AGPS_INTERFACE_VERSION;
     c \<leftarrow> put_int c MNL_AGPS_TYPE_RAW_DBG;
     c \<leftarrow> put_int c enabled;
     Some (MNL_TO_AGPS, sent c)
   }"

definition mnl2agps_reaiding_req :: "(dest \<times> c_char list) option" where
  "mnl2agps_reaiding_req = do {
     c \<leftarrow> put_int (zero_buff MNL_AGPS_MAX_BUFF_SIZE) MNL_AGPS_INTERFACE_VERSION;
     c \<leftarrow> put_int c MNL_AGPS_TYPE_REAIDING;
     Some (MNL_TO_AGPS, sent c)
   }"

definition mnl2agps_location_sync :: "c_double \<Rightarrow> c_double \<Rightarrow> c_int \<Rightarrow> (dest \<times> c_char list) option" where
  "mnl2agps_location_sync lat lng acc = do {
     c \<leftarrow> put_int (zero_buff MNL_AGPS_MAX_BUFF_SIZE) MNL_AGPS_INTERFACE_VERSION;
     c \<leftarrow> put_int c MNL_AGPS_TYPE_LOCATION_SYNC;
     c \<leftarrow> put_double c lat;
     c \<leftarrow> put_double c lng;
     c \<leftarrow> put_int c acc;
     Some (MNL_TO_AGPS, sent c)
   }"

definition mnl2agps_agps_settings_ack :: "c_char \<Rightarrow> c_char \<Rightarrow> c_char \<Rightarrow> c_char \<Rightarrow> (dest \<times> c_char list) option" where
  "mnl2agps_agps_settings_ack gps glonass beidou galileo = do {
     c \<leftarrow> put_int (zero_buff MNL_AGPS_MAX_BUFF_SIZE) MNL_AGPS_INTERFACE_VERSION;
     c \<leftarrow> put_int c MNL_AGPS_TYPE_SETTINGS_ACK;
     c \<leftarrow> put_int c (ucast gps);
     c \<leftarrow> put_int c (ucast glonass);
     c \<leftarrow> put_int c (ucast beidou);
     c \<leftarrow> put_int c (ucast galileo);
     Some (MNL_TO_AGPS, sent c)
   }"

lemmas mnl2agps_senders [sender_defs] =
  mnl2agps_mnl_reboot_def
  mnl2agps_open_gps_done_def
  mnl2agps_close_gps_done_def
  mnl2agps_reset_gps_done_def
  mnl2agps_gps_init_def
  mnl2agps_gps_cleanup_def
  mnl2agps_set_server_def
  mnl2agps_delete_aiding_data_def
  mnl2agps_gps_open_def
  mnl2agps_gps_close_def
  mnl2agps_data_conn_open_def
  mnl2agps_data_conn_open_ip_type_def
  mnl2agps_install_certificates_def
  mnl2agps_revoke_certificates_def
  mnl2agps_data_conn_failed_def
  mnl2agps_data_conn_closed_def
  mnl2agps_ni_message_def
  mnl2agps_ni_respond_def
  mnl2agps_set_ref_loc_def
  mnl2agps_set_set_id_def
  mnl2agps_update_network_state_def
  mnl2agps_update_network_availability_def
  mnl2agps_pmtk_def
  mnl2agps_raw_dbg_def
  mnl2agps_reaiding_req_def
  mnl2agps_location_sync_def
  mnl2agps_agps_settings_ack_def

section \<open>The receiver\<close>

record 's mnl2agps_interface =
  ma_mnl_reboot :: "('s \<Rightarrow> 's option) option"
  ma_open_gps_done :: "('s \<Rightarrow> 's option) option"
  ma_close_gps_done :: "('s \<Rightarrow> 's option) option"
  ma_reset_gps_done :: "('s \<Rightarrow> 's option) option"
  ma_gps_init :: "('s \<Rightarrow> 's option) option"
  ma_gps_cleanup :: "('s \<Rightarrow> 's option) option"
  ma_set_server :: "(c_int \<Rightarrow> c_string \<Rightarrow> c_int \<Rightarrow> 's \<Rightarrow> 's option) option"
  ma_delete_aiding_data :: "(c_int \<Rightarrow> 's \<Rightarrow> 's option) option"
  ma_gps_open :: "(c_int \<Rightarrow> 's \<Rightarrow> 's option) option"
  ma_gps_close :: "('s \<Rightarrow> 's option) option"
  ma_data_conn_open :: "(c_string \<Rightarrow> 's \<Rightarrow> 's option) option"
  ma_data_conn_open_ip_type :: "(c_string \<Rightarrow> c_int \<Rightarrow> 's \<Rightarrow> 's option) option"
  ma_install_certificates :: "(c_int \<Rightarrow> c_int \<Rightarrow> c_char list \<Rightarrow> c_int \<Rightarrow> 's \<Rightarrow> 's option) option"
  ma_revoke_certificates :: "(c_char list \<Rightarrow> c_int \<Rightarrow> 's \<Rightarrow> 's option) option"
  ma_data_conn_failed :: "('s \<Rightarrow> 's option) option"
  ma_data_conn_closed :: "('s \<Rightarrow> 's option) option"
  ma_ni_message :: "(c_char list \<Rightarrow> c_int \<Rightarrow> 's \<Rightarrow> 's option) option"
  ma_ni_respond :: "(c_int \<Rightarrow> c_int \<Rightarrow> 's \<Rightarrow> 's option) option"
  ma_set_ref_loc :: "(c_int \<Rightarrow> c_int \<Rightarrow> c_int \<Rightarrow> c_int \<Rightarrow> c_int \<Rightarrow> 's \<Rightarrow> 's option) option"
  ma_set_set_id :: "(c_int \<Rightarrow> c_string \<Rightarrow> 's \<Rightarrow> 's option) option"
  ma_update_network_state :: "(c_int \<Rightarrow> c_int \<Rightarrow> c_int \<Rightarrow> c_string \<Rightarrow> 's \<Rightarrow> 's option) option"
  ma_update_network_availability :: "(c_int \<Rightarrow> c_string \<Rightarrow> 's \<Rightarrow> 's option) option"
  ma_rcv_pmtk :: "(c_string \<Rightarrow> 's \<Rightarrow> 's option) option"
  ma_raw_dbg :: "(c_int \<Rightarrow> 's \<Rightarrow> 's option) option"
  ma_reaiding_req :: "('s \<Rightarrow> 's option) option"
  ma_location_sync :: "(c_double \<Rightarrow> c_double \<Rightarrow> c_int \<Rightarrow> 's \<Rightarrow> 's option) option"

definition mnl2agps_hdlr_rest ::
  "c_int \<Rightarrow> cursor \<Rightarrow> 's mnl2agps_interface \<Rightarrow> 's \<Rightarrow> 's option" where
  "mnl2agps_hdlr_rest type c hdlr s =
    (if type = MNL_AGPS_TYPE_SET_REF_LOC then
       do {
         (ty, c) \<leftarrow> get_int c;
         (mcc, c) \<leftarrow> get_int c;
         (mnc, c) \<leftarrow> get_int c;
         (lac, c) \<leftarrow> get_int c;
         (cid, c) \<leftarrow> get_int c;
         (case ma_set_ref_loc hdlr of Some f \<Rightarrow> f ty mcc mnc lac cid s | None \<Rightarrow> Some s)
       }
     else if type = MNL_AGPS_TYPE_SET_SET_ID then
       do {
         (ty, c) \<leftarrow> get_int c;
         (setid, c) \<leftarrow> get_str c;
         (case ma_set_set_id hdlr of Some f \<Rightarrow> do { setid \<leftarrow> setid; f ty setid s } | None \<Rightarrow> Some s)
       }
     else if type = MNL_AGPS_TYPE_UPDATE_NETWORK_STATE then
       do {
         (conn, c) \<leftarrow> get_int c;
         (ty, c) \<leftarrow> get_int c;
         (roaming, c) \<leftarrow> get_int c;
         (extra_info, c) \<leftarrow> get_str c;
         (case ma_update_network_state hdlr of Some f \<Rightarrow> do { extra_info \<leftarrow> extra_info; f conn ty roaming extra_info s } | None \<Rightarrow> Some s)
       }
     else if type = MNL_AGPS_TYPE_UPDATE_NETWORK_AVAILABILITY then
       do {
         (available, c) \<leftarrow> get_int c;
         (apn, c) \<leftarrow> get_str c;
         (case ma_update_network_availability hdlr of Some f \<Rightarrow> do { apn \<leftarrow> apn; f available apn s } | None \<Rightarrow> Some s)
       }
     else if type = MNL_AGPS_TYPE_MNL2AGPS_PMTK then
       do {
         (pmtk, c) \<leftarrow> get_str c;
         (case ma_rcv_pmtk hdlr of Some f \<Rightarrow> do { pmtk \<leftarrow> pmtk; f pmtk s } | None \<Rightarrow> Some s)
       }
     else if type = MNL_AGPS_TYPE_RAW_DBG then
       do {
         (enabled, c) \<leftarrow> get_int c;
         (case ma_raw_dbg hdlr of Some f \<Rightarrow> f enabled s | None \<Rightarrow> Some s)
       }
     else if type = MNL_AGPS_TYPE_REAIDING then
       (case ma_reaiding_req hdlr of Some f \<Rightarrow> f s | None \<Rightarrow> Some s)
     else if type = MNL_AGPS_TYPE_LOCATION_SYNC then
       (case ma_location_sync hdlr of
          Some f \<Rightarrow> do {
            (lat, c) \<leftarrow> get_double c;
            (lng, c) \<leftarrow> get_double c;
            (acc, c) \<leftarrow> get_int c;
            f lat lng acc s
          }
        | None \<Rightarrow> Some s)
     else Some s)"

definition mnl2agps_hdlr_net ::
  "c_int \<Rightarrow> cursor \<Rightarrow> 's mnl2agps_interface \<Rightarrow> 's \<Rightarrow> 's option" where
  "mnl2agps_hdlr_net type c hdlr s =
    (if type = MNL_AGPS_TYPE_DATA_CONN_OPEN_IP_TYPE then
       do {
         (apn, c) \<leftarrow> get_str c;
         (ip_type, c) \<leftarrow> get_int c;
         (case ma_data_conn_open_ip_type hdlr of Some f \<Rightarrow> do { apn \<leftarrow> apn; f apn ip_type s } | None \<Rightarrow> Some s)
       }
     else if type = MNL_AGPS_TYPE_INSTALL_CERTIFICATES then
       do {
         (index, c) \<leftarrow> get_int c;
         (tot, c) \<leftarrow> get_int c;
         (len, data, c) \<leftarrow> get_binary (replicate 8192 0) c;
         (case ma_install_certificates hdlr of Some f \<Rightarrow> f index tot data len s | None \<Rightarrow> Some s)
       }
     else if type = MNL_AGPS_TYPE_REVOKE_CERTIFICATES then
       do {
         (len, data, c) \<leftarrow> get_binary (replicate 8192 0) c;
         (case ma_revoke_certificates hdlr of Some f \<Rightarrow> f data len s | None \<Rightarrow> Some s)
       }
     else if type = MNL_AGPS_TYPE_DATA_CONN_FAILED then
       (case ma_data_conn_failed hdlr of Some f \<Rightarrow> f s | None \<Rightarrow> Some s)
     else if type = MNL_AGPS_TYPE_DATA_CONN_CLOSED then
       (case ma_data_conn_closed hdlr of Some f \<Rightarrow> f s | None \<Rightarrow> Some s)
     else if type = MNL_AGPS_TYPE_NI_MESSAGE then
       do {
         (len, msg, c) \<leftarrow> get_binary (replicate 1024 0) c;
         (case ma_ni_message hdlr of Some f \<Rightarrow> f msg len s | None \<Rightarrow> Some s)
       }
     else if type = MNL_AGPS_TYPE_NI_RESPOND then
       do {
         (session_id, c) \<leftarrow> get_int c;
         (user_response, c) \<leftarrow> get_int c;
         (case ma_ni_respond hdlr of Some f \<Rightarrow> f session_id user_response s | None \<Rightarrow> Some s)
       }
     else mnl2agps_hdlr_rest type c hdlr s)"

definition mnl2agps_hdlr_gps ::
  "c_int \<Rightarrow> cursor \<Rightarrow> 's mnl2agps_interface \<Rightarrow> 's \<Rightarrow> 's option" where
  "mnl2agps_hdlr_gps type c hdlr s =
    (if type = MNL_AGPS_TYPE_MNL_REBOOT then
       (case ma_mnl_reboot hdlr of Some f \<Rightarrow> f s | None \<Rightarrow> Some s)
     else if type = MNL_AGPS_TYPE_AGPS_OPEN_GPS_DONE then
       (case ma_open_gps_done hdlr of Some f \<Rightarrow> f s | None \<Rightarrow> Some s)
     else if type = MNL_AGPS_TYPE_AGPS_CLOSE_GPS_DONE then
       (case ma_close_gps_done hdlr of Some f \<Rightarrow> f s | None \<Rightarrow> Some s)
     else if type = MNL_AGPS_TYPE_AGPS_RESET_GPS_DONE then
       (case ma_reset_gps_done hdlr of Some f \<Rightarrow> f s | None \<Rightarrow> Some s)
     else if type = MNL_AGPS_TYPE_GPS_INIT then
       (case ma_gps_init hdlr of Some f \<Rightarrow> f s | None \<Rightarrow> Some s)
     else if type = MNL_AGPS_TYPE_GPS_CLEANUP then
       (case ma_gps_cleanup hdlr of Some f \<Rightarrow> f s | None \<Rightarrow> Some s)
     else if type = MNL_AGPS_TYPE_SET_SERVER then
       do {
         (ty, c) \<leftarrow> get_int c;
         (hostname, c) \<leftarrow> get_str c;
         (port, c) \<leftarrow> get_int c;
         (case ma_set_server hdlr of Some f \<Rightarrow> do { hostname \<leftarrow> hostname; f ty hostname port s } | None \<Rightarrow> Some s)
       }
     else if type = MNL_AGPS_TYPE_DELETE_AIDING_DATA then
       do {
         (flags, c) \<leftarrow> get_int c;
         (case ma_delete_aiding_data hdlr of Some f \<Rightarrow> f flags s | None \<Rightarrow> Some s)
       }
     else if type = MNL_AGPS_TYPE_GPS_OPEN then
       do {
         (assist_req, c) \<leftarrow> get_int c;
         (case ma_gps_open hdlr of Some f \<Rightarrow> f assist_req s | None \<Rightarrow> Some s)
       }
     else if type = MNL_AGPS_TYPE_GPS_CLOSE then
       (case ma_gps_close hdlr of Some f \<Rightarrow> f s | None \<Rightarrow> Some s)
     else if type = MNL_AGPS_TYPE_DATA_CONN_OPEN then
       do {
         (apn, c) \<leftarrow> get_str c;
         (case ma_data_conn_open hdlr of Some f \<Rightarrow> do { apn \<leftarrow> apn; f apn s } | None \<Rightarrow> Some s)
       }
     else mnl2agps_hdlr_net type c hdlr s)"

definition mnl2agps_hdlr ::
  "rx list \<Rightarrow> 's mnl2agps_interface \<Rightarrow> 's \<Rightarrow> ('s \<times> rx list) option" where
  "mnl2agps_hdlr rs hdlr s =
     (case safe_recvfrom MNL_AGPS_MAX_BUFF_SIZE rs of
        (ret, d, rs) \<Rightarrow>
          if ret \<le> 0 then Some (s, rs)
          else do {
            (version, c) \<leftarrow> get_int (recv_buff MNL_AGPS_MAX_BUFF_SIZE d);
            (type, c) \<leftarrow> get_int c;
            s \<leftarrow> mnl2agps_hdlr_gps type c hdlr s;
            Some (s, rs)
          })"

section \<open>Messages\<close>

datatype mnl2agps_msg =
    M2A_mnl_reboot 
  | M2A_open_gps_done 
  | M2A_close_gps_done 
  | M2A_reset_gps_done 
  | M2A_gps_init 
  | M2A_gps_cleanup 
  | M2A_set_server c_int c_string c_int
  | M2A_delete_aiding_data c_int
  | M2A_gps_open c_int
  | M2A_gps_close 
  | M2A_data_conn_open c_string
  | M2A_data_conn_open_ip_type c_string c_int
  | M2A_install_certificates c_int c_int "c_char list"
  | M2A_revoke_certificates "c_char list"
  | M2A_data_conn_failed 
  | M2A_data_conn_closed 
  | M2A_ni_message "c_char list"
  | M2A_ni_respond c_int c_int
  | M2A_set_ref_loc c_int c_int c_int c_int c_int
  | M2A_set_set_id c_int c_string
  | M2A_update_network_state c_int c_int c_int c_string
  | M2A_update_network_availability c_int c_string
  | M2A_pmtk c_string
  | M2A_raw_dbg c_int
  | M2A_reaiding_req 
  | M2A_location_sync c_double c_double c_int
  | M2A_agps_settings_ack c_char c_char c_char c_char

fun send_mnl2agps :: "mnl2agps_msg \<Rightarrow> (dest \<times> c_char list) option" where
  "send_mnl2agps M2A_mnl_reboot = mnl2agps_mnl_reboot"
| "send_mnl2agps M2A_open_gps_done = mnl2agps_open_gps_done"
| "send_mnl2agps M2A_close_gps_done = mnl2agps_close_gps_done"
| "send_mnl2agps M2A_reset_gps_done = mnl2agps_reset_gps_done"
| "send_mnl2agps M2A_gps_init = mnl2agps_gps_init"
| "send_mnl2agps M2A_gps_cleanup = mnl2agps_gps_cleanup"
| "send_mnl2agps (M2A_set_server ty hostname port) = mnl2agps_set_server ty hostname port"
| "send_mnl2agps (M2A_delete_aiding_data flags) = mnl2agps_delete_aiding_data flags"
| "send_mnl2agps (M2A_gps_open assist_req) = mnl2agps_gps_open assist_req"
| "send_mnl2agps M2A_gps_close = mnl2agps_gps_close"
| "send_mnl2agps (M2A_data_conn_open apn) = mnl2agps_data_conn_open apn"
| "send_mnl2agps (M2A_data_conn_open_ip_type apn ip_type) = mnl2agps_data_conn_open_ip_type apn ip_type"
| "send_mnl2agps (M2A_install_certificates index tot data) = mnl2agps_install_certificates index tot data (word_of_nat (length data))"
| "send_mnl2agps (M2A_revoke_certificates data) = mnl2agps_revoke_certificates data (word_of_nat (length data))"
| "send_mnl2agps M2A_data_conn_failed = mnl2agps_data_conn_failed"
| "send_mnl2agps M2A_data_conn_closed = mnl2agps_data_conn_closed"
| "send_mnl2agps (M2A_ni_message msg) = mnl2agps_ni_message msg (word_of_nat (length msg))"
| "send_mnl2agps (M2A_ni_respond session_id user_response) = mnl2agps_ni_respond session_id user_response"
| "send_mnl2agps (M2A_set_ref_loc ty mcc mnc lac cid) = mnl2agps_set_ref_loc ty mcc mnc lac cid"
| "send_mnl2agps (M2A_set_set_id ty setid) = mnl2agps_set_set_id ty setid"
| "send_mnl2agps (M2A_update_network_state conn ty roaming extra_info) = mnl2agps_update_network_state conn ty roaming extra_info"
| "send_mnl2agps (M2A_update_network_availability available apn) = mnl2agps_update_network_availability available apn"
| "send_mnl2agps (M2A_pmtk pmtk) = mnl2agps_pmtk pmtk"
| "send_mnl2agps (M2A_raw_dbg enabled) = mnl2agps_raw_dbg enabled"
| "send_mnl2agps M2A_reaiding_req = mnl2agps_reaiding_req"
| "send_mnl2agps (M2A_location_sync lat lng acc) = mnl2agps_location_sync lat lng acc"
| "send_mnl2agps (M2A_agps_settings_ack gps glonass beidou galileo) = mnl2agps_agps_settings_ack gps glonass beidou galileo"

fun call_mnl2agps :: "'s mnl2agps_interface \<Rightarrow> mnl2agps_msg \<Rightarrow> 's \<Rightarrow> 's option" where
  "call_mnl2agps h M2A_mnl_reboot s = (case ma_mnl_reboot h of Some f \<Rightarrow> f s | None \<Rightarrow> Some s)"
| "call_mnl2agps h M2A_open_gps_done s = (case ma_open_gps_done h of Some f \<Rightarrow> f s | None \<Rightarrow> Some s)"
| "call_mnl2agps h M2A_close_gps_done s = (case ma_close_gps_done h of Some f \<Rightarrow> f s | None \<Rightarrow> Some s)"
| "call_mnl2agps h M2A_reset_gps_done s = (case ma_reset_gps_done h of Some f \<Rightarrow> f s | None \<Rightarrow> Some s)"
| "call_mnl2agps h M2A_gps_init s = (case ma_gps_init h of Some f \<Rightarrow> f s | None \<Rightarrow> Some s)"
| "call_mnl2agps h M2A_gps_cleanup s = (case ma_gps_cleanup h of Some f \<Rightarrow> f s | None \<Rightarrow> Some s)"
| "call_mnl2agps h (M2A_set_server ty hostname port) s = (case ma_set_server h of Some f \<Rightarrow> f ty hostname port s | None \<Rightarrow> Some s)"
| "call_mnl2agps h (M2A_delete_aiding_data flags) s = (case ma_delete_aiding_data h of Some f \<Rightarrow> f flags s | None \<Rightarrow> Some s)"
| "call_mnl2agps h (M2A_gps_open assist_req) s = (case ma_gps_open h of Some f \<Rightarrow> f assist_req s | None \<Rightarrow> Some s)"
| "call_mnl2agps h M2A_gps_close s = (case ma_gps_close h of Some f \<Rightarrow> f s | None \<Rightarrow> Some s)"
| "call_mnl2agps h (M2A_data_conn_open apn) s = (case ma_data_conn_open h of Some f \<Rightarrow> f apn s | None \<Rightarrow> Some s)"
| "call_mnl2agps h (M2A_data_conn_open_ip_type apn ip_type) s = (case ma_data_conn_open_ip_type h of Some f \<Rightarrow> f apn ip_type s | None \<Rightarrow> Some s)"
| "call_mnl2agps h (M2A_install_certificates index tot data) s = (case ma_install_certificates h of Some f \<Rightarrow> f index tot (data @ replicate (8192 - length data) 0) (word_of_nat (length data)) s | None \<Rightarrow> Some s)"
| "call_mnl2agps h (M2A_revoke_certificates data) s = (case ma_revoke_certificates h of Some f \<Rightarrow> f (data @ replicate (8192 - length data) 0) (word_of_nat (length data)) s | None \<Rightarrow> Some s)"
| "call_mnl2agps h M2A_data_conn_failed s = (case ma_data_conn_failed h of Some f \<Rightarrow> f s | None \<Rightarrow> Some s)"
| "call_mnl2agps h M2A_data_conn_closed s = (case ma_data_conn_closed h of Some f \<Rightarrow> f s | None \<Rightarrow> Some s)"
| "call_mnl2agps h (M2A_ni_message msg) s = (case ma_ni_message h of Some f \<Rightarrow> f (msg @ replicate (1024 - length msg) 0) (word_of_nat (length msg)) s | None \<Rightarrow> Some s)"
| "call_mnl2agps h (M2A_ni_respond session_id user_response) s = (case ma_ni_respond h of Some f \<Rightarrow> f session_id user_response s | None \<Rightarrow> Some s)"
| "call_mnl2agps h (M2A_set_ref_loc ty mcc mnc lac cid) s = (case ma_set_ref_loc h of Some f \<Rightarrow> f ty mcc mnc lac cid s | None \<Rightarrow> Some s)"
| "call_mnl2agps h (M2A_set_set_id ty setid) s = (case ma_set_set_id h of Some f \<Rightarrow> f ty setid s | None \<Rightarrow> Some s)"
| "call_mnl2agps h (M2A_update_network_state conn ty roaming extra_info) s = (case ma_update_network_state h of Some f \<Rightarrow> f conn ty roaming extra_info s | None \<Rightarrow> Some s)"
| "call_mnl2agps h (M2A_update_network_availability available apn) s = (case ma_update_network_availability h of Some f \<Rightarrow> f available apn s | None \<Rightarrow> Some s)"
| "call_mnl2agps h (M2A_pmtk pmtk) s = (case ma_rcv_pmtk h of Some f \<Rightarrow> f pmtk s | None \<Rightarrow> Some s)"
| "call_mnl2agps h (M2A_raw_dbg enabled) s = (case ma_raw_dbg h of Some f \<Rightarrow> f enabled s | None \<Rightarrow> Some s)"
| "call_mnl2agps h M2A_reaiding_req s = (case ma_reaiding_req h of Some f \<Rightarrow> f s | None \<Rightarrow> Some s)"
| "call_mnl2agps h (M2A_location_sync lat lng acc) s = (case ma_location_sync h of Some f \<Rightarrow> f lat lng acc s | None \<Rightarrow> Some s)"
| "call_mnl2agps h (M2A_agps_settings_ack gps glonass beidou galileo) s = Some s"

fun mnl2agps_ok :: "mnl2agps_msg \<Rightarrow> bool" where
  "mnl2agps_ok (M2A_set_server _ hostname _) = string_ok hostname"
| "mnl2agps_ok (M2A_data_conn_open apn) = string_ok apn"
| "mnl2agps_ok (M2A_data_conn_open_ip_type apn _) = string_ok apn"
| "mnl2agps_ok (M2A_install_certificates _ _ data) = (length data \<le> 8192)"
| "mnl2agps_ok (M2A_revoke_certificates data) = (length data \<le> 8192)"
| "mnl2agps_ok (M2A_ni_message msg) = (length msg \<le> 1024)"
| "mnl2agps_ok (M2A_set_set_id _ setid) = string_ok setid"
| "mnl2agps_ok (M2A_update_network_state _ _ _ extra_info) = string_ok extra_info"
| "mnl2agps_ok (M2A_update_network_availability _ apn) = string_ok apn"
| "mnl2agps_ok (M2A_pmtk pmtk) = string_ok pmtk"
| "mnl2agps_ok _ = True"

text \<open>The wire format.\<close>

fun wire_mnl2agps :: "mnl2agps_msg \<Rightarrow> c_char list" where
  "wire_mnl2agps M2A_mnl_reboot =
     enc_int MNL_AGPS_INTERFACE_VERSION @ enc_int MNL_AGPS_TYPE_MNL_REBOOT"
| "wire_mnl2agps M2A_open_gps_done =
     enc_int MNL_AGPS_INTERFACE_VERSION @ enc_int MNL_AGPS_TYPE_AGPS_OPEN_GPS_DONE"
| "wire_mnl2agps M2A_close_gps_done =
     enc_int MNL_AGPS_INTERFACE_VERSION @ enc_int MNL_AGPS_TYPE_AGPS_CLOSE_GPS_DONE"
| "wire_mnl2agps M2A_reset_gps_done =
     enc_int MNL_AGPS_INTERFACE_VERSION @ enc_int MNL_AGPS_TYPE_AGPS_RESET_GPS_DONE"
| "wire_mnl2agps M2A_gps_init =
     enc_int MNL_AGPS_INTERFACE_VERSION @ enc_int MNL_AGPS_TYPE_GPS_INIT"
| "wire_mnl2agps M2A_gps_cleanup =
     enc_int MNL_AGPS_INTERFACE_VERSION @ enc_int MNL_AGPS_TYPE_GPS_CLEANUP"
| "wire_mnl2agps (M2A_set_server ty hostname port) =
     enc_int MNL_AGPS_INTERFACE_VERSION @ enc_int MNL_AGPS_TYPE_SET_SERVER @ enc_int ty @ enc_string hostname @ enc_int port"
| "wire_mnl2agps (M2A_delete_aiding_data flags) =
     enc_int MNL_AGPS_INTERFACE_VERSION @ enc_int MNL_AGPS_TYPE_DELETE_AIDING_DATA @ enc_int flags"
| "wire_mnl2agps (M2A_gps_open assist_req) =
     enc_int MNL_AGPS_INTERFACE_VERSION @ enc_int MNL_AGPS_TYPE_GPS_OPEN @ enc_int assist_req"
| "wire_mnl2agps M2A_gps_close =
     enc_int MNL_AGPS_INTERFACE_VERSION @ enc_int MNL_AGPS_TYPE_GPS_CLOSE"
| "wire_mnl2agps (M2A_data_conn_open apn) =
     enc_int MNL_AGPS_INTERFACE_VERSION @ enc_int MNL_AGPS_TYPE_DATA_CONN_OPEN @ enc_string apn"
| "wire_mnl2agps (M2A_data_conn_open_ip_type apn ip_type) =
     enc_int MNL_AGPS_INTERFACE_VERSION @ enc_int MNL_AGPS_TYPE_DATA_CONN_OPEN_IP_TYPE @ enc_string apn @ enc_int ip_type"
| "wire_mnl2agps (M2A_install_certificates index tot data) =
     enc_int MNL_AGPS_INTERFACE_VERSION @ enc_int MNL_AGPS_TYPE_INSTALL_CERTIFICATES @ enc_int index @ enc_int tot @ enc_binary data"
| "wire_mnl2agps (M2A_revoke_certificates data) =
     enc_int MNL_AGPS_INTERFACE_VERSION @ enc_int MNL_AGPS_TYPE_REVOKE_CERTIFICATES @ enc_binary data"
| "wire_mnl2agps M2A_data_conn_failed =
     enc_int MNL_AGPS_INTERFACE_VERSION @ enc_int MNL_AGPS_TYPE_DATA_CONN_FAILED"
| "wire_mnl2agps M2A_data_conn_closed =
     enc_int MNL_AGPS_INTERFACE_VERSION @ enc_int MNL_AGPS_TYPE_DATA_CONN_CLOSED"
| "wire_mnl2agps (M2A_ni_message msg) =
     enc_int MNL_AGPS_INTERFACE_VERSION @ enc_int MNL_AGPS_TYPE_NI_MESSAGE @ enc_binary msg"
| "wire_mnl2agps (M2A_ni_respond session_id user_response) =
     enc_int MNL_AGPS_INTERFACE_VERSION @ enc_int MNL_AGPS_TYPE_NI_RESPOND @ enc_int session_id @ enc_int user_response"
| "wire_mnl2agps (M2A_set_ref_loc ty mcc mnc lac cid) =
     enc_int MNL_AGPS_INTERFACE_VERSION @ enc_int MNL_AGPS_TYPE_SET_REF_LOC @ enc_int ty @ enc_int mcc @ enc_int mnc @ enc_int lac @ enc_int cid"
| "wire_mnl2agps (M2A_set_set_id ty setid) =
     enc_int MNL_AGPS_INTERFACE_VERSION @ enc_int MNL_AGPS_TYPE_SET_SET_ID @ enc_int ty @ enc_string setid"
| "wire_mnl2agps (M2A_update_network_state conn ty roaming extra_info) =
     enc_int MNL_AGPS_INTERFACE_VERSION @ enc_int MNL_AGPS_TYPE_UPDATE_NETWORK_STATE @ enc_int conn @ enc_int ty @ enc_int roaming @ enc_string extra_info"
| "wire_mnl2agps (M2A_update_network_availability available apn) =
     enc_int MNL_AGPS_INTERFACE_VERSION @ enc_int MNL_AGPS_TYPE_UPDATE_NETWORK_AVAILABILITY @ enc_int available @ enc_string apn"
| "wire_mnl2agps (M2A_pmtk pmtk) =
     enc_int MNL_AGPS_INTERFACE_VERSION @ enc_int MNL_AGPS_TYPE_MNL2AGPS_PMTK @ enc_string pmtk"
| "wire_mnl2agps (M2A_raw_dbg enabled) =
     enc_int MNL_AGPS_INTERFACE_VERSION @ enc_int MNL_AGPS_TYPE_RAW_DBG @ enc_int enabled"
| "wire_mnl2agps M2A_reaiding_req =
     enc_int MNL_AGPS_INTERFACE_VERSION @ enc_int MNL_AGPS_TYPE_REAIDING"
| "wire_mnl2agps (M2A_location_sync lat lng acc) =
     enc_int MNL_AGPS_INTERFACE_VERSION @ enc_int MNL_AGPS_TYPE_LOCATION_SYNC @ enc_long lat @ enc_long lng @ enc_int acc"
| "wire_mnl2agps (M2A_agps_settings_ack gps glonass beidou galileo) =
     enc_int MNL_AGPS_INTERFACE_VERSION @ enc_int MNL_AGPS_TYPE_SETTINGS_ACK @ enc_int (ucast gps) @ enc_int (ucast glonass) @ enc_int (ucast beidou) @ enc_int (ucast galileo)"

section \<open>The senders produce the wire format, the receiver calls the callback\<close>

lemma send_mnl2agps_eq:
  assumes "mnl2agps_ok m"
  shows "send_mnl2agps m = (if length (wire_mnl2agps m) \<le> MNL_AGPS_MAX_BUFF_SIZE
           then Some (MNL_TO_AGPS, wire_mnl2agps m) else None)"
  using assms
  by (cases m) (auto simp: sender_defs zero_buff_rd sent_rd store_simps binary_ok_def)

lemma mnl2agps_run:
  assumes "mnl2agps_ok m" "length (wire_mnl2agps m) \<le> MNL_AGPS_MAX_BUFF_SIZE"
  shows "do { (ver, c) \<leftarrow> get_int (rd MNL_AGPS_MAX_BUFF_SIZE [] (wire_mnl2agps m));
              (type, c) \<leftarrow> get_int c; mnl2agps_hdlr_gps type c h s } = call_mnl2agps h m s"
  using assms
  by (cases m) (auto simp: store_simps mnl2agps_hdlr_gps_def mnl2agps_hdlr_net_def mnl2agps_hdlr_rest_def split: option.splits)

lemma mnl2agps_hdlr_unfold:
  assumes "0 < length d" "length d \<le> MNL_AGPS_MAX_BUFF_SIZE"
  shows "mnl2agps_hdlr (RxData d # rs) h s =
    map_option (\<lambda>s. (s, rs))
      (do { (ver, c) \<leftarrow> get_int (rd MNL_AGPS_MAX_BUFF_SIZE [] d);
            (type, c) \<leftarrow> get_int c; mnl2agps_hdlr_gps type c h s })"
  using assms by (auto simp: mnl2agps_hdlr_def safe_recvfrom_def recv_buff_rd split: Option.bind_splits)

lemma wire_mnl2agps_pos: "0 < length (wire_mnl2agps m)"
  by (cases m) auto

lemma mnl2agps_delivered:
  assumes "mnl2agps_ok m" "send_mnl2agps m = Some (q, d)"
  shows "mnl2agps_hdlr (RxData d # rs) h s = map_option (\<lambda>s. (s, rs)) (call_mnl2agps h m s)"
proof -
  have d: "d = wire_mnl2agps m" and len: "length (wire_mnl2agps m) \<le> MNL_AGPS_MAX_BUFF_SIZE"
    using assms by (auto simp: send_mnl2agps_eq split: if_splits)
  show ?thesis
    unfolding d mnl2agps_hdlr_unfold [OF wire_mnl2agps_pos len] mnl2agps_run [OF assms(1) len] ..
qed

interpretation m2a: channel "\<lambda>m. map_option snd (send_mnl2agps m)"
    "\<lambda>rs s. map_option (\<lambda>(s, rs). ((), s, rs)) (mnl2agps_hdlr rs h s)"
    "\<lambda>m s. map_option (Pair ()) (call_mnl2agps h m s)" mnl2agps_ok for h
  by unfold_locales (auto simp: mnl2agps_delivered option.map_comp comp_def)

section \<open>Properties\<close>

text \<open>A message the daemon sends to the AGPS daemon runs there exactly
  the callback it is for, on the sender's arguments. The one exception is the acknowledgement of
  the settings: no case of the receiver's switch lists it, so it leaves the state as it is.\<close>

theorem mnl2agps_round_trip:
  assumes "mnl2agps_ok m" "send_mnl2agps m = Some (q, d)"
  shows "q = MNL_TO_AGPS \<and>
    mnl2agps_hdlr (RxData d # rs) h s = map_option (\<lambda>s. (s, rs)) (call_mnl2agps h m s)"
  using assms mnl2agps_delivered [OF assms] by (auto simp: send_mnl2agps_eq split: if_splits)

definition no_mnl2agps_callbacks :: "'s mnl2agps_interface" where
  "no_mnl2agps_callbacks = \<lparr>ma_mnl_reboot = None, ma_open_gps_done = None, ma_close_gps_done = None,
     ma_reset_gps_done = None, ma_gps_init = None, ma_gps_cleanup = None,
     ma_set_server = None, ma_delete_aiding_data = None, ma_gps_open = None,
     ma_gps_close = None, ma_data_conn_open = None, ma_data_conn_open_ip_type = None,
     ma_install_certificates = None, ma_revoke_certificates = None, ma_data_conn_failed = None,
     ma_data_conn_closed = None, ma_ni_message = None, ma_ni_respond = None,
     ma_set_ref_loc = None, ma_set_set_id = None, ma_update_network_state = None,
     ma_update_network_availability = None, ma_rcv_pmtk = None, ma_raw_dbg = None,
     ma_reaiding_req = None, ma_location_sync = None\<rparr>"

definition agps_log :: "(c_int \<times> c_string) list mnl2agps_interface" where
  "agps_log = no_mnl2agps_callbacks\<lparr>
     ma_set_set_id := Some (\<lambda>t x s. Some (s @ [(t, x)])),
     ma_ni_message := Some (\<lambda>m n s. Some (s @ [(n, Some m)])),
     ma_gps_open := Some (\<lambda>x s. Some (s @ [(x, None)]))\<rparr>"

lemma send_gps_open_sample:
  "send_mnl2agps (M2A_gps_open 1) = Some (MNL_TO_AGPS, wire_mnl2agps (M2A_gps_open 1))"
  by (subst send_mnl2agps_eq) auto

theorem mnl2agps_round_trip_witness:
  "mnl2agps_hdlr [RxData (wire_mnl2agps (M2A_gps_open 1))] agps_log [] = Some ([(1, None)], [])"
  using mnl2agps_round_trip [OF _ send_gps_open_sample, of "[]" agps_log "[]"]
  by (simp add: agps_log_def)

text \<open>The receiver decodes an NI message into
  \<open>char msg[1024]\<close> before it looks at the callback, without a length check: every message of
  1025 to 8180 bytes, which the sender accepts, overruns the array, whatever the callbacks.\<close>

theorem mnl2agps_ni_message_overflow:
  assumes "1024 < length msg" "length msg \<le> 8180"
  shows "send_mnl2agps (M2A_ni_message msg) = Some (MNL_TO_AGPS, wire_mnl2agps (M2A_ni_message msg)) \<and>
    mnl2agps_hdlr (RxData (wire_mnl2agps (M2A_ni_message msg)) # rs) h s = None"
proof -
  have send: "send_mnl2agps (M2A_ni_message msg) = Some (MNL_TO_AGPS, wire_mnl2agps (M2A_ni_message msg))"
    using assms by (simp add: sender_defs zero_buff_rd sent_rd store_simps binary_ok_def)
  have "get_binary (replicate 1024 0) (rd MNL_AGPS_MAX_BUFF_SIZE (enc_int 1 @ enc_int 128) (enc_binary msg)) = None"
    using assms by (intro get_binary_too_long) auto
  then have "mnl2agps_hdlr (RxData (wire_mnl2agps (M2A_ni_message msg)) # rs) h s = None"
    using assms by (subst mnl2agps_hdlr_unfold)
      (auto simp: store_simps mnl2agps_hdlr_gps_def mnl2agps_hdlr_net_def mnl2agps_hdlr_rest_def)
  with send show ?thesis ..
qed

theorem mnl2agps_ni_message_overflow_witness:
  "mnl2agps_hdlr [RxData (wire_mnl2agps (M2A_ni_message (replicate 2000 7)))] agps_log [] = None"
  using mnl2agps_ni_message_overflow [of "replicate 2000 7" "[]" agps_log "[]"] by simp

end
