(* ===== verification/Agps2Mnl.thy ===== *)
theory Agps2Mnl
  imports Mnl2Agps
begin

text \<open>
  AGPS daemon to GPS daemon: the senders of
  \<^verbatim>\<open>mtk/gps/mtk_mnld/mnl_agps_interface/src/agps2mnl_interface.c\<close> and the receiver
  \<open>agps2mnl_hdlr\<close> of \<^verbatim>\<open>mnl2agps_interface.c\<close> beside it. \<open>mnl_agps_agps_location\<close>
  is its 72 bytes, \<open>sockaddr_storage\<close> its 128.
\<close>


abbreviation MNL_AGPS_TYPE_AGPS_REBOOT :: c_int where "MNL_AGPS_TYPE_AGPS_REBOOT \<equiv> 200"
abbreviation MNL_AGPS_TYPE_AGPS_OPEN_GPS_REQ :: c_int where "MNL_AGPS_TYPE_AGPS_OPEN_GPS_REQ \<equiv> 210"
abbreviation MNL_AGPS_TYPE_AGPS_CLOSE_GPS_REQ :: c_int where "MNL_AGPS_TYPE_AGPS_CLOSE_GPS_REQ \<equiv> 211"
abbreviation MNL_AGPS_TYPE_AGPS_RESET_GPS_REQ :: c_int where "MNL_AGPS_TYPE_AGPS_RESET_GPS_REQ \<equiv> 212"
abbreviation MNL_AGPS_TYPE_AGPS_SESSION_DONE :: c_int where "MNL_AGPS_TYPE_AGPS_SESSION_DONE \<equiv> 220"
abbreviation MNL_AGPS_TYPE_NI_NOTIFY :: c_int where "MNL_AGPS_TYPE_NI_NOTIFY \<equiv> 230"
abbreviation MNL_AGPS_TYPE_NI_NOTIFY_2 :: c_int where "MNL_AGPS_TYPE_NI_NOTIFY_2 \<equiv> 236"
abbreviation MNL_AGPS_TYPE_DATA_CONN_REQ :: c_int where "MNL_AGPS_TYPE_DATA_CONN_REQ \<equiv> 231"
abbreviation MNL_AGPS_TYPE_DATA_CONN_REQ2 :: c_int where "MNL_AGPS_TYPE_DATA_CONN_REQ2 \<equiv> 237"
abbreviation MNL_AGPS_TYPE_DATA_CONN_RELEASE :: c_int where "MNL_AGPS_TYPE_DATA_CONN_RELEASE \<equiv> 232"
abbreviation MNL_AGPS_TYPE_SET_ID_REQ :: c_int where "MNL_AGPS_TYPE_SET_ID_REQ \<equiv> 233"
abbreviation MNL_AGPS_TYPE_REF_LOC_REQ :: c_int where "MNL_AGPS_TYPE_REF_LOC_REQ \<equiv> 234"
abbreviation MNL_AGPS_TYPE_AGPS2MNL_PMTK :: c_int where "MNL_AGPS_TYPE_AGPS2MNL_PMTK \<equiv> 250"
abbreviation MNL_AGPS_TYPE_GPEVT :: c_int where "MNL_AGPS_TYPE_GPEVT \<equiv> 251"
abbreviation MNL_AGPS_TYPE_AGPS_LOC :: c_int where "MNL_AGPS_TYPE_AGPS_LOC \<equiv> 235"
abbreviation MNL_AGPS_TYPE_SETTINGS_SYNC :: c_int where "MNL_AGPS_TYPE_SETTINGS_SYNC \<equiv> 252"

section \<open>Senders\<close>

definition agps2mnl_agps_reboot :: "(dest \<times> c_char list) option" where
  "agps2mnl_agps_reboot = do {
     c \<leftarrow> put_int (zero_buff MNL_AGPS_MAX_BUFF_SIZE) MNL_AGPS_INTERFACE_VERSION;
     c \<leftarrow> put_int c MNL_AGPS_TYPE_AGPS_REBOOT;
     Some (AGPS_TO_MNL, sent c)
   }"

definition agps2mnl_agps_open_gps_req :: "c_int \<Rightarrow> (dest \<times> c_char list) option" where
  "agps2mnl_agps_open_gps_req show_gps_icon = do {
     c \<leftarrow> put_int (zero_buff MNL_AGPS_MAX_BUFF_SIZE) MNL_AGPS_INTERFACE_VERSION;
     c \<leftarrow> put_int c MNL_AGPS_TYPE_AGPS_OPEN_GPS_REQ;
     c \<leftarrow> put_int c show_gps_icon;
     Some (AGPS_TO_MNL, sent c)
   }"

definition agps2mnl_agps_close_gps_req :: "(dest \<times> c_char list) option" where
  "agps2mnl_agps_close_gps_req = do {
     c \<leftarrow> put_int (zero_buff MNL_AGPS_MAX_BUFF_SIZE) MNL_AGPS_INTERFACE_VERSION;
     c \<leftarrow> put_int c MNL_AGPS_TYPE_AGPS_CLOSE_GPS_REQ;
     Some (AGPS_TO_MNL, sent c)
   }"

definition agps2mnl_agps_reset_gps_req :: "c_int \<Rightarrow> (dest \<times> c_char list) option" where
  "agps2mnl_agps_reset_gps_req flags = do {
     c \<leftarrow> put_int (zero_buff MNL_AGPS_MAX_BUFF_SIZE) MNL_AGPS_INTERFACE_VERSION;
     c \<leftarrow> put_int c MNL_AGPS_TYPE_AGPS_RESET_GPS_REQ;
     c \<leftarrow> put_int c flags;
     Some (AGPS_TO_MNL, sent c)
   }"

definition agps2mnl_agps_session_done :: "(dest \<times> c_char list) option" where
  "agps2mnl_agps_session_done = do {
     c \<leftarrow> put_int (zero_buff MNL_AGPS_MAX_BUFF_SIZE) MNL_AGPS_INTERFACE_VERSION;
     c \<leftarrow> put_int c MNL_AGPS_TYPE_AGPS_SESSION_DONE;
     Some (AGPS_TO_MNL, sent c)
   }"

definition agps2mnl_ni_notify :: "c_int \<Rightarrow> c_int \<Rightarrow> c_string \<Rightarrow> c_string \<Rightarrow> (dest \<times> c_char list) option" where
  "agps2mnl_ni_notify session_id ty requestor_id client_name = do {
     c \<leftarrow> put_int (zero_buff MNL_AGPS_MAX_BUFF_SIZE) MNL_AGPS_INTERFACE_VERSION;
     c \<leftarrow> put_int c MNL_AGPS_TYPE_NI_NOTIFY;
     c \<leftarrow> put_int c session_id;
     c \<leftarrow> put_int c ty;
     c \<leftarrow> put_string c requestor_id;
     c \<leftarrow> put_string c client_name;
     Some (AGPS_TO_MNL, sent c)
   }"

definition agps2mnl_ni_notify2 :: "c_int \<Rightarrow> c_int \<Rightarrow> c_string \<Rightarrow> c_string \<Rightarrow> c_int \<Rightarrow> c_int \<Rightarrow> (dest \<times> c_char list) option" where
  "agps2mnl_ni_notify2 session_id ty requestor_id client_name requestor_id_encoding client_name_encoding = do {
     c \<leftarrow> put_int (zero_buff MNL_AGPS_MAX_BUFF_SIZE) MNL_AGPS_INTERFACE_VERSION;
     c \<leftarrow> put_int c MNL_AGPS_TYPE_NI_NOTIFY_2;
     c \<leftarrow> put_int c session_id;
     c \<leftarrow> put_int c ty;
     c \<leftarrow> put_string c requestor_id;
     c \<leftarrow> put_string c client_name;
     c \<leftarrow> put_int c requestor_id_encoding;
     c \<leftarrow> put_int c client_name_encoding;
     Some (AGPS_TO_MNL, sent c)
   }"

definition agps2mnl_data_conn_req :: "c_int \<Rightarrow> c_int \<Rightarrow> (dest \<times> c_char list) option" where
  "agps2mnl_data_conn_req ipaddr is_emergency = do {
     c \<leftarrow> put_int (zero_buff MNL_AGPS_MAX_BUFF_SIZE) MNL_AGPS_INTERFACE_VERSION;
     c \<leftarrow> put_int c MNL_AGPS_TYPE_DATA_CONN_REQ;
     c \<leftarrow> put_int c ipaddr;
     c \<leftarrow> put_int c is_emergency;
     Some (AGPS_TO_MNL, sent c)
   }"

definition agps2mnl_data_conn_req2 :: "c_char list \<Rightarrow> c_int \<Rightarrow> (dest \<times> c_char list) option" where
  "agps2mnl_data_conn_req2 addr is_emergency = do {
     c \<leftarrow> put_int (zero_buff MNL_AGPS_MAX_BUFF_SIZE) MNL_AGPS_INTERFACE_VERSION;
     c \<leftarrow> put_int c MNL_AGPS_TYPE_DATA_CONN_REQ2;
     c \<leftarrow> put_struct c addr;
     c \<leftarrow> put_int c is_emergency;
     Some (AGPS_TO_MNL, sent c)
   }"

definition agps2mnl_data_conn_release :: "(dest \<times> c_char list) option" where
  "agps2mnl_data_conn_release = do {
     c \<leftarrow> put_int (zero_buff MNL_AGPS_MAX_BUFF_SIZE) MNL_AGPS_INTERFACE_VERSION;
     c \<leftarrow> put_int c MNL_AGPS_TYPE_DATA_CONN_RELEASE;
     Some (AGPS_TO_MNL, sent c)
   }"

definition agps2mnl_set_id_req :: "c_int \<Rightarrow> (dest \<times> c_char list) option" where
  "agps2mnl_set_id_req flags = do {
     c \<leftarrow> put_int (zero_buff MNL_AGPS_MAX_BUFF_SIZE) MNL_AGPS_INTERFACE_VERSION;
     c \<leftarrow> put_int c MNL_AGPS_TYPE_SET_ID_REQ;
     c \<leftarrow> put_int c flags;
     Some (AGPS_TO_MNL, sent c)
   }"

definition agps2mnl_ref_loc_req :: "c_int \<Rightarrow> (dest \<times> c_char list) option" where
  "agps2mnl_ref_loc_req flags = do {
     c \<leftarrow> put_int (zero_buff MNL_AGPS_MAX_BUFF_SIZE) MNL_AGPS_INTERFACE_VERSION;
     c \<leftarrow> put_int c MNL_AGPS_TYPE_REF_LOC_REQ;
     c \<leftarrow> put_int c flags;
     Some (AGPS_TO_MNL, sent c)
   }"

definition agps2mnl_pmtk :: "c_string \<Rightarrow> (dest \<times> c_char list) option" where
  "agps2mnl_pmtk pmtk = do {
     c \<leftarrow> put_int (zero_buff MNL_AGPS_MAX_BUFF_SIZE) MNL_AGPS_INTERFACE_VERSION;
     c \<leftarrow> put_int c MNL_AGPS_TYPE_AGPS2MNL_PMTK;
     c \<leftarrow> put_string c pmtk;
     Some (AGPS_TO_MNL, sent c)
   }"

definition agps2mnl_gpevt :: "c_int \<Rightarrow> (dest \<times> c_char list) option" where
  "agps2mnl_gpevt ty = do {
     c \<leftarrow> put_int (zero_buff MNL_AGPS_MAX_BUFF_SIZE) MNL_AGPS_INTERFACE_VERSION;
     c \<leftarrow> put_int c MNL_AGPS_TYPE_GPEVT;
     c \<leftarrow> put_int c ty;
     Some (AGPS_TO_MNL, sent c)
   }"

definition agps2mnl_agps_location :: "c_char list \<Rightarrow> (dest \<times> c_char list) option" where
  "agps2mnl_agps_location location = do {
     c \<leftarrow> put_int (zero_buff MNL_AGPS_MAX_BUFF_SIZE) MNL_AGPS_INTERFACE_VERSION;
     c \<leftarrow> put_int c MNL_AGPS_TYPE_AGPS_LOC;
     c \<leftarrow> put_struct c location;
     Some (AGPS_TO_MNL, sent c)
   }"

lemmas agps2mnl_senders [sender_defs] =
  agps2mnl_agps_reboot_def
  agps2mnl_agps_open_gps_req_def
  agps2mnl_agps_close_gps_req_def
  agps2mnl_agps_reset_gps_req_def
  agps2mnl_agps_session_done_def
  agps2mnl_ni_notify_def
  agps2mnl_ni_notify2_def
  agps2mnl_data_conn_req_def
  agps2mnl_data_conn_req2_def
  agps2mnl_data_conn_release_def
  agps2mnl_set_id_req_def
  agps2mnl_ref_loc_req_def
  agps2mnl_pmtk_def
  agps2mnl_gpevt_def
  agps2mnl_agps_location_def

section \<open>The receiver\<close>

text \<open>\<open>mnl_agps_agps_settings\<close>: the fields are \<open>char\<close>s filled from transmitted ints.\<close>

record agps_settings =
  sib8_16_enable :: c_char
  gps_satellite_enable :: c_char
  glonass_satellite_enable :: c_char
  beidou_satellite_enable :: c_char
  galileo_satellite_enable :: c_char
  a_glonass_satellite_enable :: c_char

record 's agps2mnl_interface =
  am_agps_reboot :: "('s \<Rightarrow> 's option) option"
  am_agps_open_gps_req :: "(c_int \<Rightarrow> 's \<Rightarrow> 's option) option"
  am_agps_close_gps_req :: "('s \<Rightarrow> 's option) option"
  am_agps_reset_gps_req :: "(c_int \<Rightarrow> 's \<Rightarrow> 's option) option"
  am_agps_session_done :: "('s \<Rightarrow> 's option) option"
  am_ni_notify :: "(c_int \<Rightarrow> c_int \<Rightarrow> c_string \<Rightarrow> c_string \<Rightarrow> 's \<Rightarrow> 's option) option"
  am_ni_notify2 :: "(c_int \<Rightarrow> c_int \<Rightarrow> c_string \<Rightarrow> c_string \<Rightarrow> c_int \<Rightarrow> c_int \<Rightarrow> 's \<Rightarrow> 's option) option"
  am_data_conn_req :: "(c_int \<Rightarrow> c_int \<Rightarrow> 's \<Rightarrow> 's option) option"
  am_data_conn_req2 :: "(c_char list \<Rightarrow> c_int \<Rightarrow> 's \<Rightarrow> 's option) option"
  am_data_conn_release :: "('s \<Rightarrow> 's option) option"
  am_set_id_req :: "(c_int \<Rightarrow> 's \<Rightarrow> 's option) option"
  am_ref_loc_req :: "(c_int \<Rightarrow> 's \<Rightarrow> 's option) option"
  am_rcv_pmtk :: "(c_string \<Rightarrow> 's \<Rightarrow> 's option) option"
  am_gpevt :: "(c_int \<Rightarrow> 's \<Rightarrow> 's option) option"
  am_agps_location :: "(c_char list \<Rightarrow> 's \<Rightarrow> 's option) option"
  am_agps_settings_sync :: "(agps_settings \<Rightarrow> 's \<Rightarrow> 's option) option"

definition agps2mnl_hdlr_rest ::
  "(nat \<Rightarrow> c_char) \<Rightarrow> c_int \<Rightarrow> cursor \<Rightarrow> 's agps2mnl_interface \<Rightarrow> 's \<Rightarrow> 's option" where
  "agps2mnl_hdlr_rest u type c hdlr s =
    (if type = MNL_AGPS_TYPE_DATA_CONN_REQ2 then
       do {
         (addr, c) \<leftarrow> get_struct (uninit u 128) c;
         (is_emergency, c) \<leftarrow> get_int c;
         (case am_data_conn_req2 hdlr of Some f \<Rightarrow> f addr is_emergency s | None \<Rightarrow> Some s)
       }
     else if type = MNL_AGPS_TYPE_DATA_CONN_RELEASE then
       (case am_data_conn_release hdlr of Some f \<Rightarrow> f s | None \<Rightarrow> Some s)
     else if type = MNL_AGPS_TYPE_SET_ID_REQ then
       do {
         (flags, c) \<leftarrow> get_int c;
         (case am_set_id_req hdlr of Some f \<Rightarrow> f flags s | None \<Rightarrow> Some s)
       }
     else if type = MNL_AGPS_TYPE_REF_LOC_REQ then
       do {
         (flags, c) \<leftarrow> get_int c;
         (case am_ref_loc_req hdlr of Some f \<Rightarrow> f flags s | None \<Rightarrow> Some s)
       }
     else if type = MNL_AGPS_TYPE_AGPS2MNL_PMTK then
       do {
         (pmtk, c) \<leftarrow> get_str c;
         (case am_rcv_pmtk hdlr of Some f \<Rightarrow> do { pmtk \<leftarrow> pmtk; f pmtk s } | None \<Rightarrow> Some s)
       }
     else if type = MNL_AGPS_TYPE_GPEVT then
       do {
         (ty, c) \<leftarrow> get_int c;
         (case am_gpevt hdlr of Some f \<Rightarrow> f ty s | None \<Rightarrow> Some s)
       }
     else if type = MNL_AGPS_TYPE_AGPS_LOC then
       do {
         (location, c) \<leftarrow> get_struct (uninit u 72) c;
         (case am_agps_location hdlr of Some f \<Rightarrow> f location s | None \<Rightarrow> Some s)
       }
     else if type = MNL_AGPS_TYPE_SETTINGS_SYNC then
       do {
         (sib, c) \<leftarrow> get_int c;
         (gps, c) \<leftarrow> get_int c;
         (glonass, c) \<leftarrow> get_int c;
         (beidou, c) \<leftarrow> get_int c;
         (galileo, c) \<leftarrow> get_int c;
         (a_glonass, c) \<leftarrow> get_int c;
         (case am_agps_settings_sync hdlr of
            Some f \<Rightarrow> f \<lparr>sib8_16_enable = ucast sib, gps_satellite_enable = ucast gps,
                glonass_satellite_enable = ucast glonass, beidou_satellite_enable = ucast beidou,
                galileo_satellite_enable = ucast galileo,
                a_glonass_satellite_enable = ucast a_glonass\<rparr> s
          | None \<Rightarrow> Some s)
       }
     else Some s)"

definition agps2mnl_hdlr_session ::
  "(nat \<Rightarrow> c_char) \<Rightarrow> c_int \<Rightarrow> cursor \<Rightarrow> 's agps2mnl_interface \<Rightarrow> 's \<Rightarrow> 's option" where
  "agps2mnl_hdlr_session u type c hdlr s =
    (if type = MNL_AGPS_TYPE_AGPS_REBOOT then
       (case am_agps_reboot hdlr of Some f \<Rightarrow> f s | None \<Rightarrow> Some s)
     else if type = MNL_AGPS_TYPE_AGPS_OPEN_GPS_REQ then
       do {
         (show_gps_icon, c) \<leftarrow> get_int c;
         (case am_agps_open_gps_req hdlr of Some f \<Rightarrow> f show_gps_icon s | None \<Rightarrow> Some s)
       }
     else if type = MNL_AGPS_TYPE_AGPS_CLOSE_GPS_REQ then
       (case am_agps_close_gps_req hdlr of Some f \<Rightarrow> f s | None \<Rightarrow> Some s)
     else if type = MNL_AGPS_TYPE_AGPS_RESET_GPS_REQ then
       do {
         (flags, c) \<leftarrow> get_int c;
         (case am_agps_reset_gps_req hdlr of Some f \<Rightarrow> f flags s | None \<Rightarrow> Some s)
       }
     else if type = MNL_AGPS_TYPE_AGPS_SESSION_DONE then
       (case am_agps_session_done hdlr of Some f \<Rightarrow> f s | None \<Rightarrow> Some s)
     else if type = MNL_AGPS_TYPE_NI_NOTIFY then
       do {
         (session_id, c) \<leftarrow> get_int c;
         (ty, c) \<leftarrow> get_int c;
         (requestor_id, c) \<leftarrow> get_str c;
         (client_name, c) \<leftarrow> get_str c;
         (case am_ni_notify hdlr of Some f \<Rightarrow> do { requestor_id \<leftarrow> requestor_id; client_name \<leftarrow> client_name; f session_id ty requestor_id client_name s } | None \<Rightarrow> Some s)
       }
     else if type = MNL_AGPS_TYPE_NI_NOTIFY_2 then
       do {
         (session_id, c) \<leftarrow> get_int c;
         (ty, c) \<leftarrow> get_int c;
         (requestor_id, c) \<leftarrow> get_str c;
         (client_name, c) \<leftarrow> get_str c;
         (requestor_id_encoding, c) \<leftarrow> get_int c;
         (client_name_encoding, c) \<leftarrow> get_int c;
         (case am_ni_notify2 hdlr of Some f \<Rightarrow> do { requestor_id \<leftarrow> requestor_id; client_name \<leftarrow> client_name; f session_id ty requestor_id client_name requestor_id_encoding client_name_encoding s } | None \<Rightarrow> Some s)
       }
     else if type = MNL_AGPS_TYPE_DATA_CONN_REQ then
       do {
         (ipaddr, c) \<leftarrow> get_int c;
         (is_emergency, c) \<leftarrow> get_int c;
         (case am_data_conn_req hdlr of Some f \<Rightarrow> f ipaddr is_emergency s | None \<Rightarrow> Some s)
       }
     else agps2mnl_hdlr_rest u type c hdlr s)"

definition agps2mnl_hdlr ::
  "(nat \<Rightarrow> c_char) \<Rightarrow> rx list \<Rightarrow> 's agps2mnl_interface \<Rightarrow> 's \<Rightarrow> ('s \<times> rx list) option" where
  "agps2mnl_hdlr u rs hdlr s =
     (case safe_recvfrom MNL_AGPS_MAX_BUFF_SIZE rs of
        (ret, d, rs) \<Rightarrow>
          if ret \<le> 0 then Some (s, rs)
          else do {
            (version, c) \<leftarrow> get_int (recv_buff MNL_AGPS_MAX_BUFF_SIZE d);
            (type, c) \<leftarrow> get_int c;
            s \<leftarrow> agps2mnl_hdlr_session u type c hdlr s;
            Some (s, rs)
          })"

section \<open>Messages\<close>

datatype agps2mnl_msg =
    A2M_agps_reboot 
  | A2M_agps_open_gps_req c_int
  | A2M_agps_close_gps_req 
  | A2M_agps_reset_gps_req c_int
  | A2M_agps_session_done 
  | A2M_ni_notify c_int c_int c_string c_string
  | A2M_ni_notify2 c_int c_int c_string c_string c_int c_int
  | A2M_data_conn_req c_int c_int
  | A2M_data_conn_req2 "c_char list" c_int
  | A2M_data_conn_release 
  | A2M_set_id_req c_int
  | A2M_ref_loc_req c_int
  | A2M_pmtk c_string
  | A2M_gpevt c_int
  | A2M_agps_location "c_char list"

fun send_agps2mnl :: "agps2mnl_msg \<Rightarrow> (dest \<times> c_char list) option" where
  "send_agps2mnl A2M_agps_reboot = agps2mnl_agps_reboot"
| "send_agps2mnl (A2M_agps_open_gps_req show_gps_icon) = agps2mnl_agps_open_gps_req show_gps_icon"
| "send_agps2mnl A2M_agps_close_gps_req = agps2mnl_agps_close_gps_req"
| "send_agps2mnl (A2M_agps_reset_gps_req flags) = agps2mnl_agps_reset_gps_req flags"
| "send_agps2mnl A2M_agps_session_done = agps2mnl_agps_session_done"
| "send_agps2mnl (A2M_ni_notify session_id ty requestor_id client_name) = agps2mnl_ni_notify session_id ty requestor_id client_name"
| "send_agps2mnl (A2M_ni_notify2 session_id ty requestor_id client_name requestor_id_encoding client_name_encoding) = agps2mnl_ni_notify2 session_id ty requestor_id client_name requestor_id_encoding client_name_encoding"
| "send_agps2mnl (A2M_data_conn_req ipaddr is_emergency) = agps2mnl_data_conn_req ipaddr is_emergency"
| "send_agps2mnl (A2M_data_conn_req2 addr is_emergency) = agps2mnl_data_conn_req2 addr is_emergency"
| "send_agps2mnl A2M_data_conn_release = agps2mnl_data_conn_release"
| "send_agps2mnl (A2M_set_id_req flags) = agps2mnl_set_id_req flags"
| "send_agps2mnl (A2M_ref_loc_req flags) = agps2mnl_ref_loc_req flags"
| "send_agps2mnl (A2M_pmtk pmtk) = agps2mnl_pmtk pmtk"
| "send_agps2mnl (A2M_gpevt ty) = agps2mnl_gpevt ty"
| "send_agps2mnl (A2M_agps_location location) = agps2mnl_agps_location location"

fun call_agps2mnl :: "'s agps2mnl_interface \<Rightarrow> agps2mnl_msg \<Rightarrow> 's \<Rightarrow> 's option" where
  "call_agps2mnl h A2M_agps_reboot s = (case am_agps_reboot h of Some f \<Rightarrow> f s | None \<Rightarrow> Some s)"
| "call_agps2mnl h (A2M_agps_open_gps_req show_gps_icon) s = (case am_agps_open_gps_req h of Some f \<Rightarrow> f show_gps_icon s | None \<Rightarrow> Some s)"
| "call_agps2mnl h A2M_agps_close_gps_req s = (case am_agps_close_gps_req h of Some f \<Rightarrow> f s | None \<Rightarrow> Some s)"
| "call_agps2mnl h (A2M_agps_reset_gps_req flags) s = (case am_agps_reset_gps_req h of Some f \<Rightarrow> f flags s | None \<Rightarrow> Some s)"
| "call_agps2mnl h A2M_agps_session_done s = (case am_agps_session_done h of Some f \<Rightarrow> f s | None \<Rightarrow> Some s)"
| "call_agps2mnl h (A2M_ni_notify session_id ty requestor_id client_name) s = (case am_ni_notify h of Some f \<Rightarrow> f session_id ty requestor_id client_name s | None \<Rightarrow> Some s)"
| "call_agps2mnl h (A2M_ni_notify2 session_id ty requestor_id client_name requestor_id_encoding client_name_encoding) s = (case am_ni_notify2 h of Some f \<Rightarrow> f session_id ty requestor_id client_name requestor_id_encoding client_name_encoding s | None \<Rightarrow> Some s)"
| "call_agps2mnl h (A2M_data_conn_req ipaddr is_emergency) s = (case am_data_conn_req h of Some f \<Rightarrow> f ipaddr is_emergency s | None \<Rightarrow> Some s)"
| "call_agps2mnl h (A2M_data_conn_req2 addr is_emergency) s = (case am_data_conn_req2 h of Some f \<Rightarrow> f addr is_emergency s | None \<Rightarrow> Some s)"
| "call_agps2mnl h A2M_data_conn_release s = (case am_data_conn_release h of Some f \<Rightarrow> f s | None \<Rightarrow> Some s)"
| "call_agps2mnl h (A2M_set_id_req flags) s = (case am_set_id_req h of Some f \<Rightarrow> f flags s | None \<Rightarrow> Some s)"
| "call_agps2mnl h (A2M_ref_loc_req flags) s = (case am_ref_loc_req h of Some f \<Rightarrow> f flags s | None \<Rightarrow> Some s)"
| "call_agps2mnl h (A2M_pmtk pmtk) s = (case am_rcv_pmtk h of Some f \<Rightarrow> f pmtk s | None \<Rightarrow> Some s)"
| "call_agps2mnl h (A2M_gpevt ty) s = (case am_gpevt h of Some f \<Rightarrow> f ty s | None \<Rightarrow> Some s)"
| "call_agps2mnl h (A2M_agps_location location) s = (case am_agps_location h of Some f \<Rightarrow> f location s | None \<Rightarrow> Some s)"

fun agps2mnl_ok :: "agps2mnl_msg \<Rightarrow> bool" where
  "agps2mnl_ok (A2M_ni_notify _ _ requestor_id client_name) = (string_ok requestor_id \<and> string_ok client_name)"
| "agps2mnl_ok (A2M_ni_notify2 _ _ requestor_id client_name _ _) = (string_ok requestor_id \<and> string_ok client_name)"
| "agps2mnl_ok (A2M_data_conn_req2 addr _) = (length addr = 128)"
| "agps2mnl_ok (A2M_pmtk pmtk) = string_ok pmtk"
| "agps2mnl_ok (A2M_agps_location location) = (length location = 72)"
| "agps2mnl_ok _ = True"

text \<open>The wire format.\<close>

fun wire_agps2mnl :: "agps2mnl_msg \<Rightarrow> c_char list" where
  "wire_agps2mnl A2M_agps_reboot =
     enc_int MNL_AGPS_INTERFACE_VERSION @ enc_int MNL_AGPS_TYPE_AGPS_REBOOT"
| "wire_agps2mnl (A2M_agps_open_gps_req show_gps_icon) =
     enc_int MNL_AGPS_INTERFACE_VERSION @ enc_int MNL_AGPS_TYPE_AGPS_OPEN_GPS_REQ @ enc_int show_gps_icon"
| "wire_agps2mnl A2M_agps_close_gps_req =
     enc_int MNL_AGPS_INTERFACE_VERSION @ enc_int MNL_AGPS_TYPE_AGPS_CLOSE_GPS_REQ"
| "wire_agps2mnl (A2M_agps_reset_gps_req flags) =
     enc_int MNL_AGPS_INTERFACE_VERSION @ enc_int MNL_AGPS_TYPE_AGPS_RESET_GPS_REQ @ enc_int flags"
| "wire_agps2mnl A2M_agps_session_done =
     enc_int MNL_AGPS_INTERFACE_VERSION @ enc_int MNL_AGPS_TYPE_AGPS_SESSION_DONE"
| "wire_agps2mnl (A2M_ni_notify session_id ty requestor_id client_name) =
     enc_int MNL_AGPS_INTERFACE_VERSION @ enc_int MNL_AGPS_TYPE_NI_NOTIFY @ enc_int session_id @ enc_int ty @ enc_string requestor_id @ enc_string client_name"
| "wire_agps2mnl (A2M_ni_notify2 session_id ty requestor_id client_name requestor_id_encoding client_name_encoding) =
     enc_int MNL_AGPS_INTERFACE_VERSION @ enc_int MNL_AGPS_TYPE_NI_NOTIFY_2 @ enc_int session_id @ enc_int ty @ enc_string requestor_id @ enc_string client_name @ enc_int requestor_id_encoding @ enc_int client_name_encoding"
| "wire_agps2mnl (A2M_data_conn_req ipaddr is_emergency) =
     enc_int MNL_AGPS_INTERFACE_VERSION @ enc_int MNL_AGPS_TYPE_DATA_CONN_REQ @ enc_int ipaddr @ enc_int is_emergency"
| "wire_agps2mnl (A2M_data_conn_req2 addr is_emergency) =
     enc_int MNL_AGPS_INTERFACE_VERSION @ enc_int MNL_AGPS_TYPE_DATA_CONN_REQ2 @ enc_binary addr @ enc_int is_emergency"
| "wire_agps2mnl A2M_data_conn_release =
     enc_int MNL_AGPS_INTERFACE_VERSION @ enc_int MNL_AGPS_TYPE_DATA_CONN_RELEASE"
| "wire_agps2mnl (A2M_set_id_req flags) =
     enc_int MNL_AGPS_INTERFACE_VERSION @ enc_int MNL_AGPS_TYPE_SET_ID_REQ @ enc_int flags"
| "wire_agps2mnl (A2M_ref_loc_req flags) =
     enc_int MNL_AGPS_INTERFACE_VERSION @ enc_int MNL_AGPS_TYPE_REF_LOC_REQ @ enc_int flags"
| "wire_agps2mnl (A2M_pmtk pmtk) =
     enc_int MNL_AGPS_INTERFACE_VERSION @ enc_int MNL_AGPS_TYPE_AGPS2MNL_PMTK @ enc_string pmtk"
| "wire_agps2mnl (A2M_gpevt ty) =
     enc_int MNL_AGPS_INTERFACE_VERSION @ enc_int MNL_AGPS_TYPE_GPEVT @ enc_int ty"
| "wire_agps2mnl (A2M_agps_location location) =
     enc_int MNL_AGPS_INTERFACE_VERSION @ enc_int MNL_AGPS_TYPE_AGPS_LOC @ enc_binary location"

section \<open>The senders produce the wire format, the receiver calls the callback\<close>

lemma send_agps2mnl_eq:
  assumes "agps2mnl_ok m"
  shows "send_agps2mnl m = (if length (wire_agps2mnl m) \<le> MNL_AGPS_MAX_BUFF_SIZE
           then Some (AGPS_TO_MNL, wire_agps2mnl m) else None)"
  using assms
  by (cases m) (auto simp: sender_defs zero_buff_rd sent_rd store_simps binary_ok_def)

lemma agps2mnl_run:
  assumes "agps2mnl_ok m" "length (wire_agps2mnl m) \<le> MNL_AGPS_MAX_BUFF_SIZE"
  shows "do { (ver, c) \<leftarrow> get_int (rd MNL_AGPS_MAX_BUFF_SIZE [] (wire_agps2mnl m));
              (type, c) \<leftarrow> get_int c; agps2mnl_hdlr_session u type c h s } = call_agps2mnl h m s"
  using assms
  by (cases m) (auto simp: store_simps agps2mnl_hdlr_session_def agps2mnl_hdlr_rest_def split: option.splits)

lemma agps2mnl_hdlr_unfold:
  assumes "0 < length d" "length d \<le> MNL_AGPS_MAX_BUFF_SIZE"
  shows "agps2mnl_hdlr u (RxData d # rs) h s =
    map_option (\<lambda>s. (s, rs))
      (do { (ver, c) \<leftarrow> get_int (rd MNL_AGPS_MAX_BUFF_SIZE [] d);
            (type, c) \<leftarrow> get_int c; agps2mnl_hdlr_session u type c h s })"
  using assms by (auto simp: agps2mnl_hdlr_def safe_recvfrom_def recv_buff_rd split: Option.bind_splits)

lemma wire_agps2mnl_pos: "0 < length (wire_agps2mnl m)"
  by (cases m) auto

lemma agps2mnl_delivered:
  assumes "agps2mnl_ok m" "send_agps2mnl m = Some (q, d)"
  shows "agps2mnl_hdlr u (RxData d # rs) h s = map_option (\<lambda>s. (s, rs)) (call_agps2mnl h m s)"
proof -
  have d: "d = wire_agps2mnl m" and len: "length (wire_agps2mnl m) \<le> MNL_AGPS_MAX_BUFF_SIZE"
    using assms by (auto simp: send_agps2mnl_eq split: if_splits)
  show ?thesis
    unfolding d agps2mnl_hdlr_unfold [OF wire_agps2mnl_pos len] agps2mnl_run [OF assms(1) len] ..
qed

interpretation a2m: channel "\<lambda>m. map_option snd (send_agps2mnl m)"
    "\<lambda>rs s. map_option (\<lambda>(s, rs). ((), s, rs)) (agps2mnl_hdlr u rs h s)"
    "\<lambda>m s. map_option (Pair ()) (call_agps2mnl h m s)" agps2mnl_ok for u h
  by unfold_locales (auto simp: agps2mnl_delivered option.map_comp comp_def)

section \<open>Properties\<close>

text \<open>A message the AGPS daemon sends runs in the GPS daemon exactly
  the callback it is for, on the sender's arguments, whatever the receiver's uninitialised
  stack holds.\<close>

theorem agps2mnl_round_trip:
  assumes "agps2mnl_ok m" "send_agps2mnl m = Some (q, d)"
  shows "q = AGPS_TO_MNL \<and>
    agps2mnl_hdlr u (RxData d # rs) h s = map_option (\<lambda>s. (s, rs)) (call_agps2mnl h m s)"
  using assms agps2mnl_delivered [OF assms, of u rs h s] by (auto simp: send_agps2mnl_eq split: if_splits)

definition no_agps2mnl_callbacks :: "'s agps2mnl_interface" where
  "no_agps2mnl_callbacks = \<lparr>am_agps_reboot = None, am_agps_open_gps_req = None, am_agps_close_gps_req = None,
     am_agps_reset_gps_req = None, am_agps_session_done = None, am_ni_notify = None,
     am_ni_notify2 = None, am_data_conn_req = None, am_data_conn_req2 = None,
     am_data_conn_release = None, am_set_id_req = None, am_ref_loc_req = None,
     am_rcv_pmtk = None, am_gpevt = None, am_agps_location = None,
     am_agps_settings_sync = None\<rparr>"

definition requests_log :: "c_int list agps2mnl_interface" where
  "requests_log = no_agps2mnl_callbacks\<lparr>
     am_data_conn_req := Some (\<lambda>a e s. Some (s @ [a, e])),
     am_agps_settings_sync := Some (\<lambda>x s. Some (s @ [ucast (sib8_16_enable x),
        ucast (gps_satellite_enable x)]))\<rparr>"

lemma send_data_conn_req_sample:
  "send_agps2mnl (A2M_data_conn_req 5 1) = Some (AGPS_TO_MNL, wire_agps2mnl (A2M_data_conn_req 5 1))"
  by (subst send_agps2mnl_eq) auto

theorem agps2mnl_round_trip_witness:
  "agps2mnl_hdlr (\<lambda>_. 0) [RxData (wire_agps2mnl (A2M_data_conn_req 5 1))] requests_log [] =
     Some ([5, 1], [])"
  using agps2mnl_round_trip [OF _ send_data_conn_req_sample, of "\<lambda>_. 0" "[]" requests_log "[]"]
  by (simp add: requests_log_def)

text \<open>The settings message carries six ints and the callback gets
  six chars: each setting is reduced modulo 256, so that a nonzero value such as 256 arrives as
  "disabled".\<close>

theorem settings_sync_truncates:
  assumes "am_agps_settings_sync h = Some f" "length extra \<le> 8160"
  shows "agps2mnl_hdlr u (RxData (enc_int ver @ enc_int 252 @ enc_int a @ enc_int b @ enc_int c @
      enc_int d @ enc_int e @ enc_int g @ extra) # rs) h s =
    map_option (\<lambda>s. (s, rs)) (f \<lparr>sib8_16_enable = word_of_int (uint a mod 256),
      gps_satellite_enable = word_of_int (uint b mod 256),
      glonass_satellite_enable = word_of_int (uint c mod 256),
      beidou_satellite_enable = word_of_int (uint d mod 256),
      galileo_satellite_enable = word_of_int (uint e mod 256),
      a_glonass_satellite_enable = word_of_int (uint g mod 256)\<rparr> s)"
proof -
  have "(ucast x :: c_char) = word_of_int (uint x mod 256)" for x :: c_int
    by (rule word_uint_eqI) (simp add: uint_word_of_int unsigned_ucast_eq take_bit_eq_mod)
  then show ?thesis
    using assms by (subst agps2mnl_hdlr_unfold)
      (auto simp: store_simps agps2mnl_hdlr_session_def agps2mnl_hdlr_rest_def)
qed

theorem settings_sync_truncates_witness:
  "agps2mnl_hdlr (\<lambda>_. 0) [RxData (enc_int 1 @ enc_int 252 @ enc_int 256 @ enc_int 1 @ enc_int 0 @
      enc_int 0 @ enc_int 0 @ enc_int 0 @ [])] requests_log [] = Some ([0, 1], [])"
  using settings_sync_truncates [of requests_log _ "[]" "\<lambda>_. 0" 1 256 1 0 0 0 0 "[]" "[]"]
  by (simp add: requests_log_def del: word_of_int_numeral)

end
