(* ===== verification/Mnl_Flp.thy ===== *)
theory Mnl_Flp
  imports Mnl2Hal
begin

text \<open>
  The offload (FLP) interface of the daemon, \<^verbatim>\<open>mtk/gps/mtk_mnld/mnl_flp_interface/src\<close>:
  the messages to the FLP daemon and the receiver \<open>flp2mnl_hdlr\<close> of
  \<^verbatim>\<open>mnl_flp_interface.c\<close>, the data callback of the GPS library with its loop-back buffer,
  and the receiver of the FLP test program, \<^verbatim>\<open>mnl_flp_test_interface.c\<close>. Unlike the other
  interfaces these messages are C structures: \<open>MTK_FLP_OFFLOAD_MSG_T\<close> is a type, a length
  and 600 bytes of data, 608 bytes in all.
\<close>

abbreviation FLP_MNL_BUFF_SIZE :: nat where "FLP_MNL_BUFF_SIZE \<equiv> 1024"
abbreviation FLP_MNL_INTERFACE_VERSION :: c_int where "FLP_MNL_INTERFACE_VERSION \<equiv> 1"
abbreviation OFFLOAD_PAYLOAD_LEN :: nat where "OFFLOAD_PAYLOAD_LEN \<equiv> 600"
abbreviation FLPMNL_GPS_START :: c_int where "FLPMNL_GPS_START \<equiv> 0"
abbreviation FLPMNL_GPS_STOP :: c_int where "FLPMNL_GPS_STOP \<equiv> 1"
abbreviation FLPMNL_GPS_LPBK :: c_int where "FLPMNL_GPS_LPBK \<equiv> 2"
abbreviation FLPMNL_DATA_SEND :: c_int where "FLPMNL_DATA_SEND \<equiv> 3"
abbreviation FLPMNL_DATA_RECV :: c_int where "FLPMNL_DATA_RECV \<equiv> 4"
abbreviation FLPMNL_REBOOT_DONE :: c_int where "FLPMNL_REBOOT_DONE \<equiv> 6"
abbreviation FLPMNL_GPS_OPEN_DONE :: c_int where "FLPMNL_GPS_OPEN_DONE \<equiv> 7"
abbreviation FLPMNL_GPS_STOP_DONE :: c_int where "FLPMNL_GPS_STOP_DONE \<equiv> 8"

section \<open>Messages to the FLP daemon\<close>

record MTK_FLP_OFFLOAD_MSG =
  flp_type :: c_int
  flp_length :: c_int
  flp_data :: "c_char list"

text \<open>The structure as it lies in the buffer, and the structure a buffer holds.\<close>

definition flp_bytes :: "MTK_FLP_OFFLOAD_MSG \<Rightarrow> c_char list" where
  "flp_bytes m = enc_int (flp_type m) @ enc_int (flp_length m) @ flp_data m"

definition flp_msg :: "c_char list \<Rightarrow> MTK_FLP_OFFLOAD_MSG" where
  "flp_msg b = \<lparr>flp_type = le32 b, flp_length = le32 (drop 4 b),
     flp_data = take OFFLOAD_PAYLOAD_LEN (drop 8 b)\<rparr>"

text \<open>A message in a zeroed buffer, of which the first 608 bytes are sent.\<close>

definition mnl2flp_mnld_reboot :: "c_char list" where
  "mnl2flp_mnld_reboot = flp_bytes \<lparr>flp_type = FLPMNL_REBOOT_DONE, flp_length = 4,
     flp_data = enc_int FLP_MNL_INTERFACE_VERSION @ replicate 596 0\<rparr>"

definition mnl2flp_gps_open_done :: "c_char list" where
  "mnl2flp_gps_open_done = flp_bytes \<lparr>flp_type = FLPMNL_GPS_OPEN_DONE, flp_length = 0,
     flp_data = replicate OFFLOAD_PAYLOAD_LEN 0\<rparr>"

definition mnl2flp_gps_close_done :: "c_char list" where
  "mnl2flp_gps_close_done = flp_bytes \<lparr>flp_type = FLPMNL_GPS_STOP_DONE, flp_length = 0,
     flp_data = replicate OFFLOAD_PAYLOAD_LEN 0\<rparr>"

text \<open>\<open>mnl2flp_data_send(buf, len)\<close> sends the first \<open>len\<close> bytes of an array.\<close>

definition mnl2flp_data_send :: "c_char list \<Rightarrow> nat \<Rightarrow> c_char list option" where
  "mnl2flp_data_send buf len = (if len \<le> length buf then Some (take len buf) else None)"

section \<open>Data from the GPS library\<close>

text \<open>The statics of \<open>mtk_gps_ofl_sys_submit_flp_data\<close>: the 1024-byte loop-back buffer, its
  fill, and the test switch \<open>ofl_lpbk_tst_start\<close>.\<close>

record lpbk =
  tmp_buf :: "c_char list"
  tmp_buf_w :: nat
  ofl_lpbk_tst_start :: c_int

abbreviation ofl_lpbk_tst_size :: nat where "ofl_lpbk_tst_size \<equiv> 300"

datatype flp_out =
    Ofl_send "c_char list" \<comment> \<open>\<open>mtk_gps_ofl_send_flp_data\<close>: back to the chip\<close>
  | Flp_send "c_char list" \<comment> \<open>a datagram to \<open>MTK_MNL2FLP\<close>\<close>

text \<open>\<open>buf\<close> is the data handed in, \<open>None\<close> a null pointer; \<open>len\<close> is at most its size.\<close>

definition mtk_gps_ofl_sys_submit_flp_data ::
  "c_char list option \<Rightarrow> nat \<Rightarrow> lpbk \<Rightarrow> (flp_out list \<times> lpbk) option" where
  "mtk_gps_ofl_sys_submit_flp_data buf len l =
     (if ofl_lpbk_tst_start l = 1 then
        (case buf of
           None \<Rightarrow> None
         | Some b \<Rightarrow>
             if tmp_buf_w l + len \<le> length (tmp_buf l) \<and> len \<le> length b then
               let buf' = take (tmp_buf_w l) (tmp_buf l) @ take len b @ drop (tmp_buf_w l + len) (tmp_buf l);
                   w = tmp_buf_w l + len
               in if ofl_lpbk_tst_size \<le> w
                  then Some ([Ofl_send (take ofl_lpbk_tst_size buf')], l\<lparr>tmp_buf := buf', tmp_buf_w := 0\<rparr>)
                  else Some ([], l\<lparr>tmp_buf := buf', tmp_buf_w := w\<rparr>)
             else None)
      else
        (case buf of
           None \<Rightarrow> Some ([], l)
         | Some b \<Rightarrow>
             if len \<noteq> 0 \<and> len < 1023 then
               if len \<le> length b then
                 let d = (if len < OFFLOAD_PAYLOAD_LEN
                          then take len b @ replicate (OFFLOAD_PAYLOAD_LEN - len) 0
                          else replicate OFFLOAD_PAYLOAD_LEN 0)
                 in Some ([Flp_send (flp_bytes \<lparr>flp_type = FLPMNL_DATA_RECV, flp_length = word_of_nat len,
                        flp_data = d\<rparr> @ replicate 416 0)], l)
               else None
             else Some ([], l)))"

section \<open>The receivers\<close>

record 's flp2mnl_interface =
  fm_flp_reboot :: "('s \<Rightarrow> 's option) option"
  fm_gps_start :: "('s \<Rightarrow> 's option) option"
  fm_gps_stop :: "('s \<Rightarrow> 's option) option"
  fm_flp_lpbk :: "(c_char list \<Rightarrow> nat \<Rightarrow> 's \<Rightarrow> 's option) option"
  fm_flp_data :: "(MTK_FLP_OFFLOAD_MSG \<Rightarrow> 's \<Rightarrow> 's option) option"

text \<open>\<open>enable\<close> is \<open>mnl_offload_set_enabled\<close> (\<open>True\<close>) or \<open>mnl_offload_clear_enabled\<close>. The
  buffer is zeroed before the datagram is read into it, so it always holds a whole message.\<close>

definition flp2mnl_hdlr ::
  "(bool \<Rightarrow> 's \<Rightarrow> 's) \<Rightarrow> rx list \<Rightarrow> 's flp2mnl_interface \<Rightarrow> 's \<Rightarrow> (int \<times> 's \<times> rx list) option" where
  "flp2mnl_hdlr enable rs hdlr s =
     (case safe_recvfrom FLP_MNL_BUFF_SIZE rs of
        (ret, d, rs) \<Rightarrow>
          if ret \<le> 0 then Some (- 1, s, rs)
          else
            let buff = d @ replicate (FLP_MNL_BUFF_SIZE - length d) 0;
                prMsg = flp_msg buff;
                run = (\<lambda>f s. case f of Some f \<Rightarrow> map_option (\<lambda>s. (0, s, rs)) (f s)
                                    | None \<Rightarrow> Some (- 1, s, rs))
            in if flp_type prMsg = FLPMNL_REBOOT_DONE then run (fm_flp_reboot hdlr) s
               else if flp_type prMsg = FLPMNL_GPS_START then
                 run (fm_gps_start hdlr) (enable (le32 (flp_data prMsg) = 1) s)
               else if flp_type prMsg = FLPMNL_GPS_STOP then
                 run (fm_gps_stop hdlr) (enable (le32 (flp_data prMsg) = 1) s)
               else if flp_type prMsg = FLPMNL_GPS_LPBK then
                 run (map_option (\<lambda>f. f buff FLP_MNL_BUFF_SIZE) (fm_flp_lpbk hdlr)) s
               else if flp_type prMsg = FLPMNL_DATA_SEND then
                 run (map_option (\<lambda>f. f prMsg) (fm_flp_data hdlr)) s
               else Some (- 1, s, rs))"

record 's flp_test2mnl_interface =
  ft_gps_start :: "('s \<Rightarrow> 's option) option"
  ft_gps_stop :: "('s \<Rightarrow> 's option) option"
  ft_lpbk_start :: "('s \<Rightarrow> 's option) option"
  ft_lpbk_stop :: "('s \<Rightarrow> 's option) option"

text \<open>The test receiver looks at its zeroed buffer even when nothing could be read, and always
  returns \<open>MTK_GPS_SUCCESS\<close>.\<close>

definition flp_test2mnl_hdlr ::
  "rx list \<Rightarrow> 's flp_test2mnl_interface \<Rightarrow> 's \<Rightarrow> ('s \<times> rx list) option" where
  "flp_test2mnl_hdlr rs hdlr s =
     (case safe_recvfrom 1024 rs of
        (ret, d, rs) \<Rightarrow>
          let buff = d @ replicate (1024 - length d) 0;
              run = (\<lambda>f. case f of Some f \<Rightarrow> map_option (\<lambda>s. (s, rs)) (f s) | None \<Rightarrow> Some (s, rs))
          in if buff ! 0 = 49 then run (ft_gps_start hdlr)
             else if buff ! 0 = 50 then run (ft_gps_stop hdlr)
             else if buff ! 0 = 51 then run (ft_lpbk_start hdlr)
             else if buff ! 0 = 52 then run (ft_lpbk_stop hdlr)
             else Some (s, rs))"

section \<open>Lemmas\<close>

lemma length_flp_bytes [simp]: "length (flp_bytes m) = 8 + length (flp_data m)"
  by (simp add: flp_bytes_def)

lemma flp_msg_bytes:
  assumes "length (flp_data m) = OFFLOAD_PAYLOAD_LEN"
  shows "flp_msg (flp_bytes m @ bs) = m"
  using assms by (simp add: flp_msg_def flp_bytes_def)

text \<open>A whole structure received from the FLP daemon.\<close>

lemma flp2mnl_hdlr_bytes:
  assumes "length (flp_data m) = OFFLOAD_PAYLOAD_LEN"
  shows "flp2mnl_hdlr enable (RxData (flp_bytes m) # rs) hdlr s =
    (let run = (\<lambda>f s. case f of Some f \<Rightarrow> map_option (\<lambda>s. (0, s, rs)) (f s) | None \<Rightarrow> Some (- 1, s, rs))
     in if flp_type m = FLPMNL_REBOOT_DONE then run (fm_flp_reboot hdlr) s
        else if flp_type m = FLPMNL_GPS_START then
          run (fm_gps_start hdlr) (enable (le32 (flp_data m) = 1) s)
        else if flp_type m = FLPMNL_GPS_STOP then
          run (fm_gps_stop hdlr) (enable (le32 (flp_data m) = 1) s)
        else if flp_type m = FLPMNL_GPS_LPBK then
          run (map_option (\<lambda>f. f (flp_bytes m @ replicate 416 0) FLP_MNL_BUFF_SIZE) (fm_flp_lpbk hdlr)) s
        else if flp_type m = FLPMNL_DATA_SEND then
          run (map_option (\<lambda>f. f m) (fm_flp_data hdlr)) s
        else Some (- 1, s, rs))"
  using assms by (simp add: flp2mnl_hdlr_def safe_recvfrom_def flp_msg_bytes Let_def split: option.split)

text \<open>The loop-back buffer: below 300 bytes after every call, so a call overruns it exactly when
  it brings more than the free space.\<close>

definition lpbk_inv :: "lpbk \<Rightarrow> bool" where
  "lpbk_inv l \<longleftrightarrow> length (tmp_buf l) = 1024 \<and> tmp_buf_w l < ofl_lpbk_tst_size"

lemma submit_keeps_inv:
  "lpbk_inv l \<Longrightarrow> mtk_gps_ofl_sys_submit_flp_data buf len l = Some (out, l') \<Longrightarrow> lpbk_inv l'"
  by (auto simp: mtk_gps_ofl_sys_submit_flp_data_def lpbk_inv_def Let_def
      split: if_splits option.splits)

section \<open>The loop-back test\<close>

text \<open>A run of the callback over the chunks the chip sends.\<close>

fun submit_all :: "c_char list list \<Rightarrow> lpbk \<Rightarrow> (flp_out list \<times> lpbk) option" where
  "submit_all [] l = Some ([], l)"
| "submit_all (b # bs) l = do {
     (o1, l) \<leftarrow> mtk_gps_ofl_sys_submit_flp_data (Some b) (length b) l;
     (o2, l) \<leftarrow> submit_all bs l;
     Some (o1 @ o2, l)
   }"

lemma submit_lpbk:
  assumes "lpbk_inv l" "ofl_lpbk_tst_start l = 1" "length b \<le> 725"
  shows "\<exists>o1 l'. mtk_gps_ofl_sys_submit_flp_data (Some b) (length b) l = Some (o1, l') \<and>
    lpbk_inv l' \<and> ofl_lpbk_tst_start l' = 1 \<and> (\<forall>x\<in>set o1. \<exists>d. x = Ofl_send d \<and> length d = 300)"
  using assms by (auto simp: mtk_gps_ofl_sys_submit_flp_data_def lpbk_inv_def Let_def)

text \<open>As long as no chunk is longer than 725 bytes, the loop-back test never overruns its
  1024-byte buffer, whatever the chunks and their order, and echoes exactly 300 bytes at a time;
  a single longer chunk can overrun it, for the callback copies it without a check.\<close>

theorem loopback_safe:
  assumes "lpbk_inv l" "ofl_lpbk_tst_start l = 1" "\<forall>b\<in>set bs. length b \<le> 725"
  shows "\<exists>os l'. submit_all bs l = Some (os, l') \<and> lpbk_inv l' \<and>
    (\<forall>x\<in>set os. \<exists>d. x = Ofl_send d \<and> length d = 300)"
  using assms
proof (induction bs arbitrary: l)
  case (Cons b bs)
  obtain o1 l1 where 1: "mtk_gps_ofl_sys_submit_flp_data (Some b) (length b) l = Some (o1, l1)"
    "lpbk_inv l1" "ofl_lpbk_tst_start l1 = 1" "\<forall>x\<in>set o1. \<exists>d. x = Ofl_send d \<and> length d = 300"
    using submit_lpbk [of l b] Cons.prems by auto
  then obtain os l' where "submit_all bs l1 = Some (os, l')" "lpbk_inv l'"
    "\<forall>x\<in>set os. \<exists>d. x = Ofl_send d \<and> length d = 300"
    using Cons.IH [of l1] Cons.prems by auto
  with 1 show ?case by auto
qed simp

definition lpbk_sample :: lpbk where
  "lpbk_sample = \<lparr>tmp_buf = replicate 1024 0, tmp_buf_w = 0, ofl_lpbk_tst_start = 1\<rparr>"

theorem loopback_safe_witness:
  "(\<exists>os l'. submit_all [replicate 725 1, replicate 200 2] lpbk_sample = Some (os, l') \<and> lpbk_inv l') \<and>
    mtk_gps_ofl_sys_submit_flp_data (Some (replicate 1025 1)) 1025 lpbk_sample = None"
proof
  show "\<exists>os l'. submit_all [replicate 725 1, replicate 200 2] lpbk_sample = Some (os, l') \<and> lpbk_inv l'"
    using loopback_safe [of lpbk_sample "[replicate 725 1, replicate 200 2]"]
    by (auto simp: lpbk_sample_def lpbk_inv_def)
qed (simp add: mtk_gps_ofl_sys_submit_flp_data_def lpbk_sample_def)

end
