(* ===== verification/Mnld.thy ===== *)
theory Mnld
  imports Hal2Mnl Agps2Mnl Mnl_Flp
begin

text \<open>
  The GPS state machine of the daemon and the handlers of its clients' messages,
  \<^verbatim>\<open>mtk/gps/mtk_mnld/mnld_entity/src/mnld.c\<close>. The static \<open>g_mnld_ctx\<close> is a record that
  every function takes and returns. What a function does to the outside (messages to the HAL,
  AGPS and FLP processes, commands to the GPS control, download and log threads, calls of the
  GPS library) is appended to the field \<open>out\<close> in the order the code does it. The kernel's
  timers are the field \<open>timers\<close>, the value last set for each. \<open>CRASH_TO_DEBUG()\<close>, a write
  through a null pointer, is \<open>None\<close>.
\<close>

section \<open>State\<close>

record mnld_gps_client =
  gps_used :: bool
  need_open_ack :: bool
  need_close_ack :: bool
  need_reset_ack :: bool

record mnld_gps_clients =
  hal :: mnld_gps_client
  agps :: mnld_gps_client
  flp :: mnld_gps_client
  flp_test :: mnld_gps_client
  at_cmd_test :: mnld_gps_client
  factory :: mnld_gps_client

datatype mnld_gps_state = IDLE | STARTING | STARTED | STOPPING

datatype mnld_gps_event = EVENT_START | EVENT_STOP | EVENT_RESET | EVENT_START_DONE | EVENT_STOP_DONE

datatype timer = Timer_start | Timer_stop | Timer_reset | Timer_nmea_monitor

text \<open>The \<open>nlp_context\<close> and \<open>ntp_context\<close> handed to the GPS library.\<close>

record nlp_context =
  nlp_latitude :: c_double
  nlp_longitude :: c_double
  nlp_accuracy :: c_float
  nlp_ts :: "c_int \<times> c_int"
  nlp_type :: c_char
  nlp_started :: c_char

record ntp_context =
  ntp_time :: c_llong
  ntp_timeReference :: c_llong
  ntp_uncertainty :: c_int

datatype effect =
    To_hal mnl2hal_msg
  | To_agps mnl2agps_msg
  | To_flp "c_char list"
  | Gps_start c_int | Gps_stop | Gps_reset c_int \<comment> \<open>\<open>gps_control_gps_*\<close>\<close>
  | Mnl_set_status | Driver_state_init | Agps_session_done | Rcv_pmtk c_string \<comment> \<open>\<open>gps_controller.c\<close>\<close>
  | Epo_start | Epo_update | Qepo_update c_int
  | Op01_start | Op01_stop | Op01_location c_double c_double c_int
  | Inject_ntp ntp_context | Inject_nlp nlp_context
  | Switch_constellation c_char | Sib8_16_enable c_char | Ofl_send_flp_data "c_char list"

record mnld_context =
  clients :: mnld_gps_clients
  gps_state :: mnld_gps_state
  is_gps_init :: bool
  is_gps_meas_enabled :: bool
  is_gps_navi_enabled :: bool
  delete_aiding_flag :: c_int
  gps_start_time :: c_int
  gps_stop_time :: c_int
  gps_ttff :: c_int
  wait_first_location :: bool
  is_network_connected :: bool
  is_wifi_connected :: bool
  is_epo_downloading :: bool
  sv_type_agps_set :: c_char
  sib8_16 :: c_char
  settings_from_agps :: agps_settings
  settings_to_agps :: "c_char \<times> c_char \<times> c_char \<times> c_char"
  offload_enabled :: bool        \<comment> \<open>\<open>mnld_cfg.OFFLOAD_enabled\<close>\<close>
  lpbk_tst_start :: c_int        \<comment> \<open>\<open>ofl_lpbk_tst_start\<close>\<close>
  start_time_out :: c_int
  nmea_data_time_out :: c_int
  timers :: "timer \<Rightarrow> int \<times> int"
  out :: "effect list"

text \<open>
  What the functions a handler calls find in its environment. No path of a handler asks twice
  for the same item.
\<close>

record env =
  tick :: c_int                     \<comment> \<open>\<open>get_tick()\<close>\<close>
  monotonic :: "(c_int \<times> c_int) option"  \<comment> \<open>\<open>clock_gettime(CLOCK_MONOTONIC)\<close>, \<open>None\<close>: it failed\<close>
  cmcc_log :: bool                  \<comment> \<open>\<open>get_gps_cmcc_log_enabled()\<close>\<close>
  epo_file_invalid :: bool          \<comment> \<open>\<open>epo_downloader_is_file_invalid()\<close>\<close>
  epo_download_enabled :: bool      \<comment> \<open>\<open>epo_is_epo_download_enabled()\<close>, after \<open>epo_read_cust_config()\<close>\<close>
  epo_wifi_trigger :: bool          \<comment> \<open>\<open>epo_is_wifi_trigger_enabled()\<close>, likewise\<close>
  chip_id :: string
  stack_byte :: c_char              \<comment> \<open>what an uninitialised \<open>UINT8\<close> holds\<close>

section \<open>Calls to the outside\<close>

definition emit :: "effect \<Rightarrow> mnld_context \<Rightarrow> mnld_context option" where
  "emit e s = Some (s\<lparr>out := out s @ [e]\<rparr>)"

definition to_hal :: "mnl2hal_msg \<Rightarrow> mnld_context \<Rightarrow> mnld_context option" where
  "to_hal m s = do { _ \<leftarrow> send_mnl2hal m; emit (To_hal m) s }"

definition to_agps :: "mnl2agps_msg \<Rightarrow> mnld_context \<Rightarrow> mnld_context option" where
  "to_agps m s = do { _ \<leftarrow> send_mnl2agps m; emit (To_agps m) s }"

definition set_timer :: "timer \<Rightarrow> int \<Rightarrow> mnld_context \<Rightarrow> mnld_context option" where
  "set_timer t ms s = Some (s\<lparr>timers := (timers s)(t := start_timer ms)\<rparr>)"

definition clear_timer :: "timer \<Rightarrow> mnld_context \<Rightarrow> mnld_context option" where
  "clear_timer t s = Some (s\<lparr>timers := (timers s)(t := stop_timer)\<rparr>)"

abbreviation armed :: "timer \<Rightarrow> mnld_context \<Rightarrow> bool" where
  "armed t s \<equiv> timers s t \<noteq> (0, 0)"

abbreviation GPS_STATUS_SESSION_BEGIN :: c_int where "GPS_STATUS_SESSION_BEGIN \<equiv> 1"
abbreviation GPS_STATUS_SESSION_END :: c_int where "GPS_STATUS_SESSION_END \<equiv> 2"
abbreviation GPS_STATUS_SESSION_ENGINE_ON :: c_int where "GPS_STATUS_SESSION_ENGINE_ON \<equiv> 3"
abbreviation GPS_STATUS_SESSION_ENGINE_OFF :: c_int where "GPS_STATUS_SESSION_ENGINE_OFF \<equiv> 4"
abbreviation MNLD_GPS_STOP_TIMEOUT :: int where "MNLD_GPS_STOP_TIMEOUT \<equiv> 10 * 1000"
abbreviation MNLD_GPS_RESET_TIMEOUT :: int where "MNLD_GPS_RESET_TIMEOUT \<equiv> 10 * 1000"

section \<open>The state machine\<close>

definition upd_clients :: "(mnld_gps_clients \<Rightarrow> mnld_gps_clients) \<Rightarrow> mnld_context \<Rightarrow> mnld_context" where
  "upd_clients f s = s\<lparr>clients := f (clients s)\<rparr>"

definition do_gps_reset_hdlr :: "mnld_context \<Rightarrow> mnld_context option" where
  "do_gps_reset_hdlr s =
     (if need_reset_ack (agps (clients s))
      then to_agps M2A_reset_gps_done (upd_clients (agps_update (need_reset_ack_update (\<lambda>_. False))) s)
      else Some s)"

definition do_gps_started_hdlr :: "c_int \<Rightarrow> mnld_context \<Rightarrow> mnld_context option" where
  "do_gps_started_hdlr si_assist_req s = do {
     s \<leftarrow> (if need_open_ack (hal (clients s)) then do {
             s \<leftarrow> Some (upd_clients (hal_update (need_open_ack_update (\<lambda>_. False))) s);
             s \<leftarrow> to_hal (M2H_gps_status GPS_STATUS_SESSION_ENGINE_ON) s;
             s \<leftarrow> to_hal (M2H_gps_status GPS_STATUS_SESSION_BEGIN) s;
             to_agps (M2A_gps_open si_assist_req) s
           } else Some s);
     s \<leftarrow> (if need_open_ack (agps (clients s))
           then to_agps M2A_open_gps_done (upd_clients (agps_update (need_open_ack_update (\<lambda>_. False))) s)
           else Some s);
     s \<leftarrow> (if need_open_ack (flp (clients s)) then do {
             s \<leftarrow> emit (To_flp mnl2flp_gps_open_done) (upd_clients (flp_update (need_open_ack_update (\<lambda>_. False))) s);
             to_agps (M2A_gps_open si_assist_req) s
           } else Some s);
     s \<leftarrow> Some (upd_clients (flp_test_update (need_open_ack_update (\<lambda>_. False))) s);
     s \<leftarrow> Some (upd_clients (at_cmd_test_update (need_open_ack_update (\<lambda>_. False))) s);
     s \<leftarrow> Some (upd_clients (factory_update (need_open_ack_update (\<lambda>_. False))) s);
     s \<leftarrow> do_gps_reset_hdlr s;
     if delete_aiding_flag s \<noteq> 0 then do {
       s \<leftarrow> set_timer Timer_reset MNLD_GPS_RESET_TIMEOUT s;
       s \<leftarrow> emit (Gps_reset (delete_aiding_flag s)) s;
       Some (s\<lparr>delete_aiding_flag := 0\<rparr>)
     } else Some s
   }"

definition do_gps_stopped_hdlr :: "mnld_context \<Rightarrow> mnld_context option" where
  "do_gps_stopped_hdlr s = do {
     s \<leftarrow> (if need_close_ack (hal (clients s)) then do {
             s \<leftarrow> Some (upd_clients (hal_update (need_close_ack_update (\<lambda>_. False))) s);
             s \<leftarrow> to_hal (M2H_gps_status GPS_STATUS_SESSION_END) s;
             s \<leftarrow> to_hal (M2H_gps_status GPS_STATUS_SESSION_ENGINE_OFF) s;
             to_agps M2A_gps_close s
           } else Some s);
     s \<leftarrow> (if need_close_ack (agps (clients s))
           then to_agps M2A_close_gps_done (upd_clients (agps_update (need_close_ack_update (\<lambda>_. False))) s)
           else Some s);
     s \<leftarrow> (if need_close_ack (flp (clients s))
           then emit (To_flp mnl2flp_gps_close_done) (upd_clients (flp_update (need_close_ack_update (\<lambda>_. False))) s)
           else Some s);
     s \<leftarrow> Some (upd_clients (flp_test_update (need_close_ack_update (\<lambda>_. False))) s);
     s \<leftarrow> Some (upd_clients (at_cmd_test_update (need_close_ack_update (\<lambda>_. False))) s);
     s \<leftarrow> Some (upd_clients (factory_update (need_close_ack_update (\<lambda>_. False))) s);
     do_gps_reset_hdlr s
   }"

definition is_all_gps_client_exit :: "mnld_context \<Rightarrow> bool" where
  "is_all_gps_client_exit s \<longleftrightarrow>
     \<not> gps_used (hal (clients s)) \<and> \<not> gps_used (agps (clients s)) \<and> \<not> gps_used (flp (clients s)) \<and>
     \<not> gps_used (flp_test (clients s)) \<and> \<not> gps_used (at_cmd_test (clients s)) \<and>
     \<not> gps_used (factory (clients s))"

definition is_a_gps_client_exist :: "mnld_context \<Rightarrow> bool" where
  "is_a_gps_client_exist s \<longleftrightarrow>
     gps_used (hal (clients s)) \<or> gps_used (agps (clients s)) \<or> gps_used (flp (clients s)) \<or>
     gps_used (flp_test (clients s)) \<or> gps_used (at_cmd_test (clients s)) \<or>
     gps_used (factory (clients s))"

definition mtk_gps_clear_gps_user :: "mnld_context \<Rightarrow> mnld_context" where
  "mtk_gps_clear_gps_user s = upd_clients
     (hal_update (gps_used_update (\<lambda>_. False)) \<circ> agps_update (gps_used_update (\<lambda>_. False)) \<circ>
      flp_update (gps_used_update (\<lambda>_. False)) \<circ> flp_test_update (gps_used_update (\<lambda>_. False)) \<circ>
      at_cmd_test_update (gps_used_update (\<lambda>_. False)) \<circ> factory_update (gps_used_update (\<lambda>_. False))) s"

abbreviation GPS_USER_UNKNOWN :: c_int where "GPS_USER_UNKNOWN \<equiv> 0"
abbreviation GPS_USER_APP :: c_int where "GPS_USER_APP \<equiv> 1"
abbreviation GPS_USER_AGPS :: c_int where "GPS_USER_AGPS \<equiv> 2"
abbreviation GPS_USER_META :: c_int where "GPS_USER_META \<equiv> 4"
abbreviation GPS_USER_FLP :: c_int where "GPS_USER_FLP \<equiv> 0x10"
abbreviation GPS_USER_OFL_TEST :: c_int where "GPS_USER_OFL_TEST \<equiv> 0x20"
abbreviation GPS_USER_AT_CMD :: c_int where "GPS_USER_AT_CMD \<equiv> 0x40"

definition mtk_gps_get_gps_user :: "mnld_context \<Rightarrow> c_int" where
  "mtk_gps_get_gps_user s =
     (let u = GPS_USER_UNKNOWN;
          u = (if gps_used (hal (clients s)) then u OR GPS_USER_APP else u);
          u = (if gps_used (agps (clients s)) then u OR GPS_USER_AGPS else u);
          u = (if gps_used (flp (clients s)) then u OR GPS_USER_FLP else u);
          u = (if gps_used (flp_test (clients s)) then u OR GPS_USER_OFL_TEST else u);
          u = (if gps_used (at_cmd_test (clients s)) then u OR GPS_USER_AT_CMD else u);
          u = (if gps_used (factory (clients s)) then u OR GPS_USER_META else u)
      in u)"

definition is_flp_user_exist :: "mnld_context \<Rightarrow> bool" where
  "is_flp_user_exist s = gps_used (flp (clients s))"

text \<open>What \<open>fsm_gps_state_idle\<close> and \<open>fsm_gps_state_stopping\<close> both do to start the chip.\<close>

definition start_engine :: "mnld_context \<Rightarrow> mnld_context option" where
  "start_engine s = do {
     s \<leftarrow> Some (s\<lparr>gps_state := STARTING\<rparr>);
     let gps_user = mtk_gps_get_gps_user s;
     s \<leftarrow> (if gps_user AND (GPS_USER_FLP OR GPS_USER_OFL_TEST) = gps_user \<and> offload_enabled s then Some s
           else set_timer Timer_start (sint (start_time_out s)) s);
     s \<leftarrow> emit (Gps_start (delete_aiding_flag s)) s;
     Some (s\<lparr>delete_aiding_flag := 0\<rparr>)
   }"

definition stop_engine :: "mnld_context \<Rightarrow> mnld_context option" where
  "stop_engine s = do {
     s \<leftarrow> Some (s\<lparr>gps_state := STOPPING\<rparr>);
     s \<leftarrow> set_timer Timer_stop MNLD_GPS_STOP_TIMEOUT s;
     emit Gps_stop s
   }"

fun fsm_gps_state_idle :: "env \<Rightarrow> mnld_gps_event \<Rightarrow> c_int \<Rightarrow> mnld_context \<Rightarrow> mnld_context option" where
  "fsm_gps_state_idle env EVENT_START data1 s = do {
     s \<leftarrow> to_hal M2H_request_wakelock s;
     s \<leftarrow> (if cmcc_log env then emit Op01_start s else Some s);
     s \<leftarrow> Some (s\<lparr>gps_start_time := tick env, wait_first_location := True\<rparr>);
     start_engine s
   }"
| "fsm_gps_state_idle env EVENT_STOP data1 s = do_gps_stopped_hdlr s"
| "fsm_gps_state_idle env EVENT_RESET data1 s = do_gps_reset_hdlr s"
| "fsm_gps_state_idle env EVENT_START_DONE data1 s = Some s"
| "fsm_gps_state_idle env EVENT_STOP_DONE data1 s = Some s"

fun fsm_gps_state_starting :: "mnld_gps_event \<Rightarrow> c_int \<Rightarrow> mnld_context \<Rightarrow> mnld_context option" where
  "fsm_gps_state_starting EVENT_START data1 s = Some s"
| "fsm_gps_state_starting EVENT_STOP data1 s = Some s"
| "fsm_gps_state_starting EVENT_RESET data1 s = Some s"
| "fsm_gps_state_starting EVENT_START_DONE data1 s = do {
     s \<leftarrow> clear_timer Timer_start s;
     s \<leftarrow> do_gps_started_hdlr data1 s;
     if is_all_gps_client_exit s then stop_engine s else Some (s\<lparr>gps_state := STARTED\<rparr>)
   }"
| "fsm_gps_state_starting EVENT_STOP_DONE data1 s = None"

fun fsm_gps_state_started :: "mnld_gps_event \<Rightarrow> c_int \<Rightarrow> mnld_context \<Rightarrow> mnld_context option" where
  "fsm_gps_state_started EVENT_START data1 s = do_gps_started_hdlr 0 s"
| "fsm_gps_state_started EVENT_STOP data1 s =
     (if is_all_gps_client_exit s then stop_engine s else do_gps_stopped_hdlr s)"
| "fsm_gps_state_started EVENT_RESET data1 s =
     (if delete_aiding_flag s \<noteq> 0 then do {
        s \<leftarrow> set_timer Timer_reset MNLD_GPS_RESET_TIMEOUT s;
        s \<leftarrow> emit (Gps_reset (delete_aiding_flag s)) s;
        Some (s\<lparr>delete_aiding_flag := 0\<rparr>)
      } else Some s)"
| "fsm_gps_state_started EVENT_START_DONE data1 s =
     (if GPS_USER_APP AND mtk_gps_get_gps_user s \<noteq> 0 then to_agps M2A_reaiding_req s else Some s)"
| "fsm_gps_state_started EVENT_STOP_DONE data1 s = None"

fun fsm_gps_state_stopping :: "env \<Rightarrow> mnld_gps_event \<Rightarrow> c_int \<Rightarrow> mnld_context \<Rightarrow> mnld_context option" where
  "fsm_gps_state_stopping env EVENT_START data1 s = Some s"
| "fsm_gps_state_stopping env EVENT_STOP data1 s = Some s"
| "fsm_gps_state_stopping env EVENT_RESET data1 s = do_gps_reset_hdlr s"
| "fsm_gps_state_stopping env EVENT_STOP_DONE data1 s = do {
     s \<leftarrow> clear_timer Timer_stop s;
     s \<leftarrow> do_gps_stopped_hdlr s;
     if is_a_gps_client_exist s then start_engine s
     else do {
       s \<leftarrow> to_hal M2H_release_wakelock s;
       s \<leftarrow> (if cmcc_log env then emit Op01_stop s else Some s);
       Some (s\<lparr>gps_stop_time := tick env, wait_first_location := False, gps_state := IDLE\<rparr>)
     }
   }"
| "fsm_gps_state_stopping env EVENT_START_DONE data1 s = Some s"

definition mnld_fsm :: "env \<Rightarrow> mnld_gps_event \<Rightarrow> c_int \<Rightarrow> mnld_context \<Rightarrow> mnld_context option" where
  "mnld_fsm env event data1 s =
     (case gps_state s of
        IDLE \<Rightarrow> fsm_gps_state_idle env event data1 s
      | STARTING \<Rightarrow> fsm_gps_state_starting event data1 s
      | STARTED \<Rightarrow> fsm_gps_state_started event data1 s
      | STOPPING \<Rightarrow> fsm_gps_state_stopping env event data1 s)"

text \<open>The NMEA monitor; the handle of its timer is set by \<open>mnld_init\<close> and is not 0 afterwards.\<close>

definition mnld_gps_start_nmea_monitor :: "bool \<Rightarrow> mnld_context \<Rightarrow> mnld_context option" where
  "mnld_gps_start_nmea_monitor handle_set s =
     (if handle_set then set_timer Timer_nmea_monitor (sint (nmea_data_time_out s)) s else Some s)"

definition mnld_gps_controller_mnl_nmea_timeout :: "bool \<Rightarrow> mnld_context \<Rightarrow> mnld_context option" where
  "mnld_gps_controller_mnl_nmea_timeout handle_set s =
     (if handle_set then set_timer Timer_nmea_monitor (sint (nmea_data_time_out s)) s else Some s)"

definition mnld_gps_stop_nmea_monitor :: "bool \<Rightarrow> mnld_context \<Rightarrow> mnld_context option" where
  "mnld_gps_stop_nmea_monitor handle_set s =
     (if handle_set then clear_timer Timer_nmea_monitor s else Some s)"

definition mnld_is_gps_started :: "mnld_context \<Rightarrow> bool" where
  "mnld_is_gps_started s \<longleftrightarrow> gps_state s = STARTING \<or> gps_state s = STARTED"

definition mnld_is_gps_started_done :: "mnld_context \<Rightarrow> bool" where
  "mnld_is_gps_started_done s \<longleftrightarrow> gps_state s = STARTED"

definition mnld_is_gps_stopped :: "mnld_context \<Rightarrow> bool" where
  "mnld_is_gps_stopped s \<longleftrightarrow> gps_state s = IDLE \<or> gps_state s = STOPPING"

section \<open>Messages of the HAL\<close>

definition hal_reboot :: "env \<Rightarrow> mnld_context \<Rightarrow> mnld_context option" where
  "hal_reboot env s = mnld_fsm env EVENT_STOP 0 (upd_clients
     (hal_update (\<lambda>_. \<lparr>gps_used = False, need_open_ack = False, need_close_ack = False, need_reset_ack = False\<rparr>)) s)"

definition hal_gps_init :: "mnld_context \<Rightarrow> mnld_context option" where
  "hal_gps_init s = do {
     s \<leftarrow> Some (s\<lparr>is_gps_init := True\<rparr>);
     s \<leftarrow> emit Driver_state_init s;
     to_agps M2A_gps_init s
   }"

definition hal_start_gps_trigger_epo_download :: "env \<Rightarrow> mnld_context \<Rightarrow> mnld_context option" where
  "hal_start_gps_trigger_epo_download env s =
     (if \<not> is_epo_downloading s \<and> epo_file_invalid env \<and> epo_download_enabled env
      then emit Epo_start (s\<lparr>is_epo_downloading := True\<rparr>) else Some s)"

definition hal_gps_start :: "env \<Rightarrow> mnld_context \<Rightarrow> mnld_context option" where
  "hal_gps_start env s = do {
     s \<leftarrow> Some (upd_clients (hal_update (gps_used_update (\<lambda>_. True) \<circ> need_open_ack_update (\<lambda>_. True) \<circ> need_close_ack_update (\<lambda>_. False))) s);
     s \<leftarrow> hal_start_gps_trigger_epo_download env s;
     mnld_fsm env EVENT_START 0 s
   }"

definition hal_gps_stop :: "env \<Rightarrow> mnld_context \<Rightarrow> mnld_context option" where
  "hal_gps_stop env s = mnld_fsm env EVENT_STOP 0 (upd_clients
     (hal_update (gps_used_update (\<lambda>_. False) \<circ> need_open_ack_update (\<lambda>_. False) \<circ> need_close_ack_update (\<lambda>_. True))) s)"

definition hal_gps_cleanup :: "mnld_context \<Rightarrow> mnld_context option" where
  "hal_gps_cleanup s = to_agps M2A_gps_cleanup (s\<lparr>is_gps_init := False\<rparr>)"

definition hal_gps_inject_time :: "c_llong \<Rightarrow> c_llong \<Rightarrow> c_int \<Rightarrow> mnld_context \<Rightarrow> mnld_context option" where
  "hal_gps_inject_time t time_reference uncertainty s =
     emit (Inject_ntp \<lparr>ntp_time = t, ntp_timeReference = time_reference, ntp_uncertainty = uncertainty\<rparr>) s"

definition hal_gps_inject_location ::
  "env \<Rightarrow> c_double \<Rightarrow> c_double \<Rightarrow> c_float \<Rightarrow> mnld_context \<Rightarrow> mnld_context option" where
  "hal_gps_inject_location env lat lng acc s =
     (case monotonic env of
        None \<Rightarrow> Some s
      | Some ts \<Rightarrow> do {
          s \<leftarrow> emit (Inject_nlp \<lparr>nlp_latitude = lat, nlp_longitude = lng, nlp_accuracy = acc, nlp_ts = ts,
                 nlp_type = 0, nlp_started = (if mnld_is_gps_started_done s then 1 else 0)\<rparr>) s;
          n \<leftarrow> float_to_int acc;
          to_agps (M2A_location_sync lat lng n) s
        })"

definition hal_gps_delete_aiding_data :: "env \<Rightarrow> c_int \<Rightarrow> mnld_context \<Rightarrow> mnld_context option" where
  "hal_gps_delete_aiding_data env flags s = do {
     s \<leftarrow> to_agps (M2A_delete_aiding_data flags) s;
     s \<leftarrow> Some (upd_clients (hal_update (need_reset_ack_update (\<lambda>_. False))) s);
     s \<leftarrow> Some (s\<lparr>delete_aiding_flag := delete_aiding_flag s OR flags\<rparr>);
     mnld_fsm env EVENT_RESET 0 s
   }"

definition hal_gps_set_position_mode ::
  "c_int \<Rightarrow> c_int \<Rightarrow> c_int \<Rightarrow> c_int \<Rightarrow> c_int \<Rightarrow> mnld_context \<Rightarrow> mnld_context option" where
  "hal_gps_set_position_mode mode recurrence min_interval preferred_acc preferred_time s = Some s"

definition hal_data_conn_open :: "c_string \<Rightarrow> mnld_context \<Rightarrow> mnld_context option" where
  "hal_data_conn_open apn s = to_agps (M2A_data_conn_open apn) s"

definition hal_data_conn_open_with_apn_ip_type ::
  "c_string \<Rightarrow> c_int \<Rightarrow> mnld_context \<Rightarrow> mnld_context option" where
  "hal_data_conn_open_with_apn_ip_type apn ip_type s = to_agps (M2A_data_conn_open_ip_type apn ip_type) s"

definition hal_data_conn_closed :: "mnld_context \<Rightarrow> mnld_context option" where
  "hal_data_conn_closed s = to_agps M2A_data_conn_closed s"

definition hal_data_conn_failed :: "mnld_context \<Rightarrow> mnld_context option" where
  "hal_data_conn_failed s = to_agps M2A_data_conn_failed s"

definition hal_set_server :: "c_int \<Rightarrow> c_string \<Rightarrow> c_int \<Rightarrow> mnld_context \<Rightarrow> mnld_context option" where
  "hal_set_server ty hostname port s = to_agps (M2A_set_server ty hostname port) s"

definition hal_set_ref_location ::
  "c_int \<Rightarrow> c_int \<Rightarrow> c_int \<Rightarrow> c_int \<Rightarrow> c_int \<Rightarrow> mnld_context \<Rightarrow> mnld_context option" where
  "hal_set_ref_location ty mcc mnc lac cid s = to_agps (M2A_set_ref_loc ty mcc mnc lac cid) s"

definition hal_set_id :: "c_int \<Rightarrow> c_string \<Rightarrow> mnld_context \<Rightarrow> mnld_context option" where
  "hal_set_id ty setid s = to_agps (M2A_set_set_id ty setid) s"

text \<open>The message that goes out holds the first \<open>len\<close> bytes of the array.\<close>

definition hal_ni_message :: "c_char list \<Rightarrow> c_int \<Rightarrow> mnld_context \<Rightarrow> mnld_context option" where
  "hal_ni_message msg len s = do {
     _ \<leftarrow> mnl2agps_ni_message msg len;
     emit (To_agps (M2A_ni_message (take (nat (sint len)) msg))) s
   }"

definition hal_ni_respond :: "c_int \<Rightarrow> c_int \<Rightarrow> mnld_context \<Rightarrow> mnld_context option" where
  "hal_ni_respond notif_id user_response s = to_agps (M2A_ni_respond notif_id user_response) s"

abbreviation NETWORK_TYPE_WIFI :: c_int where "NETWORK_TYPE_WIFI \<equiv> 1"

definition hal_update_network_state ::
  "env \<Rightarrow> c_int \<Rightarrow> c_int \<Rightarrow> c_int \<Rightarrow> c_string \<Rightarrow> mnld_context \<Rightarrow> mnld_context option" where
  "hal_update_network_state env conn ty roaming extra_info s = do {
     s \<leftarrow> to_agps (M2A_update_network_state conn ty roaming extra_info) s;
     s \<leftarrow> Some (s\<lparr>is_network_connected := conn \<noteq> 0\<rparr>);
     s \<leftarrow> Some (s\<lparr>is_wifi_connected := ty = NETWORK_TYPE_WIFI \<and> conn \<noteq> 0\<rparr>);
     if mnld_is_gps_started s then
       if conn \<noteq> 0 \<and> \<not> is_epo_downloading s \<and> epo_file_invalid env \<and> epo_download_enabled env
       then emit Epo_start (s\<lparr>is_epo_downloading := True\<rparr>) else Some s
     else if ty = NETWORK_TYPE_WIFI then
       if conn \<noteq> 0 \<and> \<not> is_epo_downloading s \<and> epo_wifi_trigger env \<and> epo_file_invalid env \<and>
          epo_download_enabled env
       then emit Epo_start (s\<lparr>is_epo_downloading := True\<rparr>) else Some s
     else Some s
   }"

definition hal_update_network_availability :: "c_int \<Rightarrow> c_string \<Rightarrow> mnld_context \<Rightarrow> mnld_context option" where
  "hal_update_network_availability available apn s = to_agps (M2A_update_network_availability available apn) s"

definition hal_set_gps_measurement :: "bool \<Rightarrow> mnld_context \<Rightarrow> mnld_context option" where
  "hal_set_gps_measurement enabled s = Some (s\<lparr>is_gps_meas_enabled := enabled\<rparr>)"

definition hal_set_gps_navigation :: "bool \<Rightarrow> mnld_context \<Rightarrow> mnld_context option" where
  "hal_set_gps_navigation enabled s = Some (s\<lparr>is_gps_navi_enabled := enabled\<rparr>)"

definition g_hal2mnl_interface :: "env \<Rightarrow> mnld_context hal2mnl_interface" where
  "g_hal2mnl_interface env = \<lparr>
     hm_hal_reboot = Some (hal_reboot env),
     hm_gps_init = Some hal_gps_init,
     hm_gps_start = Some (hal_gps_start env),
     hm_gps_stop = Some (hal_gps_stop env),
     hm_gps_cleanup = Some hal_gps_cleanup,
     hm_gps_inject_time = Some hal_gps_inject_time,
     hm_gps_inject_location = Some (hal_gps_inject_location env),
     hm_gps_delete_aiding_data = Some (hal_gps_delete_aiding_data env),
     hm_gps_set_position_mode = Some hal_gps_set_position_mode,
     hm_data_conn_open = Some hal_data_conn_open,
     hm_data_conn_open_with_apn_ip_type = Some hal_data_conn_open_with_apn_ip_type,
     hm_data_conn_closed = Some hal_data_conn_closed,
     hm_data_conn_failed = Some hal_data_conn_failed,
     hm_set_server = Some hal_set_server,
     hm_set_ref_location = Some hal_set_ref_location,
     hm_set_id = Some hal_set_id,
     hm_ni_message = Some hal_ni_message,
     hm_ni_respond = Some hal_ni_respond,
     hm_update_network_state = Some (hal_update_network_state env),
     hm_update_network_availability = Some hal_update_network_availability,
     hm_set_gps_measurement = Some hal_set_gps_measurement,
     hm_set_gps_navigation = Some hal_set_gps_navigation\<rparr>"

section \<open>Messages of the AGPS daemon\<close>

definition agps_reboot :: "env \<Rightarrow> mnld_context \<Rightarrow> mnld_context option" where
  "agps_reboot env s = mnld_fsm env EVENT_STOP 0 (upd_clients
     (agps_update (\<lambda>_. \<lparr>gps_used = False, need_open_ack = False, need_close_ack = False, need_reset_ack = False\<rparr>)) s)"

definition agps_open_gps_req :: "env \<Rightarrow> c_int \<Rightarrow> mnld_context \<Rightarrow> mnld_context option" where
  "agps_open_gps_req env show_gps_icon s = mnld_fsm env EVENT_START 0 (upd_clients
     (agps_update (gps_used_update (\<lambda>_. True) \<circ> need_open_ack_update (\<lambda>_. True) \<circ> need_close_ack_update (\<lambda>_. False))) s)"

definition agps_close_gps_req :: "env \<Rightarrow> mnld_context \<Rightarrow> mnld_context option" where
  "agps_close_gps_req env s = mnld_fsm env EVENT_STOP 0 (upd_clients
     (agps_update (gps_used_update (\<lambda>_. False) \<circ> need_open_ack_update (\<lambda>_. False) \<circ> need_close_ack_update (\<lambda>_. True))) s)"

definition agps_reset_gps_req :: "env \<Rightarrow> c_int \<Rightarrow> mnld_context \<Rightarrow> mnld_context option" where
  "agps_reset_gps_req env flags s =
     (if flags = 0 then to_agps M2A_reset_gps_done s
      else mnld_fsm env EVENT_RESET 0 (upd_clients (agps_update (need_reset_ack_update (\<lambda>_. True)))
             (s\<lparr>delete_aiding_flag := delete_aiding_flag s OR flags\<rparr>)))"

definition agps_session_done :: "mnld_context \<Rightarrow> mnld_context option" where
  "agps_session_done s = emit Agps_session_done s"

abbreviation NI_ENCODING_TYPE_UCS2 :: c_int where "NI_ENCODING_TYPE_UCS2 \<equiv> 3"

text \<open>The C string in a local array; reading past an array without a NUL is undefined.\<close>

definition array_str :: "c_char list \<Rightarrow> c_string option" where
  "array_str a = (if 0 \<in> set a then Some (Some (takeWhile (\<lambda>b. b \<noteq> 0) a)) else None)"

definition agps_ni_notify ::
  "c_int \<Rightarrow> c_int \<Rightarrow> c_string \<Rightarrow> c_string \<Rightarrow> mnld_context \<Rightarrow> mnld_context option" where
  "agps_ni_notify session_id ty requestor_id client_name s = do {
     (usc2_len, ucs2_buff) \<leftarrow> asc_str_to_usc2_str (replicate 1024 0) requestor_id;
     requestorId \<leftarrow> raw_data_to_hex_string (replicate 1024 0) ucs2_buff usc2_len;
     (usc2_len, ucs2_buff) \<leftarrow> asc_str_to_usc2_str (replicate 1024 0) client_name;
     clientName \<leftarrow> raw_data_to_hex_string (replicate 1024 0) ucs2_buff usc2_len;
     requestorId \<leftarrow> array_str requestorId;
     clientName \<leftarrow> array_str clientName;
     to_hal (M2H_request_ni_notify session_id ty requestorId clientName
       NI_ENCODING_TYPE_UCS2 NI_ENCODING_TYPE_UCS2) s
   }"

text \<open>\<open>struct sockaddr_storage\<close> with \<open>ss_family = AF_INET\<close> and \<open>sin_addr\<close> at offset 4.\<close>

definition agps_data_conn_req :: "c_int \<Rightarrow> c_int \<Rightarrow> mnld_context \<Rightarrow> mnld_context option" where
  "agps_data_conn_req ipaddr is_emergency s =
     to_hal (M2H_request_data_conn ([2, 0, 0, 0] @ enc_int ipaddr @ replicate 120 0)) s"

definition agps_data_conn_release :: "mnld_context \<Rightarrow> mnld_context option" where
  "agps_data_conn_release s = to_hal M2H_release_data_conn s"

definition agps_set_id_req :: "c_int \<Rightarrow> mnld_context \<Rightarrow> mnld_context option" where
  "agps_set_id_req flags s = to_hal (M2H_request_set_id flags) s"

definition agps_ref_loc_req :: "c_int \<Rightarrow> mnld_context \<Rightarrow> mnld_context option" where
  "agps_ref_loc_req flags s = to_hal (M2H_request_ref_loc flags) s"

definition agps_rcv_pmtk :: "c_string \<Rightarrow> mnld_context \<Rightarrow> mnld_context option" where
  "agps_rcv_pmtk pmtk s = emit (Rcv_pmtk pmtk) s"

definition agps_gpevt :: "c_int \<Rightarrow> mnld_context \<Rightarrow> mnld_context option" where
  "agps_gpevt ty s = Some s"

text \<open>
  \<open>mnl_agps_agps_location\<close> (72 bytes) and \<open>gps_location\<close> (56 bytes) as they lie in memory:
  a \<open>double\<close> or \<open>long long\<close> is aligned to 8 bytes.
\<close>

definition le64 :: "c_char list \<Rightarrow> c_llong" where
  "le64 bs = ucast (le32 bs) OR push_bit 32 (ucast (le32 (drop 4 bs)))"

record gps_location =
  loc_flags :: c_int
  loc_lat :: c_double
  loc_lng :: c_double
  loc_alt :: c_double
  loc_speed :: c_float
  loc_bearing :: c_float
  loc_accuracy :: c_float
  loc_timestamp :: c_llong

definition gps_location_bytes :: "gps_location \<Rightarrow> c_char list" where
  "gps_location_bytes l =
     enc_int (loc_flags l) @ [0, 0, 0, 0] @ enc_long (loc_lat l) @ enc_long (loc_lng l) @
     enc_long (loc_alt l) @ enc_int (loc_speed l) @ enc_int (loc_bearing l) @
     enc_int (loc_accuracy l) @ [0, 0, 0, 0] @ enc_long (loc_timestamp l)"

definition gps_location_of :: "c_char list \<Rightarrow> gps_location" where
  "gps_location_of b = \<lparr>loc_flags = le32 b, loc_lat = le64 (drop 8 b), loc_lng = le64 (drop 16 b),
     loc_alt = le64 (drop 24 b), loc_speed = le32 (drop 32 b), loc_bearing = le32 (drop 36 b),
     loc_accuracy = le32 (drop 40 b), loc_timestamp = le64 (drop 48 b)\<rparr>"

record agps_agps_location =
  al_latitude :: c_double
  al_longitude :: c_double
  al_altitude_used :: c_char
  al_altitude :: c_double
  al_speed_used :: c_char
  al_speed :: c_float
  al_bearing_used :: c_char
  al_bearing :: c_float
  al_accuracy_used :: c_char
  al_accuracy :: c_float
  al_timestamp_used :: c_char
  al_timestamp :: c_llong

definition agps_agps_location_of :: "c_char list \<Rightarrow> agps_agps_location" where
  "agps_agps_location_of b = \<lparr>al_latitude = le64 b, al_longitude = le64 (drop 8 b),
     al_altitude_used = b ! 16, al_altitude = le64 (drop 24 b),
     al_speed_used = b ! 32, al_speed = le32 (drop 36 b),
     al_bearing_used = b ! 40, al_bearing = le32 (drop 44 b),
     al_accuracy_used = b ! 48, al_accuracy = le32 (drop 52 b),
     al_timestamp_used = b ! 56, al_timestamp = le64 (drop 64 b)\<rparr>"

abbreviation GPS_LOCATION_HAS_LAT_LONG :: c_int where "GPS_LOCATION_HAS_LAT_LONG \<equiv> 1"
abbreviation GPS_LOCATION_HAS_ALT :: c_int where "GPS_LOCATION_HAS_ALT \<equiv> 2"
abbreviation GPS_LOCATION_HAS_SPEED :: c_int where "GPS_LOCATION_HAS_SPEED \<equiv> 4"
abbreviation GPS_LOCATION_HAS_BEARING :: c_int where "GPS_LOCATION_HAS_BEARING \<equiv> 8"
abbreviation GPS_LOCATION_HAS_ACCURACY :: c_int where "GPS_LOCATION_HAS_ACCURACY \<equiv> 16"

definition agps_location_loc :: "agps_agps_location \<Rightarrow> gps_location" where
  "agps_location_loc a =
     (let loc = \<lparr>loc_flags = GPS_LOCATION_HAS_LAT_LONG, loc_lat = al_latitude a, loc_lng = al_longitude a,
            loc_alt = 0, loc_speed = 0, loc_bearing = 0, loc_accuracy = 0, loc_timestamp = 0\<rparr>;
          loc = (if al_altitude_used a \<noteq> 0
            then loc\<lparr>loc_flags := loc_flags loc OR GPS_LOCATION_HAS_ALT, loc_alt := al_altitude a\<rparr> else loc);
          loc = (if al_speed_used a \<noteq> 0
            then loc\<lparr>loc_flags := loc_flags loc OR GPS_LOCATION_HAS_SPEED, loc_speed := al_speed a\<rparr> else loc);
          loc = (if al_bearing_used a \<noteq> 0
            then loc\<lparr>loc_flags := loc_flags loc OR GPS_LOCATION_HAS_BEARING, loc_bearing := al_bearing a\<rparr> else loc);
          loc = (if al_accuracy_used a \<noteq> 0
            then loc\<lparr>loc_flags := loc_flags loc OR GPS_LOCATION_HAS_ACCURACY, loc_accuracy := al_accuracy a\<rparr> else loc)
      in if al_timestamp_used a \<noteq> 0 then loc\<lparr>loc_timestamp := al_timestamp a\<rparr> else loc)"

definition agps_location :: "env \<Rightarrow> c_char list \<Rightarrow> mnld_context \<Rightarrow> mnld_context option" where
  "agps_location env b s = do {
     let a = agps_agps_location_of b;
     s \<leftarrow> to_hal (M2H_location (gps_location_bytes (agps_location_loc a))) s;
     (case monotonic env of
        None \<Rightarrow> Some s
      | Some ts \<Rightarrow> emit (Inject_nlp \<lparr>nlp_latitude = al_latitude a, nlp_longitude = al_longitude a,
            nlp_accuracy = al_accuracy a, nlp_ts = ts, nlp_type = 0, nlp_started = 1\<rparr>) s)
   }"

definition agps_ni_notify2 ::
  "c_int \<Rightarrow> c_int \<Rightarrow> c_string \<Rightarrow> c_string \<Rightarrow> c_int \<Rightarrow> c_int \<Rightarrow> mnld_context \<Rightarrow> mnld_context option" where
  "agps_ni_notify2 session_id ty requestor_id client_name requestor_id_encoding client_name_encoding s =
     to_hal (M2H_request_ni_notify session_id ty requestor_id client_name requestor_id_encoding
       client_name_encoding) s"

definition agps_data_conn_req2 :: "c_char list \<Rightarrow> c_int \<Rightarrow> mnld_context \<Rightarrow> mnld_context option" where
  "agps_data_conn_req2 addr is_emergency s = to_hal (M2H_request_data_conn addr) s"

text \<open>\<open>gps_controller.c\<close>: an unknown chip leaves the caller's variable as it was.\<close>

definition get_chip_sv_support_capability :: "string \<Rightarrow> c_char \<Rightarrow> c_char" where
  "get_chip_sv_support_capability chip sv_type =
     (if chip \<in> set [''0x6620'', ''0x6628'', ''0x3336'', ''0x6572'', ''0x6582'', ''0x6592'', ''0x6571'',
           ''0x6580'', ''0x0335''] then 1
      else if chip \<in> set [''0x3332'', ''0x6752'', ''0x0321'', ''0x0337'', ''0x6755'', ''0x6757''] then 3
      else if chip \<in> set [''0x6797'', ''0x6630''] then 7
      else if chip = ''0x6632'' then 15
      else sv_type)"

definition agps_settings_sync :: "env \<Rightarrow> agps_settings \<Rightarrow> mnld_context \<Rightarrow> mnld_context option" where
  "agps_settings_sync env x s = do {
     s \<leftarrow> Some (s\<lparr>settings_from_agps := x\<rparr>);
     let v = 0;
     let v = v OR push_bit 4 (a_glonass_satellite_enable x AND 1);
     let v = v OR push_bit 3 (galileo_satellite_enable x AND 1);
     let v = v OR push_bit 2 (beidou_satellite_enable x AND 1);
     let v = v OR push_bit 1 (glonass_satellite_enable x AND 1);
     let v = v OR (gps_satellite_enable x AND 1);
     s \<leftarrow> Some (s\<lparr>sv_type_agps_set := v, sib8_16 := sib8_16_enable x\<rparr>);
     s \<leftarrow> (if mnld_is_gps_started_done s then do {
             s \<leftarrow> emit (Switch_constellation (sv_type_agps_set s)) s;
             emit (Sib8_16_enable (sib8_16 s)) s
           } else Some s);
     let sv_type = get_chip_sv_support_capability (chip_id env) (stack_byte env);
     let (g, n, b, l) = (sv_type AND 1, drop_bit 1 (sv_type AND 2), drop_bit 2 (sv_type AND 4),
        drop_bit 3 (sv_type AND 8));
     to_agps (M2A_agps_settings_ack g n b l) (s\<lparr>settings_to_agps := (g, n, b, l)\<rparr>)
   }"

definition g_agps2mnl_interface :: "env \<Rightarrow> mnld_context agps2mnl_interface" where
  "g_agps2mnl_interface env = \<lparr>
     am_agps_reboot = Some (agps_reboot env),
     am_agps_open_gps_req = Some (agps_open_gps_req env),
     am_agps_close_gps_req = Some (agps_close_gps_req env),
     am_agps_reset_gps_req = Some (agps_reset_gps_req env),
     am_agps_session_done = Some agps_session_done,
     am_ni_notify = Some agps_ni_notify,
     am_ni_notify2 = Some agps_ni_notify2,
     am_data_conn_req = Some agps_data_conn_req,
     am_data_conn_req2 = Some agps_data_conn_req2,
     am_data_conn_release = Some agps_data_conn_release,
     am_set_id_req = Some agps_set_id_req,
     am_ref_loc_req = Some agps_ref_loc_req,
     am_rcv_pmtk = Some agps_rcv_pmtk,
     am_gpevt = Some agps_gpevt,
     am_agps_location = Some (agps_location env),
     am_agps_settings_sync = Some (agps_settings_sync env)\<rparr>"

section \<open>Messages of the FLP daemon and of the test clients\<close>

definition flp2mnl_flp_reboot :: "env \<Rightarrow> mnld_context \<Rightarrow> mnld_context option" where
  "flp2mnl_flp_reboot env s = mnld_fsm env EVENT_STOP 0 (upd_clients
     (flp_update (\<lambda>_. \<lparr>gps_used = False, need_open_ack = False, need_close_ack = False, need_reset_ack = False\<rparr>)) s)"

definition flp2mnl_gps_start :: "env \<Rightarrow> mnld_context \<Rightarrow> mnld_context option" where
  "flp2mnl_gps_start env s = mnld_fsm env EVENT_START 0 (upd_clients
     (flp_update (gps_used_update (\<lambda>_. True) \<circ> need_open_ack_update (\<lambda>_. True) \<circ> need_close_ack_update (\<lambda>_. False))) s)"

definition flp2mnl_gps_stop :: "env \<Rightarrow> mnld_context \<Rightarrow> mnld_context option" where
  "flp2mnl_gps_stop env s = mnld_fsm env EVENT_STOP 0 (upd_clients
     (flp_update (gps_used_update (\<lambda>_. False) \<circ> need_open_ack_update (\<lambda>_. False) \<circ> need_close_ack_update (\<lambda>_. True))) s)"

definition flp2mnl_flp_lpbk :: "c_char list \<Rightarrow> nat \<Rightarrow> mnld_context \<Rightarrow> mnld_context option" where
  "flp2mnl_flp_lpbk buff len s = do { d \<leftarrow> mnl2flp_data_send buff len; emit (To_flp d) s }"

definition flp2mnl_flp_data :: "MTK_FLP_OFFLOAD_MSG \<Rightarrow> mnld_context \<Rightarrow> mnld_context option" where
  "flp2mnl_flp_data prMsg s =
     (if 0 < unat (flp_length prMsg) \<and> unat (flp_length prMsg) \<le> OFFLOAD_PAYLOAD_LEN
      then emit (Ofl_send_flp_data (take (unat (flp_length prMsg)) (flp_data prMsg))) s else Some s)"

definition g_flp2mnl_interface :: "env \<Rightarrow> mnld_context flp2mnl_interface" where
  "g_flp2mnl_interface env = \<lparr>
     fm_flp_reboot = Some (flp2mnl_flp_reboot env),
     fm_gps_start = Some (flp2mnl_gps_start env),
     fm_gps_stop = Some (flp2mnl_gps_stop env),
     fm_flp_lpbk = Some flp2mnl_flp_lpbk,
     fm_flp_data = Some flp2mnl_flp_data\<rparr>"

definition flp_test2mnl_gps_start :: "env \<Rightarrow> mnld_context \<Rightarrow> mnld_context option" where
  "flp_test2mnl_gps_start env s = mnld_fsm env EVENT_START 0 (upd_clients
     (flp_test_update (gps_used_update (\<lambda>_. True) \<circ> need_open_ack_update (\<lambda>_. False) \<circ> need_close_ack_update (\<lambda>_. False))) s)"

definition flp_test2mnl_gps_stop :: "env \<Rightarrow> mnld_context \<Rightarrow> mnld_context option" where
  "flp_test2mnl_gps_stop env s = mnld_fsm env EVENT_STOP 0 (upd_clients
     (flp_test_update (gps_used_update (\<lambda>_. False) \<circ> need_open_ack_update (\<lambda>_. False) \<circ> need_close_ack_update (\<lambda>_. False))) s)"

definition flp_test2mnl_flp_lpbk_start :: "mnld_context \<Rightarrow> mnld_context option" where
  "flp_test2mnl_flp_lpbk_start s = do {
     s \<leftarrow> emit (Ofl_send_flp_data (replicate ofl_lpbk_tst_size 0x80)) s;
     Some (s\<lparr>lpbk_tst_start := 1\<rparr>)
   }"

definition flp_test2mnl_flp_lpbk_stop :: "mnld_context \<Rightarrow> mnld_context option" where
  "flp_test2mnl_flp_lpbk_stop s = Some (s\<lparr>lpbk_tst_start := 0\<rparr>)"

definition g_flp_test2mnl_interface :: "env \<Rightarrow> mnld_context flp_test2mnl_interface" where
  "g_flp_test2mnl_interface env = \<lparr>
     ft_gps_start = Some (flp_test2mnl_gps_start env),
     ft_gps_stop = Some (flp_test2mnl_gps_stop env),
     ft_lpbk_start = Some flp_test2mnl_flp_lpbk_start,
     ft_lpbk_stop = Some flp_test2mnl_flp_lpbk_stop\<rparr>"

definition factory_mnld_gps_start :: "env \<Rightarrow> mnld_context \<Rightarrow> mnld_context option" where
  "factory_mnld_gps_start env s = mnld_fsm env EVENT_START 0 (upd_clients
     (factory_update (gps_used_update (\<lambda>_. True) \<circ> need_open_ack_update (\<lambda>_. False) \<circ> need_close_ack_update (\<lambda>_. False))) s)"

definition factory_mnld_gps_stop :: "env \<Rightarrow> mnld_context \<Rightarrow> mnld_context option" where
  "factory_mnld_gps_stop env s = mnld_fsm env EVENT_STOP 0 (upd_clients
     (factory_update (gps_used_update (\<lambda>_. False) \<circ> need_open_ack_update (\<lambda>_. False) \<circ> need_close_ack_update (\<lambda>_. False))) s)"

definition at_test2mnl_gps_start :: "env \<Rightarrow> mnld_context \<Rightarrow> mnld_context option" where
  "at_test2mnl_gps_start env s = mnld_fsm env EVENT_START 0 (upd_clients
     (at_cmd_test_update (gps_used_update (\<lambda>_. True) \<circ> need_open_ack_update (\<lambda>_. False) \<circ> need_close_ack_update (\<lambda>_. False))) s)"

definition at_test2mnl_gps_stop :: "env \<Rightarrow> mnld_context \<Rightarrow> mnld_context option" where
  "at_test2mnl_gps_stop env s = mnld_fsm env EVENT_STOP 0 (upd_clients
     (at_cmd_test_update (gps_used_update (\<lambda>_. False) \<circ> need_open_ack_update (\<lambda>_. False) \<circ> need_close_ack_update (\<lambda>_. False))) s)"

end
