(* ===== verification/Mnld_Fsm.thy ===== *)
theory Mnld_Fsm
  imports Mnld
begin

text \<open>
  The invariant of the daemon's state machine and its preservation: what \<open>mnld_fsm\<close> does for
  each event as one equation per event, and what every handler of \<open>mnld.c\<close> keeps.
\<close>

section \<open>The acknowledgements as equations\<close>

lemma to_hal_ok [simp]:
  "mnl2hal_ok m \<Longrightarrow> length (wire_mnl2hal m) \<le> HAL_MNL_BUFF_SIZE \<Longrightarrow>
   to_hal m s = Some (s\<lparr>out := out s @ [To_hal m]\<rparr>)"
  by (simp add: to_hal_def send_mnl2hal_eq emit_def)

lemma to_agps_ok [simp]:
  "mnl2agps_ok m \<Longrightarrow> length (wire_mnl2agps m) \<le> MNL_AGPS_MAX_BUFF_SIZE \<Longrightarrow>
   to_agps m s = Some (s\<lparr>out := out s @ [To_agps m]\<rparr>)"
  by (simp add: to_agps_def send_mnl2agps_eq emit_def)

definition all_clients :: "(mnld_gps_client \<Rightarrow> bool) \<Rightarrow> mnld_context \<Rightarrow> bool" where
  "all_clients P s \<longleftrightarrow> P (hal (clients s)) \<and> P (agps (clients s)) \<and> P (flp (clients s)) \<and>
     P (flp_test (clients s)) \<and> P (at_cmd_test (clients s)) \<and> P (factory (clients s))"

definition each_client :: "(mnld_gps_client \<Rightarrow> mnld_gps_client) \<Rightarrow> mnld_gps_clients \<Rightarrow> mnld_gps_clients" where
  "each_client f c = \<lparr>hal = f (hal c), agps = f (agps c), flp = f (flp c), flp_test = f (flp_test c),
     at_cmd_test = f (at_cmd_test c), factory = f (factory c)\<rparr>"

abbreviation reset_acked :: "mnld_gps_clients \<Rightarrow> mnld_gps_clients" where
  "reset_acked \<equiv> agps_update (need_reset_ack_update (\<lambda>_. False))"

lemma each_client_sel [simp]:
  "hal (each_client f c) = f (hal c)" "agps (each_client f c) = f (agps c)"
  "flp (each_client f c) = f (flp c)" "flp_test (each_client f c) = f (flp_test c)"
  "at_cmd_test (each_client f c) = f (at_cmd_test c)" "factory (each_client f c) = f (factory c)"
  by (simp_all add: each_client_def)

lemma client_unchanged [simp]:
  "\<not> need_open_ack c \<Longrightarrow> c\<lparr>need_open_ack := False\<rparr> = c"
  "\<not> need_close_ack c \<Longrightarrow> c\<lparr>need_close_ack := False\<rparr> = c"
  "\<not> need_reset_ack c \<Longrightarrow> c\<lparr>need_reset_ack := False\<rparr> = c"
  "\<not> gps_used c \<Longrightarrow> c\<lparr>gps_used := False\<rparr> = c"
  by (cases c; simp)+

lemma clients_eqI:
  "hal c = hal d \<Longrightarrow> agps c = agps d \<Longrightarrow> flp c = flp d \<Longrightarrow> flp_test c = flp_test d \<Longrightarrow>
   at_cmd_test c = at_cmd_test d \<Longrightarrow> factory c = factory d \<Longrightarrow> c = (d :: mnld_gps_clients)"
  by (cases c; cases d) simp

definition reset_acks :: "mnld_context \<Rightarrow> effect list" where
  "reset_acks s = (if need_reset_ack (agps (clients s)) then [To_agps M2A_reset_gps_done] else [])"

definition open_acks :: "c_int \<Rightarrow> mnld_context \<Rightarrow> effect list" where
  "open_acks si s =
     (if need_open_ack (hal (clients s))
      then [To_hal (M2H_gps_status GPS_STATUS_SESSION_ENGINE_ON),
            To_hal (M2H_gps_status GPS_STATUS_SESSION_BEGIN), To_agps (M2A_gps_open si)] else []) @
     (if need_open_ack (agps (clients s)) then [To_agps M2A_open_gps_done] else []) @
     (if need_open_ack (flp (clients s)) then [To_flp mnl2flp_gps_open_done, To_agps (M2A_gps_open si)] else [])"

definition close_acks :: "mnld_context \<Rightarrow> effect list" where
  "close_acks s =
     (if need_close_ack (hal (clients s))
      then [To_hal (M2H_gps_status GPS_STATUS_SESSION_END),
            To_hal (M2H_gps_status GPS_STATUS_SESSION_ENGINE_OFF), To_agps M2A_gps_close] else []) @
     (if need_close_ack (agps (clients s)) then [To_agps M2A_close_gps_done] else []) @
     (if need_close_ack (flp (clients s)) then [To_flp mnl2flp_gps_close_done] else [])"

lemma do_gps_reset_hdlr_eq:
  "do_gps_reset_hdlr s = Some (s\<lparr>clients := reset_acked (clients s), out := out s @ reset_acks s\<rparr>)"
proof -
  have "\<not> need_reset_ack (agps (clients s)) \<Longrightarrow> reset_acked (clients s) = clients s"
    by (rule clients_eqI) simp_all
  then show ?thesis by (simp add: do_gps_reset_hdlr_def reset_acks_def upd_clients_def)
qed

lemma do_gps_stopped_hdlr_eq:
  "do_gps_stopped_hdlr s =
     Some (s\<lparr>clients := reset_acked (each_client (need_close_ack_update (\<lambda>_. False)) (clients s)),
             out := out s @ close_acks s @ reset_acks s\<rparr>)"
  by (cases "need_close_ack (hal (clients s))"; cases "need_close_ack (agps (clients s))";
      cases "need_close_ack (flp (clients s))")
    (auto simp: do_gps_stopped_hdlr_def do_gps_reset_hdlr_eq upd_clients_def emit_def close_acks_def
      reset_acks_def intro: clients_eqI)

definition reset_cmds :: "mnld_context \<Rightarrow> effect list" where
  "reset_cmds s = (if delete_aiding_flag s \<noteq> 0 then [Gps_reset (delete_aiding_flag s)] else [])"

lemma do_gps_started_hdlr_eq:
  "do_gps_started_hdlr si s =
     Some (s\<lparr>clients := reset_acked (each_client (need_open_ack_update (\<lambda>_. False)) (clients s)),
             delete_aiding_flag := 0,
             timers := (if delete_aiding_flag s \<noteq> 0 then (timers s)(Timer_reset := start_timer MNLD_GPS_RESET_TIMEOUT)
                        else timers s),
             out := out s @ open_acks si s @ reset_acks s @ reset_cmds s\<rparr>)"
  by (cases "need_open_ack (hal (clients s))"; cases "need_open_ack (agps (clients s))";
      cases "need_open_ack (flp (clients s))"; cases "delete_aiding_flag s = 0")
    (auto simp: do_gps_started_hdlr_def do_gps_reset_hdlr_eq upd_clients_def emit_def open_acks_def
      reset_acks_def reset_cmds_def set_timer_def intro: clients_eqI)

section \<open>The invariant\<close>

text \<open>The wakelock as the HAL sees it: \<open>None\<close> when it is requested while held or released
  while not held, else whether it is held at the end.\<close>

fun wakelock :: "bool \<Rightarrow> effect list \<Rightarrow> bool option" where
  "wakelock held [] = Some held"
| "wakelock held (To_hal M2H_request_wakelock # es) = (if held then None else wakelock True es)"
| "wakelock held (To_hal M2H_release_wakelock # es) = (if held then wakelock False es else None)"
| "wakelock held (_ # es) = wakelock held es"

fun wakelock_effect :: "effect \<Rightarrow> bool" where
  "wakelock_effect (To_hal M2H_request_wakelock) = True"
| "wakelock_effect (To_hal M2H_release_wakelock) = True"
| "wakelock_effect _ = False"

lemma wakelock_skip: "\<not> wakelock_effect e \<Longrightarrow> wakelock held (e # es) = wakelock held es"
  by (cases "(held, e # es)" rule: wakelock.cases) auto

lemma wakelock_append: "wakelock held (es @ fs) = wakelock held es \<bind> (\<lambda>h. wakelock h fs)"
  by (induction held es rule: wakelock.induct) auto

lemma wakelock_none: "\<forall>e\<in>set es. \<not> wakelock_effect e \<Longrightarrow> wakelock held es = Some held"
  by (induction es) (auto simp: wakelock_skip)

lemma acks_no_wakelock:
  "\<forall>e\<in>set (reset_acks s). \<not> wakelock_effect e" "\<forall>e\<in>set (open_acks si s). \<not> wakelock_effect e"
  "\<forall>e\<in>set (close_acks s). \<not> wakelock_effect e" "\<forall>e\<in>set (reset_cmds s). \<not> wakelock_effect e"
  by (auto simp: reset_acks_def open_acks_def close_acks_def reset_cmds_def)

text \<open>
  What holds in every state while a handler runs, and what holds between two handlers. In
  \<open>IDLE\<close> nobody uses the chip and nothing is owed; in \<open>STARTED\<close> somebody does, and no open
  acknowledgement or deletion of aiding data is pending; the stop timer is armed exactly while
  the chip is stopping and the start timer at most while it starts; the wakelock is held
  exactly outside \<open>IDLE\<close>.
\<close>

definition fsm_basic :: "mnld_context \<Rightarrow> bool" where
  "fsm_basic s \<longleftrightarrow>
     all_clients (\<lambda>c. (need_open_ack c \<longrightarrow> gps_used c) \<and> (gps_used c \<longrightarrow> \<not> need_close_ack c)) s \<and>
     (armed Timer_start s \<longrightarrow> gps_state s = STARTING) \<and>
     (armed Timer_stop s \<longleftrightarrow> gps_state s = STOPPING) \<and>
     wakelock False (out s) = Some (gps_state s \<noteq> IDLE)"

definition mnld_inv :: "mnld_context \<Rightarrow> bool" where
  "mnld_inv s \<longleftrightarrow> fsm_basic s \<and>
     (gps_state s = IDLE \<longrightarrow> all_clients (\<lambda>c. \<not> gps_used c \<and> \<not> need_close_ack c) s \<and>
        \<not> need_reset_ack (agps (clients s))) \<and>
     (gps_state s = STARTED \<longrightarrow> is_a_gps_client_exist s \<and> all_clients (\<lambda>c. \<not> need_open_ack c) s \<and>
        delete_aiding_flag s = 0)"

lemma stop_timer_zero [simp]: "stop_timer = (0, 0)"
  by (simp add: stop_timer_def start_timer_def)

lemma stop_timeout_armed [simp]: "start_timer 10000 = (10, 0)"
  by (simp add: start_timer_def signed_divide_int_def signed_modulo_int_def)

lemma all_exit_iff: "is_all_gps_client_exit s \<longleftrightarrow> \<not> is_a_gps_client_exist s"
  by (auto simp: is_all_gps_client_exit_def is_a_gps_client_exist_def)

lemma start_engine_eq:
  "\<exists>tm. start_engine s = Some (s\<lparr>gps_state := STARTING, delete_aiding_flag := 0, timers := tm,
       out := out s @ [Gps_start (delete_aiding_flag s)]\<rparr>) \<and>
     (\<forall>x. x \<noteq> Timer_start \<longrightarrow> tm x = timers s x)"
  by (auto simp: start_engine_def set_timer_def emit_def Let_def intro: exI [of _ "timers s"]
      exI [of _ "(timers s)(Timer_start := start_timer (sint (start_time_out s)))"])

lemma stop_engine_eq:
  "stop_engine s = Some (s\<lparr>gps_state := STOPPING, timers := (timers s)(Timer_stop := (10, 0)),
     out := out s @ [Gps_stop]\<rparr>)"
  by (simp add: stop_engine_def set_timer_def emit_def)

lemmas fsm_eqs = do_gps_reset_hdlr_eq do_gps_stopped_hdlr_eq do_gps_started_hdlr_eq stop_engine_eq
  all_exit_iff clear_timer_def set_timer_def emit_def

lemmas wakelock_simps = wakelock_append wakelock_none [OF acks_no_wakelock(1)]
  wakelock_none [OF acks_no_wakelock(2)] wakelock_none [OF acks_no_wakelock(3)]
  wakelock_none [OF acks_no_wakelock(4)]

section \<open>What the state machine keeps\<close>

text \<open>Two ledgers over the commands to the engine. A stop command is answered by one
  \<open>STOP_DONE\<close>: \<open>stops_answered\<close> is the number of commands less the one still open in
  \<open>STOPPING\<close>. Aiding data that a client asked to delete is either still pending in
  \<open>delete_aiding_flag\<close> or has gone out with a start or reset command.\<close>

fun stop_cmds :: "effect list \<Rightarrow> nat" where
  "stop_cmds [] = 0"
| "stop_cmds (Gps_stop # es) = Suc (stop_cmds es)"
| "stop_cmds (_ # es) = stop_cmds es"

fun aiding_sent :: "effect list \<Rightarrow> c_int" where
  "aiding_sent [] = 0"
| "aiding_sent (Gps_start f # es) = f OR aiding_sent es"
| "aiding_sent (Gps_reset f # es) = f OR aiding_sent es"
| "aiding_sent (_ # es) = aiding_sent es"

definition stops_answered :: "mnld_context \<Rightarrow> int" where
  "stops_answered s = int (stop_cmds (out s)) - (if gps_state s = STOPPING then 1 else 0)"

definition aiding :: "mnld_context \<Rightarrow> c_int" where
  "aiding s = delete_aiding_flag s OR aiding_sent (out s)"

lemma stop_cmds_append [simp]: "stop_cmds (es @ fs) = stop_cmds es + stop_cmds fs"
  by (induction es rule: stop_cmds.induct) auto

lemma aiding_sent_append [simp]: "aiding_sent (es @ fs) = aiding_sent es OR aiding_sent fs"
  by (induction es rule: aiding_sent.induct) (auto simp: or.assoc)

lemma acks_no_cmds [simp]:
  "stop_cmds (reset_acks s) = 0" "stop_cmds (open_acks si s) = 0" "stop_cmds (close_acks s) = 0"
  "stop_cmds (reset_cmds s) = 0"
  "aiding_sent (reset_acks s) = 0" "aiding_sent (open_acks si s) = 0" "aiding_sent (close_acks s) = 0"
  "aiding_sent (reset_cmds s) = delete_aiding_flag s"
  by (auto simp: reset_acks_def open_acks_def close_acks_def reset_cmds_def)

lemma fsm_ledgers:
  assumes "mnld_fsm env ev d s = Some s'"
  shows "stops_answered s' = stops_answered s + (if ev = EVENT_STOP_DONE \<and> gps_state s = STOPPING then 1 else 0)
    \<and> aiding s' = aiding s"
proof (cases "gps_state s")
  case IDLE
  then show ?thesis using assms
    by (cases ev) (auto simp: mnld_fsm_def fsm_eqs stops_answered_def aiding_def or.commute
        start_engine_def Let_def split: if_splits)
next
  case STARTING
  then show ?thesis using assms
    by (cases ev) (auto simp: mnld_fsm_def fsm_eqs stops_answered_def aiding_def or.commute split: if_splits)
next
  case STARTED
  then show ?thesis using assms
    by (cases ev) (auto simp: mnld_fsm_def fsm_eqs stops_answered_def aiding_def or.commute split: if_splits)
next
  case STOPPING
  then show ?thesis using assms
    by (cases ev) (auto simp: mnld_fsm_def fsm_eqs stops_answered_def aiding_def or.commute
        start_engine_def Let_def split: if_splits)
qed


lemma fsm_start:
  assumes "fsm_basic s" "is_a_gps_client_exist s"
  shows "\<exists>s'. mnld_fsm env EVENT_START 0 s = Some s' \<and> mnld_inv s'"
proof (cases "gps_state s")
  case IDLE
  let ?s = "s\<lparr>out := out s @ To_hal M2H_request_wakelock # (if cmcc_log env then [Op01_start] else []),
      gps_start_time := tick env, wait_first_location := True\<rparr>"
  obtain tm where tm: "start_engine ?s = Some (?s\<lparr>gps_state := STARTING, delete_aiding_flag := 0,
      timers := tm, out := out ?s @ [Gps_start (delete_aiding_flag ?s)]\<rparr>)"
    "\<forall>x. x \<noteq> Timer_start \<longrightarrow> tm x = timers s x"
    using start_engine_eq [of ?s] by auto
  have "mnld_fsm env EVENT_START 0 s = start_engine ?s"
    using IDLE by (simp add: mnld_fsm_def emit_def)
  then show ?thesis
    using tm IDLE assms by (auto simp: mnld_inv_def fsm_basic_def all_clients_def wakelock_simps)
qed (use assms in \<open>auto simp: mnld_fsm_def fsm_eqs mnld_inv_def fsm_basic_def all_clients_def
       is_a_gps_client_exist_def wakelock_simps\<close>)

lemma fsm_stop:
  assumes "fsm_basic s" "gps_state s = IDLE \<Longrightarrow> \<not> is_a_gps_client_exist s"
    and "gps_state s = STARTED \<Longrightarrow> all_clients (\<lambda>c. \<not> need_open_ack c) s \<and> delete_aiding_flag s = 0"
  shows "\<exists>s'. mnld_fsm env EVENT_STOP 0 s = Some s' \<and> mnld_inv s'"
  using assms
  by (cases "gps_state s") (auto simp: mnld_fsm_def fsm_eqs mnld_inv_def fsm_basic_def all_clients_def
      is_a_gps_client_exist_def wakelock_simps)

lemma fsm_reset:
  assumes "fsm_basic s" "gps_state s = IDLE \<Longrightarrow> all_clients (\<lambda>c. \<not> gps_used c \<and> \<not> need_close_ack c) s"
    and "gps_state s = STARTED \<Longrightarrow> is_a_gps_client_exist s \<and> all_clients (\<lambda>c. \<not> need_open_ack c) s"
  shows "\<exists>s'. mnld_fsm env EVENT_RESET 0 s = Some s' \<and> mnld_inv s'"
  using assms
  by (cases "gps_state s"; cases "delete_aiding_flag s = 0")
    (auto simp: mnld_fsm_def fsm_eqs mnld_inv_def fsm_basic_def all_clients_def
      is_a_gps_client_exist_def wakelock_simps)

lemma fsm_start_done:
  assumes "mnld_inv s"
  shows "\<exists>s'. mnld_fsm env EVENT_START_DONE d s = Some s' \<and> mnld_inv s'"
  using assms
  by (cases "gps_state s"; cases "is_a_gps_client_exist s")
    (auto simp: mnld_fsm_def fsm_eqs mnld_inv_def fsm_basic_def all_clients_def
      is_a_gps_client_exist_def wakelock_simps)

lemma fsm_stop_done:
  assumes "mnld_inv s" "gps_state s = IDLE \<or> gps_state s = STOPPING"
  shows "\<exists>s'. mnld_fsm env EVENT_STOP_DONE 0 s = Some s' \<and> mnld_inv s'"
proof (cases "gps_state s = STOPPING")
  case True
  let ?s = "s\<lparr>timers := (timers s)(Timer_stop := (0, 0)),
      clients := reset_acked (each_client (need_close_ack_update (\<lambda>_. False)) (clients s)),
      out := out s @ close_acks s @ reset_acks s\<rparr>"
  obtain tm where tm: "start_engine ?s = Some (?s\<lparr>gps_state := STARTING, delete_aiding_flag := 0,
      timers := tm, out := out ?s @ [Gps_start (delete_aiding_flag ?s)]\<rparr>)"
    "\<forall>x. x \<noteq> Timer_start \<longrightarrow> tm x = timers ?s x"
    using start_engine_eq [of ?s] by auto
  have acks: "close_acks (s\<lparr>timers := t\<rparr>) = close_acks s" "reset_acks (s\<lparr>timers := t\<rparr>) = reset_acks s" for t
    by (simp_all add: close_acks_def reset_acks_def)
  show ?thesis
    using True assms tm
    by (cases "is_a_gps_client_exist ?s")
      (auto simp: mnld_fsm_def fsm_eqs acks mnld_inv_def fsm_basic_def all_clients_def wakelock_simps
        is_a_gps_client_exist_def)
next
  case False
  then show ?thesis using assms by (auto simp: mnld_fsm_def)
qed

section \<open>What the handlers keep\<close>

text \<open>A handler that has nothing to do with the engine leaves its part of the state alone.\<close>

fun engine_effect :: "effect \<Rightarrow> bool" where
  "engine_effect (To_hal M2H_request_wakelock) = True"
| "engine_effect (To_hal M2H_release_wakelock) = True"
| "engine_effect (Gps_start _) = True"
| "engine_effect Gps_stop = True"
| "engine_effect (Gps_reset _) = True"
| "engine_effect _ = False"

definition quiet :: "mnld_context \<Rightarrow> mnld_context \<Rightarrow> bool" where
  "quiet s s' \<longleftrightarrow> clients s' = clients s \<and> gps_state s' = gps_state s \<and>
     delete_aiding_flag s' = delete_aiding_flag s \<and> timers s' = timers s \<and>
     (\<exists>es. out s' = out s @ es \<and> (\<forall>e\<in>set es. \<not> engine_effect e))"

lemma engine_wakelock: "\<not> engine_effect e \<Longrightarrow> \<not> wakelock_effect e"
  by (cases e rule: engine_effect.cases) auto

lemma quiet_wakelock: "quiet s s' \<Longrightarrow> wakelock False (out s') = wakelock False (out s)"
  by (cases "wakelock False (out s)") (auto simp: quiet_def wakelock_append engine_wakelock intro!: wakelock_none)

lemma quiet_same:
  assumes "quiet s s'"
  shows "all_clients P s' = all_clients P s" "is_a_gps_client_exist s' = is_a_gps_client_exist s"
    "fsm_basic s' = fsm_basic s" "mnld_inv s' = mnld_inv s"
proof -
  show c: "all_clients P s' = all_clients P s" for P
    using assms by (simp add: quiet_def all_clients_def)
  show u: "is_a_gps_client_exist s' = is_a_gps_client_exist s"
    using assms by (simp add: quiet_def is_a_gps_client_exist_def)
  show b: "fsm_basic s' = fsm_basic s"
    using assms quiet_wakelock [OF assms] by (simp add: fsm_basic_def c) (simp add: quiet_def)
  show "mnld_inv s' = mnld_inv s"
    using assms by (simp add: mnld_inv_def b c u) (simp add: quiet_def)
qed

lemma quiet_inv: "mnld_inv s \<Longrightarrow> quiet s s' \<Longrightarrow> mnld_inv s'"
  by (simp add: quiet_same)

lemma quiet_refl [simp]: "quiet s s"
  by (simp add: quiet_def)

lemma quiet_trans: "quiet s s' \<Longrightarrow> quiet s' s'' \<Longrightarrow> quiet s s''"
proof -
  assume a: "quiet s s'" "quiet s' s''"
  then obtain es fs where "out s' = out s @ es" "\<forall>e\<in>set es. \<not> engine_effect e"
    "out s'' = out s' @ fs" "\<forall>e\<in>set fs. \<not> engine_effect e"
    unfolding quiet_def by blast
  then have "out s'' = out s @ (es @ fs) \<and> (\<forall>e\<in>set (es @ fs). \<not> engine_effect e)" by auto
  then show "quiet s s''" using a unfolding quiet_def by metis
qed

lemma quiet_emit: "emit e s = Some s' \<Longrightarrow> \<not> engine_effect e \<Longrightarrow> quiet s s'"
  by (auto simp: quiet_def emit_def)

lemma quiet_to_agps: "to_agps m s = Some s' \<Longrightarrow> quiet s s'"
  by (auto simp: to_agps_def quiet_def emit_def split: Option.bind_splits)

lemma quiet_to_hal: "to_hal m s = Some s' \<Longrightarrow> \<not> engine_effect (To_hal m) \<Longrightarrow> quiet s s'"
  by (auto simp: to_hal_def quiet_def emit_def split: Option.bind_splits)

lemma quiet_upd [simp]:
  "quiet s (s\<lparr>is_gps_init := b\<rparr>)" "quiet s (s\<lparr>is_gps_meas_enabled := b\<rparr>)"
  "quiet s (s\<lparr>is_gps_navi_enabled := b\<rparr>)" "quiet s (s\<lparr>is_network_connected := b\<rparr>)"
  "quiet s (s\<lparr>is_wifi_connected := b\<rparr>)" "quiet s (s\<lparr>is_epo_downloading := b\<rparr>)"
  "quiet s (s\<lparr>lpbk_tst_start := n\<rparr>)" "quiet s (s\<lparr>offload_enabled := b\<rparr>)"
  "quiet s (s\<lparr>settings_from_agps := x\<rparr>)" "quiet s (s\<lparr>settings_to_agps := y\<rparr>)"
  "quiet s (s\<lparr>wait_first_location := b\<rparr>)" "quiet s (s\<lparr>gps_ttff := n\<rparr>)"
  "quiet s (s\<lparr>sv_type_agps_set := v, sib8_16 := w\<rparr>)"
  by (simp_all add: quiet_def)

lemmas quiet_intros = quiet_trans [OF quiet_upd(1)] quiet_trans [OF quiet_upd(4)]
  quiet_trans [OF quiet_upd(5)] quiet_trans [OF quiet_upd(6)]

text \<open>The six clients: starting, stopping and forgetting one leads to a state the state
  machine may be called in.\<close>

lemma client_starts:
  assumes "mnld_inv s" "f \<in> {hal_update, agps_update, flp_update, flp_test_update, at_cmd_test_update, factory_update}"
  shows "fsm_basic (upd_clients (f (gps_used_update (\<lambda>_. True) \<circ> need_open_ack_update (\<lambda>_. a) \<circ>
      need_close_ack_update (\<lambda>_. False))) s)"
    and "is_a_gps_client_exist (upd_clients (f (gps_used_update (\<lambda>_. True) \<circ> need_open_ack_update (\<lambda>_. a) \<circ>
      need_close_ack_update (\<lambda>_. False))) s)"
  using assms
  by (elim insertE emptyE; simp add: mnld_inv_def fsm_basic_def all_clients_def upd_clients_def
      is_a_gps_client_exist_def)+

lemma client_stops:
  assumes "mnld_inv s" "f \<in> {hal_update, agps_update, flp_update, flp_test_update, at_cmd_test_update, factory_update}"
  shows "\<exists>s'. mnld_fsm env EVENT_STOP 0 (upd_clients (f (gps_used_update (\<lambda>_. False) \<circ>
      need_open_ack_update (\<lambda>_. False) \<circ> need_close_ack_update (\<lambda>_. a))) s) = Some s' \<and> mnld_inv s'"
proof (rule fsm_stop)
  let ?s = "upd_clients (f (gps_used_update (\<lambda>_. False) \<circ> need_open_ack_update (\<lambda>_. False) \<circ> need_close_ack_update (\<lambda>_. a))) s"
  show "fsm_basic ?s"
    using assms by (elim insertE emptyE; simp add: mnld_inv_def fsm_basic_def all_clients_def upd_clients_def)
  show "\<not> is_a_gps_client_exist ?s" if "gps_state ?s = IDLE"
    using assms that by (elim insertE emptyE; simp add: mnld_inv_def all_clients_def upd_clients_def
        is_a_gps_client_exist_def)
  show "all_clients (\<lambda>c. \<not> need_open_ack c) ?s \<and> delete_aiding_flag ?s = 0" if "gps_state ?s = STARTED"
    using assms that by (elim insertE emptyE; simp add: mnld_inv_def all_clients_def upd_clients_def)
qed

lemma client_reboots:
  assumes "mnld_inv s" "f \<in> {hal_update, agps_update, flp_update, flp_test_update, at_cmd_test_update, factory_update}"
  shows "\<exists>s'. mnld_fsm env EVENT_STOP 0 (upd_clients (f (\<lambda>_. \<lparr>gps_used = False, need_open_ack = False,
      need_close_ack = False, need_reset_ack = False\<rparr>)) s) = Some s' \<and> mnld_inv s'"
proof (rule fsm_stop)
  let ?s = "upd_clients (f (\<lambda>_. \<lparr>gps_used = False, need_open_ack = False, need_close_ack = False, need_reset_ack = False\<rparr>)) s"
  show "fsm_basic ?s"
    using assms by (elim insertE emptyE; simp add: mnld_inv_def fsm_basic_def all_clients_def upd_clients_def)
  show "\<not> is_a_gps_client_exist ?s" if "gps_state ?s = IDLE"
    using assms that by (elim insertE emptyE; simp add: mnld_inv_def all_clients_def upd_clients_def
        is_a_gps_client_exist_def)
  show "all_clients (\<lambda>c. \<not> need_open_ack c) ?s \<and> delete_aiding_flag ?s = 0" if "gps_state ?s = STARTED"
    using assms that by (elim insertE emptyE; simp add: mnld_inv_def all_clients_def upd_clients_def)
qed

lemma start_handlers:
  assumes "mnld_inv s"
  shows "\<exists>s'. agps_open_gps_req env i s = Some s' \<and> mnld_inv s'"
    and "\<exists>s'. flp2mnl_gps_start env s = Some s' \<and> mnld_inv s'"
    and "\<exists>s'. flp_test2mnl_gps_start env s = Some s' \<and> mnld_inv s'"
    and "\<exists>s'. at_test2mnl_gps_start env s = Some s' \<and> mnld_inv s'"
    and "\<exists>s'. factory_mnld_gps_start env s = Some s' \<and> mnld_inv s'"
  unfolding agps_open_gps_req_def flp2mnl_gps_start_def flp_test2mnl_gps_start_def
    at_test2mnl_gps_start_def factory_mnld_gps_start_def
  by (intro fsm_start client_starts [OF assms]; simp)+

lemma epo_trigger_quiet:
  "\<exists>s'. hal_start_gps_trigger_epo_download env s = Some s' \<and> quiet s s'"
proof (cases "\<not> is_epo_downloading s \<and> epo_file_invalid env \<and> epo_download_enabled env")
  case True
  have "quiet s (s\<lparr>is_epo_downloading := True, out := out s @ [Epo_start]\<rparr>)"
    by (simp add: quiet_def)
  then show ?thesis using True by (simp add: hal_start_gps_trigger_epo_download_def emit_def)
qed (auto simp: hal_start_gps_trigger_epo_download_def)

lemma hal_gps_start_inv:
  assumes "mnld_inv s"
  shows "\<exists>s'. hal_gps_start env s = Some s' \<and> mnld_inv s'"
proof -
  let ?s = "upd_clients (hal_update (gps_used_update (\<lambda>_. True) \<circ> need_open_ack_update (\<lambda>_. True) \<circ>
      need_close_ack_update (\<lambda>_. False))) s"
  obtain s1 where s1: "hal_start_gps_trigger_epo_download env ?s = Some s1" "quiet ?s s1"
    using epo_trigger_quiet by blast
  have "fsm_basic s1" "is_a_gps_client_exist s1"
    using client_starts [OF assms, of hal_update True] quiet_same [OF s1(2)] by simp_all
  then show ?thesis using s1(1) fsm_start [of s1] by (auto simp: hal_gps_start_def)
qed

lemmas stop_handlers_def = hal_gps_stop_def agps_close_gps_req_def flp2mnl_gps_stop_def
  flp_test2mnl_gps_stop_def at_test2mnl_gps_stop_def factory_mnld_gps_stop_def

lemma stop_handlers:
  assumes "mnld_inv s"
  shows "\<exists>s'. hal_gps_stop env s = Some s' \<and> mnld_inv s'"
    and "\<exists>s'. agps_close_gps_req env s = Some s' \<and> mnld_inv s'"
    and "\<exists>s'. flp2mnl_gps_stop env s = Some s' \<and> mnld_inv s'"
    and "\<exists>s'. flp_test2mnl_gps_stop env s = Some s' \<and> mnld_inv s'"
    and "\<exists>s'. at_test2mnl_gps_stop env s = Some s' \<and> mnld_inv s'"
    and "\<exists>s'. factory_mnld_gps_stop env s = Some s' \<and> mnld_inv s'"
  unfolding stop_handlers_def
  by (rule client_stops [OF assms], (simp; fail))+

lemma reboot_handlers:
  assumes "mnld_inv s"
  shows "\<exists>s'. hal_reboot env s = Some s' \<and> mnld_inv s'"
    and "\<exists>s'. agps_reboot env s = Some s' \<and> mnld_inv s'"
    and "\<exists>s'. flp2mnl_flp_reboot env s = Some s' \<and> mnld_inv s'"
  using client_reboots [OF assms, of hal_update] client_reboots [OF assms, of agps_update]
    client_reboots [OF assms, of flp_update]
  by (simp_all add: hal_reboot_def agps_reboot_def flp2mnl_flp_reboot_def)

lemma hal_gps_delete_aiding_data_inv:
  assumes "mnld_inv s"
  shows "\<exists>s'. hal_gps_delete_aiding_data env flags s = Some s' \<and> mnld_inv s'"
proof -
  let ?s = "upd_clients (hal_update (need_reset_ack_update (\<lambda>_. False)))
      (s\<lparr>out := out s @ [To_agps (M2A_delete_aiding_data flags)]\<rparr>)"
  let ?t = "?s\<lparr>delete_aiding_flag := delete_aiding_flag s OR flags\<rparr>"
  have "\<exists>s'. mnld_fsm env EVENT_RESET 0 ?t = Some s' \<and> mnld_inv s'"
    using assms by (intro fsm_reset)
      (simp_all add: mnld_inv_def fsm_basic_def all_clients_def upd_clients_def is_a_gps_client_exist_def
        wakelock_append)
  then show ?thesis by (simp add: hal_gps_delete_aiding_data_def upd_clients_def)
qed

lemma agps_reset_gps_req_inv:
  assumes "mnld_inv s"
  shows "\<exists>s'. agps_reset_gps_req env flags s = Some s' \<and> mnld_inv s'"
proof (cases "flags = 0")
  case True
  then show ?thesis
    using quiet_inv [OF assms, of "s\<lparr>out := out s @ [To_agps M2A_reset_gps_done]\<rparr>"]
    by (simp add: agps_reset_gps_req_def quiet_def)
next
  case False
  then show ?thesis
    unfolding agps_reset_gps_req_def using assms
    by (simp, intro fsm_reset)
      (simp_all add: mnld_inv_def fsm_basic_def all_clients_def upd_clients_def is_a_gps_client_exist_def)
qed

section \<open>Every client message\<close>

lemmas quiet_handlers_def = hal_gps_init_def hal_gps_cleanup_def hal_gps_inject_time_def
  hal_gps_inject_location_def hal_gps_set_position_mode_def hal_data_conn_open_def
  hal_data_conn_open_with_apn_ip_type_def hal_data_conn_closed_def hal_data_conn_failed_def
  hal_set_server_def hal_set_ref_location_def hal_set_id_def hal_ni_message_def hal_ni_respond_def
  hal_update_network_availability_def hal_set_gps_measurement_def hal_set_gps_navigation_def
  agps_session_done_def agps_ni_notify_def agps_ni_notify2_def agps_data_conn_req_def
  agps_data_conn_req2_def agps_data_conn_release_def agps_set_id_req_def agps_ref_loc_req_def
  agps_rcv_pmtk_def agps_gpevt_def

lemma hal_update_network_state_quiet:
  assumes "hal_update_network_state env conn ty roaming extra s = Some s'"
  shows "quiet s s'"
proof -
  obtain s1 where s1: "to_agps (M2A_update_network_state conn ty roaming extra) s = Some s1"
    using assms by (auto simp: hal_update_network_state_def split: Option.bind_splits)
  show ?thesis
    using quiet_to_agps [OF s1] assms s1
    by (auto simp: hal_update_network_state_def emit_def quiet_def split: if_splits)
qed

lemma agps_location_quiet:
  assumes "agps_location env b s = Some s'"
  shows "quiet s s'"
  using assms
  by (auto simp: agps_location_def Let_def split: Option.bind_splits option.splits
      dest!: quiet_to_hal quiet_emit intro: quiet_trans)

lemma agps_settings_sync_quiet:
  assumes "agps_settings_sync env x s = Some s'"
  shows "quiet s s'"
  using assms
  by (auto simp: agps_settings_sync_def Let_def to_agps_def emit_def quiet_def
      split: Option.bind_splits if_splits)

text \<open>The messages that reach the engine; every other message is quiet.\<close>

fun hal_engine :: "hal2mnl_msg \<Rightarrow> bool" where
  "hal_engine H2M_hal_reboot = True"
| "hal_engine H2M_gps_start = True"
| "hal_engine H2M_gps_stop = True"
| "hal_engine (H2M_gps_delete_aiding_data _) = True"
| "hal_engine _ = False"

fun agps_engine :: "agps2mnl_msg \<Rightarrow> bool" where
  "agps_engine A2M_agps_reboot = True"
| "agps_engine (A2M_agps_open_gps_req _) = True"
| "agps_engine A2M_agps_close_gps_req = True"
| "agps_engine (A2M_agps_reset_gps_req _) = True"
| "agps_engine _ = False"

lemma hal_message_quiet:
  assumes "\<not> hal_engine m" "call_hal2mnl (g_hal2mnl_interface env) m s = Some (r, s')"
  shows "quiet s s'"
proof (cases m)
  case (H2M_update_network_state a b c d)
  then show ?thesis using assms hal_update_network_state_quiet
    by (auto simp: g_hal2mnl_interface_def ret0_def)
qed (use assms in \<open>auto simp: g_hal2mnl_interface_def ret0_def
       quiet_handlers_def quiet_def to_agps_def to_hal_def emit_def simp del: to_agps_ok to_hal_ok
       split: Option.bind_splits option.splits\<close>)

lemma agps_message_quiet:
  assumes "\<not> agps_engine m" "call_agps2mnl (g_agps2mnl_interface env) m s = Some s'"
  shows "quiet s s'"
proof (cases m)
  case (A2M_agps_location b)
  then show ?thesis using assms agps_location_quiet by (auto simp: g_agps2mnl_interface_def)
qed (use assms in \<open>auto simp: g_agps2mnl_interface_def
       quiet_handlers_def quiet_def to_agps_def to_hal_def emit_def simp del: to_agps_ok to_hal_ok
       split: Option.bind_splits option.splits\<close>)

lemma some_inv: "\<exists>s'. r = Some s' \<and> P s' \<Longrightarrow> r = Some s' \<Longrightarrow> P s'"
  by simp

text \<open>A message of the HAL, whatever it is, keeps the invariant; so does a message of the AGPS
  daemon, its settings message, and the requests of the other clients.\<close>

lemma hal_message_inv:
  assumes "mnld_inv s" "call_hal2mnl (g_hal2mnl_interface env) m s = Some (r, s')"
  shows "mnld_inv s'"
proof (cases "hal_engine m")
  case True
  then show ?thesis
    using assms
    by (cases m) (auto simp: g_hal2mnl_interface_def ret0_def
        dest: some_inv [OF hal_gps_delete_aiding_data_inv] some_inv [OF hal_gps_start_inv]
          some_inv [OF stop_handlers(1)] some_inv [OF reboot_handlers(1)])
qed (use quiet_inv [OF assms(1)] hal_message_quiet [OF _ assms(2)] in blast)

lemma agps_message_inv:
  assumes "mnld_inv s" "call_agps2mnl (g_agps2mnl_interface env) m s = Some s'"
  shows "mnld_inv s'"
proof (cases "agps_engine m")
  case True
  then show ?thesis
    using assms
    by (cases m) (auto simp: g_agps2mnl_interface_def
        dest: some_inv [OF agps_reset_gps_req_inv] some_inv [OF start_handlers(1)]
          some_inv [OF stop_handlers(2)] some_inv [OF reboot_handlers(2)])
qed (use quiet_inv [OF assms(1)] agps_message_quiet [OF _ assms(2)] in blast)

section \<open>The ledgers of the handlers\<close>

lemma quiet_ledgers:
  assumes "quiet s s'"
  shows "stops_answered s' = stops_answered s" "aiding s' = aiding s"
proof -
  have "stop_cmds es = 0 \<and> aiding_sent es = 0" if "\<forall>e\<in>set es. \<not> engine_effect e" for es
    using that
  proof (induction es)
    case (Cons e es)
    then show ?case by (cases e) auto
  qed simp
  then show "stops_answered s' = stops_answered s" "aiding s' = aiding s"
    using assms by (auto simp: quiet_def stops_answered_def aiding_def)
qed

text \<open>Aiding data a message asks to delete.\<close>

fun hal_asks :: "hal2mnl_msg \<Rightarrow> c_int" where
  "hal_asks (H2M_gps_delete_aiding_data flags) = flags"
| "hal_asks _ = 0"

fun agps_asks :: "agps2mnl_msg \<Rightarrow> c_int" where
  "agps_asks (A2M_agps_reset_gps_req flags) = flags"
| "agps_asks _ = 0"

lemma upd_clients_ledgers [simp]:
  "stops_answered (upd_clients f s) = stops_answered s" "aiding (upd_clients f s) = aiding s"
  "gps_state (upd_clients f s) = gps_state s"
  by (simp_all add: stops_answered_def aiding_def upd_clients_def)

lemma aiding_flag [simp]:
  "stops_answered (s\<lparr>delete_aiding_flag := f\<rparr>) = stops_answered s"
  "aiding (s\<lparr>delete_aiding_flag := delete_aiding_flag s OR f\<rparr>) = aiding s OR f"
  by (simp_all add: stops_answered_def aiding_def or.commute or.left_commute or.assoc)

lemma to_agps_ledgers:
  assumes "to_agps m s = Some s'"
  shows "stops_answered s' = stops_answered s \<and> aiding s' = aiding s \<and>
    delete_aiding_flag s' = delete_aiding_flag s"
  using quiet_ledgers [OF quiet_to_agps [OF assms]] quiet_to_agps [OF assms] by (simp_all add: quiet_def)

lemma hal_message_ledgers:
  assumes "call_hal2mnl (g_hal2mnl_interface env) m s = Some (r, s')"
  shows "stops_answered s' = stops_answered s \<and> aiding s' = aiding s OR hal_asks m"
proof (cases "hal_engine m")
  case True
  then show ?thesis
  proof (cases m)
    case H2M_gps_start
    then obtain s1 where s1: "quiet (upd_clients (hal_update (gps_used_update (\<lambda>_. True) \<circ>
        need_open_ack_update (\<lambda>_. True) \<circ> need_close_ack_update (\<lambda>_. False))) s) s1"
      "mnld_fsm env EVENT_START 0 s1 = Some s'"
      using assms epo_trigger_quiet [of env] by (force simp: g_hal2mnl_interface_def ret0_def hal_gps_start_def)
    then show ?thesis
      using H2M_gps_start quiet_ledgers [OF s1(1)] fsm_ledgers [OF s1(2)] by simp
  qed (use assms in \<open>auto simp: g_hal2mnl_interface_def ret0_def hal_reboot_def hal_gps_stop_def
         hal_gps_delete_aiding_data_def simp del: to_agps_ok split: Option.bind_splits
         dest!: fsm_ledgers to_agps_ledgers\<close>)
next
  case False
  then have "hal_asks m = 0" by (cases m) auto
  with False show ?thesis using quiet_ledgers [OF hal_message_quiet [OF False assms]] by simp
qed

lemma agps_message_ledgers:
  assumes "call_agps2mnl (g_agps2mnl_interface env) m s = Some s'"
  shows "stops_answered s' = stops_answered s \<and> aiding s' = aiding s OR agps_asks m"
proof (cases "agps_engine m")
  case True
  then show ?thesis
    using assms by (cases m) (auto simp: g_agps2mnl_interface_def agps_reboot_def agps_open_gps_req_def
        agps_close_gps_req_def agps_reset_gps_req_def simp del: to_agps_ok split: if_splits
        dest!: fsm_ledgers to_agps_ledgers)
next
  case False
  then have "agps_asks m = 0" by (cases m) auto
  with False show ?thesis using quiet_ledgers [OF agps_message_quiet [OF False assms]] by simp
qed

end
