(* ===== verification/Mnld_Main.thy ===== *)
theory Mnld_Main
  imports Mnld_Fsm
begin

text \<open>
  The internal events of the daemon's main thread (\<^verbatim>\<open>mnld.c\<close>, from \<open>mnld_gps_start_done\<close> to
  \<open>mnld_main_thread\<close>): the other threads report to the main socket, \<open>main_event_hdlr\<close> runs the
  state machine on the reports, and the main loop dispatches every ready descriptor to its
  receiver. The reports reach the handler over the same kind of channel as the messages of the
  other processes.
\<close>

abbreviation MNLD_INTERNAL_BUFF_SIZE :: nat where "MNLD_INTERNAL_BUFF_SIZE \<equiv> 8192"
abbreviation GPS2MAIN_EVENT_START_DONE :: c_int where "GPS2MAIN_EVENT_START_DONE \<equiv> 0"
abbreviation GPS2MAIN_EVENT_STOP_DONE :: c_int where "GPS2MAIN_EVENT_STOP_DONE \<equiv> 1"
abbreviation GPS2MAIN_EVENT_RESET_DONE :: c_int where "GPS2MAIN_EVENT_RESET_DONE \<equiv> 2"
abbreviation GPS2MAIN_EVENT_NMEA_TIMEOUT :: c_int where "GPS2MAIN_EVENT_NMEA_TIMEOUT \<equiv> 3"
abbreviation GPS2MAIN_EVENT_UPDATE_LOCATION :: c_int where "GPS2MAIN_EVENT_UPDATE_LOCATION \<equiv> 4"
abbreviation EPO2MAIN_EVENT_EPO_DONE :: c_int where "EPO2MAIN_EVENT_EPO_DONE \<equiv> 5"
abbreviation QEPO2MAIN_EVENT_QEPO_DONE :: c_int where "QEPO2MAIN_EVENT_QEPO_DONE \<equiv> 6"

section \<open>The reports\<close>

definition mnld_gps_start_done :: "bool \<Rightarrow> (dest \<times> c_char list) option" where
  "mnld_gps_start_done is_assist_req = do {
     c \<leftarrow> put_int (zero_buff MNLD_INTERNAL_BUFF_SIZE) GPS2MAIN_EVENT_START_DONE;
     c \<leftarrow> put_int c (c_bool is_assist_req);
     Some (MNLD_MAIN_SOCKET, sent c)
   }"

definition mnld_gps_start_nmea_timeout :: "(dest \<times> c_char list) option" where
  "mnld_gps_start_nmea_timeout = do {
     c \<leftarrow> put_int (zero_buff MNLD_INTERNAL_BUFF_SIZE) GPS2MAIN_EVENT_NMEA_TIMEOUT;
     Some (MNLD_MAIN_SOCKET, sent c)
   }"

definition mnld_gps_stop_done :: "(dest \<times> c_char list) option" where
  "mnld_gps_stop_done = do {
     c \<leftarrow> put_int (zero_buff MNLD_INTERNAL_BUFF_SIZE) GPS2MAIN_EVENT_STOP_DONE;
     Some (MNLD_MAIN_SOCKET, sent c)
   }"

definition mnld_gps_reset_done :: "(dest \<times> c_char list) option" where
  "mnld_gps_reset_done = do {
     c \<leftarrow> put_int (zero_buff MNLD_INTERNAL_BUFF_SIZE) GPS2MAIN_EVENT_RESET_DONE;
     Some (MNLD_MAIN_SOCKET, sent c)
   }"

definition mnld_gps_update_location :: "gps_location \<Rightarrow> (dest \<times> c_char list) option" where
  "mnld_gps_update_location location = do {
     c \<leftarrow> put_int (zero_buff MNLD_INTERNAL_BUFF_SIZE) GPS2MAIN_EVENT_UPDATE_LOCATION;
     c \<leftarrow> put_struct c (gps_location_bytes location);
     Some (MNLD_MAIN_SOCKET, sent c)
   }"

definition mnld_epo_download_done :: "c_int \<Rightarrow> (dest \<times> c_char list) option" where
  "mnld_epo_download_done res = do {
     c \<leftarrow> put_int (zero_buff MNLD_INTERNAL_BUFF_SIZE) EPO2MAIN_EVENT_EPO_DONE;
     c \<leftarrow> put_int c res;
     Some (MNLD_MAIN_SOCKET, sent c)
   }"

definition mnld_qepo_download_done :: "c_int \<Rightarrow> (dest \<times> c_char list) option" where
  "mnld_qepo_download_done res = do {
     c \<leftarrow> put_int (zero_buff MNLD_INTERNAL_BUFF_SIZE) QEPO2MAIN_EVENT_QEPO_DONE;
     c \<leftarrow> put_int c res;
     Some (MNLD_MAIN_SOCKET, sent c)
   }"

section \<open>The handler\<close>

definition on_reset_done :: "mnld_context \<Rightarrow> mnld_context option" where
  "on_reset_done s = do { s \<leftarrow> clear_timer Timer_reset s; do_gps_reset_hdlr s }"

definition on_nmea_timeout :: "env \<Rightarrow> mnld_context \<Rightarrow> mnld_context option" where
  "on_nmea_timeout env s =
     (if mnld_is_gps_started_done s then do {
        s \<leftarrow> mnld_fsm env EVENT_STOP 0 (mtk_gps_clear_gps_user s);
        s \<leftarrow> to_hal M2H_mnld_reboot s;
        s \<leftarrow> to_agps M2A_mnl_reboot s;
        s \<leftarrow> emit (To_flp mnl2flp_mnld_reboot) s;
        emit Mnl_set_status s
      } else Some s)"

text \<open>\<open>(int) valid_acc\<close> is \<open>2000\<close> when the location has no accuracy.\<close>

definition on_update_location :: "env \<Rightarrow> gps_location \<Rightarrow> mnld_context \<Rightarrow> mnld_context option" where
  "on_update_location env loc s = do {
     valid_acc \<leftarrow> (if loc_flags loc AND GPS_LOCATION_HAS_ACCURACY \<noteq> 0
                   then float_to_int (loc_accuracy loc) else Some 2000);
     s \<leftarrow> to_agps (M2A_location_sync (loc_lat loc) (loc_lng loc) valid_acc) s;
     if wait_first_location s then do {
       s \<leftarrow> Some (s\<lparr>wait_first_location := False, gps_ttff := tick env - gps_start_time s\<rparr>);
       if cmcc_log env then emit (Op01_location (loc_lat loc) (loc_lng loc) (gps_ttff s)) s else Some s
     } else Some s
   }"

definition on_epo_done :: "mnld_context \<Rightarrow> mnld_context option" where
  "on_epo_done s =
     (let s = s\<lparr>is_epo_downloading := False\<rparr>
      in if mnld_is_gps_started_done s then emit Epo_update s else Some s)"

definition on_qepo_done :: "c_int \<Rightarrow> mnld_context \<Rightarrow> mnld_context option" where
  "on_qepo_done res s = (if mnld_is_gps_started_done s then emit (Qepo_update res) s else Some s)"

definition main_event_switch ::
  "env \<Rightarrow> (nat \<Rightarrow> c_char) \<Rightarrow> c_int \<Rightarrow> cursor \<Rightarrow> mnld_context \<Rightarrow> mnld_context option" where
  "main_event_switch env u cmd c s =
    (if cmd = GPS2MAIN_EVENT_START_DONE then do {
       (is_assist_req, c) \<leftarrow> get_int c;
       mnld_fsm env EVENT_START_DONE is_assist_req s
     }
     else if cmd = GPS2MAIN_EVENT_STOP_DONE then mnld_fsm env EVENT_STOP_DONE 0 s
     else if cmd = GPS2MAIN_EVENT_RESET_DONE then on_reset_done s
     else if cmd = GPS2MAIN_EVENT_NMEA_TIMEOUT then on_nmea_timeout env s
     else if cmd = GPS2MAIN_EVENT_UPDATE_LOCATION then do {
       (location, c) \<leftarrow> get_struct (uninit u 56) c;
       on_update_location env (gps_location_of location) s
     }
     else if cmd = EPO2MAIN_EVENT_EPO_DONE then do { (res, c) \<leftarrow> get_int c; on_epo_done s }
     else if cmd = QEPO2MAIN_EVENT_QEPO_DONE then do { (res, c) \<leftarrow> get_int c; on_qepo_done res s }
     else Some s)"

definition main_event_hdlr ::
  "env \<Rightarrow> (nat \<Rightarrow> c_char) \<Rightarrow> rx list \<Rightarrow> mnld_context \<Rightarrow> (int \<times> mnld_context \<times> rx list) option" where
  "main_event_hdlr env u rs s =
     (case safe_recvfrom MNLD_INTERNAL_BUFF_SIZE rs of
        (ret, d, rs) \<Rightarrow>
          if ret \<le> 0 then Some (- 1, s, rs)
          else do {
            (cmd, c) \<leftarrow> get_int (recv_buff MNLD_INTERNAL_BUFF_SIZE d);
            s \<leftarrow> main_event_switch env u cmd c s;
            Some (0, s, rs)
          })"

section \<open>The reports reach the state machine\<close>

datatype main_msg = MM_start_done bool | MM_stop_done | MM_reset_done | MM_nmea_timeout
  | MM_update_location gps_location | MM_epo_done c_int | MM_qepo_done c_int

fun send_main :: "main_msg \<Rightarrow> (dest \<times> c_char list) option" where
  "send_main (MM_start_done b) = mnld_gps_start_done b"
| "send_main MM_stop_done = mnld_gps_stop_done"
| "send_main MM_reset_done = mnld_gps_reset_done"
| "send_main MM_nmea_timeout = mnld_gps_start_nmea_timeout"
| "send_main (MM_update_location l) = mnld_gps_update_location l"
| "send_main (MM_epo_done r) = mnld_epo_download_done r"
| "send_main (MM_qepo_done r) = mnld_qepo_download_done r"

fun call_main :: "env \<Rightarrow> main_msg \<Rightarrow> mnld_context \<Rightarrow> mnld_context option" where
  "call_main env (MM_start_done b) s = mnld_fsm env EVENT_START_DONE (c_bool b) s"
| "call_main env MM_stop_done s = mnld_fsm env EVENT_STOP_DONE 0 s"
| "call_main env MM_reset_done s = on_reset_done s"
| "call_main env MM_nmea_timeout s = on_nmea_timeout env s"
| "call_main env (MM_update_location l) s = on_update_location env l s"
| "call_main env (MM_epo_done r) s = on_epo_done s"
| "call_main env (MM_qepo_done r) s = on_qepo_done r s"

fun wire_main :: "main_msg \<Rightarrow> c_char list" where
  "wire_main (MM_start_done b) = enc_int GPS2MAIN_EVENT_START_DONE @ enc_int (c_bool b)"
| "wire_main MM_stop_done = enc_int GPS2MAIN_EVENT_STOP_DONE"
| "wire_main MM_reset_done = enc_int GPS2MAIN_EVENT_RESET_DONE"
| "wire_main MM_nmea_timeout = enc_int GPS2MAIN_EVENT_NMEA_TIMEOUT"
| "wire_main (MM_update_location l) = enc_int GPS2MAIN_EVENT_UPDATE_LOCATION @ enc_binary (gps_location_bytes l)"
| "wire_main (MM_epo_done r) = enc_int EPO2MAIN_EVENT_EPO_DONE @ enc_int r"
| "wire_main (MM_qepo_done r) = enc_int QEPO2MAIN_EVENT_QEPO_DONE @ enc_int r"

lemma le64_enc_long_append [simp]: "le64 (enc_long v @ bs) = v"
proof -
  have "le64 (enc_long v @ bs) = ucast (ucast v :: c_int) OR push_bit 32 (ucast (ucast (drop_bit 32 v) :: c_int))"
    by (simp add: le64_def enc_long_def)
  then show ?thesis by (simp add: word64_from_ints)
qed

lemma le64_enc_long [simp]: "le64 (enc_long v) = v"
  using le64_enc_long_append [of v "[]"] by simp

lemma length_gps_location_bytes [simp]: "length (gps_location_bytes l) = 56"
  by (simp add: gps_location_bytes_def)

lemma gps_location_of_bytes [simp]: "gps_location_of (gps_location_bytes l) = l"
  by (simp add: gps_location_of_def gps_location_bytes_def)

lemmas main_senders = mnld_gps_start_done_def mnld_gps_stop_done_def mnld_gps_reset_done_def
  mnld_gps_start_nmea_timeout_def mnld_gps_update_location_def mnld_epo_download_done_def
  mnld_qepo_download_done_def

lemma send_main_eq: "send_main m = Some (MNLD_MAIN_SOCKET, wire_main m)"
  by (cases m) (auto simp: main_senders zero_buff_rd sent_rd store_simps binary_ok_def)

lemma main_run:
  "do { (cmd, c) \<leftarrow> get_int (rd MNLD_INTERNAL_BUFF_SIZE [] (wire_main m)); main_event_switch env u cmd c s } =
   call_main env m s"
  by (cases m) (auto simp: store_simps main_event_switch_def)

lemma wire_main_bounds: "0 < length (wire_main m)" "length (wire_main m) \<le> MNLD_INTERNAL_BUFF_SIZE"
  by (cases m; simp)+

lemma main_delivered:
  "main_event_hdlr env u (RxData (wire_main m) # rs) s = map_option (\<lambda>s. (0, s, rs)) (call_main env m s)"
proof -
  have "main_event_hdlr env u (RxData (wire_main m) # rs) s = map_option (\<lambda>s. (0, s, rs))
    (do { (cmd, c) \<leftarrow> get_int (rd MNLD_INTERNAL_BUFF_SIZE [] (wire_main m)); main_event_switch env u cmd c s })"
    using wire_main_bounds [of m]
    by (auto simp: main_event_hdlr_def safe_recvfrom_def recv_buff_rd split: Option.bind_splits)
  then show ?thesis by (simp only: main_run)
qed

interpretation main: channel "\<lambda>m. map_option snd (send_main m)" "\<lambda>rs s. main_event_hdlr env u rs s"
    "\<lambda>m s. map_option (Pair 0) (call_main env m s)" "\<lambda>_. True" for env u
  by unfold_locales (auto simp: send_main_eq main_delivered option.map_comp comp_def)

end
