(* ===== verification/Gps_Control.thy ===== *)
theory Gps_Control
  imports Mnld_Main
begin

text \<open>
  The engine thread, \<^verbatim>\<open>mtk/gps/mtk_mnld/mnld_entity/src/gps_controller.c\<close>: the commands of the
  main thread and their receiver, starting, stopping and restarting the GPS library, and the
  callbacks that tie the library to the AGPS agent. The set-up of the library (\<open>Gps_Init\<close>)
  and the library itself appear here only through what they return.
\<close>

abbreviation MAIN2GPS_EVENT_START :: c_int where "MAIN2GPS_EVENT_START \<equiv> 0"
abbreviation MAIN2GPS_EVENT_STOP :: c_int where "MAIN2GPS_EVENT_STOP \<equiv> 1"
abbreviation MAIN2GPS_DELETE_AIDING_DATA :: c_int where "MAIN2GPS_DELETE_AIDING_DATA \<equiv> 2"
abbreviation GPS2GPS_NMEA_DATA_TIMEOUT :: c_int where "GPS2GPS_NMEA_DATA_TIMEOUT \<equiv> 3"

section \<open>Commands to the thread\<close>

definition gps_control_gps_start :: "c_int \<Rightarrow> (dest \<times> c_char list) option" where
  "gps_control_gps_start delete_aiding_data_flags = do {
     c \<leftarrow> put_int (zero_buff MNLD_INTERNAL_BUFF_SIZE) MAIN2GPS_EVENT_START;
     c \<leftarrow> put_int c delete_aiding_data_flags;
     Some (MNLD_GPS_CONTROL_SOCKET, sent c)
   }"

definition gps_control_gps_stop :: "(dest \<times> c_char list) option" where
  "gps_control_gps_stop = do {
     c \<leftarrow> put_int (zero_buff MNLD_INTERNAL_BUFF_SIZE) MAIN2GPS_EVENT_STOP;
     Some (MNLD_GPS_CONTROL_SOCKET, sent c)
   }"

definition gps_control_gps_reset :: "c_int \<Rightarrow> (dest \<times> c_char list) option" where
  "gps_control_gps_reset delete_aiding_data_flags = do {
     c \<leftarrow> put_int (zero_buff MNLD_INTERNAL_BUFF_SIZE) MAIN2GPS_DELETE_AIDING_DATA;
     c \<leftarrow> put_int c delete_aiding_data_flags;
     Some (MNLD_GPS_CONTROL_SOCKET, sent c)
   }"

text \<open>Every position of the library feeds the NMEA monitor, unless only offload clients use it.\<close>

abbreviation MNL_NMEA_DISABLE_NOTIFY :: c_int where "MNL_NMEA_DISABLE_NOTIFY \<equiv> 0x1000"

definition send_active_notify :: "c_int \<Rightarrow> bool \<Rightarrow> c_int \<Rightarrow> (dest \<times> c_char list) option option" where
  "send_active_notify gps_user offload debug_mnl =
     (if gps_user AND (GPS_USER_FLP OR GPS_USER_OFL_TEST) = gps_user \<and> offload then Some None
      else if debug_mnl AND MNL_NMEA_DISABLE_NOTIFY = 0 then do {
        c \<leftarrow> put_int (zero_buff 1024) GPS2GPS_NMEA_DATA_TIMEOUT;
        Some (Some (MNLD_GPS_CONTROL_SOCKET, sent c))
      } else Some None)"

section \<open>State\<close>

datatype dispatch_state = ST_SI | ST_NI | ST_IDLE | ST_UNKNOWN

datatype ctl_effect =
    Ctl_main main_msg
  | Ctl_agps mnl2agps_msg
  | Ctl_hal mnl2hal_msg
  | Ctl_mnl_start c_int | Ctl_mnl_stop | Ctl_restart nat
  | Ctl_nmea_monitor_stop | Ctl_nmea_monitor_start
  | Ctl_alarm nat | Ctl_supl_terminate | Ctl_supl_pmtk c_string
  | Ctl_request_nlp | Ctl_set_gps_time c_short c_int c_int | Ctl_qepo_start

record gps_ctl =
  assist_data_bit_map :: c_int
  pwrctl :: c_char
  drv_state :: c_char
  AGENT_SET_ALARM :: bool
  state_mode :: dispatch_state
  last_state_mode :: dispatch_state
  SUPL_enabled :: bool
  ctl_out :: "ctl_effect list"

text \<open>What the kernel driver's attributes and the library return.\<close>

record ctl_env =
  pwrctl_err :: int
  state_err :: int
  start_impl_ret :: int       \<comment> \<open>\<open>mnld_gps_start_impl()\<close>\<close>
  sys_uninit_ret :: int       \<comment> \<open>\<open>mtk_gps_sys_uninit()\<close>\<close>
  qepo_time :: "c_short \<times> c_int \<times> c_int"
  qepo_time_ret :: int

definition ctl_emit :: "ctl_effect \<Rightarrow> gps_ctl \<Rightarrow> gps_ctl" where
  "ctl_emit e s = s\<lparr>ctl_out := ctl_out s @ [e]\<rparr>"

abbreviation GPS_PWRCTL_OFF :: c_char where "GPS_PWRCTL_OFF \<equiv> 0"
abbreviation GPS_PWRCTL_RST :: c_char where "GPS_PWRCTL_RST \<equiv> 2"
abbreviation MNL_GPS_STATE_PWROFF :: c_char where "MNL_GPS_STATE_PWROFF \<equiv> 0"
abbreviation MNL_GPS_STATE_START :: c_char where "MNL_GPS_STATE_START \<equiv> 2"

text \<open>An attribute below its bound is written; otherwise \<open>-1\<close>.\<close>

definition mnl_set_pwrctl :: "ctl_env \<Rightarrow> c_char \<Rightarrow> gps_ctl \<Rightarrow> int \<times> gps_ctl" where
  "mnl_set_pwrctl e p s =
     (if p < 5 then (pwrctl_err e, if pwrctl_err e = 0 then s\<lparr>pwrctl := p\<rparr> else s) else (- 1, s))"

definition mnl_set_state :: "ctl_env \<Rightarrow> c_char \<Rightarrow> gps_ctl \<Rightarrow> int \<times> gps_ctl" where
  "mnl_set_state e p s =
     (if p < 6 then (state_err e, if state_err e = 0 then s\<lparr>drv_state := p\<rparr> else s) else (- 1, s))"

section \<open>Starting, stopping, deleting aiding data\<close>

definition mnld_gps_start :: "ctl_env \<Rightarrow> c_int \<Rightarrow> gps_ctl \<Rightarrow> int \<times> gps_ctl" where
  "mnld_gps_start e delete_aiding_data_flags s =
     (let s = s\<lparr>assist_data_bit_map := delete_aiding_data_flags\<rparr>;
          (ret, s) = mnl_set_pwrctl e GPS_PWRCTL_RST s
      in if ret \<noteq> 0 then (ret, s)
         else
           let s = ctl_emit (Ctl_mnl_start (assist_data_bit_map s)) s
           in if start_impl_ret e \<noteq> 0 then (start_impl_ret e, s)
              else (0, snd (mnl_set_state e MNL_GPS_STATE_START s)))"

text \<open>The library is stopped and shut down, and the alarm cancelled (\<open>alarm(0)\<close>).\<close>

definition mnld_gps_stop_impl :: "ctl_env \<Rightarrow> gps_ctl \<Rightarrow> int \<times> gps_ctl" where
  "mnld_gps_stop_impl e s = (sys_uninit_ret e, ctl_emit (Ctl_alarm 0) (ctl_emit Ctl_mnl_stop s))"

definition mnld_gps_stop :: "ctl_env \<Rightarrow> gps_ctl \<Rightarrow> int \<times> gps_ctl" where
  "mnld_gps_stop e s =
     (let s = ctl_emit Ctl_nmea_monitor_stop s;
          (err, s) = mnld_gps_stop_impl e s
      in if err \<noteq> 0 then (err, s)
         else
           let s = snd (mnl_set_pwrctl e GPS_PWRCTL_OFF s);
               s = snd (mnl_set_state e MNL_GPS_STATE_PWROFF s)
           in (0, ctl_emit (Ctl_main MM_stop_done) s))"

abbreviation MTK_GPS_START_HOT :: nat where "MTK_GPS_START_HOT \<equiv> 1"
abbreviation MTK_GPS_START_WARM :: nat where "MTK_GPS_START_WARM \<equiv> 2"
abbreviation MTK_GPS_START_COLD :: nat where "MTK_GPS_START_COLD \<equiv> 3"
abbreviation MTK_GPS_START_FULL :: nat where "MTK_GPS_START_FULL \<equiv> 4"
abbreviation MTK_GPS_START_AGPS :: nat where "MTK_GPS_START_AGPS \<equiv> 6"
abbreviation MTK_GPS_START_D_EPH_ALM :: nat where "MTK_GPS_START_D_EPH_ALM \<equiv> 7"
abbreviation MTK_GPS_START_D_TIME :: nat where "MTK_GPS_START_D_TIME \<equiv> 8"
abbreviation FLAG_HOT_START :: c_int where "FLAG_HOT_START \<equiv> 0"
abbreviation FLAG_WARM_START :: c_int where "FLAG_WARM_START \<equiv> 1"
abbreviation FLAG_COLD_START :: c_int where "FLAG_COLD_START \<equiv> 0x5"
abbreviation FLAG_FULL_START :: c_int where "FLAG_FULL_START \<equiv> 0xFFFF"
abbreviation FLAG_AGPS_START :: c_int where "FLAG_AGPS_START \<equiv> 0xF7FF"
abbreviation FLAG_DELETE_EPH_ALM_START :: c_int where "FLAG_DELETE_EPH_ALM_START \<equiv> 0x3"
abbreviation FLAG_DELETE_TIME_START :: c_int where "FLAG_DELETE_TIME_START \<equiv> 8"

definition restart_type :: "c_int \<Rightarrow> nat" where
  "restart_type flags =
     (if flags = FLAG_HOT_START then MTK_GPS_START_HOT
      else if flags = FLAG_WARM_START then MTK_GPS_START_WARM
      else if flags = FLAG_COLD_START then MTK_GPS_START_COLD
      else if flags = FLAG_FULL_START then MTK_GPS_START_FULL
      else if flags = FLAG_AGPS_START then MTK_GPS_START_AGPS
      else if flags = FLAG_DELETE_EPH_ALM_START then MTK_GPS_START_D_EPH_ALM
      else if flags = FLAG_DELETE_TIME_START then MTK_GPS_START_D_TIME
      else MTK_GPS_START_HOT)"

definition mnld_gps_delete_aiding_data :: "c_int \<Rightarrow> gps_ctl \<Rightarrow> int \<times> gps_ctl" where
  "mnld_gps_delete_aiding_data flags s =
     (0, ctl_emit (Ctl_main MM_reset_done) (ctl_emit (Ctl_restart (restart_type flags)) s))"

section \<open>The receiver\<close>

definition gps_control_switch :: "ctl_env \<Rightarrow> c_int \<Rightarrow> cursor \<Rightarrow> gps_ctl \<Rightarrow> (int \<times> gps_ctl) option" where
  "gps_control_switch e cmd c s =
    (if cmd = MAIN2GPS_EVENT_START then do {
       (flags, c) \<leftarrow> get_int c;
       Some (0, snd (mnld_gps_start e flags s))
     }
     else if cmd = MAIN2GPS_EVENT_STOP then Some (0, snd (mnld_gps_stop e s))
     else if cmd = MAIN2GPS_DELETE_AIDING_DATA then do {
       (flags, c) \<leftarrow> get_int c;
       Some (0, snd (mnld_gps_delete_aiding_data flags s))
     }
     else if cmd = GPS2GPS_NMEA_DATA_TIMEOUT then Some (0, ctl_emit Ctl_nmea_monitor_start s)
     else Some (- 1, s))"

definition gps_control_event_hdlr ::
  "ctl_env \<Rightarrow> rx list \<Rightarrow> gps_ctl \<Rightarrow> (int \<times> gps_ctl \<times> rx list) option" where
  "gps_control_event_hdlr e rs s =
     (case safe_recvfrom MNLD_INTERNAL_BUFF_SIZE rs of
        (ret, d, rs) \<Rightarrow>
          if ret \<le> 0 then Some (- 1, s, rs)
          else do {
            (cmd, c) \<leftarrow> get_int (recv_buff MNLD_INTERNAL_BUFF_SIZE d);
            (r, s) \<leftarrow> gps_control_switch e cmd c s;
            Some (r, s, rs)
          })"

section \<open>The AGPS agent\<close>

text \<open>\<open>stopped\<close> is \<open>mnld_is_gps_stopped()\<close>, \<open>gps_user\<close> is \<open>mtk_gps_get_gps_user()\<close>.\<close>

definition alarm_handler :: "bool \<Rightarrow> c_int \<Rightarrow> gps_ctl \<Rightarrow> gps_ctl" where
  "alarm_handler stopped gps_user s =
     (if AGENT_SET_ALARM s then
        if gps_user AND GPS_USER_AGPS \<noteq> 0 then s
        else if stopped then
          s\<lparr>AGENT_SET_ALARM := False, last_state_mode := state_mode s, state_mode := ST_IDLE\<rparr>
        else
          (ctl_emit Ctl_supl_terminate s)\<lparr>last_state_mode := state_mode s, state_mode := ST_IDLE,
             AGENT_SET_ALARM := False\<rparr>
      else s\<lparr>AGENT_SET_ALARM := False\<rparr>)"

definition gps_controller_agps_session_done :: "bool \<Rightarrow> gps_ctl \<Rightarrow> gps_ctl" where
  "gps_controller_agps_session_done stopped s =
     (if stopped then s\<lparr>AGENT_SET_ALARM := False, last_state_mode := state_mode s, state_mode := ST_IDLE\<rparr>
      else if \<not> AGENT_SET_ALARM s then (ctl_emit (Ctl_alarm 30) s)\<lparr>AGENT_SET_ALARM := True\<rparr>
      else s)"

definition gps_controller_rcv_pmtk :: "bool \<Rightarrow> c_string \<Rightarrow> gps_ctl \<Rightarrow> gps_ctl" where
  "gps_controller_rcv_pmtk stopped pmtk s = (if stopped then s else ctl_emit (Ctl_supl_pmtk pmtk) s)"

abbreviation MTK_AGPS_CB_SUPL_PMTK :: c_short where "MTK_AGPS_CB_SUPL_PMTK \<equiv> 0"
abbreviation MTK_AGPS_CB_ASSIST_REQ :: c_short where "MTK_AGPS_CB_ASSIST_REQ \<equiv> 1"
abbreviation MTK_AGPS_CB_START_REQ :: c_short where "MTK_AGPS_CB_START_REQ \<equiv> 3"
abbreviation MTK_AGPS_CB_BITMAP_UPDATE :: c_short where "MTK_AGPS_CB_BITMAP_UPDATE \<equiv> 5"
abbreviation MTK_AGPS_CB_QEPO_DOWNLOAD_REQ :: c_short where "MTK_AGPS_CB_QEPO_DOWNLOAD_REQ \<equiv> 6"
abbreviation MTK_GPS_ERROR :: int where "MTK_GPS_ERROR \<equiv> - 1"

text \<open>\<open>data\<close> is a pointer to the bytes of a NUL-terminated buffer; reading through a null
  pointer is undefined.\<close>

definition mtk_gps_sys_agps_disaptcher_callback ::
  "ctl_env \<Rightarrow> c_short \<Rightarrow> c_short \<Rightarrow> c_char list option \<Rightarrow> gps_ctl \<Rightarrow> (int \<times> gps_ctl) option" where
  "mtk_gps_sys_agps_disaptcher_callback e type len data s =
    (if type = MTK_AGPS_CB_SUPL_PMTK \<or> type = MTK_AGPS_CB_ASSIST_REQ \<or> type = MTK_AGPS_CB_START_REQ then
       if SUPL_enabled s then
         if type = MTK_AGPS_CB_SUPL_PMTK then
           if len \<noteq> 0 then do {
             let m = M2A_pmtk (map_option (takeWhile (\<lambda>b. b \<noteq> 0)) data);
             _ \<leftarrow> send_mnl2agps m;
             Some (0, ctl_emit (Ctl_agps m) s)
           } else Some (0, s)
         else if type = MTK_AGPS_CB_ASSIST_REQ then
           if state_mode s = ST_IDLE \<or> state_mode s = ST_SI
           then Some (0, ctl_emit (Ctl_agps M2A_reaiding_req) s) else Some (MTK_GPS_ERROR, s)
         else
           (case data of
              None \<Rightarrow> Some (0, s)
            | Some [] \<Rightarrow> None
            | Some (b # _) \<Rightarrow> Some (0, ctl_emit (Ctl_main (MM_start_done (b = 1))) s))
       else Some (MTK_GPS_ERROR, s)
     else if type = MTK_AGPS_CB_BITMAP_UPDATE \<and> data \<noteq> None then
       (case data of
          Some (b # _) \<Rightarrow>
            let s = (if b AND 1 = 1 then ctl_emit (Ctl_hal M2H_request_utc_time) s else s);
                s = (if b AND 2 = 2 then ctl_emit Ctl_request_nlp s else s)
            in Some (0, s)
        | _ \<Rightarrow> None)
     else if type = MTK_AGPS_CB_QEPO_DOWNLOAD_REQ then
       (case qepo_time e of
          (wn, tow, sys_time) \<Rightarrow>
            Some (qepo_time_ret e, ctl_emit Ctl_qepo_start (ctl_emit (Ctl_set_gps_time wn tow sys_time) s)))
     else Some (0, s))"

section \<open>The commands reach the thread\<close>

datatype ctl_msg = CM_start c_int | CM_stop | CM_reset c_int | CM_nmea

fun send_ctl :: "ctl_msg \<Rightarrow> (dest \<times> c_char list) option" where
  "send_ctl (CM_start flags) = gps_control_gps_start flags"
| "send_ctl CM_stop = gps_control_gps_stop"
| "send_ctl (CM_reset flags) = gps_control_gps_reset flags"
| "send_ctl CM_nmea = send_active_notify GPS_USER_APP False 0 \<bind> id"

fun call_ctl :: "ctl_env \<Rightarrow> ctl_msg \<Rightarrow> gps_ctl \<Rightarrow> gps_ctl" where
  "call_ctl e (CM_start flags) s = snd (mnld_gps_start e flags s)"
| "call_ctl e CM_stop s = snd (mnld_gps_stop e s)"
| "call_ctl e (CM_reset flags) s = snd (mnld_gps_delete_aiding_data flags s)"
| "call_ctl e CM_nmea s = ctl_emit Ctl_nmea_monitor_start s"

fun wire_ctl :: "ctl_msg \<Rightarrow> c_char list" where
  "wire_ctl (CM_start flags) = enc_int MAIN2GPS_EVENT_START @ enc_int flags"
| "wire_ctl CM_stop = enc_int MAIN2GPS_EVENT_STOP"
| "wire_ctl (CM_reset flags) = enc_int MAIN2GPS_DELETE_AIDING_DATA @ enc_int flags"
| "wire_ctl CM_nmea = enc_int GPS2GPS_NMEA_DATA_TIMEOUT"

lemmas ctl_senders = gps_control_gps_start_def gps_control_gps_stop_def gps_control_gps_reset_def
  send_active_notify_def

lemma send_ctl_eq: "send_ctl m = Some (MNLD_GPS_CONTROL_SOCKET, wire_ctl m)"
  by (cases m) (auto simp: ctl_senders zero_buff_rd sent_rd store_simps)

lemma ctl_run:
  "do { (cmd, c) \<leftarrow> get_int (rd MNLD_INTERNAL_BUFF_SIZE [] (wire_ctl m)); gps_control_switch e cmd c s } =
   Some (0, call_ctl e m s)"
  by (cases m) (auto simp: store_simps gps_control_switch_def)

lemma wire_ctl_bounds: "0 < length (wire_ctl m)" "length (wire_ctl m) \<le> MNLD_INTERNAL_BUFF_SIZE"
  by (cases m; simp)+

lemma ctl_delivered:
  "gps_control_event_hdlr e (RxData (wire_ctl m) # rs) s = Some (0, call_ctl e m s, rs)"
proof -
  have "gps_control_event_hdlr e (RxData (wire_ctl m) # rs) s = map_option (\<lambda>(r, s). (r, s, rs))
    (do { (cmd, c) \<leftarrow> get_int (rd MNLD_INTERNAL_BUFF_SIZE [] (wire_ctl m)); gps_control_switch e cmd c s })"
    using wire_ctl_bounds [of m]
    by (auto simp: gps_control_event_hdlr_def safe_recvfrom_def recv_buff_rd split: Option.bind_splits)
  then show ?thesis by (simp only: ctl_run) simp
qed

interpretation ctl: channel "\<lambda>m. map_option snd (send_ctl m)" "\<lambda>rs s. gps_control_event_hdlr e rs s"
    "\<lambda>m s. Some (0, call_ctl e m s)" "\<lambda>_. True" for e
  by unfold_locales (auto simp: send_ctl_eq ctl_delivered)

section \<open>What a command reports\<close>

fun reports :: "ctl_effect list \<Rightarrow> main_msg list" where
  "reports [] = []"
| "reports (Ctl_main m # es) = m # reports es"
| "reports (_ # es) = reports es"

lemma reports_append [simp]: "reports (es @ fs) = reports es @ reports fs"
  by (induction es rule: reports.induct) auto

text \<open>A stop command reports \<open>STOP_DONE\<close> exactly when the library shut down without an error,
  a reset command always reports \<open>RESET_DONE\<close>, and a start command reports nothing: the
  \<open>START_DONE\<close> comes from the library through the dispatcher.\<close>

definition answer :: "ctl_env \<Rightarrow> ctl_msg \<Rightarrow> main_msg list" where
  "answer e m = (case m of CM_stop \<Rightarrow> if sys_uninit_ret e = 0 then [MM_stop_done] else []
     | CM_reset _ \<Rightarrow> [MM_reset_done] | _ \<Rightarrow> [])"

lemma call_ctl_reports: "reports (ctl_out (call_ctl e m s)) = reports (ctl_out s) @ answer e m"
  by (cases m) (auto simp: mnld_gps_start_def mnld_gps_stop_def mnld_gps_stop_impl_def
      mnld_gps_delete_aiding_data_def mnl_set_pwrctl_def mnl_set_state_def ctl_emit_def answer_def Let_def)

text \<open>The dispatcher never leaves \<open>ST_IDLE\<close>: no function assigns another mode.\<close>

definition idle_mode :: "gps_ctl \<Rightarrow> bool" where
  "idle_mode s \<longleftrightarrow> state_mode s = ST_IDLE"

lemma idle_mode_kept:
  assumes "idle_mode s"
  shows "idle_mode (alarm_handler stopped gps_user s)"
    "idle_mode (gps_controller_agps_session_done stopped s)"
    "idle_mode (gps_controller_rcv_pmtk stopped pmtk s)"
    "idle_mode (call_ctl e m s)"
    "mtk_gps_sys_agps_disaptcher_callback e type len data s = Some (r, s') \<Longrightarrow> idle_mode s'"
proof -
  show "idle_mode (call_ctl e m s)"
    using assms by (cases m) (auto simp: mnld_gps_start_def mnld_gps_stop_def mnld_gps_stop_impl_def
      mnld_gps_delete_aiding_data_def mnl_set_pwrctl_def mnl_set_state_def ctl_emit_def idle_mode_def Let_def)
  show "mtk_gps_sys_agps_disaptcher_callback e type len data s = Some (r, s') \<Longrightarrow> idle_mode s'"
    using assms by (auto simp: mtk_gps_sys_agps_disaptcher_callback_def idle_mode_def ctl_emit_def Let_def
      split: if_splits option.splits list.splits Option.bind_splits prod.splits)
qed (use assms in \<open>auto simp: alarm_handler_def gps_controller_agps_session_done_def
       gps_controller_rcv_pmtk_def ctl_emit_def idle_mode_def\<close>)

end
