(* ===== verification/Mnld_System.thy ===== *)
theory Mnld_System
  imports Gps_Control "HOL-Library.Sublist"
begin

text \<open>
  The daemon as a whole: the main thread with its state machine, the engine thread, and the two
  sockets between them, under requests of every client and reports of the GPS library in any
  order. The step relation composes the handlers of the components; its invariant shows that
  the crash the state machine has for an unexpected \<open>STOP_DONE\<close> is never reached.
\<close>

section \<open>Steps of the main thread\<close>

datatype request =
    Req_hal hal2mnl_msg
  | Req_agps agps2mnl_msg
  | Req_settings agps_settings
  | Req_flp_reboot | Req_flp_start bool | Req_flp_stop bool
  | Req_flp_lpbk "c_char list" | Req_flp_data MTK_FLP_OFFLOAD_MSG
  | Req_flp_test_start | Req_flp_test_stop | Req_lpbk_start | Req_lpbk_stop
  | Req_factory_start | Req_factory_stop | Req_at_start | Req_at_stop

text \<open>The argument of \<open>Req_flp_start\<close> is the offload mode, which \<open>flp2mnl_hdlr\<close> sets first.\<close>

fun run_request :: "env \<Rightarrow> request \<Rightarrow> mnld_context \<Rightarrow> mnld_context option" where
  "run_request env (Req_hal m) s = map_option snd (call_hal2mnl (g_hal2mnl_interface env) m s)"
| "run_request env (Req_agps m) s = call_agps2mnl (g_agps2mnl_interface env) m s"
| "run_request env (Req_settings x) s = agps_settings_sync env x s"
| "run_request env Req_flp_reboot s = flp2mnl_flp_reboot env s"
| "run_request env (Req_flp_start b) s = flp2mnl_gps_start env (s\<lparr>offload_enabled := b\<rparr>)"
| "run_request env (Req_flp_stop b) s = flp2mnl_gps_stop env (s\<lparr>offload_enabled := b\<rparr>)"
| "run_request env (Req_flp_lpbk d) s = flp2mnl_flp_lpbk d (length d) s"
| "run_request env (Req_flp_data m) s = flp2mnl_flp_data m s"
| "run_request env Req_flp_test_start s = flp_test2mnl_gps_start env s"
| "run_request env Req_flp_test_stop s = flp_test2mnl_gps_stop env s"
| "run_request env Req_lpbk_start s = flp_test2mnl_flp_lpbk_start s"
| "run_request env Req_lpbk_stop s = flp_test2mnl_flp_lpbk_stop s"
| "run_request env Req_factory_start s = factory_mnld_gps_start env s"
| "run_request env Req_factory_stop s = factory_mnld_gps_stop env s"
| "run_request env Req_at_start s = at_test2mnl_gps_start env s"
| "run_request env Req_at_stop s = at_test2mnl_gps_stop env s"

fun asks :: "request \<Rightarrow> c_int" where
  "asks (Req_hal m) = hal_asks m"
| "asks (Req_agps m) = agps_asks m"
| "asks _ = 0"

text \<open>What a step of the main thread may change: the invariant stays, the ledgers move as
  said, and effects are only appended.\<close>

definition keeps :: "c_int \<Rightarrow> mnld_context \<Rightarrow> mnld_context \<Rightarrow> bool" where
  "keeps f s s' \<longleftrightarrow> mnld_inv s' \<and> stops_answered s' = stops_answered s \<and> aiding s' = aiding s OR f \<and>
     prefix (out s) (out s')"

lemma fsm_appends:
  assumes "mnld_fsm env ev d s = Some s'"
  shows "prefix (out s) (out s')"
  using assms
  by (cases "gps_state s"; cases ev) (auto simp: mnld_fsm_def fsm_eqs start_engine_def Let_def prefix_def
      split: if_splits)

lemma quiet_prefix: "quiet s s' \<Longrightarrow> prefix (out s) (out s')"
  by (auto simp: quiet_def)

lemma quiet_keeps: "mnld_inv s \<Longrightarrow> quiet s s' \<Longrightarrow> keeps 0 s s'"
  by (simp add: keeps_def quiet_inv quiet_ledgers quiet_prefix)

lemma upd_clients_out [simp]: "out (upd_clients f s) = out s"
  by (simp add: upd_clients_def)

lemma fsm_keeps:
  assumes "\<exists>s'. mnld_fsm env ev d (upd_clients f s) = Some s' \<and> mnld_inv s'" "ev \<noteq> EVENT_STOP_DONE"
  shows "\<exists>s'. mnld_fsm env ev d (upd_clients f s) = Some s' \<and> keeps 0 s s'"
proof -
  obtain s' where s': "mnld_fsm env ev d (upd_clients f s) = Some s'" "mnld_inv s'" using assms(1) by blast
  show ?thesis
    using s' assms(2) fsm_ledgers [OF s'(1)] fsm_appends [OF s'(1)] by (auto simp: keeps_def)
qed

lemma client_starts_keeps:
  assumes "mnld_inv s" "f \<in> {hal_update, agps_update, flp_update, flp_test_update, at_cmd_test_update, factory_update}"
  shows "\<exists>s'. mnld_fsm env EVENT_START 0 (upd_clients (f (gps_used_update (\<lambda>_. True) \<circ>
      need_open_ack_update (\<lambda>_. a) \<circ> need_close_ack_update (\<lambda>_. False))) s) = Some s' \<and> keeps 0 s s'"
  by (rule fsm_keeps) (use fsm_start client_starts [OF assms] in blast, simp)

lemma client_stops_keeps:
  assumes "mnld_inv s" "f \<in> {hal_update, agps_update, flp_update, flp_test_update, at_cmd_test_update, factory_update}"
  shows "\<exists>s'. mnld_fsm env EVENT_STOP 0 (upd_clients (f (gps_used_update (\<lambda>_. False) \<circ>
      need_open_ack_update (\<lambda>_. False) \<circ> need_close_ack_update (\<lambda>_. a))) s) = Some s' \<and> keeps 0 s s'"
  by (rule fsm_keeps) (use client_stops [OF assms] in blast, simp)

lemma hal_request_keeps:
  assumes "mnld_inv s" "call_hal2mnl (g_hal2mnl_interface env) m s = Some (r, s')"
  shows "keeps (hal_asks m) s s'"
proof -
  have "prefix (out s) (out s')"
  proof (cases "hal_engine m")
    case False
    then show ?thesis using hal_message_quiet [OF False assms(2)] quiet_prefix by blast
  next
    case True
    have start: "prefix (out s) (out s')" if "hal_gps_start env s = Some s'"
    proof -
      let ?s = "upd_clients (hal_update (gps_used_update (\<lambda>_. True) \<circ> need_open_ack_update (\<lambda>_. True) \<circ>
        need_close_ack_update (\<lambda>_. False))) s"
      obtain s1 where "hal_start_gps_trigger_epo_download env ?s = Some s1" "quiet ?s s1"
        using epo_trigger_quiet by blast
      then show ?thesis
        using that quiet_prefix [of ?s s1] fsm_appends [of env EVENT_START 0 s1 s']
        by (auto simp: hal_gps_start_def intro: prefix_order.trans)
    qed
    have delete: "prefix (out s) (out s')" if "hal_gps_delete_aiding_data env flags s = Some s'" for flags
      using that by (auto simp: hal_gps_delete_aiding_data_def dest!: fsm_appends append_prefixD)
    show ?thesis
      using True assms(2) start delete
      by (cases m) (auto simp: g_hal2mnl_interface_def ret0_def hal_reboot_def hal_gps_stop_def dest!: fsm_appends)
  qed
  then show ?thesis
    using hal_message_inv [OF assms] hal_message_ledgers [OF assms(2)] by (simp add: keeps_def)
qed

lemma agps_request_keeps:
  assumes "mnld_inv s" "call_agps2mnl (g_agps2mnl_interface env) m s = Some s'"
  shows "keeps (agps_asks m) s s'"
proof -
  have "prefix (out s) (out s')"
  proof (cases "agps_engine m")
    case False
    then show ?thesis using agps_message_quiet [OF False assms(2)] quiet_prefix by blast
  next
    case True
    then show ?thesis
      using assms(2)
      by (cases m) (auto simp: g_agps2mnl_interface_def agps_reboot_def agps_open_gps_req_def
          agps_close_gps_req_def agps_reset_gps_req_def split: if_splits dest!: fsm_appends)
  qed
  then show ?thesis
    using agps_message_inv [OF assms] agps_message_ledgers [OF assms(2)] by (simp add: keeps_def)
qed

text \<open>Every request of every client.\<close>

lemma request_keeps:
  assumes inv: "mnld_inv s" and run: "run_request env req s = Some s'"
  shows "keeps (asks req) s s'"
proof -
  have offload: "mnld_inv (s\<lparr>offload_enabled := b\<rparr>)" "quiet s (s\<lparr>offload_enabled := b\<rparr>)" for b
    using quiet_inv [OF inv] by simp_all
  have trans: "keeps 0 s t" if "keeps 0 (s\<lparr>offload_enabled := b\<rparr>) t" for b t
    using that quiet_ledgers [OF offload(2) [of b]] by (simp add: keeps_def)
  have reboot: "\<exists>s'. flp2mnl_flp_reboot env s = Some s' \<and> keeps 0 s s'"
    unfolding flp2mnl_flp_reboot_def
    by (rule fsm_keeps) (use client_reboots [OF inv, of flp_update] in auto)
  have flp: "\<exists>s'. flp2mnl_gps_start env (s\<lparr>offload_enabled := b\<rparr>) = Some s' \<and> keeps 0 (s\<lparr>offload_enabled := b\<rparr>) s'"
    "\<exists>s'. flp2mnl_gps_stop env (s\<lparr>offload_enabled := b\<rparr>) = Some s' \<and> keeps 0 (s\<lparr>offload_enabled := b\<rparr>) s'" for b
    unfolding flp2mnl_gps_start_def flp2mnl_gps_stop_def
    by (rule client_starts_keeps client_stops_keeps, rule offload, simp)+
  have tests: "\<exists>s'. flp_test2mnl_gps_start env s = Some s' \<and> keeps 0 s s'"
    "\<exists>s'. flp_test2mnl_gps_stop env s = Some s' \<and> keeps 0 s s'"
    "\<exists>s'. factory_mnld_gps_start env s = Some s' \<and> keeps 0 s s'"
    "\<exists>s'. factory_mnld_gps_stop env s = Some s' \<and> keeps 0 s s'"
    "\<exists>s'. at_test2mnl_gps_start env s = Some s' \<and> keeps 0 s s'"
    "\<exists>s'. at_test2mnl_gps_stop env s = Some s' \<and> keeps 0 s s'"
    unfolding flp_test2mnl_gps_start_def flp_test2mnl_gps_stop_def factory_mnld_gps_start_def
      factory_mnld_gps_stop_def at_test2mnl_gps_start_def at_test2mnl_gps_stop_def
    by (rule client_starts_keeps client_stops_keeps, rule inv, simp)+
  have quiets: "quiet s s'" if "req \<in> {Req_settings x, Req_flp_lpbk d, Req_flp_data m, Req_lpbk_start, Req_lpbk_stop}"
    for x d m
    using that run agps_settings_sync_quiet
    by (auto simp: flp2mnl_flp_lpbk_def flp2mnl_flp_data_def flp_test2mnl_flp_lpbk_start_def
        flp_test2mnl_flp_lpbk_stop_def emit_def quiet_def split: Option.bind_splits if_splits)
  show ?thesis
  proof (cases req)
    case (Req_hal m)
    then obtain r where "call_hal2mnl (g_hal2mnl_interface env) m s = Some (r, s')" using run by auto
    then show ?thesis using hal_request_keeps [OF inv] Req_hal by auto
  next
    case (Req_agps m)
    then show ?thesis using run agps_request_keeps [OF inv] by auto
  next
    case (Req_flp_start b)
    then show ?thesis using run flp(1) [of b] trans [of b s'] by auto
  next
    case (Req_flp_stop b)
    then show ?thesis using run flp(2) [of b] trans [of b s'] by auto
  qed (use run reboot tests quiet_keeps [OF inv quiets] in simp_all)
qed

section \<open>Reports to the main thread\<close>

text \<open>A location is sound when its accuracy, if it has one, fits an \<open>int\<close>.\<close>

fun sound_report :: "main_msg \<Rightarrow> bool" where
  "sound_report (MM_update_location l) \<longleftrightarrow>
     (loc_flags l AND GPS_LOCATION_HAS_ACCURACY \<noteq> 0 \<longrightarrow> float_to_int (loc_accuracy l) \<noteq> None)"
| "sound_report _ \<longleftrightarrow> True"

lemma nmea_timeout_keeps:
  assumes "mnld_inv s"
  shows "\<exists>s'. on_nmea_timeout env s = Some s' \<and> keeps 0 s s'"
proof (cases "gps_state s = STARTED")
  case True
  have "\<exists>t. mnld_fsm env EVENT_STOP 0 (mtk_gps_clear_gps_user s) = Some t \<and> keeps 0 s t"
    unfolding mtk_gps_clear_gps_user_def
  proof (rule fsm_keeps [OF fsm_stop])
    let ?s = "upd_clients (hal_update (gps_used_update (\<lambda>_. False)) \<circ> agps_update (gps_used_update (\<lambda>_. False)) \<circ>
      flp_update (gps_used_update (\<lambda>_. False)) \<circ> flp_test_update (gps_used_update (\<lambda>_. False)) \<circ>
      at_cmd_test_update (gps_used_update (\<lambda>_. False)) \<circ> factory_update (gps_used_update (\<lambda>_. False))) s"
    show "fsm_basic ?s"
      using assms True by (simp add: mnld_inv_def fsm_basic_def all_clients_def) (simp add: upd_clients_def)
    show "all_clients (\<lambda>c. \<not> need_open_ack c) ?s \<and> delete_aiding_flag ?s = 0"
      using assms True by (simp add: mnld_inv_def all_clients_def upd_clients_def)
  qed (use True in simp_all)
  then obtain t where t: "mnld_fsm env EVENT_STOP 0 (mtk_gps_clear_gps_user s) = Some t" "keeps 0 s t" by blast
  let ?u = "t\<lparr>out := out t @ [To_hal M2H_mnld_reboot, To_agps M2A_mnl_reboot, To_flp mnl2flp_mnld_reboot, Mnl_set_status]\<rparr>"
  have "on_nmea_timeout env s = Some ?u"
    using True t(1) by (simp add: on_nmea_timeout_def mnld_is_gps_started_done_def emit_def)
  moreover have "quiet t ?u" by (simp add: quiet_def)
  ultimately show ?thesis
    using t(2) quiet_inv [of t ?u] quiet_ledgers [of t ?u] quiet_prefix [of t ?u]
    by (auto simp: keeps_def intro: prefix_order.trans)
next
  case False
  then show ?thesis using assms quiet_keeps [OF assms quiet_refl]
    by (simp add: on_nmea_timeout_def mnld_is_gps_started_done_def)
qed

lemma reset_done_keeps:
  assumes "mnld_inv s"
  shows "\<exists>s'. on_reset_done s = Some s' \<and> keeps 0 s s'"
proof -
  let ?s = "s\<lparr>timers := (timers s)(Timer_reset := (0, 0)), clients := reset_acked (clients s),
      out := out s @ reset_acks s\<rparr>"
  have "on_reset_done s = Some ?s"
    by (simp add: on_reset_done_def clear_timer_def do_gps_reset_hdlr_eq reset_acks_def)
  moreover have "keeps 0 s ?s"
    using assms
    by (simp add: keeps_def mnld_inv_def fsm_basic_def all_clients_def is_a_gps_client_exist_def
        stops_answered_def aiding_def wakelock_simps)
  ultimately show ?thesis by blast
qed

lemma location_keeps:
  assumes "mnld_inv s" "sound_report (MM_update_location l)"
  shows "\<exists>s'. on_update_location env l s = Some s' \<and> keeps 0 s s'"
proof -
  obtain n where n: "(if loc_flags l AND GPS_LOCATION_HAS_ACCURACY \<noteq> 0
      then float_to_int (loc_accuracy l) else Some 2000) = Some n"
    using assms(2) by (cases "loc_flags l AND GPS_LOCATION_HAS_ACCURACY = 0") auto
  have "\<exists>s'. on_update_location env l s = Some s' \<and> quiet s s'"
    by (auto simp: on_update_location_def n emit_def quiet_def)
  then show ?thesis using quiet_keeps [OF assms(1)] by blast
qed

text \<open>Every report but an unexpected \<open>STOP_DONE\<close> is handled without a crash.\<close>

lemma report_keeps:
  assumes "mnld_inv s" "sound_report m" "m \<noteq> MM_stop_done"
  shows "\<exists>s'. call_main env m s = Some s' \<and> keeps 0 s s'"
proof (cases m)
  case (MM_start_done b)
  obtain s' where "mnld_fsm env EVENT_START_DONE (c_bool b) s = Some s'" "mnld_inv s'"
    using fsm_start_done [OF assms(1)] by blast
  then show ?thesis
    using MM_start_done fsm_ledgers [of env EVENT_START_DONE] fsm_appends by (fastforce simp: keeps_def)
next
  case (MM_epo_done r)
  have "\<exists>s'. on_epo_done s = Some s' \<and> quiet s s'"
    by (auto simp: on_epo_done_def emit_def quiet_def Let_def)
  then show ?thesis using MM_epo_done quiet_keeps [OF assms(1)] by auto
next
  case (MM_qepo_done r)
  have "\<exists>s'. on_qepo_done r s = Some s' \<and> quiet s s'"
    by (auto simp: on_qepo_done_def emit_def quiet_def)
  then show ?thesis using MM_qepo_done quiet_keeps [OF assms(1)] by auto
qed (use assms nmea_timeout_keeps reset_done_keeps location_keeps in auto)

lemma stop_done_step:
  assumes "mnld_inv s" "gps_state s = STOPPING"
  shows "\<exists>s'. call_main env MM_stop_done s = Some s' \<and> mnld_inv s' \<and> aiding s' = aiding s \<and>
    stops_answered s' = stops_answered s + 1 \<and> prefix (out s) (out s')"
proof -
  obtain s' where "mnld_fsm env EVENT_STOP_DONE 0 s = Some s'" "mnld_inv s'"
    using fsm_stop_done assms by blast
  then show ?thesis
    using assms(2) fsm_ledgers [of env EVENT_STOP_DONE 0 s s'] fsm_appends by auto
qed

section \<open>The system\<close>

record system =
  ctx :: mnld_context
  ctl :: gps_ctl
  ctl_queue :: "ctl_msg list"    \<comment> \<open>datagrams on their way to \<open>MNLD_GPS_CONTROL_SOCKET\<close>\<close>
  main_queue :: "main_msg list"  \<comment> \<open>datagrams on their way to \<open>MNLD_MAIN_SOCKET\<close>\<close>
  asked :: c_int                 \<comment> \<open>all aiding data that was ever asked to be deleted\<close>

fun commands :: "effect list \<Rightarrow> ctl_msg list" where
  "commands [] = []"
| "commands (Gps_start f # es) = CM_start f # commands es"
| "commands (Gps_stop # es) = CM_stop # commands es"
| "commands (Gps_reset f # es) = CM_reset f # commands es"
| "commands (_ # es) = commands es"

text \<open>The commands, and the reports, that a step adds.\<close>

definition new_commands :: "mnld_context \<Rightarrow> mnld_context \<Rightarrow> ctl_msg list" where
  "new_commands s s' = commands (drop (length (out s)) (out s'))"

definition new_reports :: "gps_ctl \<Rightarrow> gps_ctl \<Rightarrow> main_msg list" where
  "new_reports c c' = reports (drop (length (ctl_out c)) (ctl_out c'))"

text \<open>Reports that come neither from the engine thread nor from the dispatcher: the NMEA
  monitor, positions, and the download threads.\<close>

fun outside_report :: "main_msg \<Rightarrow> bool" where
  "outside_report MM_nmea_timeout = True"
| "outside_report (MM_update_location l) = sound_report (MM_update_location l)"
| "outside_report (MM_epo_done _) = True"
| "outside_report (MM_qepo_done _) = True"
| "outside_report _ = False"

inductive step :: "system \<Rightarrow> system \<Rightarrow> bool" where
  request: "run_request env req (ctx y) = Some s' \<Longrightarrow>
    step y (y\<lparr>ctx := s', ctl_queue := ctl_queue y @ new_commands (ctx y) s', asked := asked y OR asks req\<rparr>)"
| report: "main_queue y = m # ms \<Longrightarrow> call_main env m (ctx y) = Some s' \<Longrightarrow>
    step y (y\<lparr>ctx := s', main_queue := ms, ctl_queue := ctl_queue y @ new_commands (ctx y) s'\<rparr>)"
| command: "ctl_queue y = m # ms \<Longrightarrow> call_ctl e m (ctl y) = c' \<Longrightarrow>
    step y (y\<lparr>ctl := c', ctl_queue := ms, main_queue := main_queue y @ new_reports (ctl y) c'\<rparr>)"
| dispatcher: "mtk_gps_sys_agps_disaptcher_callback e type len data (ctl y) = Some (r, c') \<Longrightarrow>
    step y (y\<lparr>ctl := c', main_queue := main_queue y @ new_reports (ctl y) c'\<rparr>)"
| outside: "outside_report m \<Longrightarrow> step y (y\<lparr>main_queue := main_queue y @ [m]\<rparr>)"
| nmea: "step y (y\<lparr>ctl_queue := ctl_queue y @ [CM_nmea]\<rparr>)"

definition ctx_init :: mnld_context where
  "ctx_init = (let c = \<lparr>gps_used = False, need_open_ack = False, need_close_ack = False, need_reset_ack = False\<rparr>
     in \<lparr>clients = \<lparr>hal = c, agps = c, flp = c, flp_test = c, at_cmd_test = c, factory = c\<rparr>,
        gps_state = IDLE, is_gps_init = False, is_gps_meas_enabled = False, is_gps_navi_enabled = False,
        delete_aiding_flag = 0, gps_start_time = 0, gps_stop_time = 0, gps_ttff = 0,
        wait_first_location = False, is_network_connected = False, is_wifi_connected = False,
        is_epo_downloading = False, sv_type_agps_set = 0, sib8_16 = 0,
        settings_from_agps = \<lparr>sib8_16_enable = 0, gps_satellite_enable = 0, glonass_satellite_enable = 0,
          beidou_satellite_enable = 0, galileo_satellite_enable = 0, a_glonass_satellite_enable = 0\<rparr>,
        settings_to_agps = (1, 0, 0, 0), offload_enabled = False, lpbk_tst_start = 0,
        start_time_out = 15000, nmea_data_time_out = 10000, timers = (\<lambda>_. (0, 0)), out = []\<rparr>)"

definition ctl_init :: gps_ctl where
  "ctl_init = \<lparr>assist_data_bit_map = 0, pwrctl = 0, drv_state = 0, AGENT_SET_ALARM = False,
     state_mode = ST_IDLE, last_state_mode = ST_UNKNOWN, SUPL_enabled = True, ctl_out = []\<rparr>"

definition system_init :: system where
  "system_init = \<lparr>ctx = ctx_init, ctl = ctl_init, ctl_queue = [], main_queue = [], asked = 0\<rparr>"

inductive reachable :: "system \<Rightarrow> bool" where
  init: "reachable system_init"
| step: "reachable y \<Longrightarrow> step y y' \<Longrightarrow> reachable y'"

inductive_cases step_E: "step y y'"

section \<open>The invariant of the system\<close>

definition open_stops :: "system \<Rightarrow> nat" where
  "open_stops y = count_list (ctl_queue y) CM_stop + count_list (main_queue y) MM_stop_done"

definition system_inv :: "system \<Rightarrow> bool" where
  "system_inv y \<longleftrightarrow> mnld_inv (ctx y) \<and> idle_mode (ctl y) \<and>
     open_stops y \<le> (if gps_state (ctx y) = STOPPING then 1 else 0) \<and>
     (\<forall>m\<in>set (main_queue y). sound_report m) \<and> aiding (ctx y) = asked y"

lemma commands_stops: "count_list (commands es) CM_stop = stop_cmds es"
  by (induction es rule: commands.induct) auto

lemma new_commands_stops:
  "prefix (out s) (out s') \<Longrightarrow> stop_cmds (out s') = stop_cmds (out s) + count_list (new_commands s s') CM_stop"
  by (auto simp: prefix_def new_commands_def commands_stops)

text \<open>How many stop commands a step of the main thread adds.\<close>

lemma keeps_stops:
  assumes "keeps f s s'"
  shows "int (count_list (new_commands s s') CM_stop) + (if gps_state s = STOPPING then 1 else 0) =
    (if gps_state s' = STOPPING then 1 else 0)"
  using assms new_commands_stops [of s s'] by (simp add: keeps_def stops_answered_def)

lemma call_ctl_appends: "\<exists>es. ctl_out (call_ctl e m c) = ctl_out c @ es \<and> reports es = answer e m"
  by (cases m) (auto simp: mnld_gps_start_def mnld_gps_stop_def mnld_gps_stop_impl_def
      mnld_gps_delete_aiding_data_def mnl_set_pwrctl_def mnl_set_state_def ctl_emit_def answer_def Let_def)

lemma new_reports_ctl: "new_reports c (call_ctl e m c) = answer e m"
  using call_ctl_appends [of e m c] by (auto simp: new_reports_def)

lemma dispatcher_reports:
  assumes "mtk_gps_sys_agps_disaptcher_callback e type len data c = Some (r, c')"
  shows "new_reports c c' = [] \<or> (\<exists>b. new_reports c c' = [MM_start_done b])"
  using assms
  by (auto simp: mtk_gps_sys_agps_disaptcher_callback_def new_reports_def ctl_emit_def Let_def
      split: if_splits option.splits list.splits Option.bind_splits prod.splits)

lemma system_inv_init: "system_inv system_init"
  by (simp add: system_inv_def system_init_def mnld_inv_def fsm_basic_def all_clients_def ctx_init_def
      ctl_init_def idle_mode_def open_stops_def aiding_def is_a_gps_client_exist_def Let_def)

lemma outside_sound: "outside_report m \<Longrightarrow> sound_report m \<and> m \<noteq> MM_stop_done"
  by (cases m) auto

lemma answer_facts: "\<forall>r\<in>set (answer e m). sound_report r"
  "count_list (answer e m) MM_stop_done \<le> (if m = CM_stop then 1 else 0)"
  by (auto simp: answer_def split: ctl_msg.split)

lemma system_inv_step:
  assumes "step y y'" "system_inv y"
  shows "system_inv y'"
  using assms
proof cases
  case (request env req s')
  have k: "keeps (asks req) (ctx y) s'"
    using request request_keeps assms(2) by (auto simp: system_inv_def)
  show ?thesis
    using request k keeps_stops [OF k] assms(2)
    by (auto simp: system_inv_def open_stops_def keeps_def split: if_splits)
next
  case (report m ms env s')
  have inv: "mnld_inv (ctx y)" and sound: "sound_report m"
    using report assms(2) by (auto simp: system_inv_def)
  show ?thesis
  proof (cases "m = MM_stop_done")
    case True
    have st: "gps_state (ctx y) = STOPPING"
      using True report assms(2) by (auto simp: system_inv_def open_stops_def split: if_splits)
    have s': "mnld_inv s'" "aiding s' = aiding (ctx y)" "stops_answered s' = stops_answered (ctx y) + 1"
      "prefix (out (ctx y)) (out s')"
      using stop_done_step [OF inv st, of env] report True by auto
    have "int (count_list (new_commands (ctx y) s') CM_stop) = (if gps_state s' = STOPPING then 1 else 0)"
      using s'(3) new_commands_stops [OF s'(4)] st by (simp add: stops_answered_def)
    then show ?thesis
      using True report s' st assms(2) by (auto simp: system_inv_def open_stops_def split: if_splits)
  next
    case False
    have k: "keeps 0 (ctx y) s'"
      using report_keeps [OF inv sound False, of env] report by auto
    show ?thesis
      using False report k keeps_stops [OF k] assms(2)
      by (auto simp: system_inv_def open_stops_def keeps_def split: if_splits)
  qed
next
  case (command m ms e c')
  have "idle_mode c'" using command idle_mode_kept(4) assms(2) by (auto simp: system_inv_def)
  moreover have "new_reports (ctl y) c' = answer e m" using command new_reports_ctl by auto
  ultimately show ?thesis
    using command answer_facts [of e m] assms(2)
    by (auto simp: system_inv_def open_stops_def split: if_splits)
next
  case (dispatcher e type len data r c')
  have "idle_mode c'" using dispatcher idle_mode_kept(5) assms(2) by (auto simp: system_inv_def)
  then show ?thesis
    using dispatcher dispatcher_reports [OF dispatcher(2)] assms(2)
    by (auto simp: system_inv_def open_stops_def)
next
  case (outside m)
  then show ?thesis
    using outside_sound [of m] assms(2) by (auto simp: system_inv_def open_stops_def)
next
  case nmea
  then show ?thesis using assms(2) by (auto simp: system_inv_def open_stops_def)
qed

lemma reachable_inv: "reachable y \<Longrightarrow> system_inv y"
  by (induction rule: reachable.induct) (auto intro: system_inv_init system_inv_step)

end
