(* ===== verification/Mnld_Properties.thy ===== *)
theory Mnld_Properties
  imports Mnld_System
begin

text \<open>
  The properties of the daemon's main thread: what holds in every reachable state of the
  system, what a session of a client looks like from start to stop, and the two places where
  an acknowledgement comes late or early.
\<close>

section \<open>Sample runs\<close>

definition env0 :: env where
  "env0 = \<lparr>tick = 5, monotonic = Some (1, 2), cmcc_log = False, epo_file_invalid = False,
     epo_download_enabled = True, epo_wifi_trigger = False, chip_id = ''0x6755'', stack_byte = 0\<rparr>"

definition ctx_starting :: mnld_context where
  "ctx_starting = ctx_init\<lparr>
     clients := hal_update (\<lambda>_. \<lparr>gps_used = True, need_open_ack = True, need_close_ack = False,
       need_reset_ack = False\<rparr>) (clients ctx_init),
     gps_state := STARTING, gps_start_time := 5, wait_first_location := True,
     timers := (\<lambda>_. (0, 0))(Timer_start := (15, 0)),
     out := [To_hal M2H_request_wakelock, Gps_start 0]\<rparr>"

lemma hal_start_sample: "hal_gps_start env0 ctx_init = Some ctx_starting"
  by (simp add: hal_gps_start_def hal_start_gps_trigger_epo_download_def mnld_fsm_def env0_def ctx_init_def
      ctx_starting_def upd_clients_def start_engine_def set_timer_def emit_def mtk_gps_get_gps_user_def
      start_timer_def signed_divide_int_def signed_modulo_int_def Let_def)

definition y_start :: system where
  "y_start = system_init\<lparr>ctx := ctx_starting, main_queue := [MM_start_done True],
     ctl := (call_ctl \<lparr>pwrctl_err = 0, state_err = 0, start_impl_ret = 0, sys_uninit_ret = 0,
       qepo_time = (0, 0, 0), qepo_time_ret = 0\<rparr> (CM_start 0) ctl_init)\<lparr>
       ctl_out := [Ctl_mnl_start 0, Ctl_main (MM_start_done True)]\<rparr>\<rparr>"

lemma y_start_reachable: "reachable y_start"
proof -
  let ?e = "\<lparr>pwrctl_err = 0, state_err = 0, start_impl_ret = 0, sys_uninit_ret = 0,
       qepo_time = (0, 0, 0), qepo_time_ret = 0\<rparr>"
  let ?y1 = "system_init\<lparr>ctx := ctx_starting, ctl_queue := [CM_start 0]\<rparr>"
  let ?y2 = "?y1\<lparr>ctl := call_ctl ?e (CM_start 0) ctl_init, ctl_queue := []\<rparr>"
  have "run_request env0 (Req_hal H2M_gps_start) (ctx system_init) = Some ctx_starting"
    using hal_start_sample by (simp add: g_hal2mnl_interface_def ret0_def system_init_def)
  from step.request [OF this] have "step system_init ?y1"
    by (simp add: system_init_def new_commands_def ctx_init_def ctx_starting_def Let_def)
  moreover have "step ?y1 ?y2"
    using step.command [of ?y1 "CM_start 0" "[]" ?e "call_ctl ?e (CM_start 0) ctl_init"]
    by (simp add: new_reports_ctl answer_def system_init_def del: call_ctl.simps)
  moreover have "step ?y2 y_start"
  proof -
    have "mtk_gps_sys_agps_disaptcher_callback ?e MTK_AGPS_CB_START_REQ 1 (Some [1]) (ctl ?y2) =
        Some (0, ctl_emit (Ctl_main (MM_start_done True)) (ctl ?y2))"
      by (simp add: mtk_gps_sys_agps_disaptcher_callback_def mnld_gps_start_def mnl_set_pwrctl_def
          mnl_set_state_def ctl_emit_def ctl_init_def Let_def)
    from step.dispatcher [OF this] show ?thesis
      by (simp add: y_start_def new_reports_def ctl_emit_def mnld_gps_start_def mnl_set_pwrctl_def
          mnl_set_state_def ctl_init_def system_init_def Let_def)
  qed
  ultimately show ?thesis using reachable.intros by blast
qed

section \<open>Every reachable state\<close>

text \<open>C1. In every reachable state of the system (clients, engine thread, dispatcher and
  outside reports in any order) the main thread handles the report at the head of its queue
  without running into \<open>CRASH_TO_DEBUG()\<close>: a \<open>STOP_DONE\<close> only ever arrives while the engine is
  stopping, because every stop command is issued once, on entering \<open>STOPPING\<close>, and answered at
  most once.\<close>

theorem system_never_crashes:
  assumes "reachable y" "main_queue y = m # ms"
  shows "\<exists>s'. call_main env m (ctx y) = Some s'"
proof (cases "m = MM_stop_done")
  case True
  then have "gps_state (ctx y) = STOPPING"
    using assms(2) reachable_inv [OF assms(1)] by (auto simp: system_inv_def open_stops_def split: if_splits)
  then show ?thesis
    using True stop_done_step [of "ctx y" env] reachable_inv [OF assms(1)] by (auto simp: system_inv_def)
next
  case False
  then show ?thesis
    using report_keeps [of "ctx y" m env] assms(2) reachable_inv [OF assms(1)] by (auto simp: system_inv_def)
qed

theorem system_never_crashes_witness:
  "\<exists>s'. call_main env0 (MM_start_done True) (ctx y_start) = Some s'"
  by (rule system_never_crashes [OF y_start_reachable, of _ "[]"]) (simp add: y_start_def)

text \<open>C36. Starting, stopping, resetting or rebooting the GPS engine for a client never
  fails, in any reachable state.\<close>

theorem engine_requests_served:
  assumes "reachable y"
    and "req \<in> {Req_hal H2M_gps_start, Req_hal H2M_gps_stop, Req_hal H2M_hal_reboot,
      Req_hal (H2M_gps_delete_aiding_data f), Req_agps (A2M_agps_open_gps_req i), Req_agps A2M_agps_close_gps_req,
      Req_agps (A2M_agps_reset_gps_req f), Req_agps A2M_agps_reboot, Req_flp_start b, Req_flp_stop b,
      Req_flp_reboot, Req_flp_test_start, Req_flp_test_stop, Req_factory_start, Req_factory_stop,
      Req_at_start, Req_at_stop}"
  shows "\<exists>s'. run_request env req (ctx y) = Some s' \<and> mnld_inv s'"
proof -
  have inv: "mnld_inv (ctx y)" and inv': "mnld_inv ((ctx y)\<lparr>offload_enabled := b\<rparr>)"
    using reachable_inv [OF assms(1)] quiet_inv [OF _ quiet_upd(8)] by (auto simp: system_inv_def)
  show ?thesis
    using assms(2) hal_gps_start_inv [OF inv] stop_handlers [OF inv] reboot_handlers [OF inv]
      hal_gps_delete_aiding_data_inv [OF inv] start_handlers [OF inv] agps_reset_gps_req_inv [OF inv]
      start_handlers(2) [OF inv'] stop_handlers(3) [OF inv']
    by (elim insertE emptyE; fastforce simp: g_hal2mnl_interface_def g_agps2mnl_interface_def ret0_def)
qed

theorem engine_requests_served_witness:
  "\<exists>s'. run_request env0 (Req_agps (A2M_agps_open_gps_req 0)) (ctx y_start) = Some s' \<and> mnld_inv s'"
  by (rule engine_requests_served [OF y_start_reachable, of _ 0 0 False]) simp

text \<open>C32. The HAL's wakelock is requested and released strictly in turn, and held exactly while
  the engine is not idle.\<close>

theorem wakelock_while_running:
  assumes "reachable y"
  shows "wakelock False (out (ctx y)) = Some (gps_state (ctx y) \<noteq> IDLE)"
  using reachable_inv [OF assms] by (simp add: system_inv_def mnld_inv_def fsm_basic_def)

theorem wakelock_while_running_witness:
  "wakelock False (out (ctx y_start)) = Some True"
  using wakelock_while_running [OF y_start_reachable] by (simp add: y_start_def ctx_starting_def)

text \<open>In \<open>IDLE\<close> no client uses the engine and no acknowledgement is owed; in \<open>STARTED\<close> some
  client uses it and every open request has been acknowledged; no client is owed an open and a
  close acknowledgement at once.\<close>

theorem clients_fit_state:
  assumes "reachable y"
  shows "(gps_state (ctx y) = IDLE \<longrightarrow> is_all_gps_client_exit (ctx y) \<and>
      all_clients (\<lambda>c. \<not> need_open_ack c \<and> \<not> need_close_ack c) (ctx y) \<and>
      \<not> need_reset_ack (agps (clients (ctx y)))) \<and>
    (gps_state (ctx y) = STARTED \<longrightarrow> is_a_gps_client_exist (ctx y) \<and>
      all_clients (\<lambda>c. \<not> need_open_ack c) (ctx y)) \<and>
    all_clients (\<lambda>c. \<not> (need_open_ack c \<and> need_close_ack c)) (ctx y)"
  using reachable_inv [OF assms]
  by (auto simp: system_inv_def mnld_inv_def fsm_basic_def all_clients_def is_all_gps_client_exit_def)

theorem clients_fit_state_witness:
  "all_clients (\<lambda>c. \<not> (need_open_ack c \<and> need_close_ack c)) (ctx y_start)"
  using clients_fit_state [OF y_start_reachable] by simp

text \<open>The 10-second stop timer is armed exactly while the engine is stopping, and the start
  timer is armed at most while it starts: neither can fire, and crash the daemon, in a state in
  which nothing is awaited.\<close>

theorem supervision_timers:
  assumes "reachable y"
  shows "(armed Timer_stop (ctx y) \<longleftrightarrow> gps_state (ctx y) = STOPPING) \<and>
    (armed Timer_start (ctx y) \<longrightarrow> gps_state (ctx y) = STARTING)"
  using reachable_inv [OF assms] by (simp add: system_inv_def mnld_inv_def fsm_basic_def)

theorem supervision_timers_witness: "\<not> armed Timer_stop (ctx y_start)"
  using supervision_timers [OF y_start_reachable] by (simp add: y_start_def ctx_starting_def)

text \<open>C31. No request to delete aiding data is lost or invented: the flags asked for so far are
  those that went out with start and reset commands together with those still pending.\<close>

theorem aiding_requests_kept:
  assumes "reachable y"
  shows "delete_aiding_flag (ctx y) OR aiding_sent (out (ctx y)) = asked y"
  using reachable_inv [OF assms] by (simp add: system_inv_def aiding_def)

theorem aiding_requests_kept_witness: "delete_aiding_flag (ctx y_start) OR aiding_sent (out (ctx y_start)) = 0"
  using aiding_requests_kept [OF y_start_reachable] by (simp add: y_start_def system_init_def)

section \<open>A session\<close>

text \<open>C2. A HAL start from \<open>IDLE\<close> takes the wakelock and commands the engine to start; if no download of predicted orbits is under
  way, the file on disk is not valid and downloads are enabled, it starts one, and if its log is kept, it notes the start. When the engine then reports
  \<open>START_DONE\<close>, with no other request in between, the HAL hears "engine on" and then "session begin", and the AGPS daemon that GPS is open.\<close>

theorem hal_session_starts:
  assumes "mnld_inv s" "gps_state s = IDLE"
  shows "\<exists>s1 s2. hal_gps_start env s = Some s1 \<and> gps_state s1 = STARTING \<and>
    out s1 = out s @ (if \<not> is_epo_downloading s \<and> epo_file_invalid env \<and> epo_download_enabled env then [Epo_start] else []) @
      [To_hal M2H_request_wakelock] @ (if cmcc_log env then [Op01_start] else []) @ [Gps_start (delete_aiding_flag s)] \<and>
    call_main env' (MM_start_done b) s1 = Some s2 \<and> gps_state s2 = STARTED \<and>
    out s2 = out s1 @ [To_hal (M2H_gps_status GPS_STATUS_SESSION_ENGINE_ON),
      To_hal (M2H_gps_status GPS_STATUS_SESSION_BEGIN), To_agps (M2A_gps_open (c_bool b))]"
proof -
  let ?epo = "\<not> is_epo_downloading s \<and> epo_file_invalid env \<and> epo_download_enabled env"
  let ?s0 = "(upd_clients (hal_update (gps_used_update (\<lambda>_. True) \<circ> need_open_ack_update (\<lambda>_. True) \<circ>
      need_close_ack_update (\<lambda>_. False))) s)\<lparr>is_epo_downloading := is_epo_downloading s \<or> ?epo\<rparr>"
  let ?s = "?s0\<lparr>out := out s @ (if ?epo then [Epo_start] else []) @ To_hal M2H_request_wakelock #
        (if cmcc_log env then [Op01_start] else []),
      gps_start_time := tick env, wait_first_location := True\<rparr>"
  obtain tm where tm: "start_engine ?s = Some (?s\<lparr>gps_state := STARTING, delete_aiding_flag := 0,
      timers := tm, out := out ?s @ [Gps_start (delete_aiding_flag ?s)]\<rparr>)"
    using start_engine_eq [of ?s] by auto
  let ?s1 = "?s\<lparr>gps_state := STARTING, delete_aiding_flag := 0,
      timers := tm, out := out ?s @ [Gps_start (delete_aiding_flag ?s)]\<rparr>"
  have epo: "hal_start_gps_trigger_epo_download env r = Some (r\<lparr>is_epo_downloading := is_epo_downloading r \<or> ?epo,
      out := out r @ (if ?epo then [Epo_start] else [])\<rparr>)" if "is_epo_downloading r = is_epo_downloading s" for r
    using that by (auto simp: hal_start_gps_trigger_epo_download_def emit_def)
  have start: "hal_gps_start env s = Some ?s1"
    using tm assms by (cases "cmcc_log env") (simp_all add: hal_gps_start_def epo mnld_fsm_def upd_clients_def emit_def)
  have nobody: "\<not> need_open_ack (agps (clients s))" "\<not> need_open_ack (flp (clients s))"
    "\<not> need_reset_ack (agps (clients s))"
    using assms by (auto simp: mnld_inv_def fsm_basic_def all_clients_def)
  have "\<exists>s2. mnld_fsm env' EVENT_START_DONE (c_bool b) ?s1 = Some s2 \<and> gps_state s2 = STARTED \<and>
    out s2 = out ?s1 @ [To_hal (M2H_gps_status GPS_STATUS_SESSION_ENGINE_ON),
      To_hal (M2H_gps_status GPS_STATUS_SESSION_BEGIN), To_agps (M2A_gps_open (c_bool b))]"
    using nobody by (simp add: mnld_fsm_def fsm_eqs open_acks_def reset_acks_def reset_cmds_def upd_clients_def
        is_a_gps_client_exist_def)
  then show ?thesis using start by (auto simp: upd_clients_def)
qed

definition ctx_busy :: mnld_context where
  "ctx_busy = ctx_init\<lparr>is_epo_downloading := True, delete_aiding_flag := 1\<rparr>"

lemma ctx_busy_inv: "mnld_inv ctx_busy"
  by (simp add: mnld_inv_def fsm_basic_def all_clients_def ctx_init_def ctx_busy_def
      is_a_gps_client_exist_def Let_def)

theorem hal_session_starts_witness:
  "\<exists>s1 s2. hal_gps_start env0 ctx_busy = Some s1 \<and> out s1 = [To_hal M2H_request_wakelock, Gps_start 1] \<and>
    call_main env0 (MM_start_done True) s1 = Some s2 \<and>
    out s2 = out s1 @ [To_hal (M2H_gps_status 3), To_hal (M2H_gps_status 1), To_agps (M2A_gps_open 1)]"
  using hal_session_starts [OF ctx_busy_inv, of env0 env0 True]
  by (auto simp: ctx_busy_def ctx_init_def env0_def Let_def)

text \<open>C3. When the HAL stops and no other client uses the engine, the engine is commanded to stop. When it reports
  \<open>STOP_DONE\<close>, with no other request in between, the daemon is back in \<open>IDLE\<close>: the HAL hears "session end" and
  "engine off", the AGPS daemon that GPS is closed, clients whose own stop or reset is not acknowledged yet get their
  acknowledgements, and the wakelock is released last.\<close>

theorem hal_session_ends:
  assumes "mnld_inv s" "gps_state s = STARTED"
    and "\<not> gps_used (agps (clients s))" "\<not> gps_used (flp (clients s))" "\<not> gps_used (flp_test (clients s))"
      "\<not> gps_used (at_cmd_test (clients s))" "\<not> gps_used (factory (clients s))"
  shows "\<exists>s1 s2. hal_gps_stop env s = Some s1 \<and> gps_state s1 = STOPPING \<and> out s1 = out s @ [Gps_stop] \<and>
    call_main env' MM_stop_done s1 = Some s2 \<and> gps_state s2 = IDLE \<and>
    out s2 = out s1 @ [To_hal (M2H_gps_status GPS_STATUS_SESSION_END),
      To_hal (M2H_gps_status GPS_STATUS_SESSION_ENGINE_OFF), To_agps M2A_gps_close] @
      (if need_close_ack (agps (clients s)) then [To_agps M2A_close_gps_done] else []) @
      (if need_close_ack (flp (clients s)) then [To_flp mnl2flp_gps_close_done] else []) @
      (if need_reset_ack (agps (clients s)) then [To_agps M2A_reset_gps_done] else []) @
      [To_hal M2H_release_wakelock] @ (if cmcc_log env' then [Op01_stop] else [])"
proof -
  let ?s0 = "upd_clients (hal_update (gps_used_update (\<lambda>_. False) \<circ> need_open_ack_update (\<lambda>_. False) \<circ>
      need_close_ack_update (\<lambda>_. True))) s"
  let ?s1 = "?s0\<lparr>gps_state := STOPPING, timers := (timers s)(Timer_stop := (10, 0)), out := out s @ [Gps_stop]\<rparr>"
  let ?acks = "(if need_close_ack (agps (clients s)) then [To_agps M2A_close_gps_done] else []) @
      (if need_close_ack (flp (clients s)) then [To_flp mnl2flp_gps_close_done] else []) @
      (if need_reset_ack (agps (clients s)) then [To_agps M2A_reset_gps_done] else [])"
  have stop: "hal_gps_stop env s = Some ?s1"
    using assms by (simp add: hal_gps_stop_def mnld_fsm_def fsm_eqs is_a_gps_client_exist_def upd_clients_def)
  have acks: "close_acks (?s1\<lparr>timers := tm\<rparr>) @ reset_acks (?s1\<lparr>timers := tm\<rparr>) =
      [To_hal (M2H_gps_status GPS_STATUS_SESSION_END), To_hal (M2H_gps_status GPS_STATUS_SESSION_ENGINE_OFF), To_agps M2A_gps_close] @ ?acks"
    for tm
    by (simp add: close_acks_def reset_acks_def upd_clients_def)
  have "\<exists>s2. mnld_fsm env' EVENT_STOP_DONE 0 ?s1 = Some s2 \<and> gps_state s2 = IDLE \<and>
    out s2 = out ?s1 @ (close_acks (?s1\<lparr>timers := (timers ?s1)(Timer_stop := (0, 0))\<rparr>) @
      reset_acks (?s1\<lparr>timers := (timers ?s1)(Timer_stop := (0, 0))\<rparr>)) @
      [To_hal M2H_release_wakelock] @ (if cmcc_log env' then [Op01_stop] else [])"
    using assms(3-) by (simp add: mnld_fsm_def fsm_eqs is_a_gps_client_exist_def upd_clients_def)
  then show ?thesis unfolding acks using stop by (auto simp: upd_clients_def)
qed

definition ctx_started :: mnld_context where
  "ctx_started = ctx_starting\<lparr>
     clients := hal_update (need_open_ack_update (\<lambda>_. False)) (clients ctx_starting),
     gps_state := STARTED, timers := (\<lambda>_. (0, 0))\<rparr>"

lemma ctx_started_inv: "mnld_inv ctx_started"
  by (simp add: mnld_inv_def fsm_basic_def all_clients_def ctx_init_def ctx_starting_def ctx_started_def
      is_a_gps_client_exist_def Let_def)

theorem hal_session_ends_witness:
  "\<exists>s1 s2. hal_gps_stop env0 ctx_started = Some s1 \<and> call_main env0 MM_stop_done s1 = Some s2 \<and>
    gps_state s2 = IDLE \<and> last (out s2) = To_hal M2H_release_wakelock"
proof -
  obtain s1 s2 where "hal_gps_stop env0 ctx_started = Some s1" "call_main env0 MM_stop_done s1 = Some s2"
    "gps_state s2 = IDLE" "out s2 = out s1 @ [To_hal (M2H_gps_status GPS_STATUS_SESSION_END),
      To_hal (M2H_gps_status GPS_STATUS_SESSION_ENGINE_OFF), To_agps M2A_gps_close,
      To_hal M2H_release_wakelock] @ (if cmcc_log env0 then [Op01_stop] else [])"
    using hal_session_ends [OF ctx_started_inv, of env0 env0]
    by (auto simp: ctx_started_def ctx_starting_def ctx_init_def all_clients_def Let_def)
  then show ?thesis by (auto simp: env0_def)
qed

section \<open>Late and early acknowledgements\<close>

text \<open>A client that stops while the engine is still starting, and another client keeps it
  running, gets no close acknowledgement when the engine is up: the acknowledgement stays owed
  in \<open>STARTED\<close>, and the HAL hears neither "session end" nor "engine off", until some client
  sends a stop. (In \<open>STARTED\<close> itself a stop beside another user is acknowledged at once.)\<close>

theorem close_ack_withheld:
  assumes "mnld_inv s" "gps_state s = STARTING" "gps_used (agps (clients s))"
  shows "\<exists>s1 s2. hal_gps_stop env s = Some s1 \<and> call_main env' (MM_start_done b) s1 = Some s2 \<and>
    gps_state s2 = STARTED \<and> need_close_ack (hal (clients s2)) \<and>
    (\<forall>x. To_hal (M2H_gps_status x) \<in> set (out s2) \<longrightarrow> To_hal (M2H_gps_status x) \<in> set (out s))"
proof -
  let ?s1 = "upd_clients (hal_update (gps_used_update (\<lambda>_. False) \<circ> need_open_ack_update (\<lambda>_. False) \<circ>
      need_close_ack_update (\<lambda>_. True))) s"
  have stop: "hal_gps_stop env s = Some ?s1"
    using assms by (simp add: hal_gps_stop_def mnld_fsm_def)
  have "\<exists>s2. mnld_fsm env' EVENT_START_DONE (c_bool b) ?s1 = Some s2 \<and> gps_state s2 = STARTED \<and>
    need_close_ack (hal (clients s2)) \<and>
    (\<forall>x. To_hal (M2H_gps_status x) \<in> set (out s2) \<longrightarrow> To_hal (M2H_gps_status x) \<in> set (out s))"
    using assms by (auto simp: mnld_fsm_def fsm_eqs open_acks_def reset_acks_def reset_cmds_def upd_clients_def
        is_a_gps_client_exist_def)
  then show ?thesis using stop by auto
qed

definition ctx_two_users :: mnld_context where
  "ctx_two_users = ctx_starting\<lparr>clients := agps_update (\<lambda>_. \<lparr>gps_used = True, need_open_ack = True,
     need_close_ack = False, need_reset_ack = False\<rparr>) (clients ctx_starting)\<rparr>"

lemma ctx_two_users_inv: "mnld_inv ctx_two_users"
  by (simp add: mnld_inv_def fsm_basic_def all_clients_def ctx_init_def ctx_starting_def ctx_two_users_def Let_def)

theorem close_ack_withheld_witness:
  "\<exists>s1 s2. hal_gps_stop env0 ctx_two_users = Some s1 \<and> call_main env0 (MM_start_done True) s1 = Some s2 \<and>
    gps_state s2 = STARTED \<and> need_close_ack (hal (clients s2)) \<and>
    To_hal (M2H_gps_status GPS_STATUS_SESSION_END) \<notin> set (out s2)"
  using close_ack_withheld [OF ctx_two_users_inv, of env0 env0 True]
  by (fastforce simp: ctx_two_users_def ctx_starting_def)

text \<open>While the AGPS daemon waits for its reset to be carried out, a start request of any other
  client makes the daemon acknowledge the reset: the acknowledgement goes out although the
  engine has not reported \<open>RESET_DONE\<close> and the reset timer is still running.\<close>

theorem reset_ack_early:
  assumes "mnld_inv s" "gps_state s = STARTED" "need_reset_ack (agps (clients s))" "armed Timer_reset s"
  shows "\<exists>s'. flp_test2mnl_gps_start env s = Some s' \<and> out s' = out s @ [To_agps M2A_reset_gps_done] \<and>
    armed Timer_reset s' \<and> \<not> need_reset_ack (agps (clients s'))"
proof -
  have "\<not> need_open_ack (hal (clients s))" "\<not> need_open_ack (agps (clients s))"
    "\<not> need_open_ack (flp (clients s))" "delete_aiding_flag s = 0"
    using assms(1,2) by (auto simp: mnld_inv_def all_clients_def)
  then show ?thesis
    using assms(2-) by (simp add: flp_test2mnl_gps_start_def mnld_fsm_def fsm_eqs open_acks_def reset_acks_def
        reset_cmds_def upd_clients_def)
qed

definition ctx_resetting :: mnld_context where
  "ctx_resetting = ctx_started\<lparr>clients := agps_update (need_reset_ack_update (\<lambda>_. True)) (clients ctx_started),
     timers := (\<lambda>_. (0, 0))(Timer_reset := (10, 0))\<rparr>"

lemma ctx_resetting_inv: "mnld_inv ctx_resetting"
  by (simp add: mnld_inv_def fsm_basic_def all_clients_def ctx_init_def ctx_starting_def ctx_started_def
      ctx_resetting_def is_a_gps_client_exist_def Let_def)

theorem reset_ack_early_witness:
  "\<exists>s'. flp_test2mnl_gps_start env0 ctx_resetting = Some s' \<and> To_agps M2A_reset_gps_done \<in> set (out s') \<and>
    armed Timer_reset s'"
  using reset_ack_early [OF ctx_resetting_inv, of env0]
  by (auto simp: ctx_resetting_def ctx_started_def ctx_starting_def ctx_init_def Let_def)

end
