(* ===== verification/Mnld_Handlers.thy ===== *)
theory Mnld_Handlers
  imports Mnld_System
begin

text \<open>
  Properties of single handlers: the text of a network-initiated notification, the location of
  the AGPS daemon, the satellite settings, the EPO download, and what the engine thread makes
  of a command.
\<close>

section \<open>Notifications\<close>

lemma hex_string_no_nul: "0 \<notin> set (hex_string bs)"
proof -
  have "hex_char n \<noteq> 0" if "n < 16" for n
    using nibble_cases [OF that] by (auto simp: hex_char_def)
  then have "hex_char (unat b div 16) \<noteq> 0 \<and> hex_char (unat b mod 16) \<noteq> 0" for b :: c_char
    using unat_char_lt [of b] by simp
  then show ?thesis by (auto simp: hex_string_def)
qed

text \<open>The text \<open>agps_ni_notify\<close> makes of an ASCII string: the hexadecimal digits of its UCS-2
  encoding behind a byte-order mark.\<close>

definition notify_text :: "c_char list \<Rightarrow> c_char list" where
  "notify_text r = hex_string ([0xfe, 0xff] @ ucs2 r)"

lemma notify_buffers:
  assumes "0 \<notin> set r"
  shows "do { (n, u) \<leftarrow> asc_str_to_usc2_str (replicate 1024 0) (Some r);
              t \<leftarrow> raw_data_to_hex_string (replicate 1024 0) u n; array_str t } =
    (if length r \<le> 254 then Some (Some (notify_text r)) else None)"
proof (cases "2 * length r + 4 \<le> 1024")
  case True
  let ?u = "[0xfe, 0xff] @ ucs2 r @ [0, 0] @ drop (2 * length r + 4) (replicate 1024 0)"
  have a: "asc_str_to_usc2_str (replicate 1024 0) (Some r) = Some (2 * length r + 2, ?u)"
    using True by (simp add: asc_str_to_usc2_str_spec [OF assms])
  have n: "2 * length r + 2 \<le> length ?u" by simp
  have u: "take (2 * length r + 2) ?u = [0xfe, 0xff] @ ucs2 r" by simp
  have h: "raw_data_to_hex_string (replicate 1024 0) ?u (2 * length r + 2) =
      (if length r \<le> 254 then Some (notify_text r @ 0 # drop (2 * (2 * length r + 2) + 1) (replicate 1024 0)) else None)"
    unfolding raw_data_to_hex_string_spec [OF n] u notify_text_def by auto
  have "takeWhile (\<lambda>b. b \<noteq> 0) (notify_text r @ 0 # xs) = notify_text r" for xs
    using hex_string_no_nul by (subst takeWhile_append2) (auto simp: notify_text_def)
  then show ?thesis
    unfolding a Option.bind.simps prod.case h by (simp add: array_str_def)
next
  case False
  then have "asc_str_to_usc2_str (replicate 1024 0) (Some r) = None"
    by (simp add: asc_str_to_usc2_str_spec [OF assms])
  then show ?thesis using False by simp
qed

lemma agps_ni_notify_eq:
  "agps_ni_notify sid ty r c s =
    do { rt \<leftarrow> do { (n, u) \<leftarrow> asc_str_to_usc2_str (replicate 1024 0) r;
                 t \<leftarrow> raw_data_to_hex_string (replicate 1024 0) u n; Some t };
         ct \<leftarrow> do { (n, u) \<leftarrow> asc_str_to_usc2_str (replicate 1024 0) c;
                 t \<leftarrow> raw_data_to_hex_string (replicate 1024 0) u n; Some t };
         rt \<leftarrow> array_str rt; ct \<leftarrow> array_str ct;
         to_hal (M2H_request_ni_notify sid ty rt ct NI_ENCODING_TYPE_UCS2 NI_ENCODING_TYPE_UCS2) s }"
  by (simp add: agps_ni_notify_def split: Option.bind_splits prod.splits)

lemma agps_ni_notify_ascii:
  assumes "0 \<notin> set r" "0 \<notin> set c"
  shows "agps_ni_notify sid ty (Some r) (Some c) s =
    (if length r \<le> 254 \<and> length c \<le> 254
     then Some (s\<lparr>out := out s @ [To_hal (M2H_request_ni_notify sid ty (Some (notify_text r))
        (Some (notify_text c)) NI_ENCODING_TYPE_UCS2 NI_ENCODING_TYPE_UCS2)]\<rparr>)
     else None)"
proof -
  have ok: "mnl2hal_ok (M2H_request_ni_notify sid ty (Some (notify_text r)) (Some (notify_text c))
      NI_ENCODING_TYPE_UCS2 NI_ENCODING_TYPE_UCS2)" if "length r \<le> 254" "length c \<le> 254"
    using that hex_string_no_nul by (simp add: notify_text_def)
  show ?thesis
    using notify_buffers [OF assms(1)] notify_buffers [OF assms(2)] ok
    by (cases "asc_str_to_usc2_str (replicate 1024 0) (Some r)";
        cases "asc_str_to_usc2_str (replicate 1024 0) (Some c)")
      (auto simp: agps_ni_notify_eq notify_text_def unhex_hex_string split: Option.bind_splits if_splits)
qed

text \<open>A notification with an ASCII requestor and client name reaches the HAL as the
  hexadecimal UCS-2 text of both names, from which the names can be read back; the handler's
  1024-byte arrays hold exactly the names of up to 254 characters, and any longer name, which
  no one checks, overruns them.\<close>

theorem ni_notify_text:
  assumes "0 \<notin> set r" "0 \<notin> set c"
  shows "agps_ni_notify sid ty (Some r) (Some c) s =
    (if length r \<le> 254 \<and> length c \<le> 254
     then Some (s\<lparr>out := out s @ [To_hal (M2H_request_ni_notify sid ty (Some (notify_text r))
        (Some (notify_text c)) NI_ENCODING_TYPE_UCS2 NI_ENCODING_TYPE_UCS2)]\<rparr>)
     else None) \<and>
    unhex (notify_text r) = [0xfe, 0xff] @ ucs2 r"
  using agps_ni_notify_ascii [OF assms] by (simp add: notify_text_def unhex_hex_string)

theorem ni_notify_text_witness:
  "agps_ni_notify 1 2 (Some [0x41]) (Some []) ctx_init = Some (ctx_init\<lparr>out := [To_hal
     (M2H_request_ni_notify 1 2 (Some (notify_text [0x41])) (Some (notify_text [])) 3 3)]\<rparr>) \<and>
   agps_ni_notify 1 2 (Some (replicate 255 0x41)) (Some []) ctx_init = None"
  using ni_notify_text [of "[0x41]" "[]" 1 2 ctx_init] ni_notify_text [of "replicate 255 0x41" "[]" 1 2 ctx_init]
  by (simp add: ctx_init_def Let_def)

section \<open>Locations\<close>

lemma agps_location_loc_fields:
  "loc_lat (agps_location_loc a) = al_latitude a" "loc_lng (agps_location_loc a) = al_longitude a"
  "bit (loc_flags (agps_location_loc a)) 0"
  "bit (loc_flags (agps_location_loc a)) 1 \<longleftrightarrow> al_altitude_used a \<noteq> 0"
  "loc_alt (agps_location_loc a) = (if al_altitude_used a \<noteq> 0 then al_altitude a else 0)"
  "bit (loc_flags (agps_location_loc a)) 2 \<longleftrightarrow> al_speed_used a \<noteq> 0"
  "loc_speed (agps_location_loc a) = (if al_speed_used a \<noteq> 0 then al_speed a else 0)"
  "bit (loc_flags (agps_location_loc a)) 3 \<longleftrightarrow> al_bearing_used a \<noteq> 0"
  "loc_bearing (agps_location_loc a) = (if al_bearing_used a \<noteq> 0 then al_bearing a else 0)"
  "bit (loc_flags (agps_location_loc a)) 4 \<longleftrightarrow> al_accuracy_used a \<noteq> 0"
  "loc_accuracy (agps_location_loc a) = (if al_accuracy_used a \<noteq> 0 then al_accuracy a else 0)"
  "loc_timestamp (agps_location_loc a) = (if al_timestamp_used a \<noteq> 0 then al_timestamp a else 0)"
  by (simp_all add: agps_location_loc_def Let_def)

text \<open>The location the HAL receives for a location of the AGPS daemon has its latitude and
  longitude, and each optional field exactly when it is marked as used, with the flag that says
  so; unused fields are zero.\<close>

theorem agps_location_fields:
  assumes "monotonic env = Some ts"
  shows "\<exists>d n. agps_location env b s = Some (s\<lparr>out := out s @ [To_hal (M2H_location d), Inject_nlp n]\<rparr>) \<and>
    (let a = agps_agps_location_of b; l = gps_location_of d
     in loc_lat l = al_latitude a \<and> loc_lng l = al_longitude a \<and> bit (loc_flags l) 0 \<and>
        (bit (loc_flags l) 1 \<longleftrightarrow> al_altitude_used a \<noteq> 0) \<and>
        loc_alt l = (if al_altitude_used a \<noteq> 0 then al_altitude a else 0) \<and>
        (bit (loc_flags l) 2 \<longleftrightarrow> al_speed_used a \<noteq> 0) \<and>
        loc_speed l = (if al_speed_used a \<noteq> 0 then al_speed a else 0) \<and>
        (bit (loc_flags l) 3 \<longleftrightarrow> al_bearing_used a \<noteq> 0) \<and>
        loc_bearing l = (if al_bearing_used a \<noteq> 0 then al_bearing a else 0) \<and>
        (bit (loc_flags l) 4 \<longleftrightarrow> al_accuracy_used a \<noteq> 0) \<and>
        loc_accuracy l = (if al_accuracy_used a \<noteq> 0 then al_accuracy a else 0) \<and>
        loc_timestamp l = (if al_timestamp_used a \<noteq> 0 then al_timestamp a else 0) \<and>
        nlp_latitude n = al_latitude a \<and> nlp_longitude n = al_longitude a \<and> nlp_ts n = ts)"
proof -
  let ?a = "agps_agps_location_of b"
  let ?n = "\<lparr>nlp_latitude = al_latitude ?a, nlp_longitude = al_longitude ?a, nlp_accuracy = al_accuracy ?a,
      nlp_ts = ts, nlp_type = 0, nlp_started = 1\<rparr>"
  have "agps_location env b s = Some (s\<lparr>out := out s @
      [To_hal (M2H_location (gps_location_bytes (agps_location_loc ?a))), Inject_nlp ?n]\<rparr>)"
    using assms by (simp add: agps_location_def emit_def Let_def)
  then show ?thesis
    by (intro exI [of _ "gps_location_bytes (agps_location_loc ?a)"] exI [of _ ?n])
      (simp only: Let_def gps_location_of_bytes agps_location_loc_fields nlp_context.simps simp_thms)
qed

theorem agps_location_fields_witness:
  "\<exists>d n. agps_location \<lparr>tick = 0, monotonic = Some (1, 2), cmcc_log = False, epo_file_invalid = False,
      epo_download_enabled = False, epo_wifi_trigger = False, chip_id = [], stack_byte = 0\<rparr>
      (replicate 72 1) ctx_init =
    Some (ctx_init\<lparr>out := [To_hal (M2H_location d), Inject_nlp n]\<rparr>)"
  using agps_location_fields [of "\<lparr>tick = 0, monotonic = Some (1, 2), cmcc_log = False, epo_file_invalid = False,
      epo_download_enabled = False, epo_wifi_trigger = False, chip_id = [], stack_byte = 0\<rparr>" "(1, 2)"
      "replicate 72 1" ctx_init]
  by (auto simp: ctx_init_def Let_def)

section \<open>Satellite settings\<close>

lemma push_low_bit:
  "k < 8 \<Longrightarrow> bit (push_bit k ((y :: c_char) AND 1)) n \<longleftrightarrow> n = k \<and> bit y 0"
  by (auto simp: bit_simps)

lemma low_bit: "bit ((y :: c_char) AND 1) n \<longleftrightarrow> n = 0 \<and> bit y 0"
  by (auto simp: bit_simps)

text \<open>The constellation byte that \<open>agps_settings_sync\<close> stores, and sends to a running engine, is the
  lowest bit of each setting in the order GPS, GLONASS, BeiDou, Galileo, assisted GLONASS, and
  nothing else; the answer to the AGPS daemon says what the chip supports, and for a chip that is
  not in the table it repeats what an uninitialised stack byte says.\<close>

theorem settings_sync_bits:
  "\<exists>s'. agps_settings_sync env x s = Some s' \<and>
    bit (sv_type_agps_set s') 0 = bit (gps_satellite_enable x) 0 \<and>
    bit (sv_type_agps_set s') 1 = bit (glonass_satellite_enable x) 0 \<and>
    bit (sv_type_agps_set s') 2 = bit (beidou_satellite_enable x) 0 \<and>
    bit (sv_type_agps_set s') 3 = bit (galileo_satellite_enable x) 0 \<and>
    bit (sv_type_agps_set s') 4 = bit (a_glonass_satellite_enable x) 0 \<and>
    sv_type_agps_set s' < 32 \<and>
    (let v = get_chip_sv_support_capability (chip_id env) (stack_byte env)
     in out s' = out s @ (if gps_state s = STARTED
          then [Switch_constellation (sv_type_agps_set s'), Sib8_16_enable (sib8_16_enable x)] else []) @
        [To_agps (M2A_agps_settings_ack (v AND 1) (drop_bit 1 (v AND 2)) (drop_bit 2 (v AND 4)) (drop_bit 3 (v AND 8)))])"
proof -
  define v where "v = push_bit 4 (a_glonass_satellite_enable x AND 1) OR
      push_bit 3 (galileo_satellite_enable x AND 1) OR push_bit 2 (beidou_satellite_enable x AND 1) OR
      push_bit 1 (glonass_satellite_enable x AND 1) OR (gps_satellite_enable x AND 1)"
  have bits: "bit v 0 = bit (gps_satellite_enable x) 0" "bit v 1 = bit (glonass_satellite_enable x) 0"
    "bit v 2 = bit (beidou_satellite_enable x) 0" "bit v 3 = bit (galileo_satellite_enable x) 0"
    "bit v 4 = bit (a_glonass_satellite_enable x) 0"
    by (simp_all only: v_def bit_or_iff push_low_bit low_bit) simp_all
  have "v = take_bit 5 v"
    by (rule bit_word_eqI) (auto simp only: v_def bit_or_iff push_low_bit low_bit bit_take_bit_iff)
  moreover have "unat (take_bit 5 v) < 32"
    by (simp add: unsigned_take_bit_eq take_bit_nat_def)
  ultimately have "unat v < 32" by metis
  then have small: "v < 32"
    by (simp add: word_less_nat_alt)
  have assoc: "(((push_bit 4 (a_glonass_satellite_enable x AND 1) OR push_bit 3 (galileo_satellite_enable x AND 1)) OR
      push_bit 2 (beidou_satellite_enable x AND 1)) OR push_bit 1 (glonass_satellite_enable x AND 1)) OR
      (gps_satellite_enable x AND 1) = v"
    by (simp only: v_def or.assoc)
  show ?thesis
    using bits small assoc
    by (simp add: agps_settings_sync_def emit_def mnld_is_gps_started_done_def Let_def)
qed

section \<open>EPO downloads\<close>

fun epo_starts :: "effect list \<Rightarrow> nat" where
  "epo_starts [] = 0"
| "epo_starts (Epo_start # es) = Suc (epo_starts es)"
| "epo_starts (_ # es) = epo_starts es"

lemma epo_starts_append [simp]: "epo_starts (es @ fs) = epo_starts es + epo_starts fs"
  by (induction es rule: epo_starts.induct) auto

lemma acks_no_epo [simp]:
  "epo_starts (reset_acks s) = 0" "epo_starts (open_acks si s) = 0" "epo_starts (close_acks s) = 0"
  "epo_starts (reset_cmds s) = 0"
  by (auto simp: reset_acks_def open_acks_def close_acks_def reset_cmds_def)

definition epo_same :: "mnld_context \<Rightarrow> mnld_context \<Rightarrow> bool" where
  "epo_same s s' \<longleftrightarrow> epo_starts (out s') = epo_starts (out s) \<and> is_epo_downloading s' = is_epo_downloading s"

text \<open>Either nothing happens to the download, or one is started where none was running.\<close>

definition epo_step :: "env \<Rightarrow> mnld_context \<Rightarrow> mnld_context \<Rightarrow> bool" where
  "epo_step env s s' \<longleftrightarrow> epo_same s s' \<or>
     (epo_starts (out s') = Suc (epo_starts (out s)) \<and> \<not> is_epo_downloading s \<and> is_epo_downloading s' \<and>
      epo_file_invalid env \<and> epo_download_enabled env)"

lemma fsm_epo:
  assumes "mnld_fsm env ev d s = Some s'"
  shows "epo_same s s'"
  using assms
  by (cases "gps_state s"; cases ev) (auto simp: mnld_fsm_def fsm_eqs start_engine_def Let_def epo_same_def
      split: if_splits)

lemma epo_same_upd [simp]:
  "epo_same (upd_clients f s) s' = epo_same s s'"
  "epo_same (s\<lparr>delete_aiding_flag := x\<rparr>) s' = epo_same s s'"
  "epo_same (s\<lparr>offload_enabled := b\<rparr>) s' = epo_same s s'"
  by (simp_all add: epo_same_def upd_clients_def)

lemma epo_to_agps: "to_agps m s = Some s1 \<Longrightarrow> epo_same s1 s' = epo_same s s'"
  by (auto simp: to_agps_def emit_def epo_same_def split: Option.bind_splits)

lemma epo_of_to_agps: "to_agps m s = Some s' \<Longrightarrow> epo_same s s'"
  by (auto simp: to_agps_def emit_def epo_same_def split: Option.bind_splits)

lemma hal_epo:
  assumes "call_hal2mnl (g_hal2mnl_interface env) m s = Some (r, s')"
  shows "epo_step env s s'"
proof (cases m)
  case H2M_gps_start
  then obtain s1 where s1: "hal_start_gps_trigger_epo_download env (upd_clients (hal_update (gps_used_update (\<lambda>_. True) \<circ>
      need_open_ack_update (\<lambda>_. True) \<circ> need_close_ack_update (\<lambda>_. False))) s) = Some s1"
    "mnld_fsm env EVENT_START 0 s1 = Some s'"
    using assms by (auto simp: g_hal2mnl_interface_def ret0_def hal_gps_start_def split: Option.bind_splits)
  then show ?thesis
    using fsm_epo [OF s1(2)]
    by (auto simp: hal_start_gps_trigger_epo_download_def epo_step_def epo_same_def emit_def upd_clients_def
        split: if_splits)
next
  case (H2M_update_network_state a b c d)
  then show ?thesis
    using assms by (auto simp: g_hal2mnl_interface_def ret0_def hal_update_network_state_def to_agps_def emit_def
        epo_step_def epo_same_def simp del: to_agps_ok split: Option.bind_splits if_splits)
next
  case (H2M_gps_delete_aiding_data f)
  then show ?thesis
    using assms epo_to_agps
    by (auto simp: g_hal2mnl_interface_def ret0_def hal_gps_delete_aiding_data_def epo_step_def
        simp del: to_agps_ok split: Option.bind_splits dest!: fsm_epo)
next
  case H2M_hal_reboot
  then show ?thesis
    using assms by (auto simp: g_hal2mnl_interface_def ret0_def hal_reboot_def epo_step_def dest!: fsm_epo)
next
  case H2M_gps_stop
  then show ?thesis
    using assms by (auto simp: g_hal2mnl_interface_def ret0_def hal_gps_stop_def epo_step_def dest!: fsm_epo)
qed (use assms in \<open>auto simp: g_hal2mnl_interface_def ret0_def
       quiet_handlers_def to_agps_def to_hal_def emit_def epo_step_def epo_same_def
       simp del: to_agps_ok to_hal_ok split: Option.bind_splits option.splits\<close>)

lemma agps_epo:
  assumes "call_agps2mnl (g_agps2mnl_interface env) m s = Some s'"
  shows "epo_same s s'"
proof (cases "agps_engine m")
  case True
  then show ?thesis
    using assms epo_to_agps
    by (cases m) (auto simp: g_agps2mnl_interface_def agps_reboot_def agps_open_gps_req_def
        agps_close_gps_req_def agps_reset_gps_req_def simp del: to_agps_ok split: if_splits
        dest!: fsm_epo epo_of_to_agps)
next
  case False
  then show ?thesis
  proof (cases m)
    case (A2M_agps_location b)
    then show ?thesis
      using assms by (auto simp: g_agps2mnl_interface_def agps_location_def Let_def to_hal_def emit_def
          epo_same_def simp del: to_hal_ok split: Option.bind_splits option.splits)
  qed (use assms in \<open>auto simp: g_agps2mnl_interface_def quiet_handlers_def to_agps_def to_hal_def emit_def
         epo_same_def simp del: to_agps_ok to_hal_ok split: Option.bind_splits option.splits\<close>)
qed

text \<open>No request of any client starts an EPO download while one is running, and one is
  started only when the stored data is invalid and downloads are enabled; the download is then
  marked as running.\<close>

theorem epo_download_once:
  assumes "run_request env req s = Some s'"
  shows "if epo_starts (out s') = epo_starts (out s) then is_epo_downloading s' = is_epo_downloading s
    else epo_starts (out s') = Suc (epo_starts (out s)) \<and> \<not> is_epo_downloading s \<and> is_epo_downloading s' \<and>
      epo_file_invalid env \<and> epo_download_enabled env"
proof -
  have "epo_step env s s'"
  proof (cases req)
    case (Req_hal m)
    then show ?thesis using assms hal_epo by auto
  next
    case (Req_agps m)
    then show ?thesis using assms agps_epo [of env m s s'] by (simp add: epo_step_def)
  qed (use assms in \<open>auto simp: agps_settings_sync_def to_agps_def flp2mnl_flp_reboot_def
         flp2mnl_gps_start_def flp2mnl_gps_stop_def flp2mnl_flp_lpbk_def flp2mnl_flp_data_def
         flp_test2mnl_gps_start_def flp_test2mnl_gps_stop_def flp_test2mnl_flp_lpbk_start_def
         flp_test2mnl_flp_lpbk_stop_def factory_mnld_gps_start_def factory_mnld_gps_stop_def
         at_test2mnl_gps_start_def at_test2mnl_gps_stop_def emit_def Let_def epo_step_def epo_same_def
         upd_clients_def simp del: to_agps_ok split: Option.bind_splits if_splits dest!: fsm_epo [unfolded epo_same_def]\<close>)
  then show ?thesis by (auto simp: epo_step_def epo_same_def)
qed

definition env_invalid :: env where
  "env_invalid = \<lparr>tick = 5, monotonic = None, cmcc_log = False, epo_file_invalid = True,
     epo_download_enabled = True, epo_wifi_trigger = True, chip_id = ''0x6755'', stack_byte = 0\<rparr>"

lemma wifi_sample:
  "run_request env_invalid (Req_hal (H2M_update_network_state 1 1 0 None)) ctx_init =
     Some (ctx_init\<lparr>is_network_connected := True, is_wifi_connected := True, is_epo_downloading := True,
       out := [To_agps (M2A_update_network_state 1 1 0 None), Epo_start]\<rparr>)"
  by (simp add: g_hal2mnl_interface_def ret0_def hal_update_network_state_def emit_def env_invalid_def
      mnld_is_gps_started_def ctx_init_def Let_def)

theorem epo_download_once_witness: "\<not> is_epo_downloading ctx_init \<and> epo_file_invalid env_invalid"
  using epo_download_once [OF wifi_sample] by (simp add: ctx_init_def Let_def)

section \<open>The engine thread\<close>

text \<open>A reset command whose mask is not one of the six that \<open>mnld_gps_delete_aiding_data\<close> lists
  restarts the engine hot, that is, deletes nothing, and is reported as done all the same: a
  request to delete, say, the almanac alone is not carried out.\<close>

theorem unlisted_mask_deletes_nothing:
  assumes "flags \<notin> {FLAG_WARM_START, FLAG_COLD_START, FLAG_FULL_START, FLAG_AGPS_START,
      FLAG_DELETE_EPH_ALM_START, FLAG_DELETE_TIME_START}"
  shows "gps_control_event_hdlr e (RxData (wire_ctl (CM_reset flags)) # rs) s =
    Some (0, s\<lparr>ctl_out := ctl_out s @ [Ctl_restart MTK_GPS_START_HOT, Ctl_main MM_reset_done]\<rparr>, rs)"
  using assms by (simp add: ctl_delivered mnld_gps_delete_aiding_data_def restart_type_def ctl_emit_def
      del: wire_ctl.simps)

theorem unlisted_mask_deletes_nothing_witness:
  "gps_control_event_hdlr \<lparr>pwrctl_err = 0, state_err = 0, start_impl_ret = 0, sys_uninit_ret = 0,
      qepo_time = (0, 0, 0), qepo_time_ret = 0\<rparr> [RxData (wire_ctl (CM_reset 2))] ctl_init =
    Some (0, ctl_init\<lparr>ctl_out := [Ctl_restart MTK_GPS_START_HOT, Ctl_main MM_reset_done]\<rparr>, [])"
  using unlisted_mask_deletes_nothing [of 2 "\<lparr>pwrctl_err = 0, state_err = 0,
      start_impl_ret = 0, sys_uninit_ret = 0, qepo_time = (0, 0, 0), qepo_time_ret = 0\<rparr>" "[]" ctl_init] by (simp add: ctl_init_def)

text \<open>With SUPL disabled in the configuration the library's start callback is not passed on: neither
  a callback of the library nor a command to the engine thread produces the \<open>START_DONE\<close> for
  which the main thread waits in \<open>STARTING\<close>.\<close>

theorem supl_disabled_never_starts:
  assumes "\<not> SUPL_enabled c"
  shows "(mtk_gps_sys_agps_disaptcher_callback e type len data c = Some (r, c') \<longrightarrow> new_reports c c' = []) \<and>
    MM_start_done b \<notin> set (new_reports c (call_ctl e m c))"
proof
  show "mtk_gps_sys_agps_disaptcher_callback e type len data c = Some (r, c') \<longrightarrow> new_reports c c' = []"
    using assms
    by (auto simp: mtk_gps_sys_agps_disaptcher_callback_def new_reports_def ctl_emit_def Let_def
      split: if_splits option.splits list.splits prod.splits)
  show "MM_start_done b \<notin> set (new_reports c (call_ctl e m c))"
    unfolding new_reports_ctl by (auto simp: answer_def split: ctl_msg.splits)
qed

theorem supl_disabled_never_starts_witness:
  "mtk_gps_sys_agps_disaptcher_callback \<lparr>pwrctl_err = 0, state_err = 0, start_impl_ret = 0, sys_uninit_ret = 0,
      qepo_time = (0, 0, 0), qepo_time_ret = 0\<rparr> MTK_AGPS_CB_START_REQ 1 (Some [1]) (ctl_init\<lparr>SUPL_enabled := False\<rparr>) =
    Some (- 1, ctl_init\<lparr>SUPL_enabled := False\<rparr>) \<and>
   new_reports (ctl_init\<lparr>SUPL_enabled := False\<rparr>) (ctl_init\<lparr>SUPL_enabled := False\<rparr>) = []"
proof
  let ?e = "\<lparr>pwrctl_err = 0, state_err = 0, start_impl_ret = 0, sys_uninit_ret = 0,
      qepo_time = (0, 0, 0), qepo_time_ret = 0\<rparr>"
  show cb: "mtk_gps_sys_agps_disaptcher_callback ?e MTK_AGPS_CB_START_REQ 1 (Some [1])
      (ctl_init\<lparr>SUPL_enabled := False\<rparr>) = Some (- 1, ctl_init\<lparr>SUPL_enabled := False\<rparr>)"
    by (simp add: mtk_gps_sys_agps_disaptcher_callback_def ctl_init_def)
  show "new_reports (ctl_init\<lparr>SUPL_enabled := False\<rparr>) (ctl_init\<lparr>SUPL_enabled := False\<rparr>) = []"
    using supl_disabled_never_starts [of "ctl_init\<lparr>SUPL_enabled := False\<rparr>" ?e MTK_AGPS_CB_START_REQ 1 "Some [1]" "- 1"
        "ctl_init\<lparr>SUPL_enabled := False\<rparr>"] cb by simp
qed

text \<open>When the library's shut-down reports an error, the stop command powers nothing off and
  is not answered with the \<open>STOP_DONE\<close> for which the main thread waits in \<open>STOPPING\<close>.\<close>

theorem failed_stop_unanswered:
  assumes "sys_uninit_ret e \<noteq> 0"
  shows "gps_control_event_hdlr e (RxData (wire_ctl CM_stop) # rs) c =
    Some (0, c\<lparr>ctl_out := ctl_out c @ [Ctl_nmea_monitor_stop, Ctl_mnl_stop, Ctl_alarm 0]\<rparr>, rs)"
  using assms by (simp add: ctl_delivered mnld_gps_stop_def mnld_gps_stop_impl_def ctl_emit_def
      del: wire_ctl.simps)

theorem failed_stop_unanswered_witness:
  "gps_control_event_hdlr \<lparr>pwrctl_err = 0, state_err = 0, start_impl_ret = 0, sys_uninit_ret = 1,
      qepo_time = (0, 0, 0), qepo_time_ret = 0\<rparr> [RxData (wire_ctl CM_stop)] ctl_init =
    Some (0, ctl_init\<lparr>ctl_out := [Ctl_nmea_monitor_stop, Ctl_mnl_stop, Ctl_alarm 0]\<rparr>, [])"
  using failed_stop_unanswered [of "\<lparr>pwrctl_err = 0, state_err = 0, start_impl_ret = 0, sys_uninit_ret = 1,
      qepo_time = (0, 0, 0), qepo_time_ret = 0\<rparr>" "[]" ctl_init] by (simp add: ctl_init_def)

end
