(* ===== verification/Mnld_Liveness.thy ===== *)
theory Mnld_Liveness
  imports Mnld_Properties
begin

text \<open>
  The daemon is never stuck: from every reachable state there is a way, by steps of its own
  threads alone, to a state in which nothing is awaited. The steps used are those of the main
  thread taking its reports, of the engine thread taking its commands, and of the library's
  start callback.
\<close>

section \<open>Steps that are always possible\<close>

definition ctl_env0 :: ctl_env where
  "ctl_env0 = \<lparr>pwrctl_err = 0, state_err = 0, start_impl_ret = 0, sys_uninit_ret = 0,
     qepo_time = (0, 0, 0), qepo_time_ret = 0\<rparr>"

text \<open>The answer to a stop command is still to come exactly while the daemon waits for it.\<close>

definition stop_awaited :: "system \<Rightarrow> bool" where
  "stop_awaited y \<longleftrightarrow> system_inv y \<and> SUPL_enabled (ctl y) \<and>
     open_stops y = (if gps_state (ctx y) = STOPPING then 1 else 0)"

abbreviation runs :: "system \<Rightarrow> system \<Rightarrow> bool" where
  "runs \<equiv> step\<^sup>*\<^sup>*"

lemma supl_kept:
  "SUPL_enabled (call_ctl e m c) = SUPL_enabled c"
  "mtk_gps_sys_agps_disaptcher_callback e type len data c = Some (r, c') \<Longrightarrow> SUPL_enabled c' = SUPL_enabled c"
proof -
  show "SUPL_enabled (call_ctl e m c) = SUPL_enabled c"
    by (cases m) (auto simp: mnld_gps_start_def mnld_gps_stop_def mnld_gps_stop_impl_def
      mnld_gps_delete_aiding_data_def mnl_set_pwrctl_def mnl_set_state_def ctl_emit_def Let_def)
  show "mtk_gps_sys_agps_disaptcher_callback e type len data c = Some (r, c') \<Longrightarrow> SUPL_enabled c' = SUPL_enabled c"
    by (auto simp: mtk_gps_sys_agps_disaptcher_callback_def ctl_emit_def Let_def
      split: if_splits option.splits list.splits Option.bind_splits prod.splits)
qed

text \<open>The main thread takes the report at the head of its queue.\<close>

lemma take_report:
  assumes "stop_awaited y" "main_queue y = m # ms"
  shows "\<exists>s'. call_main env0 m (ctx y) = Some s' \<and>
    stop_awaited (y\<lparr>ctx := s', main_queue := ms, ctl_queue := ctl_queue y @ new_commands (ctx y) s'\<rparr>)"
proof -
  have inv: "mnld_inv (ctx y)" and sound: "sound_report m"
    using assms by (auto simp: stop_awaited_def system_inv_def)
  show ?thesis
  proof (cases "m = MM_stop_done")
    case True
    have st: "gps_state (ctx y) = STOPPING"
      using True assms by (auto simp: stop_awaited_def open_stops_def split: if_splits)
    obtain s' where s': "call_main env0 m (ctx y) = Some s'" "stops_answered s' = stops_answered (ctx y) + 1"
      "prefix (out (ctx y)) (out s')"
      using stop_done_step [OF inv st, of env0] True by auto
    have "int (count_list (new_commands (ctx y) s') CM_stop) = (if gps_state s' = STOPPING then 1 else 0)"
      using s'(2) new_commands_stops [OF s'(3)] st by (simp add: stops_answered_def)
    moreover have "system_inv (y\<lparr>ctx := s', main_queue := ms, ctl_queue := ctl_queue y @ new_commands (ctx y) s'\<rparr>)"
      using system_inv_step [OF step.report [OF assms(2) s'(1)]] assms(1) by (simp add: stop_awaited_def)
    ultimately show ?thesis
      using True st s'(1) assms by (auto simp: stop_awaited_def open_stops_def split: if_splits)
  next
    case False
    obtain s' where s': "call_main env0 m (ctx y) = Some s'" "keeps 0 (ctx y) s'"
      using report_keeps [OF inv sound False, of env0] by blast
    moreover have "system_inv (y\<lparr>ctx := s', main_queue := ms, ctl_queue := ctl_queue y @ new_commands (ctx y) s'\<rparr>)"
      using system_inv_step [OF step.report [OF assms(2) s'(1)]] assms(1) by (simp add: stop_awaited_def)
    ultimately show ?thesis
      using False assms keeps_stops [OF s'(2)] by (auto simp: stop_awaited_def open_stops_def split: if_splits)
  qed
qed

text \<open>The engine thread takes the command at the head of its queue, and the library works.\<close>

lemma take_command:
  assumes "stop_awaited y" "ctl_queue y = m # ms"
  shows "stop_awaited (y\<lparr>ctl := call_ctl ctl_env0 m (ctl y), ctl_queue := ms,
    main_queue := main_queue y @ answer ctl_env0 m\<rparr>)" (is "stop_awaited ?y")
proof -
  have "system_inv ?y"
    using system_inv_step [OF step.command [OF assms(2) refl, of ctl_env0]] assms(1)
    by (simp add: stop_awaited_def new_reports_ctl del: call_ctl.simps)
  moreover have "count_list (answer ctl_env0 m) MM_stop_done = (if m = CM_stop then 1 else 0)"
    by (auto simp: answer_def ctl_env0_def split: ctl_msg.split)
  then have "open_stops ?y = open_stops y"
    using assms(2) by (simp add: open_stops_def del: call_ctl.simps)
  ultimately show ?thesis
    using assms(1) by (simp add: stop_awaited_def supl_kept del: call_ctl.simps)
qed

lemma report_runs:
  "main_queue y = m # ms \<Longrightarrow> call_main env m (ctx y) = Some s' \<Longrightarrow>
    runs y (y\<lparr>ctx := s', main_queue := ms, ctl_queue := ctl_queue y @ new_commands (ctx y) s'\<rparr>)"
  by (blast intro: step.report r_into_rtranclp)

lemma command_runs:
  "ctl_queue y = m # ms \<Longrightarrow> runs y (y\<lparr>ctl := call_ctl e m (ctl y), ctl_queue := ms,
    main_queue := main_queue y @ answer e m\<rparr>)"
  using step.command [of y m ms e "call_ctl e m (ctl y)"] by (simp add: new_reports_ctl del: call_ctl.simps)

section \<open>Towards rest\<close>

lemma drain_reports:
  assumes "stop_awaited y"
  shows "\<exists>y'. runs y y' \<and> stop_awaited y' \<and> main_queue y' = []"
  using assms
proof (induction "main_queue y" arbitrary: y)
  case Nil
  then show ?case by (metis rtranclp.rtrancl_refl)
next
  case (Cons m ms)
  let ?next = "\<lambda>s'. y\<lparr>ctx := s', main_queue := ms, ctl_queue := ctl_queue y @ new_commands (ctx y) s'\<rparr>"
  obtain s' where s': "call_main env0 m (ctx y) = Some s'" "stop_awaited (?next s')"
    using take_report [of y m ms] Cons by metis
  moreover have "runs y (?next s')" using report_runs [of y m ms env0 s'] Cons.hyps(2) s'(1) by metis
  ultimately show ?case using Cons.hyps(1) [of "?next s'"] by (auto intro: rtranclp_trans)
qed

text \<open>In \<open>STARTING\<close> the library's callback lets the daemon go on.\<close>

lemma starting_goes_on:
  assumes "stop_awaited y" "main_queue y = []" "gps_state (ctx y) = STARTING"
  shows "\<exists>y'. runs y y' \<and> stop_awaited y' \<and> main_queue y' = [] \<and>
    gps_state (ctx y') = (if is_a_gps_client_exist (ctx y) then STARTED else STOPPING) \<and>
    is_a_gps_client_exist (ctx y') = is_a_gps_client_exist (ctx y)"
proof -
  let ?c = "ctl_emit (Ctl_main (MM_start_done True)) (ctl y)"
  let ?y1 = "y\<lparr>ctl := ?c, main_queue := [MM_start_done True]\<rparr>"
  have cb: "mtk_gps_sys_agps_disaptcher_callback ctl_env0 MTK_AGPS_CB_START_REQ 1 (Some [1]) (ctl y) = Some (0, ?c)"
    using assms(1) by (simp add: stop_awaited_def mtk_gps_sys_agps_disaptcher_callback_def)
  have "new_reports (ctl y) ?c = [MM_start_done True]" by (simp add: new_reports_def ctl_emit_def)
  then have s1: "step y ?y1" using step.dispatcher [OF cb] assms(2) by simp
  have g1: "stop_awaited ?y1"
    using assms system_inv_step [OF s1] supl_kept(2) [OF cb]
    by (auto simp: stop_awaited_def open_stops_def)
  obtain s' where s': "call_main env0 (MM_start_done True) (ctx ?y1) = Some s'"
    "stop_awaited (?y1\<lparr>ctx := s', main_queue := [], ctl_queue := ctl_queue ?y1 @ new_commands (ctx ?y1) s'\<rparr>)"
    using take_report [OF g1, of "MM_start_done True" "[]"] by auto
  have "gps_state s' = (if is_a_gps_client_exist (ctx y) then STARTED else STOPPING) \<and>
      is_a_gps_client_exist s' = is_a_gps_client_exist (ctx y)"
    using s'(1) assms(3) by (auto simp: mnld_fsm_def fsm_eqs is_a_gps_client_exist_def split: if_splits)
  moreover have "runs y (?y1\<lparr>ctx := s', main_queue := [], ctl_queue := ctl_queue ?y1 @ new_commands (ctx ?y1) s'\<rparr>)"
    using r_into_rtranclp [of step, OF s1] report_runs [of ?y1 "MM_start_done True" "[]" env0 s'] s'(1)
    by (auto intro: rtranclp_trans)
  ultimately show ?thesis
    using s'(2) by (intro exI [of _ "?y1\<lparr>ctx := s', main_queue := [],
      ctl_queue := ctl_queue ?y1 @ new_commands (ctx ?y1) s'\<rparr>"]) simp
qed

text \<open>The two reports the engine thread gives, in \<open>STOPPING\<close>.\<close>

lemma stop_done_stopping:
  assumes "call_main env0 MM_stop_done s = Some s'" "gps_state s = STOPPING"
  shows "gps_state s' = (if is_a_gps_client_exist s then STARTING else IDLE) \<and>
    is_a_gps_client_exist s' = is_a_gps_client_exist s"
proof -
  let ?s = "s\<lparr>timers := (timers s)(Timer_stop := (0, 0)),
      clients := reset_acked (each_client (need_close_ack_update (\<lambda>_. False)) (clients s)),
      out := out s @ close_acks s @ reset_acks s\<rparr>"
  have acks: "close_acks (s\<lparr>timers := t\<rparr>) = close_acks s" "reset_acks (s\<lparr>timers := t\<rparr>) = reset_acks s" for t
    by (simp_all add: close_acks_def reset_acks_def)
  obtain tm where "start_engine ?s = Some (?s\<lparr>gps_state := STARTING, delete_aiding_flag := 0,
      timers := tm, out := out ?s @ [Gps_start (delete_aiding_flag ?s)]\<rparr>)"
    using start_engine_eq [of ?s] by auto
  then show ?thesis
    using assms by (auto simp: mnld_fsm_def fsm_eqs acks is_a_gps_client_exist_def env0_def split: if_splits)
qed

lemma reset_done_stopping:
  assumes "call_main env0 MM_reset_done s = Some s'"
  shows "gps_state s' = gps_state s \<and> is_a_gps_client_exist s' = is_a_gps_client_exist s \<and> new_commands s s' = []"
  using assms
  by (auto simp: on_reset_done_def clear_timer_def do_gps_reset_hdlr_eq reset_acks_def new_commands_def
      is_a_gps_client_exist_def split: if_splits)

text \<open>In \<open>STOPPING\<close> the engine thread works off its commands; the stop is among them.\<close>

lemma stopping_goes_on:
  assumes "stop_awaited y" "main_queue y = []" "gps_state (ctx y) = STOPPING"
  shows "\<exists>y'. runs y y' \<and> stop_awaited y' \<and> main_queue y' = [] \<and>
    gps_state (ctx y') = (if is_a_gps_client_exist (ctx y) then STARTING else IDLE) \<and>
    is_a_gps_client_exist (ctx y') = is_a_gps_client_exist (ctx y)"
  using assms
proof (induction "ctl_queue y" arbitrary: y)
  case Nil
  then show ?case by (simp add: stop_awaited_def open_stops_def)
next
  case (Cons m ms)
  let ?y1 = "y\<lparr>ctl := call_ctl ctl_env0 m (ctl y), ctl_queue := ms, main_queue := answer ctl_env0 m\<rparr>"
  have g1: "stop_awaited ?y1" and r1: "runs y ?y1"
    using take_command [of y m ms] command_runs [of y m ms ctl_env0] Cons by simp_all
  show ?case
  proof (cases "answer ctl_env0 m")
    case Nil
    then have "m \<noteq> CM_stop" by (auto simp: answer_def ctl_env0_def)
    then show ?thesis
      using Cons.hyps(1) [of ?y1] g1 r1 Nil Cons.prems by (auto intro: rtranclp_trans simp del: call_ctl.simps)
  next
    case (Cons r rs)
    then have r: "r = MM_stop_done \<or> r = MM_reset_done" "rs = []"
      by (auto simp: answer_def split: ctl_msg.splits if_splits)
    obtain s' where s': "call_main env0 r (ctx ?y1) = Some s'"
      "stop_awaited (?y1\<lparr>ctx := s', main_queue := [], ctl_queue := ctl_queue ?y1 @ new_commands (ctx ?y1) s'\<rparr>)"
      using take_report [OF g1, of r "[]"] Cons r by auto
    let ?y2 = "?y1\<lparr>ctx := s', main_queue := [], ctl_queue := ctl_queue ?y1 @ new_commands (ctx ?y1) s'\<rparr>"
    have r2: "runs y ?y2"
      using r1 report_runs [of ?y1 r "[]" env0 s'] s'(1) Cons r(2) by (auto intro: rtranclp_trans)
    show ?thesis
    proof (cases "r = MM_stop_done")
      case True
      then show ?thesis
        using stop_done_stopping [of "ctx y" s'] s' Cons.prems r2
        by (intro exI [of _ ?y2]) (simp del: call_ctl.simps call_main.simps)
    next
      case False
      then show ?thesis
        using reset_done_stopping [of "ctx y" s'] s' r Cons.prems r2 Cons.hyps(1) [of ?y2]
        by (auto intro: rtranclp_trans simp del: call_ctl.simps call_main.simps)
    qed
  qed
qed

text \<open>C7. From every reachable state, with SUPL enabled and no stop command lost to a failing
  shut-down of the library, the daemon can come to rest by itself: the main thread works off its
  reports, the engine thread its commands and the library reports that it has started, and
  then the daemon is idle or running, waiting for nothing.\<close>

theorem never_stuck:
  assumes "reachable y" "SUPL_enabled (ctl y)" "gps_state (ctx y) = STOPPING \<longrightarrow> 0 < open_stops y"
  shows "\<exists>y'. runs y y' \<and> main_queue y' = [] \<and> gps_state (ctx y') \<in> {IDLE, STARTED}"
proof -
  have "stop_awaited y"
    using assms reachable_inv [OF assms(1)] by (auto simp: stop_awaited_def system_inv_def split: if_splits)
  then obtain y1 where y1: "runs y y1" "stop_awaited y1" "main_queue y1 = []"
    using drain_reports by blast
  show ?thesis
  proof (cases "gps_state (ctx y1)")
    case STARTING
    then obtain y2 where y2: "runs y1 y2" "stop_awaited y2" "main_queue y2 = []"
      "gps_state (ctx y2) = (if is_a_gps_client_exist (ctx y1) then STARTED else STOPPING)"
      "is_a_gps_client_exist (ctx y2) = is_a_gps_client_exist (ctx y1)"
      using starting_goes_on [OF y1(2,3)] by blast
    show ?thesis
    proof (cases "is_a_gps_client_exist (ctx y1)")
      case True
      then show ?thesis using y1(1) y2 by (auto intro!: exI [of _ y2])
    next
      case False
      then obtain y3 where "runs y2 y3" "main_queue y3 = []" "gps_state (ctx y3) = IDLE"
        using stopping_goes_on [OF y2(2,3)] y2(4,5) by auto
      then show ?thesis using y1(1) y2(1) by (auto intro!: exI [of _ y3])
    qed
  next
    case STOPPING
    then obtain y2 where y2: "runs y1 y2" "stop_awaited y2" "main_queue y2 = []"
      "gps_state (ctx y2) = (if is_a_gps_client_exist (ctx y1) then STARTING else IDLE)"
      "is_a_gps_client_exist (ctx y2) = is_a_gps_client_exist (ctx y1)"
      using stopping_goes_on [OF y1(2,3)] by blast
    show ?thesis
    proof (cases "is_a_gps_client_exist (ctx y1)")
      case True
      then obtain y3 where "runs y2 y3" "main_queue y3 = []" "gps_state (ctx y3) = STARTED"
        using starting_goes_on [OF y2(2,3)] y2(4,5) by auto
      then show ?thesis using y1(1) y2(1) by (auto intro!: exI [of _ y3])
    next
      case False
      then show ?thesis using y1(1) y2 by (auto intro!: exI [of _ y2])
    qed
  qed (use y1 in auto)
qed

theorem never_stuck_witness:
  "\<exists>y'. runs y_start y' \<and> main_queue y' = [] \<and> gps_state (ctx y') \<in> {IDLE, STARTED}"
  by (rule never_stuck [OF y_start_reachable])
    (simp_all add: y_start_def ctx_starting_def ctl_init_def supl_kept del: call_ctl.simps)

end
