(* ===== verification/Struct_Layout.thy ===== *)
theory Struct_Layout
  imports Mnld
begin

text \<open>
  C structures as they lie in memory on the 32-bit ARM target: every member at the next multiple
  of its size, the structure padded to a multiple of its alignment. Reading a structure from the
  bytes of one with the same members gives the members back.
\<close>

datatype c_type = T8 | T16 | T32 | T64

datatype c_val = V8 c_char | V16 c_short | V32 c_int | V64 c_llong

fun type_size :: "c_type \<Rightarrow> nat" where
  "type_size T8 = 1" | "type_size T16 = 2" | "type_size T32 = 4" | "type_size T64 = 8"

fun type_of :: "c_val \<Rightarrow> c_type" where
  "type_of (V8 _) = T8" | "type_of (V16 _) = T16" | "type_of (V32 _) = T32" | "type_of (V64 _) = T64"

fun val_bytes :: "c_val \<Rightarrow> c_char list" where
  "val_bytes (V8 b) = [b]" | "val_bytes (V16 s) = enc_short s" | "val_bytes (V32 i) = enc_int i"
| "val_bytes (V64 l) = enc_long l"

definition le16 :: "c_char list \<Rightarrow> c_short" where
  "le16 bs = ucast (bs ! 0) OR push_bit 8 (ucast (bs ! 1))"

fun bytes_val :: "c_type \<Rightarrow> c_char list \<Rightarrow> c_val" where
  "bytes_val T8 bs = V8 (bs ! 0)" | "bytes_val T16 bs = V16 (le16 bs)" | "bytes_val T32 bs = V32 (le32 bs)"
| "bytes_val T64 bs = V64 (le64 bs)"

definition padding :: "nat \<Rightarrow> nat \<Rightarrow> nat" where
  "padding n pos = (n - pos mod n) mod n"

fun put_members :: "nat \<Rightarrow> c_val list \<Rightarrow> c_char list" where
  "put_members pos [] = []"
| "put_members pos (v # vs) =
     (let p = padding (type_size (type_of v)) pos
      in replicate p 0 @ val_bytes v @ put_members (pos + p + type_size (type_of v)) vs)"

fun get_members :: "nat \<Rightarrow> c_type list \<Rightarrow> c_char list \<Rightarrow> c_val list" where
  "get_members pos [] bs = []"
| "get_members pos (t # ts) bs =
     (let p = padding (type_size t) pos
      in bytes_val t (drop p bs) # get_members (pos + p + type_size t) ts (drop (p + type_size t) bs))"

fun members_end :: "nat \<Rightarrow> c_type list \<Rightarrow> nat" where
  "members_end pos [] = pos"
| "members_end pos (t # ts) = members_end (pos + padding (type_size t) pos + type_size t) ts"

text \<open>\<open>sizeof\<close> of a structure whose strictest member is aligned to \<open>al\<close>, its bytes, and
  its members.\<close>

definition struct_size :: "nat \<Rightarrow> c_type list \<Rightarrow> nat" where
  "struct_size al ts = members_end 0 ts + padding al (members_end 0 ts)"

definition struct_bytes :: "nat \<Rightarrow> c_val list \<Rightarrow> c_char list" where
  "struct_bytes al vs = put_members 0 vs @ replicate (padding al (members_end 0 (map type_of vs))) 0"

abbreviation struct_members :: "c_type list \<Rightarrow> c_char list \<Rightarrow> c_val list" where
  "struct_members ts bs \<equiv> get_members 0 ts bs"

section \<open>Round trip\<close>

lemma le16_enc_short [simp]: "le16 (enc_short v @ bs) = v"
proof (rule bit_word_eqI)
  fix n assume "n < LENGTH(16)"
  then show "bit (le16 (enc_short v @ bs)) n = bit v n"
    by (cases "8 \<le> n") (auto simp: le16_def enc_short_def bit_simps)
qed

lemma le64_enc_long_bytes [simp]: "le64 (enc_long v @ bs) = v"
proof (rule bit_word_eqI)
  fix n assume "n < LENGTH(64)"
  then show "bit (le64 (enc_long v @ bs)) n = bit v n"
    by (cases "32 \<le> n") (auto simp: le64_def enc_long_def bit_simps)
qed

lemma bytes_val_bytes [simp]: "bytes_val (type_of v) (val_bytes v @ bs) = v"
  by (cases v) auto

lemma length_val_bytes [simp]: "length (val_bytes v) = type_size (type_of v)"
  by (cases v) auto

lemma get_put_members: "get_members pos (map type_of vs) (put_members pos vs @ bs) = vs"
  by (induction vs arbitrary: pos) (auto simp: Let_def)

lemma length_put_members: "members_end pos (map type_of vs) = pos + length (put_members pos vs)"
  by (induction vs arbitrary: pos) (auto simp: Let_def)

lemma length_get_members [simp]: "length (get_members pos ts bs) = length ts"
  by (induction ts arbitrary: pos bs) (auto simp: Let_def)

lemma struct_round_trip [simp]: "struct_members (map type_of vs) (struct_bytes al vs @ bs) = vs"
  by (simp add: struct_bytes_def get_put_members)

lemma length_struct_bytes [simp]: "length (struct_bytes al vs) = struct_size al (map type_of vs)"
  using length_put_members [of 0 vs] by (simp add: struct_bytes_def struct_size_def)

text \<open>An array of structures of the same size, and its elements.\<close>

fun chunks :: "nat \<Rightarrow> nat \<Rightarrow> 'a list \<Rightarrow> 'a list list" where
  "chunks k 0 xs = []"
| "chunks k (Suc n) xs = xs # chunks k n (drop k xs)"

lemma map_chunks_concat:
  assumes "\<forall>x\<in>set ys. length (enc x) = k" "\<And>x r. x \<in> set ys \<Longrightarrow> dec (enc x @ r) = x" "length ys = n"
  shows "map dec (chunks k n (concat (map enc ys) @ xs)) = ys"
  using assms by (induction ys arbitrary: n) auto

end
