(* ===== verification/Gnss_Data.thy ===== *)
theory Gnss_Data
  imports Struct_Layout
begin

text \<open>
  The raw measurements and navigation messages: the structures of
  \<open>hal_mnl_interface_common.h\<close>, the conversions of \<open>gps_controller.c\<close> from the structures of
  the GPS library, and their bytes on the way to the HAL. \<open>double\<close> and \<open>float\<close> members are
  only moved, so they are their bits.
\<close>

section \<open>Structures\<close>

record gnss_measurement =
  gm_flags :: c_int
  gm_svid :: c_short
  gm_constellation :: c_char
  gm_time_offset_ns :: c_double
  gm_state :: c_int
  gm_received_sv_time_in_ns :: c_llong
  gm_received_sv_time_uncertainty_in_ns :: c_llong
  gm_c_n0_dbhz :: c_double
  gm_pseudorange_rate_mps :: c_double
  gm_pseudorange_rate_uncertainty_mps :: c_double
  gm_accumulated_delta_range_state :: c_short
  gm_accumulated_delta_range_m :: c_double
  gm_accumulated_delta_range_uncertainty_m :: c_double
  gm_carrier_frequency_hz :: c_float
  gm_carrier_cycles :: c_llong
  gm_carrier_phase :: c_double
  gm_carrier_phase_uncertainty :: c_double
  gm_multipath_indicator :: c_char
  gm_snr_db :: c_double

record gnss_clock =
  gc_flags :: c_short
  gc_leap_second :: c_short
  gc_time_ns :: c_llong
  gc_time_uncertainty_ns :: c_double
  gc_full_bias_ns :: c_llong
  gc_bias_ns :: c_double
  gc_bias_uncertainty_ns :: c_double
  gc_drift_nsps :: c_double
  gc_drift_uncertainty_nsps :: c_double
  gc_hw_clock_discontinuity_count :: c_int

record gps_measurement =
  pm_flags :: c_int
  pm_prn :: c_char
  pm_time_offset_ns :: c_double
  pm_state :: c_short
  pm_received_gps_tow_ns :: c_llong
  pm_received_gps_tow_uncertainty_ns :: c_llong
  pm_c_n0_dbhz :: c_double
  pm_pseudorange_rate_mps :: c_double
  pm_pseudorange_rate_uncertainty_mps :: c_double
  pm_accumulated_delta_range_state :: c_short
  pm_accumulated_delta_range_m :: c_double
  pm_accumulated_delta_range_uncertainty_m :: c_double
  pm_pseudorange_m :: c_double
  pm_pseudorange_uncertainty_m :: c_double
  pm_code_phase_chips :: c_double
  pm_code_phase_uncertainty_chips :: c_double
  pm_carrier_frequency_hz :: c_float
  pm_carrier_cycles :: c_llong
  pm_carrier_phase :: c_double
  pm_carrier_phase_uncertainty :: c_double
  pm_loss_of_lock :: c_char
  pm_bit_number :: c_int
  pm_time_from_last_bit_ms :: c_short
  pm_doppler_shift_hz :: c_double
  pm_doppler_shift_uncertainty_hz :: c_double
  pm_multipath_indicator :: c_char
  pm_snr_db :: c_double
  pm_elevation_deg :: c_double
  pm_elevation_uncertainty_deg :: c_double
  pm_azimuth_deg :: c_double
  pm_azimuth_uncertainty_deg :: c_double
  pm_used_in_fix :: bool

record gps_clock =
  pc_flags :: c_short
  pc_leap_second :: c_short
  pc_type :: c_char
  pc_time_ns :: c_llong
  pc_time_uncertainty_ns :: c_double
  pc_full_bias_ns :: c_llong
  pc_bias_ns :: c_double
  pc_bias_uncertainty_ns :: c_double
  pc_drift_nsps :: c_double
  pc_drift_uncertainty_nsps :: c_double

abbreviation GPS_MAX_MEASUREMENT :: nat where "GPS_MAX_MEASUREMENT \<equiv> 32"
abbreviation GNSS_MAX_MEASUREMENT :: nat where "GNSS_MAX_MEASUREMENT \<equiv> 64"

record gps_data =
  gps_count :: nat
  gps_measurements :: "gps_measurement list"
  gps_clock_data :: gps_clock

record gnss_data =
  gnss_count :: nat
  gnss_measurements :: "gnss_measurement list"
  gnss_clock_data :: gnss_clock

record gps_nav_msg =
  pn_prn :: c_char
  pn_type :: c_char
  pn_status :: c_short
  pn_message_id :: c_short
  pn_submessage_id :: c_short
  pn_data_length :: c_int
  pn_data :: "c_char list"

text \<open>In \<open>gnss_nav_msg\<close> the data is a pointer.\<close>

record gnss_nav_msg =
  gn_size :: c_int
  gn_svid :: c_short
  gn_type :: c_short
  gn_status :: c_short
  gn_message_id :: c_short
  gn_submessage_id :: c_short
  gn_data_length :: c_int
  gn_data_ptr :: c_int

section \<open>The structures as bytes\<close>

fun v8 :: "c_val \<Rightarrow> c_char" where
  "v8 (V8 x) = x" | "v8 _ = 0"

fun v16 :: "c_val \<Rightarrow> c_short" where
  "v16 (V16 x) = x" | "v16 _ = 0"

fun v32 :: "c_val \<Rightarrow> c_int" where
  "v32 (V32 x) = x" | "v32 _ = 0"

fun v64 :: "c_val \<Rightarrow> c_llong" where
  "v64 (V64 x) = x" | "v64 _ = 0"

definition gnss_measurement_members :: "gnss_measurement \<Rightarrow> c_val list" where
  "gnss_measurement_members m = [
     V32 (gm_flags m), V16 (gm_svid m), V8 (gm_constellation m), V64 (gm_time_offset_ns m),
     V32 (gm_state m), V64 (gm_received_sv_time_in_ns m),
     V64 (gm_received_sv_time_uncertainty_in_ns m), V64 (gm_c_n0_dbhz m),
     V64 (gm_pseudorange_rate_mps m), V64 (gm_pseudorange_rate_uncertainty_mps m),
     V16 (gm_accumulated_delta_range_state m), V64 (gm_accumulated_delta_range_m m),
     V64 (gm_accumulated_delta_range_uncertainty_m m), V32 (gm_carrier_frequency_hz m),
     V64 (gm_carrier_cycles m), V64 (gm_carrier_phase m), V64 (gm_carrier_phase_uncertainty m),
     V8 (gm_multipath_indicator m), V64 (gm_snr_db m)]"

definition gnss_measurement_types :: "c_type list" where
  "gnss_measurement_types = [
     T32, T16, T8, T64, T32, T64, T64, T64, T64, T64, T16, T64, T64, T32, T64, T64, T64, T8, T64]"

definition gnss_measurement_of :: "c_val list \<Rightarrow> gnss_measurement" where
  "gnss_measurement_of vs = \<lparr>
     gm_flags = v32 (vs ! 0), gm_svid = v16 (vs ! 1), gm_constellation = v8 (vs ! 2),
     gm_time_offset_ns = v64 (vs ! 3), gm_state = v32 (vs ! 4),
     gm_received_sv_time_in_ns = v64 (vs ! 5),
     gm_received_sv_time_uncertainty_in_ns = v64 (vs ! 6), gm_c_n0_dbhz = v64 (vs ! 7),
     gm_pseudorange_rate_mps = v64 (vs ! 8), gm_pseudorange_rate_uncertainty_mps = v64 (vs ! 9),
     gm_accumulated_delta_range_state = v16 (vs ! 10),
     gm_accumulated_delta_range_m = v64 (vs ! 11),
     gm_accumulated_delta_range_uncertainty_m = v64 (vs ! 12),
     gm_carrier_frequency_hz = v32 (vs ! 13), gm_carrier_cycles = v64 (vs ! 14),
     gm_carrier_phase = v64 (vs ! 15), gm_carrier_phase_uncertainty = v64 (vs ! 16),
     gm_multipath_indicator = v8 (vs ! 17), gm_snr_db = v64 (vs ! 18)\<rparr>"

lemma gnss_measurement_members_of [simp]: "gnss_measurement_of (gnss_measurement_members m) = m"
  by (simp add: gnss_measurement_of_def gnss_measurement_members_def)

lemma gnss_measurement_types_members [simp]: "map type_of (gnss_measurement_members m) = gnss_measurement_types"
  by (simp add: gnss_measurement_members_def gnss_measurement_types_def)

definition gnss_clock_members :: "gnss_clock \<Rightarrow> c_val list" where
  "gnss_clock_members m = [
     V16 (gc_flags m), V16 (gc_leap_second m), V64 (gc_time_ns m), V64 (gc_time_uncertainty_ns m),
     V64 (gc_full_bias_ns m), V64 (gc_bias_ns m), V64 (gc_bias_uncertainty_ns m),
     V64 (gc_drift_nsps m), V64 (gc_drift_uncertainty_nsps m),
     V32 (gc_hw_clock_discontinuity_count m)]"

definition gnss_clock_types :: "c_type list" where
  "gnss_clock_types = [
     T16, T16, T64, T64, T64, T64, T64, T64, T64, T32]"

definition gnss_clock_of :: "c_val list \<Rightarrow> gnss_clock" where
  "gnss_clock_of vs = \<lparr>
     gc_flags = v16 (vs ! 0), gc_leap_second = v16 (vs ! 1), gc_time_ns = v64 (vs ! 2),
     gc_time_uncertainty_ns = v64 (vs ! 3), gc_full_bias_ns = v64 (vs ! 4),
     gc_bias_ns = v64 (vs ! 5), gc_bias_uncertainty_ns = v64 (vs ! 6),
     gc_drift_nsps = v64 (vs ! 7), gc_drift_uncertainty_nsps = v64 (vs ! 8),
     gc_hw_clock_discontinuity_count = v32 (vs ! 9)\<rparr>"

lemma gnss_clock_members_of [simp]: "gnss_clock_of (gnss_clock_members m) = m"
  by (simp add: gnss_clock_of_def gnss_clock_members_def)

lemma gnss_clock_types_members [simp]: "map type_of (gnss_clock_members m) = gnss_clock_types"
  by (simp add: gnss_clock_members_def gnss_clock_types_def)

definition gps_measurement_members :: "gps_measurement \<Rightarrow> c_val list" where
  "gps_measurement_members m = [
     V32 (pm_flags m), V8 (pm_prn m), V64 (pm_time_offset_ns m), V16 (pm_state m),
     V64 (pm_received_gps_tow_ns m), V64 (pm_received_gps_tow_uncertainty_ns m),
     V64 (pm_c_n0_dbhz m), V64 (pm_pseudorange_rate_mps m),
     V64 (pm_pseudorange_rate_uncertainty_mps m), V16 (pm_accumulated_delta_range_state m),
     V64 (pm_accumulated_delta_range_m m), V64 (pm_accumulated_delta_range_uncertainty_m m),
     V64 (pm_pseudorange_m m), V64 (pm_pseudorange_uncertainty_m m), V64 (pm_code_phase_chips m),
     V64 (pm_code_phase_uncertainty_chips m), V32 (pm_carrier_frequency_hz m),
     V64 (pm_carrier_cycles m), V64 (pm_carrier_phase m), V64 (pm_carrier_phase_uncertainty m),
     V8 (pm_loss_of_lock m), V32 (pm_bit_number m), V16 (pm_time_from_last_bit_ms m),
     V64 (pm_doppler_shift_hz m), V64 (pm_doppler_shift_uncertainty_hz m),
     V8 (pm_multipath_indicator m), V64 (pm_snr_db m), V64 (pm_elevation_deg m),
     V64 (pm_elevation_uncertainty_deg m), V64 (pm_azimuth_deg m),
     V64 (pm_azimuth_uncertainty_deg m), V8 (if pm_used_in_fix m then 1 else 0)]"

definition gps_measurement_types :: "c_type list" where
  "gps_measurement_types = [
     T32, T8, T64, T16, T64, T64, T64, T64, T64, T16, T64, T64, T64, T64, T64, T64, T32, T64, T64,
     T64, T8, T32, T16, T64, T64, T8, T64, T64, T64, T64, T64, T8]"

definition gps_measurement_of :: "c_val list \<Rightarrow> gps_measurement" where
  "gps_measurement_of vs = \<lparr>
     pm_flags = v32 (vs ! 0), pm_prn = v8 (vs ! 1), pm_time_offset_ns = v64 (vs ! 2),
     pm_state = v16 (vs ! 3), pm_received_gps_tow_ns = v64 (vs ! 4),
     pm_received_gps_tow_uncertainty_ns = v64 (vs ! 5), pm_c_n0_dbhz = v64 (vs ! 6),
     pm_pseudorange_rate_mps = v64 (vs ! 7), pm_pseudorange_rate_uncertainty_mps = v64 (vs ! 8),
     pm_accumulated_delta_range_state = v16 (vs ! 9), pm_accumulated_delta_range_m = v64 (vs ! 10),
     pm_accumulated_delta_range_uncertainty_m = v64 (vs ! 11), pm_pseudorange_m = v64 (vs ! 12),
     pm_pseudorange_uncertainty_m = v64 (vs ! 13), pm_code_phase_chips = v64 (vs ! 14),
     pm_code_phase_uncertainty_chips = v64 (vs ! 15), pm_carrier_frequency_hz = v32 (vs ! 16),
     pm_carrier_cycles = v64 (vs ! 17), pm_carrier_phase = v64 (vs ! 18),
     pm_carrier_phase_uncertainty = v64 (vs ! 19), pm_loss_of_lock = v8 (vs ! 20),
     pm_bit_number = v32 (vs ! 21), pm_time_from_last_bit_ms = v16 (vs ! 22),
     pm_doppler_shift_hz = v64 (vs ! 23), pm_doppler_shift_uncertainty_hz = v64 (vs ! 24),
     pm_multipath_indicator = v8 (vs ! 25), pm_snr_db = v64 (vs ! 26),
     pm_elevation_deg = v64 (vs ! 27), pm_elevation_uncertainty_deg = v64 (vs ! 28),
     pm_azimuth_deg = v64 (vs ! 29), pm_azimuth_uncertainty_deg = v64 (vs ! 30),
     pm_used_in_fix = v8 (vs ! 31) \<noteq> 0\<rparr>"

lemma gps_measurement_members_of [simp]: "gps_measurement_of (gps_measurement_members m) = m"
  by (simp add: gps_measurement_of_def gps_measurement_members_def)

lemma gps_measurement_types_members [simp]: "map type_of (gps_measurement_members m) = gps_measurement_types"
  by (simp add: gps_measurement_members_def gps_measurement_types_def)

definition gps_clock_members :: "gps_clock \<Rightarrow> c_val list" where
  "gps_clock_members m = [
     V16 (pc_flags m), V16 (pc_leap_second m), V8 (pc_type m), V64 (pc_time_ns m),
     V64 (pc_time_uncertainty_ns m), V64 (pc_full_bias_ns m), V64 (pc_bias_ns m),
     V64 (pc_bias_uncertainty_ns m), V64 (pc_drift_nsps m), V64 (pc_drift_uncertainty_nsps m)]"

definition gps_clock_types :: "c_type list" where
  "gps_clock_types = [
     T16, T16, T8, T64, T64, T64, T64, T64, T64, T64]"

definition gps_clock_of :: "c_val list \<Rightarrow> gps_clock" where
  "gps_clock_of vs = \<lparr>
     pc_flags = v16 (vs ! 0), pc_leap_second = v16 (vs ! 1), pc_type = v8 (vs ! 2),
     pc_time_ns = v64 (vs ! 3), pc_time_uncertainty_ns = v64 (vs ! 4),
     pc_full_bias_ns = v64 (vs ! 5), pc_bias_ns = v64 (vs ! 6),
     pc_bias_uncertainty_ns = v64 (vs ! 7), pc_drift_nsps = v64 (vs ! 8),
     pc_drift_uncertainty_nsps = v64 (vs ! 9)\<rparr>"

lemma gps_clock_members_of [simp]: "gps_clock_of (gps_clock_members m) = m"
  by (simp add: gps_clock_of_def gps_clock_members_def)

lemma gps_clock_types_members [simp]: "map type_of (gps_clock_members m) = gps_clock_types"
  by (simp add: gps_clock_members_def gps_clock_types_def)

definition gnss_data_bytes :: "gnss_data \<Rightarrow> c_char list" where
  "gnss_data_bytes d = enc_int (word_of_nat (gnss_count d)) @ [0, 0, 0, 0] @
     concat (map (\<lambda>m. struct_bytes 8 (gnss_measurement_members m)) (gnss_measurements d)) @
     struct_bytes 8 (gnss_clock_members (gnss_clock_data d))"

definition gnss_data_of :: "c_char list \<Rightarrow> gnss_data" where
  "gnss_data_of b = \<lparr>gnss_count = unat (le32 b),
     gnss_measurements = map (\<lambda>c. gnss_measurement_of (struct_members gnss_measurement_types c))
       (chunks (struct_size 8 gnss_measurement_types) GNSS_MAX_MEASUREMENT (drop 8 b)),
     gnss_clock_data = gnss_clock_of (struct_members gnss_clock_types
       (drop (8 + struct_size 8 gnss_measurement_types * GNSS_MAX_MEASUREMENT) b))\<rparr>"

definition gps_data_bytes :: "gps_data \<Rightarrow> c_char list" where
  "gps_data_bytes d = enc_int (word_of_nat (gps_count d)) @ [0, 0, 0, 0] @
     concat (map (\<lambda>m. struct_bytes 8 (gps_measurement_members m)) (gps_measurements d)) @
     struct_bytes 8 (gps_clock_members (gps_clock_data d))"

definition gps_data_of :: "c_char list \<Rightarrow> gps_data" where
  "gps_data_of b = \<lparr>gps_count = unat (le32 b),
     gps_measurements = map (\<lambda>c. gps_measurement_of (struct_members gps_measurement_types c))
       (chunks (struct_size 8 gps_measurement_types) GPS_MAX_MEASUREMENT (drop 8 b)),
     gps_clock_data = gps_clock_of (struct_members gps_clock_types
       (drop (8 + struct_size 8 gps_measurement_types * GPS_MAX_MEASUREMENT) b))\<rparr>"

definition gps_nav_msg_bytes :: "gps_nav_msg \<Rightarrow> c_char list" where
  "gps_nav_msg_bytes m = struct_bytes 4 [V8 (pn_prn m), V8 (pn_type m), V16 (pn_status m), V16 (pn_message_id m),
     V16 (pn_submessage_id m), V32 (pn_data_length m)] @ pn_data m"

definition gps_nav_msg_of :: "c_char list \<Rightarrow> gps_nav_msg" where
  "gps_nav_msg_of b = (let vs = struct_members [T8, T8, T16, T16, T16, T32] b in
     \<lparr>pn_prn = v8 (vs ! 0), pn_type = v8 (vs ! 1), pn_status = v16 (vs ! 2), pn_message_id = v16 (vs ! 3),
      pn_submessage_id = v16 (vs ! 4), pn_data_length = v32 (vs ! 5), pn_data = take 40 (drop 12 b)\<rparr>)"

definition gnss_nav_msg_bytes :: "gnss_nav_msg \<Rightarrow> c_char list" where
  "gnss_nav_msg_bytes m = struct_bytes 4 [V32 (gn_size m), V16 (gn_svid m), V16 (gn_type m), V16 (gn_status m),
     V16 (gn_message_id m), V16 (gn_submessage_id m), V32 (gn_data_length m), V32 (gn_data_ptr m)]"

definition gnss_nav_msg_of :: "c_char list \<Rightarrow> gnss_nav_msg" where
  "gnss_nav_msg_of b = (let vs = struct_members [T32, T16, T16, T16, T16, T16, T32, T32] b in
     \<lparr>gn_size = v32 (vs ! 0), gn_svid = v16 (vs ! 1), gn_type = v16 (vs ! 2), gn_status = v16 (vs ! 3),
      gn_message_id = v16 (vs ! 4), gn_submessage_id = v16 (vs ! 5), gn_data_length = v32 (vs ! 6),
      gn_data_ptr = v32 (vs ! 7)\<rparr>)"

section \<open>The structures of the library\<close>

text \<open>
  \<open>Gnssmeasurement\<close> and \<open>Gnssclock\<close> have the members of \<open>gnss_measurement\<close> and
  \<open>gnss_clock\<close>, in the same types, behind a size that is never read; so they are these records.
\<close>

record MTK_GPS_MEASUREMENT =
  mm_flag :: c_int
  mm_PRN :: c_char
  mm_TimeOffsetInNs :: c_double
  mm_state :: c_short
  mm_ReGpsTowInNs :: c_llong
  mm_ReGpsTowUnInNs :: c_llong
  mm_Cn0InDbHz :: c_double
  mm_PRRateInMeterPreSec :: c_double
  mm_PRRateUnInMeterPreSec :: c_double
  mm_AcDRState10 :: c_short
  mm_AcDRInMeters :: c_double
  mm_AcDRUnInMeters :: c_double
  mm_PRInMeters :: c_double
  mm_PRUnInMeters :: c_double
  mm_CPInChips :: c_double
  mm_CPUnInChips :: c_double
  mm_CFInhZ :: c_float
  mm_CarrierCycle :: c_llong
  mm_CarrierPhase :: c_double
  mm_CarrierPhaseUn :: c_double
  mm_LossOfLock :: c_char
  mm_BitNumber :: c_int
  mm_TimeFromLastBitInMs :: c_short
  mm_DopperShiftInHz :: c_double
  mm_DopperShiftUnInHz :: c_double
  mm_MultipathIndicater :: c_char
  mm_SnrInDb :: c_double
  mm_ElInDeg :: c_double
  mm_ElUnInDeg :: c_double
  mm_AzInDeg :: c_double
  mm_AzUnInDeg :: c_double
  mm_UsedInFix :: c_char

record MTK_GPS_CLOCK =
  mc_flag :: c_short
  mc_leapsecond :: c_short
  mc_type :: c_char
  mc_TimeInNs :: c_llong
  mc_TimeUncertaintyInNs :: c_double
  mc_FullBiasInNs :: c_llong
  mc_BiasInNs :: c_double
  mc_BiasUncertaintyInNs :: c_double
  mc_DriftInNsPerSec :: c_double
  mc_DriftUncertaintyInNsPerSec :: c_double

record MTK_GPS_NAVIGATION_EVENT =
  ev_type :: c_char
  ev_prn :: c_char
  ev_messageID :: c_short
  ev_submessageID :: c_short
  ev_data :: "c_char list"

record GnssNavigationmessage =
  nm_svid :: c_short
  nm_type :: c_short
  nm_status :: c_short
  nm_message_id :: c_short
  nm_submessage_id :: c_short
  nm_data_length :: c_int
  nm_data :: "c_char list"

text \<open>What the calls to the library leave in the locals: the arrays of 32, and of 40, 24, 37,
  36 and 42 measurements, the clocks (\<open>None\<close> for the GNSS clock when the call fails), and the
  navigation messages by satellite number and constellation code.\<close>

record gnss_lib =
  lib_gps :: "MTK_GPS_MEASUREMENT list"
  lib_gps_clock :: MTK_GPS_CLOCK
  lib_gpqz :: "gnss_measurement list"
  lib_glo :: "gnss_measurement list"
  lib_bd :: "gnss_measurement list"
  lib_gal :: "gnss_measurement list"
  lib_sbas :: "gnss_measurement list"
  lib_gnss_clock :: "gnss_clock option"
  lib_gps_nav :: "nat \<Rightarrow> MTK_GPS_NAVIGATION_EVENT option"
  lib_gnss_nav :: "nat \<Rightarrow> nat \<Rightarrow> GnssNavigationmessage option"

section \<open>Conversions\<close>

definition zero_gnss_measurement :: gnss_measurement where
  "zero_gnss_measurement = \<lparr>
     gm_flags = 0, gm_svid = 0, gm_constellation = 0, gm_time_offset_ns = 0, gm_state = 0,
     gm_received_sv_time_in_ns = 0, gm_received_sv_time_uncertainty_in_ns = 0, gm_c_n0_dbhz = 0,
     gm_pseudorange_rate_mps = 0, gm_pseudorange_rate_uncertainty_mps = 0,
     gm_accumulated_delta_range_state = 0, gm_accumulated_delta_range_m = 0,
     gm_accumulated_delta_range_uncertainty_m = 0, gm_carrier_frequency_hz = 0,
     gm_carrier_cycles = 0, gm_carrier_phase = 0, gm_carrier_phase_uncertainty = 0,
     gm_multipath_indicator = 0, gm_snr_db = 0\<rparr>"

definition zero_gps_measurement :: gps_measurement where
  "zero_gps_measurement = \<lparr>
     pm_flags = 0, pm_prn = 0, pm_time_offset_ns = 0, pm_state = 0, pm_received_gps_tow_ns = 0,
     pm_received_gps_tow_uncertainty_ns = 0, pm_c_n0_dbhz = 0, pm_pseudorange_rate_mps = 0,
     pm_pseudorange_rate_uncertainty_mps = 0, pm_accumulated_delta_range_state = 0,
     pm_accumulated_delta_range_m = 0, pm_accumulated_delta_range_uncertainty_m = 0,
     pm_pseudorange_m = 0, pm_pseudorange_uncertainty_m = 0, pm_code_phase_chips = 0,
     pm_code_phase_uncertainty_chips = 0, pm_carrier_frequency_hz = 0, pm_carrier_cycles = 0,
     pm_carrier_phase = 0, pm_carrier_phase_uncertainty = 0, pm_loss_of_lock = 0,
     pm_bit_number = 0, pm_time_from_last_bit_ms = 0, pm_doppler_shift_hz = 0,
     pm_doppler_shift_uncertainty_hz = 0, pm_multipath_indicator = 0, pm_snr_db = 0,
     pm_elevation_deg = 0, pm_elevation_uncertainty_deg = 0, pm_azimuth_deg = 0,
     pm_azimuth_uncertainty_deg = 0, pm_used_in_fix = False\<rparr>"

definition zero_gnss_clock :: gnss_clock where
  "zero_gnss_clock = \<lparr>
     gc_flags = 0, gc_leap_second = 0, gc_time_ns = 0, gc_time_uncertainty_ns = 0,
     gc_full_bias_ns = 0, gc_bias_ns = 0, gc_bias_uncertainty_ns = 0, gc_drift_nsps = 0,
     gc_drift_uncertainty_nsps = 0, gc_hw_clock_discontinuity_count = 0\<rparr>"

text \<open>The assignments of \<open>get_gps_measurement_clock_data\<close>, and the value 1 as a \<open>double\<close>.\<close>

definition gps_measurement_from :: "MTK_GPS_MEASUREMENT \<Rightarrow> gps_measurement" where
  "gps_measurement_from src = \<lparr>
     pm_flags = mm_flag src, pm_prn = mm_PRN src, pm_time_offset_ns = mm_TimeOffsetInNs src,
     pm_state = mm_state src, pm_received_gps_tow_ns = mm_ReGpsTowInNs src,
     pm_received_gps_tow_uncertainty_ns = mm_ReGpsTowUnInNs src, pm_c_n0_dbhz = mm_Cn0InDbHz src,
     pm_pseudorange_rate_mps = mm_PRRateInMeterPreSec src,
     pm_pseudorange_rate_uncertainty_mps = mm_PRRateUnInMeterPreSec src,
     pm_accumulated_delta_range_state = mm_AcDRState10 src,
     pm_accumulated_delta_range_m = mm_AcDRInMeters src,
     pm_accumulated_delta_range_uncertainty_m = mm_AcDRUnInMeters src,
     pm_pseudorange_m = mm_PRInMeters src, pm_pseudorange_uncertainty_m = mm_PRUnInMeters src,
     pm_code_phase_chips = mm_CPInChips src, pm_code_phase_uncertainty_chips = mm_CPUnInChips src,
     pm_carrier_frequency_hz = mm_CFInhZ src, pm_carrier_cycles = mm_CarrierCycle src,
     pm_carrier_phase = mm_CarrierPhase src, pm_carrier_phase_uncertainty = mm_CarrierPhaseUn src,
     pm_loss_of_lock = mm_LossOfLock src, pm_bit_number = mm_BitNumber src,
     pm_time_from_last_bit_ms = mm_TimeFromLastBitInMs src,
     pm_doppler_shift_hz = mm_DopperShiftInHz src,
     pm_doppler_shift_uncertainty_hz = mm_DopperShiftUnInHz src,
     pm_multipath_indicator = mm_MultipathIndicater src, pm_snr_db = mm_SnrInDb src,
     pm_elevation_deg = mm_ElInDeg src, pm_elevation_uncertainty_deg = mm_ElUnInDeg src,
     pm_azimuth_deg = mm_AzInDeg src, pm_azimuth_uncertainty_deg = mm_AzUnInDeg src,
     pm_used_in_fix = mm_UsedInFix src \<noteq> 0\<rparr>"

definition gps_clock_from :: "MTK_GPS_CLOCK \<Rightarrow> gps_clock" where
  "gps_clock_from src = \<lparr>
     pc_flags = mc_flag src, pc_leap_second = mc_leapsecond src, pc_type = mc_type src,
     pc_time_ns = mc_TimeInNs src, pc_time_uncertainty_ns = mc_TimeUncertaintyInNs src,
     pc_full_bias_ns = mc_FullBiasInNs src, pc_bias_ns = mc_BiasInNs src,
     pc_bias_uncertainty_ns = mc_BiasUncertaintyInNs src, pc_drift_nsps = mc_DriftInNsPerSec src,
     pc_drift_uncertainty_nsps = mc_DriftUncertaintyInNsPerSec src\<rparr>"

abbreviation double_one :: c_double where "double_one \<equiv> 0x3FF0000000000000"

definition add_gps_measurement :: "MTK_GPS_MEASUREMENT \<Rightarrow> gps_data \<Rightarrow> gps_data" where
  "add_gps_measurement m d =
     (if mm_PRN m \<noteq> 0 then
        let num = gps_count d;
            x = gps_measurement_from m;
            x = (if pm_state x = 0 then x\<lparr>pm_received_gps_tow_ns := 0, pm_pseudorange_rate_mps := double_one\<rparr> else x)
        in d\<lparr>gps_measurements := (gps_measurements d)[num := x], gps_count := num + 1\<rparr>
      else d)"

definition get_gps_measurement_clock_data :: "gnss_lib \<Rightarrow> mnl2hal_msg list" where
  "get_gps_measurement_clock_data lib =
     (let d = fold add_gps_measurement (lib_gps lib)
            \<lparr>gps_count = 0, gps_measurements = replicate GPS_MAX_MEASUREMENT zero_gps_measurement,
             gps_clock_data = gps_clock_from (lib_gps_clock lib)\<rparr>
      in if 0 < gps_count d then [M2H_gps_measurements (gps_data_bytes d)] else [])"

definition update_gnss_measurement :: "gnss_measurement \<Rightarrow> gnss_measurement" where
  "update_gnss_measurement src = \<lparr>
     gm_flags = gm_flags src, gm_svid = gm_svid src, gm_constellation = gm_constellation src,
     gm_time_offset_ns = gm_time_offset_ns src, gm_state = gm_state src,
     gm_received_sv_time_in_ns = gm_received_sv_time_in_ns src,
     gm_received_sv_time_uncertainty_in_ns = gm_received_sv_time_uncertainty_in_ns src,
     gm_c_n0_dbhz = gm_c_n0_dbhz src, gm_pseudorange_rate_mps = gm_pseudorange_rate_mps src,
     gm_pseudorange_rate_uncertainty_mps = gm_pseudorange_rate_uncertainty_mps src,
     gm_accumulated_delta_range_state = gm_accumulated_delta_range_state src,
     gm_accumulated_delta_range_m = gm_accumulated_delta_range_m src,
     gm_accumulated_delta_range_uncertainty_m = gm_accumulated_delta_range_uncertainty_m src,
     gm_carrier_frequency_hz = gm_carrier_frequency_hz src,
     gm_carrier_cycles = gm_carrier_cycles src, gm_carrier_phase = gm_carrier_phase src,
     gm_carrier_phase_uncertainty = gm_carrier_phase_uncertainty src,
     gm_multipath_indicator = gm_multipath_indicator src, gm_snr_db = gm_snr_db src\<rparr>"

definition update_gnss_clock :: "gnss_clock \<Rightarrow> gnss_clock" where
  "update_gnss_clock src = \<lparr>
     gc_flags = gc_flags src, gc_leap_second = gc_leap_second src, gc_time_ns = gc_time_ns src,
     gc_time_uncertainty_ns = gc_time_uncertainty_ns src, gc_full_bias_ns = gc_full_bias_ns src,
     gc_bias_ns = gc_bias_ns src, gc_bias_uncertainty_ns = gc_bias_uncertainty_ns src,
     gc_drift_nsps = gc_drift_nsps src, gc_drift_uncertainty_nsps = gc_drift_uncertainty_nsps src,
     gc_hw_clock_discontinuity_count = gc_hw_clock_discontinuity_count src\<rparr>"

text \<open>One of the five loops; it breaks when the array is full.\<close>

fun add_gnss_measurements :: "gnss_measurement list \<Rightarrow> gnss_data \<Rightarrow> gnss_data" where
  "add_gnss_measurements [] d = d"
| "add_gnss_measurements (m # ms) d =
     (if gm_svid m \<noteq> 0 then
        let num = gnss_count d
        in if GNSS_MAX_MEASUREMENT \<le> num then d
           else
             let x = update_gnss_measurement m;
                 x = (if gm_state x = 0 then x\<lparr>gm_pseudorange_rate_mps := double_one\<rparr> else x)
             in add_gnss_measurements ms
                  (d\<lparr>gnss_measurements := (gnss_measurements d)[num := x], gnss_count := num + 1\<rparr>)
      else add_gnss_measurements ms d)"

definition get_gnss_measurement_clock_data :: "gnss_lib \<Rightarrow> mnl2hal_msg list" where
  "get_gnss_measurement_clock_data lib =
     (let d = \<lparr>gnss_count = 0, gnss_measurements = replicate GNSS_MAX_MEASUREMENT zero_gnss_measurement,
             gnss_clock_data = update_gnss_clock
               (case lib_gnss_clock lib of Some c \<Rightarrow> c | None \<Rightarrow> zero_gnss_clock)\<rparr>;
          d = add_gnss_measurements (lib_gpqz lib) d;
          d = add_gnss_measurements (lib_glo lib) d;
          d = add_gnss_measurements (lib_bd lib) d;
          d = add_gnss_measurements (lib_gal lib) d;
          d = add_gnss_measurements (lib_sbas lib) d
      in if 0 < gnss_count d then [M2H_gnss_measurements (gnss_data_bytes d)] else [])"

text \<open>A failed call zeroes the event; the status is never set.\<close>

definition gps_navigation_msg :: "MTK_GPS_NAVIGATION_EVENT option \<Rightarrow> gps_nav_msg" where
  "gps_navigation_msg e =
     (let e = (case e of Some e \<Rightarrow> e
                | None \<Rightarrow> \<lparr>ev_type = 0, ev_prn = 0, ev_messageID = 0, ev_submessageID = 0, ev_data = replicate 40 0\<rparr>)
      in \<lparr>pn_prn = ev_prn e, pn_type = ev_type e, pn_status = 0, pn_message_id = ev_messageID e,
          pn_submessage_id = ev_submessageID e, pn_data_length = 40, pn_data = ev_data e\<rparr>)"

definition get_gps_navigation_event :: "gnss_lib \<Rightarrow> mnl2hal_msg list" where
  "get_gps_navigation_event lib =
     map (\<lambda>svid. M2H_gps_navigation (gps_nav_msg_bytes (gps_navigation_msg (lib_gps_nav lib svid))))
       [0..<GPS_MAX_MEASUREMENT]"

definition update_gnss_navigation :: "GnssNavigationmessage \<Rightarrow> gnss_nav_msg" where
  "update_gnss_navigation src = \<lparr>gn_size = 0, gn_svid = nm_svid src, gn_type = nm_type src, gn_status = nm_status src,
     gn_message_id = nm_message_id src, gn_submessage_id = nm_submessage_id src,
     gn_data_length = nm_data_length src, gn_data_ptr = 0\<rparr>"

text \<open>One turn of the loops: the data is copied through the pointer of the zeroed message,
  \<open>memcpy(gnssnavigation.data, ..., gnssnavigation.data_length)\<close>, which is null.\<close>

definition gnss_navigation_msg :: "GnssNavigationmessage option \<Rightarrow> mnl2hal_msg option" where
  "gnss_navigation_msg e =
     (let m = update_gnss_navigation (case e of Some e \<Rightarrow> e
          | None \<Rightarrow> \<lparr>nm_svid = 0, nm_type = 0, nm_status = 0, nm_message_id = 0, nm_submessage_id = 0,
                     nm_data_length = 0, nm_data = replicate 40 0\<rparr>)
      in if gn_data_length m \<noteq> 0 then None else Some (M2H_gnss_navigation (gnss_nav_msg_bytes m)))"

fun all_some :: "'a option list \<Rightarrow> 'a list option" where
  "all_some [] = Some []"
| "all_some (None # xs) = None"
| "all_some (Some x # xs) = map_option (Cons x) (all_some xs)"

definition get_gnss_navigation_event :: "gnss_lib \<Rightarrow> mnl2hal_msg list option" where
  "get_gnss_navigation_event lib = all_some
     (map (\<lambda>svid. gnss_navigation_msg (lib_gnss_nav lib svid 1)) [1..<GPS_MAX_MEASUREMENT + 1] @
      map (\<lambda>svid. gnss_navigation_msg (lib_gnss_nav lib svid 16)) [1..<25] @
      map (\<lambda>svid. gnss_navigation_msg (lib_gnss_nav lib svid 32)) [1..<38] @
      map (\<lambda>svid. gnss_navigation_msg (lib_gnss_nav lib svid 4)) [1..<37])"

text \<open>The part of \<open>mtk_gps_sys_gps_mnl_callback\<close> that reports raw data when a fix is ready;
  \<open>started\<close> says that the driver state is \<open>MNL_GPS_STATE_START\<close>.\<close>

definition raw_data_reports :: "bool \<Rightarrow> gnss_lib \<Rightarrow> mnld_context \<Rightarrow> mnl2hal_msg list option" where
  "raw_data_reports started lib s =
     (let ms = (if is_gps_meas_enabled s \<and> started
                then get_gps_measurement_clock_data lib @ get_gnss_measurement_clock_data lib else [])
      in if is_gps_navi_enabled s \<and> started
         then map_option (\<lambda>ns. ms @ get_gps_navigation_event lib @ ns) (get_gnss_navigation_event lib)
         else Some ms)"

section \<open>What the HAL makes of them\<close>

text \<open>\<open>update_gps_measurements\<close> and \<open>update_gnss_measurements\<close> of the HAL copy the whole
  arrays member by member into the structures of the framework, which have the same members
  and a size.\<close>

definition hal_gps_measurement :: "gps_measurement \<Rightarrow> gps_measurement" where
  "hal_gps_measurement src = \<lparr>
     pm_flags = pm_flags src, pm_prn = pm_prn src, pm_time_offset_ns = pm_time_offset_ns src,
     pm_state = pm_state src, pm_received_gps_tow_ns = pm_received_gps_tow_ns src,
     pm_received_gps_tow_uncertainty_ns = pm_received_gps_tow_uncertainty_ns src,
     pm_c_n0_dbhz = pm_c_n0_dbhz src, pm_pseudorange_rate_mps = pm_pseudorange_rate_mps src,
     pm_pseudorange_rate_uncertainty_mps = pm_pseudorange_rate_uncertainty_mps src,
     pm_accumulated_delta_range_state = pm_accumulated_delta_range_state src,
     pm_accumulated_delta_range_m = pm_accumulated_delta_range_m src,
     pm_accumulated_delta_range_uncertainty_m = pm_accumulated_delta_range_uncertainty_m src,
     pm_pseudorange_m = pm_pseudorange_m src,
     pm_pseudorange_uncertainty_m = pm_pseudorange_uncertainty_m src,
     pm_code_phase_chips = pm_code_phase_chips src,
     pm_code_phase_uncertainty_chips = pm_code_phase_uncertainty_chips src,
     pm_carrier_frequency_hz = pm_carrier_frequency_hz src,
     pm_carrier_cycles = pm_carrier_cycles src, pm_carrier_phase = pm_carrier_phase src,
     pm_carrier_phase_uncertainty = pm_carrier_phase_uncertainty src,
     pm_loss_of_lock = pm_loss_of_lock src, pm_bit_number = pm_bit_number src,
     pm_time_from_last_bit_ms = pm_time_from_last_bit_ms src,
     pm_doppler_shift_hz = pm_doppler_shift_hz src,
     pm_doppler_shift_uncertainty_hz = pm_doppler_shift_uncertainty_hz src,
     pm_multipath_indicator = pm_multipath_indicator src, pm_snr_db = pm_snr_db src,
     pm_elevation_deg = pm_elevation_deg src,
     pm_elevation_uncertainty_deg = pm_elevation_uncertainty_deg src,
     pm_azimuth_deg = pm_azimuth_deg src,
     pm_azimuth_uncertainty_deg = pm_azimuth_uncertainty_deg src,
     pm_used_in_fix = pm_used_in_fix src\<rparr>"

definition hal_gps_clock :: "gps_clock \<Rightarrow> gps_clock" where
  "hal_gps_clock src = \<lparr>
     pc_flags = pc_flags src, pc_leap_second = pc_leap_second src, pc_type = pc_type src,
     pc_time_ns = pc_time_ns src, pc_time_uncertainty_ns = pc_time_uncertainty_ns src,
     pc_full_bias_ns = pc_full_bias_ns src, pc_bias_ns = pc_bias_ns src,
     pc_bias_uncertainty_ns = pc_bias_uncertainty_ns src, pc_drift_nsps = pc_drift_nsps src,
     pc_drift_uncertainty_nsps = pc_drift_uncertainty_nsps src\<rparr>"

definition hal_gps_data :: "gps_data \<Rightarrow> gps_data" where
  "hal_gps_data d = \<lparr>gps_count = gps_count d, gps_measurements = map hal_gps_measurement (gps_measurements d),
     gps_clock_data = hal_gps_clock (gps_clock_data d)\<rparr>"

definition hal_gnss_measurement :: "gnss_measurement \<Rightarrow> gnss_measurement" where
  "hal_gnss_measurement src = \<lparr>
     gm_flags = gm_flags src, gm_svid = gm_svid src, gm_constellation = gm_constellation src,
     gm_time_offset_ns = gm_time_offset_ns src, gm_state = gm_state src,
     gm_received_sv_time_in_ns = gm_received_sv_time_in_ns src,
     gm_received_sv_time_uncertainty_in_ns = gm_received_sv_time_uncertainty_in_ns src,
     gm_c_n0_dbhz = gm_c_n0_dbhz src, gm_pseudorange_rate_mps = gm_pseudorange_rate_mps src,
     gm_pseudorange_rate_uncertainty_mps = gm_pseudorange_rate_uncertainty_mps src,
     gm_accumulated_delta_range_state = gm_accumulated_delta_range_state src,
     gm_accumulated_delta_range_m = gm_accumulated_delta_range_m src,
     gm_accumulated_delta_range_uncertainty_m = gm_accumulated_delta_range_uncertainty_m src,
     gm_carrier_frequency_hz = gm_carrier_frequency_hz src,
     gm_carrier_cycles = gm_carrier_cycles src, gm_carrier_phase = gm_carrier_phase src,
     gm_carrier_phase_uncertainty = gm_carrier_phase_uncertainty src,
     gm_multipath_indicator = gm_multipath_indicator src, gm_snr_db = gm_snr_db src\<rparr>"

definition hal_gnss_clock :: "gnss_clock \<Rightarrow> gnss_clock" where
  "hal_gnss_clock src = \<lparr>
     gc_flags = gc_flags src, gc_leap_second = gc_leap_second src, gc_time_ns = gc_time_ns src,
     gc_time_uncertainty_ns = gc_time_uncertainty_ns src, gc_full_bias_ns = gc_full_bias_ns src,
     gc_bias_ns = gc_bias_ns src, gc_bias_uncertainty_ns = gc_bias_uncertainty_ns src,
     gc_drift_nsps = gc_drift_nsps src, gc_drift_uncertainty_nsps = gc_drift_uncertainty_nsps src,
     gc_hw_clock_discontinuity_count = gc_hw_clock_discontinuity_count src\<rparr>"

definition hal_gnss_data :: "gnss_data \<Rightarrow> gnss_data" where
  "hal_gnss_data d = \<lparr>gnss_count = gnss_count d, gnss_measurements = map hal_gnss_measurement (gnss_measurements d),
     gnss_clock_data = hal_gnss_clock (gnss_clock_data d)\<rparr>"

section \<open>Lemmas\<close>

lemma struct_sizes [simp]:
  "struct_size 8 gnss_measurement_types = 136" "struct_size 8 gnss_clock_types = 72"
  "struct_size 8 gps_measurement_types = 240" "struct_size 8 gps_clock_types = 64"
  by (simp_all add: struct_size_def gnss_measurement_types_def gnss_clock_types_def gps_measurement_types_def
      gps_clock_types_def padding_def)

lemma hal_copies [simp]:
  "hal_gps_measurement m = m" "hal_gps_clock c = c" "hal_gnss_measurement n = n" "hal_gnss_clock k = k"
  "update_gnss_measurement n = n" "update_gnss_clock k = k"
  by (simp_all add: hal_gps_measurement_def hal_gps_clock_def hal_gnss_measurement_def hal_gnss_clock_def
      update_gnss_measurement_def update_gnss_clock_def)

text \<open>The bytes of a report have the size the HAL expects, and give the report back.\<close>

lemma gnss_data_bytes_length:
  "length (gnss_measurements d) = GNSS_MAX_MEASUREMENT \<Longrightarrow> length (gnss_data_bytes d) = 8784"
  by (simp add: gnss_data_bytes_def length_concat comp_def sum_list_triv)

lemma gps_data_bytes_length:
  "length (gps_measurements d) = GPS_MAX_MEASUREMENT \<Longrightarrow> length (gps_data_bytes d) = 7752"
  by (simp add: gps_data_bytes_def length_concat comp_def sum_list_triv)

lemma gnss_measurement_round_trip [simp]:
  "gnss_measurement_of (struct_members gnss_measurement_types (struct_bytes 8 (gnss_measurement_members m) @ bs)) = m"
  using struct_round_trip [of "gnss_measurement_members m" 8 bs] by simp

lemma gps_measurement_round_trip [simp]:
  "gps_measurement_of (struct_members gps_measurement_types (struct_bytes 8 (gps_measurement_members m) @ bs)) = m"
  using struct_round_trip [of "gps_measurement_members m" 8 bs] by simp

lemma gnss_clock_round_trip [simp]:
  "gnss_clock_of (struct_members gnss_clock_types (struct_bytes 8 (gnss_clock_members m) @ bs)) = m"
  using struct_round_trip [of "gnss_clock_members m" 8 bs] by simp

lemma gps_clock_round_trip [simp]:
  "gps_clock_of (struct_members gps_clock_types (struct_bytes 8 (gps_clock_members m) @ bs)) = m"
  using struct_round_trip [of "gps_clock_members m" 8 bs] by simp

lemma drop_concat_blocks:
  "\<forall>b\<in>set bs. length b = k \<Longrightarrow> length bs = n \<Longrightarrow> drop (k * n) (concat bs @ xs) = xs"
proof -
  assume "\<forall>b\<in>set bs. length b = k" "length bs = n"
  moreover from this have "length (concat bs) = k * n"
    by (induction bs arbitrary: n) auto
  ultimately show ?thesis by simp
qed

lemma gnss_data_round_trip:
  assumes "length (gnss_measurements d) = GNSS_MAX_MEASUREMENT" "gnss_count d < 2 ^ 32"
  shows "gnss_data_of (gnss_data_bytes d) = d"
proof -
  let ?bs = "map (\<lambda>m. struct_bytes 8 (gnss_measurement_members m)) (gnss_measurements d)"
  let ?b = "gnss_data_bytes d"
  have "unat (le32 ?b) = gnss_count d"
    using assms(2) by (simp add: gnss_data_bytes_def unsigned_of_nat take_bit_nat_eq_self)
  moreover have d8: "drop 8 ?b = concat ?bs @ struct_bytes 8 (gnss_clock_members (gnss_clock_data d))"
    by (simp add: gnss_data_bytes_def)
  then have "drop (8 + 136 * GNSS_MAX_MEASUREMENT) ?b =
      drop (136 * GNSS_MAX_MEASUREMENT) (concat ?bs @ struct_bytes 8 (gnss_clock_members (gnss_clock_data d)))"
    by (metis add.commute drop_drop)
  then have "drop (8 + 136 * GNSS_MAX_MEASUREMENT) ?b = struct_bytes 8 (gnss_clock_members (gnss_clock_data d))"
    using assms(1) by (subst (asm) drop_concat_blocks) auto
  moreover have "map (\<lambda>c. gnss_measurement_of (struct_members gnss_measurement_types c))
      (chunks 136 GNSS_MAX_MEASUREMENT (concat ?bs @ xs)) = gnss_measurements d" for xs
    using assms(1) by (intro map_chunks_concat) auto
  ultimately show ?thesis
    using gnss_clock_round_trip [of _ "[]"] d8 by (simp add: gnss_data_of_def)
qed

lemma gps_data_round_trip:
  assumes "length (gps_measurements d) = GPS_MAX_MEASUREMENT" "gps_count d < 2 ^ 32"
  shows "gps_data_of (gps_data_bytes d) = d"
proof -
  let ?bs = "map (\<lambda>m. struct_bytes 8 (gps_measurement_members m)) (gps_measurements d)"
  let ?b = "gps_data_bytes d"
  have "unat (le32 ?b) = gps_count d"
    using assms(2) by (simp add: gps_data_bytes_def unsigned_of_nat take_bit_nat_eq_self)
  moreover have d8: "drop 8 ?b = concat ?bs @ struct_bytes 8 (gps_clock_members (gps_clock_data d))"
    by (simp add: gps_data_bytes_def)
  then have "drop (8 + 240 * GPS_MAX_MEASUREMENT) ?b =
      drop (240 * GPS_MAX_MEASUREMENT) (concat ?bs @ struct_bytes 8 (gps_clock_members (gps_clock_data d)))"
    by (metis add.commute drop_drop)
  then have "drop (8 + 240 * GPS_MAX_MEASUREMENT) ?b = struct_bytes 8 (gps_clock_members (gps_clock_data d))"
    using assms(1) by (subst (asm) drop_concat_blocks) auto
  moreover have "map (\<lambda>c. gps_measurement_of (struct_members gps_measurement_types c))
      (chunks 240 GPS_MAX_MEASUREMENT (concat ?bs @ xs)) = gps_measurements d" for xs
    using assms(1) by (intro map_chunks_concat) auto
  ultimately show ?thesis
    using gps_clock_round_trip [of _ "[]"] d8 by (simp add: gps_data_of_def)
qed

section \<open>The report, as it is meant\<close>

text \<open>The measurements of the satellites in view, with the rate replaced where nothing is known.\<close>

definition measured :: "gnss_measurement list \<Rightarrow> gnss_measurement list" where
  "measured ms = map (\<lambda>m. if gm_state m = 0 then m\<lparr>gm_pseudorange_rate_mps := double_one\<rparr> else m)
     (filter (\<lambda>m. gm_svid m \<noteq> 0) ms)"

definition gnss_report :: "gnss_measurement list \<Rightarrow> gnss_clock \<Rightarrow> gnss_data" where
  "gnss_report xs c = \<lparr>gnss_count = length xs,
     gnss_measurements = xs @ replicate (GNSS_MAX_MEASUREMENT - length xs) zero_gnss_measurement, gnss_clock_data = c\<rparr>"

lemma gnss_report_add:
  assumes "length xs < GNSS_MAX_MEASUREMENT"
  shows "(gnss_report xs c)\<lparr>gnss_measurements := (gnss_measurements (gnss_report xs c))[length xs := x],
      gnss_count := Suc (length xs)\<rparr> = gnss_report (xs @ [x]) c"
proof -
  have "replicate (GNSS_MAX_MEASUREMENT - length xs) zero_gnss_measurement =
      zero_gnss_measurement # replicate (GNSS_MAX_MEASUREMENT - Suc (length xs)) zero_gnss_measurement"
    using assms by (metis Suc_diff_Suc replicate_Suc)
  then show ?thesis by (simp add: gnss_report_def list_update_append)
qed

lemma add_gnss_measurements_report:
  assumes "length xs \<le> GNSS_MAX_MEASUREMENT"
  shows "add_gnss_measurements ms (gnss_report xs c) = gnss_report (take GNSS_MAX_MEASUREMENT (xs @ measured ms)) c"
  using assms
proof (induction ms arbitrary: xs)
  case Nil
  then show ?case by (simp add: measured_def)
next
  case (Cons m ms)
  show ?case
  proof (cases "gm_svid m \<noteq> 0 \<and> length xs < GNSS_MAX_MEASUREMENT")
    case True
    let ?x = "if gm_state m = 0 then m\<lparr>gm_pseudorange_rate_mps := double_one\<rparr> else m"
    have "add_gnss_measurements (m # ms) (gnss_report xs c) = add_gnss_measurements ms (gnss_report (xs @ [?x]) c)"
      using True gnss_report_add [of xs c ?x] by (simp add: Let_def gnss_report_def)
    then show ?thesis using Cons.IH [of "xs @ [?x]"] True by (simp add: measured_def)
  next
    case False
    then show ?thesis using Cons by (auto simp: measured_def gnss_report_def)
  qed
qed

lemma measured_append: "measured (xs @ ys) = measured xs @ measured ys"
  by (simp add: measured_def)

lemma add_gnss_measurements_take:
  "add_gnss_measurements ms (gnss_report (take GNSS_MAX_MEASUREMENT (measured xs)) c) =
     gnss_report (take GNSS_MAX_MEASUREMENT (measured (xs @ ms))) c"
  by (subst add_gnss_measurements_report) (simp_all add: measured_append min_def)

lemma get_gnss_measurements_eq:
  "get_gnss_measurement_clock_data lib =
    (let xs = take GNSS_MAX_MEASUREMENT (measured (lib_gpqz lib @ lib_glo lib @ lib_bd lib @ lib_gal lib @ lib_sbas lib));
         c = (case lib_gnss_clock lib of Some c \<Rightarrow> c | None \<Rightarrow> zero_gnss_clock)
     in if xs = [] then [] else [M2H_gnss_measurements (gnss_data_bytes (gnss_report xs c))])"
proof -
  have d: "\<lparr>gnss_count = 0, gnss_measurements = replicate GNSS_MAX_MEASUREMENT zero_gnss_measurement,
      gnss_clock_data = c\<rparr> = gnss_report (take GNSS_MAX_MEASUREMENT (measured [])) c" for c
    by (simp add: gnss_report_def measured_def)
  have "0 < gnss_count (gnss_report xs c) \<longleftrightarrow> xs \<noteq> []" for xs c
    by (simp add: gnss_report_def)
  then show ?thesis
    by (simp only: get_gnss_measurement_clock_data_def Let_def d add_gnss_measurements_take append_Nil append_assoc
        hal_copies not_not if_not_P) auto
qed

end
