(* ===== verification/Gnss_Sv.thy ===== *)
theory Gnss_Sv
  imports Struct_Layout
begin

text \<open>
  The satellites in view: the structures \<open>gnss_sv\<close> and \<open>gnss_sv_info\<close> of
  \<open>hal_mnl_interface_common.h\<close> and their bytes in the message of the daemon to the HAL.
\<close>

record gnss_sv =
  sv_svid :: c_short
  sv_constellation :: c_char
  sv_c_n0_dbhz :: c_float
  sv_elevation :: c_float
  sv_azimuth :: c_float
  sv_flags :: c_char

abbreviation GNSS_MAX_SVS :: nat where "GNSS_MAX_SVS \<equiv> 64"

record gnss_sv_info =
  num_svs :: int
  sv_list :: "gnss_sv list"

definition gnss_sv_types :: "c_type list" where
  "gnss_sv_types = [T16, T8, T32, T32, T32, T8]"

definition gnss_sv_members :: "gnss_sv \<Rightarrow> c_val list" where
  "gnss_sv_members s = [V16 (sv_svid s), V8 (sv_constellation s), V32 (sv_c_n0_dbhz s), V32 (sv_elevation s),
     V32 (sv_azimuth s), V8 (sv_flags s)]"

fun sv_v8 :: "c_val \<Rightarrow> c_char" where "sv_v8 (V8 b) = b" | "sv_v8 _ = 0"
fun sv_v16 :: "c_val \<Rightarrow> c_short" where "sv_v16 (V16 b) = b" | "sv_v16 _ = 0"
fun sv_v32 :: "c_val \<Rightarrow> c_int" where "sv_v32 (V32 b) = b" | "sv_v32 _ = 0"

definition gnss_sv_of :: "c_char list \<Rightarrow> gnss_sv" where
  "gnss_sv_of b = (let vs = struct_members gnss_sv_types b
     in \<lparr>sv_svid = sv_v16 (vs ! 0), sv_constellation = sv_v8 (vs ! 1), sv_c_n0_dbhz = sv_v32 (vs ! 2),
         sv_elevation = sv_v32 (vs ! 3), sv_azimuth = sv_v32 (vs ! 4), sv_flags = sv_v8 (vs ! 5)\<rparr>)"

definition gnss_sv_info_bytes :: "gnss_sv_info \<Rightarrow> c_char list" where
  "gnss_sv_info_bytes i = enc_int (word_of_int (num_svs i)) @
     concat (map (\<lambda>s. struct_bytes 4 (gnss_sv_members s)) (sv_list i))"

lemma gnss_sv_size [simp]: "struct_size 4 gnss_sv_types = 20"
  by (simp add: struct_size_def gnss_sv_types_def padding_def)

lemma gnss_sv_member_types [simp]: "map type_of (gnss_sv_members s) = gnss_sv_types"
  by (simp add: gnss_sv_members_def gnss_sv_types_def)

lemma gnss_sv_round_trip [simp]: "gnss_sv_of (struct_bytes 4 (gnss_sv_members s) @ bs) = s"
  using struct_round_trip [of "gnss_sv_members s" 4 bs] by (simp add: gnss_sv_of_def) (simp add: gnss_sv_members_def)

lemma gnss_sv_info_bytes_length:
  "length (sv_list i) = GNSS_MAX_SVS \<Longrightarrow> length (gnss_sv_info_bytes i) = 1284"
  by (simp add: gnss_sv_info_bytes_def length_concat comp_def sum_list_triv)

text \<open>The first \<open>n\<close> satellites of the array.\<close>

lemma chunks_take: "n \<le> m \<Longrightarrow> map f (chunks k n xs) = take n (map f (chunks k m xs))"
  by (induction n arbitrary: m xs; case_tac m) auto

lemma gnss_sv_list_round_trip:
  assumes "n \<le> length (sv_list i)"
  shows "map gnss_sv_of (chunks 20 n (drop 4 (gnss_sv_info_bytes i))) = take n (sv_list i)"
proof -
  let ?enc = "\<lambda>s. struct_bytes 4 (gnss_sv_members s)"
  have "map gnss_sv_of (chunks 20 (length (sv_list i)) (concat (map ?enc (sv_list i)) @ [])) = sv_list i"
    by (rule map_chunks_concat) auto
  then show ?thesis
    using chunks_take [OF assms, of gnss_sv_of 20 "concat (map ?enc (sv_list i))"]
    by (simp add: gnss_sv_info_bytes_def)
qed

end
