(* ===== verification/Gpshal.thy ===== *)
theory Gpshal
  imports Gnss_Data Gnss_Sv
begin

text \<open>
  The GPS HAL (\<open>gps_hal\<close>): the calls of the framework (\<open>gpsinf.c\<close>, \<open>agpsinf.c\<close>), its state
  (\<open>gpshal.c\<close>), and what it does with the messages of the daemon (\<open>gpshal_worker.c\<close>).
\<close>

section \<open>State\<close>

datatype gpshal_state = ST_UNKNOWN_HAL | ST_RESOURCE | ST_CLEANUP | ST_INIT | ST_STOP | ST_START

text \<open>The order of the enumeration is the order of the states.\<close>

fun state_num :: "gpshal_state \<Rightarrow> nat" where
  "state_num ST_UNKNOWN_HAL = 0" | "state_num ST_RESOURCE = 1" | "state_num ST_CLEANUP = 2"
| "state_num ST_INIT = 3" | "state_num ST_STOP = 4" | "state_num ST_START = 5"

lemma state_num_inject: "state_num a = state_num b \<longleftrightarrow> a = b"
  by (cases a; cases b) auto

instantiation gpshal_state :: linorder
begin

definition less_eq_gpshal_state :: "gpshal_state \<Rightarrow> gpshal_state \<Rightarrow> bool" where
  "less_eq_gpshal_state a b = (state_num a \<le> state_num b)"

definition less_gpshal_state :: "gpshal_state \<Rightarrow> gpshal_state \<Rightarrow> bool" where
  "less_gpshal_state a b = (state_num a < state_num b)"

instance
  by standard (auto simp: less_eq_gpshal_state_def less_gpshal_state_def state_num_inject)

end

text \<open>The notification of a network-initiated request; the flags and codes of the framework are
  kept by name.\<close>

datatype ni_flag = NEED_NOTIFY | NEED_VERIFY | PRIVACY_OVERRIDE

record ni_notification =
  ni_id :: c_int
  ni_flags :: "ni_flag list"
  ni_timeout :: nat
  ni_requestor_id :: "c_char list"
  ni_text :: "c_char list"
  ni_requestor_id_encoding :: c_int
  ni_text_encoding :: c_int

datatype agps_request = REQUEST_AGPS_DATA_CONN "c_char list" | RELEASE_AGPS_DATA_CONN

text \<open>Calls into the framework.\<close>

datatype app_call =
    Cb_set_capabilities c_int | Cb_set_system_info nat | Cb_create_thread
  | Cb_location gps_location | Cb_status c_int | Cb_gnss_sv_status "gnss_sv list"
  | Cb_nmea c_llong c_string c_int
  | Cb_measurement gps_data | Cb_navigation_message gps_nav_msg
  | Cb_gnss_measurement gnss_data | Cb_gnss_navigation_message gnss_nav_msg
  | Cb_acquire_wakelock | Cb_release_wakelock | Cb_request_utc_time
  | Cb_agps_status agps_request | Cb_ni_notify ni_notification
  | Cb_request_setid c_int | Cb_request_refloc c_int

text \<open>\<open>gpshal_context_t\<close>: which callback tables are set, the two states, and what was done:
  the calls into the framework and the messages that were sent.\<close>

record gpshal_context =
  gps_state_intent :: gpshal_state
  hal_state :: gpshal_state
  gps_cbs :: bool
  agps_cbs :: bool
  gpsni_cbs :: bool
  agpsril_cbs :: bool
  meas_cbs :: bool
  navimsg_cbs :: bool
  app_calls :: "app_call list"
  hal_sent :: "hal2mnl_msg list"

definition g_gpshal_ctx :: gpshal_context where
  "g_gpshal_ctx = \<lparr>gps_state_intent = ST_UNKNOWN_HAL, hal_state = ST_UNKNOWN_HAL, gps_cbs = False, agps_cbs = False,
     gpsni_cbs = False, agpsril_cbs = False, meas_cbs = False, navimsg_cbs = False, app_calls = [], hal_sent = []\<rparr>"

text \<open>
  The outcomes of system calls: whether the socket, the epoll descriptor, its registration and the
  thread can be had, and what \<open>socket\<close> and \<open>sendto\<close> give for a message. The lengths of
  \<open>requestor_id\<close> and \<open>text\<close> in the framework's \<open>GpsNiNotification\<close> are parameters too: its
  header is not in the repository.
\<close>

record hal_env =
  mnl2hal_fd_ok :: bool
  epoll_ok :: bool
  epoll_add_ok :: bool
  thread_ok :: bool
  sock :: "hal2mnl_msg \<Rightarrow> bool \<times> tx list"
  ni_short_len :: nat
  ni_long_len :: nat

definition call_app :: "bool \<Rightarrow> app_call \<Rightarrow> gpshal_context \<Rightarrow> gpshal_context option" where
  "call_app tab c s = (if tab then Some (s\<lparr>app_calls := app_calls s @ [c]\<rparr>) else None)"

text \<open>A sender's result is that of \<open>safe_sendto\<close>.\<close>

definition to_mnl :: "hal_env \<Rightarrow> hal2mnl_msg \<Rightarrow> gpshal_context \<Rightarrow> (int \<times> gpshal_context) option" where
  "to_mnl e m s = do {
     (q, d) \<leftarrow> send_hal2mnl m;
     let ret = fst (safe_sendto (fst (sock e m)) (snd (sock e m)) d);
     Some (ret, if 0 < ret then s\<lparr>hal_sent := hal_sent s @ [m]\<rparr> else s)
   }"

section \<open>gpshal.c\<close>

abbreviation GPS_CAP_SCHEDULING :: c_int where "GPS_CAP_SCHEDULING \<equiv> 1"
abbreviation GPS_CAP_MEASUREMENTS :: c_int where "GPS_CAP_MEASUREMENTS \<equiv> 0x40"

definition gpshal_resource_init :: "hal_env \<Rightarrow> gpshal_context \<Rightarrow> gpshal_context option" where
  "gpshal_resource_init e s = do {
     s \<leftarrow> Some (s\<lparr>gps_cbs := True\<rparr>);
     if gps_state_intent s \<noteq> ST_UNKNOWN_HAL then Some s
     else do {
       s \<leftarrow> call_app (gps_cbs s) (Cb_set_capabilities (GPS_CAP_SCHEDULING OR GPS_CAP_MEASUREMENTS)) s;
       s \<leftarrow> call_app (gps_cbs s) (Cb_set_system_info 2016) s;
       if \<not> mnl2hal_fd_ok e \<or> \<not> epoll_ok e \<or> \<not> epoll_add_ok e then Some s
       else do {
         s \<leftarrow> call_app (gps_cbs s) Cb_create_thread s;
         if thread_ok e then Some (s\<lparr>hal_state := ST_RESOURCE\<rparr>) else Some s
       }
     }
   }"

text \<open>\<open>size_ok\<close>: the caller's structure has the expected size.\<close>

definition gpshal_gpscbs_save :: "hal_env \<Rightarrow> bool \<Rightarrow> gpshal_context \<Rightarrow> (int \<times> gpshal_context) option" where
  "gpshal_gpscbs_save e size_ok s =
     (if size_ok then map_option (Pair 0) (gpshal_resource_init e s) else Some (- 1, s))"

text \<open>The four functions that send a message and note the new state when it was sent.\<close>

definition gpshal2mnl :: "hal_env \<Rightarrow> hal2mnl_msg \<Rightarrow> gpshal_state \<Rightarrow> gpshal_context \<Rightarrow> gpshal_context option" where
  "gpshal2mnl e m st s =
     (if ST_RESOURCE \<le> hal_state s then do {
        (ret, s) \<leftarrow> to_mnl e m s;
        Some (if 0 < ret then s\<lparr>hal_state := st\<rparr> else s)
      } else Some s)"

definition gpshal2mnl_gps_init :: "hal_env \<Rightarrow> gpshal_context \<Rightarrow> gpshal_context option" where
  "gpshal2mnl_gps_init e = gpshal2mnl e H2M_gps_init ST_INIT"

definition gpshal2mnl_gps_start :: "hal_env \<Rightarrow> gpshal_context \<Rightarrow> gpshal_context option" where
  "gpshal2mnl_gps_start e = gpshal2mnl e H2M_gps_start ST_START"

definition gpshal2mnl_gps_stop :: "hal_env \<Rightarrow> gpshal_context \<Rightarrow> gpshal_context option" where
  "gpshal2mnl_gps_stop e = gpshal2mnl e H2M_gps_stop ST_STOP"

definition gpshal2mnl_gps_cleanup :: "hal_env \<Rightarrow> gpshal_context \<Rightarrow> gpshal_context option" where
  "gpshal2mnl_gps_cleanup e = gpshal2mnl e H2M_gps_cleanup ST_CLEANUP"

section \<open>Calls of the framework\<close>

definition gpsinf_init :: "hal_env \<Rightarrow> bool \<Rightarrow> gpshal_context \<Rightarrow> (int \<times> gpshal_context) option" where
  "gpsinf_init e size_ok s = do {
     (ret, s) \<leftarrow> gpshal_gpscbs_save e size_ok s;
     if ret \<noteq> 0 then Some (- 1, s)
     else map_option (Pair 0) (gpshal2mnl_gps_init e (s\<lparr>gps_state_intent := ST_INIT\<rparr>))
   }"

definition gpsinf_start :: "hal_env \<Rightarrow> gpshal_context \<Rightarrow> (int \<times> gpshal_context) option" where
  "gpsinf_start e s = map_option (Pair 0) (gpshal2mnl_gps_start e (s\<lparr>gps_state_intent := ST_START\<rparr>))"

definition gpsinf_stop :: "hal_env \<Rightarrow> gpshal_context \<Rightarrow> (int \<times> gpshal_context) option" where
  "gpsinf_stop e s = map_option (Pair 0) (gpshal2mnl_gps_stop e (s\<lparr>gps_state_intent := ST_STOP\<rparr>))"

definition gpsinf_cleanup :: "hal_env \<Rightarrow> gpshal_context \<Rightarrow> gpshal_context option" where
  "gpsinf_cleanup e s = gpshal2mnl_gps_cleanup e (s\<lparr>gps_state_intent := ST_CLEANUP\<rparr>)"

text \<open>The calls that only send a message: the result of the sender is not looked at.\<close>

definition send_only :: "hal_env \<Rightarrow> hal2mnl_msg \<Rightarrow> gpshal_context \<Rightarrow> gpshal_context option" where
  "send_only e m s = map_option snd (to_mnl e m s)"

definition gps_device_get_gps_interface :: "hal_env \<Rightarrow> gpshal_context \<Rightarrow> gpshal_context option" where
  "gps_device_get_gps_interface e s = send_only e H2M_hal_reboot s"

definition gpsinf_inject_time :: "hal_env \<Rightarrow> c_llong \<Rightarrow> c_llong \<Rightarrow> c_int \<Rightarrow> gpshal_context \<Rightarrow> gpshal_context option" where
  "gpsinf_inject_time e t time_reference uncertainty = send_only e (H2M_gps_inject_time t time_reference uncertainty)"

definition gpsinf_inject_location :: "hal_env \<Rightarrow> c_double \<Rightarrow> c_double \<Rightarrow> c_float \<Rightarrow> gpshal_context \<Rightarrow> gpshal_context option" where
  "gpsinf_inject_location e lat lng acc = send_only e (H2M_gps_inject_location lat lng acc)"

definition gpsinf_delete_aiding_data :: "hal_env \<Rightarrow> c_int \<Rightarrow> gpshal_context \<Rightarrow> gpshal_context option" where
  "gpsinf_delete_aiding_data e flags = send_only e (H2M_gps_delete_aiding_data flags)"

text \<open>\<open>hal2mnl_gps_set_position_mode\<close> also sets the report interval of the throttle.\<close>

definition gpsinf_set_position_mode ::
  "hal_env \<Rightarrow> c_int \<Rightarrow> c_int \<Rightarrow> c_int \<Rightarrow> c_int \<Rightarrow> c_int \<Rightarrow> gpshal_context \<times> throttle \<Rightarrow> (gpshal_context \<times> throttle) option" where
  "gpsinf_set_position_mode e mode recurrence min_interval acc tm st = (case st of (s, t) \<Rightarrow>
     map_option (\<lambda>s. (s, t\<lparr>report_time_interval := report_interval min_interval\<rparr>))
       (send_only e (H2M_gps_set_position_mode mode recurrence min_interval acc tm) s))"

text \<open>The measurement and navigation interfaces answer whether the daemon could be told.\<close>

definition measinf_init :: "hal_env \<Rightarrow> gpshal_context \<Rightarrow> (bool \<times> gpshal_context) option" where
  "measinf_init e s = map_option (\<lambda>(r, s). (0 < r, s)) (to_mnl e (H2M_set_gps_measurement True) (s\<lparr>meas_cbs := True\<rparr>))"

definition measinf_close :: "hal_env \<Rightarrow> gpshal_context \<Rightarrow> gpshal_context option" where
  "measinf_close e = send_only e (H2M_set_gps_measurement False)"

definition navimsginf_init :: "hal_env \<Rightarrow> gpshal_context \<Rightarrow> (bool \<times> gpshal_context) option" where
  "navimsginf_init e s = map_option (\<lambda>(r, s). (0 < r, s)) (to_mnl e (H2M_set_gps_navigation True) (s\<lparr>navimsg_cbs := True\<rparr>))"

definition navimsginf_close :: "hal_env \<Rightarrow> gpshal_context \<Rightarrow> gpshal_context option" where
  "navimsginf_close e = send_only e (H2M_set_gps_navigation False)"

definition agpsinf_init :: "gpshal_context \<Rightarrow> gpshal_context" where
  "agpsinf_init s = s\<lparr>agps_cbs := True\<rparr>"

definition gpsni_init :: "gpshal_context \<Rightarrow> gpshal_context" where
  "gpsni_init s = s\<lparr>gpsni_cbs := True\<rparr>"

definition agps_ril_init :: "gpshal_context \<Rightarrow> gpshal_context" where
  "agps_ril_init s = s\<lparr>agpsril_cbs := True\<rparr>"

definition agpsinf_set_server :: "hal_env \<Rightarrow> c_int \<Rightarrow> c_string \<Rightarrow> c_int \<Rightarrow> gpshal_context \<Rightarrow> gpshal_context option" where
  "agpsinf_set_server e type hostname port = send_only e (H2M_set_server type hostname port)"

definition agpsinf_data_conn_open_with_apn_ip_type ::
  "hal_env \<Rightarrow> c_string \<Rightarrow> c_int \<Rightarrow> gpshal_context \<Rightarrow> gpshal_context option" where
  "agpsinf_data_conn_open_with_apn_ip_type e apn ip_type = send_only e (H2M_data_conn_open_with_apn_ip_type apn ip_type)"

definition gpsni_respond :: "hal_env \<Rightarrow> c_int \<Rightarrow> c_int \<Rightarrow> gpshal_context \<Rightarrow> gpshal_context option" where
  "gpsni_respond e notif_id user_response = send_only e (H2M_ni_respond notif_id user_response)"

text \<open>Only references to GSM and UMTS cells (types 1 and 2 of the framework) are passed on.\<close>

definition agps_ril_set_ref_location ::
  "hal_env \<Rightarrow> c_short \<Rightarrow> c_short \<Rightarrow> c_short \<Rightarrow> c_short \<Rightarrow> c_int \<Rightarrow> gpshal_context \<Rightarrow> gpshal_context option" where
  "agps_ril_set_ref_location e type mcc mnc lac cid s =
     (if type = 1 \<or> type = 2
      then send_only e (H2M_set_ref_location (ucast type) (ucast mcc) (ucast mnc) (ucast lac) cid) s
      else Some s)"

definition agps_ril_set_set_id :: "hal_env \<Rightarrow> c_int \<Rightarrow> c_string \<Rightarrow> gpshal_context \<Rightarrow> gpshal_context option" where
  "agps_ril_set_set_id e type setid = send_only e (H2M_set_id type setid)"

definition agps_ril_ni_message :: "hal_env \<Rightarrow> c_char list \<Rightarrow> gpshal_context \<Rightarrow> gpshal_context option" where
  "agps_ril_ni_message e msg = send_only e (H2M_ni_message msg)"

definition agps_ril_update_network_state ::
  "hal_env \<Rightarrow> c_int \<Rightarrow> c_int \<Rightarrow> c_int \<Rightarrow> c_string \<Rightarrow> gpshal_context \<Rightarrow> gpshal_context option" where
  "agps_ril_update_network_state e conn type roaming extra = send_only e (H2M_update_network_state conn type roaming extra)"

definition agps_ril_update_network_availability :: "hal_env \<Rightarrow> c_int \<Rightarrow> c_string \<Rightarrow> gpshal_context \<Rightarrow> gpshal_context option" where
  "agps_ril_update_network_availability e available apn = send_only e (H2M_update_network_availability available apn)"

section \<open>Messages of the daemon (\<open>gpshal_worker.c\<close>)\<close>

definition update_mnld_reboot :: "hal_env \<Rightarrow> gpshal_context \<Rightarrow> gpshal_context option" where
  "update_mnld_reboot e s =
     (if gps_state_intent s = ST_INIT \<or> gps_state_intent s = ST_STOP then gpshal2mnl_gps_init e s
      else if gps_state_intent s = ST_START then do {
        s \<leftarrow> gpshal2mnl_gps_init e s;
        gpshal2mnl_gps_start e s
      } else Some s)"

text \<open>The framework's flags are 16 bits.\<close>

definition update_location :: "c_char list \<Rightarrow> gpshal_context \<Rightarrow> gpshal_context option" where
  "update_location b s =
     (if gps_state_intent s = ST_START
      then let l = gps_location_of b
           in call_app (gps_cbs s) (Cb_location (l\<lparr>loc_flags := ucast (ucast (loc_flags l) :: c_short)\<rparr>)) s
      else Some s)"

definition update_gps_status :: "c_int \<Rightarrow> gpshal_context \<Rightarrow> gpshal_context option" where
  "update_gps_status status s = call_app (gps_cbs s) (Cb_status status) s"

text \<open>\<open>num_svs\<close> is not compared with the 64 elements of the arrays.\<close>

definition update_gps_sv :: "c_char list \<Rightarrow> gpshal_context \<Rightarrow> gpshal_context option" where
  "update_gps_sv b s =
     (let n = nat (sint (le32 b))
      in if GNSS_MAX_SVS < n then None
         else call_app (gps_cbs s) (Cb_gnss_sv_status (map gnss_sv_of (chunks 20 n (drop 4 b)))) s)"

definition update_nmea :: "c_llong \<Rightarrow> c_string \<Rightarrow> c_int \<Rightarrow> gpshal_context \<Rightarrow> gpshal_context option" where
  "update_nmea timestamp nmea len s = call_app (gps_cbs s) (Cb_nmea timestamp nmea len) s"

definition update_gps_capabilities :: "c_int \<Rightarrow> gpshal_context \<Rightarrow> gpshal_context option" where
  "update_gps_capabilities capabilities s = call_app (gps_cbs s) (Cb_set_capabilities capabilities) s"

definition update_gps_measurements :: "c_char list \<Rightarrow> gpshal_context \<Rightarrow> gpshal_context option" where
  "update_gps_measurements b s = call_app (meas_cbs s) (Cb_measurement (hal_gps_data (gps_data_of b))) s"

definition update_gps_navigation :: "c_char list \<Rightarrow> gpshal_context \<Rightarrow> gpshal_context option" where
  "update_gps_navigation b s = call_app (navimsg_cbs s) (Cb_navigation_message (gps_nav_msg_of b)) s"

definition update_gnss_measurements :: "c_char list \<Rightarrow> gpshal_context \<Rightarrow> gpshal_context option" where
  "update_gnss_measurements b s = call_app (meas_cbs s) (Cb_gnss_measurement (hal_gnss_data (gnss_data_of b))) s"

definition hal_gnss_navigation :: "c_char list \<Rightarrow> gpshal_context \<Rightarrow> gpshal_context option" where
  "hal_gnss_navigation b s = call_app (navimsg_cbs s) (Cb_gnss_navigation_message (gnss_nav_msg_of b)) s"

definition request_wakelock :: "gpshal_context \<Rightarrow> gpshal_context option" where
  "request_wakelock s = call_app (gps_cbs s) Cb_acquire_wakelock s"

definition release_wakelock :: "gpshal_context \<Rightarrow> gpshal_context option" where
  "release_wakelock s = call_app (gps_cbs s) Cb_release_wakelock s"

definition request_utc_time :: "gpshal_context \<Rightarrow> gpshal_context option" where
  "request_utc_time s = call_app (gps_cbs s) Cb_request_utc_time s"

definition request_data_conn :: "c_char list \<Rightarrow> gpshal_context \<Rightarrow> gpshal_context option" where
  "request_data_conn addr s = call_app (agps_cbs s) (Cb_agps_status (REQUEST_AGPS_DATA_CONN addr)) s"

definition release_data_conn :: "gpshal_context \<Rightarrow> gpshal_context option" where
  "release_data_conn s = call_app (agps_cbs s) (Cb_agps_status RELEASE_AGPS_DATA_CONN) s"

definition ni_notify_flags :: "c_int \<Rightarrow> ni_flag list" where
  "ni_notify_flags type =
     (if type = 1 then [NEED_NOTIFY]
      else if type = 2 \<or> type = 3 then [NEED_NOTIFY, NEED_VERIFY]
      else if type = 4 then [PRIVACY_OVERRIDE]
      else [])"

text \<open>\<open>strcpy\<close> into an array of \<open>n\<close> characters; a null string is undefined.\<close>

definition strcpy :: "nat \<Rightarrow> c_string \<Rightarrow> c_char list option" where
  "strcpy n s = (case s of None \<Rightarrow> None | Some t \<Rightarrow> if length t < n then Some t else None)"

definition request_ni_notify ::
  "hal_env \<Rightarrow> c_int \<Rightarrow> c_int \<Rightarrow> c_string \<Rightarrow> c_string \<Rightarrow> c_int \<Rightarrow> c_int \<Rightarrow> gpshal_context \<Rightarrow> gpshal_context option" where
  "request_ni_notify e session_id type requestor_id client_name requestor_id_encoding client_name_encoding s = do {
     r \<leftarrow> strcpy (ni_short_len e) requestor_id;
     t \<leftarrow> strcpy (ni_long_len e) client_name;
     call_app (gpsni_cbs s) (Cb_ni_notify \<lparr>ni_id = session_id, ni_flags = ni_notify_flags type, ni_timeout = 8,
       ni_requestor_id = r, ni_text = t, ni_requestor_id_encoding = requestor_id_encoding,
       ni_text_encoding = client_name_encoding\<rparr>) s
   }"

definition request_set_id :: "c_int \<Rightarrow> gpshal_context \<Rightarrow> gpshal_context option" where
  "request_set_id flags s = call_app (agpsril_cbs s) (Cb_request_setid flags) s"

definition request_ref_loc :: "c_int \<Rightarrow> gpshal_context \<Rightarrow> gpshal_context option" where
  "request_ref_loc flags s = call_app (agpsril_cbs s) (Cb_request_refloc flags) s"

definition gpshal_mnl2hal_interface :: "hal_env \<Rightarrow> gpshal_context mnl2hal_interface" where
  "gpshal_mnl2hal_interface e = \<lparr>
     mh_mnld_reboot = Some (update_mnld_reboot e),
     mh_location = Some update_location,
     mh_gps_status = Some update_gps_status,
     mh_gps_sv = Some update_gps_sv,
     mh_nmea = Some update_nmea,
     mh_gps_capabilities = Some update_gps_capabilities,
     mh_gps_measurements = Some update_gps_measurements,
     mh_gps_navigation = Some update_gps_navigation,
     mh_gnss_measurements = Some update_gnss_measurements,
     mh_gnss_navigation = Some hal_gnss_navigation,
     mh_request_wakelock = Some request_wakelock,
     mh_release_wakelock = Some release_wakelock,
     mh_request_utc_time = Some request_utc_time,
     mh_request_data_conn = Some request_data_conn,
     mh_release_data_conn = Some release_data_conn,
     mh_request_ni_notify = Some (request_ni_notify e),
     mh_request_set_id = Some request_set_id,
     mh_request_ref_loc = Some request_ref_loc\<rparr>"

end
