(* ===== verification/Gpshal_Properties.thy ===== *)
theory Gpshal_Properties
  imports Gpshal Mnld_Properties Mnld_Handlers
begin

text \<open>
  Properties of the HAL, alone and together with the daemon: how it recovers when the daemon is
  restarted, what the framework gets to see, and how raw measurements reach it.
\<close>

section \<open>Runs of the HAL\<close>

text \<open>What can happen to the HAL: a call of the framework, or a message of the daemon. The calls
  that only send a message are one constructor.\<close>

datatype hal_op =
    Op_init bool | Op_start | Op_stop | Op_cleanup | Op_set_position_mode c_int c_int c_int c_int c_int
  | Op_send hal2mnl_msg | Op_agps_init | Op_ni_init | Op_ril_init | Op_meas_init | Op_navi_init
  | Op_message mnl2hal_msg

fun run_op :: "hal_env \<Rightarrow> hal_op \<Rightarrow> gpshal_context \<times> throttle \<Rightarrow> (gpshal_context \<times> throttle) option" where
  "run_op e (Op_init size_ok) (s, t) = map_option (\<lambda>(r, s). (s, t)) (gpsinf_init e size_ok s)"
| "run_op e Op_start (s, t) = map_option (\<lambda>(r, s). (s, t)) (gpsinf_start e s)"
| "run_op e Op_stop (s, t) = map_option (\<lambda>(r, s). (s, t)) (gpsinf_stop e s)"
| "run_op e Op_cleanup (s, t) = map_option (\<lambda>s. (s, t)) (gpsinf_cleanup e s)"
| "run_op e (Op_set_position_mode a b c d f) (s, t) = gpsinf_set_position_mode e a b c d f (s, t)"
| "run_op e (Op_send m) (s, t) = map_option (\<lambda>s. (s, t)) (send_only e m s)"
| "run_op e Op_agps_init (s, t) = Some (agpsinf_init s, t)"
| "run_op e Op_ni_init (s, t) = Some (gpsni_init s, t)"
| "run_op e Op_ril_init (s, t) = Some (agps_ril_init s, t)"
| "run_op e Op_meas_init (s, t) = map_option (\<lambda>(r, s). (s, t)) (measinf_init e s)"
| "run_op e Op_navi_init (s, t) = map_option (\<lambda>(r, s). (s, t)) (navimsginf_init e s)"
| "run_op e (Op_message m) (s, t) = map_option (\<lambda>(r, st). st) (call_mnl2hal (gpshal_mnl2hal_interface e) m (s, t))"

fun run_ops :: "hal_env \<Rightarrow> hal_op list \<Rightarrow> gpshal_context \<times> throttle \<Rightarrow> (gpshal_context \<times> throttle) option" where
  "run_ops e [] st = Some st"
| "run_ops e (x # xs) st = do { st \<leftarrow> run_op e x st; run_ops e xs st }"

lemmas hal_callbacks = update_mnld_reboot_def update_location_def update_gps_status_def update_gps_sv_def
  update_nmea_def update_gps_capabilities_def update_gps_measurements_def update_gps_navigation_def
  update_gnss_measurements_def hal_gnss_navigation_def request_wakelock_def release_wakelock_def
  request_utc_time_def request_data_conn_def release_data_conn_def request_ni_notify_def request_set_id_def
  request_ref_loc_def

lemmas hal_calls = gpsinf_init_def gpsinf_start_def gpsinf_stop_def gpsinf_cleanup_def gpsinf_set_position_mode_def
  send_only_def agpsinf_init_def gpsni_init_def agps_ril_init_def measinf_init_def navimsginf_init_def
  gpshal_gpscbs_save_def gpshal_resource_init_def gpshal2mnl_gps_init_def gpshal2mnl_gps_start_def
  gpshal2mnl_gps_stop_def gpshal2mnl_gps_cleanup_def gpshal2mnl_def

fun is_location :: "app_call \<Rightarrow> bool" where
  "is_location (Cb_location _) = True"
| "is_location _ = False"

abbreviation locations :: "gpshal_context \<Rightarrow> app_call list" where
  "locations s \<equiv> filter is_location (app_calls s)"

lemma to_mnl_fields:
  assumes "to_mnl e m s = Some (r, s')"
  shows "app_calls s' = app_calls s" "gps_state_intent s' = gps_state_intent s" "hal_state s' = hal_state s"
    "hal_sent s' = hal_sent s \<or> hal_sent s' = hal_sent s @ [m]"
  using assms by (auto simp: to_mnl_def Let_def split: Option.bind_splits if_splits)

lemma to_mnl_kept:
  "to_mnl e m s = Some (r, s') \<Longrightarrow> app_calls s' = app_calls s \<and> gps_state_intent s' = gps_state_intent s"
  by (simp add: to_mnl_fields(1,2))

lemma call_app_Some: "call_app tab c s = Some s' \<longleftrightarrow> tab \<and> s' = s\<lparr>app_calls := app_calls s @ [c]\<rparr>"
  by (auto simp: call_app_def)

lemma gpshal2mnl_fields:
  assumes "gpshal2mnl e m st s = Some s'"
  shows "app_calls s' = app_calls s \<and> gps_state_intent s' = gps_state_intent s \<and>
    (hal_state s < ST_RESOURCE \<longrightarrow> s' = s)"
proof (cases "ST_RESOURCE \<le> hal_state s")
  case True
  then obtain r s1 where s1: "to_mnl e m s = Some (r, s1)" and "s' = (if 0 < r then s1\<lparr>hal_state := st\<rparr> else s1)"
    using assms by (auto simp: gpshal2mnl_def split: Option.bind_splits)
  then show ?thesis using to_mnl_fields(1,2) [OF s1] True by (simp add: not_less [symmetric] del: not_less)
next
  case False
  then show ?thesis using assms by (simp add: gpshal2mnl_def)
qed

lemma update_mnld_reboot_fields:
  assumes "update_mnld_reboot e s = Some s'"
  shows "app_calls s' = app_calls s \<and> gps_state_intent s' = gps_state_intent s \<and>
    (hal_state s < ST_RESOURCE \<longrightarrow> s' = s)"
proof (cases "gps_state_intent s = ST_START")
  case True
  then obtain s1 where s1: "gpshal2mnl e H2M_gps_init ST_INIT s = Some s1" "gpshal2mnl e H2M_gps_start ST_START s1 = Some s'"
    using assms by (auto simp: update_mnld_reboot_def gpshal2mnl_gps_init_def gpshal2mnl_gps_start_def
        split: Option.bind_splits)
  show ?thesis using gpshal2mnl_fields [OF s1(1)] gpshal2mnl_fields [OF s1(2)] by auto
next
  case False
  then show ?thesis
    using assms gpshal2mnl_fields [of e H2M_gps_init ST_INIT s s']
    by (auto simp: update_mnld_reboot_def gpshal2mnl_gps_init_def split: if_splits)
qed

text \<open>A message of the daemon other than \<open>MNLD_REBOOT\<close> makes at most one call into the framework
  and changes nothing else; a location is passed on only when the framework has started.\<close>

lemma message_calls:
  assumes "call_mnl2hal (gpshal_mnl2hal_interface e) m (s, t) = Some (r, s', t')" "m \<noteq> M2H_mnld_reboot"
  shows "s' = s \<or> (\<exists>c. s' = s\<lparr>app_calls := app_calls s @ [c]\<rparr> \<and> (is_location c \<longrightarrow> gps_state_intent s = ST_START))"
  using assms
  by (cases m) (auto simp: gpshal_mnl2hal_interface_def hal_callbacks call_app_Some Let_def
      split: if_splits Option.bind_splits bool.splits prod.splits)

lemma message_fields:
  assumes "call_mnl2hal (gpshal_mnl2hal_interface e) m (s, t) = Some (r, s', t')"
  shows "gps_state_intent s' = gps_state_intent s \<and>
    (gps_state_intent s \<noteq> ST_START \<longrightarrow> locations s' = locations s) \<and>
    (hal_state s < ST_RESOURCE \<longrightarrow> hal_state s' = hal_state s \<and> hal_sent s' = hal_sent s)"
proof (cases "m = M2H_mnld_reboot")
  case True
  then show ?thesis
    using assms update_mnld_reboot_fields by (fastforce simp: gpshal_mnl2hal_interface_def)
next
  case False
  then show ?thesis using message_calls [OF assms] by auto
qed

section \<open>What the framework sees\<close>

lemma run_op_location:
  assumes "run_op e x (s, t) = Some (s', t')" "gps_state_intent s \<noteq> ST_START" "x \<noteq> Op_start"
  shows "gps_state_intent s' \<noteq> ST_START \<and> locations s' = locations s"
proof (cases x)
  case (Op_message m)
  then show ?thesis using assms message_fields [of e m s t _ s' t'] by auto
next
  case (Op_init size_ok)
  obtain r s1 where s1: "gpshal_gpscbs_save e size_ok s = Some (r, s1)"
    using assms Op_init by (auto simp: gpsinf_init_def split: Option.bind_splits)
  then have "gps_state_intent s1 = gps_state_intent s" "locations s1 = locations s"
    by (auto simp: gpshal_gpscbs_save_def gpshal_resource_init_def call_app_Some split: if_splits Option.bind_splits)
  then show ?thesis
    using assms Op_init s1 gpshal2mnl_fields [of e H2M_gps_init ST_INIT "s1\<lparr>gps_state_intent := ST_INIT\<rparr>" s']
    by (auto simp: gpsinf_init_def gpshal2mnl_gps_init_def split: if_splits)
next
  case Op_stop
  then show ?thesis
    using assms gpshal2mnl_fields [of e H2M_gps_stop ST_STOP "s\<lparr>gps_state_intent := ST_STOP\<rparr>" s']
    by (auto simp: gpsinf_stop_def gpshal2mnl_gps_stop_def)
next
  case Op_cleanup
  then show ?thesis
    using assms gpshal2mnl_fields [of e H2M_gps_cleanup ST_CLEANUP "s\<lparr>gps_state_intent := ST_CLEANUP\<rparr>" s']
    by (auto simp: gpsinf_cleanup_def gpshal2mnl_gps_cleanup_def)
qed (use assms in \<open>auto simp: gpsinf_set_position_mode_def send_only_def agpsinf_init_def gpsni_init_def
       agps_ril_init_def measinf_init_def navimsginf_init_def dest!: to_mnl_kept\<close>)

text \<open>As long as the framework has not started GPS (or after it has stopped or cleaned up, until
  it starts again) it gets no location, whatever else it calls and whatever the daemon sends.\<close>

theorem no_location_unasked:
  assumes "gps_state_intent s \<noteq> ST_START" "Op_start \<notin> set xs" "run_ops e xs (s, t) = Some (s', t')"
  shows "locations s' = locations s"
  using assms
proof (induction xs arbitrary: s t)
  case (Cons x xs)
  then obtain s1 t1 where "run_op e x (s, t) = Some (s1, t1)" "run_ops e xs (s1, t1) = Some (s', t')"
    by (auto split: Option.bind_splits)
  then show ?case using Cons run_op_location [of e x s t s1 t1] by auto
qed simp

definition hal_env0 :: hal_env where
  "hal_env0 = \<lparr>mnl2hal_fd_ok = True, epoll_ok = True, epoll_add_ok = True, thread_ok = True,
     sock = (\<lambda>_. (True, [TxOk])), ni_short_len = 256, ni_long_len = 2048\<rparr>"

lemma to_mnl_sent:
  assumes "send_hal2mnl m = Some (q, d)" "0 < length d"
  shows "to_mnl hal_env0 m s = Some (int (length d), s\<lparr>hal_sent := hal_sent s @ [m]\<rparr>)"
  using assms by (simp add: to_mnl_def hal_env0_def safe_sendto_def)

lemma send_session:
  "send_hal2mnl H2M_gps_init = Some (MTK_HAL2MNL, wire_hal2mnl H2M_gps_init)"
  "send_hal2mnl H2M_gps_start = Some (MTK_HAL2MNL, wire_hal2mnl H2M_gps_start)"
  "send_hal2mnl H2M_gps_stop = Some (MTK_HAL2MNL, wire_hal2mnl H2M_gps_stop)"
  by (subst send_hal2mnl_eq; simp)+

definition ctx_up :: gpshal_context where
  "ctx_up = g_gpshal_ctx\<lparr>gps_cbs := True, gps_state_intent := ST_STOP, hal_state := ST_STOP\<rparr>"

theorem no_location_unasked_witness:
  "run_ops hal_env0 [Op_message (M2H_location (replicate 56 0))] (ctx_up, throttle_init) =
     Some (ctx_up, \<lparr>count = 0, report_time_interval = 0\<rparr>) \<and> locations ctx_up = []"
proof
  have tick: "throttle_tick throttle_init = (False, \<lparr>count = 0, report_time_interval = 0\<rparr>)"
    using fl_of_nat [of 1 24] by (simp add: throttle_tick_def throttle_init_def Let_def)
  show run: "run_ops hal_env0 [Op_message (M2H_location (replicate 56 0))] (ctx_up, throttle_init) =
     Some (ctx_up, \<lparr>count = 0, report_time_interval = 0\<rparr>)"
    by (simp add: gpshal_mnl2hal_interface_def update_location_def ctx_up_def tick)
  have "locations ctx_up = locations ctx_up"
    by (rule no_location_unasked [OF _ _ run]) (simp_all add: ctx_up_def)
  then show "locations ctx_up = []" by (simp add: ctx_up_def g_gpshal_ctx_def)
qed

section \<open>Initialisation is tried once\<close>

definition session_msgs :: "hal2mnl_msg list \<Rightarrow> hal2mnl_msg list" where
  "session_msgs ms = filter (\<lambda>m. m \<in> {H2M_gps_init, H2M_gps_start, H2M_gps_stop, H2M_gps_cleanup}) ms"

text \<open>A run only passes on messages that are not those of a session, unless the HAL sends them.\<close>

fun plain_op :: "hal_op \<Rightarrow> bool" where
  "plain_op (Op_send m) = (session_msgs [m] = [])"
| "plain_op _ = True"

lemma run_op_unusable:
  assumes "run_op e x (s, t) = Some (s', t')" "hal_state s = ST_UNKNOWN_HAL" "gps_state_intent s \<noteq> ST_UNKNOWN_HAL"
    "plain_op x"
  shows "hal_state s' = ST_UNKNOWN_HAL \<and> gps_state_intent s' \<noteq> ST_UNKNOWN_HAL \<and>
    session_msgs (hal_sent s') = session_msgs (hal_sent s)"
proof -
  have low: "hal_state s < ST_RESOURCE" "\<not> ST_RESOURCE \<le> hal_state s"
    using assms(2) by (auto simp: less_gpshal_state_def less_eq_gpshal_state_def)
  show ?thesis
  proof (cases x)
    case (Op_message m)
    then show ?thesis using assms low message_fields [of e m s t _ s' t'] by auto
  next
    case (Op_send m)
    then show ?thesis
      using assms to_mnl_fields [of e m s _ s'] by (auto simp: send_only_def session_msgs_def)
  next
    case (Op_set_position_mode a b c d f)
    then show ?thesis
      using assms to_mnl_fields [of e "H2M_gps_set_position_mode a b c d f" s _ s']
      by (auto simp: gpsinf_set_position_mode_def send_only_def session_msgs_def)
  next
    case Op_meas_init
    then show ?thesis
      using assms to_mnl_fields [of e "H2M_set_gps_measurement True" "s\<lparr>meas_cbs := True\<rparr>" _ s']
      by (auto simp: measinf_init_def session_msgs_def)
  next
    case Op_navi_init
    then show ?thesis
      using assms to_mnl_fields [of e "H2M_set_gps_navigation True" "s\<lparr>navimsg_cbs := True\<rparr>" _ s']
      by (auto simp: navimsginf_init_def session_msgs_def)
  qed (use assms low in \<open>auto simp: gpsinf_init_def gpsinf_start_def gpsinf_stop_def gpsinf_cleanup_def
         gpshal_gpscbs_save_def gpshal_resource_init_def gpshal2mnl_gps_init_def gpshal2mnl_gps_start_def
         gpshal2mnl_gps_stop_def gpshal2mnl_gps_cleanup_def gpshal2mnl_def agpsinf_init_def gpsni_init_def
         agps_ril_init_def split: if_splits\<close>)
qed

lemma failed_resource_init:
  assumes "\<not> (mnl2hal_fd_ok e \<and> epoll_ok e \<and> epoll_add_ok e \<and> thread_ok e)"
  shows "\<exists>cs. gpshal_resource_init e g_gpshal_ctx = Some (g_gpshal_ctx\<lparr>gps_cbs := True, app_calls := cs\<rparr>)"
  using assms by (auto simp: gpshal_resource_init_def g_gpshal_ctx_def call_app_def)

lemma failed_init:
  assumes "\<not> (mnl2hal_fd_ok e \<and> epoll_ok e \<and> epoll_add_ok e \<and> thread_ok e)"
  shows "\<exists>cs. gpsinf_init e True g_gpshal_ctx =
    Some (0, g_gpshal_ctx\<lparr>gps_cbs := True, app_calls := cs, gps_state_intent := ST_INIT\<rparr>)"
  using failed_resource_init [OF assms]
  by (auto simp: gpsinf_init_def gpshal_gpscbs_save_def gpshal2mnl_gps_init_def gpshal2mnl_def g_gpshal_ctx_def
      less_eq_gpshal_state_def)

text \<open>When the HAL's first initialisation cannot get its socket, its epoll descriptor or its thread,
  it still answers the framework with success; and from then on no call and no message makes it
  try again or send an init, start, stop or cleanup: GPS stays unusable until the process ends.\<close>

theorem failed_init_is_permanent:
  assumes "\<not> (mnl2hal_fd_ok e \<and> epoll_ok e \<and> epoll_add_ok e \<and> thread_ok e)" "\<forall>x\<in>set xs. plain_op x"
    and "run_ops e' xs (s, t) = Some (s', t')" "gpsinf_init e True g_gpshal_ctx = Some (r, s)"
  shows "r = 0 \<and> hal_state s' = ST_UNKNOWN_HAL \<and> session_msgs (hal_sent s') = []"
proof -
  have "r = 0 \<and> hal_state s = ST_UNKNOWN_HAL \<and> gps_state_intent s = ST_INIT \<and> session_msgs (hal_sent s) = []"
    using failed_init [OF assms(1)] assms(4) by (auto simp: session_msgs_def g_gpshal_ctx_def)
  then have start: "r = 0" "hal_state s = ST_UNKNOWN_HAL" "gps_state_intent s \<noteq> ST_UNKNOWN_HAL"
    "session_msgs (hal_sent s) = []" by auto
  have "hal_state s' = ST_UNKNOWN_HAL \<and> session_msgs (hal_sent s') = []"
    using assms(2,3) start(2-)
  proof (induction xs arbitrary: s t)
    case (Cons x xs)
    then obtain s1 t1 where "run_op e' x (s, t) = Some (s1, t1)" "run_ops e' xs (s1, t1) = Some (s', t')"
      by (auto split: Option.bind_splits)
    then show ?case using Cons run_op_unusable [of e' x s t s1 t1] by auto
  qed simp
  then show ?thesis using start(1) by simp
qed

theorem failed_init_is_permanent_witness:
  "\<exists>s s' t'. gpsinf_init (hal_env0\<lparr>mnl2hal_fd_ok := False\<rparr>) True g_gpshal_ctx = Some (0, s) \<and>
    run_ops hal_env0 [Op_init True, Op_start] (s, throttle_init) = Some (s', t') \<and> session_msgs (hal_sent s') = []"
proof -
  let ?s = "g_gpshal_ctx\<lparr>gps_cbs := True, gps_state_intent := ST_INIT, app_calls := [Cb_set_capabilities 0x41,
      Cb_set_system_info 2016]\<rparr>"
  have init: "gpsinf_init (hal_env0\<lparr>mnl2hal_fd_ok := False\<rparr>) True g_gpshal_ctx = Some (0, ?s)"
    by (simp add: gpsinf_init_def gpshal_gpscbs_save_def gpshal_resource_init_def g_gpshal_ctx_def call_app_def
        gpshal2mnl_gps_init_def gpshal2mnl_def less_eq_gpshal_state_def)
  have run: "run_ops hal_env0 [Op_init True, Op_start] (?s, throttle_init) =
      Some (?s\<lparr>gps_state_intent := ST_START\<rparr>, throttle_init)"
    by (simp add: gpsinf_init_def gpsinf_start_def gpshal_gpscbs_save_def gpshal_resource_init_def g_gpshal_ctx_def
        gpshal2mnl_gps_init_def gpshal2mnl_gps_start_def gpshal2mnl_def less_eq_gpshal_state_def)
  show ?thesis
    using failed_init_is_permanent [OF _ _ run init] init run by (auto simp: hal_env0_def)
qed

section \<open>A restarted daemon\<close>

lemma commands_append [simp]: "commands (es @ fs) = commands es @ commands fs"
  by (induction es rule: commands.induct) auto

text \<open>The start of the engine from \<open>IDLE\<close>, whatever the environment says of logs and downloads.\<close>

lemma hal_start_idle:
  assumes "mnld_inv s" "gps_state s = IDLE"
  shows "\<exists>s'. hal_gps_start env s = Some s' \<and> mnld_inv s' \<and> gps_state s' = STARTING \<and>
    gps_used (hal (clients s')) \<and> need_open_ack (hal (clients s')) \<and>
    commands (out s') = commands (out s) @ [CM_start (delete_aiding_flag s)]"
proof -
  let ?s = "upd_clients (hal_update (gps_used_update (\<lambda>_. True) \<circ> need_open_ack_update (\<lambda>_. True) \<circ>
      need_close_ack_update (\<lambda>_. False))) s"
  obtain s' where s': "hal_gps_start env s = Some s'" "mnld_inv s'"
    using hal_gps_start_inv [OF assms(1)] by blast
  obtain s1 where s1: "hal_start_gps_trigger_epo_download env ?s = Some s1"
    "mnld_fsm env EVENT_START 0 s1 = Some s'"
    using s'(1) by (auto simp: hal_gps_start_def split: Option.bind_splits)
  have same: "gps_state s1 = IDLE" "clients s1 = clients ?s" "delete_aiding_flag s1 = delete_aiding_flag s"
    "commands (out s1) = commands (out s)"
    using s1(1) assms(2)
    by (auto simp: hal_start_gps_trigger_epo_download_def upd_clients_def emit_def split: if_splits)
  let ?s2 = "s1\<lparr>out := out s1 @ To_hal M2H_request_wakelock # (if cmcc_log env then [Op01_start] else []),
      gps_start_time := tick env, wait_first_location := True\<rparr>"
  have "start_engine ?s2 = Some s'"
    using s1(2) same(1) by (cases "cmcc_log env") (simp_all add: mnld_fsm_def emit_def)
  moreover obtain tm where "start_engine ?s2 = Some (?s2\<lparr>gps_state := STARTING, delete_aiding_flag := 0,
      timers := tm, out := out ?s2 @ [Gps_start (delete_aiding_flag ?s2)]\<rparr>)"
    using start_engine_eq [of ?s2] by auto
  ultimately have "s' = ?s2\<lparr>gps_state := STARTING, delete_aiding_flag := 0,
      timers := tm, out := out ?s2 @ [Gps_start (delete_aiding_flag ?s2)]\<rparr>" by simp
  then show ?thesis
    using s' same by (auto simp: upd_clients_def)
qed

text \<open>What a fresh daemon makes of the two datagrams that start a session.\<close>

lemma fresh_daemon_starts:
  "\<exists>s1 s2. hal2mnl_hdlr (RxData (wire_hal2mnl H2M_gps_init) # rs) (g_hal2mnl_interface env) ctx_init = Some (0, s1, rs) \<and>
     hal2mnl_hdlr (RxData (wire_hal2mnl H2M_gps_start) # rs') (g_hal2mnl_interface env) s1 = Some (0, s2, rs') \<and>
     mnld_inv s2 \<and> gps_state s2 = STARTING \<and> gps_used (hal (clients s2)) \<and> need_open_ack (hal (clients s2)) \<and>
     commands (out s2) = [CM_start 0]"
proof -
  let ?s1 = "ctx_init\<lparr>is_gps_init := True, out := [Driver_state_init, To_agps M2A_gps_init]\<rparr>"
  have init: "hal2mnl_hdlr (RxData (wire_hal2mnl H2M_gps_init) # rs) (g_hal2mnl_interface env) ctx_init =
      Some (0, ?s1, rs)"
    using hal2mnl_delivered [OF _ send_session(1), of rs "g_hal2mnl_interface env" ctx_init]
    by (simp add: g_hal2mnl_interface_def ret0_def hal_gps_init_def emit_def ctx_init_def Let_def del: wire_hal2mnl.simps)
  have "mnld_inv ?s1" "gps_state ?s1 = IDLE" "delete_aiding_flag ?s1 = 0"
    by (simp_all add: mnld_inv_def fsm_basic_def all_clients_def ctx_init_def is_a_gps_client_exist_def Let_def)
  with hal_start_idle [of ?s1 env] obtain s2 where s2: "hal_gps_start env ?s1 = Some s2" "mnld_inv s2"
    "gps_state s2 = STARTING" "gps_used (hal (clients s2))" "need_open_ack (hal (clients s2))"
    "commands (out s2) = [CM_start 0]" by auto
  have "hal2mnl_hdlr (RxData (wire_hal2mnl H2M_gps_start) # rs') (g_hal2mnl_interface env) ?s1 = Some (0, s2, rs')"
    using hal2mnl_delivered [OF _ send_session(2), of rs' "g_hal2mnl_interface env" ?s1] s2(1)
    by (simp add: g_hal2mnl_interface_def ret0_def del: wire_hal2mnl.simps)
  then show ?thesis using init s2 by blast
qed

lemma reboot_restart:
  assumes "gps_state_intent s = ST_START" "ST_RESOURCE \<le> hal_state s"
  shows "update_mnld_reboot hal_env0 s =
    Some (s\<lparr>hal_sent := hal_sent s @ [H2M_gps_init, H2M_gps_start], hal_state := ST_START\<rparr>)"
proof -
  have "ST_RESOURCE \<le> ST_INIT" by (simp add: less_eq_gpshal_state_def)
  then show ?thesis
    using assms to_mnl_sent [OF send_session(1) wire_hal2mnl_pos] to_mnl_sent [OF send_session(2) wire_hal2mnl_pos]
      wire_hal2mnl_pos [of H2M_gps_init] wire_hal2mnl_pos [of H2M_gps_start]
    by (simp add: update_mnld_reboot_def gpshal2mnl_gps_init_def gpshal2mnl_gps_start_def gpshal2mnl_def
        del: wire_hal2mnl.simps)
qed

text \<open>C8. When the daemon restarts while the framework wants positions, the session comes back
  without the framework doing anything: the HAL answers the daemon's \<open>MNLD_REBOOT\<close> by sending
  its init and start again (its socket takes them); a fresh daemon that gets the two datagrams is starting the engine
  for the HAL, and when the engine reports that it runs, the HAL is told so.\<close>

theorem session_recovered:
  assumes "gps_state_intent s = ST_START" "ST_RESOURCE \<le> hal_state s"
  shows "\<exists>h s1 s2 s3. mnl2hal_hdlr u (RxData (wire_mnl2hal M2H_mnld_reboot) # rs)
      (gpshal_mnl2hal_interface hal_env0) (s, t) = Some (0, (h, t), rs) \<and>
    hal_sent h = hal_sent s @ [H2M_gps_init, H2M_gps_start] \<and> hal_state h = ST_START \<and>
    hal2mnl_hdlr (RxData (wire_hal2mnl H2M_gps_init) # rs1) (g_hal2mnl_interface env) ctx_init = Some (0, s1, rs1) \<and>
    hal2mnl_hdlr (RxData (wire_hal2mnl H2M_gps_start) # rs2) (g_hal2mnl_interface env) s1 = Some (0, s2, rs2) \<and>
    gps_state s2 = STARTING \<and> commands (out s2) = [CM_start 0] \<and>
    call_main env (MM_start_done b) s2 = Some s3 \<and> gps_state s3 = STARTED \<and> gps_used (hal (clients s3)) \<and>
    To_hal (M2H_gps_status GPS_STATUS_SESSION_BEGIN) \<in> set (out s3)"
proof -
  have "send_mnl2hal M2H_mnld_reboot = Some (MTK_MNL2HAL, wire_mnl2hal M2H_mnld_reboot)"
    by (subst send_mnl2hal_eq) auto
  note hal = mnl2hal_delivered [OF _ this, of u rs "gpshal_mnl2hal_interface hal_env0" "(s, t)"]
  obtain s1 s2 where d: "hal2mnl_hdlr (RxData (wire_hal2mnl H2M_gps_init) # rs1) (g_hal2mnl_interface env) ctx_init =
      Some (0, s1, rs1)"
    "hal2mnl_hdlr (RxData (wire_hal2mnl H2M_gps_start) # rs2) (g_hal2mnl_interface env) s1 = Some (0, s2, rs2)"
    "gps_state s2 = STARTING" "gps_used (hal (clients s2))" "need_open_ack (hal (clients s2))"
    "commands (out s2) = [CM_start 0]"
    using fresh_daemon_starts [of rs1 env rs2] by blast
  have "\<exists>s3. call_main env (MM_start_done b) s2 = Some s3 \<and> gps_state s3 = STARTED \<and> gps_used (hal (clients s3)) \<and>
    To_hal (M2H_gps_status GPS_STATUS_SESSION_BEGIN) \<in> set (out s3)"
    using d(3-5) by (auto simp: mnld_fsm_def fsm_eqs open_acks_def is_a_gps_client_exist_def)
  then show ?thesis
    using hal d reboot_restart [OF assms] by (auto simp: gpshal_mnl2hal_interface_def simp del: wire_hal2mnl.simps wire_mnl2hal.simps)
qed

theorem session_recovered_witness:
  "\<exists>h. mnl2hal_hdlr (\<lambda>_. 0) [RxData (wire_mnl2hal M2H_mnld_reboot)] (gpshal_mnl2hal_interface hal_env0)
      (ctx_up\<lparr>gps_state_intent := ST_START, hal_state := ST_START\<rparr>, throttle_init) = Some (0, (h, throttle_init), []) \<and>
    hal_sent h = [H2M_gps_init, H2M_gps_start]"
  using session_recovered [of "ctx_up\<lparr>gps_state_intent := ST_START, hal_state := ST_START\<rparr>" "\<lambda>_. 0" "[]"
      throttle_init "[]" env0 "[]" True]
  by (auto simp: ctx_up_def g_gpshal_ctx_def less_eq_gpshal_state_def)

section \<open>Notifications\<close>

lemma notify_text_length: "length (notify_text r) = 4 * length r + 4"
  by (simp add: notify_text_def)

lemma request_ni_notify_None:
  assumes "gpsni_cbs s"
  shows "request_ni_notify e sid ty (Some r) (Some c) re ce s = None \<longleftrightarrow>
    ni_short_len e \<le> length r \<or> ni_long_len e \<le> length c"
  using assms by (auto simp: request_ni_notify_def strcpy_def call_app_def)

text \<open>The daemon turns each character of a requestor or client name into four hexadecimal digits,
  after four for the byte order mark; the HAL copies both texts into the framework's arrays
  without a check. It overruns one of them exactly when the text and its terminator do not fit: with the
  framework's 256 characters for the requestor, from a name of 63 characters on.\<close>

theorem notify_overruns:
  assumes "0 \<notin> set r" "0 \<notin> set c" "length r \<le> 254" "length c \<le> 254" "gpsni_cbs s"
  shows "\<exists>m d. agps_ni_notify sid ty (Some r) (Some c) x = Some (x\<lparr>out := out x @ [To_hal m]\<rparr>) \<and>
    send_mnl2hal m = Some (MTK_MNL2HAL, d) \<and>
    (mnl2hal_hdlr u (RxData d # rs) (gpshal_mnl2hal_interface e) (s, t) = None \<longleftrightarrow>
      ni_short_len e \<le> 4 * length r + 4 \<or> ni_long_len e \<le> 4 * length c + 4)"
proof -
  let ?m = "M2H_request_ni_notify sid ty (Some (notify_text r)) (Some (notify_text c)) NI_ENCODING_TYPE_UCS2
      NI_ENCODING_TYPE_UCS2"
  have ok: "mnl2hal_ok ?m"
    using assms(3,4) hex_string_no_nul notify_text_length [of r] notify_text_length [of c] by (simp add: notify_text_def)
  have "length (wire_mnl2hal ?m) \<le> HAL_MNL_BUFF_SIZE"
    using assms by (simp add: notify_text_length)
  then have send: "send_mnl2hal ?m = Some (MTK_MNL2HAL, wire_mnl2hal ?m)"
    using send_mnl2hal_eq [OF ok] by simp
  have "mnl2hal_hdlr u (RxData (wire_mnl2hal ?m) # rs) (gpshal_mnl2hal_interface e) (s, t) = None \<longleftrightarrow>
      request_ni_notify e sid ty (Some (notify_text r)) (Some (notify_text c)) NI_ENCODING_TYPE_UCS2
        NI_ENCODING_TYPE_UCS2 s = None"
    using mnl2hal_delivered [OF ok send, of u rs "gpshal_mnl2hal_interface e" "(s, t)"]
    by (simp add: gpshal_mnl2hal_interface_def del: wire_mnl2hal.simps)
  then show ?thesis
    using agps_ni_notify_ascii [OF assms(1,2), of sid ty x] assms send
    by (auto simp: request_ni_notify_None notify_text_length simp del: wire_mnl2hal.simps send_mnl2hal.simps)
qed

theorem notify_overruns_witness:
  "\<exists>m d. agps_ni_notify 1 2 (Some (replicate 63 0x41)) (Some []) ctx_init = Some (ctx_init\<lparr>out := [To_hal m]\<rparr>) \<and>
    send_mnl2hal m = Some (MTK_MNL2HAL, d) \<and>
    mnl2hal_hdlr (\<lambda>_. 0) [RxData d] (gpshal_mnl2hal_interface hal_env0) (gpsni_init ctx_up, throttle_init) = None"
proof -
  have "out ctx_init = []" by (simp add: ctx_init_def Let_def)
  then show ?thesis
    using notify_overruns [of "replicate 63 0x41" "[]" "gpsni_init ctx_up" 1 2 ctx_init "\<lambda>_. 0" "[]" hal_env0 throttle_init]
    by (auto simp: gpsni_init_def hal_env0_def)
qed

section \<open>Raw measurements\<close>

text \<open>C38. When the framework has given its callbacks for measurements, it gets the satellites of all five systems that the library
  has in view, in the order GPS and QZSS, GLONASS, BeiDou, Galileo, SBAS, at most 64 of them, with
  the clock; the count is their number and the rest of the array is zero. A satellite numbered 0 is left out, and one whose
  state is 0 gets a pseudorange rate of 1; everything else is as the library has it. Nothing is sent when there are none.\<close>

theorem measurements_delivered:
  assumes "meas_cbs s"
  shows "let xs = take GNSS_MAX_MEASUREMENT (measured (lib_gpqz lib @ lib_glo lib @ lib_bd lib @ lib_gal lib @ lib_sbas lib));
             c = (case lib_gnss_clock lib of Some c \<Rightarrow> c | None \<Rightarrow> zero_gnss_clock)
    in if xs = [] then get_gnss_measurement_clock_data lib = []
       else \<exists>m d. get_gnss_measurement_clock_data lib = [m] \<and> send_mnl2hal m = Some (MTK_MNL2HAL, d) \<and>
         mnl2hal_hdlr u (RxData d # rs) (gpshal_mnl2hal_interface e) (s, t) =
           Some (0, (s\<lparr>app_calls := app_calls s @ [Cb_gnss_measurement (gnss_report xs c)]\<rparr>, t), rs)"
proof -
  let ?xs = "take GNSS_MAX_MEASUREMENT (measured (lib_gpqz lib @ lib_glo lib @ lib_bd lib @ lib_gal lib @ lib_sbas lib))"
  let ?c = "case lib_gnss_clock lib of Some c \<Rightarrow> c | None \<Rightarrow> zero_gnss_clock"
  let ?r = "gnss_report ?xs ?c"
  let ?m = "M2H_gnss_measurements (gnss_data_bytes ?r)"
  have r: "length (gnss_measurements ?r) = GNSS_MAX_MEASUREMENT" "gnss_count ?r < 2 ^ 32"
    by (auto simp: gnss_report_def)
  have ok: "mnl2hal_ok ?m" using gnss_data_bytes_length [OF r(1)] by simp
  have "length (wire_mnl2hal ?m) \<le> HAL_MNL_BUFF_SIZE"
    using gnss_data_bytes_length [OF r(1)] by simp
  then have send: "send_mnl2hal ?m = Some (MTK_MNL2HAL, wire_mnl2hal ?m)"
    using send_mnl2hal_eq [OF ok] by simp
  have "mnl2hal_hdlr u (RxData (wire_mnl2hal ?m) # rs) (gpshal_mnl2hal_interface e) (s, t) =
      Some (0, (s\<lparr>app_calls := app_calls s @ [Cb_gnss_measurement ?r]\<rparr>, t), rs)"
    using mnl2hal_delivered [OF ok send, of u rs "gpshal_mnl2hal_interface e" "(s, t)"] assms
      gnss_data_round_trip [OF r]
    by (simp add: gpshal_mnl2hal_interface_def update_gnss_measurements_def call_app_def hal_gnss_data_def
        map_idI del: wire_mnl2hal.simps)
  then show ?thesis
    using send get_gnss_measurements_eq [of lib] by (simp add: Let_def del: wire_mnl2hal.simps send_mnl2hal.simps)
qed

definition lib_two :: gnss_lib where
  "lib_two = \<lparr>lib_gps = [], lib_gps_clock = \<lparr>mc_flag = 0, mc_leapsecond = 0, mc_type = 0, mc_TimeInNs = 0,
       mc_TimeUncertaintyInNs = 0, mc_FullBiasInNs = 0, mc_BiasInNs = 0, mc_BiasUncertaintyInNs = 0,
       mc_DriftInNsPerSec = 0, mc_DriftUncertaintyInNsPerSec = 0\<rparr>,
     lib_gpqz = [zero_gnss_measurement\<lparr>gm_svid := 7, gm_state := 1\<rparr>, zero_gnss_measurement],
     lib_glo = [], lib_bd = [], lib_gal = [zero_gnss_measurement\<lparr>gm_svid := 3, gm_state := 1\<rparr>], lib_sbas = [],
     lib_gnss_clock = None, lib_gps_nav = (\<lambda>_. None), lib_gnss_nav = (\<lambda>_ _. None)\<rparr>"

theorem measurements_delivered_witness:
  "\<exists>m d. get_gnss_measurement_clock_data lib_two = [m] \<and> send_mnl2hal m = Some (MTK_MNL2HAL, d) \<and>
    mnl2hal_hdlr (\<lambda>_. 0) [RxData d] (gpshal_mnl2hal_interface hal_env0) (ctx_up\<lparr>meas_cbs := True\<rparr>, throttle_init) =
      Some (0, (ctx_up\<lparr>meas_cbs := True, app_calls := [Cb_gnss_measurement (gnss_report
        [zero_gnss_measurement\<lparr>gm_svid := 7, gm_state := 1\<rparr>, zero_gnss_measurement\<lparr>gm_svid := 3, gm_state := 1\<rparr>]
        zero_gnss_clock)]\<rparr>, throttle_init), [])"
proof -
  have "take GNSS_MAX_MEASUREMENT (measured (lib_gpqz lib_two @ lib_glo lib_two @ lib_bd lib_two @ lib_gal lib_two @
      lib_sbas lib_two)) = [zero_gnss_measurement\<lparr>gm_svid := 7, gm_state := 1\<rparr>,
        zero_gnss_measurement\<lparr>gm_svid := 3, gm_state := 1\<rparr>]"
    by (simp add: lib_two_def measured_def zero_gnss_measurement_def)
  moreover have "lib_gnss_clock lib_two = None" "app_calls ctx_up = []" 
    by (simp_all add: lib_two_def ctx_up_def g_gpshal_ctx_def)
  ultimately show ?thesis
    using measurements_delivered [of "ctx_up\<lparr>meas_cbs := True\<rparr>" lib_two "\<lambda>_. 0" "[]" hal_env0 throttle_init]
    by (simp add: Let_def)
qed

section \<open>Navigation messages\<close>

text \<open>The satellites that are asked for, as the pairs of number and type.\<close>

definition queried :: "(nat \<times> nat) set" where
  "queried = {1..32} \<times> {1} \<union> {1..24} \<times> {16} \<union> {1..37} \<times> {32} \<union> {1..36} \<times> {4}"

lemma all_some_None: "all_some xs = None \<longleftrightarrow> None \<in> set xs"
  by (induction xs rule: all_some.induct) auto

lemma gnss_navigation_msg_None:
  "gnss_navigation_msg e = None \<longleftrightarrow> (\<exists>m. e = Some m \<and> nm_data_length m \<noteq> 0)"
  by (auto simp: gnss_navigation_msg_def update_gnss_navigation_def Let_def split: option.split)


text \<open>Reporting the navigation messages of the satellites is undefined as soon as one
  satellite of any system has a message with data: the data is copied through a null pointer. So
  no navigation data ever reaches the framework this way.\<close>

theorem navigation_null_copy:
  "get_gnss_navigation_event lib = None \<longleftrightarrow>
    (\<exists>(svid, ty) \<in> queried. \<exists>m. lib_gnss_nav lib svid ty = Some m \<and> nm_data_length m \<noteq> 0)"
proof -
  have sets: "{1..32} = set [1..<GPS_MAX_MEASUREMENT + 1]" "{1..24} = set [1..<25]" "{1..37} = set [1..<38]"
    "{1..36} = set [1..<37]" by auto
  have "get_gnss_navigation_event lib = None \<longleftrightarrow>
    None \<in> (\<lambda>(svid, ty). gnss_navigation_msg (lib_gnss_nav lib svid ty)) ` queried"
    unfolding get_gnss_navigation_event_def all_some_None queried_def sets
    by (simp only: set_append set_map image_Un Un_iff image_iff bex_simps Sigma_def) (simp add: bex_Un)
  then show ?thesis by (force simp: image_iff gnss_navigation_msg_None eq_commute [of None])
qed

end
