(* ===== verification/C_Double.thy ===== *)
theory C_Double
  imports Prelude Complex_Main
begin

text \<open>
  Binary floating point as the code's \<open>double\<close> and \<open>float\<close> expressions compute it: a finite
  value is a sign, an integer significand and a power of two; every operation rounds its exact
  result once, to nearest with ties to even, with gradual underflow, infinities, NaN and signed
  zeros. Also \<open>strtod\<close>, which reads a \<open>double\<close> from a string.
\<close>

section \<open>Rounding\<close>

text \<open>\<open>Fin s m e\<close> is \<open>m * 2 ^ e\<close> with the sign \<open>s\<close>.\<close>

datatype fp = Fin bool nat int | Inf bool | NaN bool

fun bitlen :: "nat \<Rightarrow> nat" where
  "bitlen n = (if n = 0 then 0 else Suc (bitlen (n div 2)))"

declare bitlen.simps [simp del]

text \<open>The fraction \<open>a / b\<close> as a numerator and a denominator of \<open>a / (b * 2 ^ e)\<close>.\<close>

definition scaled :: "nat \<Rightarrow> nat \<Rightarrow> int \<Rightarrow> nat \<times> nat" where
  "scaled a b e = (if 0 \<le> e then (a, b * 2 ^ nat e) else (a * 2 ^ nat (- e), b))"

text \<open>The exponent of the leading bit of \<open>a / b\<close>.\<close>

definition lead :: "nat \<Rightarrow> nat \<Rightarrow> int" where
  "lead a b = (let l = int (bitlen a) - int (bitlen b); (n, d) = scaled a b l in if d \<le> n then l else l - 1)"

definition nearest :: "nat \<Rightarrow> nat \<Rightarrow> nat" where
  "nearest n d = (let q = n div d; r = n mod d
     in if 2 * r < d \<or> (2 * r = d \<and> even q) then q else q + 1)"

text \<open>\<open>p\<close> bits of significand, least exponent \<open>emin\<close>, values below \<open>2 ^ emax\<close>.\<close>

definition round_frac :: "nat \<Rightarrow> int \<Rightarrow> int \<Rightarrow> bool \<Rightarrow> nat \<Rightarrow> nat \<Rightarrow> fp" where
  "round_frac p emin emax s a b =
     (if a = 0 then Fin s 0 0
      else
        let e = max (lead a b - (int p - 1)) emin;
            (n, d) = scaled a b e;
            m = nearest n d;
            (m, e) = (if m = 2 ^ p then (2 ^ (p - 1), e + 1) else (m, e))
        in if emax < e + int p then Inf s else Fin s m e)"

definition dround :: "bool \<Rightarrow> nat \<Rightarrow> nat \<Rightarrow> fp" where
  "dround = round_frac 53 (- 1074) 1024"

definition fround :: "bool \<Rightarrow> nat \<Rightarrow> nat \<Rightarrow> fp" where
  "fround = round_frac 24 (- 149) 128"

section \<open>Operations\<close>

definition d_zero :: fp where
  "d_zero = Fin False 0 0"

fun fp_neg :: "fp \<Rightarrow> fp" where
  "fp_neg (Fin s m e) = Fin (\<not> s) m e"
| "fp_neg (Inf s) = Inf (\<not> s)"
| "fp_neg (NaN s) = NaN (\<not> s)"

definition with_sign :: "bool \<Rightarrow> int \<Rightarrow> int" where
  "with_sign s x = (if s then - x else x)"

text \<open>\<open>x * 2 ^ e\<close> for an integer \<open>x\<close>, rounded; an exact zero gets the given sign.\<close>

definition dround_int :: "bool \<Rightarrow> int \<Rightarrow> int \<Rightarrow> fp" where
  "dround_int z x e =
     (let s = (if x = 0 then z else x < 0)
      in if 0 \<le> e then dround s (nat \<bar>x\<bar> * 2 ^ nat e) 1 else dround s (nat \<bar>x\<bar>) (2 ^ nat (- e)))"

fun d_add :: "fp \<Rightarrow> fp \<Rightarrow> fp" where
  "d_add (Fin s m e) (Fin t n f) =
     (let g = min e f;
          x = with_sign s (int m * 2 ^ nat (e - g)) + with_sign t (int n * 2 ^ nat (f - g))
      in dround_int (s \<and> t) x g)"
| "d_add (NaN s) y = NaN s"
| "d_add x (NaN t) = NaN t"
| "d_add (Inf s) (Inf t) = (if s = t then Inf s else NaN False)"
| "d_add (Inf s) (Fin _ _ _) = Inf s"
| "d_add (Fin _ _ _) (Inf t) = Inf t"

definition d_sub :: "fp \<Rightarrow> fp \<Rightarrow> fp" where
  "d_sub x y = d_add x (fp_neg y)"

fun d_mul :: "fp \<Rightarrow> fp \<Rightarrow> fp" where
  "d_mul (Fin s m e) (Fin t n f) = dround_int (s \<noteq> t) (with_sign (s \<noteq> t) (int (m * n))) (e + f)"
| "d_mul (NaN s) y = NaN s"
| "d_mul x (NaN t) = NaN t"
| "d_mul (Inf s) (Inf t) = Inf (s \<noteq> t)"
| "d_mul (Inf s) (Fin t n f) = (if n = 0 then NaN False else Inf (s \<noteq> t))"
| "d_mul (Fin s m e) (Inf t) = (if m = 0 then NaN False else Inf (s \<noteq> t))"

fun d_div :: "fp \<Rightarrow> fp \<Rightarrow> fp" where
  "d_div (Fin s m e) (Fin t n f) =
     (if n = 0 then (if m = 0 then NaN False else Inf (s \<noteq> t))
      else if 0 \<le> e - f then dround (s \<noteq> t) (m * 2 ^ nat (e - f)) n
      else dround (s \<noteq> t) m (n * 2 ^ nat (f - e)))"
| "d_div (NaN s) y = NaN s"
| "d_div x (NaN t) = NaN t"
| "d_div (Inf s) (Inf t) = NaN False"
| "d_div (Inf s) (Fin t n f) = Inf (s \<noteq> t)"
| "d_div (Fin s m e) (Inf t) = Fin (s \<noteq> t) 0 0"

definition d_of_int :: "int \<Rightarrow> fp" where
  "d_of_int i = dround_int False i 0"

text \<open>\<open>floor\<close>, and the conversions to \<open>int\<close> (toward zero, undefined when the value does not fit)
  and to \<open>float\<close>.\<close>

fun d_floor :: "fp \<Rightarrow> fp" where
  "d_floor (Fin s m e) =
     (if 0 \<le> e \<or> m = 0 then Fin s m e
      else if s then dround_int True (- ((int m + 2 ^ nat (- e) - 1) div 2 ^ nat (- e))) 0
      else dround_int False (int m div 2 ^ nat (- e)) 0)"
| "d_floor x = x"

definition in_int :: "int \<Rightarrow> int option" where
  "in_int i = (if - (2 ^ 31) \<le> i \<and> i < 2 ^ 31 then Some i else None)"

fun d_to_int :: "fp \<Rightarrow> int option" where
  "d_to_int (Fin s m e) =
     in_int (with_sign s (if 0 \<le> e then int m * 2 ^ nat e else int m div 2 ^ nat (- e)))"
| "d_to_int _ = None"

fun d_to_float :: "fp \<Rightarrow> fp" where
  "d_to_float (Fin s m e) =
     (if 0 \<le> e then fround s (m * 2 ^ nat e) 1 else fround s m (2 ^ nat (- e)))"
| "d_to_float x = x"

text \<open>The bits, for a significand of \<open>p\<close> bits and an exponent field of \<open>w\<close> bits.\<close>

fun fp_bits :: "nat \<Rightarrow> nat \<Rightarrow> fp \<Rightarrow> nat" where
  "fp_bits p w (Fin s m e) =
     (let bias = 2 ^ (w - 1) - 1;
          l = int (bitlen m);
          x = e + l - 1
      in (if s then 2 ^ (p - 1 + w) else 0) +
         (if m = 0 then 0
          else if x < 1 - bias then m * 2 ^ nat (e + bias + int p - 2)
          else nat (x + bias) * 2 ^ (p - 1) + (m * 2 ^ nat (int p - l) - 2 ^ (p - 1))))"
| "fp_bits p w (Inf s) = (if s then 2 ^ (p - 1 + w) else 0) + (2 ^ w - 1) * 2 ^ (p - 1)"
| "fp_bits p w (NaN s) = (if s then 2 ^ (p - 1 + w) else 0) + (2 ^ w - 1) * 2 ^ (p - 1) + 2 ^ (p - 2)"

definition double_bits :: "fp \<Rightarrow> c_double" where
  "double_bits x = word_of_nat (fp_bits 53 11 x)"

definition float_bits :: "fp \<Rightarrow> c_float" where
  "float_bits x = word_of_nat (fp_bits 24 8 x)"

section \<open>Reading numbers\<close>

definition is_space :: "c_char \<Rightarrow> bool" where
  "is_space c \<longleftrightarrow> c = 32 \<or> (9 \<le> c \<and> c \<le> 13)"

definition is_dec :: "c_char \<Rightarrow> bool" where
  "is_dec c \<longleftrightarrow> 48 \<le> c \<and> c \<le> 57"

definition to_lower :: "c_char \<Rightarrow> c_char" where
  "to_lower c = (if 65 \<le> c \<and> c \<le> 90 then c + 32 else c)"

text \<open>The value of a digit, also a hexadecimal one.\<close>

definition digit :: "c_char \<Rightarrow> nat" where
  "digit c = (if is_dec c then unat c - 48 else unat (to_lower c) - 87)"

definition is_hex :: "c_char \<Rightarrow> bool" where
  "is_hex c \<longleftrightarrow> is_dec c \<or> (97 \<le> to_lower c \<and> to_lower c \<le> 102)"

definition digits_val :: "nat \<Rightarrow> c_char list \<Rightarrow> nat" where
  "digits_val base ds = fold (\<lambda>c v. v * base + digit c) ds 0"

text \<open>An optional sign.\<close>

fun read_sign :: "c_char list \<Rightarrow> bool \<times> c_char list" where
  "read_sign (c # cs) = (if c = 45 then (True, cs) else if c = 43 then (False, cs) else (False, c # cs))"
| "read_sign [] = (False, [])"

text \<open>Digits with an optional point: those before it, those after it, and the rest.\<close>

definition read_mantissa :: "(c_char \<Rightarrow> bool) \<Rightarrow> c_char list \<Rightarrow> c_char list \<times> c_char list \<times> c_char list" where
  "read_mantissa p cs =
     (let ip = takeWhile p cs; r = dropWhile p cs
      in case r of
           c # r' \<Rightarrow> if c = 46 then (ip, takeWhile p r', dropWhile p r') else (ip, [], r)
         | [] \<Rightarrow> (ip, [], []))"

text \<open>An exponent, after the letter \<open>x\<close>; without digits it is not one.\<close>

definition read_exponent :: "c_char \<Rightarrow> c_char list \<Rightarrow> int" where
  "read_exponent x cs =
     (case cs of
        c # r \<Rightarrow>
          if to_lower c = x then
            let (s, r) = read_sign r in with_sign s (int (digits_val 10 (takeWhile is_dec r)))
          else 0
      | [] \<Rightarrow> 0)"

definition pow_frac :: "bool \<Rightarrow> nat \<Rightarrow> nat \<Rightarrow> int \<Rightarrow> fp" where
  "pow_frac s m base e = (if 0 \<le> e then dround s (m * base ^ nat e) 1 else dround s m (base ^ nat (- e)))"

text \<open>\<open>strtod(s, NULL)\<close> in the C locale: decimal and hexadecimal numbers, infinities and NaN; zero
  when there is no number.\<close>

definition strtod :: "c_char list \<Rightarrow> fp" where
  "strtod str =
     (let (s, cs) = read_sign (dropWhile is_space str);
          word = map to_lower cs
      in if take 3 word = [105, 110, 102] then Inf s
         else if take 3 word = [110, 97, 110] then NaN s
         else if take 2 word = [48, 120] \<and>
             (case read_mantissa is_hex (drop 2 cs) of (ip, fr, _) \<Rightarrow> ip @ fr \<noteq> []) then
           (case read_mantissa is_hex (drop 2 cs) of (ip, fr, r) \<Rightarrow>
              pow_frac s (digits_val 16 (ip @ fr)) 2 (read_exponent 112 r - 4 * int (length fr)))
         else
           (case read_mantissa is_dec cs of (ip, fr, r) \<Rightarrow>
              if ip @ fr = [] then d_zero
              else pow_frac s (digits_val 10 (ip @ fr)) 10 (read_exponent 101 r - int (length fr))))"

text \<open>\<open>strtoul(s, pos, 10)\<close>: the value, cut at the largest \<open>unsigned long\<close> and negated after a
  minus sign, and what \<open>pos\<close> points to.\<close>

definition strtoul :: "c_char list \<Rightarrow> c_int \<times> c_char list" where
  "strtoul str =
     (let (s, cs) = read_sign (dropWhile is_space str);
          ds = takeWhile is_dec cs;
          v = digits_val 10 ds
      in if ds = [] then (0, str)
         else if 2 ^ 32 \<le> v then (- 1, dropWhile is_dec cs)
         else (if s then - word_of_nat v else word_of_nat v, dropWhile is_dec cs))"

section \<open>The rounding error\<close>

lemma bitlen_bounds: "0 < n \<Longrightarrow> 2 ^ (bitlen n - 1) \<le> n \<and> n < 2 ^ bitlen n \<and> 0 < bitlen n"
proof (induction n rule: bitlen.induct)
  case (1 n)
  show ?case
  proof (cases "n div 2 = 0")
    case True
    with 1(2) have "n = 1" by simp
    then show ?thesis by (simp add: bitlen.simps)
  next
    case False
    then have IH: "2 ^ (bitlen (n div 2) - 1) \<le> n div 2" "n div 2 < 2 ^ bitlen (n div 2)" "0 < bitlen (n div 2)"
      using 1 by auto
    obtain k where k: "bitlen (n div 2) = Suc k" using IH(3) by (cases "bitlen (n div 2)") auto
    have "bitlen n = Suc (Suc k)" using 1(2) k by (simp add: bitlen.simps [of n])
    moreover have "m \<le> n div 2 \<Longrightarrow> 2 * m \<le> n" "n div 2 < m \<Longrightarrow> n < 2 * m" for m by linarith+
    ultimately show ?thesis using IH(1,2) k by simp
  qed
qed

text \<open>The value of a finite number.\<close>

fun fpval :: "fp \<Rightarrow> rat" where
  "fpval (Fin s m e) = (if s then - 1 else 1) * of_nat m * 2 powi e"
| "fpval _ = 0"

fun is_fin :: "fp \<Rightarrow> bool" where
  "is_fin (Fin s m e) = True"
| "is_fin _ = False"

lemma scaled_val:
  assumes "0 < b" "scaled a b e = (n, d)"
  shows "(of_nat n :: rat) / of_nat d = of_nat a / of_nat b / 2 powi e" "0 < d"
proof -
  show "0 < d" using assms by (auto simp: scaled_def split: if_splits)
  show "(of_nat n :: rat) / of_nat d = of_nat a / of_nat b / 2 powi e"
  proof (cases "0 \<le> e")
    case True
    then have "(2 :: rat) powi e = 2 ^ nat e" by (metis int_nat_eq power_int_of_nat)
    then show ?thesis using True assms by (auto simp: scaled_def)
  next
    case False
    then have "e = - int (nat (- e))" by simp
    then have "(2 :: rat) powi e = inverse (2 ^ nat (- e))" by (metis power_int_minus power_int_of_nat)
    then show ?thesis using False assms by (auto simp: scaled_def divide_inverse)
  qed
qed

lemma lead_bounds:
  assumes "0 < a" "0 < b"
  shows "2 powi lead a b \<le> (of_nat a / of_nat b :: rat)" "(of_nat a / of_nat b :: rat) < 2 powi (lead a b + 1)"
proof -
  define l where "l = int (bitlen a) - int (bitlen b)"
  obtain n d where nd: "scaled a b l = (n, d)" by fastforce
  have v: "(of_nat n :: rat) / of_nat d = of_nat a / of_nat b / 2 powi l" "0 < d"
    using scaled_val [OF assms(2) nd] by auto
  have pa: "(2 :: rat) powi (int (bitlen a) - 1) \<le> of_nat a" "(of_nat a :: rat) < 2 powi int (bitlen a)"
    and pb: "(2 :: rat) powi (int (bitlen b) - 1) \<le> of_nat b" "(of_nat b :: rat) < 2 powi int (bitlen b)"
  proof -
    have "(2 :: rat) powi (int (bitlen n) - 1) \<le> of_nat n \<and> (of_nat n :: rat) < 2 powi int (bitlen n)" if "0 < n" for n
    proof -
      have b: "2 ^ (bitlen n - 1) \<le> n" "n < 2 ^ bitlen n" "0 < bitlen n" using bitlen_bounds [OF that] by auto
      have "int (bitlen n) - 1 = int (bitlen n - 1)" using b(3) by simp
      then have "(2 :: rat) powi (int (bitlen n) - 1) = of_nat (2 ^ (bitlen n - 1))"
        by (simp only: power_int_of_nat) simp
      moreover have "(2 :: rat) powi int (bitlen n) = of_nat (2 ^ bitlen n)" by (simp add: power_int_of_nat)
      ultimately show ?thesis using b(1,2) by (simp only: of_nat_le_iff of_nat_less_iff)
    qed
    then show "(2 :: rat) powi (int (bitlen a) - 1) \<le> of_nat a" "(of_nat a :: rat) < 2 powi int (bitlen a)"
      "(2 :: rat) powi (int (bitlen b) - 1) \<le> of_nat b" "(of_nat b :: rat) < 2 powi int (bitlen b)"
      using assms by auto
  qed
  have pos: "(0 :: rat) < of_nat b" "(0 :: rat) < of_nat a" using assms by simp_all
  have split: "(2 :: rat) powi (x + y) = 2 powi x * 2 powi y" for x y by (simp add: power_int_add)
  have low: "2 powi (l - 1) \<le> (of_nat a / of_nat b :: rat)"
  proof -
    have "2 powi (l - 1) * (of_nat b :: rat) \<le> 2 powi (l - 1) * 2 powi int (bitlen b)"
      using pb(2) by (intro mult_left_mono) auto
    also have "\<dots> = 2 powi (l - 1 + int (bitlen b))" by (simp only: split)
    also have "\<dots> = 2 powi (int (bitlen a) - 1)" by (simp add: l_def)
    also have "\<dots> \<le> of_nat a" by (rule pa)
    finally show ?thesis using pos by (simp add: pos_le_divide_eq)
  qed
  have high: "(of_nat a / of_nat b :: rat) < 2 powi (l + 1)"
  proof -
    have "(of_nat a :: rat) < 2 powi int (bitlen a)" by (rule pa)
    also have "\<dots> = 2 powi (l + 1 + (int (bitlen b) - 1))" by (simp add: l_def)
    also have "\<dots> = 2 powi (l + 1) * 2 powi (int (bitlen b) - 1)" by (simp only: split)
    also have "\<dots> \<le> 2 powi (l + 1) * of_nat b" using pb(1) by (intro mult_left_mono) auto
    finally show ?thesis using pos by (simp add: pos_divide_less_eq)
  qed
  have p: "(0 :: rat) < 2 powi l" by simp
  have dn: "d \<le> n \<longleftrightarrow> 2 powi l \<le> (of_nat a / of_nat b :: rat)"
  proof -
    have "d \<le> n \<longleftrightarrow> (1 :: rat) \<le> of_nat n / of_nat d" using v(2) by (simp add: pos_le_divide_eq)
    also have "\<dots> \<longleftrightarrow> 2 powi l \<le> (of_nat a / of_nat b :: rat)"
      unfolding v(1) using p by (simp only: pos_le_divide_eq mult_1)
    finally show ?thesis .
  qed
  have lead: "lead a b = (if d \<le> n then l else l - 1)" by (simp add: lead_def nd l_def [symmetric] Let_def)
  show "2 powi lead a b \<le> (of_nat a / of_nat b :: rat)" using lead dn low by auto
  show "(of_nat a / of_nat b :: rat) < 2 powi (lead a b + 1)" using lead dn high by auto
qed

lemma nearest_error:
  assumes "0 < d"
  shows "\<bar>of_nat (nearest n d) - of_nat n / of_nat d\<bar> \<le> (1 / 2 :: rat)"
proof -
  define q r where "q = n div d" and "r = n mod d"
  have n: "n = q * d + r" and r: "r < d" using assms by (auto simp: q_def r_def)
  have x: "(of_nat n :: rat) / of_nat d = of_nat q + of_nat r / of_nat d"
    using assms by (simp add: n add_divide_distrib)
  have pos: "(0 :: rat) < of_nat d" using assms by simp
  show ?thesis
  proof (cases "2 * r < d \<or> (2 * r = d \<and> even q)")
    case True
    then have "nearest n d = q" by (simp add: nearest_def q_def r_def Let_def)
    moreover have "2 * of_nat r \<le> (of_nat d :: rat)"
      using True by (metis of_nat_mult of_nat_numeral of_nat_le_iff less_imp_le order_refl)
    then have "of_nat r / of_nat d \<le> (1 / 2 :: rat)" using pos by (simp add: pos_divide_le_eq)
    ultimately show ?thesis by (simp add: x)
  next
    case False
    then have "nearest n d = q + 1" by (simp add: nearest_def q_def r_def Let_def)
    moreover have "(of_nat d :: rat) \<le> 2 * of_nat r"
      using False by (metis of_nat_mult of_nat_numeral of_nat_le_iff not_less order_refl linorder_le_less_linear)
    then have "(1 / 2 :: rat) \<le> of_nat r / of_nat d" using pos by (simp add: pos_le_divide_eq)
    moreover have "of_nat r / of_nat d \<le> (1 :: rat)" using r pos by (simp add: pos_divide_le_eq)
    ultimately show ?thesis by (simp add: x)
  qed
qed

text \<open>A rounded result below the overflow threshold is finite and off by at most half a unit in
  the last place, or half the least subnormal number.\<close>

lemma powi_less_iff: "(2 :: rat) powi i < 2 powi j \<longleftrightarrow> i < j"
  by (meson linorder_not_less one_le_numeral one_less_numeral_iff power_int_increasing power_int_strict_increasing
      semiring_norm(76))

lemma round_frac_error:
  assumes "0 < a" "0 < b" "1 \<le> p" "emin + int p < emax" "(of_nat a / of_nat b :: rat) < 2 powi (emax - 2)"
  shows "\<exists>m e. round_frac p emin emax s a b = Fin s m e \<and>
    \<bar>of_nat m * 2 powi e - of_nat a / of_nat b\<bar> \<le>
      (of_nat a / of_nat b :: rat) * 2 powi (- int p) + 2 powi (emin - 1)"
proof -
  define x where "x = (of_nat a / of_nat b :: rat)"
  have x: "2 powi lead a b \<le> x" "x < 2 powi (lead a b + 1)"
    using lead_bounds [OF assms(1,2)] by (simp_all add: x_def)
  have "(2 :: rat) powi lead a b < 2 powi (emax - 2)"
    using x assms(5) unfolding x_def [symmetric] by (meson le_less_trans)
  then have lead: "lead a b + 2 < emax" unfolding powi_less_iff by simp
  define e where "e = max (lead a b - (int p - 1)) emin"
  obtain n d where nd: "scaled a b e = (n, d)" by fastforce
  have v: "(of_nat n :: rat) / of_nat d = x / 2 powi e" "0 < d"
    using scaled_val [OF assms(2) nd] by (auto simp: x_def)
  define N where "N = nearest n d"
  have two: "(0 :: rat) < 2 powi e" by simp
  have "\<bar>of_nat N * 2 powi e - x\<bar> = \<bar>of_nat N - of_nat n / of_nat d\<bar> * (2 powi e :: rat)"
  proof -
    have "of_nat N * 2 powi e - x = (of_nat N - x / 2 powi e) * 2 powi e"
      using two by (simp add: left_diff_distrib)
    then show ?thesis unfolding v(1) by (simp add: abs_mult)
  qed
  also have "\<dots> \<le> (1 / 2) * 2 powi e"
    using nearest_error [OF v(2), of n] by (intro mult_right_mono) (simp_all add: N_def)
  also have "\<dots> = 2 powi (e - 1)" by (simp add: power_int_diff)
  also have "\<dots> \<le> 2 powi lead a b * 2 powi (- int p) + 2 powi (emin - 1)"
  proof (cases "lead a b - (int p - 1) \<le> emin")
    case True
    then have "e = emin" by (simp add: e_def)
    moreover have "(0 :: rat) \<le> 2 powi lead a b * 2 powi (- int p)" by simp
    ultimately show ?thesis by simp
  next
    case False
    then have "e - 1 = lead a b + (- int p)" by (simp add: e_def)
    then have "(2 :: rat) powi (e - 1) = 2 powi lead a b * 2 powi (- int p)"
      by (metis power_int_add zero_neq_numeral)
    moreover have "(0 :: rat) \<le> 2 powi (emin - 1)" by simp
    ultimately show ?thesis by simp
  qed
  also have "\<dots> \<le> x * 2 powi (- int p) + 2 powi (emin - 1)"
    using x(1) by (intro add_right_mono mult_right_mono) auto
  finally have err: "\<bar>of_nat N * 2 powi e - x\<bar> \<le> x * 2 powi (- int p) + 2 powi (emin - 1)" .
  let ?m = "if N = 2 ^ p then 2 ^ (p - 1) else N" and ?e = "if N = 2 ^ p then e + 1 else e"
  have "e + 1 + int p \<le> emax" using lead assms(4) by (simp add: e_def)
  then have "round_frac p emin emax s a b = Fin s ?m ?e"
    using assms(1) nd by (auto simp: round_frac_def N_def e_def [symmetric] Let_def)
  moreover have "of_nat ?m * 2 powi ?e = (of_nat N * 2 powi e :: rat)"
  proof (cases "N = 2 ^ p")
    case True
    have "(2 :: rat) ^ p = 2 ^ (p - 1) * 2" using assms(3) by (metis Suc_diff_1 le_simps(3) power_Suc2 One_nat_def)
    then show ?thesis using True by (simp add: power_int_add)
  qed simp
  ultimately show ?thesis using err by (auto simp: x_def)
qed

lemma powi_nonneg: "0 \<le> e \<Longrightarrow> (2 :: rat) powi e = 2 ^ nat e"
  by (metis int_nat_eq power_int_of_nat)

lemma powi_nonpos: "e \<le> 0 \<Longrightarrow> (2 :: rat) powi e = inverse (2 ^ nat (- e))"
  by (metis int_nat_eq minus_minus neg_0_le_iff_le power_int_minus power_int_of_nat)

text \<open>Integers of up to 53 bits are exact.\<close>

lemma nearest_mult: "0 < d \<Longrightarrow> nearest (q * d) d = q"
  by (simp add: nearest_def)

lemma dround_exact:
  assumes "q < 2 ^ 53" "0 < b"
  shows "is_fin (dround s (q * b) b) \<and> fpval (dround s (q * b) b) = (if s then - 1 else 1) * of_nat q"
proof (cases "q = 0")
  case True
  then show ?thesis by (simp add: dround_def round_frac_def)
next
  case False
  let ?l = "lead (q * b) b"
  have x: "2 powi ?l \<le> (of_nat q :: rat)" "(of_nat q :: rat) < 2 powi (?l + 1)"
    using lead_bounds [of "q * b" b] False assms(2) by simp_all
  have "(of_nat q :: rat) < of_nat (2 ^ 53)" using assms by (simp only: of_nat_less_iff)
  then have "2 powi ?l < (2 :: rat) powi 53" using x(1) by simp
  then have hi: "?l < 53" unfolding powi_less_iff .
  have "(2 :: rat) powi 0 < 2 powi (?l + 1)" using x(2) False by simp
  then have lo: "0 \<le> ?l" unfolding powi_less_iff by simp
  define e where "e = ?l - 52"
  have e: "max (?l - (int 53 - 1)) (- 1074) = e" "e \<le> 0" "- 52 \<le> e" using lo hi by (simp_all add: e_def)
  have sc: "scaled (q * b) b e = (q * 2 ^ nat (- e) * b, b)"
    using e(2) by (cases "e = 0") (simp_all add: scaled_def mult_ac)
  have n: "nearest (q * 2 ^ nat (- e) * b) b = q * 2 ^ nat (- e)" using nearest_mult [OF assms(2)] .
  let ?N = "q * 2 ^ nat (- e)"
  let ?m = "if ?N = 2 ^ 53 then 2 ^ (53 - 1) else ?N" and ?e = "if ?N = 2 ^ 53 then e + 1 else e"
  have "dround s (q * b) b = Fin s ?m ?e"
    unfolding dround_def round_frac_def using False assms(2) e by (simp add: sc n)
  moreover have "of_nat ?m * 2 powi ?e = (of_nat ?N * 2 powi e :: rat)"
  proof (cases "?N = 2 ^ 53")
    case True
    then have "(of_nat ?N :: rat) = of_nat (2 ^ 53)" by (simp only:)
    then show ?thesis using True by (simp add: power_int_add)
  qed simp
  moreover have "of_nat ?N * 2 powi e = (of_nat q :: rat)"
    using powi_nonpos [OF e(2)] by simp
  ultimately show ?thesis by simp
qed

text \<open>\<open>y\<close> is a \<open>double\<close> that stands for the exact value \<open>x\<close>: it is off by half a unit in the last
  place at most, and not at all for an integer of up to 53 bits.\<close>

definition rounds_to :: "fp \<Rightarrow> rat \<Rightarrow> bool" where
  "rounds_to y x \<longleftrightarrow> is_fin y \<and> \<bar>fpval y - x\<bar> \<le> \<bar>x\<bar> * 2 powi (- 53) + 2 powi (- 1075) \<and>
     (x \<in> \<int> \<and> \<bar>x\<bar> < 2 ^ 53 \<longrightarrow> fpval y = x)"

definition d_big :: rat where
  "d_big = 2 powi 1022"

lemma dround_rounds:
  assumes "0 < b" "(of_nat a / of_nat b :: rat) < d_big"
  shows "rounds_to (dround s a b) ((if s then - 1 else 1) * (of_nat a / of_nat b))"
proof (cases "a = 0")
  case True
  then show ?thesis by (simp add: dround_def round_frac_def rounds_to_def)
next
  case False
  let ?x = "of_nat a / of_nat b :: rat"
  obtain m e where m: "dround s a b = Fin s m e"
    "\<bar>of_nat m * 2 powi e - ?x\<bar> \<le> ?x * 2 powi (- 53) + 2 powi (- 1075)"
    using round_frac_error [of a b 53 "- 1074" 1024 s] False assms by (auto simp: dround_def d_big_def)
  have abs: "\<bar>(if s then - 1 else 1) * ?x\<bar> = ?x" by (cases s) simp_all
  have "\<bar>fpval (dround s a b) - (if s then - 1 else 1) * ?x\<bar> = \<bar>of_nat m * 2 powi e - ?x\<bar>"
    unfolding m(1) by (cases s) (simp_all add: abs_minus_commute)
  moreover have "fpval (dround s a b) = (if s then - 1 else 1) * ?x" if int: "(if s then - 1 else 1) * ?x \<in> \<int>" "?x < 2 ^ 53"
  proof -
    have "?x \<in> \<int>" using int(1) Ints_minus [of "- ?x"] by (cases s) simp_all
    then obtain i where i: "?x = of_int i" by (auto elim: Ints_cases)
    have "0 \<le> ?x" by simp
    then have "0 \<le> i" unfolding i by simp
    then have q: "?x = of_nat (nat i)" unfolding i by simp
    then have "(of_nat a :: rat) = of_nat (nat i * b)" using assms(1) by (simp add: field_simps)
    then have a: "a = nat i * b" by (simp only: of_nat_eq_iff)
    have "(of_nat (nat i) :: rat) < of_nat (2 ^ 53)" using int(2) unfolding q by simp
    then have "nat i < 2 ^ 53" by (simp only: of_nat_less_iff)
    from dround_exact [OF this assms(1)] show ?thesis unfolding a using assms(1) by simp
  qed
  ultimately show ?thesis unfolding rounds_to_def abs using m by simp
qed

lemma dround_int_rounds:
  assumes "\<bar>of_int x * 2 powi e\<bar> < d_big"
  shows "rounds_to (dround_int z x e) (of_int x * 2 powi e)"
proof -
  define s where "s = (if x = 0 then z else x < 0)"
  have x: "(of_int x :: rat) = (if s then - 1 else 1) * of_nat (nat \<bar>x\<bar>)" if "x \<noteq> 0"
    using that by (auto simp: s_def of_nat_nat)
  show ?thesis
  proof (cases "0 \<le> e")
    case True
    have v: "(of_int x * 2 powi e :: rat) = (if s then - 1 else 1) * (of_nat (nat \<bar>x\<bar> * 2 ^ nat e) / of_nat 1)"
      using x True by (cases "x = 0") (auto simp: powi_nonneg)
    show ?thesis
      using dround_rounds [of 1 "nat \<bar>x\<bar> * 2 ^ nat e" s] assms True unfolding v dround_int_def s_def [symmetric] Let_def
      by (cases s) (simp_all add: abs_mult)
  next
    case False
    have v: "(of_int x * 2 powi e :: rat) = (if s then - 1 else 1) * (of_nat (nat \<bar>x\<bar>) / of_nat (2 ^ nat (- e)))"
      using x False by (cases "x = 0") (auto simp: powi_nonpos divide_inverse)
    show ?thesis
      using dround_rounds [of "2 ^ nat (- e)" "nat \<bar>x\<bar>" s] assms False
      unfolding v dround_int_def s_def [symmetric] Let_def by (cases s) (simp_all add: abs_mult)
  qed
qed

text \<open>The operations.\<close>

lemma fpval_Fin: "fpval (Fin s m e) = of_int (with_sign s (int m)) * 2 powi e"
  by (simp add: with_sign_def)

lemma d_add_rounds:
  assumes "is_fin x" "is_fin y" "\<bar>fpval x + fpval y\<bar> < d_big"
  shows "rounds_to (d_add x y) (fpval x + fpval y)"
proof -
  obtain s m e t n f where x: "x = Fin s m e" and y: "y = Fin t n f"
    using assms by (cases x; cases y) auto
  define g where "g = min e f"
  have "(2 :: rat) powi e = 2 ^ nat (e - g) * 2 powi g" "(2 :: rat) powi f = 2 ^ nat (f - g) * 2 powi g"
    using powi_nonneg [of "e - g"] powi_nonneg [of "f - g"] power_int_add [of "2 :: rat" "e - g" g]
      power_int_add [of "2 :: rat" "f - g" g] by (simp_all add: g_def)
  then have sum: "fpval x + fpval y = of_int (with_sign s (int m * 2 ^ nat (e - g)) + with_sign t (int n * 2 ^ nat (f - g))) * 2 powi g"
    by (simp add: x y with_sign_def distrib_right)
  have op: "d_add x y = dround_int (s \<and> t) (with_sign s (int m * 2 ^ nat (e - g)) + with_sign t (int n * 2 ^ nat (f - g))) g"
    by (simp add: x y g_def [symmetric] Let_def)
  show ?thesis
    unfolding op sum by (rule dround_int_rounds) (use assms(3) sum in simp)
qed

lemma fp_neg_val [simp]: "is_fin x \<Longrightarrow> fpval (fp_neg x) = - fpval x" "is_fin (fp_neg x) = is_fin x"
  by (cases x; simp)+

lemma d_sub_rounds:
  "is_fin x \<Longrightarrow> is_fin y \<Longrightarrow> \<bar>fpval x - fpval y\<bar> < d_big \<Longrightarrow> rounds_to (d_sub x y) (fpval x - fpval y)"
  using d_add_rounds [of x "fp_neg y"] by (simp add: d_sub_def)

lemma d_mul_rounds:
  assumes "is_fin x" "is_fin y" "\<bar>fpval x * fpval y\<bar> < d_big"
  shows "rounds_to (d_mul x y) (fpval x * fpval y)"
proof -
  obtain s m e t n f where x: "x = Fin s m e" and y: "y = Fin t n f"
    using assms by (cases x; cases y) auto
  have prod: "fpval x * fpval y = of_int (with_sign (s \<noteq> t) (int (m * n))) * 2 powi (e + f)"
    by (cases s; cases t) (simp_all add: x y with_sign_def power_int_add mult_ac)
  have op: "d_mul x y = dround_int (s \<noteq> t) (with_sign (s \<noteq> t) (int (m * n))) (e + f)"
    by (simp add: x y)
  show ?thesis
    unfolding op prod by (rule dround_int_rounds) (use assms(3) prod in simp)
qed

lemma d_div_rounds:
  assumes "is_fin x" "is_fin y" "fpval y \<noteq> 0" "\<bar>fpval x / fpval y\<bar> < d_big"
  shows "rounds_to (d_div x y) (fpval x / fpval y)"
proof -
  obtain s m e t n f where x: "x = Fin s m e" and y: "y = Fin t n f"
    using assms by (cases x; cases y) auto
  have n: "n \<noteq> 0" using assms(3) y by auto
  obtain a b where ab: "0 < b" "d_div x y = dround (s \<noteq> t) a b"
    "of_nat a / of_nat b = (of_nat m / of_nat n * 2 powi (e - f) :: rat)"
  proof (cases "0 \<le> e - f")
    case True
    then show ?thesis using that [of n "m * 2 ^ nat (e - f)"] n by (simp add: x y powi_nonneg)
  next
    case False
    then have "(2 :: rat) powi (e - f) = inverse (2 ^ nat (f - e))" using powi_nonpos [of "e - f"] by simp
    then show ?thesis using that [of "n * 2 ^ nat (f - e)" m] n False by (simp add: x y divide_inverse)
  qed
  have "fpval x / fpval y = (if s \<noteq> t then - 1 else 1) * (of_nat a / of_nat b)"
    unfolding ab(3) by (cases s; cases t) (simp_all add: x y power_int_diff)
  then show ?thesis
    using dround_rounds [OF ab(1), of a "s \<noteq> t"] assms(4) ab(2) by (cases "s \<noteq> t") (simp_all add: abs_mult)
qed

lemma d_of_int_exact:
  assumes "\<bar>i\<bar> < 2 ^ 53"
  shows "is_fin (d_of_int i) \<and> fpval (d_of_int i) = of_int i"
proof -
  have "nat \<bar>i\<bar> < 2 ^ 53" using assms by (simp add: nat_less_iff)
  then show ?thesis
    using dround_exact [of "nat \<bar>i\<bar>" 1 "if i = 0 then False else i < 0"]
    by (auto simp: d_of_int_def dround_int_def Let_def of_nat_nat)
qed

lemma floor_scaled:
  "\<lfloor>of_nat m * 2 powi e :: rat\<rfloor> = (if 0 \<le> e then int m * 2 ^ nat e else int m div 2 ^ nat (- e))"
proof (cases "0 \<le> e")
  case True
  then have "(of_nat m * 2 powi e :: rat) = of_int (int m * 2 ^ nat e)" by (simp add: powi_nonneg)
  then show ?thesis using True by (simp only: floor_of_int) simp
next
  case False
  then have "(of_nat m * 2 powi e :: rat) = of_int (int m) / of_int (2 ^ nat (- e))"
    by (simp add: powi_nonpos divide_inverse)
  then show ?thesis using False by (simp only: floor_divide_of_int_eq) simp
qed

lemma d_floor_exact:
  assumes "is_fin x" "0 \<le> fpval x" "fpval x < 2 ^ 53"
  shows "is_fin (d_floor x) \<and> fpval (d_floor x) = of_int \<lfloor>fpval x\<rfloor>"
proof -
  obtain s m e where x: "x = Fin s m e" using assms(1) by (cases x) auto
  show ?thesis
  proof (cases "0 \<le> e \<or> m = 0")
    case True
    then have "fpval x = of_int (with_sign s (int m) * 2 ^ nat e)"
      by (cases "m = 0") (simp_all add: x with_sign_def powi_nonneg)
    then show ?thesis using True by (simp add: x)
  next
    case False
    then have pos: "(0 :: rat) < of_nat m * 2 powi e" by simp
    then have s: "\<not> s" using assms(2) by (cases s) (simp_all add: x)
    have v: "\<lfloor>fpval x\<rfloor> = int m div 2 ^ nat (- e)" using False s floor_scaled [of m e] by (simp add: x)
    have "\<lfloor>fpval x\<rfloor> < 2 ^ 53"
      using assms(3) by (simp add: floor_less_iff)
    then have "\<bar>int m div 2 ^ nat (- e)\<bar> < 2 ^ 53" unfolding v by (simp add: pos_imp_zdiv_nonneg_iff)
    from d_of_int_exact [OF this] show ?thesis
      using False s v by (simp add: x d_of_int_def)
  qed
qed

lemma d_to_int_floor:
  assumes "is_fin x" "0 \<le> fpval x" "fpval x < 2 ^ 31"
  shows "d_to_int x = Some \<lfloor>fpval x\<rfloor>"
proof -
  obtain s m e where x: "x = Fin s m e" using assms(1) by (cases x) auto
  have "\<lfloor>fpval x\<rfloor> < 2 ^ 31" "0 \<le> \<lfloor>fpval x\<rfloor>" using assms by (simp_all add: floor_less_iff)
  moreover have "\<lfloor>fpval x\<rfloor> = with_sign s (if 0 \<le> e then int m * 2 ^ nat e else int m div 2 ^ nat (- e))"
  proof (cases "s \<and> m \<noteq> 0")
    case True
    then have "fpval x < 0" by (simp add: x)
    then show ?thesis using assms(2) by simp
  next
    case False
    then show ?thesis using floor_scaled [of m e] by (auto simp: x with_sign_def)
  qed
  ultimately show ?thesis by (simp only: x d_to_int.simps in_int_def) simp
qed

end
