(* ===== verification/C_Text.thy ===== *)
theory C_Text
  imports C_Double "HOL-Library.Signed_Division"
begin

text \<open>
  Text: character constants, \<open>%d\<close>, and \<open>str2int\<close> of \<^verbatim>\<open>mnld_entity/src/mnl_common.c\<close>, which the NMEA
  parser and the configuration of the EPO download use. \<open>None\<close> is a signed overflow.
\<close>

section \<open>Characters and numbers as text\<close>

definition ascii :: "string \<Rightarrow> c_char list" where
  "ascii s = map of_char s"

fun show_nat :: "nat \<Rightarrow> c_char list" where
  "show_nat n = (if n < 10 then [48 + word_of_nat n] else show_nat (n div 10) @ [48 + word_of_nat (n mod 10)])"

declare show_nat.simps [simp del]

text \<open>\<open>%d\<close>.\<close>

definition show_int :: "int \<Rightarrow> c_char list" where
  "show_int i = (if i < 0 then 45 # show_nat (nat (- i)) else show_nat (nat i))"

section \<open>Text as a number\<close>

fun str2int_loop :: "int \<Rightarrow> int \<Rightarrow> c_char list \<Rightarrow> int option" where
  "str2int_loop sign result [] = Some (sign * result)"
| "str2int_loop sign result (c # cs) =
     (if is_dec c then do { r \<leftarrow> in_int (result * 10 + int (digit c)); str2int_loop sign r cs } else Some (- 1))"

definition str2int :: "c_char list \<Rightarrow> int option" where
  "str2int t = (case t of c # cs \<Rightarrow> if c = 45 then str2int_loop (- 1) 0 cs else str2int_loop 1 0 t | [] \<Rightarrow> Some 0)"

section \<open>Division\<close>

text \<open>The division of C on numbers that are not negative.\<close>

lemma sdiv_pos: "0 \<le> a \<Longrightarrow> 0 < b \<Longrightarrow> a sdiv b = a div (b :: int)" "0 \<le> a \<Longrightarrow> 0 < b \<Longrightarrow> a smod b = a mod (b :: int)"
  by (simp_all add: signed_divide_int_def signed_modulo_int_def sgn_if minus_mult_div_eq_mod)

end
