(* ===== verification/C_Time.thy ===== *)
theory C_Time
  imports C_Double
begin

text \<open>
  The calendar functions of the C library as the NMEA parser uses them: broken-down time, UTC and
  local time of a time zone with daylight saving, and \<open>mktime\<close>, with its normalisation of
  fields out of range and its use of \<open>tm_isdst\<close>. \<open>time_t\<close> has 32 bits.
\<close>

section \<open>The calendar\<close>

definition leap :: "int \<Rightarrow> bool" where
  "leap y \<longleftrightarrow> 4 dvd y \<and> (\<not> 100 dvd y \<or> 400 dvd y)"

definition year_days :: "int \<Rightarrow> nat" where
  "year_days y = (if leap y then 366 else 365)"

text \<open>Days from the epoch to the first of January.\<close>

definition days_before_year :: "int \<Rightarrow> int" where
  "days_before_year y = 365 * (y - 1970) + (y - 1969) div 4 - (y - 1901) div 100 + (y - 1601) div 400"

definition month_days :: "int \<Rightarrow> nat list" where
  "month_days y = [31, if leap y then 29 else 28, 31, 30, 31, 30, 31, 31, 30, 31, 30, 31]"

definition days_before_month :: "int \<Rightarrow> nat \<Rightarrow> nat" where
  "days_before_month y m = sum_list (take m (month_days y))"

record tm =
  tm_sec :: int
  tm_min :: int
  tm_hour :: int
  tm_mday :: int
  tm_mon :: int
  tm_year :: int
  tm_isdst :: int

text \<open>The seconds since the epoch of a broken-down UTC time; months out of range carry over.\<close>

definition timegm :: "tm \<Rightarrow> int" where
  "timegm t =
     (let y = tm_year t + 1900 + tm_mon t div 12; m = nat (tm_mon t mod 12)
      in 86400 * (days_before_year y + int (days_before_month y m) + tm_mday t - 1) +
         3600 * tm_hour t + 60 * tm_min t + tm_sec t)"

function year_from :: "int \<Rightarrow> nat \<Rightarrow> int \<times> nat" where
  "year_from y d = (if d < year_days y then (y, d) else year_from (y + 1) (d - year_days y))"
  by auto

termination
  by (relation "measure snd") (auto simp: year_days_def)

declare year_from.simps [simp del]

fun month_from :: "nat list \<Rightarrow> nat \<Rightarrow> nat \<times> nat" where
  "month_from [] d = (0, d)"
| "month_from (l # ls) d = (if d < l then (0, d) else (case month_from ls (d - l) of (m, r) \<Rightarrow> (Suc m, r)))"

text \<open>UTC of a time since 1900.\<close>

definition gmtime :: "int \<Rightarrow> tm" where
  "gmtime t =
     (let s = t mod 86400;
          (y, d) = year_from 1900 (nat (t div 86400 - days_before_year 1900));
          (m, r) = month_from (month_days y) d
      in \<lparr>tm_sec = s mod 60, tm_min = s div 60 mod 60, tm_hour = s div 3600, tm_mday = int r + 1,
          tm_mon = int m, tm_year = y - 1900, tm_isdst = 0\<rparr>)"

text \<open>A time zone: seconds east of Greenwich in winter, and when daylight saving, one hour, is on.\<close>

record zone =
  std_offset :: int
  dst :: "int \<Rightarrow> bool"

definition localtime :: "zone \<Rightarrow> int \<Rightarrow> tm" where
  "localtime z t =
     (if dst z t then (gmtime (t + std_offset z + 3600))\<lparr>tm_isdst := 1\<rparr>
      else gmtime (t + std_offset z))"

text \<open>\<open>mktime(&tm)\<close>: the time, or -1, and what it leaves in \<open>tm\<close>.\<close>

definition mktime :: "zone \<Rightarrow> tm \<Rightarrow> int \<times> tm" where
  "mktime z tm =
     (let s = timegm tm - std_offset z;
          t = (if tm_isdst tm = 0 then s
               else if 0 < tm_isdst tm then s - 3600
               else if dst z (s - 3600) then s - 3600 else s)
      in if in_int t = None then (- 1, tm) else (t, localtime z t))"

section \<open>UTC and back\<close>

lemma div_step:
  assumes "0 < k"
  shows "(x + 1) div k = x div k + (if k dvd x + 1 then 1 else (0 :: int))"
proof -
  define q r where "q = x div k" and "r = x mod k"
  have x: "x = k * q + r" and r: "0 \<le> r" "r < k" using assms by (simp_all add: q_def r_def)
  show ?thesis
  proof (cases "r + 1 = k")
    case True
    then have "x + 1 = k * (q + 1)" by (simp add: x distrib_left)
    then show ?thesis using assms by (simp add: q_def [symmetric])
  next
    case False
    then have "(x + 1) div k = q" using r by (intro int_div_pos_eq [of _ _ _ "r + 1"]) (simp_all add: x)
    moreover have "(x + 1) mod k = r + 1" using False r by (intro int_mod_pos_eq [of _ _ q]) (simp_all add: x)
    then have "\<not> k dvd x + 1" using r by (simp add: dvd_eq_mod_eq_0)
    ultimately show ?thesis by (simp add: q_def)
  qed
qed

lemma div_next_year:
  assumes "0 < k" "k dvd c - 1"
  shows "(y + 1 - c) div k = (y - c) div k + (if k dvd y then 1 else (0 :: int))"
proof -
  have "y + 1 - c = y - (c - 1)" by simp
  then have "k dvd y + 1 - c \<longleftrightarrow> k dvd y" using assms(2) by (simp only: dvd_diff_left_iff)
  then show ?thesis using div_step [OF assms(1), of "y - c"] by (simp add: algebra_simps)
qed

lemma leap_days:
  fixes a b c y :: int
  assumes "P400 \<Longrightarrow> P100" "P100 \<Longrightarrow> P4" "a' = a + (if P4 then 1 else 0)" "b' = b + (if P100 then 1 else 0)"
    "c' = c + (if P400 then 1 else 0)"
  shows "365 * (y + 1 - 1970) + a' - b' + c' = 365 * (y - 1970) + a - b + c +
    int (if P4 \<and> (\<not> P100 \<or> P400) then 366 else 365)"
proof -
  define i j k :: int where "i = (if P4 then 1 else 0)" and "j = (if P100 then 1 else 0)"
    and "k = (if P400 then 1 else 0)"
  have d: "int (if P4 \<and> (\<not> P100 \<or> P400) then 366 else 365) = 365 + i - j + k"
    using assms(1,2) unfolding i_def j_def k_def by (cases P4; cases P100; cases P400) simp_all
  show ?thesis
    unfolding d assms(3-5) i_def [symmetric] j_def [symmetric] k_def [symmetric] by (simp add: algebra_simps)
qed

lemma next_year: "days_before_year (y + 1) = days_before_year y + int (year_days y)"
  unfolding days_before_year_def year_days_def leap_def
proof (rule leap_days)
  show "400 dvd y \<Longrightarrow> 100 dvd y" using dvd_trans [of 100 400 y] by simp
  show "100 dvd y \<Longrightarrow> 4 dvd y" using dvd_trans [of 4 100 y] by simp
  show "(y + 1 - 1969) div 4 = (y - 1969) div 4 + (if 4 dvd y then 1 else 0)" by (rule div_next_year) simp_all
  show "(y + 1 - 1901) div 100 = (y - 1901) div 100 + (if 100 dvd y then 1 else 0)" by (rule div_next_year) simp_all
  show "(y + 1 - 1601) div 400 = (y - 1601) div 400 + (if 400 dvd y then 1 else 0)" by (rule div_next_year) simp_all
qed

lemma year_from_days:
  "year_from y d = (y', r) \<Longrightarrow> days_before_year y' + int r = days_before_year y + int d \<and> r < year_days y'"
proof (induction y d rule: year_from.induct)
  case (1 y d)
  show ?case
  proof (cases "d < year_days y")
    case True
    then show ?thesis using 1(2) by (simp add: year_from.simps [of y d])
  next
    case False
    then show ?thesis using 1 next_year [of y] by (simp add: year_from.simps [of y d])
  qed
qed

lemma month_from_days:
  "month_from ls d = (m, r) \<Longrightarrow> d < sum_list ls \<Longrightarrow> m < length ls \<and> sum_list (take m ls) + r = d"
  by (induction ls arbitrary: d m) (fastforce split: if_splits prod.splits)+

lemma timegm_gmtime:
  assumes "86400 * days_before_year 1900 \<le> t"
  shows "timegm (gmtime t) = t"
proof -
  define s where "s = t mod 86400"
  obtain y d where y: "year_from 1900 (nat (t div 86400 - days_before_year 1900)) = (y, d)" by fastforce
  obtain m r where m: "month_from (month_days y) d = (m, r)" by fastforce
  have "days_before_year 1900 \<le> t div 86400" using zdiv_mono1 [OF assms, of 86400] by simp
  with year_from_days [OF y] have d: "days_before_year y + int d = t div 86400" "d < year_days y" by simp_all
  have "d < sum_list (month_days y)" using d(2) by (simp add: year_days_def month_days_def split: if_splits)
  from month_from_days [OF m this] have mr: "m < 12" "days_before_month y m + r = d"
    by (simp_all add: days_before_month_def month_days_def)
  have clock: "3600 * (s div 3600) + 60 * (s div 60 mod 60) + s mod 60 = s"
  proof -
    have "s div 3600 = s div 60 div 60" using zdiv_zmult2_eq [of 60 s 60] by simp
    moreover have "60 * (s div 60) + s mod 60 = s" "60 * (s div 60 div 60) + s div 60 mod 60 = s div 60"
      by (rule mult_div_mod_eq)+
    ultimately show ?thesis by linarith
  qed
  have "timegm (gmtime t) = 86400 * (days_before_year y + int d) + s"
    using mr clock by (simp add: gmtime_def y m s_def [symmetric] timegm_def Let_def)
  then show ?thesis by (simp add: d(1) s_def)
qed

end
