(* ===== verification/Nmea_Reader.thy ===== *)
theory Nmea_Reader
  imports C_Text C_Time Gnss_Sv Mnld_Main
begin

text \<open>
  The data of the NMEA parser (\<^verbatim>\<open>mnld_entity/src/nmea_parser.c\<close>): the tokenizer, the conversions of fields to numbers, and the updates of the
  fix and of the satellites in view. \<open>None\<close> is undefined behaviour: an access outside an array, a signed
  overflow, a conversion of a number that does not fit.
\<close>

section \<open>Tokens\<close>

abbreviation MAX_NMEA_TOKENS :: nat where "MAX_NMEA_TOKENS \<equiv> 24"

text \<open>The end of line, with an optional carriage return, and the checksum.\<close>

definition trim_newline :: "c_char list \<Rightarrow> c_char list" where
  "trim_newline xs =
     (if xs \<noteq> [] \<and> last xs = 10 then
        let ys = butlast xs in if ys \<noteq> [] \<and> last ys = 13 then butlast ys else ys
      else xs)"

definition trim_checksum :: "c_char list \<Rightarrow> c_char list" where
  "trim_checksum xs = (if 3 \<le> length xs \<and> xs ! (length xs - 3) = 42 then take (length xs - 3) xs else xs)"

lemma length_after_comma: "p \<noteq> [] \<Longrightarrow> length (dropWhile f p) - 1 < length p"
  using length_dropWhile_le [of f p] by (cases p) auto

function token_loop :: "c_char list list \<Rightarrow> c_char list \<Rightarrow> c_char list list" where
  "token_loop toks p =
     (if p = [] then toks
      else
        let q = dropWhile (\<lambda>c. c \<noteq> 44) p;
            toks = (if length toks < MAX_NMEA_TOKENS then toks @ [takeWhile (\<lambda>c. c \<noteq> 44) p] else toks)
        in token_loop toks (drop 1 q))"
  by pat_completeness auto

termination
  by (relation "measure (length \<circ> snd)") (auto simp: length_after_comma simp del: One_nat_def)

declare token_loop.simps [simp del]

definition nmea_tokenizer_init :: "c_char list \<Rightarrow> c_char list list" where
  "nmea_tokenizer_init xs =
     (let p = (case xs of c # r \<Rightarrow> if c = 36 then r else xs | [] \<Rightarrow> xs)
      in token_loop [] (trim_checksum (trim_newline p)))"

text \<open>A token is its characters; one out of range is the empty string.\<close>

definition nmea_tokenizer_get :: "c_char list list \<Rightarrow> nat \<Rightarrow> c_char list" where
  "nmea_tokenizer_get t i = (if i < length t then t ! i else [])"

text \<open>\<open>tok.p[0]\<close>, which is only compared with letters: for an empty token it is the comma that follows, or a
  NUL.\<close>

definition tok_char :: "c_char list \<Rightarrow> c_char" where
  "tok_char t = (case t of [] \<Rightarrow> 0 | c # _ \<Rightarrow> c)"

section \<open>Numbers\<close>

definition str2float :: "c_char list \<Rightarrow> fp" where
  "str2float t = (if 16 \<le> length t then d_zero else strtod t)"

definition convert_from_hhmm :: "c_char list \<Rightarrow> fp option" where
  "convert_from_hhmm tok = do {
     let val = str2float tok;
     degrees \<leftarrow> d_to_int (d_div (d_floor val) (d_of_int 100));
     let minutes = d_sub val (d_mul (d_of_int degrees) (d_of_int 100));
     Some (d_add (d_of_int degrees) (d_div minutes (d_of_int 60)))
   }"

section \<open>The reader\<close>

abbreviation NMEA_MAX_SIZE :: nat where "NMEA_MAX_SIZE \<equiv> 255"
abbreviation NMEA_MAX_SV_INFO :: int where "NMEA_MAX_SV_INFO \<equiv> 4"

datatype SV_TYPE = UNKNOWN_SV | GPS_SV | SBAS_SV | GLONASS_SV | QZSS_SV | BDS_SV | GALILEO_SV

fun sv_type_num :: "SV_TYPE \<Rightarrow> c_char" where
  "sv_type_num UNKNOWN_SV = 0" | "sv_type_num GPS_SV = 1" | "sv_type_num SBAS_SV = 2" | "sv_type_num GLONASS_SV = 3"
| "sv_type_num QZSS_SV = 4" | "sv_type_num BDS_SV = 5" | "sv_type_num GALILEO_SV = 6"

record NmeaReader =
  nr_pos :: nat
  nr_overflow :: bool
  utc_year :: int
  utc_mon :: int
  utc_day :: int
  utc_diff :: int
  nr_fix :: gps_location
  fix_mode :: int
  sv_count :: nat
  sv_status :: gnss_sv_info
  nr_in :: "c_char list"

text \<open>The time, and the zone of the device.\<close>

record nmea_env =
  nm_now :: int
  nm_zone :: zone

text \<open>\<open>unsigned long\<close> differences, cut to an \<open>int\<close>.\<close>

definition utc_diff_of :: "nmea_env \<Rightarrow> int" where
  "utc_diff_of e =
     (let time_local = fst (mktime (nm_zone e) (localtime (nm_zone e) (nm_now e)));
          time_utc = fst (mktime (nm_zone e) (gmtime (nm_now e)))
      in sint (word_of_int (time_utc - time_local) :: c_int))"

definition nmea_reader_update_utc_diff :: "nmea_env \<Rightarrow> NmeaReader \<Rightarrow> NmeaReader" where
  "nmea_reader_update_utc_diff e r = r\<lparr>utc_diff := utc_diff_of e\<rparr>"

definition zero_sv :: gnss_sv where
  "zero_sv = \<lparr>sv_svid = 0, sv_constellation = 0, sv_c_n0_dbhz = 0, sv_elevation = 0, sv_azimuth = 0, sv_flags = 0\<rparr>"

definition nmea_reader_init :: "nmea_env \<Rightarrow> NmeaReader" where
  "nmea_reader_init e = nmea_reader_update_utc_diff e \<lparr>nr_pos = 0, nr_overflow = False, utc_year = - 1, utc_mon = - 1,
     utc_day = - 1, utc_diff = 0,
     nr_fix = \<lparr>loc_flags = 0, loc_lat = 0, loc_lng = 0, loc_alt = 0, loc_speed = 0, loc_bearing = 0, loc_accuracy = 0,
       loc_timestamp = 0\<rparr>,
     fix_mode = 0, sv_count = 0, sv_status = \<lparr>num_svs = 0, sv_list = replicate GNSS_MAX_SVS zero_sv\<rparr>,
     nr_in = replicate (NMEA_MAX_SIZE + 1) 0\<rparr>"

text \<open>\<open>LOC_FIXED\<close>.\<close>

definition loc_fixed :: "NmeaReader \<Rightarrow> bool" where
  "loc_fixed r \<longleftrightarrow> fix_mode r = 2 \<or> fix_mode r = 3"

section \<open>Updates of the fix\<close>

text \<open>The updates return \<open>-1\<close> and change nothing when a field is not usable; the result is never looked at.\<close>

definition upd_fix :: "(gps_location \<Rightarrow> gps_location) \<Rightarrow> NmeaReader \<Rightarrow> NmeaReader" where
  "upd_fix f r = r\<lparr>nr_fix := f (nr_fix r)\<rparr>"

definition has :: "c_int \<Rightarrow> gps_location \<Rightarrow> gps_location" where
  "has flag l = l\<lparr>loc_flags := loc_flags l OR flag\<rparr>"

definition nmea_reader_update_altitude :: "c_char list \<Rightarrow> NmeaReader \<Rightarrow> NmeaReader" where
  "nmea_reader_update_altitude tok r =
     (if tok = [] then r else upd_fix (\<lambda>l. has GPS_LOCATION_HAS_ALT (l\<lparr>loc_alt := double_bits (str2float tok)\<rparr>)) r)"

definition nmea_reader_update_time :: "nmea_env \<Rightarrow> c_char list \<Rightarrow> NmeaReader \<Rightarrow> NmeaReader option" where
  "nmea_reader_update_time e tok r =
     (if length tok < 6 then Some r
      else do {
        let r = (if utc_year r < 0 then
                   let t = gmtime (nm_now e)
                   in r\<lparr>utc_year := tm_year t + 1900, utc_mon := tm_mon t + 1, utc_day := tm_mday t\<rparr>
                 else r);
        hour \<leftarrow> str2int (take 2 tok);
        minute \<leftarrow> str2int (take 2 (drop 2 tok));
        sec \<leftarrow> d_to_int (str2float (drop 4 tok));
        let t = \<lparr>tm_sec = sec, tm_min = minute, tm_hour = hour, tm_mday = utc_day r, tm_mon = utc_mon r - 1,
          tm_year = utc_year r - 1900, tm_isdst = - 1\<rparr>;
        let (_, t) = mktime (nm_zone e) t;
        let r = nmea_reader_update_utc_diff e r;
        fix_time \<leftarrow> in_int (fst (mktime (nm_zone e) t) - utc_diff r);
        Some (upd_fix (\<lambda>l. l\<lparr>loc_timestamp := word_of_int (fix_time * 1000)\<rparr>) r)
      })"

definition nmea_reader_update_date :: "nmea_env \<Rightarrow> c_char list \<Rightarrow> c_char list \<Rightarrow> NmeaReader \<Rightarrow> NmeaReader option" where
  "nmea_reader_update_date e date tm r =
     (if length date \<noteq> 6 then Some r
      else do {
        day \<leftarrow> str2int (take 2 date);
        mon \<leftarrow> str2int (take 2 (drop 2 date));
        year \<leftarrow> str2int (drop 4 date);
        let year = year + 2000;
        if day < 0 \<or> mon < 0 \<or> year < 0 then Some r
        else nmea_reader_update_time e tm (r\<lparr>utc_year := year, utc_mon := mon, utc_day := day\<rparr>)
      })"

definition nmea_reader_update_latlong ::
  "c_char list \<Rightarrow> c_char \<Rightarrow> c_char list \<Rightarrow> c_char \<Rightarrow> NmeaReader \<Rightarrow> NmeaReader option" where
  "nmea_reader_update_latlong latitude latitudeHemi longitude longitudeHemi r =
     (if length latitude < 6 then Some r
      else do {
        lat \<leftarrow> convert_from_hhmm latitude;
        let lat = (if latitudeHemi = 83 then fp_neg lat else lat);
        if length longitude < 6 then Some r
        else do {
          lon \<leftarrow> convert_from_hhmm longitude;
          let lon = (if longitudeHemi = 87 then fp_neg lon else lon);
          Some (upd_fix (\<lambda>l. has GPS_LOCATION_HAS_LAT_LONG (l\<lparr>loc_lat := double_bits lat, loc_lng := double_bits lon\<rparr>)) r)
        }
      })"

definition nmea_reader_update_bearing :: "c_char list \<Rightarrow> NmeaReader \<Rightarrow> NmeaReader" where
  "nmea_reader_update_bearing tok r =
     (if tok = [] then r else upd_fix (\<lambda>l. has GPS_LOCATION_HAS_BEARING (l\<lparr>loc_bearing := float_bits (d_to_float (str2float tok))\<rparr>)) r)"

text \<open>From knots to metres per second: \<open>1.942795467\<close>.\<close>

definition knots_per_mps :: fp where
  "knots_per_mps = dround False 1942795467 (10 ^ 9)"

definition nmea_reader_update_speed :: "c_char list \<Rightarrow> NmeaReader \<Rightarrow> NmeaReader" where
  "nmea_reader_update_speed tok r =
     (if tok = [] then r
      else upd_fix (\<lambda>l. has GPS_LOCATION_HAS_SPEED (l\<lparr>loc_speed := float_bits (d_to_float (d_div (str2float tok) knots_per_mps))\<rparr>)) r)"

definition nmea_reader_update_accuracy :: "c_char list \<Rightarrow> NmeaReader \<Rightarrow> NmeaReader" where
  "nmea_reader_update_accuracy tok r =
     (if tok = [] then r else upd_fix (\<lambda>l. has GPS_LOCATION_HAS_ACCURACY (l\<lparr>loc_accuracy := float_bits (d_to_float (str2float tok))\<rparr>)) r)"

section \<open>Satellites in view\<close>

text \<open>The number within its system, and the system, of a satellite; others are ignored.\<close>

definition sv_of :: "int \<Rightarrow> (int \<times> SV_TYPE) option" where
  "sv_of prn =
     (if 0 < prn \<and> prn < 32 then Some (prn, GPS_SV)
      else if 65 \<le> prn \<and> prn \<le> 96 then Some (prn - 64, GLONASS_SV)
      else if 201 \<le> prn \<and> prn \<le> 237 then Some (prn - 200, BDS_SV)
      else if 401 \<le> prn \<and> prn \<le> 436 then Some (prn - 400, GALILEO_SV)
      else None)"

definition int_to_float :: "int \<Rightarrow> fp" where
  "int_to_float i = d_to_float (d_of_int i)"

text \<open>\<open>used\<close> is \<open>gnss_sv_used_in_fix\<close>.\<close>

definition nmea_reader_update_sv_status ::
  "(int \<Rightarrow> bool) \<Rightarrow> int \<Rightarrow> c_char list \<Rightarrow> c_char list \<Rightarrow> c_char list \<Rightarrow> NmeaReader \<Rightarrow> NmeaReader option" where
  "nmea_reader_update_sv_status used prn elevation azimuth snr r =
     (let sv_index = sv_count r + nat (num_svs (sv_status r))
      in if GNSS_MAX_SVS \<le> sv_index then Some r
         else case sv_of prn of
           None \<Rightarrow> Some r
         | Some (svid, ty) \<Rightarrow> do {
             ele \<leftarrow> str2int elevation;
             azi \<leftarrow> str2int azimuth;
             let old = sv_list (sv_status r) ! sv_index;
             let sv = \<lparr>sv_svid = word_of_int svid, sv_constellation = sv_type_num ty,
               sv_c_n0_dbhz = float_bits (d_to_float (str2float snr)),
               sv_elevation = float_bits (int_to_float ele), sv_azimuth = float_bits (int_to_float azi),
               sv_flags = (if used prn then sv_flags old OR 0x04 else sv_flags old AND 0xFB)\<rparr>;
             Some (r\<lparr>sv_status := (sv_status r)\<lparr>sv_list := (sv_list (sv_status r))[sv_index := sv]\<rparr>,
               sv_count := sv_count r + 1\<rparr>)
           })"

end
