(* ===== verification/At_Interface.thy ===== *)
theory At_Interface
  imports C_Text Lbs_Utility "HOL-Library.Signed_Division"
begin

text \<open>
  The AT commands for the production test of the receiver
  (\<^verbatim>\<open>mnl_at_cmd_interface/src/mnl_at_interface.c\<close>): the commands and their answers, the state of
  a test, and the two hooks the NMEA parser calls, one before every sentence and one when the
  satellites in view are complete. \<open>None\<close> is undefined behaviour: an access outside an array or
  through a freed pointer, a second \<open>free\<close>, a signed overflow of a product or a sum that depends on input.
\<close>

section \<open>State\<close>

datatype at_test_state =
    MNL_AT_TEST_UNKNOWN | MNL_AT_TEST_START | MNL_AT_TEST_STOP | MNL_AT_TEST_INPROGRESS | MNL_AT_TEST_DONE
  | MNL_AT_TEST_RESULT_DONE

text \<open>\<open>Dev_CNr\<close>: null, a block of as many \<open>int\<close>s as fit, or a pointer to a freed block.\<close>

datatype dev_ptr = Dev_null | Dev_block "int list" | Dev_freed

text \<open>An answer is the text and the number of bytes that are sent: with \<open>sizeof(buff)\<close> for the latter,
  what follows the text is not initialised.\<close>

datatype at_effect = At_ack "c_char list" nat | At_alarm_off | At_gps_start | At_gps_stop

text \<open>The variables of the file. The flags, which only ever are 0 or 1, are booleans.\<close>

record at_state =
  at_test_flag :: bool
  at_signal_mode :: bool
  at_signal_test_begin :: bool
  at_cancel_alarm :: bool
  at_st :: at_test_state
  ht_test_num :: int
  ht_prn_num :: int
  ht_time_delay :: int
  dev_cnr :: dev_ptr
  at_prn :: "int list"
  at_snr :: "int list"
  at_cn :: int
  at_result :: "int list"
  at_test_num :: int
  at_cno :: int
  at_avg_cno :: int
  at_dev_cno :: int
  at_completed :: int
  at_success :: nat
  at_failure :: int
  at_wait :: int
  at_sig_suc :: int
  at_err_code :: int
  at_mode_flag :: bool
  at_fd :: int
  at_start_time :: int
  at_prev_success :: nat
  at_out :: "at_effect list"

definition at_init :: at_state where
  "at_init = \<lparr>at_test_flag = False, at_signal_mode = False, at_signal_test_begin = False, at_cancel_alarm = False,
     at_st = MNL_AT_TEST_UNKNOWN, ht_test_num = 0, ht_prn_num = 0, ht_time_delay = 0, dev_cnr = Dev_null,
     at_prn = replicate 32 0, at_snr = replicate 32 0, at_cn = 0, at_result = [1, 0, 0, 0, 0, 0, 0, 0],
     at_test_num = 0, at_cno = 0, at_avg_cno = 0, at_dev_cno = 0, at_completed = 0, at_success = 0, at_failure = 0,
     at_wait = 0, at_sig_suc = 0, at_err_code = 1, at_mode_flag = True, at_fd = 0, at_start_time = 0,
     at_prev_success = 0, at_out = []\<rparr>"

text \<open>The clock, and whether \<open>malloc\<close> can give so many bytes.\<close>

record at_env =
  at_now :: int
  malloc_ok :: "nat \<Rightarrow> bool"

definition at_emit :: "at_effect \<Rightarrow> at_state \<Rightarrow> at_state" where
  "at_emit e s = s\<lparr>at_out := at_out s @ [e]\<rparr>"

abbreviation GPS_AT_ACK_SIZE :: nat where "GPS_AT_ACK_SIZE \<equiv> 60"
abbreviation MAX_VALID_STATUS_WAIT_COUNT :: int where "MAX_VALID_STATUS_WAIT_COUNT \<equiv> 20"
abbreviation GPS_TEST_PRN :: int where "GPS_TEST_PRN \<equiv> 1"

section \<open>Starting and stopping a test\<close>

text \<open>\<open>free(Dev_CNr)\<close> leaves the pointer as it is. \<open>at_test2mnl_gps_stop\<close> and \<open>_start\<close> always return 0.\<close>

definition free_dev :: "dev_ptr \<Rightarrow> dev_ptr option" where
  "free_dev p = (case p of Dev_null \<Rightarrow> Some Dev_null | Dev_block _ \<Rightarrow> Some Dev_freed | Dev_freed \<Rightarrow> None)"

definition gpsinf_mtk_gps_test_stop :: "at_state \<Rightarrow> at_state option" where
  "gpsinf_mtk_gps_test_stop s = do {
     let s = at_emit At_gps_stop (s\<lparr>at_mode_flag := True\<rparr>);
     let s = s\<lparr>ht_test_num := 0, ht_prn_num := 0, ht_time_delay := 0, at_test_flag := False, at_signal_mode := False,
       at_st := MNL_AT_TEST_UNKNOWN, at_cancel_alarm := False, at_signal_test_begin := False,
       at_success := 0, at_completed := 0, at_wait := 0, at_cno := 0, at_dev_cno := 0, at_err_code := 1,
       at_test_num := 0\<rparr>;
     p \<leftarrow> free_dev (dev_cnr s);
     Some (s\<lparr>dev_cnr := p\<rparr>)
   }"

text \<open>\<open>sizeof(int) * test_num\<close> in 32 bits; \<open>memset\<close> then clears that many bytes.\<close>

definition dev_bytes :: "int \<Rightarrow> nat" where
  "dev_bytes n = nat (4 * n mod 2 ^ 32)"

definition malloc_dev :: "at_env \<Rightarrow> int \<Rightarrow> dev_ptr option" where
  "malloc_dev e n =
     (if malloc_ok e (dev_bytes n) then Some (Dev_block (replicate (dev_bytes n div 4) 0))
      else if dev_bytes n = 0 then Some Dev_null else None)"

text \<open>The result is 0 or -1.\<close>

definition gpsinf_mtk_gps_test_start :: "at_env \<Rightarrow> int \<Rightarrow> int \<Rightarrow> int \<Rightarrow> int \<Rightarrow> at_state \<Rightarrow> (int \<times> at_state) option" where
  "gpsinf_mtk_gps_test_start e test_num prn_num time_delay test_mode s = do {
     s \<leftarrow> (if at_st s \<noteq> MNL_AT_TEST_UNKNOWN \<and> at_mode_flag s then gpsinf_mtk_gps_test_stop s else Some s);
     let s = s\<lparr>ht_test_num := test_num, ht_prn_num := prn_num, ht_time_delay := time_delay,
       at_start_time := at_now e, at_avg_cno := 0\<rparr>;
     p \<leftarrow> malloc_dev e test_num;
     let s = s\<lparr>dev_cnr := p\<rparr>;
     if test_num = 0 \<and> test_mode = 0 then Some (- 1, s)
     else do {
       let s = (if test_mode = 1 then s\<lparr>at_signal_mode := True\<rparr> else s\<lparr>at_test_flag := True\<rparr>);
       let s = s\<lparr>at_st := MNL_AT_TEST_INPROGRESS\<rparr>;
       Some (0, at_emit At_gps_start s)
     }
   }"

definition gpsinf_mtk_gps_test_inprogress :: "at_state \<Rightarrow> at_test_state" where
  "gpsinf_mtk_gps_test_inprogress s =
     (if at_st s = MNL_AT_TEST_DONE \<or> at_st s = MNL_AT_TEST_RESULT_DONE then MNL_AT_TEST_DONE
      else if at_st s = MNL_AT_TEST_INPROGRESS then MNL_AT_TEST_INPROGRESS
      else MNL_AT_TEST_UNKNOWN)"

section \<open>Answers\<close>

definition at_command_send_ack :: "c_char list \<Rightarrow> nat \<Rightarrow> at_state \<Rightarrow> at_state" where
  "at_command_send_ack ack len s = (if at_fd s \<noteq> 0 then at_emit (At_ack ack len) s else s)"

text \<open>\<open>char buff[] = "..."; at_command_send_ack(buff, sizeof(buff))\<close>, and a text that \<open>sprintf\<close> puts into
  \<open>buff[n]\<close>.\<close>

definition ack_text :: "string \<Rightarrow> at_state \<Rightarrow> at_state" where
  "ack_text t = at_command_send_ack (ascii t) (length t + 1)"

definition ack_buff :: "nat \<Rightarrow> c_char list \<Rightarrow> at_state \<Rightarrow> at_state option" where
  "ack_buff n t s = (if length t < n then Some (at_command_send_ack t n s) else None)"

text \<open>Eight numbers between brackets.\<close>

fun show_list :: "int list \<Rightarrow> c_char list" where
  "show_list [] = []"
| "show_list [x] = show_int x"
| "show_list (x # xs) = show_int x @ ascii '', '' @ show_list xs"

definition is_gnss_op :: "c_char list \<Rightarrow> bool" where
  "is_gnss_op cmd \<longleftrightarrow> take 7 cmd = ascii ''AT%GNSS''"

definition is_gps_op :: "c_char list \<Rightarrow> bool" where
  "is_gps_op cmd \<longleftrightarrow> take 6 cmd = ascii ''AT%GPS''"

definition send_cno :: "c_char list \<Rightarrow> int \<Rightarrow> at_state \<Rightarrow> at_state option" where
  "send_cno cmd v s =
     (if v = 0 then Some (ack_text ''0, NA'' s)
      else ack_buff 10 (show_int (v sdiv 10) @ (if is_gnss_op cmd then ascii '', NA'' else [])) s)"

definition at_command_send_cno :: "c_char list \<Rightarrow> at_state \<Rightarrow> at_state option" where
  "at_command_send_cno cmd s =
     (if gpsinf_mtk_gps_test_inprogress s = MNL_AT_TEST_INPROGRESS
      then Some (ack_text ''GNSS Test In Progress'' s)
      else if at_signal_mode s then send_cno cmd (at_cn s) s
      else send_cno cmd (at_avg_cno s) s)"

definition result_text :: "at_state \<Rightarrow> c_char list" where
  "result_text s = ascii ''['' @ show_list (at_result s) @ ascii ''][0, 0, 0, 0, 0, 0, 0, 0]''"

definition at_command_send_test_result :: "at_state \<Rightarrow> at_state option" where
  "at_command_send_test_result s =
     (case gpsinf_mtk_gps_test_inprogress s of
        MNL_AT_TEST_INPROGRESS \<Rightarrow> Some (ack_text ''GNSS Test In Progress'' s)
      | MNL_AT_TEST_DONE \<Rightarrow> ack_buff GPS_AT_ACK_SIZE (result_text s) s
      | MNL_AT_TEST_RESULT_DONE \<Rightarrow> ack_buff GPS_AT_ACK_SIZE (result_text s) s
      | _ \<Rightarrow>
          if at_result s ! 0 \<noteq> 0 then ack_buff GPS_AT_ACK_SIZE (result_text s) s
          else if at_result s ! 5 \<noteq> 0 \<and> \<not> (at_signal_mode s \<or> at_signal_test_begin s)
          then ack_buff GPS_AT_ACK_SIZE (result_text s) s
          else Some (ack_text ''[0, 0, 0, 0, 0, 0, 0, 0][0, 0, 0, 0, 0, 0, 0, 0]'' s))"

section \<open>Commands\<close>

text \<open>A command is the string up to its NUL. \<open>pos\<close> points to \<open>strlen(command)\<close> bytes, into which a pointer
  is written.\<close>

definition at_command_parse_test_num :: "c_char list \<Rightarrow> int option" where
  "at_command_parse_test_num cmd =
     (if length cmd < 4 then None
      else
        let (res, rest) = strtoul (drop (if is_gnss_op cmd then 8 else 7) cmd)
        in Some (if res \<noteq> 0 \<and> rest = [] then sint res else - 1))"

text \<open>\<open>command[k]\<close>, the terminator included.\<close>

definition cmd_at :: "c_char list \<Rightarrow> nat \<Rightarrow> c_char" where
  "cmd_at cmd k = (if k < length cmd then cmd ! k else 0)"

definition start_ack :: "at_env \<Rightarrow> int \<Rightarrow> string \<Rightarrow> string \<Rightarrow> at_state \<Rightarrow> at_state option" where
  "start_ack e n ok err s =
     (if 0 \<le> n then do {
        (ret, s) \<leftarrow> gpsinf_mtk_gps_test_start e n GPS_TEST_PRN 2 0 s;
        Some (if ret = 0 then ack_text ok s else ack_text err s)
      } else Some (ack_text ''Invalid Test Num =0'' s))"

definition at_gps_command_parser :: "at_env \<Rightarrow> c_char list \<Rightarrow> at_state \<Rightarrow> at_state option" where
  "at_gps_command_parser e cmd s =
     (let s = s\<lparr>at_mode_flag := False\<rparr>; c = cmd_at cmd
      in if c 6 = 61 then
           if c 7 = 63 \<and> c 8 = 0 then at_command_send_cno cmd s
           else if (c 7 = 69 \<or> c 7 = 101) \<and> c 8 = 0 then Some s
           else if (c 7 = 68 \<or> c 7 = 100) \<and> c 8 = 0 then Some s
           else do {
             n \<leftarrow> at_command_parse_test_num cmd;
             start_ack e n ''GPS TEST START OK'' ''GPS ERROR'' s
           }
         else if c 6 = 63 \<and> c 7 = 0 then
           (case gpsinf_mtk_gps_test_inprogress s of
              MNL_AT_TEST_INPROGRESS \<Rightarrow> Some (ack_text ''GPS Test In Progress'' s)
            | MNL_AT_TEST_DONE \<Rightarrow>
                ack_buff GPS_AT_ACK_SIZE (ascii ''<'' @ show_list (at_result s) @ ascii ''>'') s
            | _ \<Rightarrow> Some (ack_text ''ERROR'' s))
         else if c 6 = 0 then at_command_send_cno cmd s
         else Some (ack_text ''GPS ERROR'' s))"

text \<open>\<open>AT%GNSS=S\<close>, \<open>=E\<close> and \<open>=n\<close>.\<close>

definition gnss_signal :: "at_env \<Rightarrow> at_state \<Rightarrow> at_state option" where
  "gnss_signal e s = do {
     (ret, s) \<leftarrow>
       (if \<not> at_test_flag s then gpsinf_mtk_gps_test_start e 0 1 2 1 s
        else
          let s = s\<lparr>at_signal_mode := True, at_test_flag := False\<rparr>
          in Some (0, if \<not> at_cancel_alarm s then at_emit At_alarm_off s else s));
     Some (if ret = 0 then ack_text ''GNSS START START OK'' s else ack_text ''GNSS START START FAIL'' s)
   }"

definition gnss_end :: "at_state \<Rightarrow> at_state option" where
  "gnss_end s =
     (if at_st s = MNL_AT_TEST_UNKNOWN then Some (ack_text ''GNSS Test is Not In Progress'' s)
      else map_option (ack_text ''GNSS TEST END OK'') (gpsinf_mtk_gps_test_stop s))"

definition gnss_test :: "at_env \<Rightarrow> c_char list \<Rightarrow> at_state \<Rightarrow> at_state option" where
  "gnss_test e cmd s = do {
     n \<leftarrow> at_command_parse_test_num cmd;
     let s = s\<lparr>at_result := [1, 0, 0, 0, 0, 0, 0, 0], at_avg_cno := 0, at_success := 0, at_completed := 0, at_cno := 0,
       at_dev_cno := 0, at_cn := 0\<rparr>;
     if at_signal_mode s then
       if n \<le> 0 then do {
         let s = ack_text ''Invalid Test Num = 0'' s;
         if at_st s \<noteq> MNL_AT_TEST_UNKNOWN then gpsinf_mtk_gps_test_stop s else Some s
       } else Some ((ack_text ''GNSS TEST START OK'' (s\<lparr>at_signal_test_begin := True, at_st := MNL_AT_TEST_INPROGRESS\<rparr>))
           \<lparr>at_start_time := at_now e\<rparr>)
     else start_ack e n ''GNSS TEST START OK'' ''GNSS ERROR'' s
   }"

definition at_gnss_command_parser :: "at_env \<Rightarrow> c_char list \<Rightarrow> at_state \<Rightarrow> at_state option" where
  "at_gnss_command_parser e cmd s =
     (let s = s\<lparr>at_mode_flag := False\<rparr>; c = cmd_at cmd
      in if c 7 = 61 then
           if c 8 = 63 \<and> c 9 = 0 then at_command_send_test_result s
           else if (c 8 = 83 \<or> c 8 = 115) \<and> c 9 = 0 then gnss_signal e s
           else if (c 8 = 69 \<or> c 8 = 101) \<and> c 9 = 0 then gnss_end s
           else gnss_test e cmd s
         else if c 7 = 63 \<and> c 8 = 0 then at_command_send_test_result s
         else if c 7 = 0 then at_command_send_cno cmd s
         else Some (ack_text ''GNSS ERROR'' s))"

definition at_command_parser :: "at_env \<Rightarrow> c_char list \<Rightarrow> at_state \<Rightarrow> at_state option" where
  "at_command_parser e cmd s =
     (if is_gps_op cmd then at_gps_command_parser e cmd s
      else if is_gnss_op cmd then at_gnss_command_parser e cmd s
      else Some (ack_text ''GPS ERROR'' s))"

text \<open>The receiver: \<open>cmd[20]\<close> takes at most 20 bytes of a datagram, and a NUL is put behind them. Any error but
  \<open>EINTR\<close> ends the loop.\<close>

fun at_loop :: "at_env \<Rightarrow> rx list \<Rightarrow> at_state \<Rightarrow> (at_state \<times> rx list) option" where
  "at_loop e [] s = Some (s, [])"
| "at_loop e (RxData d # rs) s = do {
     let r = take 20 d;
     s \<leftarrow> (if length r < 20 then at_command_parser e (takeWhile (\<lambda>b. b \<noteq> 0) r) s else None);
     at_loop e rs s
   }"
| "at_loop e (RxErr EINTR # rs) s = at_loop e rs s"
| "at_loop e (RxErr _ # rs) s = Some (s, rs)"

definition at_cmd2mnl_hdlr :: "at_env \<Rightarrow> int \<Rightarrow> rx list \<Rightarrow> at_state \<Rightarrow> (at_state \<times> rx list) option" where
  "at_cmd2mnl_hdlr e fd rs s = at_loop e rs (s\<lparr>at_fd := fd\<rparr>)"

section \<open>The hooks of the NMEA parser\<close>

text \<open>The end of a test, looked at before each sentence; \<open>end_tag\<close> says that the sentence is the last of its
  buffer.\<close>

definition test_tick :: "at_state \<Rightarrow> bool \<times> at_state" where
  "test_tick s =
     (let (stopped, s) =
        (if 0 < at_success s then
           let s = (if at_prev_success s = at_success s then s\<lparr>at_failure := at_failure s + 1\<rparr> else s);
               s = s\<lparr>at_completed := int (at_success s) + at_failure s\<rparr>
           in (at_completed s = ht_test_num s, s)
         else
           let s = s\<lparr>at_wait := at_wait s + 1\<rparr>
           in if at_wait s = MAX_VALID_STATUS_WAIT_COUNT
              then (True, s\<lparr>at_completed := 1, at_err_code := 32\<rparr>) else (False, s))
      in (stopped, s\<lparr>at_prev_success := at_success s\<rparr>))"

definition test_done :: "at_state \<Rightarrow> at_state option" where
  "test_done s =
     (let s = s\<lparr>at_result := (at_result s)[0 := at_err_code s, 3 := int (at_success s), 4 := at_completed s,
            5 := at_avg_cno s, 6 := at_dev_cno s],
          at_wait := 0, at_st := MNL_AT_TEST_DONE, at_err_code := 1\<rparr>
      in if at_test_flag s
         then map_option (\<lambda>s. s\<lparr>at_failure := 0, at_prev_success := 0\<rparr>) (gpsinf_mtk_gps_test_stop s)
         else Some s)"

definition nmea_parser_at_cmd_pre :: "int \<Rightarrow> bool \<Rightarrow> at_state \<Rightarrow> at_state option" where
  "nmea_parser_at_cmd_pre current_time end_tag s =
     (if (at_test_flag s \<or> at_signal_test_begin s) \<and> ht_time_delay s \<le> current_time - at_start_time s \<and> end_tag
      then case test_tick s of (stopped, s) \<Rightarrow> if stopped then test_done s else Some s
      else Some s)"

text \<open>The integer part of a square root.\<close>

fun isqrt :: "nat \<Rightarrow> nat" where
  "isqrt 0 = 0"
| "isqrt (Suc n) = (let r = isqrt n in if (r + 1) * (r + 1) \<le> Suc n then r + 1 else r)"

definition dev_put :: "dev_ptr \<Rightarrow> nat \<Rightarrow> int \<Rightarrow> dev_ptr option" where
  "dev_put p i v = (case p of Dev_block ds \<Rightarrow> if i < length ds then Some (Dev_block (ds[i := v])) else None | _ \<Rightarrow> None)"

text \<open>The sum of the squared deviations of the first \<open>n\<close> samples.\<close>

fun square_sum :: "int \<Rightarrow> int list \<Rightarrow> int \<Rightarrow> int option" where
  "square_sum avg [] a = Some a"
| "square_sum avg (d # ds) a = do {
     x \<leftarrow> in_int (d - avg);
     q \<leftarrow> in_int (x * x);
     a \<leftarrow> in_int (a + q);
     square_sum avg ds a
   }"

definition dev_squares :: "dev_ptr \<Rightarrow> nat \<Rightarrow> int \<Rightarrow> int option" where
  "dev_squares p n avg =
     (case p of Dev_block ds \<Rightarrow> if n \<le> length ds then square_sum avg (take n ds) 0 else None | _ \<Rightarrow> None)"

text \<open>A sample of the satellite under test with its signal to noise ratio.\<close>

definition take_sample :: "int \<Rightarrow> at_state \<Rightarrow> at_state option" where
  "take_sample snr s =
     (if snr \<noteq> 0 then do {
        let s = (if at_signal_mode s \<and> \<not> at_signal_test_begin s then s\<lparr>at_st := MNL_AT_TEST_INPROGRESS\<rparr> else s);
        let s = (if at_signal_mode s \<and> at_signal_test_begin s
                 then s\<lparr>at_st := MNL_AT_TEST_RESULT_DONE, at_sig_suc := 1\<rparr> else s);
        v \<leftarrow> in_int (snr * 10);
        s \<leftarrow> (if at_test_flag s then do {
                cno \<leftarrow> in_int (at_cno s + v);
                p \<leftarrow> dev_put (dev_cnr s) (at_success s) v;
                let n = at_success s + 1;
                Some (s\<lparr>at_err_code := 0, at_cno := cno, dev_cnr := p, at_success := n, at_avg_cno := cno sdiv int n\<rparr>)
              } else Some s);
        Some (s\<lparr>at_cn := v\<rparr>)
      } else
        let s = (if at_cancel_alarm s \<and> at_test_flag s then s\<lparr>at_test_num := at_test_num s + 1\<rparr> else s)
        in Some (s\<lparr>at_sig_suc := 0\<rparr>))"

definition update_deviation :: "at_state \<Rightarrow> at_state option" where
  "update_deviation s =
     (if at_success s \<noteq> 0 then do {
        d \<leftarrow> dev_squares (dev_cnr s) (at_success s) (at_avg_cno s);
        Some (s\<lparr>at_dev_cno := int (isqrt (nat (d sdiv int (at_success s))))\<rparr>)
      } else Some s)"

text \<open>The loop over the satellites, from index \<open>i\<close> on, \<open>n\<close> of them left.\<close>

fun gps_at_command_search_satellite :: "nat \<Rightarrow> nat \<Rightarrow> at_state \<Rightarrow> at_state option" where
  "gps_at_command_search_satellite i 0 s = Some s"
| "gps_at_command_search_satellite i (Suc n) s =
     (if 32 \<le> i then None
      else if at_prn s ! i = ht_prn_num s then take_sample (at_snr s ! i) s \<bind> update_deviation
      else gps_at_command_search_satellite (i + 1) n s)"

definition gps_at_command_test_proc :: "nat \<Rightarrow> at_state \<Rightarrow> at_state option" where
  "gps_at_command_test_proc sv_count s =
     (if at_st s \<noteq> MNL_AT_TEST_DONE then
        if at_signal_mode s then
          if at_signal_test_begin s then do {
            s \<leftarrow> gps_at_command_search_satellite 0 sv_count s;
            Some (s\<lparr>at_result := (at_result s)[0 := 0, 3 := at_sig_suc s, 4 := 1, 5 := at_cn s, 6 := 0]\<rparr>)
          } else Some s
        else gps_at_command_search_satellite 0 sv_count s
      else Some s)"

end
