(* ===== verification/Nmea_Parser.thy ===== *)
theory Nmea_Parser
  imports Nmea_Reader At_Interface
begin

text \<open>
  The NMEA parser (\<^verbatim>\<open>mnld_entity/src/nmea_parser.c\<close>): the sentences, the reports to the HAL and to
  the main thread at the end of a buffer, and the assembly of sentences from characters. It shares
  the arrays of the AT commands and calls their two hooks.
\<close>

section \<open>State\<close>

datatype nmea_effect = Nm_hal mnl2hal_msg | Nm_main main_msg

text \<open>The reader, which lives for one buffer, and the variables of the two files.\<close>

record nmea =
  rdr :: NmeaReader
  nmea_end_tag :: bool
  used_in_fix :: "int \<Rightarrow> bool"
  nm_at :: at_state
  nm_out :: "nmea_effect list"

definition nm_hal :: "mnl2hal_msg \<Rightarrow> nmea \<Rightarrow> nmea option" where
  "nm_hal m s = do { _ \<leftarrow> send_mnl2hal m; Some (s\<lparr>nm_out := nm_out s @ [Nm_hal m]\<rparr>) }"

definition nm_main :: "main_msg \<Rightarrow> nmea \<Rightarrow> nmea option" where
  "nm_main m s = do { _ \<leftarrow> send_main m; Some (s\<lparr>nm_out := nm_out s @ [Nm_main m]\<rparr>) }"

definition with_rdr :: "(NmeaReader \<Rightarrow> NmeaReader option) \<Rightarrow> nmea \<Rightarrow> nmea option" where
  "with_rdr f s = do { r \<leftarrow> f (rdr s); Some (s\<lparr>rdr := r\<rparr>) }"

section \<open>Sentences\<close>

definition sv_type_of :: "c_char list \<Rightarrow> SV_TYPE" where
  "sv_type_of tok =
     (if take 2 tok = ascii ''BD'' then BDS_SV
      else if take 2 tok = ascii ''GP'' then GPS_SV
      else if take 2 tok = ascii ''GL'' then GLONASS_SV
      else if take 2 tok = ascii ''GA'' then GALILEO_SV
      else GPS_SV)"

text \<open>BeiDou and Galileo numbers start at 200 and 400.\<close>

definition sv_number :: "SV_TYPE \<Rightarrow> int \<Rightarrow> int option" where
  "sv_number ty i = in_int (if ty = BDS_SV then i + 200 else if ty = GALILEO_SV then i + 400 else i)"

definition parse_gga :: "nmea_env \<Rightarrow> c_char list list \<Rightarrow> NmeaReader \<Rightarrow> NmeaReader option" where
  "parse_gga e t r = do {
     r \<leftarrow> nmea_reader_update_time e (nmea_tokenizer_get t 1) r;
     r \<leftarrow> nmea_reader_update_latlong (nmea_tokenizer_get t 2) (tok_char (nmea_tokenizer_get t 3))
       (nmea_tokenizer_get t 4) (tok_char (nmea_tokenizer_get t 5)) r;
     Some (nmea_reader_update_altitude (nmea_tokenizer_get t 9) r)
   }"

text \<open>The satellites of a GSA sentence, from token \<open>i\<close> on, at most \<open>n\<close> of them.\<close>

fun gsa_loop :: "SV_TYPE \<Rightarrow> c_char list list \<Rightarrow> nat \<Rightarrow> nat \<Rightarrow> (int \<Rightarrow> bool) \<Rightarrow> (int \<Rightarrow> bool) option" where
  "gsa_loop ty t i 0 used = Some used"
| "gsa_loop ty t i (Suc n) used =
     (if nmea_tokenizer_get t i = [] then Some used
      else do {
        sate_id \<leftarrow> str2int (nmea_tokenizer_get t i);
        sate_id \<leftarrow> sv_number ty sate_id;
        gsa_loop ty t (i + 1) n (if 0 \<le> sate_id \<and> sate_id < 450 then used(sate_id := True) else used)
      })"

definition parse_gsa :: "SV_TYPE \<Rightarrow> c_char list list \<Rightarrow> nmea \<Rightarrow> nmea option" where
  "parse_gsa ty t s = do {
     m \<leftarrow> str2int (nmea_tokenizer_get t 2);
     let s = s\<lparr>rdr := (rdr s)\<lparr>fix_mode := m\<rparr>\<rparr>;
     if loc_fixed (rdr s) then do {
       u \<leftarrow> gsa_loop ty t 3 12 (used_in_fix s);
       Some (s\<lparr>used_in_fix := u\<rparr>)
     } else Some s
   }"

definition parse_rmc :: "nmea_env \<Rightarrow> c_char list list \<Rightarrow> NmeaReader \<Rightarrow> NmeaReader option" where
  "parse_rmc e t r =
     (if tok_char (nmea_tokenizer_get t 2) = 65 then do {
        r \<leftarrow> nmea_reader_update_date e (nmea_tokenizer_get t 9) (nmea_tokenizer_get t 1) r;
        r \<leftarrow> nmea_reader_update_latlong (nmea_tokenizer_get t 3) (tok_char (nmea_tokenizer_get t 4))
          (nmea_tokenizer_get t 5) (tok_char (nmea_tokenizer_get t 6)) r;
        Some (nmea_reader_update_speed (nmea_tokenizer_get t 7) (nmea_reader_update_bearing (nmea_tokenizer_get t 8) r))
      } else Some r)"

text \<open>\<open>prn[r->sv_count]\<close> and \<open>snr[r->sv_count]\<close>, arrays of 32.\<close>

definition put_prn_snr :: "nat \<Rightarrow> int \<Rightarrow> int \<Rightarrow> at_state \<Rightarrow> at_state option" where
  "put_prn_snr i p q s =
     (if i < 32 then Some (s\<lparr>at_prn := (at_prn s)[i := p], at_snr := (at_snr s)[i := q]\<rparr>) else None)"

text \<open>The satellites of a GSV sentence, in groups of four tokens, \<open>n\<close> of them left.\<close>

fun gsv_loop :: "SV_TYPE \<Rightarrow> c_char list list \<Rightarrow> nat \<Rightarrow> nat \<Rightarrow> nmea \<Rightarrow> nmea option" where
  "gsv_loop ty t idx 0 s = Some s"
| "gsv_loop ty t idx (Suc n) s = do {
     let base_idx = 4 * (idx + 1);
     i \<leftarrow> str2int (nmea_tokenizer_get t base_idx);
     sv_id \<leftarrow> sv_number ty i;
     let tok_snr = nmea_tokenizer_get t (base_idx + 3);
     q \<leftarrow> d_to_int (str2float tok_snr);
     a \<leftarrow> put_prn_snr (sv_count (rdr s)) i q (nm_at s);
     s \<leftarrow> with_rdr (nmea_reader_update_sv_status (used_in_fix s) sv_id (nmea_tokenizer_get t (base_idx + 1))
       (nmea_tokenizer_get t (base_idx + 2)) tok_snr) (s\<lparr>nm_at := a\<rparr>);
     gsv_loop ty t (idx + 1) n s
   }"

text \<open>The last sentence of a set.\<close>

definition gsv_complete :: "int \<Rightarrow> nmea \<Rightarrow> nmea option" where
  "gsv_complete cnt s =
     (let r = rdr s
      in if int (sv_count r) \<le> cnt then do {
           let s = s\<lparr>rdr := r\<lparr>sv_status := (sv_status r)\<lparr>num_svs := num_svs (sv_status r) + int (sv_count r)\<rparr>\<rparr>\<rparr>;
           if at_test_flag (nm_at s) \<or> at_signal_mode (nm_at s)
           then do { a \<leftarrow> gps_at_command_test_proc (sv_count r) (nm_at s); Some (s\<lparr>nm_at := a\<rparr>) }
           else Some s
         } else Some (s\<lparr>rdr := r\<lparr>sv_count := 0, sv_status := (sv_status r)\<lparr>num_svs := 0\<rparr>\<rparr>\<rparr>))"

definition parse_gsv :: "SV_TYPE \<Rightarrow> c_char list list \<Rightarrow> nmea \<Rightarrow> nmea option" where
  "parse_gsv ty t s = do {
     num \<leftarrow> str2int (nmea_tokenizer_get t 1);
     sq \<leftarrow> str2int (nmea_tokenizer_get t 2);
     cnt \<leftarrow> str2int (nmea_tokenizer_get t 3);
     sv_base \<leftarrow> in_int ((sq - 1) * NMEA_MAX_SV_INFO);
     sv_num \<leftarrow> in_int (cnt - sv_base);
     let s = (if sq = 1 then s\<lparr>rdr := (rdr s)\<lparr>sv_count := 0\<rparr>\<rparr> else s);
     s \<leftarrow> gsv_loop ty t 0 (nat (min sv_num NMEA_MAX_SV_INFO)) s;
     if sq = num then gsv_complete cnt s else Some s
   }"

definition parse_accuracy :: "c_char list list \<Rightarrow> NmeaReader \<Rightarrow> NmeaReader" where
  "parse_accuracy t r = (if loc_fixed r then nmea_reader_update_accuracy (nmea_tokenizer_get t 1) r else r)"

text \<open>The sentence is known by the third to fifth letter of its first token.\<close>

definition parse_sentence :: "nmea_env \<Rightarrow> c_char list list \<Rightarrow> nmea \<Rightarrow> nmea option" where
  "parse_sentence e t s =
     (let tok = nmea_tokenizer_get t 0; ty = sv_type_of tok; i = take 3 (drop 2 tok)
      in if i = ascii ''GGA'' then with_rdr (parse_gga e t) s
         else if i = ascii ''GSA'' then parse_gsa ty t s
         else if i = ascii ''RMC'' then with_rdr (parse_rmc e t) s
         else if i = ascii ''GSV'' then parse_gsv ty t s
         else if take 8 (drop 2 tok) = ascii ''ACCURACY'' then with_rdr (\<lambda>r. Some (parse_accuracy t r)) s
         else Some s)"

section \<open>Reports\<close>

definition report_fix :: "nmea \<Rightarrow> nmea option" where
  "report_fix s =
     (let l = nr_fix (rdr s)
      in if loc_fixed (rdr s) \<and> loc_flags l \<noteq> 0 \<and> nmea_end_tag s then do {
           s \<leftarrow> nm_hal (M2H_location (gps_location_bytes l)) s;
           s \<leftarrow> nm_main (MM_update_location l) s;
           Some (s\<lparr>rdr := upd_fix (loc_flags_update (\<lambda>_. 0)) (rdr s)\<rparr>)
         } else Some s)"

text \<open>The loop over the satellites sends the report in its first round, which also ends it.\<close>

definition report_svs :: "nmea \<Rightarrow> nmea option" where
  "report_svs s =
     (let v = sv_status (rdr s)
      in if num_svs v \<noteq> 0 \<and> nmea_end_tag s \<and> 0 < num_svs v then do {
           s \<leftarrow> nm_hal (M2H_gps_sv (gnss_sv_info_bytes v)) s;
           Some (s\<lparr>rdr := (rdr s)\<lparr>sv_count := 0, sv_status := v\<lparr>num_svs := 0\<rparr>\<rparr>, used_in_fix := (\<lambda>_. False)\<rparr>)
         } else Some s)"

definition nmea_reader_parse :: "nmea_env \<Rightarrow> nmea \<Rightarrow> nmea option" where
  "nmea_reader_parse e s = do {
     a \<leftarrow> nmea_parser_at_cmd_pre (nm_now e) (nmea_end_tag s) (nm_at s);
     let s = s\<lparr>nm_at := a\<rparr>;
     let r = rdr s;
     let t = nmea_tokenizer_init (take (nr_pos r) (nr_in r));
     if nr_pos r < 9 \<or> length (nmea_tokenizer_get t 0) < 5 then Some s
     else do {
       s \<leftarrow> parse_sentence e t s;
       s \<leftarrow> report_fix s;
       report_svs s
     }
   }"

section \<open>Characters\<close>

text \<open>\<open>mnl2hal_nmea\<close> is given the array, from its start to the first NUL, and the length of the sentence.\<close>

definition nmea_reader_addc :: "nmea_env \<Rightarrow> c_char \<Rightarrow> nmea \<Rightarrow> nmea option" where
  "nmea_reader_addc e c s =
     (let r = rdr s
      in if nr_overflow r then Some (s\<lparr>rdr := r\<lparr>nr_overflow := (c \<noteq> 10)\<rparr>\<rparr>)
         else if NMEA_MAX_SIZE \<le> nr_pos r then Some (s\<lparr>rdr := r\<lparr>nr_overflow := True, nr_pos := 0\<rparr>\<rparr>)
         else
           let s = s\<lparr>rdr := r\<lparr>nr_in := (nr_in r)[nr_pos r := c], nr_pos := nr_pos r + 1\<rparr>\<rparr>
           in if c = 10 then do {
                s \<leftarrow> nmea_reader_parse e s;
                let r = rdr s;
                s \<leftarrow> nm_hal (M2H_nmea (loc_timestamp (nr_fix r)) (Some (takeWhile (\<lambda>b. b \<noteq> 0) (nr_in r)))
                  (word_of_nat (nr_pos r))) s;
                Some (s\<lparr>rdr := (rdr s)\<lparr>nr_pos := 0\<rparr>\<rparr>)
              } else Some s)"

fun nmea_loop :: "nmea_env \<Rightarrow> c_char list \<Rightarrow> nmea \<Rightarrow> nmea option" where
  "nmea_loop e [] s = Some s"
| "nmea_loop e (c # cs) s = do {
     let s = (if cs = [] then s\<lparr>nmea_end_tag := True\<rparr> else s);
     s \<leftarrow> nmea_reader_addc e c s;
     nmea_loop e cs s
   }"

definition mtk_mnl_nmea_parser_process :: "nmea_env \<Rightarrow> c_char list \<Rightarrow> nmea \<Rightarrow> nmea option" where
  "mtk_mnl_nmea_parser_process e buffer s =
     nmea_loop e buffer (s\<lparr>rdr := nmea_reader_init e, nmea_end_tag := False\<rparr>)"

end
