(* ===== verification/C_Double_Error.thy ===== *)
theory C_Double_Error
  imports C_Double
begin

text \<open>
  How far a rounded result is from the exact one, and when rounding cannot change the integer
  part: what the callers of the double operations use of them.
\<close>

definition eps :: rat where
  "eps = 2 powi (- 53)"

definition tiny :: rat where
  "tiny = 2 powi (- 1075)"

lemma eps_tiny: "0 < eps" "0 < tiny" "tiny \<le> eps / 2 ^ 60" "eps = 1 / 2 ^ 53"
  by (simp_all add: eps_def tiny_def)

lemma rounds_toD:
  assumes "rounds_to y x"
  shows "is_fin y" "\<bar>fpval y - x\<bar> \<le> \<bar>x\<bar> * eps + tiny" "x \<in> \<int> \<Longrightarrow> \<bar>x\<bar> < 2 ^ 53 \<Longrightarrow> fpval y = x"
  using assms unfolding rounds_to_def eps_def tiny_def by blast+

text \<open>A rounded quotient of naturals lies between the same integers as the quotient.\<close>

lemma rounds_to_floor:
  assumes "rounds_to y (of_nat n / of_nat d)" "0 < d" "n < 10 ^ 14" "d \<le> 10 ^ 14"
  shows "\<lfloor>fpval y\<rfloor> = \<lfloor>of_nat n / of_nat d :: rat\<rfloor>"
proof -
  define x where "x = (of_nat n / of_nat d :: rat)"
  define m where "m = \<lfloor>x\<rfloor>"
  have d: "(0 :: rat) < of_nat d" using assms(2) by simp
  have nd: "of_nat n = x * (of_nat d :: rat)" using d by (simp add: x_def)
  have "(of_nat n :: rat) < of_nat (10 ^ 14)" "(of_nat d :: rat) \<le> of_nat (10 ^ 14)"
    using assms(3,4) by (simp_all only: of_nat_less_iff of_nat_le_iff)
  then have nx: "x * of_nat d < (10 :: rat) ^ 14" and dx: "of_nat d \<le> (10 :: rat) ^ 14" using nd by simp_all
  have x0: "0 \<le> x" by (simp add: x_def)
  have close: "\<bar>fpval y - x\<bar> * of_nat d < 1"
  proof -
    have "\<bar>fpval y - x\<bar> * of_nat d \<le> (x * eps + tiny) * of_nat d"
      using rounds_toD(2) [OF assms(1)] x0 d unfolding x_def [symmetric] by (intro mult_right_mono) auto
    also have "\<dots> = x * of_nat d * eps + tiny * of_nat d" by (simp add: distrib_right)
    also have "\<dots> \<le> 10 ^ 14 * eps + eps / 2 ^ 60 * 10 ^ 14"
      using nx dx eps_tiny d by (intro add_mono mult_mono) simp_all
    also have "\<dots> < 1" by (simp add: eps_tiny(4))
    finally show ?thesis .
  qed
  show ?thesis
  proof (cases "x \<in> \<int>")
    case True
    then obtain i where i: "x = of_int i" by (auto elim: Ints_cases)
    have "x \<le> x * of_nat d" using x0 assms(2) by (simp add: mult_le_cancel_left1)
    then have "x < 2 ^ 53" using nx by (simp add: less_trans)
    then have "fpval y = x" using rounds_toD(3) [OF assms(1)] True x0 by (simp add: x_def)
    then show ?thesis by (simp add: x_def)
  next
    case False
    have "\<exists>k. x * of_nat d - of_int m * of_nat d = (of_int k :: rat)"
      using nd by (intro exI [of _ "int n - m * int d"]) simp
    then obtain k where k: "x * of_nat d - of_int m * of_nat d = (of_int k :: rat)" by blast
    have fl: "of_int m \<le> x" "x < of_int m + 1" unfolding m_def by linarith+
    have "of_int m \<noteq> x" using False by (metis Ints_of_int)
    then have "of_int m < x" using fl by simp
    then have "0 < (x - of_int m) * of_nat d" using d by simp
    then have "0 < (of_int k :: rat)" using k by (simp add: left_diff_distrib)
    then have k1: "1 \<le> k" by simp
    have "(x - of_int m) * of_nat d < 1 * of_nat d" using fl d by (intro mult_strict_right_mono) simp_all
    then have "(of_int k :: rat) < of_nat d" using k by (simp add: left_diff_distrib)
    then have k2: "k \<le> int d - 1" by (metis of_int_less_iff of_int_of_nat_eq zle_diff1_eq)
    have up: "(1 :: rat) \<le> of_int k" "of_int k \<le> of_nat d - (1 :: rat)"
      using k1 of_int_le_iff [of k "int d - 1", where ?'a = rat] k2 by simp_all
    define z where "z = fpval y"
    have "\<bar>z * of_nat d - x * of_nat d\<bar> < 1"
      using close d by (simp add: z_def left_diff_distrib [symmetric] abs_mult)
    then have "z * of_nat d < x * of_nat d + 1" "x * of_nat d - 1 < z * of_nat d" by linarith+
    moreover have "x * of_nat d = of_int m * of_nat d + (of_int k :: rat)" using k by simp
    ultimately have "z * of_nat d < of_int m * of_nat d + of_nat d" "of_int m * of_nat d \<le> z * of_nat d"
      using up by linarith+
    then have "z * of_nat d < (of_int m + 1) * of_nat d" "of_int m * of_nat d \<le> z * of_nat d"
      unfolding distrib_right mult_1 .
    then have "z < of_int m + 1" "of_int m \<le> z" using d by simp_all
    then have "\<lfloor>z\<rfloor> = m" by (simp add: floor_eq_iff)
    then show ?thesis by (simp add: z_def m_def x_def)
  qed
qed

lemma small_const:
  "is_fin (d_of_int 100) \<and> fpval (d_of_int 100) = 100" "is_fin (d_of_int 60) \<and> fpval (d_of_int 60) = 60"
  using d_of_int_exact [of 100] d_of_int_exact [of 60] by simp_all

lemma below_big: "x < 2 ^ 60 \<Longrightarrow> x < d_big"
proof -
  assume "x < 2 ^ 60"
  also have "(2 :: rat) ^ 60 = 2 powi 60" by simp
  also have "(2 :: rat) powi 60 < 2 powi 1022" unfolding powi_less_iff by simp
  finally show "x < d_big" by (simp only: d_big_def)
qed

lemma rounds_within:
  assumes "rounds_to y x" "\<bar>x\<bar> \<le> B"
  shows "is_fin y" "\<bar>fpval y - x\<bar> \<le> B * eps + tiny"
proof -
  show "is_fin y" by (rule rounds_toD(1) [OF assms(1)])
  have "\<bar>fpval y - x\<bar> \<le> \<bar>x\<bar> * eps + tiny" by (rule rounds_toD(2) [OF assms(1)])
  also have "\<dots> \<le> B * eps + tiny" using assms(2) eps_tiny(1) by (intro add_right_mono mult_right_mono) simp_all
  finally show "\<bar>fpval y - x\<bar> \<le> B * eps + tiny" .
qed

end
