(* ===== verification/Nmea_Numbers.thy ===== *)
theory Nmea_Numbers
  imports Nmea_Parser C_Double_Error
begin

text \<open>
  How exact the numbers are that the NMEA parser reports: coordinates, speed, and the time of a fix.
\<close>

section \<open>Decimal fields\<close>

text \<open>The field \<open>ds.fs\<close>, and its exact value.\<close>

definition decimal :: "c_char list \<Rightarrow> c_char list \<Rightarrow> c_char list" where
  "decimal ds fs = ds @ 46 # fs"

definition decimal_val :: "c_char list \<Rightarrow> c_char list \<Rightarrow> rat" where
  "decimal_val ds fs = of_nat (digits_val 10 (ds @ fs)) / of_nat (10 ^ length fs)"

lemma digit_less: "is_dec c \<Longrightarrow> digit c < 10"
  by (auto simp: is_dec_def digit_def word_le_nat_alt)

lemma digits_val_append: "digits_val b (xs @ ys) = digits_val b xs * b ^ length ys + digits_val b ys"
proof -
  have "fold (\<lambda>c v. v * b + digit c) ys v = v * b ^ length ys + digits_val b ys" for v
  proof (induction ys arbitrary: v)
    case (Cons y ys)
    show ?case
      using Cons.IH [of "v * b + digit y"] Cons.IH [of "digit y"]
      by (simp add: digits_val_def add_mult_distrib)
  qed (simp add: digits_val_def)
  from this [of "digits_val b xs"] show ?thesis by (simp add: digits_val_def)
qed

lemma digits_val_less:
  assumes "\<forall>c\<in>set ds. is_dec c"
  shows "digits_val 10 ds < 10 ^ length ds"
  using assms
proof (induction ds rule: rev_induct)
  case (snoc d ds)
  then show ?case using digit_less [of d] by (simp add: digits_val_append) (simp add: digits_val_def)
qed (simp add: digits_val_def)

lemma is_dec_facts:
  assumes "is_dec c"
  shows "\<not> is_space c" "c \<noteq> 45" "c \<noteq> 43" "c \<noteq> 46" "to_lower c \<noteq> 105" "to_lower c \<noteq> 110" "to_lower c \<noteq> 120"
  using assms by (auto simp: is_dec_def is_space_def to_lower_def word_le_nat_alt)

lemma strtod_decimal:
  assumes "\<forall>c\<in>set (ds @ fs). is_dec c" "ds \<noteq> []"
  shows "strtod (decimal ds fs) = dround False (digits_val 10 (ds @ fs)) (10 ^ length fs)"
proof -
  obtain d r where ds: "ds = d # r" using assms(2) by (cases ds) auto
  have d: "is_dec d" using assms(1) ds by simp
  have drop: "dropWhile is_space (decimal ds fs) = decimal ds fs"
    using is_dec_facts(1) [OF d] by (simp add: decimal_def ds)
  have sign: "read_sign (decimal ds fs) = (False, decimal ds fs)"
    using is_dec_facts(2,3) [OF d] by (simp add: decimal_def ds)
  have "to_lower 46 \<noteq> 120" by (simp add: to_lower_def)
  then have hex: "take 2 (map to_lower (decimal ds fs)) \<noteq> [48, 120]"
    using is_dec_facts(7) assms(1) by (cases r) (auto simp: decimal_def ds)
  have word: "take 3 (map to_lower (decimal ds fs)) \<noteq> [105, 110, 102]" "take 3 (map to_lower (decimal ds fs)) \<noteq> [110, 97, 110]"
    using is_dec_facts(5,6) [OF d] by (simp_all add: decimal_def ds)
  have "\<not> is_dec 46" by (simp add: is_dec_def)
  then have man: "read_mantissa is_dec (decimal ds fs) = (ds, fs, [])"
    using assms(1) by (simp add: read_mantissa_def decimal_def takeWhile_append2 dropWhile_append2 takeWhile_eq_all_conv
        dropWhile_eq_Nil_conv)
  have pow: "pow_frac False m 10 (read_exponent 101 [] - int (length fs)) = dround False m (10 ^ length fs)" for m
    by (cases "fs = []") (simp_all add: pow_frac_def read_exponent_def)
  show ?thesis
    unfolding strtod_def drop sign Let_def prod.case man
    using hex word assms(2) pow by simp
qed

text \<open>A field that fits the buffer of \<open>str2float\<close>, with at most six digits before the point.\<close>

lemma str2float_decimal:
  assumes "\<forall>c\<in>set (ds @ fs). is_dec c" "ds \<noteq> []" "length (decimal ds fs) < 16"
  shows "rounds_to (str2float (decimal ds fs)) (decimal_val ds fs)"
    and "digits_val 10 (ds @ fs) < 10 ^ 14" "length fs < 15"
proof -
  have "length (ds @ fs) \<le> 14" using assms(3) by (simp add: decimal_def)
  then have "(10 :: nat) ^ length (ds @ fs) \<le> 10 ^ 14" by (intro power_increasing) simp_all
  then show n: "digits_val 10 (ds @ fs) < 10 ^ 14" using digits_val_less [OF assms(1)] by linarith
  show "length fs < 15" using assms(3) by (simp add: decimal_def)
  have "decimal_val ds fs \<le> of_nat (digits_val 10 (ds @ fs))"
    unfolding decimal_val_def by (simp add: divide_le_eq mult_le_cancel_left1)
  also have "\<dots> < of_nat (10 ^ 14)" using n by (simp only: of_nat_less_iff)
  also have "of_nat (10 ^ 14) < d_big" by (simp add: d_big_def)
  finally have "rounds_to (dround False (digits_val 10 (ds @ fs)) (10 ^ length fs)) (decimal_val ds fs)"
    using dround_rounds [of "10 ^ length fs" "digits_val 10 (ds @ fs)" False] by (simp add: decimal_val_def)
  then show "rounds_to (str2float (decimal ds fs)) (decimal_val ds fs)"
    using assms by (simp add: str2float_def strtod_decimal)
qed

section \<open>Coordinates\<close>

text \<open>The value of a field of at most five digits before the point.\<close>

lemma decimal_val_bounds:
  assumes "\<forall>c\<in>set (ds @ fs). is_dec c" "length ds \<le> 5"
  shows "0 \<le> decimal_val ds fs" "decimal_val ds fs < 10 ^ 5"
proof -
  show "0 \<le> decimal_val ds fs" by (simp add: decimal_val_def)
  have "digits_val 10 (ds @ fs) < 10 ^ length (ds @ fs)" by (rule digits_val_less [OF assms(1)])
  also have "\<dots> \<le> 10 ^ 5 * 10 ^ length fs"
    using power_increasing [OF assms(2), of "10 :: nat"] by (simp add: power_add)
  finally have "(of_nat (digits_val 10 (ds @ fs)) :: rat) < of_nat (10 ^ 5 * 10 ^ length fs)"
    by (simp only: of_nat_less_iff)
  then show "decimal_val ds fs < 10 ^ 5" by (simp add: decimal_val_def pos_divide_less_eq)
qed

text \<open>The whole degrees are exact.\<close>

lemma degrees_exact:
  assumes "is_fin y" "\<lfloor>fpval y\<rfloor> = m" "0 \<le> m" "m < 10 ^ 5"
  shows "d_to_int (d_div (d_floor y) (d_of_int 100)) = Some (m div 100)"
proof -
  have mr: "(0 :: rat) \<le> of_int m" "(of_int m :: rat) < 10 ^ 5"
    using assms(3,4) by (simp, metis of_int_less_iff of_int_numeral of_int_power)
  have y: "of_int m \<le> fpval y" "fpval y < of_int m + 1" using assms(2) by (auto simp: floor_eq_iff)
  have "fpval y < 2 ^ 53" "0 \<le> fpval y" using y mr by simp_all
  then have fl: "is_fin (d_floor y)" "fpval (d_floor y) = of_int m"
    using d_floor_exact [OF assms(1)] assms(2) by simp_all
  define q where "q = d_div (d_floor y) (d_of_int 100)"
  have q: "rounds_to q (of_int m / 100)"
    using d_div_rounds [of "d_floor y" "d_of_int 100"] fl small_const mr below_big [of "of_int m / 100"]
    by (simp add: q_def)
  have "\<lfloor>fpval q\<rfloor> = \<lfloor>of_nat (nat m) / of_nat 100 :: rat\<rfloor>"
    using q assms(3,4) by (intro rounds_to_floor) (simp_all add: of_nat_nat)
  also have "\<dots> = m div 100" using assms(3) floor_divide_of_int_eq [of m 100, where ?'a = rat] by (simp add: of_nat_nat)
  finally have "\<lfloor>fpval q\<rfloor> = m div 100" .
  moreover have "\<lfloor>fpval q\<rfloor> < 2 ^ 31" "0 \<le> \<lfloor>fpval q\<rfloor>" using calculation assms(3,4) by simp_all
  then have "0 \<le> fpval q" "fpval q < 2 ^ 31" by (simp_all add: floor_less_iff)
  ultimately show ?thesis
    using rounds_toD(1) [OF q] unfolding q_def by (subst d_to_int_floor) auto
qed

text \<open>The minutes, and the sum.\<close>

lemma minutes_error:
  assumes "is_fin y" "0 \<le> D" "D < 1000" "100 * of_int D \<le> fpval y" "fpval y < 100 * of_int D + 100"
    "r = d_add (d_of_int D) (d_div (d_sub y (d_mul (d_of_int D) (d_of_int 100))) (d_of_int 60))"
  shows "is_fin r" "\<bar>fpval r - (of_int D + (fpval y - 100 * of_int D) / 60)\<bar> \<le> 1006 * eps + 3 * tiny"
proof -
  have Dr: "(0 :: rat) \<le> of_int D" "(of_int D :: rat) \<le> 999"
    using assms(2,3) of_int_le_iff [of D 999, where ?'a = rat] by simp_all
  have dd: "is_fin (d_of_int D)" "fpval (d_of_int D) = of_int D" using d_of_int_exact [of D] assms(2,3) by simp_all
  define h where "h = d_mul (d_of_int D) (d_of_int 100)"
  have hr: "rounds_to h (of_int D * 100)"
    using d_mul_rounds [of "d_of_int D" "d_of_int 100"] dd small_const Dr below_big [of "of_int D * 100"]
    by (simp add: h_def)
  have "(of_int D * 100 :: rat) \<in> \<int>" using Ints_of_int [of "D * 100"] by simp
  then have h: "is_fin h" "fpval h = of_int D * 100" using rounds_toD(1,3) [OF hr] Dr by simp_all
  define w where "w = fpval y - 100 * of_int D"
  have w: "0 \<le> w" "w < 100" using assms(4,5) by (simp_all add: w_def)
  define n where "n = d_sub y h"
  have "rounds_to n w"
    using d_sub_rounds [of y h] assms(1) h w below_big [of w] by (simp add: n_def w_def mult.commute)
  from rounds_within [OF this, of 100] w have n: "is_fin n" "\<bar>fpval n - w\<bar> \<le> 100 * eps + tiny" by simp_all
  have et: "100 * eps + tiny \<le> 1" "2 * eps + tiny \<le> 1" using eps_tiny by simp_all
  define u where "u = d_div n (d_of_int 60)"
  have nb: "\<bar>fpval n / 60\<bar> \<le> 2" using n(2) et w by (simp add: abs_le_iff)
  have "rounds_to u (fpval n / 60)"
    using d_div_rounds [of n "d_of_int 60"] n(1) small_const nb below_big [of "\<bar>fpval n / 60\<bar>"] by (simp add: u_def)
  from rounds_within [OF this nb] have u: "is_fin u" "\<bar>fpval u - fpval n / 60\<bar> \<le> 2 * eps + tiny" .
  have rb: "\<bar>of_int D + fpval u\<bar> \<le> 1002" using Dr u(2) nb et by linarith
  have "rounds_to r (of_int D + fpval u)"
    using d_add_rounds [of "d_of_int D" u] dd u(1) rb below_big [of "\<bar>of_int D + fpval u\<bar>"]
    by (simp add: assms(6) u_def n_def h_def)
  from rounds_within [OF this rb] have r: "is_fin r" "\<bar>fpval r - (of_int D + fpval u)\<bar> \<le> 1002 * eps + tiny" .
  show "is_fin r" by (rule r(1))
  show "\<bar>fpval r - (of_int D + (fpval y - 100 * of_int D) / 60)\<bar> \<le> 1006 * eps + 3 * tiny"
    using n(2) u(2) r(2) eps_tiny(1,2) unfolding w_def [symmetric] by (simp add: abs_le_iff field_simps)
qed

text \<open>C18. The field \<open>dddmm.mmmm\<close> of a latitude or longitude, of at most five digits before the
  point, is converted to degrees plus minutes over 60 with an error below \<open>2 ^ (- 41)\<close> of a degree (half a
  thousandth of a millimetre on the ground): the rounding of \<open>strtod\<close> and of the four operations never
  moves a whole degree or minute.\<close>

theorem coordinate_accuracy:
  assumes "\<forall>c\<in>set (ds @ fs). is_dec c" "ds \<noteq> []" "length ds \<le> 5" "length (decimal ds fs) < 16"
  shows "\<exists>r. convert_from_hhmm (decimal ds fs) = Some r \<and> is_fin r \<and>
    (let v = decimal_val ds fs; deg = of_int (\<lfloor>v\<rfloor> div 100)
     in \<bar>fpval r - (deg + (v - 100 * deg) / 60)\<bar> < 2 powi (- 41))"
proof -
  define v where "v = decimal_val ds fs"
  define y where "y = str2float (decimal ds fs)"
  define m where "m = \<lfloor>v\<rfloor>"
  define D where "D = m div 100"
  define r where "r = d_add (d_of_int D) (d_div (d_sub y (d_mul (d_of_int D) (d_of_int 100))) (d_of_int 60))"
  have str: "rounds_to y v" "digits_val 10 (ds @ fs) < 10 ^ 14" "length fs < 15"
    using str2float_decimal [OF assms(1,2,4)] by (simp_all add: y_def v_def)
  have v: "0 \<le> v" "v < 10 ^ 5" using decimal_val_bounds [OF assms(1,3)] by (simp_all add: v_def)
  have m: "0 \<le> m" "m < 10 ^ 5" using v by (simp_all add: m_def floor_less_iff)
  have D: "0 \<le> D" "D < 1000" "100 * D \<le> m" "m + 1 \<le> 100 * D + 100" using m by (simp_all add: D_def)
  have err: "\<bar>fpval y - v\<bar> \<le> 10 ^ 5 * eps + tiny" using rounds_within [OF str(1), of "10 ^ 5"] v by simp
  have len: "(10 :: nat) ^ length fs \<le> 10 ^ 14" using str(3) by (intro power_increasing) simp_all
  have fly: "\<lfloor>fpval y\<rfloor> = m"
    using rounds_to_floor [of y "digits_val 10 (ds @ fs)" "10 ^ length fs"] str len
    by (simp add: m_def v_def decimal_val_def)
  have y: "is_fin y" "of_int m \<le> fpval y" "fpval y < of_int m + 1"
    using rounds_toD(1) [OF str(1)] fly by (auto simp: floor_eq_iff)
  have deg: "d_to_int (d_div (d_floor y) (d_of_int 100)) = Some D"
    using degrees_exact [OF y(1) fly m] by (simp add: D_def)
  have "100 * of_int D \<le> fpval y" "fpval y < 100 * of_int D + (100 :: rat)"
    using y D of_int_le_iff [of "100 * D" m, where ?'a = rat] of_int_le_iff [of "m + 1" "100 * D + 100", where ?'a = rat]
    by simp_all
  note r = minutes_error [OF y(1) D(1,2) this r_def]
  have "\<bar>fpval r - (of_int D + (v - 100 * of_int D) / 60)\<bar> \<le> 2673 * eps + 4 * tiny"
    using err r(2) eps_tiny(1,2) by (simp add: abs_le_iff field_simps)
  also have "\<dots> < 2 powi (- 41)" using eps_tiny by simp
  finally have "\<bar>fpval r - (of_int D + (v - 100 * of_int D) / 60)\<bar> < 2 powi (- 41)" .
  moreover have "convert_from_hhmm (decimal ds fs) = Some r"
    using deg by (simp add: convert_from_hhmm_def y_def [symmetric] r_def)
  ultimately show ?thesis using r(1) unfolding v_def [symmetric] m_def [symmetric] D_def [symmetric] Let_def by blast
qed

theorem coordinate_accuracy_witness:
  "\<exists>r. convert_from_hhmm (decimal [52,56,48,55] [48,51,56]) = Some r \<and> is_fin r \<and>
    (let v = decimal_val [52,56,48,55] [48,51,56]; deg = of_int (\<lfloor>v\<rfloor> div 100)
     in \<bar>fpval r - (deg + (v - 100 * deg) / 60)\<bar> < 2 powi (- 41))"
  by (rule coordinate_accuracy) (simp_all add: is_dec_def decimal_def)

end
