(* ===== verification/Nmea_Properties.thy ===== *)
theory Nmea_Properties
  imports Nmea_Parser
begin

text \<open>
  What the NMEA parser makes of sentences and of whole buffers: the fields of a sentence, the text that is passed
  on, when fixes and satellites are reported, and the inputs that run over its arrays.
\<close>

section \<open>Fields\<close>

fun join_commas :: "c_char list list \<Rightarrow> c_char list" where
  "join_commas [] = []"
| "join_commas [f] = f"
| "join_commas (f # g # fs) = f @ 44 # join_commas (g # fs)"

text \<open>A sentence with its checksum \<open>h1 h2\<close>, and its fields as a reader of the standard would take them;
  an empty last field is not seen.\<close>

definition sentence :: "c_char list list \<Rightarrow> c_char \<Rightarrow> c_char \<Rightarrow> c_char list" where
  "sentence fs h1 h2 = 36 # join_commas fs @ [42, h1, h2, 13, 10]"

definition seen_fields :: "c_char list list \<Rightarrow> c_char list list" where
  "seen_fields fs = take MAX_NMEA_TOKENS (if fs \<noteq> [] \<and> last fs = [] then butlast fs else fs)"

definition push_token :: "c_char list list \<Rightarrow> c_char list \<Rightarrow> c_char list list" where
  "push_token toks f = (if length toks < MAX_NMEA_TOKENS then toks @ [f] else toks)"

lemma token_loop_Nil [simp]: "token_loop toks [] = toks"
  by (simp add: token_loop.simps)

lemma token_loop_comma:
  assumes "44 \<notin> set f"
  shows "token_loop toks (f @ 44 # p) = token_loop (push_token toks f) p"
proof -
  have "dropWhile (\<lambda>c. c \<noteq> 44) (f @ 44 # p) = 44 # p" "takeWhile (\<lambda>c. c \<noteq> 44) (f @ 44 # p) = f"
    using assms by (auto simp: dropWhile_append2 takeWhile_append2 dropWhile_append takeWhile_append)
  then show ?thesis by (subst token_loop.simps) (simp add: push_token_def)
qed

lemma token_loop_last:
  assumes "44 \<notin> set f" "f \<noteq> []"
  shows "token_loop toks f = push_token toks f"
proof -
  have "dropWhile (\<lambda>c. c \<noteq> 44) f = []" "takeWhile (\<lambda>c. c \<noteq> 44) f = f"
    using assms by (auto simp: dropWhile_eq_Nil_conv takeWhile_eq_all_conv)
  note f = this
  show ?thesis unfolding token_loop.simps [of toks f] f using assms(2) by (simp add: push_token_def)
qed

lemma fold_push_token:
  "length toks \<le> MAX_NMEA_TOKENS \<Longrightarrow> foldl push_token toks fs = take MAX_NMEA_TOKENS (toks @ fs)"
proof (induction fs arbitrary: toks)
  case (Cons f fs)
  have "length (push_token toks f) \<le> MAX_NMEA_TOKENS" using Cons.prems by (simp add: push_token_def)
  from Cons.IH [OF this] show ?case using Cons.prems by (simp add: push_token_def take_Cons')
qed simp

lemma token_loop_join:
  assumes "\<forall>f\<in>set fs. 44 \<notin> set f"
  shows "token_loop toks (join_commas fs) = foldl push_token toks (if fs \<noteq> [] \<and> last fs = [] then butlast fs else fs)"
  using assms
proof (induction fs arbitrary: toks rule: join_commas.induct)
  case (2 f)
  then show ?case by (cases "f = []") (simp_all add: token_loop_last)
next
  case (3 f g fs)
  then show ?case using token_loop_comma [of f toks "join_commas (g # fs)"] by simp
qed simp

text \<open>C16. The tokenizer, which works on a range of the line buffer, gives the fields between the
  commas of a sentence, in order and without the dollar sign, checksum and end of line: the first 24 of them, less
  an empty last one.\<close>

theorem tokens_of_sentence:
  assumes "\<forall>f\<in>set fs. 44 \<notin> set f"
  shows "nmea_tokenizer_init (sentence fs h1 h2) = seen_fields fs"
proof -
  have "trim_newline (join_commas fs @ [42, h1, h2, 13, 10]) = join_commas fs @ [42, h1, h2]"
    by (simp add: trim_newline_def butlast_append)
  moreover have "trim_checksum (join_commas fs @ [42, h1, h2]) = join_commas fs"
    by (simp add: trim_checksum_def)
  ultimately show ?thesis
    using token_loop_join [OF assms, of "[]"] fold_push_token [of "[]"]
    by (simp add: nmea_tokenizer_init_def sentence_def seen_fields_def)
qed

theorem tokens_of_sentence_witness:
  "nmea_tokenizer_init (sentence [[71, 80], [], [49], []] 48 48) = [[71, 80], [], [49]]"
  by (subst tokens_of_sentence) (simp_all add: seen_fields_def)


section \<open>Reports\<close>

text \<open>Steps that report nothing.\<close>

definition silent :: "nmea \<Rightarrow> nmea \<Rightarrow> bool" where
  "silent s s' \<longleftrightarrow> nm_out s' = nm_out s \<and> nmea_end_tag s' = nmea_end_tag s"

lemma silent_refl [simp]: "silent s s"
  by (simp add: silent_def)

lemma silent_updates [simp]:
  "silent s (s'\<lparr>rdr := r\<rparr>) = silent s s'" "silent s (s'\<lparr>nm_at := a\<rparr>) = silent s s'"
  "silent s (s'\<lparr>used_in_fix := u\<rparr>) = silent s s'"
  "silent (s\<lparr>rdr := r\<rparr>) s' = silent s s'" "silent (s\<lparr>nm_at := a\<rparr>) s' = silent s s'"
  by (simp_all add: silent_def)

lemma silent_trans: "silent s s' \<Longrightarrow> silent s' s'' \<Longrightarrow> silent s s''"
  by (simp add: silent_def)

lemma silent_with_rdr: "with_rdr f s = Some s' \<Longrightarrow> silent s s'"
  by (auto simp: with_rdr_def bind_eq_Some_conv)

lemma silent_gsv_loop: "gsv_loop ty t idx n s = Some s' \<Longrightarrow> silent s s'"
proof (induction n arbitrary: idx s)
  case (Suc n)
  then obtain a f s1 where "with_rdr f (s\<lparr>nm_at := a\<rparr>) = Some s1" "gsv_loop ty t (idx + 1) n s1 = Some s'"
    by (auto simp: bind_eq_Some_conv Let_def)
  then show ?case using Suc.IH silent_with_rdr [of f "s\<lparr>nm_at := a\<rparr>"] by (auto intro: silent_trans)
qed simp

lemma silent_gsv_complete: "gsv_complete cnt s = Some s' \<Longrightarrow> silent s s'"
  by (auto simp: gsv_complete_def Let_def bind_eq_Some_conv split: if_splits)

lemma silent_parse_gsv: "parse_gsv ty t s = Some s' \<Longrightarrow> silent s s'"
  by (auto simp: parse_gsv_def Let_def bind_eq_Some_conv split: if_splits
      dest!: silent_gsv_loop silent_gsv_complete intro: silent_trans)

lemma silent_parse_gsa: "parse_gsa ty t s = Some s' \<Longrightarrow> silent s s'"
  by (auto simp: parse_gsa_def Let_def bind_eq_Some_conv split: if_splits)

lemma silent_parse_sentence: "parse_sentence e t s = Some s' \<Longrightarrow> silent s s'"
  by (auto simp: parse_sentence_def Let_def split: if_splits dest: silent_with_rdr silent_parse_gsv silent_parse_gsa)

text \<open>What one sentence can report.\<close>

definition fix_report :: "nmea_effect list \<Rightarrow> bool" where
  "fix_report xs \<longleftrightarrow> xs = [] \<or>
     (\<exists>l. loc_flags l \<noteq> 0 \<and> xs = [Nm_hal (M2H_location (gps_location_bytes l)), Nm_main (MM_update_location l)])"

definition sv_report :: "nmea_effect list \<Rightarrow> bool" where
  "sv_report xs \<longleftrightarrow> xs = [] \<or> (\<exists>v. 0 < num_svs v \<and> xs = [Nm_hal (M2H_gps_sv (gnss_sv_info_bytes v))])"

definition text_report :: "nmea_effect \<Rightarrow> bool" where
  "text_report x \<longleftrightarrow> (\<exists>ts txt n. x = Nm_hal (M2H_nmea ts txt n))"

lemma reports_Nil [simp]: "fix_report []" "sv_report []"
  by (simp_all add: fix_report_def sv_report_def)

lemma nm_hal_out: "nm_hal m s = Some s' \<Longrightarrow> nm_out s' = nm_out s @ [Nm_hal m] \<and> nmea_end_tag s' = nmea_end_tag s \<and> rdr s' = rdr s"
  by (auto simp: nm_hal_def bind_eq_Some_conv simp del: send_mnl2hal.simps)

lemma nm_main_out: "nm_main m s = Some s' \<Longrightarrow> nm_out s' = nm_out s @ [Nm_main m] \<and> nmea_end_tag s' = nmea_end_tag s \<and> rdr s' = rdr s"
  by (auto simp: nm_main_def bind_eq_Some_conv simp del: send_main.simps)

lemma report_fix_out:
  assumes "report_fix s = Some s'"
  shows "\<exists>xs. nm_out s' = nm_out s @ xs \<and> fix_report xs \<and> (\<not> nmea_end_tag s \<longrightarrow> xs = []) \<and> nmea_end_tag s' = nmea_end_tag s"
proof (cases "loc_fixed (rdr s) \<and> loc_flags (nr_fix (rdr s)) \<noteq> 0 \<and> nmea_end_tag s")
  case True
  then obtain s1 s2 where "nm_hal (M2H_location (gps_location_bytes (nr_fix (rdr s)))) s = Some s1"
    "nm_main (MM_update_location (nr_fix (rdr s))) s1 = Some s2"
    "s' = s2\<lparr>rdr := upd_fix (loc_flags_update (\<lambda>_. 0)) (rdr s2)\<rparr>"
    using assms by (auto simp: report_fix_def Let_def bind_eq_Some_conv)
  then show ?thesis using True by (auto simp: fix_report_def dest!: nm_hal_out nm_main_out)
next
  case False
  then show ?thesis using assms by (auto simp: report_fix_def Let_def)
qed

lemma report_svs_out:
  assumes "report_svs s = Some s'"
  shows "\<exists>xs. nm_out s' = nm_out s @ xs \<and> sv_report xs \<and> (\<not> nmea_end_tag s \<longrightarrow> xs = []) \<and> nmea_end_tag s' = nmea_end_tag s"
  using assms by (fastforce simp: report_svs_def Let_def bind_eq_Some_conv sv_report_def split: if_splits dest!: nm_hal_out)

lemma nmea_reader_parse_out:
  assumes "nmea_reader_parse e s = Some s'"
  shows "\<exists>xs ys. nm_out s' = nm_out s @ xs @ ys \<and> fix_report xs \<and> sv_report ys \<and> (\<not> nmea_end_tag s \<longrightarrow> xs = [] \<and> ys = []) \<and>
    nmea_end_tag s' = nmea_end_tag s"
proof -
  obtain a where a: "nmea_parser_at_cmd_pre (nm_now e) (nmea_end_tag s) (nm_at s) = Some a"
    using assms by (auto simp: nmea_reader_parse_def bind_eq_Some_conv)
  define t where "t = nmea_tokenizer_init (take (nr_pos (rdr s)) (nr_in (rdr s)))"
  show ?thesis
  proof (cases "nr_pos (rdr s) < 9 \<or> length (nmea_tokenizer_get t 0) < 5")
    case True
    then have "s' = s\<lparr>nm_at := a\<rparr>" using assms a by (auto simp: nmea_reader_parse_def t_def Let_def)
    then show ?thesis by simp
  next
    case False
    then obtain s1 s2 where s: "parse_sentence e t (s\<lparr>nm_at := a\<rparr>) = Some s1" "report_fix s1 = Some s2" "report_svs s2 = Some s'"
      using assms a by (auto simp: nmea_reader_parse_def t_def Let_def bind_eq_Some_conv)
    obtain xs where "nm_out s2 = nm_out s1 @ xs" "fix_report xs" "\<not> nmea_end_tag s1 \<longrightarrow> xs = []" "nmea_end_tag s2 = nmea_end_tag s1"
      using report_fix_out [OF s(2)] by blast
    moreover obtain ys where "nm_out s' = nm_out s2 @ ys" "sv_report ys" "\<not> nmea_end_tag s2 \<longrightarrow> ys = []" "nmea_end_tag s' = nmea_end_tag s2"
      using report_svs_out [OF s(3)] by blast
    ultimately show ?thesis
      using silent_parse_sentence [OF s(1)] by (intro exI [of _ xs] exI [of _ ys]) (simp add: silent_def)
  qed
qed

lemma nmea_reader_addc_out:
  assumes "nmea_reader_addc e c s = Some s'"
  shows "\<exists>xs ys zs. nm_out s' = nm_out s @ xs @ ys @ zs \<and> fix_report xs \<and> sv_report ys \<and> (\<forall>z\<in>set zs. text_report z) \<and>
    length zs \<le> (if c = 10 then 1 else 0) \<and> (\<not> nmea_end_tag s \<or> c \<noteq> 10 \<longrightarrow> xs = [] \<and> ys = []) \<and>
    nmea_end_tag s' = nmea_end_tag s"
proof (cases "nr_overflow (rdr s) \<or> NMEA_MAX_SIZE \<le> nr_pos (rdr s) \<or> c \<noteq> 10")
  case True
  then have "nm_out s' = nm_out s \<and> nmea_end_tag s' = nmea_end_tag s"
    using assms by (auto simp: nmea_reader_addc_def Let_def split: if_splits)
  then show ?thesis by (intro exI [of _ "[]"]) simp
next
  case False
  define s0 where "s0 = s\<lparr>rdr := (rdr s)\<lparr>nr_in := (nr_in (rdr s))[nr_pos (rdr s) := c], nr_pos := nr_pos (rdr s) + 1\<rparr>\<rparr>"
  obtain s1 m s2 where s: "nmea_reader_parse e s0 = Some s1" "nm_hal m s1 = Some s2" "text_report (Nm_hal m)"
    "nm_out s' = nm_out s2" "nmea_end_tag s' = nmea_end_tag s2"
    using assms False by (auto simp: nmea_reader_addc_def Let_def bind_eq_Some_conv s0_def text_report_def)
  have "nm_out s0 = nm_out s" "nmea_end_tag s0 = nmea_end_tag s" by (simp_all add: s0_def)
  moreover obtain xs ys where "nm_out s1 = nm_out s0 @ xs @ ys" "fix_report xs" "sv_report ys"
    "\<not> nmea_end_tag s0 \<longrightarrow> xs = [] \<and> ys = []" "nmea_end_tag s1 = nmea_end_tag s0"
    using nmea_reader_parse_out [OF s(1)] by blast
  ultimately show ?thesis
    using nm_hal_out [OF s(2)] s(3-5) False
    by (intro exI [of _ xs] exI [of _ ys] exI [of _ "[Nm_hal m]"]) auto
qed

text \<open>A line that fits the array is always passed on.\<close>

lemma nm_hal_text:
  assumes "length xs \<le> 256"
  shows "nm_hal (M2H_nmea ts (Some (takeWhile (\<lambda>b. b \<noteq> 0) xs)) n) s =
    Some (s\<lparr>nm_out := nm_out s @ [Nm_hal (M2H_nmea ts (Some (takeWhile (\<lambda>b. b \<noteq> 0) xs)) n)]\<rparr>)"
proof -
  let ?m = "M2H_nmea ts (Some (takeWhile (\<lambda>b. b \<noteq> 0) xs)) n"
  have len: "length (takeWhile (\<lambda>b. b \<noteq> 0) xs) \<le> 256" using assms length_takeWhile_le [of _ xs] le_trans by blast
  have "mnl2hal_ok ?m" using len by (auto dest: set_takeWhileD)
  moreover have "length (wire_mnl2hal ?m) \<le> HAL_MNL_BUFF_SIZE" using len by simp
  ultimately have "send_mnl2hal ?m = Some (MTK_MNL2HAL, wire_mnl2hal ?m)" by (simp only: send_mnl2hal_eq if_True)
  then show ?thesis by (simp only: nm_hal_def bind.bind_lunit)
qed

text \<open>A run over all characters but the last of a buffer.\<close>

definition feed :: "nmea_env \<Rightarrow> c_char list \<Rightarrow> nmea \<Rightarrow> nmea option" where
  "feed e bs s = fold (\<lambda>b r. r \<bind> nmea_reader_addc e b) bs (Some s)"

lemma feed_simps [simp]: "feed e [] s = Some s" "feed e (b # bs) s = nmea_reader_addc e b s \<bind> feed e bs"
proof -
  have None: "fold (\<lambda>b r. r \<bind> nmea_reader_addc e b) xs None = None" for xs by (induction xs) simp_all
  show "feed e (b # bs) s = nmea_reader_addc e b s \<bind> feed e bs"
    by (cases "nmea_reader_addc e b s") (simp_all add: feed_def None)
qed (simp add: feed_def)

lemma nmea_loop_feed: "rest \<noteq> [] \<Longrightarrow> nmea_loop e (bs @ rest) s = feed e bs s \<bind> nmea_loop e rest"
proof (induction bs arbitrary: s)
  case (Cons b bs)
  then show ?case by (cases "nmea_reader_addc e b s") simp_all
qed simp

lemma nmea_loop_snoc:
  "nmea_loop e (bs @ [c]) s = feed e bs s \<bind> (\<lambda>s. nmea_reader_addc e c (s\<lparr>nmea_end_tag := True\<rparr>))"
proof -
  have "m \<bind> nmea_loop e [] = m" for m by (cases m) simp_all
  then have "nmea_loop e [c] = (\<lambda>s. nmea_reader_addc e c (s\<lparr>nmea_end_tag := True\<rparr>))" by (intro ext) simp
  with nmea_loop_feed [of "[c]" e bs s] show ?thesis by (metis not_Cons_self2)
qed

lemma feed_out:
  assumes "feed e bs s = Some s'" "\<not> nmea_end_tag s"
  shows "\<exists>zs. nm_out s' = nm_out s @ zs \<and> (\<forall>z\<in>set zs. text_report z) \<and> length zs \<le> count_list bs 10"
  using assms
proof (induction bs arbitrary: s)
  case (Cons b bs)
  then obtain s1 where s1: "nmea_reader_addc e b s = Some s1" "feed e bs s1 = Some s'"
    by (auto simp: bind_eq_Some_conv)
  then obtain zs where zs: "nm_out s1 = nm_out s @ zs" "\<forall>z\<in>set zs. text_report z" "length zs \<le> (if b = 10 then 1 else 0)"
    "\<not> nmea_end_tag s1"
    using nmea_reader_addc_out [OF s1(1)] Cons.prems(2) by auto
  moreover obtain ys where "nm_out s' = nm_out s1 @ ys" "\<forall>z\<in>set ys. text_report z" "length ys \<le> count_list bs 10"
    using Cons.IH [OF s1(2) zs(4)] by auto
  ultimately show ?case by (intro exI [of _ "zs @ ys"]) (auto split: if_splits)
qed simp

text \<open>C15. Whatever sentences a buffer of the chip holds, it yields the text of each line at most
  once, then at most one location, which is given to the HAL and to the main thread, then at most one list of
  satellites, then at most the text of the last line; and no location and no satellites at all when the
  last character of the buffer is not a newline.\<close>

theorem one_report_per_buffer:
  assumes "mtk_mnl_nmea_parser_process e (bs @ [c]) s = Some s'"
  shows "\<exists>texts fx svs end. nm_out s' = nm_out s @ texts @ fx @ svs @ end \<and> fix_report fx \<and> sv_report svs \<and>
    (\<forall>x\<in>set (texts @ end). text_report x) \<and> length texts \<le> count_list bs 10 \<and> length end \<le> 1 \<and>
    (c \<noteq> 10 \<longrightarrow> fx = [] \<and> svs = [] \<and> end = [])"
proof -
  define s0 where "s0 = s\<lparr>rdr := nmea_reader_init e, nmea_end_tag := False\<rparr>"
  obtain s1 where s1: "feed e bs s0 = Some s1"
    "nmea_reader_addc e c (s1\<lparr>nmea_end_tag := True\<rparr>) = Some s'"
    using assms by (auto simp: mtk_mnl_nmea_parser_process_def nmea_loop_snoc s0_def bind_eq_Some_conv)
  obtain texts where "nm_out s1 = nm_out s0 @ texts" "\<forall>z\<in>set texts. text_report z" "length texts \<le> count_list bs 10"
    using feed_out [OF s1(1)] by (auto simp: s0_def)
  moreover obtain xs ys zs where "nm_out s' = nm_out s1 @ xs @ ys @ zs" "fix_report xs" "sv_report ys"
    "\<forall>z\<in>set zs. text_report z" "length zs \<le> (if c = 10 then 1 else 0)" "c \<noteq> 10 \<longrightarrow> xs = [] \<and> ys = []"
    using nmea_reader_addc_out [OF s1(2)] by auto
  moreover have "nm_out s0 = nm_out s" by (simp add: s0_def)
  ultimately show ?thesis
    by (intro exI [of _ texts] exI [of _ xs] exI [of _ ys] exI [of _ zs]) (auto split: if_splits)
qed


definition env_2018 :: nmea_env where
  "env_2018 = \<lparr>nm_now = 1518163200, nm_zone = \<lparr>std_offset = 0, dst = (\<lambda>_. False)\<rparr>\<rparr>"

definition nmea_start :: nmea where
  "nmea_start = \<lparr>rdr = nmea_reader_init env_2018, nmea_end_tag = False, used_in_fix = (\<lambda>_. False), nm_at = at_init, nm_out = []\<rparr>"

theorem one_report_per_buffer_witness:
  "\<exists>s'. mtk_mnl_nmea_parser_process env_2018 ([65] @ [10]) nmea_start = Some s' \<and>
    (\<exists>texts fx svs end. nm_out s' = nm_out nmea_start @ texts @ fx @ svs @ end \<and> fix_report fx \<and> sv_report svs \<and>
      (\<forall>x\<in>set (texts @ end). text_report x) \<and> length texts \<le> count_list [65 :: c_char] 10 \<and> length end \<le> 1 \<and>
      ((10 :: c_char) \<noteq> 10 \<longrightarrow> fx = [] \<and> svs = [] \<and> end = []))"
proof -
  have "\<exists>s'. mtk_mnl_nmea_parser_process env_2018 ([65] @ [10]) nmea_start = Some s'"
    by (simp add: mtk_mnl_nmea_parser_process_def nmea_reader_addc_def nmea_reader_init_def nmea_reader_update_utc_diff_def
        nmea_reader_parse_def nmea_parser_at_cmd_pre_def nmea_start_def at_init_def nm_hal_text Let_def)
  then obtain s' where s': "mtk_mnl_nmea_parser_process env_2018 ([65] @ [10]) nmea_start = Some s'" ..
  show ?thesis by (intro exI [of _ s'] conjI s' one_report_per_buffer [OF s'])
qed


section \<open>Lines\<close>

text \<open>Parsing leaves the line buffer alone.\<close>

definition same_line :: "NmeaReader \<Rightarrow> NmeaReader \<Rightarrow> bool" where
  "same_line r r' \<longleftrightarrow> nr_in r' = nr_in r \<and> nr_pos r' = nr_pos r \<and> nr_overflow r' = nr_overflow r"

lemma same_line_refl [simp]: "same_line r r"
  by (simp add: same_line_def)

lemma same_line_trans: "same_line r r' \<Longrightarrow> same_line r' r'' \<Longrightarrow> same_line r r''"
  by (simp add: same_line_def)

lemma same_line_updates [simp]:
  "same_line r (upd_fix f r') = same_line r r'" "same_line r (r'\<lparr>utc_year := y\<rparr>) = same_line r r'"
  "same_line r (r'\<lparr>utc_mon := m\<rparr>) = same_line r r'" "same_line r (r'\<lparr>utc_day := d\<rparr>) = same_line r r'"
  "same_line r (nmea_reader_update_utc_diff e r') = same_line r r'" "same_line r (r'\<lparr>sv_count := n\<rparr>) = same_line r r'"
  "same_line r (r'\<lparr>sv_status := v\<rparr>) = same_line r r'" "same_line r (r'\<lparr>fix_mode := i\<rparr>) = same_line r r'"
  "same_line (r\<lparr>utc_year := y\<rparr>) r' = same_line r r'" "same_line (r\<lparr>utc_mon := m\<rparr>) r' = same_line r r'"
  "same_line (r\<lparr>utc_day := d\<rparr>) r' = same_line r r'" "same_line (r\<lparr>sv_count := n\<rparr>) r' = same_line r r'"
  "same_line (r\<lparr>fix_mode := i\<rparr>) r' = same_line r r'"
  by (simp_all add: same_line_def upd_fix_def nmea_reader_update_utc_diff_def)

lemma same_line_time: "nmea_reader_update_time e tok r = Some r' \<Longrightarrow> same_line r r'"
  by (auto simp: nmea_reader_update_time_def Let_def bind_eq_Some_conv case_prod_unfold split: if_splits)

lemma same_line_latlong: "nmea_reader_update_latlong a b c d r = Some r' \<Longrightarrow> same_line r r'"
  by (auto simp: nmea_reader_update_latlong_def Let_def bind_eq_Some_conv split: if_splits)

lemma same_line_date: "nmea_reader_update_date e d tok r = Some r' \<Longrightarrow> same_line r r'"
  by (auto simp: nmea_reader_update_date_def Let_def bind_eq_Some_conv split: if_splits dest!: same_line_time)

lemma same_line_pure [simp]:
  "same_line r (nmea_reader_update_altitude tok r') = same_line r r'"
  "same_line r (nmea_reader_update_bearing tok r') = same_line r r'"
  "same_line r (nmea_reader_update_speed tok r') = same_line r r'"
  "same_line r (parse_accuracy t r') = same_line r r'"
  by (simp_all add: nmea_reader_update_altitude_def nmea_reader_update_bearing_def nmea_reader_update_speed_def
      parse_accuracy_def nmea_reader_update_accuracy_def)

lemma same_line_gga: "parse_gga e t r = Some r' \<Longrightarrow> same_line r r'"
  by (auto simp: parse_gga_def bind_eq_Some_conv dest!: same_line_time same_line_latlong intro: same_line_trans)

lemma same_line_rmc: "parse_rmc e t r = Some r' \<Longrightarrow> same_line r r'"
  by (auto simp: parse_rmc_def bind_eq_Some_conv split: if_splits
      dest!: same_line_date same_line_latlong intro: same_line_trans)

lemma same_line_sv_status: "nmea_reader_update_sv_status u p a b c r = Some r' \<Longrightarrow> same_line r r'"
  by (auto simp: nmea_reader_update_sv_status_def Let_def bind_eq_Some_conv split: if_splits option.splits prod.splits)

lemma same_line_gsv_loop: "gsv_loop ty t idx n s = Some s' \<Longrightarrow> same_line (rdr s) (rdr s')"
proof (induction n arbitrary: idx s)
  case (Suc n)
  then obtain a u p b c d s1 where "with_rdr (nmea_reader_update_sv_status u p b c d) (s\<lparr>nm_at := a\<rparr>) = Some s1"
    "gsv_loop ty t (idx + 1) n s1 = Some s'"
    by (auto simp: bind_eq_Some_conv Let_def)
  then show ?case using Suc.IH [of _ s1] by (auto simp: with_rdr_def bind_eq_Some_conv dest!: same_line_sv_status intro: same_line_trans)
qed simp

lemma same_line_gsv_complete: "gsv_complete cnt s = Some s' \<Longrightarrow> same_line (rdr s) (rdr s')"
  by (auto simp: gsv_complete_def Let_def bind_eq_Some_conv split: if_splits)

lemma same_line_parse_gsv: "parse_gsv ty t s = Some s' \<Longrightarrow> same_line (rdr s) (rdr s')"
  by (auto simp: parse_gsv_def Let_def bind_eq_Some_conv split: if_splits
      dest!: same_line_gsv_loop same_line_gsv_complete intro: same_line_trans)

lemma same_line_parse_sentence: "parse_sentence e t s = Some s' \<Longrightarrow> same_line (rdr s) (rdr s')"
  by (auto simp: parse_sentence_def parse_gsa_def with_rdr_def Let_def bind_eq_Some_conv split: if_splits
      dest: same_line_gga same_line_rmc same_line_parse_gsv)

lemma same_line_report_fix: "report_fix s = Some s' \<Longrightarrow> same_line (rdr s) (rdr s')"
  by (auto simp: report_fix_def Let_def bind_eq_Some_conv split: if_splits dest!: nm_hal_out nm_main_out)

lemma same_line_report_svs: "report_svs s = Some s' \<Longrightarrow> same_line (rdr s) (rdr s')"
  by (auto simp: report_svs_def Let_def bind_eq_Some_conv split: if_splits dest!: nm_hal_out)

lemma same_line_parse: "nmea_reader_parse e s = Some s' \<Longrightarrow> same_line (rdr s) (rdr s')"
  by (auto simp: nmea_reader_parse_def Let_def bind_eq_Some_conv split: if_splits
      dest!: same_line_parse_sentence same_line_report_fix same_line_report_svs intro: same_line_trans)


text \<open>Characters of a line.\<close>

definition put_line :: "c_char list \<Rightarrow> nmea \<Rightarrow> nmea" where
  "put_line xs s = s\<lparr>rdr := (rdr s)\<lparr>nr_in := take (nr_pos (rdr s)) (nr_in (rdr s)) @ xs @
     drop (nr_pos (rdr s) + length xs) (nr_in (rdr s)), nr_pos := nr_pos (rdr s) + length xs\<rparr>\<rparr>"

lemma put_line_rdr [simp]:
  "nr_in (rdr (put_line xs s)) = take (nr_pos (rdr s)) (nr_in (rdr s)) @ xs @ drop (nr_pos (rdr s) + length xs) (nr_in (rdr s))"
  "nr_pos (rdr (put_line xs s)) = nr_pos (rdr s) + length xs" "nr_overflow (rdr (put_line xs s)) = nr_overflow (rdr s)"
  "nm_out (put_line xs s) = nm_out s"
  by (simp_all add: put_line_def)

lemma feed_line:
  assumes "\<not> nr_overflow (rdr s)" "nr_pos (rdr s) + length xs \<le> NMEA_MAX_SIZE" "length (nr_in (rdr s)) = 256" "10 \<notin> set xs"
  shows "feed e xs s = Some (put_line xs s)"
  using assms
proof (induction xs arbitrary: s)
  case (Cons x xs)
  let ?p = "nr_pos (rdr s)"
  have "nmea_reader_addc e x s = Some (put_line [x] s)"
    using Cons.prems by (simp add: nmea_reader_addc_def put_line_def upd_conv_take_nth_drop Let_def)
  moreover have "feed e xs (put_line [x] s) = Some (put_line xs (put_line [x] s))"
    by (rule Cons.IH) (use Cons.prems in simp_all)
  moreover have "put_line xs (put_line [x] s) = put_line (x # xs) s"
    using Cons.prems by (simp add: put_line_def add.commute)
  ultimately show ?case by simp
qed (simp add: put_line_def)

text \<open>Between a line that is too long and the next newline everything is skipped.\<close>

lemma feed_overflow:
  assumes "nr_overflow (rdr s)" "10 \<notin> set xs"
  shows "feed e (xs @ [10]) s = Some (s\<lparr>rdr := (rdr s)\<lparr>nr_overflow := False\<rparr>\<rparr>)"
proof -
  have "rdr s\<lparr>nr_overflow := True\<rparr> = rdr s" using assms(1) by simp
  then have eq: "s\<lparr>rdr := rdr s\<lparr>nr_overflow := True\<rparr>\<rparr> = s" by simp
  show ?thesis using assms(2) by (induction xs) (simp_all add: nmea_reader_addc_def assms(1) eq)
qed

lemma feed_append: "feed e (xs @ ys) s = feed e xs s \<bind> feed e ys"
proof (induction xs arbitrary: s)
  case (Cons x xs)
  then show ?case by (cases "nmea_reader_addc e x s") simp_all
qed simp

lemma feed_full:
  assumes "\<not> nr_overflow (rdr s)" "nr_pos (rdr s) = NMEA_MAX_SIZE" "10 \<notin> set ys"
  shows "feed e (c # ys @ [10]) s = Some (s\<lparr>rdr := (rdr s)\<lparr>nr_pos := 0\<rparr>\<rparr>)"
proof -
  have "nmea_reader_addc e c s = Some (s\<lparr>rdr := (rdr s)\<lparr>nr_overflow := True, nr_pos := 0\<rparr>\<rparr>)"
    using assms by (simp add: nmea_reader_addc_def)
  moreover have "rdr s\<lparr>nr_pos := 0\<rparr> = rdr s\<lparr>nr_pos := 0, nr_overflow := False\<rparr>" using assms(1) by simp
  ultimately show ?thesis using feed_overflow [of "s\<lparr>rdr := (rdr s)\<lparr>nr_overflow := True, nr_pos := 0\<rparr>\<rparr>" ys e] assms by simp
qed

text \<open>A line of more than 255 characters is dropped and the line after it is read as usual; but after a
  line of exactly 255 characters, whose newline is the character that finds the array full, the whole next line is
  dropped as well: neither is parsed nor passed on.\<close>

theorem overlong_line:
  assumes "\<not> nr_overflow (rdr s)" "nr_pos (rdr s) = 0" "length (nr_in (rdr s)) = 256" "length xs = NMEA_MAX_SIZE"
    "10 \<notin> set (xs @ zs @ ys)" "rest \<noteq> []"
  shows "nmea_loop e (xs @ zs @ 10 # ys @ 10 # rest) s =
    nmea_loop e (if zs = [] then rest else ys @ 10 # rest) (s\<lparr>rdr := (rdr s)\<lparr>nr_in := xs @ drop 255 (nr_in (rdr s))\<rparr>\<rparr>)"
proof -
  have xs: "feed e xs s = Some (put_line xs s)" using feed_line [of s xs e] assms by simp
  have full: "feed e (c # vs @ [10]) (put_line xs s) = Some (s\<lparr>rdr := (rdr s)\<lparr>nr_in := xs @ drop 255 (nr_in (rdr s))\<rparr>\<rparr>)"
    if "10 \<notin> set vs" for c vs
    using feed_full [of "put_line xs s" vs e c] that assms by (simp add: put_line_def del: feed_simps)
  show ?thesis
  proof (cases zs)
    case Nil
    have "nmea_loop e (xs @ zs @ 10 # ys @ 10 # rest) s = feed e (xs @ (10 # ys @ [10])) s \<bind> nmea_loop e rest"
      using nmea_loop_feed [OF assms(6), of e "xs @ 10 # ys @ [10]" s] Nil by (simp del: feed_simps)
    then show ?thesis using xs full [of ys 10] assms Nil by (simp add: feed_append del: feed_simps)
  next
    case (Cons c vs)
    have "nmea_loop e (xs @ zs @ 10 # ys @ 10 # rest) s = feed e (xs @ (c # vs @ [10])) s \<bind> nmea_loop e (ys @ 10 # rest)"
      using nmea_loop_feed [of "ys @ 10 # rest" e "xs @ c # vs @ [10]" s] Cons by (simp del: feed_simps)
    then show ?thesis using xs full [of vs c] assms Cons by (simp add: feed_append del: feed_simps)
  qed
qed

theorem overlong_line_witness:
  "nmea_loop env_2018 (replicate 255 65 @ [] @ 10 # [66] @ 10 # [67]) nmea_start =
    nmea_loop env_2018 (if ([] :: c_char list) = [] then [67] else [66] @ 10 # [67])
      (nmea_start\<lparr>rdr := (rdr nmea_start)\<lparr>nr_in := replicate 255 65 @ drop 255 (nr_in (rdr nmea_start))\<rparr>\<rparr>)"
  by (rule overlong_line)
    (simp_all add: nmea_start_def nmea_reader_init_def nmea_reader_update_utc_diff_def)

text \<open>The end of a line.\<close>

lemma addc_newline:
  assumes "nmea_reader_addc e 10 s = Some s'" "\<not> nr_overflow (rdr s)" "nr_pos (rdr s) < NMEA_MAX_SIZE"
  shows "nr_in (rdr s') = (nr_in (rdr s))[nr_pos (rdr s) := 10]" "nr_pos (rdr s') = 0" "\<not> nr_overflow (rdr s')"
    "\<exists>ts. last (nm_out s') = Nm_hal (M2H_nmea ts (Some (takeWhile (\<lambda>b. b \<noteq> 0) (nr_in (rdr s')))) (word_of_nat (nr_pos (rdr s) + 1)))"
proof -
  define s0 where "s0 = s\<lparr>rdr := (rdr s)\<lparr>nr_in := (nr_in (rdr s))[nr_pos (rdr s) := 10], nr_pos := nr_pos (rdr s) + 1\<rparr>\<rparr>"
  obtain s1 s2 where s: "nmea_reader_parse e s0 = Some s1"
    "nm_hal (M2H_nmea (loc_timestamp (nr_fix (rdr s1))) (Some (takeWhile (\<lambda>b. b \<noteq> 0) (nr_in (rdr s1)))) (word_of_nat (nr_pos (rdr s1)))) s1 = Some s2"
    "s' = s2\<lparr>rdr := (rdr s2)\<lparr>nr_pos := 0\<rparr>\<rparr>"
    using assms by (auto simp: nmea_reader_addc_def Let_def bind_eq_Some_conv s0_def)
  have "same_line (rdr s0) (rdr s1)" by (rule same_line_parse [OF s(1)])
  then have r: "nr_in (rdr s1) = (nr_in (rdr s))[nr_pos (rdr s) := 10]" "nr_pos (rdr s1) = nr_pos (rdr s) + 1" "\<not> nr_overflow (rdr s1)"
    using assms by (simp_all add: same_line_def s0_def)
  note o2 = nm_hal_out [OF s(2)]
  show "nr_in (rdr s') = (nr_in (rdr s))[nr_pos (rdr s) := 10]" "nr_pos (rdr s') = 0" "\<not> nr_overflow (rdr s')"
    using r o2 s(3) by simp_all
  show "\<exists>ts. last (nm_out s') = Nm_hal (M2H_nmea ts (Some (takeWhile (\<lambda>b. b \<noteq> 0) (nr_in (rdr s')))) (word_of_nat (nr_pos (rdr s) + 1)))"
    using r o2 s(3) by simp
qed

lemma text_zeros: "0 \<notin> set xs \<Longrightarrow> takeWhile (\<lambda>b. b \<noteq> 0) (xs @ replicate n 0) = xs"
  by (induction xs) (auto simp: takeWhile_replicate)

text \<open>The text that is passed on with a line is the line followed by whatever a longer line before it left
  in the array; only the length that goes with it is that of the line.\<close>

theorem nmea_text_remnants:
  assumes "mtk_mnl_nmea_parser_process e (l1 @ 10 # l2 @ [10]) s = Some s'"
    "length l2 \<le> length l1" "length l1 < NMEA_MAX_SIZE" "set (l1 @ l2) \<inter> {0, 10} = {}"
  shows "\<exists>ts. last (nm_out s') =
    Nm_hal (M2H_nmea ts (Some (l2 @ 10 # drop (length l2 + 1) (l1 @ [10]))) (word_of_nat (length l2 + 1)))"
proof -
  define s0 where "s0 = s\<lparr>rdr := nmea_reader_init e, nmea_end_tag := False\<rparr>"
  have r0: "\<not> nr_overflow (rdr s0)" "nr_pos (rdr s0) = 0" "nr_in (rdr s0) = replicate 256 0"
    by (simp_all add: s0_def nmea_reader_init_def nmea_reader_update_utc_diff_def)
  have "feed e l1 s0 = Some (put_line l1 s0)" using r0 assms by (intro feed_line) auto
  then have "feed e (l1 @ 10 # l2) s0 = nmea_reader_addc e 10 (put_line l1 s0) \<bind> feed e l2"
    by (simp add: feed_append)
  then obtain s1 s2 where s: "nmea_reader_addc e 10 (put_line l1 s0) = Some s1" "feed e l2 s1 = Some s2"
    "nmea_reader_addc e 10 (s2\<lparr>nmea_end_tag := True\<rparr>) = Some s'"
    using assms(1) nmea_loop_snoc [of e "l1 @ 10 # l2" 10 s0]
    by (auto simp: mtk_mnl_nmea_parser_process_def s0_def [symmetric] bind_eq_Some_conv eq_commute [of "Some s'"])
  note n1 = addc_newline [OF s(1)]
  have "256 - length l1 = Suc (255 - length l1)" using assms(3) by simp
  then have "(replicate (256 - length l1) 0)[0 := 10] = (10 :: c_char) # replicate (255 - length l1) 0"
    by (simp only: replicate_Suc list_update_code)
  then have r1: "nr_in (rdr s1) = l1 @ 10 # replicate (255 - length l1) 0" "nr_pos (rdr s1) = 0" "\<not> nr_overflow (rdr s1)"
    using n1(1-3) r0 assms by (simp_all add: list_update_append)
  have "feed e l2 s1 = Some (put_line l2 s1)" using r1 assms by (intro feed_line) auto
  then have s2: "s2 = put_line l2 s1" using s(2) by simp
  note n2 = addc_newline [OF s(3)]
  have "nr_in (rdr s') = (l2 @ drop (length l2) (l1 @ 10 # replicate (255 - length l1) 0))[length l2 := 10]"
    using n2(1) r1 s2 assms by simp
  also have "\<dots> = l2 @ 10 # drop (length l2 + 1) (l1 @ 10 # replicate (255 - length l1) 0)"
    using assms(2) by (simp add: list_update_append drop_Cons' Cons_nth_drop_Suc [symmetric])
  also have "\<dots> = (l2 @ 10 # drop (length l2 + 1) (l1 @ [10])) @ replicate (255 - length l1) 0"
    using assms(2) by (cases "length l1 = length l2") simp_all
  finally have line: "nr_in (rdr s') = (l2 @ 10 # drop (length l2 + 1) (l1 @ [10])) @ replicate (255 - length l1) 0" .
  have "0 \<notin> set (l2 @ 10 # drop (length l2 + 1) (l1 @ [10]))"
    using assms(4) by (auto dest!: in_set_dropD simp del: drop_append)
  from text_zeros [OF this] have "takeWhile (\<lambda>b. b \<noteq> 0) (nr_in (rdr s')) = l2 @ 10 # drop (length l2 + 1) (l1 @ [10])"
    unfolding line .
  then show ?thesis using n2(4) r1 s2 assms by simp
qed

theorem nmea_text_remnants_witness:
  "\<exists>s' ts. mtk_mnl_nmea_parser_process env_2018 ([65, 66, 67] @ 10 # [68] @ [10]) nmea_start = Some s' \<and>
    last (nm_out s') = Nm_hal (M2H_nmea ts (Some [68, 10, 67, 10]) 2)"
proof -
  have "\<exists>s'. mtk_mnl_nmea_parser_process env_2018 ([65, 66, 67] @ 10 # [68] @ [10]) nmea_start = Some s'"
    by (simp add: mtk_mnl_nmea_parser_process_def nmea_reader_addc_def nmea_reader_init_def nmea_reader_update_utc_diff_def
        nmea_reader_parse_def nmea_parser_at_cmd_pre_def nmea_start_def at_init_def nm_hal_text Let_def)
  then obtain s' where "mtk_mnl_nmea_parser_process env_2018 ([65, 66, 67] @ 10 # [68] @ [10]) nmea_start = Some s'" ..
  from this nmea_text_remnants [OF this] show ?thesis by auto
qed

section \<open>Satellites in view\<close>

text \<open>The fields of the \<open>j\<close>-th satellite of a sentence, and whether its number belongs to a system.\<close>

definition sat_fields :: "SV_TYPE \<Rightarrow> c_char list list \<Rightarrow> nat \<Rightarrow> int option" where
  "sat_fields ty t j = do {
     i \<leftarrow> str2int (nmea_tokenizer_get t (4 * (j + 1)));
     sv_id \<leftarrow> sv_number ty i;
     _ \<leftarrow> str2int (nmea_tokenizer_get t (4 * (j + 1) + 1));
     _ \<leftarrow> str2int (nmea_tokenizer_get t (4 * (j + 1) + 2));
     _ \<leftarrow> d_to_int (str2float (nmea_tokenizer_get t (4 * (j + 1) + 3)));
     Some sv_id
   }"

definition listed :: "SV_TYPE \<Rightarrow> c_char list list \<Rightarrow> nat \<Rightarrow> bool" where
  "listed ty t j \<longleftrightarrow> (case sat_fields ty t j of Some i \<Rightarrow> sv_of i \<noteq> None | None \<Rightarrow> False)"

lemma update_sv_status_eq:
  assumes "str2int elevation \<noteq> None" "str2int azimuth \<noteq> None" "sv_count r + nat (num_svs (sv_status r)) < GNSS_MAX_SVS"
  shows "\<exists>r'. nmea_reader_update_sv_status u i elevation azimuth tok r = Some r' \<and>
    sv_count r' = sv_count r + (if sv_of i = None then 0 else 1) \<and> num_svs (sv_status r') = num_svs (sv_status r) \<and>
    length (sv_list (sv_status r')) = length (sv_list (sv_status r))"
  using assms by (auto simp: nmea_reader_update_sv_status_def Let_def split: option.split)

text \<open>One round of the loop.\<close>

lemma gsv_round:
  assumes "sat_fields ty t idx = Some i" "sv_count (rdr s) + nat (num_svs (sv_status (rdr s))) < GNSS_MAX_SVS"
  shows "\<exists>s'. gsv_loop ty t idx (Suc n) s = (if 32 \<le> sv_count (rdr s) then None else gsv_loop ty t (idx + 1) n s') \<and>
    sv_count (rdr s') = sv_count (rdr s) + (if listed ty t idx then 1 else 0) \<and>
    num_svs (sv_status (rdr s')) = num_svs (sv_status (rdr s)) \<and> at_test_flag (nm_at s') = at_test_flag (nm_at s) \<and>
    at_signal_mode (nm_at s') = at_signal_mode (nm_at s)"
proof (cases "32 \<le> sv_count (rdr s)")
  case True
  then have "gsv_loop ty t idx (Suc n) s = None"
    using assms(1) by (auto simp: sat_fields_def bind_eq_Some_conv put_prn_snr_def)
  then show ?thesis using True
    by (intro exI [of _ "s\<lparr>rdr := (rdr s)\<lparr>sv_count := sv_count (rdr s) + (if listed ty t idx then 1 else 0)\<rparr>\<rparr>"]) simp
next
  case False
  obtain p q ele azi where f: "str2int (nmea_tokenizer_get t (4 * (idx + 1))) = Some p" "sv_number ty p = Some i"
    "str2int (nmea_tokenizer_get t (4 * (idx + 1) + 1)) = Some ele"
    "str2int (nmea_tokenizer_get t (4 * (idx + 1) + 2)) = Some azi"
    "d_to_int (str2float (nmea_tokenizer_get t (4 * (idx + 1) + 3))) = Some q"
    using assms(1) by (auto simp: sat_fields_def bind_eq_Some_conv)
  define a where "a = (nm_at s)\<lparr>at_prn := (at_prn (nm_at s))[sv_count (rdr s) := p], at_snr := (at_snr (nm_at s))[sv_count (rdr s) := q]\<rparr>"
  obtain r' where r': "nmea_reader_update_sv_status (used_in_fix s) i (nmea_tokenizer_get t (4 * (idx + 1) + 1))
      (nmea_tokenizer_get t (4 * (idx + 1) + 2)) (nmea_tokenizer_get t (4 * (idx + 1) + 3)) (rdr s) = Some r'"
    "sv_count r' = sv_count (rdr s) + (if sv_of i = None then 0 else 1)"
    "num_svs (sv_status r') = num_svs (sv_status (rdr s))"
    using update_sv_status_eq [of "nmea_tokenizer_get t (4 * (idx + 1) + 1)" "nmea_tokenizer_get t (4 * (idx + 1) + 2)" "rdr s"
        "used_in_fix s" i "nmea_tokenizer_get t (4 * (idx + 1) + 3)"] f assms(2) by auto
  have "gsv_loop ty t idx (Suc n) s = gsv_loop ty t (idx + 1) n (s\<lparr>nm_at := a, rdr := r'\<rparr>)"
    using f r'(1) False by (simp add: put_prn_snr_def a_def with_rdr_def Let_def)
  moreover have "listed ty t idx \<longleftrightarrow> sv_of i \<noteq> None" using assms(1) by (simp add: listed_def)
  ultimately show ?thesis using r' False by (intro exI [of _ "s\<lparr>nm_at := a, rdr := r'\<rparr>"]) (auto simp: a_def)
qed

lemma gsv_loop_overrun:
  assumes "\<forall>j\<in>{idx..<idx + n}. sat_fields ty t j \<noteq> None" "num_svs (sv_status (rdr s)) \<le> 32" "sv_count (rdr s) \<le> 32"
  shows "gsv_loop ty t idx n s = None \<longleftrightarrow>
      0 < n \<and> 32 \<le> sv_count (rdr s) + length (filter (listed ty t) [idx..<idx + n - 1])"
    "gsv_loop ty t idx n s = Some s' \<Longrightarrow> at_test_flag (nm_at s') = at_test_flag (nm_at s) \<and>
      at_signal_mode (nm_at s') = at_signal_mode (nm_at s) \<and> num_svs (sv_status (rdr s')) = num_svs (sv_status (rdr s)) \<and>
      sv_count (rdr s') = sv_count (rdr s) + length (filter (listed ty t) [idx..<idx + n])"
proof -
  have "(gsv_loop ty t idx n s = None \<longleftrightarrow>
      0 < n \<and> 32 \<le> sv_count (rdr s) + length (filter (listed ty t) [idx..<idx + n - 1])) \<and>
    (gsv_loop ty t idx n s = Some s' \<longrightarrow> at_test_flag (nm_at s') = at_test_flag (nm_at s) \<and>
      at_signal_mode (nm_at s') = at_signal_mode (nm_at s) \<and> num_svs (sv_status (rdr s')) = num_svs (sv_status (rdr s)) \<and>
      sv_count (rdr s') = sv_count (rdr s) + length (filter (listed ty t) [idx..<idx + n]))"
    using assms
  proof (induction n arbitrary: idx s)
    case (Suc n)
    obtain i where i: "sat_fields ty t idx = Some i" using Suc.prems(1) [rule_format, of idx] by auto
    show ?case
    proof (cases "sv_count (rdr s) = 32")
      case True
      then have "gsv_loop ty t idx (Suc n) s = None"
        using i by (auto simp: sat_fields_def bind_eq_Some_conv put_prn_snr_def)
      then show ?thesis using True by simp
    next
      case False
      then have lt: "sv_count (rdr s) < 32" using Suc.prems(3) by simp
      moreover have "sv_count (rdr s) + nat (num_svs (sv_status (rdr s))) < GNSS_MAX_SVS"
        using lt Suc.prems(2) by linarith
      ultimately obtain s1 where s1: "gsv_loop ty t idx (Suc n) s = gsv_loop ty t (idx + 1) n s1"
        "sv_count (rdr s1) = sv_count (rdr s) + (if listed ty t idx then 1 else 0)"
        "num_svs (sv_status (rdr s1)) = num_svs (sv_status (rdr s))" "at_test_flag (nm_at s1) = at_test_flag (nm_at s)"
        "at_signal_mode (nm_at s1) = at_signal_mode (nm_at s)"
        using gsv_round [OF i, of s n] by (auto simp del: gsv_loop.simps)
      have "\<forall>j\<in>{idx + 1..<idx + 1 + n}. sat_fields ty t j \<noteq> None" using Suc.prems(1) by auto
      then have IH: "(gsv_loop ty t (idx + 1) n s1 = None \<longleftrightarrow>
          0 < n \<and> 32 \<le> sv_count (rdr s1) + length (filter (listed ty t) [idx + 1..<idx + 1 + n - 1])) \<and>
        (gsv_loop ty t (idx + 1) n s1 = Some s' \<longrightarrow> at_test_flag (nm_at s') = at_test_flag (nm_at s1) \<and>
          at_signal_mode (nm_at s') = at_signal_mode (nm_at s1) \<and> num_svs (sv_status (rdr s')) = num_svs (sv_status (rdr s1)) \<and>
          sv_count (rdr s') = sv_count (rdr s1) + length (filter (listed ty t) [idx + 1..<idx + 1 + n]))"
        using Suc.IH [of "idx + 1" s1] Suc.prems(2) s1 lt by auto
      have range: "[idx..<idx + Suc n] = idx # [idx + 1..<idx + 1 + n]"
        "0 < n \<Longrightarrow> [idx..<idx + Suc n - 1] = idx # [idx + 1..<idx + 1 + n - 1]"
        by (simp_all add: upt_rec [of idx])
      show ?thesis
      proof (cases "n = 0")
        case True
        then show ?thesis using s1 lt range by auto
      next
        case False
        then show ?thesis using s1(2-) IH range unfolding s1(1) by auto
      qed
    qed
  qed simp
  then show "gsv_loop ty t idx n s = None \<longleftrightarrow>
      0 < n \<and> 32 \<le> sv_count (rdr s) + length (filter (listed ty t) [idx..<idx + n - 1])"
    "gsv_loop ty t idx n s = Some s' \<Longrightarrow> at_test_flag (nm_at s') = at_test_flag (nm_at s) \<and>
      at_signal_mode (nm_at s') = at_signal_mode (nm_at s) \<and> num_svs (sv_status (rdr s')) = num_svs (sv_status (rdr s)) \<and>
      sv_count (rdr s') = sv_count (rdr s) + length (filter (listed ty t) [idx..<idx + n])" by blast+
qed

text \<open>With no test running and readable fields, a sentence with satellites in view overruns the arrays
  \<open>prn\<close> and \<open>snr\<close> of the AT commands exactly when one of its satellites finds 32 satellites of the
  same set already counted, however many the set announces.\<close>

theorem gsv_overruns:
  assumes "str2int (nmea_tokenizer_get t 1) = Some num" "str2int (nmea_tokenizer_get t 2) = Some sq"
    "str2int (nmea_tokenizer_get t 3) = Some cnt" "1 \<le> sq" "sq \<le> 1000" "0 \<le> cnt" "cnt \<le> 1000"
    "n = nat (min (cnt - (sq - 1) * 4) 4)" "start = (if sq = 1 then 0 else sv_count (rdr s))" "start \<le> 32"
    "num_svs (sv_status (rdr s)) \<le> 32" "\<forall>j<n. sat_fields ty t j \<noteq> None"
    "\<not> at_test_flag (nm_at s)" "\<not> at_signal_mode (nm_at s)"
  shows "parse_gsv ty t s = None \<longleftrightarrow> 0 < n \<and> 32 \<le> start + length (filter (listed ty t) [0..<n - 1])"
proof -
  define s0 where "s0 = (if sq = 1 then s\<lparr>rdr := (rdr s)\<lparr>sv_count := 0\<rparr>\<rparr> else s)"
  have s0: "sv_count (rdr s0) = start" "num_svs (sv_status (rdr s0)) \<le> 32" "\<not> at_test_flag (nm_at s0)" "\<not> at_signal_mode (nm_at s0)"
    using assms by (simp_all add: s0_def)
  have "in_int ((sq - 1) * 4) = Some ((sq - 1) * 4)" "in_int (cnt - (sq - 1) * 4) = Some (cnt - (sq - 1) * 4)"
    using assms(4-7) by (simp_all add: in_int_def)
  moreover have "parse_gsv ty t s = in_int ((sq - 1) * 4) \<bind> (\<lambda>b. in_int (cnt - b) \<bind> (\<lambda>m.
      gsv_loop ty t 0 (nat (min m 4)) s0 \<bind> (\<lambda>s. if sq = num then gsv_complete cnt s else Some s)))"
    by (simp add: parse_gsv_def assms(1-3) s0_def Let_def del: One_nat_def)
  ultimately have "parse_gsv ty t s = gsv_loop ty t 0 n s0 \<bind> (\<lambda>s. if sq = num then gsv_complete cnt s else Some s)"
    by (simp only: bind.bind_lunit assms(8))
  moreover have "\<forall>j\<in>{0..<0 + n}. sat_fields ty t j \<noteq> None" using assms(12) by simp
  note over = gsv_loop_overrun [OF this s0(2), unfolded s0(1), OF assms(10)]
  have "gsv_complete cnt s1 \<noteq> None" if "gsv_loop ty t 0 n s0 = Some s1" for s1
    using over(2) [OF that] s0 by (simp add: gsv_complete_def Let_def)
  ultimately show ?thesis using over(1) by (cases "gsv_loop ty t 0 n s0") auto
qed

theorem gsv_overruns_witness:
  "parse_gsv GPS_SV [[71, 80, 71, 83, 86], [57], [57], [51, 51], [53], [49], [49]]
    (nmea_start\<lparr>rdr := (rdr nmea_start)\<lparr>sv_count := 32\<rparr>\<rparr>) = None"
proof -
  have "d_to_int (str2float []) = Some 0"
    by (simp add: str2float_def strtod_def read_mantissa_def Let_def d_zero_def with_sign_def in_int_def)
  then show ?thesis
    using gsv_overruns [of "[[71, 80, 71, 83, 86], [57], [57], [51, 51], [53], [49], [49]]" 9 9 33 1 32
        "nmea_start\<lparr>rdr := (rdr nmea_start)\<lparr>sv_count := 32\<rparr>\<rparr>" GPS_SV]
    by (simp add: nmea_tokenizer_get_def str2int_def is_dec_def digit_def in_int_def nmea_start_def nmea_reader_init_def
        nmea_reader_update_utc_diff_def sat_fields_def sv_number_def at_init_def)
qed

end
