(* ===== verification/Nmea_Time.thy ===== *)
theory Nmea_Time
  imports Nmea_Properties
begin

text \<open>
  The time stamp of a fix: what the detour over \<open>mktime\<close>, which reads the fields of the sentence as
  local time, makes of a UTC date and time.
\<close>

text \<open>Times whose neighbourhood of two days fits 32 bits.\<close>

definition time_ok :: "int \<Rightarrow> bool" where
  "time_ok t \<longleftrightarrow> 172800 \<le> t \<and> t < 2 ^ 31 - 172800"

definition zone_ok :: "zone \<Rightarrow> bool" where
  "zone_ok z \<longleftrightarrow> \<bar>std_offset z\<bar> \<le> 86400"

lemma in_int_near:
  assumes "time_ok t" "\<bar>d\<bar> \<le> 172800"
  shows "in_int (t + d) = Some (t + d)"
  using assms by (simp add: time_ok_def in_int_def abs_le_iff)

lemma timegm_near:
  assumes "time_ok t" "\<bar>d\<bar> \<le> 172800"
  shows "timegm (gmtime (t + d)) = t + d"
  using assms by (intro timegm_gmtime) (simp add: time_ok_def days_before_year_def abs_le_iff)

lemma timegm_isdst [simp]: "timegm (t\<lparr>tm_isdst := i\<rparr>) = timegm t"
  by (simp add: timegm_def)

lemma isdst_gmtime: "tm_isdst (gmtime t) = 0"
  by (simp add: gmtime_def Let_def split: prod.split)

text \<open>\<open>mktime\<close> of a local time that the library made gives back its moment.\<close>

lemma mktime_localtime:
  assumes "in_int t = Some t" "zone_ok z"
  shows "fst (mktime z (localtime z t)) = t"
proof -
  have "- (2 ^ 31) \<le> t" using assms(1) by (simp add: in_int_def split: if_splits)
  then have g: "timegm (gmtime (t + std_offset z + k)) = t + std_offset z + k" if "0 \<le> k" for k
    using assms(2) that by (intro timegm_gmtime) (simp add: zone_ok_def days_before_year_def abs_le_iff)
  show ?thesis
    using g [of 0] g [of 3600] assms(1) by (simp add: mktime_def localtime_def isdst_gmtime Let_def)
qed

text \<open>The difference the reader keeps is that of the zone without daylight saving.\<close>

lemma utc_diff_std:
  assumes "time_ok (nm_now e)" "zone_ok (nm_zone e)"
  shows "utc_diff_of e = - std_offset (nm_zone e)"
proof -
  have "fst (mktime (nm_zone e) (localtime (nm_zone e) (nm_now e))) = nm_now e"
    using mktime_localtime [OF _ assms(2)] in_int_near [OF assms(1), of 0] by simp
  moreover have "fst (mktime (nm_zone e) (gmtime (nm_now e))) = nm_now e - std_offset (nm_zone e)"
    using timegm_near [OF assms(1), of 0] in_int_near [OF assms(1), of "- std_offset (nm_zone e)"] assms(2)
    by (simp add: mktime_def isdst_gmtime Let_def zone_ok_def)
  moreover have "sint (word_of_int (- std_offset (nm_zone e)) :: c_int) = - std_offset (nm_zone e)"
    using assms(2) unfolding zone_ok_def signed_of_int of_int_eq_id id_apply by (intro signed_take_bit_int_eq_self) (simp_all add: abs_le_iff)
  ultimately show ?thesis by (simp add: utc_diff_of_def Let_def)
qed

text \<open>The UTC moment of the fields of a sentence.\<close>

definition fix_moment :: "int \<Rightarrow> int \<Rightarrow> int \<Rightarrow> int \<Rightarrow> int \<Rightarrow> int \<Rightarrow> int" where
  "fix_moment year mon day hour minute sec = timegm \<lparr>tm_sec = sec, tm_min = minute, tm_hour = hour, tm_mday = day,
     tm_mon = mon - 1, tm_year = year - 1900, tm_isdst = - 1\<rparr>"

text \<open>C19. The time stamp of a fix is the moment its date and time name, in milliseconds, whatever the zone of the
  device, except under daylight saving: when that is on at the moment the local clock shows
  the UTC time of the fix, the time stamp is one hour early.\<close>

theorem fix_time:
  assumes "length date = 6" "str2int (take 2 date) = Some day" "str2int (take 2 (drop 2 date)) = Some mon"
    "str2int (drop 4 date) = Some yy" "0 \<le> day" "0 \<le> mon" "0 \<le> yy"
    "6 \<le> length tok" "str2int (take 2 tok) = Some hour" "str2int (take 2 (drop 2 tok)) = Some minute"
    "d_to_int (str2float (drop 4 tok)) = Some sec"
    "T = fix_moment (2000 + yy) mon day hour minute sec" "time_ok T" "time_ok (nm_now e)" "zone_ok (nm_zone e)"
  shows "\<exists>r'. nmea_reader_update_date e date tok r = Some r' \<and>
    loc_timestamp (nr_fix r') =
      word_of_int (1000 * (T - (if dst (nm_zone e) (T - std_offset (nm_zone e) - 3600) then 3600 else 0)))"
proof -
  define z where "z = nm_zone e"
  define h where "h = (if dst z (T - std_offset z - 3600) then 3600 else (0 :: int))"
  define t1 where "t1 = T - std_offset z - h"
  define b where "b = \<lparr>tm_sec = sec, tm_min = minute, tm_hour = hour, tm_mday = day, tm_mon = mon - 1,
    tm_year = 100 + yy, tm_isdst = - 1\<rparr>"
  have h: "0 \<le> h" "h \<le> 3600" by (simp_all add: h_def)
  have zo: "\<bar>std_offset z\<bar> \<le> 86400" using assms(15) by (simp add: z_def zone_ok_def)
  have T: "timegm b = T" by (simp add: b_def assms(12) fix_moment_def add.commute)
  have ok: "in_int t1 = Some t1"
    using assms(13) h zo by (simp add: t1_def in_int_def time_ok_def abs_le_iff)
  have "tm_isdst b = - 1" by (simp add: b_def)
  then have m1: "mktime z b = (t1, localtime z t1)"
    using ok by (cases "dst z (T - std_offset z - 3600)") (simp_all add: mktime_def T Let_def t1_def h_def)
  have m2: "fst (mktime z (localtime z t1)) = t1"
    using mktime_localtime [OF ok] assms(15) by (simp add: z_def)
  have ud: "utc_diff_of e = - std_offset z" using utc_diff_std [OF assms(14,15)] by (simp add: z_def)
  have sum: "t1 + std_offset z = T - h" by (simp add: t1_def)
  have late: "in_int (T - h) = Some (T - h)" using in_int_near [OF assms(13), of "- h"] h by simp
  have "nmea_reader_update_date e date tok r = nmea_reader_update_time e tok (r\<lparr>utc_year := yy + 2000, utc_mon := mon, utc_day := day\<rparr>)"
    using assms(1-7) by (simp add: nmea_reader_update_date_def)
  also have "\<dots> = Some (upd_fix (\<lambda>l. l\<lparr>loc_timestamp := word_of_int ((T - h) * 1000)\<rparr>)
      (r\<lparr>utc_year := yy + 2000, utc_mon := mon, utc_day := day, utc_diff := - std_offset z\<rparr>))"
    using assms(5-11) late unfolding nmea_reader_update_time_def
    by (simp add: b_def [symmetric] z_def [symmetric] m1 m2 nmea_reader_update_utc_diff_def ud sum Let_def)
  finally show ?thesis
    by (intro exI conjI, assumption) (simp add: upd_fix_def h_def z_def mult.commute)
qed

text \<open>A morning in June in a zone one hour east with daylight saving.\<close>

definition env_june :: nmea_env where
  "env_june = \<lparr>nm_now = 1530000000, nm_zone = \<lparr>std_offset = 3600, dst = (\<lambda>_. True)\<rparr>\<rparr>"

theorem fix_time_witness:
  "\<exists>r'. nmea_reader_update_date env_june (ascii ''260618'') (ascii ''080000'') (nmea_reader_init env_june) = Some r' \<and>
    loc_timestamp (nr_fix r') = word_of_int (1000 * (fix_moment 2018 6 26 8 0 0 - 3600))"
proof -
  have m: "fix_moment 2018 6 26 8 0 0 = 1530000000"
    by (simp add: fix_moment_def timegm_def days_before_year_def days_before_month_def month_days_def leap_def Let_def numeral_eq_Suc)
  have "d_to_int (str2float (drop 4 (ascii ''080000''))) = Some 0"
    by (simp add: ascii_def of_char_def str2float_def strtod_def read_mantissa_def is_dec_def is_space_def to_lower_def
        digits_val_def digit_def read_exponent_def pow_frac_def dround_def round_frac_def with_sign_def in_int_def Let_def)
  then show ?thesis
    using fix_time [of "ascii ''260618''" 26 6 18 "ascii ''080000''" 8 0 0 1530000000 env_june "nmea_reader_init env_june"]
    by (simp add: ascii_def of_char_def str2int_def is_dec_def digit_def in_int_def m time_ok_def zone_ok_def env_june_def)
qed

end
