(* ===== verification/Nmea_System.thy ===== *)
theory Nmea_System
  imports Nmea_Properties Gpshal_Properties
begin

text \<open>
  The parser together with the HAL: what the framework gets of a fix and of the satellites in view.
\<close>

lemma reported:
  assumes "mnl2hal_ok m" "length (wire_mnl2hal m) \<le> HAL_MNL_BUFF_SIZE"
  shows "send_mnl2hal m = Some (MTK_MNL2HAL, wire_mnl2hal m)"
    and "nm_hal m s = Some (s\<lparr>nm_out := nm_out s @ [Nm_hal m]\<rparr>)"
    and "mnl2hal_hdlr u (RxData (wire_mnl2hal m) # rs) h st = map_option (\<lambda>(r, st). (r, st, rs)) (call_mnl2hal h m st)"
proof -
  show send: "send_mnl2hal m = Some (MTK_MNL2HAL, wire_mnl2hal m)" using assms by (simp only: send_mnl2hal_eq if_True)
  show "nm_hal m s = Some (s\<lparr>nm_out := nm_out s @ [Nm_hal m]\<rparr>)" by (simp only: nm_hal_def send bind.bind_lunit)
  show "mnl2hal_hdlr u (RxData (wire_mnl2hal m) # rs) h st = map_option (\<lambda>(r, st). (r, st, rs)) (call_mnl2hal h m st)"
    by (rule mnl2hal_delivered [OF assms(1) send])
qed

text \<open>C14. At the end of a buffer a fix, with the flags below \<open>2^16\<close> that the framework's structure can hold, goes to the HAL and to the
  main thread; when the framework has given its callbacks, asked for positioning, and the HAL's throttle lets the report pass, the
  framework gets exactly the location that the parser built; its flags are then cleared, so that it is not reported again.\<close>

theorem fix_delivered:
  assumes "loc_fixed (rdr s)" "l = nr_fix (rdr s)" "loc_flags l \<noteq> 0" "unat (loc_flags l) < 2 ^ 16" "nmea_end_tag s"
    "gps_cbs c" "gps_state_intent c = ST_START" "throttle_tick t = (False, t')"
  shows "\<exists>s' m d. report_fix s = Some s' \<and> nm_out s' = nm_out s @ [Nm_hal m, Nm_main (MM_update_location l)] \<and>
    loc_flags (nr_fix (rdr s')) = 0 \<and> send_mnl2hal m = Some (MTK_MNL2HAL, d) \<and>
    mnl2hal_hdlr u (RxData d # rs) (gpshal_mnl2hal_interface e) (c, t) =
      Some (0, (c\<lparr>app_calls := app_calls c @ [Cb_location l]\<rparr>, t'), rs)"
proof -
  let ?m = "M2H_location (gps_location_bytes l)"
  have m: "mnl2hal_ok ?m" "length (wire_mnl2hal ?m) \<le> HAL_MNL_BUFF_SIZE" by simp_all
  have fl: "(ucast (ucast (loc_flags l) :: c_short) :: c_int) = loc_flags l"
    using assms(4) by (simp add: word_unat_eq_iff unsigned_ucast_eq unsigned_take_bit_eq take_bit_nat_eq_self)
  have main: "nm_main (MM_update_location l) r = Some (r\<lparr>nm_out := nm_out r @ [Nm_main (MM_update_location l)]\<rparr>)" for r
    by (simp only: nm_main_def send_main_eq bind.bind_lunit)
  have "report_fix s = Some (s\<lparr>nm_out := nm_out s @ [Nm_hal ?m, Nm_main (MM_update_location l)],
      rdr := upd_fix (loc_flags_update (\<lambda>_. 0)) (rdr s)\<rparr>)"
    using assms(1,3,5) by (simp add: report_fix_def Let_def assms(2) [symmetric] reported(2) [OF m] main)
  moreover have call: "call_mnl2hal (gpshal_mnl2hal_interface e) ?m (c, t) =
      Some (0, c\<lparr>app_calls := app_calls c @ [Cb_location l]\<rparr>, t')"
    using assms(6-8) fl by (simp add: gpshal_mnl2hal_interface_def update_location_def call_app_def)
  moreover have "mnl2hal_hdlr u (RxData (wire_mnl2hal ?m) # rs) (gpshal_mnl2hal_interface e) (c, t) =
      Some (0, (c\<lparr>app_calls := app_calls c @ [Cb_location l]\<rparr>, t'), rs)"
    by (simp only: reported(3) [OF m] call option.map prod.case)
  ultimately show ?thesis
    using reported(1) [OF m] by (auto simp: upd_fix_def simp del: send_mnl2hal.simps wire_mnl2hal.simps call_mnl2hal.simps)
qed

text \<open>A 3D fix at the end of a buffer, and the last sentence of a set that has been repeated: 65 satellites counted.\<close>

definition fix_end :: nmea where
  "fix_end = nmea_start\<lparr>rdr := (rdr nmea_start)\<lparr>fix_mode := 3, nr_fix := has GPS_LOCATION_HAS_ALT (nr_fix (rdr nmea_start))\<rparr>,
     nmea_end_tag := True\<rparr>"

definition svs_end :: "int \<Rightarrow> nmea" where
  "svs_end n = nmea_start\<lparr>rdr := (rdr nmea_start)\<lparr>sv_status := \<lparr>num_svs = n, sv_list = replicate GNSS_MAX_SVS zero_sv\<rparr>\<rparr>,
     nmea_end_tag := True\<rparr>"

lemma nmea_start_rdr: "rdr nmea_start = nmea_reader_init env_2018" "nm_out nmea_start = []"
  by (simp_all add: nmea_start_def)

theorem fix_delivered_witness:
  "\<exists>s' m d. report_fix fix_end = Some s' \<and> nm_out s' = [Nm_hal m, Nm_main (MM_update_location (nr_fix (rdr fix_end)))] \<and>
    loc_flags (nr_fix (rdr s')) = 0 \<and> send_mnl2hal m = Some (MTK_MNL2HAL, d) \<and>
    mnl2hal_hdlr (\<lambda>_. 0) [RxData d] (gpshal_mnl2hal_interface hal_env0) (ctx_up\<lparr>gps_state_intent := ST_START\<rparr>, throttle_init) =
      Some (0, (ctx_up\<lparr>gps_state_intent := ST_START, app_calls := app_calls ctx_up @ [Cb_location (nr_fix (rdr fix_end))]\<rparr>,
        throttle_init), [])"
proof -
  have tick: "throttle_tick throttle_init = (False, throttle_init)"
    using fl_of_nat [of 1 24] by (simp add: throttle_tick_def throttle_init_def Let_def)
  have "loc_fixed (rdr fix_end)" "loc_flags (nr_fix (rdr fix_end)) = GPS_LOCATION_HAS_ALT" "nmea_end_tag fix_end" "nm_out fix_end = []"
    by (simp_all add: fix_end_def nmea_start_rdr loc_fixed_def has_def nmea_reader_init_def nmea_reader_update_utc_diff_def)
  then show ?thesis
    using fix_delivered [of fix_end "nr_fix (rdr fix_end)" "ctx_up\<lparr>gps_state_intent := ST_START\<rparr>" throttle_init
        throttle_init "\<lambda>_. 0" "[]" hal_env0] tick
    by (simp add: ctx_up_def del: send_mnl2hal.simps)
qed

text \<open>A last sentence of a set with no satellite left for it counts the satellites of the set again.\<close>

lemma set_counted_again:
  assumes "str2int (nmea_tokenizer_get t 1) = Some sq" "str2int (nmea_tokenizer_get t 2) = Some sq"
    "str2int (nmea_tokenizer_get t 3) = Some cnt" "1 < sq" "sq \<le> 1000" "int (sv_count (rdr s)) \<le> cnt" "cnt \<le> (sq - 1) * 4"
    "\<not> at_test_flag (nm_at s)" "\<not> at_signal_mode (nm_at s)"
  shows "parse_gsv ty t s = Some (s\<lparr>rdr := (rdr s)\<lparr>sv_status := (sv_status (rdr s))\<lparr>num_svs :=
    num_svs (sv_status (rdr s)) + int (sv_count (rdr s))\<rparr>\<rparr>\<rparr>)"
proof -
  have i: "in_int ((sq - 1) * 4) = Some ((sq - 1) * 4)" "in_int (cnt - (sq - 1) * 4) = Some (cnt - (sq - 1) * 4)"
    using assms(4-7) by (simp_all add: in_int_def)
  have n: "nat (min (cnt - (sq - 1) * 4) 4) = 0" "sq \<noteq> 1" using assms(4,7) by simp_all
  show ?thesis
    unfolding parse_gsv_def assms(1-3) bind.bind_lunit i
    using n assms(6,8,9) by (simp add: gsv_complete_def Let_def)
qed

text \<open>At the end of a buffer the framework gets exactly the satellites in view that the parser has
  counted, and the parser starts a new list; but a count over 64, which repeated last sentences of a set without a
  satellite of their own can reach, makes the HAL read past its array.\<close>

theorem satellites_delivered:
  assumes "v = sv_status (rdr s)" "0 < num_svs v" "num_svs v < 2 ^ 31" "length (sv_list v) = GNSS_MAX_SVS" "nmea_end_tag s"
    "gps_cbs c"
  shows "\<exists>s' m d. report_svs s = Some s' \<and> nm_out s' = nm_out s @ [Nm_hal m] \<and> num_svs (sv_status (rdr s')) = 0 \<and>
    sv_count (rdr s') = 0 \<and> send_mnl2hal m = Some (MTK_MNL2HAL, d) \<and>
    mnl2hal_hdlr u (RxData d # rs) (gpshal_mnl2hal_interface e) (c, t) =
      (if num_svs v \<le> 64 then Some (0, (c\<lparr>app_calls := app_calls c @
          [Cb_gnss_sv_status (take (nat (num_svs v)) (sv_list v))]\<rparr>, t), rs) else None)"
proof -
  let ?m = "M2H_gps_sv (gnss_sv_info_bytes v)"
  have m: "mnl2hal_ok ?m" "length (wire_mnl2hal ?m) \<le> HAL_MNL_BUFF_SIZE"
    using gnss_sv_info_bytes_length [OF assms(4)] by simp_all
  have "report_svs s = Some (s\<lparr>nm_out := nm_out s @ [Nm_hal ?m],
      rdr := (rdr s)\<lparr>sv_count := 0, sv_status := v\<lparr>num_svs := 0\<rparr>\<rparr>, used_in_fix := (\<lambda>_. False)\<rparr>)"
    using assms(2,5) by (simp add: report_svs_def Let_def assms(1) [symmetric] reported(2) [OF m])
  moreover have n: "nat (sint (le32 (gnss_sv_info_bytes v))) = nat (num_svs v)"
    using sint_of_nat_small [of "nat (num_svs v)"] assms(2,3) by (simp add: gnss_sv_info_bytes_def nat_less_iff)
  have call: "call_mnl2hal (gpshal_mnl2hal_interface e) ?m (c, t) =
      (if num_svs v \<le> 64 then Some (0, c\<lparr>app_calls := app_calls c @
          [Cb_gnss_sv_status (take (nat (num_svs v)) (sv_list v))]\<rparr>, t) else None)"
    using assms(2,6) gnss_sv_list_round_trip [of "nat (num_svs v)" v] assms(4)
    by (cases "num_svs v \<le> 64") (simp_all add: gpshal_mnl2hal_interface_def update_gps_sv_def n call_app_def Let_def nat_le_iff)
  moreover have "mnl2hal_hdlr u (RxData (wire_mnl2hal ?m) # rs) (gpshal_mnl2hal_interface e) (c, t) =
      (if num_svs v \<le> 64 then Some (0, (c\<lparr>app_calls := app_calls c @
          [Cb_gnss_sv_status (take (nat (num_svs v)) (sv_list v))]\<rparr>, t), rs) else None)"
    by (simp only: reported(3) [OF m] call option.map prod.case if_distrib [of "map_option _"])
  ultimately show ?thesis
    using reported(1) [OF m]
    by (intro exI [of _ "s\<lparr>nm_out := nm_out s @ [Nm_hal ?m], rdr := (rdr s)\<lparr>sv_count := 0, sv_status := v\<lparr>num_svs := 0\<rparr>\<rparr>,
        used_in_fix := (\<lambda>_. False)\<rparr>"] exI [of _ ?m] exI [of _ "wire_mnl2hal ?m"])
      (simp del: send_mnl2hal.simps wire_mnl2hal.simps)
qed

theorem satellites_delivered_witness:
  "\<exists>s' m d. report_svs (svs_end 65) = Some s' \<and> nm_out s' = [Nm_hal m] \<and> send_mnl2hal m = Some (MTK_MNL2HAL, d) \<and>
    mnl2hal_hdlr (\<lambda>_. 0) [RxData d] (gpshal_mnl2hal_interface hal_env0) (ctx_up, throttle_init) = None"
  using satellites_delivered [of "sv_status (rdr (svs_end 65))" "svs_end 65" ctx_up "\<lambda>_. 0" "[]" hal_env0 throttle_init]
  by (auto simp: svs_end_def nmea_start_rdr ctx_up_def simp del: send_mnl2hal.simps)

end
