(* ===== verification/At_Properties.thy ===== *)
theory At_Properties
  imports At_Interface
begin

text \<open>
  The production test: the result of a test against its definition, what two satellites with the same number do to
  it, and the life of the block of samples.
\<close>

section \<open>What a test should compute\<close>

definition mean :: "int list \<Rightarrow> int" where
  "mean xs = sum_list xs div int (length xs)"

definition deviation :: "int list \<Rightarrow> int" where
  "deviation xs = int (isqrt (nat (sum_list (map (\<lambda>x. (x - mean xs) ^ 2) xs) div int (length xs))))"

text \<open>The samples of a sequence of signal to noise ratios, where 0 is none.\<close>

definition samples :: "int list \<Rightarrow> int list" where
  "samples vs = map (\<lambda>v. v * 10) (filter (\<lambda>v. v \<noteq> 0) vs)"

text \<open>The square root is what its name says.\<close>

lemma isqrt_bounds: "isqrt n * isqrt n \<le> n \<and> n < (isqrt n + 1) * (isqrt n + 1)"
proof (induction n)
  case (Suc n)
  then show ?case by (auto simp: Let_def)
qed simp

lemma isqrt_eq:
  assumes "r * r \<le> n" "n < (r + 1) * (r + 1)"
  shows "isqrt n = r"
proof -
  have "r < isqrt n + 1" using isqrt_bounds [of n] assms(1) by (meson le_less_trans mult_le_mono not_le)
  moreover have "isqrt n < r + 1" using isqrt_bounds [of n] assms(2) by (meson le_less_trans mult_le_mono not_le)
  ultimately show ?thesis by simp
qed

section \<open>Samples\<close>

definition sample_ok :: "int \<Rightarrow> bool" where
  "sample_ok x \<longleftrightarrow> 0 \<le> x \<and> x \<le> 990"

lemma sum_list_bounds:
  assumes "\<forall>x\<in>set xs. 0 \<le> x \<and> x \<le> (b :: int)"
  shows "0 \<le> sum_list xs" "sum_list xs \<le> b * int (length xs)"
  using assms by (induction xs) (auto simp: algebra_simps)

lemma mean_bounds:
  assumes "\<forall>x\<in>set xs. sample_ok x" "xs \<noteq> []"
  shows "0 \<le> mean xs" "mean xs \<le> 990"
proof -
  have b: "0 \<le> sum_list xs" "sum_list xs \<le> 990 * int (length xs)"
    using sum_list_bounds [of xs 990] assms(1) by (simp_all add: sample_ok_def)
  show "0 \<le> mean xs" unfolding mean_def using b(1) by (intro pos_imp_zdiv_nonneg_iff [THEN iffD2]) (use assms(2) in auto)
  have "sum_list xs div int (length xs) \<le> 990 * int (length xs) div int (length xs)"
    by (rule zdiv_mono1) (use b assms(2) in auto)
  also have "\<dots> = 990" using assms(2) by simp
  finally show "mean xs \<le> 990" unfolding mean_def .
qed

lemma square_bound:
  assumes "0 \<le> x" "x \<le> 990" "0 \<le> m" "m \<le> (990 :: int)"
  shows "0 \<le> (x - m) ^ 2" "(x - m) ^ 2 \<le> 980100"
proof -
  have "\<bar>x - m\<bar> \<le> 990" using assms by simp
  then have "\<bar>x - m\<bar> ^ 2 \<le> 990 ^ 2" by (intro power_mono) simp_all
  then show "(x - m) ^ 2 \<le> 980100" by simp
qed simp

lemma square_sum_eq:
  assumes "\<forall>x\<in>set xs. sample_ok x" "0 \<le> m" "m \<le> 990" "0 \<le> a" "a + 980100 * int (length xs) < 2 ^ 31"
  shows "square_sum m xs a = Some (a + sum_list (map (\<lambda>x. (x - m) ^ 2) xs))"
  using assms
proof (induction xs arbitrary: a)
  case (Cons x xs)
  have x: "0 \<le> x" "x \<le> 990" using Cons.prems(1) by (simp_all add: sample_ok_def)
  note q = square_bound [OF x Cons.prems(2,3)]
  have len: "980100 * int (length (x # xs)) = 980100 + 980100 * int (length xs)" by simp
  have i: "in_int (x - m) = Some (x - m)" "in_int ((x - m) * (x - m)) = Some ((x - m) ^ 2)"
    "in_int (a + (x - m) ^ 2) = Some (a + (x - m) ^ 2)"
  proof -
    show "in_int (x - m) = Some (x - m)" using x Cons.prems(2,3) by (simp add: in_int_def)
    have small: "in_int y = Some y" if "0 \<le> y" "y \<le> 980100" for y using that by (simp add: in_int_def)
    show "in_int ((x - m) * (x - m)) = Some ((x - m) ^ 2)"
      using small [OF q] by (simp only: power2_eq_square)
    have sum: "in_int (a + y) = Some (a + y)" if "0 \<le> y" "a + y < 2 ^ 31" for y
      using that Cons.prems(4) by (simp add: in_int_def)
    have "a + (x - m) ^ 2 < 2 ^ 31" using q Cons.prems(5) unfolding len by linarith
    then show "in_int (a + (x - m) ^ 2) = Some (a + (x - m) ^ 2)" by (rule sum [OF q(1)])
  qed
  have "square_sum m xs (a + (x - m) ^ 2) = Some (a + (x - m) ^ 2 + sum_list (map (\<lambda>x. (x - m) ^ 2) xs))"
    by (rule Cons.IH) (use Cons.prems q len in \<open>simp_all\<close>)
  then show ?case by (simp add: i)
qed simp

section \<open>A test under way\<close>

text \<open>A test of \<open>n\<close> samples that has got \<open>xs\<close> and missed \<open>f\<close>, whose last look at the count saw \<open>p\<close> samples.\<close>

definition running :: "nat \<Rightarrow> int list \<Rightarrow> nat \<Rightarrow> nat \<Rightarrow> at_state \<Rightarrow> bool" where
  "running n xs f p s \<longleftrightarrow> at_test_flag s \<and> \<not> at_signal_mode s \<and> \<not> at_signal_test_begin s \<and>
     at_st s = MNL_AT_TEST_INPROGRESS \<and> ht_test_num s = int n \<and> ht_prn_num s = 1 \<and>
     (\<exists>zs. dev_cnr s = Dev_block (xs @ zs) \<and> length (xs @ zs) = n) \<and>
     at_success s = length xs \<and> at_cno s = sum_list xs \<and> at_failure s = int f \<and> at_prev_success s = p \<and>
     (xs \<noteq> [] \<longrightarrow> at_avg_cno s = mean xs \<and> at_dev_cno s = deviation xs \<and> at_err_code s = 0) \<and>
     (\<exists>a b c d g. at_result s = [a, 0, 0, b, c, d, g, 0])"

text \<open>The signal to noise ratio that a list of satellites has for the one under test; 0 when it is not listed.\<close>

definition snr_of :: "int list \<Rightarrow> int list \<Rightarrow> nat \<Rightarrow> int" where
  "snr_of ps qs k = (case filter (\<lambda>i. ps ! i = 1) [0..<k] of [] \<Rightarrow> 0 | i # _ \<Rightarrow> qs ! i)"

lemma search_from:
  assumes "ht_prn_num s = 1" "i + n \<le> 32"
  shows "gps_at_command_search_satellite i n s =
    (case filter (\<lambda>j. at_prn s ! j = 1) [i..<i + n] of [] \<Rightarrow> Some s
     | j # _ \<Rightarrow> take_sample (at_snr s ! j) s \<bind> update_deviation)"
  using assms
proof (induction n arbitrary: i)
  case (Suc n)
  have "[i..<i + Suc n] = i # [i + 1..<i + 1 + n]" by (simp add: upt_rec [of i])
  then show ?case using Suc.IH [of "i + 1"] Suc.prems by (simp del: upt_Suc)
qed simp

text \<open>The arrays as the GSV sentences of one system leave them, with \<open>k\<close> satellites.\<close>

definition gsv_set :: "int list \<times> int list \<times> nat \<Rightarrow> at_state \<Rightarrow> at_state option" where
  "gsv_set g s = (case g of (ps, qs, k) \<Rightarrow> gps_at_command_test_proc k (s\<lparr>at_prn := ps, at_snr := qs\<rparr>))"

definition snr_set :: "int list \<times> int list \<times> nat \<Rightarrow> int" where
  "snr_set g = (case g of (ps, qs, k) \<Rightarrow> snr_of ps qs k)"

definition set_ok :: "int list \<times> int list \<times> nat \<Rightarrow> bool" where
  "set_ok g \<longleftrightarrow> (case g of (ps, qs, k) \<Rightarrow> k \<le> 32)"

lemma update_deviation_eq:
  assumes "dev_cnr s = Dev_block (xs @ zs)" "at_success s = length xs" "at_avg_cno s = mean xs" "xs \<noteq> []"
    "\<forall>x\<in>set xs. sample_ok x" "length xs \<le> 2000"
  shows "update_deviation s = Some (s\<lparr>at_dev_cno := deviation xs\<rparr>)"
proof -
  note m = mean_bounds [OF assms(5,4)]
  have "square_sum (mean xs) xs 0 = Some (0 + sum_list (map (\<lambda>x. (x - mean xs) ^ 2) xs))"
    by (rule square_sum_eq [OF assms(5) m]) (use assms(6) in simp_all)
  moreover have "0 \<le> sum_list (map (\<lambda>x. (x - mean xs) ^ 2) xs)" by (intro sum_list_nonneg) auto
  ultimately show ?thesis
    using assms by (simp add: update_deviation_def dev_squares_def deviation_def sdiv_pos)
qed

text \<open>A set with a sample, and one without.\<close>

lemma running_sample:
  assumes "running n xs f p s" "set_ok g" "snr_set g = v" "v \<noteq> 0" "0 \<le> v" "v \<le> 99" "length xs < n" "n \<le> 2000"
    "\<forall>x\<in>set xs. sample_ok x"
  shows "\<exists>s'. gsv_set g s = Some s' \<and> running n (xs @ [v * 10]) f p s' \<and> at_out s' = at_out s \<and>
    ht_time_delay s' = ht_time_delay s \<and> at_start_time s' = at_start_time s"
proof -
  obtain ps qs k where g: "g = (ps, qs, k)" by (cases g) auto
  define s0 where "s0 = s\<lparr>at_prn := ps, at_snr := qs\<rparr>"
  obtain zs where zs: "dev_cnr s = Dev_block (xs @ zs)" "length (xs @ zs) = n" using assms(1) by (auto simp: running_def)
  then obtain z zs' where z: "zs = z # zs'" using assms(7) by (cases zs) auto
  obtain i js where i: "filter (\<lambda>i. ps ! i = 1) [0..<k] = i # js" "qs ! i = v"
    using assms(3,4) by (auto simp: snr_set_def snr_of_def g split: list.splits)
  have "gsv_set g s = take_sample v s0 \<bind> update_deviation"
    using assms(1,2) i by (simp add: gsv_set_def gps_at_command_test_proc_def g s0_def running_def search_from set_ok_def)
  moreover
  let ?xs = "xs @ [v * 10]"
  define s1 where "s1 = s0\<lparr>at_err_code := 0, at_cno := sum_list ?xs, dev_cnr := Dev_block (?xs @ zs'),
    at_success := length xs + 1, at_avg_cno := mean ?xs, at_cn := v * 10\<rparr>"
  have ok: "\<forall>x\<in>set ?xs. sample_ok x" using assms(5,6,9) by (simp add: sample_ok_def)
  then have sum: "0 \<le> sum_list ?xs" "sum_list ?xs \<le> 990 * int (length ?xs)"
    using sum_list_bounds [of ?xs 990] by (simp_all add: sample_ok_def)
  have "sum_list ?xs < 2 ^ 31" using sum(2) assms(7,8) by simp
  then have "in_int (v * 10) = Some (v * 10)" "in_int (sum_list xs + v * 10) = Some (sum_list xs + v * 10)"
    using sum(1) assms(5,6) by (simp_all add: in_int_def)
  moreover have "(sum_list xs + v * 10) sdiv (int (length xs + 1)) = mean ?xs"
    using sdiv_pos [of "sum_list xs + v * 10" "int (length xs + 1)"] sum(1) by (simp add: mean_def)
  ultimately have "take_sample v s0 = Some s1"
    using assms(1,4) zs z
    by (simp add: take_sample_def running_def s0_def s1_def Let_def dev_put_def list_update_append)
  moreover have "update_deviation s1 = Some (s1\<lparr>at_dev_cno := deviation ?xs\<rparr>)"
    using assms(7,8) ok by (intro update_deviation_eq) (simp_all add: s1_def)
  ultimately have "gsv_set g s = Some (s1\<lparr>at_dev_cno := deviation ?xs\<rparr>)"
    using \<open>gsv_set g s = take_sample v s0 \<bind> update_deviation\<close> by simp
  moreover have "running n ?xs f p (s1\<lparr>at_dev_cno := deviation ?xs\<rparr>)"
    using assms(1) zs z by (simp add: running_def s1_def s0_def)
  ultimately show ?thesis by (simp add: s1_def s0_def)
qed

lemma running_no_sample:
  assumes "running n xs f p s" "set_ok g" "snr_set g = 0" "n \<le> 2000" "\<forall>x\<in>set xs. sample_ok x"
  shows "\<exists>s'. gsv_set g s = Some s' \<and> running n xs f p s' \<and> at_out s' = at_out s \<and>
    ht_time_delay s' = ht_time_delay s \<and> at_start_time s' = at_start_time s"
proof -
  obtain ps qs k where g: "g = (ps, qs, k)" by (cases g) auto
  define s0 where "s0 = s\<lparr>at_prn := ps, at_snr := qs\<rparr>"
  have r0: "running n xs f p s0" using assms(1) by (simp add: running_def s0_def)
  have set: "gsv_set g s = (case filter (\<lambda>j. ps ! j = 1) [0..<k] of [] \<Rightarrow> Some s0
     | j # _ \<Rightarrow> take_sample (qs ! j) s0 \<bind> update_deviation)"
    by (cases "filter (\<lambda>j. ps ! j = 1) [0..<k]")
      (use assms(1,2) in \<open>simp_all add: gsv_set_def gps_at_command_test_proc_def g s0_def running_def search_from set_ok_def\<close>)
  show ?thesis
  proof (cases "filter (\<lambda>j. ps ! j = 1) [0..<k]")
    case Nil
    then have "gsv_set g s = Some s0" using set by simp
    then show ?thesis using r0 by (simp add: s0_def)
  next
    case (Cons j js)
    then have "qs ! j = 0" using assms(3) by (simp add: snr_set_def snr_of_def g)
    then obtain s1 where s1: "take_sample (qs ! j) s0 = Some s1" "running n xs f p s1" "at_out s1 = at_out s0"
      "ht_time_delay s1 = ht_time_delay s0" "at_start_time s1 = at_start_time s0"
      using r0 by (auto simp: take_sample_def running_def Let_def)
    have "\<exists>s2. update_deviation s1 = Some s2 \<and> running n xs f p s2 \<and> at_out s2 = at_out s1 \<and>
      ht_time_delay s2 = ht_time_delay s1 \<and> at_start_time s2 = at_start_time s1"
    proof (cases "xs = []")
      case True
      then show ?thesis using s1(2) by (simp add: update_deviation_def running_def)
    next
      case False
      obtain zs where "dev_cnr s1 = Dev_block (xs @ zs)" "length (xs @ zs) = n" using s1(2) by (auto simp: running_def)
      then have "update_deviation s1 = Some (s1\<lparr>at_dev_cno := deviation xs\<rparr>)"
        using s1(2) False assms(4,5) by (intro update_deviation_eq) (auto simp: running_def)
      then show ?thesis using s1(2) False by (auto simp: running_def)
    qed
    then show ?thesis using s1 Cons set by (auto simp: s0_def)
  qed
qed

section \<open>The end of a test\<close>

text \<open>A look at the count of a test that has begun to get samples.\<close>

lemma running_tick:
  assumes "running n xs f p s" "xs \<noteq> []" "n > 0" "ht_time_delay s \<le> now - at_start_time s"
    "f' = (if p = length xs then f + 1 else f)" "length xs + f' \<noteq> n"
  shows "\<exists>s'. nmea_parser_at_cmd_pre now True s = Some s' \<and> running n xs f' (length xs) s' \<and> at_out s' = at_out s \<and>
    ht_time_delay s' = ht_time_delay s \<and> at_start_time s' = at_start_time s"
proof -
  have "nmea_parser_at_cmd_pre now True s = Some (s\<lparr>at_failure := int f', at_completed := int (length xs + f'),
      at_prev_success := length xs\<rparr>)"
    using assms by (auto simp: nmea_parser_at_cmd_pre_def running_def test_tick_def Let_def)
  then show ?thesis using assms(1,2) by (auto simp: running_def)
qed

lemma running_end:
  assumes "running n xs f p s" "xs \<noteq> []" "ht_time_delay s \<le> now - at_start_time s"
    "length xs + (if p = length xs then f + 1 else f) = n"
  shows "\<exists>s'. nmea_parser_at_cmd_pre now True s = Some s' \<and>
    at_result s' = [0, 0, 0, int (length xs), int n, mean xs, deviation xs, 0] \<and> at_out s' = at_out s @ [At_gps_stop] \<and>
    \<not> at_test_flag s' \<and> at_st s' = MNL_AT_TEST_UNKNOWN \<and> dev_cnr s' = Dev_freed \<and> at_failure s' = 0"
proof -
  let ?f = "if p = length xs then f + 1 else f"
  define s1 where "s1 = s\<lparr>at_failure := int ?f, at_completed := int n, at_prev_success := length xs\<rparr>"
  obtain zs where zs: "dev_cnr s = Dev_block (xs @ zs)" using assms(1) by (auto simp: running_def)
  obtain a b c d g where res: "at_result s = [a, 0, 0, b, c, d, g, 0]" using assms(1) by (auto simp: running_def)
  have s: "at_test_flag s" "ht_test_num s = int n" "at_success s = length xs" "at_failure s = int f" "at_prev_success s = p"
    "at_avg_cno s = mean xs" "at_dev_cno s = deviation xs" "at_err_code s = 0"
    using assms(1,2) by (simp_all add: running_def)
  have "int (length xs) + int ?f = int n" using assms(4) by (simp only: of_nat_add [symmetric])
  then have "test_tick s = (True, s1)"
    using s assms(2) by (simp add: test_tick_def s1_def Let_def split: if_splits)
  then have "nmea_parser_at_cmd_pre now True s = test_done s1"
    using s(1) assms(3) by (simp add: nmea_parser_at_cmd_pre_def)
  then show ?thesis
    using s zs res by (simp add: test_done_def s1_def Let_def gpsinf_mtk_gps_test_stop_def free_dev_def at_emit_def)
qed

text \<open>An epoch: the satellites of one system, then the last sentence of the buffer.\<close>

definition epoch :: "int \<Rightarrow> int list \<times> int list \<times> nat \<Rightarrow> at_state \<Rightarrow> at_state option" where
  "epoch now g s = gsv_set g s \<bind> nmea_parser_at_cmd_pre now True"

definition epochs :: "int \<Rightarrow> (int list \<times> int list \<times> nat) list \<Rightarrow> at_state \<Rightarrow> at_state option" where
  "epochs now gs s = fold (\<lambda>g r. r \<bind> epoch now g) gs (Some s)"

lemma epochs_simps [simp]: "epochs now [] s = Some s" "epochs now (g # gs) s = epoch now g s \<bind> epochs now gs"
proof -
  have None: "fold (\<lambda>g r. r \<bind> epoch now g) xs None = None" for xs by (induction xs) simp_all
  show "epochs now (g # gs) s = epoch now g s \<bind> epochs now gs"
    by (cases "epoch now g s") (simp_all add: epochs_def None)
qed (simp add: epochs_def)

lemma samples_ok: "\<forall>v\<in>set vs. 0 \<le> v \<and> v \<le> 99 \<Longrightarrow> \<forall>x\<in>set (samples vs). sample_ok x"
  by (auto simp: samples_def sample_ok_def)

lemma samples_snoc: "samples (vs @ [v]) = samples vs @ (if v = 0 then [] else [v * 10])"
  by (simp add: samples_def)

lemma samples_length: "length (samples vs) \<le> length vs"
  by (simp add: samples_def)

text \<open>The samples of the epochs \<open>vs\<close> so far, and the last look.\<close>

lemma epoch_step:
  assumes "running n (samples vs) (length vs - length (samples vs)) (length (samples vs)) s" "set_ok g" "snr_set g = v"
    "0 \<le> v" "v \<le> 99" "length vs < n" "n \<le> 2000" "\<forall>v\<in>set vs. 0 \<le> v \<and> v \<le> 99" "samples (vs @ [v]) \<noteq> []"
    "ht_time_delay s \<le> now - at_start_time s"
  shows "if length vs + 1 < n
    then \<exists>s'. epoch now g s = Some s' \<and> ht_time_delay s' = ht_time_delay s \<and> at_start_time s' = at_start_time s \<and> at_out s' = at_out s \<and>
      running n (samples (vs @ [v])) (length vs + 1 - length (samples (vs @ [v]))) (length (samples (vs @ [v]))) s'
    else \<exists>s'. epoch now g s = Some s' \<and> at_out s' = at_out s @ [At_gps_stop] \<and>
      at_result s' = [0, 0, 0, int (length (samples (vs @ [v]))), int n, mean (samples (vs @ [v])), deviation (samples (vs @ [v])), 0] \<and>
      \<not> at_test_flag s' \<and> at_st s' = MNL_AT_TEST_UNKNOWN \<and> dev_cnr s' = Dev_freed \<and> at_failure s' = 0"
proof -
  let ?xs = "samples (vs @ [v])"
  note ok = samples_ok [OF assms(8)]
  have len: "length (samples vs) \<le> length vs" by (rule samples_length)
  have "\<exists>s1. gsv_set g s = Some s1 \<and> running n ?xs (length vs - length (samples vs)) (length (samples vs)) s1 \<and>
    at_out s1 = at_out s \<and> ht_time_delay s1 = ht_time_delay s \<and> at_start_time s1 = at_start_time s"
  proof (cases "v = 0")
    case True
    then show ?thesis using running_no_sample [OF assms(1,2) _ assms(7) ok] assms(3) by (simp add: samples_snoc)
  next
    case False
    have "length (samples vs) < n" using len assms(6) by simp
    then show ?thesis
      using running_sample [OF assms(1,2,3) False assms(4,5) _ assms(7) ok] False by (simp add: samples_snoc)
  qed
  then obtain s1 where s1: "gsv_set g s = Some s1" "running n ?xs (length vs - length (samples vs)) (length (samples vs)) s1"
    "at_out s1 = at_out s" "ht_time_delay s1 = ht_time_delay s" "at_start_time s1 = at_start_time s" by blast
  let ?f = "if length (samples vs) = length ?xs then length vs - length (samples vs) + 1 else length vs - length (samples vs)"
  have f: "?f = length vs + 1 - length ?xs" "length ?xs + ?f = length vs + 1"
    using len by (auto simp: samples_snoc)
  show ?thesis
  proof (cases "length vs + 1 < n")
    case True
    then show ?thesis
      using running_tick [OF s1(2) assms(9) _ _ refl, of now] s1 f assms(10) by (auto simp: epoch_def)
  next
    case False
    then show ?thesis
      using running_end [OF s1(2) assms(9), of now] s1 f assms(6,10) by (auto simp: epoch_def)
  qed
qed

section \<open>A whole test\<close>

definition idle :: "at_state \<Rightarrow> bool" where
  "idle s \<longleftrightarrow> at_st s = MNL_AT_TEST_UNKNOWN \<and> \<not> at_test_flag s \<and> \<not> at_signal_mode s \<and> \<not> at_signal_test_begin s \<and>
     at_success s = 0 \<and> at_cno s = 0 \<and> at_failure s = 0 \<and> at_prev_success s = 0 \<and>
     (\<exists>a b c d g. at_result s = [a, 0, 0, b, c, d, g, 0])"

lemma test_started:
  assumes "idle s" "0 < n" "n \<le> 2000" "malloc_ok e (4 * n)"
  shows "\<exists>s1. gpsinf_mtk_gps_test_start e (int n) GPS_TEST_PRN 2 0 s = Some (0, s1) \<and> running n [] 0 0 s1 \<and>
    at_out s1 = at_out s @ [At_gps_start] \<and> ht_time_delay s1 = 2 \<and> at_start_time s1 = at_now e"
proof -
  have "dev_bytes (int n) = 4 * n" using assms(3) by (simp add: dev_bytes_def nat_eq_iff)
  then show ?thesis
    using assms by (simp add: gpsinf_mtk_gps_test_start_def malloc_dev_def idle_def running_def at_emit_def)
qed

lemma epochs_snoc: "epochs now (gs @ [g]) s = epochs now gs s \<bind> epoch now g"
proof (induction gs arbitrary: s)
  case Nil
  then show ?case by (cases "epoch now g s") simp_all
next
  case (Cons h gs)
  then show ?case by (cases "epoch now h s") simp_all
qed

lemma test_run:
  assumes "running n [] 0 0 s" "length gs = n" "0 < n" "n \<le> 2000" "\<forall>g\<in>set gs. set_ok g \<and> 0 \<le> snr_set g \<and> snr_set g \<le> 99"
    "snr_set (hd gs) \<noteq> 0" "ht_time_delay s \<le> now - at_start_time s" "vs = map snr_set gs" "k < n"
  shows "\<exists>s'. epochs now (take k gs) s = Some s' \<and> ht_time_delay s' = ht_time_delay s \<and> at_start_time s' = at_start_time s \<and>
    at_out s' = at_out s \<and> running n (samples (take k vs)) (k - length (samples (take k vs))) (length (samples (take k vs))) s'"
    "\<exists>s'. epochs now gs s = Some s' \<and> at_out s' = at_out s @ [At_gps_stop] \<and>
      at_result s' = [0, 0, 0, int (length (samples vs)), int n, mean (samples vs), deviation (samples vs), 0] \<and>
      \<not> at_test_flag s' \<and> at_st s' = MNL_AT_TEST_UNKNOWN \<and> dev_cnr s' = Dev_freed \<and> at_failure s' = 0"
proof -
  have vs: "length vs = n" "\<forall>v\<in>set vs. 0 \<le> v \<and> v \<le> 99" using assms(2,5,8) by auto
  have first: "vs ! 0 \<noteq> 0" using assms(2,3,6,8) by (cases gs) auto
  have take_Suc: "take (Suc k) gs = take k gs @ [gs ! k]" "take (Suc k) vs = take k vs @ [snr_set (gs ! k)]" if "k < n" for k
    using that assms(2,8) vs(1) by (simp_all add: take_Suc_conv_app_nth)
  have some: "samples (take k vs @ [snr_set (gs ! k)]) \<noteq> []" if "k < n" for k
  proof -
    have "vs ! 0 \<in> set (take (Suc k) vs)" using that vs(1) assms(3) by (auto simp: in_set_conv_nth intro!: exI [of _ 0])
    then show ?thesis unfolding take_Suc(2) [OF that, symmetric] using first by (auto simp: samples_def filter_empty_conv)
  qed
  have ok: "set_ok (gs ! k)" "0 \<le> snr_set (gs ! k)" "snr_set (gs ! k) \<le> 99" "\<forall>v\<in>set (take k vs). 0 \<le> v \<and> v \<le> 99" if "k < n" for k
    using that assms(2,5) vs(2) by (auto dest: in_set_takeD)
  have before: "\<exists>s'. epochs now (take k gs) s = Some s' \<and> ht_time_delay s' = ht_time_delay s \<and> at_start_time s' = at_start_time s \<and>
    at_out s' = at_out s \<and> running n (samples (take k vs)) (k - length (samples (take k vs))) (length (samples (take k vs))) s'"
    if "k < n" for k
    using that
  proof (induction k)
    case 0
    then show ?case using assms(1) by (simp add: samples_def)
  next
    case (Suc k)
    then obtain s1 where s1: "epochs now (take k gs) s = Some s1" "ht_time_delay s1 = ht_time_delay s"
      "at_start_time s1 = at_start_time s" "at_out s1 = at_out s"
      "running n (samples (take k vs)) (length (take k vs) - length (samples (take k vs))) (length (samples (take k vs))) s1"
      using vs(1) by auto
    have k: "k < n" "length (take k vs) = k" using Suc.prems vs(1) by simp_all
    show ?case
      using epoch_step [OF s1(5) ok(1) [OF k(1)] refl ok(2,3) [OF k(1)] _ assms(4) ok(4) [OF k(1)] some [OF k(1)], of now]
        s1 k Suc.prems assms(7)
      by (auto simp: take_Suc [OF k(1)] epochs_snoc)
  qed
  show "\<exists>s'. epochs now (take k gs) s = Some s' \<and> ht_time_delay s' = ht_time_delay s \<and> at_start_time s' = at_start_time s \<and>
    at_out s' = at_out s \<and> running n (samples (take k vs)) (k - length (samples (take k vs))) (length (samples (take k vs))) s'"
    by (rule before [OF assms(9)])
  define k where "k = n - 1"
  have k: "k < n" "Suc k = n" "length (take k vs) = k" using assms(3) vs(1) by (simp_all add: k_def)
  obtain s1 where s1: "epochs now (take k gs) s = Some s1" "ht_time_delay s1 = ht_time_delay s"
    "at_start_time s1 = at_start_time s" "at_out s1 = at_out s"
    "running n (samples (take k vs)) (length (take k vs) - length (samples (take k vs))) (length (samples (take k vs))) s1"
    using before [OF k(1)] k(3) by auto
  have all: "gs = take k gs @ [gs ! k]" "vs = take k vs @ [snr_set (gs ! k)]"
    using take_Suc [OF k(1)] k(2) assms(2) vs(1) by simp_all
  have "epochs now gs s = epoch now (gs ! k) s1" by (subst all(1)) (simp add: epochs_snoc s1(1))
  then show "\<exists>s'. epochs now gs s = Some s' \<and> at_out s' = at_out s @ [At_gps_stop] \<and>
      at_result s' = [0, 0, 0, int (length (samples vs)), int n, mean (samples vs), deviation (samples vs), 0] \<and>
      \<not> at_test_flag s' \<and> at_st s' = MNL_AT_TEST_UNKNOWN \<and> dev_cnr s' = Dev_freed \<and> at_failure s' = 0"
    using epoch_step [OF s1(5) ok(1) [OF k(1)] refl ok(2,3) [OF k(1)] _ assms(4) ok(4) [OF k(1)] some [OF k(1)], of now]
      s1 k assms(7) all(2) [symmetric] by simp
qed

text \<open>C20. A test of \<open>n\<close> samples, at most 2000, when exactly one list of satellites comes with each epoch, its ratio for the satellite
  under test is between 0 and 99, and the first epoch has a signal,
  runs for exactly \<open>n\<close> epochs, stops the receiver and frees its block, and reports no error, the epochs with a
  signal, the epochs in all, the mean of ten times the signal to noise ratio and the standard deviation, both cut to integers. A second
  list with the number of the satellite in an epoch is counted as well, see \<open>at_two_systems\<close>.\<close>

theorem at_test_result:
  assumes "idle s" "0 < n" "n \<le> 2000" "malloc_ok e (4 * n)" "length gs = n"
    "\<forall>g\<in>set gs. set_ok g \<and> 0 \<le> snr_set g \<and> snr_set g \<le> 99" "snr_set (hd gs) \<noteq> 0" "at_now e + 2 \<le> now"
    "xs = samples (map snr_set gs)"
  shows "\<exists>s1 s2. gpsinf_mtk_gps_test_start e (int n) GPS_TEST_PRN 2 0 s = Some (0, s1) \<and>
    (\<forall>k<n. \<exists>s'. epochs now (take k gs) s1 = Some s' \<and> at_st s' = MNL_AT_TEST_INPROGRESS) \<and>
    epochs now gs s1 = Some s2 \<and> at_out s2 = at_out s @ [At_gps_start, At_gps_stop] \<and> dev_cnr s2 = Dev_freed \<and>
    at_result s2 = [0, 0, 0, int (length xs), int n, mean xs, deviation xs, 0]"
proof -
  obtain s1 where s1: "gpsinf_mtk_gps_test_start e (int n) GPS_TEST_PRN 2 0 s = Some (0, s1)" "running n [] 0 0 s1"
    "at_out s1 = at_out s @ [At_gps_start]" "ht_time_delay s1 = 2" "at_start_time s1 = at_now e"
    using test_started [OF assms(1-4)] by blast
  have d: "ht_time_delay s1 \<le> now - at_start_time s1" using s1 assms(8) by simp
  note run = test_run [OF s1(2) assms(5,2,3,6,7) d refl]
  have "\<exists>s'. epochs now (take k gs) s1 = Some s' \<and> at_st s' = MNL_AT_TEST_INPROGRESS" if "k < n" for k
    using run(1) [OF that] by (auto simp: running_def)
  moreover obtain s2 where "epochs now gs s1 = Some s2" "at_out s2 = at_out s1 @ [At_gps_stop]" "dev_cnr s2 = Dev_freed"
    "at_result s2 = [0, 0, 0, int (length xs), int n, mean xs, deviation xs, 0]"
    using run(2) [OF assms(2)] assms(9) by auto
  ultimately show ?thesis using s1 by (intro exI [of _ s1] exI [of _ s2]) simp
qed

definition at_env_ok :: at_env where
  "at_env_ok = \<lparr>at_now = 0, malloc_ok = (\<lambda>_. True)\<rparr>"

lemma at_init_idle: "idle at_init"
  by (simp add: idle_def at_init_def)

text \<open>Satellite 1 with 30, then missing, then with 32: mean 310, deviation 10.\<close>

theorem at_test_result_witness:
  "\<exists>s1 s2. gpsinf_mtk_gps_test_start at_env_ok 3 GPS_TEST_PRN 2 0 at_init = Some (0, s1) \<and>
    epochs 2 [([7, 1], [20, 30], 2), ([7], [20], 1), ([1], [32], 1)] s1 = Some s2 \<and>
    at_out s2 = [At_gps_start, At_gps_stop] \<and> at_result s2 = [0, 0, 0, 2, 3, 310, 10, 0]"
proof -
  let ?gs = "[([7, 1], [20, 30], 2), ([7], [20], 1), ([1], [32], 1)] :: (int list \<times> int list \<times> nat) list"
  have v: "map snr_set ?gs = [30, 0, 32]" by (simp add: snr_set_def snr_of_def upt_conv_Cons)
  have "mean [300, 320] = 310" by (simp add: mean_def)
  moreover have "deviation [300, 320] = 10" using isqrt_eq [of 10 100] by (simp add: mean_def deviation_def)
  ultimately have md: "mean [300, 320] = 310" "deviation [300, 320] = 10" .
  then show ?thesis
    using at_test_result [OF at_init_idle, of 3 at_env_ok ?gs 2 "[300, 320]"] v
    by (simp add: at_env_ok_def set_ok_def samples_def md) (auto simp: at_init_def)
qed

text \<open>The result of a finished test cannot be asked for with \<open>AT%GPS?\<close>: ending the test made its state
  unknown, so the answer is \<open>ERROR\<close>, and never the result.\<close>

theorem at_test_unreadable:
  assumes "idle s" "0 < n" "n \<le> 2000" "malloc_ok e (4 * n)" "length gs = n"
    "\<forall>g\<in>set gs. set_ok g \<and> 0 \<le> snr_set g \<and> snr_set g \<le> 99" "snr_set (hd gs) \<noteq> 0" "at_now e + 2 \<le> now"
  shows "\<exists>s1 s2. gpsinf_mtk_gps_test_start e (int n) GPS_TEST_PRN 2 0 s = Some (0, s1) \<and> epochs now gs s1 = Some s2 \<and>
    at_command_parser e' (ascii ''AT%GPS?'') s2 = Some (ack_text ''ERROR'' (s2\<lparr>at_mode_flag := False\<rparr>))"
proof -
  obtain s1 where s1: "gpsinf_mtk_gps_test_start e (int n) GPS_TEST_PRN 2 0 s = Some (0, s1)" "running n [] 0 0 s1"
    "ht_time_delay s1 = 2" "at_start_time s1 = at_now e"
    using test_started [OF assms(1-4)] by blast
  have d: "ht_time_delay s1 \<le> now - at_start_time s1" using s1 assms(8) by simp
  obtain s2 where "epochs now gs s1 = Some s2" "at_st s2 = MNL_AT_TEST_UNKNOWN"
    using test_run(2) [OF s1(2) assms(5,2,3,6,7) d refl assms(2)] by auto
  then show ?thesis
    using s1(1) by (auto simp: at_command_parser_def is_gps_op_def ascii_def of_char_def at_gps_command_parser_def cmd_at_def
        gpsinf_mtk_gps_test_inprogress_def)
qed

theorem at_test_unreadable_witness:
  "\<exists>s1 s2. gpsinf_mtk_gps_test_start at_env_ok 1 GPS_TEST_PRN 2 0 at_init = Some (0, s1) \<and>
    epochs 2 [([1], [30], 1)] s1 = Some s2 \<and>
    at_command_parser at_env_ok (ascii ''AT%GPS?'') s2 = Some (ack_text ''ERROR'' (s2\<lparr>at_mode_flag := False\<rparr>))"
  using at_test_unreadable [OF at_init_idle, of 1 at_env_ok "[([1], [30], 1)]" 2 at_env_ok]
  by (simp add: at_env_ok_def set_ok_def snr_set_def snr_of_def)

section \<open>Two satellites with the same number\<close>

text \<open>An epoch in which two systems list the satellite.\<close>

definition epoch_twice :: "int \<Rightarrow> (int list \<times> int list \<times> nat) \<times> (int list \<times> int list \<times> nat) \<Rightarrow> at_state \<Rightarrow> at_state option" where
  "epoch_twice now g s = gsv_set (fst g) s \<bind> epoch now (snd g)"

fun epochs_twice :: "int \<Rightarrow> ((int list \<times> int list \<times> nat) \<times> (int list \<times> int list \<times> nat)) list \<Rightarrow> at_state \<Rightarrow> at_state option" where
  "epochs_twice now [] s = Some s"
| "epochs_twice now (g # gs) s = epoch_twice now g s \<bind> epochs_twice now gs"

definition heard :: "int list \<times> int list \<times> nat \<Rightarrow> bool" where
  "heard g \<longleftrightarrow> set_ok g \<and> 0 < snr_set g \<and> snr_set g \<le> 99"

text \<open>A block that is full has no place for another sample.\<close>

lemma running_full:
  assumes "running n xs f p s" "length xs = n" "heard g"
  shows "gsv_set g s = None"
proof -
  obtain ps qs k where g: "g = (ps, qs, k)" by (cases g) auto
  obtain i js where i: "filter (\<lambda>i. ps ! i = 1) [0..<k] = i # js" "qs ! i \<noteq> 0"
    using assms(3) by (auto simp: heard_def snr_set_def snr_of_def g split: list.splits)
  have "dev_cnr s = Dev_block xs" using assms(1,2) by (auto simp: running_def)
  then have "take_sample (qs ! i) (s\<lparr>at_prn := ps, at_snr := qs\<rparr>) = None"
    using assms(1,2) i(2) by (auto simp: take_sample_def running_def dev_put_def bind_eq_None_conv in_int_def)
  moreover have "gsv_set g s = take_sample (qs ! i) (s\<lparr>at_prn := ps, at_snr := qs\<rparr>) \<bind> update_deviation"
    using assms(1,3) i by (simp add: gsv_set_def gps_at_command_test_proc_def g running_def search_from heard_def set_ok_def)
  ultimately show ?thesis by simp
qed

lemma epoch_twice_step:
  assumes "running n xs 0 (length xs) s" "heard (fst g)" "heard (snd g)" "n \<le> 2000" "\<forall>x\<in>set xs. sample_ok x"
    "length xs + 2 < n" "ht_time_delay s \<le> now - at_start_time s"
  shows "\<exists>ys s'. epoch_twice now g s = Some s' \<and> length ys = length xs + 2 \<and> running n ys 0 (length ys) s' \<and>
    (\<forall>x\<in>set ys. sample_ok x) \<and> ht_time_delay s' = ht_time_delay s \<and> at_start_time s' = at_start_time s"
proof -
  let ?ys = "xs @ [snr_set (fst g) * 10]" and ?zs = "xs @ [snr_set (fst g) * 10, snr_set (snd g) * 10]"
  have ok: "\<forall>x\<in>set ?ys. sample_ok x" "\<forall>x\<in>set ?zs. sample_ok x"
    using assms(2,3,5) by (simp_all add: heard_def sample_ok_def)
  obtain s1 where s1: "gsv_set (fst g) s = Some s1" "running n ?ys 0 (length xs) s1" "ht_time_delay s1 = ht_time_delay s"
    "at_start_time s1 = at_start_time s"
    using running_sample [OF assms(1) _ refl, of "fst g"] assms(2-6) by (auto simp: heard_def)
  have "length ?ys < n" using assms(6) by simp
  then obtain s2 where s2: "gsv_set (snd g) s1 = Some s2" "running n ?zs 0 (length xs) s2" "ht_time_delay s2 = ht_time_delay s1"
    "at_start_time s2 = at_start_time s1"
    using running_sample [OF s1(2) _ refl, of "snd g"] assms(3,4) ok(1) by (auto simp: heard_def)
  have "\<exists>s'. nmea_parser_at_cmd_pre now True s2 = Some s' \<and> running n ?zs 0 (length ?zs) s' \<and>
    ht_time_delay s' = ht_time_delay s2 \<and> at_start_time s' = at_start_time s2"
    using running_tick [OF s2(2), of now 0] assms(6,7) s1 s2 by auto
  then show ?thesis using s1 s2 ok(2) by (intro exI [of _ ?zs]) (auto simp: epoch_twice_def epoch_def)
qed

lemma epochs_twice_overrun:
  assumes "running n xs 0 (length xs) s" "n \<le> 2000" "\<forall>x\<in>set xs. sample_ok x" "\<forall>g\<in>set gs. heard (fst g) \<and> heard (snd g)"
    "n = length xs + 2 * length gs - 1" "gs \<noteq> []" "ht_time_delay s \<le> now - at_start_time s"
  shows "epochs_twice now gs s = None"
  using assms
proof (induction gs arbitrary: xs s)
  case (Cons g gs)
  show ?case
  proof (cases "gs = []")
    case True
    then have n: "n = length xs + 1" using Cons.prems(5) by simp
    obtain s1 where s1: "gsv_set (fst g) s = Some s1" "running n (xs @ [snr_set (fst g) * 10]) 0 (length xs) s1"
      using running_sample [OF Cons.prems(1) _ refl, of "fst g"] Cons.prems(2-4) n by (auto simp: heard_def)
    have "gsv_set (snd g) s1 = None" by (rule running_full [OF s1(2)]) (use Cons.prems(4) n in simp_all)
    then show ?thesis using s1(1) by (simp add: epoch_twice_def epoch_def)
  next
    case False
    then have "0 < length gs" by simp
    then have "length xs + 2 < n" using Cons.prems(5) by (cases gs) simp_all
    then obtain ys s1 where s1: "epoch_twice now g s = Some s1" "length ys = length xs + 2" "running n ys 0 (length ys) s1"
      "\<forall>x\<in>set ys. sample_ok x" "ht_time_delay s1 = ht_time_delay s" "at_start_time s1 = at_start_time s"
      using epoch_twice_step [OF Cons.prems(1) _ _ Cons.prems(2,3) _ Cons.prems(7), of g] Cons.prems(4) by auto
    have "epochs_twice now gs s1 = None"
      by (rule Cons.IH [OF s1(3) Cons.prems(2) s1(4)]) (use s1 Cons.prems False in auto)
    then show ?thesis using s1(1) by simp
  qed
qed simp

text \<open>The number of a satellite is compared without its system: when satellite 1 of GPS and of BeiDou or Galileo
  are both heard, each epoch gives two samples, the count passes an odd \<open>n\<close> unseen, and the test writes
  past its block in epoch number \<open>(n + 1) / 2\<close>.\<close>

theorem at_two_systems:
  assumes "idle s" "n \<le> 2000" "malloc_ok e (4 * n)" "n + 1 = 2 * length gs"
    "\<forall>g\<in>set gs. heard (fst g) \<and> heard (snd g)" "gs \<noteq> []" "at_now e + 2 \<le> now"
  shows "\<exists>s1. gpsinf_mtk_gps_test_start e (int n) GPS_TEST_PRN 2 0 s = Some (0, s1) \<and> epochs_twice now gs s1 = None"
proof -
  have "0 < length gs" using assms(6) by simp
  then have n: "0 < n" using assms(4) by linarith
  obtain s1 where s1: "gpsinf_mtk_gps_test_start e (int n) GPS_TEST_PRN 2 0 s = Some (0, s1)" "running n [] 0 0 s1"
    "ht_time_delay s1 = 2" "at_start_time s1 = at_now e"
    using test_started [OF assms(1) n assms(2,3)] by blast
  have "epochs_twice now gs s1 = None"
    by (rule epochs_twice_overrun [of n "[]"]) (use s1 assms in auto)
  then show ?thesis using s1(1) by blast
qed

theorem at_two_systems_witness:
  "\<exists>s1. gpsinf_mtk_gps_test_start at_env_ok 3 GPS_TEST_PRN 2 0 at_init = Some (0, s1) \<and>
    epochs_twice 2 [(([1], [30], 1), ([1], [40], 1)), (([1], [31], 1), ([1], [41], 1))] s1 = None"
  using at_two_systems [OF at_init_idle, of 3 at_env_ok
      "[(([1], [30], 1), ([1], [40], 1)), (([1], [31], 1), ([1], [41], 1))]" 2]
  by (simp add: at_env_ok_def heard_def set_ok_def snr_set_def snr_of_def)

section \<open>The block of samples\<close>

text \<open>What can happen to the variables: datagrams of the test tool, looks at the count before a sentence, satellites in view
  for the arrays, and the hook for a complete set of them.\<close>

datatype at_op =
    At_datagrams at_env int "rx list" | At_look int bool | At_arrays "int list" "int list" | At_sats nat

fun at_step :: "at_op \<Rightarrow> at_state \<Rightarrow> at_state option" where
  "at_step (At_datagrams e fd rs) s = map_option fst (at_cmd2mnl_hdlr e fd rs s)"
| "at_step (At_look now tag) s = nmea_parser_at_cmd_pre now tag s"
| "at_step (At_arrays ps qs) s = Some (s\<lparr>at_prn := ps, at_snr := qs\<rparr>)"
| "at_step (At_sats k) s = gps_at_command_test_proc k s"

inductive at_reach :: "at_state \<Rightarrow> bool" where
  init: "at_reach at_init"
| step: "at_reach s \<Longrightarrow> at_step x s = Some s' \<Longrightarrow> at_reach s'"

definition quiescent :: "at_state \<Rightarrow> bool" where
  "quiescent s \<longleftrightarrow> at_st s = MNL_AT_TEST_UNKNOWN \<and> \<not> at_test_flag s \<and> \<not> at_signal_mode s \<and> \<not> at_signal_test_begin s \<and>
     at_success s = 0"

definition block_inv :: "at_state \<Rightarrow> bool" where
  "block_inv s \<longleftrightarrow> (dev_cnr s = Dev_freed \<longrightarrow> quiescent s)"

lemma block_inv_updates [simp]:
  "block_inv (s\<lparr>at_mode_flag := b\<rparr>) = block_inv s" "block_inv (s\<lparr>at_fd := i\<rparr>) = block_inv s"
  "block_inv (s\<lparr>at_out := xs\<rparr>) = block_inv s" "block_inv (s\<lparr>at_prn := ps, at_snr := qs\<rparr>) = block_inv s"
  "block_inv (s\<lparr>at_start_time := i\<rparr>) = block_inv s" "block_inv (s\<lparr>at_result := r\<rparr>) = block_inv s"
  by (simp_all add: block_inv_def quiescent_def)

lemma block_inv_ack [simp]: "block_inv (ack_text t s) = block_inv s"
  by (simp add: ack_text_def at_command_send_ack_def at_emit_def)

lemma ack_text_fields [simp]:
  "at_st (ack_text t s) = at_st s" "at_signal_mode (ack_text t s) = at_signal_mode s" "dev_cnr (ack_text t s) = dev_cnr s"
  by (simp_all add: ack_text_def at_command_send_ack_def at_emit_def)

lemma block_inv_ack_buff: "ack_buff n t s = Some s' \<Longrightarrow> block_inv s' = block_inv s"
  by (auto simp: ack_buff_def at_command_send_ack_def at_emit_def split: if_splits)

lemma block_inv_cno: "at_command_send_cno cmd s = Some s' \<Longrightarrow> block_inv s' = block_inv s"
  by (auto simp: at_command_send_cno_def send_cno_def split: if_splits dest: block_inv_ack_buff)

lemma block_inv_result: "at_command_send_test_result s = Some s' \<Longrightarrow> block_inv s' = block_inv s"
  by (auto simp: at_command_send_test_result_def split: at_test_state.splits if_splits dest: block_inv_ack_buff)

lemma block_inv_stop: "gpsinf_mtk_gps_test_stop s = Some s' \<Longrightarrow> block_inv s'"
  by (auto simp: gpsinf_mtk_gps_test_stop_def block_inv_def quiescent_def Let_def bind_eq_Some_conv)

lemma block_inv_start: "gpsinf_mtk_gps_test_start e n p d m s = Some (r, s') \<Longrightarrow> block_inv s'"
  by (auto simp: gpsinf_mtk_gps_test_start_def block_inv_def malloc_dev_def at_emit_def Let_def bind_eq_Some_conv split: if_splits)

lemma block_inv_start_ack:
  assumes "start_ack e n ok err s = Some s'" "block_inv s"
  shows "block_inv s'"
  using assms by (auto simp: start_ack_def bind_eq_Some_conv split: if_splits dest: block_inv_start)

lemma block_inv_signal:
  assumes "gnss_signal e s = Some s'" "block_inv s"
  shows "block_inv s'"
proof (cases "at_test_flag s")
  case True
  then have "dev_cnr s \<noteq> Dev_freed" using assms(2) by (auto simp: block_inv_def quiescent_def)
  then show ?thesis
    using assms(1) True by (auto simp: gnss_signal_def at_emit_def Let_def) (simp_all add: block_inv_def)
next
  case False
  then show ?thesis using assms(1) by (auto simp: gnss_signal_def bind_eq_Some_conv dest: block_inv_start)
qed

lemma block_inv_end: "gnss_end s = Some s' \<Longrightarrow> block_inv s \<Longrightarrow> block_inv s'"
  by (auto simp: gnss_end_def split: if_splits dest: block_inv_stop)

lemma block_inv_test:
  assumes "gnss_test e cmd s = Some s'" "block_inv s"
  shows "block_inv s'"
proof -
  define s0 where "s0 = s\<lparr>at_result := [1, 0, 0, 0, 0, 0, 0, 0], at_avg_cno := 0, at_success := 0, at_completed := 0, at_cno := 0,
       at_dev_cno := 0, at_cn := 0\<rparr>"
  have s0: "block_inv s0" using assms(2) by (simp add: block_inv_def quiescent_def s0_def)
  obtain n where n: "at_command_parse_test_num cmd = Some n" using assms(1) by (auto simp: gnss_test_def bind_eq_Some_conv)
  show ?thesis
  proof (cases "at_signal_mode s")
    case True
    then have "dev_cnr s0 \<noteq> Dev_freed" using assms(2) by (auto simp: block_inv_def quiescent_def s0_def)
    then have "block_inv (ack_text t (s0\<lparr>at_signal_test_begin := True, at_st := MNL_AT_TEST_INPROGRESS\<rparr>))" for t
      by (simp add: block_inv_def)
    then show ?thesis
      using assms(1) n True s0 unfolding gnss_test_def s0_def [symmetric] Let_def
      by (auto simp: s0_def split: if_splits dest: block_inv_stop)
  next
    case False
    have "start_ack e n ''GNSS TEST START OK'' ''GNSS ERROR'' s0 = Some s'"
      using assms(1) n False unfolding gnss_test_def s0_def [symmetric] Let_def by (simp add: s0_def)
    then show ?thesis using s0 by (rule block_inv_start_ack)
  qed
qed

lemma block_inv_gps: "at_gps_command_parser e cmd s = Some s' \<Longrightarrow> block_inv s \<Longrightarrow> block_inv s'"
  by (auto simp: at_gps_command_parser_def Let_def bind_eq_Some_conv split: if_splits at_test_state.splits
      dest: block_inv_cno block_inv_ack_buff block_inv_start_ack)

lemma block_inv_gnss: "at_gnss_command_parser e cmd s = Some s' \<Longrightarrow> block_inv s \<Longrightarrow> block_inv s'"
  by (auto simp: at_gnss_command_parser_def Let_def split: if_splits
      dest: block_inv_cno block_inv_result block_inv_signal block_inv_end block_inv_test)

lemma block_inv_command: "at_command_parser e cmd s = Some s' \<Longrightarrow> block_inv s \<Longrightarrow> block_inv s'"
  by (auto simp: at_command_parser_def split: if_splits dest: block_inv_gps block_inv_gnss)

lemma block_inv_loop: "at_loop e rs s = Some (s', rs') \<Longrightarrow> block_inv s \<Longrightarrow> block_inv s'"
proof (induction rs arbitrary: s)
  case (Cons r rs)
  show ?case
  proof (cases r)
    case (RxData d)
    then obtain s1 where "at_command_parser e (takeWhile (\<lambda>b. b \<noteq> 0) (take 20 d)) s = Some s1" "at_loop e rs s1 = Some (s', rs')"
      using Cons.prems(1) by (auto simp: Let_def bind_eq_Some_conv split: if_splits)
    then show ?thesis using Cons.IH block_inv_command Cons.prems(2) by blast
  next
    case (RxErr x)
    then show ?thesis using Cons by (cases x) auto
  qed
qed simp

lemma block_inv_look:
  assumes "nmea_parser_at_cmd_pre now tag s = Some s'" "block_inv s"
  shows "block_inv s'"
proof (cases "(at_test_flag s \<or> at_signal_test_begin s) \<and> ht_time_delay s \<le> now - at_start_time s \<and> tag")
  case True
  obtain stopped s1 where t: "test_tick s = (stopped, s1)" by fastforce
  have "dev_cnr s \<noteq> Dev_freed" using True assms(2) by (auto simp: block_inv_def quiescent_def)
  moreover have "dev_cnr s1 = dev_cnr s" using t by (auto simp: test_tick_def Let_def split: if_splits)
  ultimately show ?thesis
    using assms(1) True t by (auto simp: nmea_parser_at_cmd_pre_def test_done_def Let_def block_inv_def split: if_splits
        dest!: block_inv_stop [unfolded block_inv_def]) (simp_all add: quiescent_def)
next
  case False
  then show ?thesis using assms by (auto simp: nmea_parser_at_cmd_pre_def)
qed

lemma block_inv_sample:
  assumes "take_sample v s = Some s'" "block_inv s"
  shows "block_inv s'"
proof (cases "dev_cnr s = Dev_freed")
  case True
  then have "quiescent s" using assms(2) by (simp add: block_inv_def)
  then show ?thesis
    using assms(1) by (auto simp: take_sample_def quiescent_def block_inv_def Let_def bind_eq_Some_conv split: if_splits)
next
  case False
  then have "dev_cnr s' \<noteq> Dev_freed"
    using assms(1) by (auto simp: take_sample_def dev_put_def Let_def bind_eq_Some_conv split: if_splits dev_ptr.splits)
  then show ?thesis by (simp add: block_inv_def)
qed

lemma block_inv_deviation: "update_deviation s = Some s' \<Longrightarrow> block_inv s \<Longrightarrow> block_inv s'"
  by (auto simp: update_deviation_def block_inv_def quiescent_def bind_eq_Some_conv split: if_splits)

lemma block_inv_search: "gps_at_command_search_satellite i n s = Some s' \<Longrightarrow> block_inv s \<Longrightarrow> block_inv s'"
  by (induction i n s rule: gps_at_command_search_satellite.induct)
    (auto simp: bind_eq_Some_conv split: if_splits dest: block_inv_sample block_inv_deviation)

lemma block_inv_sats: "gps_at_command_test_proc k s = Some s' \<Longrightarrow> block_inv s \<Longrightarrow> block_inv s'"
  by (auto simp: gps_at_command_test_proc_def bind_eq_Some_conv split: if_splits dest: block_inv_search)

lemma reach_block_inv: "at_reach s \<Longrightarrow> block_inv s"
proof (induction rule: at_reach.induct)
  case init
  show ?case by (simp add: block_inv_def at_init_def)
next
  case (step s x s')
  then show ?case
    by (cases x) (auto simp: at_cmd2mnl_hdlr_def dest: block_inv_loop block_inv_look block_inv_sats)
qed

text \<open>What an operation does when the pointer is to a freed block, it does with any other value of the pointer, as long as no test is
  there: the two results are the same, or differ in the pointer alone.\<close>

definition apart :: "dev_ptr \<Rightarrow> at_state \<Rightarrow> at_state \<Rightarrow> bool" where
  "apart p s t \<longleftrightarrow> t = s \<or> quiescent s \<and> t = s\<lparr>dev_cnr := p\<rparr>"

definition both :: "dev_ptr \<Rightarrow> at_state option \<Rightarrow> at_state option \<Rightarrow> bool" where
  "both p a b \<longleftrightarrow> rel_option (apart p) a b"

lemma both_refl: "both p a a"
  by (cases a) (simp_all add: both_def apart_def)

lemma both_map: "\<forall>s. a = Some s \<longrightarrow> quiescent s \<Longrightarrow> b = map_option (\<lambda>s. s\<lparr>dev_cnr := p\<rparr>) a \<Longrightarrow> both p a b"
  by (cases a) (simp_all add: both_def apart_def)

lemma quiescent_updates [simp]:
  "quiescent (s\<lparr>at_mode_flag := b\<rparr>) = quiescent s" "quiescent (s\<lparr>at_fd := i\<rparr>) = quiescent s"
  "quiescent (s\<lparr>at_out := xs\<rparr>) = quiescent s" "quiescent (s\<lparr>dev_cnr := p\<rparr>) = quiescent s"
  "quiescent (ack_text t s) = quiescent s"
  by (simp_all add: quiescent_def ack_text_def at_command_send_ack_def at_emit_def)

lemma quiescentD: "quiescent s \<Longrightarrow> at_st s = MNL_AT_TEST_UNKNOWN \<and> \<not> at_test_flag s \<and> \<not> at_signal_mode s"
  by (simp add: quiescent_def)

lemma quiescent_ack_buff: "ack_buff n t s = Some s' \<Longrightarrow> quiescent s' = quiescent s"
  by (auto simp: ack_buff_def at_command_send_ack_def at_emit_def split: if_splits)

lemma pointer_ack:
  "ack_text t (s\<lparr>dev_cnr := p\<rparr>) = (ack_text t s)\<lparr>dev_cnr := p\<rparr>"
  "ack_buff n u (s\<lparr>dev_cnr := p\<rparr>) = map_option (\<lambda>s. s\<lparr>dev_cnr := p\<rparr>) (ack_buff n u s)"
  by (simp_all add: ack_text_def ack_buff_def at_command_send_ack_def at_emit_def)

lemma both_ack:
  assumes "quiescent s"
  shows "both p (Some (ack_text t s)) (Some (ack_text t (s\<lparr>dev_cnr := p\<rparr>)))"
    "both p (ack_buff n u s) (ack_buff n u (s\<lparr>dev_cnr := p\<rparr>))"
  using assms by (auto intro!: both_map simp: pointer_ack dest: quiescent_ack_buff)

lemma both_cno:
  assumes "quiescent s"
  shows "both p (at_command_send_cno cmd s) (at_command_send_cno cmd (s\<lparr>dev_cnr := p\<rparr>))"
  using both_ack [OF assms] by (simp add: at_command_send_cno_def send_cno_def gpsinf_mtk_gps_test_inprogress_def)

lemma both_result:
  assumes "quiescent s"
  shows "both p (at_command_send_test_result s) (at_command_send_test_result (s\<lparr>dev_cnr := p\<rparr>))"
  using both_ack [OF assms] assms
  by (simp add: at_command_send_test_result_def gpsinf_mtk_gps_test_inprogress_def quiescent_def result_text_def)

text \<open>A start replaces the pointer.\<close>

lemma start_pointer:
  assumes "quiescent s"
  shows "gpsinf_mtk_gps_test_start e n q d m (s\<lparr>dev_cnr := p\<rparr>) = gpsinf_mtk_gps_test_start e n q d m s"
  using assms by (cases s; cases "malloc_dev e n") (simp_all add: gpsinf_mtk_gps_test_start_def quiescent_def Let_def)

lemma both_start_ack:
  assumes "quiescent s"
  shows "both p (start_ack e n ok err s) (start_ack e n ok err (s\<lparr>dev_cnr := p\<rparr>))"
  using both_ack(1) [OF assms] by (simp add: start_ack_def start_pointer [OF assms] both_refl)

lemma both_command:
  assumes "quiescent s"
  shows "both p (at_command_parser e cmd s) (at_command_parser e cmd (s\<lparr>dev_cnr := p\<rparr>))"
proof -
  define s0 where "s0 = s\<lparr>at_mode_flag := False\<rparr>"
  have s0: "quiescent s0" "s\<lparr>dev_cnr := p, at_mode_flag := False\<rparr> = s0\<lparr>dev_cnr := p\<rparr>"
    using assms by (simp_all add: s0_def)
  note b = both_ack [OF s0(1)] both_cno [OF s0(1)] both_result [OF s0(1)] both_start_ack [OF s0(1)]
  have q: "at_st s0 = MNL_AT_TEST_UNKNOWN" "\<not> at_test_flag s0" "\<not> at_signal_mode s0" using quiescentD [OF s0(1)] by simp_all
  have same: "both p (Some s0) (Some (s0\<lparr>dev_cnr := p\<rparr>))" using s0(1) by (simp add: both_def apart_def)
  have gps: "both p (at_gps_command_parser e cmd s) (at_gps_command_parser e cmd (s\<lparr>dev_cnr := p\<rparr>))"
    unfolding at_gps_command_parser_def s0(2) s0_def [symmetric] Let_def
    using b same q
    by (cases "at_command_parse_test_num cmd")
      (auto simp: gpsinf_mtk_gps_test_inprogress_def both_refl)
  define s1 where "s1 = s0\<lparr>at_result := [1, 0, 0, 0, 0, 0, 0, 0], at_avg_cno := 0, at_success := 0, at_completed := 0, at_cno := 0,
       at_dev_cno := 0, at_cn := 0\<rparr>"
  have s1: "quiescent s1" using s0(1) by (simp add: s1_def quiescent_def)
  have p1: "s0\<lparr>dev_cnr := p, at_result := [1, 0, 0, 0, 0, 0, 0, 0], at_avg_cno := 0, at_success := 0, at_completed := 0, at_cno := 0,
       at_dev_cno := 0, at_cn := 0\<rparr> = s1\<lparr>dev_cnr := p\<rparr>" by (cases s0) (simp add: s1_def)
  have "both p (gnss_test e cmd s0) (gnss_test e cmd (s0\<lparr>dev_cnr := p\<rparr>))"
    using both_start_ack [OF s1] q quiescentD [OF s1]
    by (cases "at_command_parse_test_num cmd") (simp_all add: gnss_test_def p1 s1_def [symmetric] both_refl)
  moreover have "both p (gnss_signal e s0) (gnss_signal e (s0\<lparr>dev_cnr := p\<rparr>))"
    using q by (simp add: gnss_signal_def start_pointer [OF s0(1)] both_refl)
  moreover have "both p (gnss_end s0) (gnss_end (s0\<lparr>dev_cnr := p\<rparr>))"
    using q b(1) by (simp add: gnss_end_def)
  ultimately have gnss: "both p (at_gnss_command_parser e cmd s) (at_gnss_command_parser e cmd (s\<lparr>dev_cnr := p\<rparr>))"
    unfolding at_gnss_command_parser_def s0(2) s0_def [symmetric] Let_def using b by simp
  show ?thesis using gps gnss both_ack(1) [OF assms] by (simp add: at_command_parser_def)
qed

lemma both_loop:
  assumes "quiescent s"
  shows "both p (map_option fst (at_loop e rs s)) (map_option fst (at_loop e rs (s\<lparr>dev_cnr := p\<rparr>)))"
  using assms
proof (induction rs arbitrary: s)
  case Nil
  then show ?case by (simp add: both_def apart_def)
next
  case (Cons r rs)
  show ?case
  proof (cases r)
    case (RxData d)
    let ?cmd = "takeWhile (\<lambda>b. b \<noteq> 0) (take 20 d)"
    have c: "rel_option (apart p) (at_command_parser e ?cmd s) (at_command_parser e ?cmd (s\<lparr>dev_cnr := p\<rparr>))"
      using both_command [OF Cons.prems] by (simp add: both_def)
    show ?thesis
    proof (cases "length (take 20 d) < 20")
      case True
      show ?thesis
        using c
      proof (cases rule: option.rel_cases)
        case None
        then have "map_option fst (at_loop e (r # rs) s) = None" "map_option fst (at_loop e (r # rs) (s\<lparr>dev_cnr := p\<rparr>)) = None"
          using RxData True by (simp_all add: Let_def)
        then show ?thesis by (simp only: both_refl)
      next
        case (Some u v)
        from Some(3) show ?thesis unfolding apart_def
        proof
          assume "v = u"
          then show ?thesis using RxData True Some(1,2) by (simp add: both_refl Let_def)
        next
          assume "quiescent u \<and> v = u\<lparr>dev_cnr := p\<rparr>"
          then show ?thesis using RxData True Some(1,2) Cons.IH [of u] by (simp add: both_refl Let_def)
        qed
      qed
    next
      case False
      then show ?thesis using RxData by (simp add: both_refl Let_def)
    qed
  next
    case (RxErr x)
    then show ?thesis using Cons by (cases x) (simp_all add: both_def apart_def)
  qed
qed

lemma both_sample:
  assumes "quiescent s"
  shows "both p (take_sample v s \<bind> update_deviation) (take_sample v (s\<lparr>dev_cnr := p\<rparr>) \<bind> update_deviation)"
  using assms
  by (cases "in_int (v * 10)") (simp_all add: take_sample_def update_deviation_def quiescent_def both_def apart_def Let_def)

lemma both_search:
  "quiescent s \<Longrightarrow> both p (gps_at_command_search_satellite i n s) (gps_at_command_search_satellite i n (s\<lparr>dev_cnr := p\<rparr>))"
proof (induction n arbitrary: i)
  case 0
  then show ?case by (simp add: both_def apart_def)
next
  case (Suc n)
  then show ?case using both_sample [OF Suc.prems] by (simp add: both_refl)
qed

lemma both_step:
  assumes "quiescent s"
  shows "both p (at_step x s) (at_step x (s\<lparr>dev_cnr := p\<rparr>))"
proof (cases x)
  case (At_datagrams e fd rs)
  have "at_step x (s\<lparr>dev_cnr := p\<rparr>) = map_option fst (at_loop e rs (s\<lparr>at_fd := fd, dev_cnr := p\<rparr>))"
    by (cases s) (simp add: At_datagrams at_cmd2mnl_hdlr_def)
  moreover have "at_step x s = map_option fst (at_loop e rs (s\<lparr>at_fd := fd\<rparr>))" by (simp add: At_datagrams at_cmd2mnl_hdlr_def)
  ultimately show ?thesis using both_loop [of "s\<lparr>at_fd := fd\<rparr>" p e rs] assms by simp
next
  case (At_look now tag)
  then show ?thesis using assms by (simp add: nmea_parser_at_cmd_pre_def quiescent_def both_def apart_def)
next
  case (At_arrays ps qs)
  then show ?thesis using assms by (simp add: both_def apart_def quiescent_def)
next
  case (At_sats k)
  then show ?thesis using both_search [OF assms, of p 0 k] assms
    by (simp add: gps_at_command_test_proc_def quiescent_def)
qed

text \<open>C39. \<open>free\<close> leaves the pointer to the samples as it was, but in every state that commands, sentences and
  satellites can lead to, a freed block is never used again, neither written or read as a block nor freed a second time: whatever comes
  next, any datagrams, sentence or satellites, is undefined only if it would be with a valid block in place of the freed one. The
  sentence hook does nothing, and the commands to end and to start a test are defined.\<close>

theorem freed_block:
  assumes "at_reach s" "dev_cnr s = Dev_freed"
  shows "(\<forall>x ds. at_step x s = None \<longleftrightarrow> at_step x (s\<lparr>dev_cnr := Dev_block ds\<rparr>) = None) \<and>
    at_success s = 0 \<and> (\<forall>now tag. nmea_parser_at_cmd_pre now tag s = Some s) \<and> gnss_end s \<noteq> None \<and>
    (\<forall>e n p d m. malloc_ok e (dev_bytes n) \<longrightarrow> gpsinf_mtk_gps_test_start e n p d m s \<noteq> None)"
proof -
  have q: "quiescent s" using reach_block_inv [OF assms(1)] assms(2) by (simp add: block_inv_def)
  have "at_step x s = None \<longleftrightarrow> at_step x (s\<lparr>dev_cnr := Dev_block ds\<rparr>) = None" for x ds
    using both_step [OF q, of "Dev_block ds" x] unfolding both_def by (cases rule: option.rel_cases) simp_all
  then show ?thesis using q
    by (simp add: quiescent_def nmea_parser_at_cmd_pre_def gnss_end_def gpsinf_mtk_gps_test_start_def malloc_dev_def Let_def)
qed

theorem freed_block_witness:
  "\<exists>s. at_reach s \<and> dev_cnr s = Dev_freed \<and> at_success s = 0 \<and> (\<forall>now tag. nmea_parser_at_cmd_pre now tag s = Some s) \<and>
    gnss_end s \<noteq> None"
proof -
  have "\<exists>s. at_step (At_datagrams at_env_ok 5 [RxData (ascii ''AT%GNSS=S''), RxData (ascii ''AT%GNSS=1''), RxData (ascii ''AT%GNSS=E'')]) at_init = Some s \<and>
    dev_cnr s = Dev_freed"
    by (simp add: at_cmd2mnl_hdlr_def at_command_parser_def ascii_def of_char_def is_gps_op_def is_gnss_op_def
        at_gnss_command_parser_def cmd_at_def gnss_signal_def gpsinf_mtk_gps_test_start_def at_init_def malloc_dev_def
        at_env_ok_def dev_bytes_def at_emit_def ack_text_def at_command_send_ack_def gnss_test_def
        at_command_parse_test_num_def strtoul_def is_space_def is_dec_def digits_val_def digit_def
        gnss_end_def gpsinf_mtk_gps_test_stop_def free_dev_def Let_def)
  then obtain s where s: "at_reach s" "dev_cnr s = Dev_freed" using at_reach.step [OF at_reach.init] by blast
  then show ?thesis using freed_block [OF s] by blast
qed

end
