(* ===== verification/Epo_Time.thy ===== *)
theory Epo_Time
  imports C_Time C_Text C_Double_Error
begin

text \<open>
  \<open>GpsToUtcTime\<close> of \<^verbatim>\<open>mnld_entity/src/epo.c\<close>: GPS week and seconds of the week to \<open>time_t\<close>, with
  its own calendar, and the proof that this calendar is that of the C library. \<open>None\<close> is
  undefined behaviour: a signed overflow, a conversion of a number that does not fit.
\<close>

section \<open>The conversion\<close>

text \<open>The loop over the years since 1980: years elapsed, and the days left.\<close>

function years_loop :: "nat \<Rightarrow> nat \<Rightarrow> nat \<times> nat" where
  "years_loop y d =
     (if 365 \<le> d then
        if y mod 100 = 20 then
          if y mod 400 = 20 then if 366 \<le> d then years_loop (y + 1) (d - 366) else (y, d)
          else years_loop (y + 1) (d - 365)
        else if y mod 4 = 0 then if 366 \<le> d then years_loop (y + 1) (d - 366) else (y, d)
        else years_loop (y + 1) (d - 365)
      else (y, d))"
  by pat_completeness auto

termination
  by (relation "measure snd") auto

declare years_loop.simps [simp del]

definition leap_year :: "nat \<Rightarrow> bool" where
  "leap_year y = (if y mod 100 = 20 then y mod 400 = 20 else y mod 4 = 0)"

definition doy :: "bool \<Rightarrow> nat list" where
  "doy fgLeapYear =
     (let d = [0, 31, 59, 90, 120, 151, 181, 212, 243, 273, 304, 334]
      in if fgLeapYear then take 2 d @ map Suc (drop 2 d) else d)"

text \<open>\<open>for (i = 0; i < 12; i++) if (iDaysElapsed < doy[i]) break;\<close>\<close>

fun month_loop :: "nat list \<Rightarrow> nat \<Rightarrow> nat" where
  "month_loop [] d = 0"
| "month_loop (x # xs) d = (if d < x then 0 else Suc (month_loop xs d))"

definition GpsToUtcTime :: "zone \<Rightarrow> int \<Rightarrow> fp \<Rightarrow> int option" where
  "GpsToUtcTime z i2Wn dfTow = do {
     tow \<leftarrow> d_to_int dfTow;
     w \<leftarrow> in_int (i2Wn * 7);
     w \<leftarrow> in_int (w + tow sdiv 86400);
     w \<leftarrow> in_int (w + 5);
     let dfSecElapsed = d_sub dfTow (d_of_int (tow sdiv 86400 * 86400));
     let (iYearsElapsed, iDaysElapsed) = years_loop 0 (nat (w mod 2 ^ 32));
     let doy = doy (leap_year iYearsElapsed);
     let i = month_loop doy iDaysElapsed;
     let pi2Day = (if 0 < i then int iDaysElapsed - int (doy ! (i - 1)) + 1 else 0);
     pi2Hr \<leftarrow> d_to_int (d_div dfSecElapsed (d_of_int 3600));
     s \<leftarrow> d_to_int dfSecElapsed;
     let pi2Min = s smod 3600 sdiv 60;
     sec \<leftarrow> d_to_int (d_sub dfSecElapsed (d_of_int (s sdiv 60 * 60)));
     Some (fst (mktime z \<lparr>tm_sec = sec, tm_min = pi2Min, tm_hour = pi2Hr, tm_mday = pi2Day,
       tm_mon = int i - 1, tm_year = 1980 + int iYearsElapsed - 1900, tm_isdst = - 1\<rparr>))
   }"

section \<open>The calendar is that of the library\<close>

lemma dvd_1980:
  assumes "k dvd 2000" "20 < k"
  shows "int k dvd 1980 + int y \<longleftrightarrow> y mod k = 20"
proof -
  have k: "int k dvd 2000" using assms(1) by (metis int_dvd_int_iff of_nat_numeral)
  have "1980 + int y = 2000 + (int y - 20)" by simp
  then have "int k dvd 1980 + int y \<longleftrightarrow> int k dvd int y - 20" using dvd_add_right_iff [OF k, of "int y - 20"] by simp
  also have "\<dots> \<longleftrightarrow> int y mod int k = 20 mod int k" by (rule mod_eq_dvd_iff [symmetric])
  also have "\<dots> \<longleftrightarrow> y mod k = 20" using assms(2) by (simp flip: of_nat_mod)
  finally show ?thesis .
qed

lemma leap_1980: "leap (1980 + int y) = leap_year y"
proof -
  have "4 dvd 1980 + int y \<longleftrightarrow> 4 dvd int y" by (rule dvd_add_right_iff) simp
  also have "\<dots> \<longleftrightarrow> y mod 4 = 0" by presburger
  finally have y4: "4 dvd 1980 + int y \<longleftrightarrow> y mod 4 = 0" .
  have y100: "100 dvd 1980 + int y \<longleftrightarrow> y mod 100 = 20" "400 dvd 1980 + int y \<longleftrightarrow> y mod 400 = 20"
    using dvd_1980 [of 100 y] dvd_1980 [of 400 y] by simp_all
  have "y mod 400 mod 100 = y mod 100" "y mod 400 mod 4 = y mod 4" by (simp_all add: mod_mod_cancel)
  then have "y mod 400 = 20 \<Longrightarrow> y mod 4 = 0" by auto
  then show ?thesis unfolding leap_def leap_year_def y4 y100 by auto
qed

text \<open>One test for the six branches of the loop.\<close>

lemma years_loop_step:
  "years_loop y d = (if d < year_days (1980 + int y) then (y, d) else years_loop (y + 1) (d - year_days (1980 + int y)))"
  using years_loop.simps [of y d] by (auto simp: year_days_def leap_1980 leap_year_def)

lemma years_loop_calendar:
  "years_loop y d = (y', d') \<Longrightarrow> year_from (1980 + int y) d = (1980 + int y', d')"
proof (induction d arbitrary: y rule: less_induct)
  case (less d)
  show ?case
  proof (cases "d < year_days (1980 + int y)")
    case True
    then show ?thesis using less.prems by (subst year_from.simps) (simp add: years_loop_step [of y d])
  next
    case False
    then have "d - year_days (1980 + int y) < d" by (simp add: year_days_def split: if_splits)
    from less.IH [OF this, of "y + 1"] show ?thesis
      using False less.prems by (simp add: years_loop_step [of y d] year_from.simps [of _ d] add.assoc)
  qed
qed

lemma year_from_skip:
  "year_from y (nat (days_before_year (y + int k) - days_before_year y) + d) = year_from (y + int k) d"
proof (induction k arbitrary: y)
  case (Suc k)
  define s where "s = nat (days_before_year (y + 1 + int k) - days_before_year (y + 1))"
  have mono: "days_before_year (y + 1) \<le> days_before_year (y + 1 + int k)"
  proof (induction k)
    case (Suc k)
    then show ?case using next_year [of "y + 1 + int k"] by (simp add: add.assoc)
  qed simp
  have "nat (days_before_year (y + int (Suc k)) - days_before_year y) = year_days y + s"
    using next_year [of y] mono by (simp add: s_def add.assoc nat_add_distrib algebra_simps)
  then have "year_from y (nat (days_before_year (y + int (Suc k)) - days_before_year y) + d) =
      year_from (y + 1) (s + d)"
    by (simp add: year_from.simps [of y])
  also have "\<dots> = year_from (y + 1 + int k) d" unfolding s_def by (rule Suc.IH)
  finally show ?case by (simp add: add.assoc)
qed simp

text \<open>The months, by their first days.\<close>

fun first_days :: "nat \<Rightarrow> nat list \<Rightarrow> nat list" where
  "first_days a [] = []"
| "first_days a (l # ls) = a # first_days (a + l) ls"

lemma month_loop_first_days:
  "month_from ls d = (m, r) \<Longrightarrow> d < sum_list ls \<Longrightarrow>
   month_loop (first_days a ls) (a + d) = Suc m \<and> first_days a ls ! m = a + d - r \<and> r \<le> d"
proof (induction ls arbitrary: d m a)
  case (Cons l ls)
  show ?case
  proof (cases "d < l")
    case True
    then show ?thesis using Cons.prems by (cases ls) auto
  next
    case False
    then obtain m' where m: "month_from ls (d - l) = (m', r)" "m = Suc m'"
      using Cons.prems(1) by (auto split: prod.splits)
    have "d - l < sum_list ls" using False Cons.prems(2) by simp
    from Cons.IH [OF m(1) this, of "a + l"] show ?thesis using False m(2) by auto
  qed
qed simp

lemma doy_first_days: "doy b = first_days 0 (month_days y)" if "leap y = b"
  using that by (auto simp: doy_def month_days_def)

lemma month_loop_calendar:
  assumes "month_from (month_days y) d = (m, r)" "d < year_days y"
  shows "month_loop (doy (leap y)) d = Suc m" "int d - int (doy (leap y) ! m) = int r"
proof -
  have "d < sum_list (month_days y)" using assms(2) by (simp add: year_days_def month_days_def split: if_splits)
  from month_loop_first_days [OF assms(1) this, of 0]
  show "month_loop (doy (leap y)) d = Suc m" "int d - int (doy (leap y) ! m) = int r"
    by (auto simp: doy_first_days [OF refl, of y])
qed

section \<open>The time of day\<close>

lemma d_of_int_nat: "0 \<le> s \<Longrightarrow> s < 2 ^ 31 \<Longrightarrow> d_to_int (d_of_int s) = Some s"
  using d_of_int_exact [of s] d_to_int_floor [of "d_of_int s"] by simp

lemma d_sub_ints:
  assumes "0 \<le> a" "a < 2 ^ 31" "0 \<le> b" "b \<le> a"
  shows "is_fin (d_sub (d_of_int a) (d_of_int b)) \<and> fpval (d_sub (d_of_int a) (d_of_int b)) = of_int (a - b)"
proof -
  define x where "x = (of_int (a - b) :: rat)"
  have "x < of_int (2 ^ 31)" unfolding x_def of_int_less_iff using assms by simp
  then have x: "\<bar>x\<bar> < 2 ^ 31" "x \<in> \<int>" using assms by (simp_all add: x_def)
  have "\<bar>x\<bar> < d_big" by (rule below_big) (use x in simp)
  then have "rounds_to (d_sub (d_of_int a) (d_of_int b)) x"
    using d_sub_rounds [of "d_of_int a" "d_of_int b"] d_of_int_exact [of a] d_of_int_exact [of b] assms
    by (simp add: x_def)
  from rounds_toD(1,3) [OF this] x show ?thesis by (simp add: x_def)
qed

lemma d_div_floor:
  assumes "is_fin x" "fpval x = of_int s" "0 \<le> s" "s < 86400"
  shows "d_to_int (d_div x (d_of_int 3600)) = Some (s div 3600)"
proof -
  have c: "is_fin (d_of_int 3600)" "fpval (d_of_int 3600) = 3600" using d_of_int_exact [of 3600] by simp_all
  have s: "(0 :: rat) \<le> of_int s" "(of_int s :: rat) < 86400"
    using assms(3,4) of_int_less_iff [of s 86400, where ?'a = rat] by simp_all
  have r: "rounds_to (d_div x (d_of_int 3600)) (of_nat (nat s) / of_nat 3600)"
    using d_div_rounds [of x "d_of_int 3600"] assms(1-3) c s below_big [of "of_int s / 3600"] by (simp add: of_nat_nat)
  have "\<lfloor>fpval (d_div x (d_of_int 3600))\<rfloor> = \<lfloor>of_nat (nat s) / of_nat 3600 :: rat\<rfloor>"
    using r by (rule rounds_to_floor) (use assms(3,4) in simp_all)
  also have "\<dots> = s div 3600" using assms(3) floor_divide_of_int_eq [of s 3600, where ?'a = rat] by (simp add: of_nat_nat)
  finally have fl: "\<lfloor>fpval (d_div x (d_of_int 3600))\<rfloor> = s div 3600" .
  then have "0 \<le> \<lfloor>fpval (d_div x (d_of_int 3600))\<rfloor>" "\<lfloor>fpval (d_div x (d_of_int 3600))\<rfloor> < 2 ^ 31" using assms(3,4) by simp_all
  then have "0 \<le> fpval (d_div x (d_of_int 3600))" "fpval (d_div x (d_of_int 3600)) < 2 ^ 31" by (simp_all add: floor_less_iff)
  with d_to_int_floor [OF rounds_toD(1) [OF r]] fl show ?thesis by simp
qed

text \<open>\<open>dfSecElapsed\<close> and its hour, minute and second.\<close>

lemma seconds_of_day:
  assumes "0 \<le> tow" "tow < 2 ^ 31" "x = d_sub (d_of_int tow) (d_of_int (tow sdiv 86400 * 86400))"
  shows "d_to_int x = Some (tow mod 86400)"
    "d_to_int (d_div x (d_of_int 3600)) = Some (tow mod 86400 div 3600)"
    "d_to_int (d_sub x (d_of_int (tow mod 86400 sdiv 60 * 60))) = Some (tow mod 86400 mod 60)"
proof -
  define s where "s = tow mod 86400"
  have s: "0 \<le> s" "s < 86400" by (simp_all add: s_def)
  have e: "tow sdiv 86400 * 86400 = tow - s" using assms(1) by (simp add: sdiv_pos s_def minus_mod_eq_div_mult)
  have "s \<le> tow" using assms(1) by (simp add: s_def zmod_le_nonneg_dividend)
  then have x: "is_fin x" "fpval x = of_int s"
    using d_sub_ints [of tow "tow - s"] assms(1,2) s(1) unfolding assms(3) e by simp_all
  have xs: "(0 :: rat) \<le> of_int s" "(of_int s :: rat) < 2 ^ 31"
    using s of_int_less_iff [of s 86400, where ?'a = rat] by simp_all
  show "d_to_int x = Some (tow mod 86400)" using d_to_int_floor [OF x(1)] x(2) xs by (simp add: s_def)
  show "d_to_int (d_div x (d_of_int 3600)) = Some (tow mod 86400 div 3600)"
    using d_div_floor [OF x s] by (simp add: s_def)
  define m where "m = s sdiv 60 * 60"
  have m: "m = s - s mod 60" using s(1) by (simp add: m_def sdiv_pos minus_mod_eq_div_mult)
  have sm: "0 \<le> s mod 60" "s mod 60 \<le> s" "s mod 60 < 60" using s(1) by (simp_all add: zmod_le_nonneg_dividend)
  have mm: "is_fin (d_of_int m)" "fpval (d_of_int m) = of_int m" using d_of_int_exact [of m] m s sm by simp_all
  define w where "w = (of_int (s mod 60) :: rat)"
  have w: "0 \<le> w" "w < 2 ^ 31" "w \<in> \<int>"
    using sm of_int_less_iff [of "s mod 60" 60, where ?'a = rat] by (simp_all add: w_def)
  have "rounds_to (d_sub x (d_of_int m)) w"
    using d_sub_rounds [OF x(1) mm(1)] x(2) mm(2) w below_big [of w] by (simp add: m w_def)
  from rounds_toD(1,3) [OF this] w have "is_fin (d_sub x (d_of_int m))" "fpval (d_sub x (d_of_int m)) = w" by simp_all
  with d_to_int_floor [of "d_sub x (d_of_int m)"] w
  show "d_to_int (d_sub x (d_of_int (tow mod 86400 sdiv 60 * 60))) = Some (tow mod 86400 mod 60)"
    by (simp add: w_def m_def s_def)
qed

section \<open>What is computed\<close>

text \<open>The moment of a GPS time on the scale of \<open>time_t\<close>: the GPS scale began on 6 January 1980, and the leap
  seconds since are not counted.\<close>

definition gps_moment :: "int \<Rightarrow> int \<Rightarrow> int" where
  "gps_moment wn tow = 315964800 + 604800 * wn + tow"

lemma gmtime_days:
  assumes "years_loop 0 (nat d) = (y, r)" "month_from (month_days (1980 + int y)) r = (m, k)"
    "0 \<le> d" "t = 315532800 + 86400 * d + s" "0 \<le> s" "s < 86400"
  shows "gmtime t = \<lparr>tm_sec = s mod 60, tm_min = s div 60 mod 60, tm_hour = s div 3600, tm_mday = int k + 1,
    tm_mon = int m, tm_year = 1980 + int y - 1900, tm_isdst = 0\<rparr>"
proof -
  have t: "t mod 86400 = s" "t div 86400 = 3652 + d"
    using assms(4-6) by (auto intro!: int_mod_pos_eq [of _ _ "3652 + d"] int_div_pos_eq [of _ _ _ s])
  have "days_before_year (1900 + int 80) - days_before_year 1900 = 3652 - days_before_year 1900"
    by (simp add: days_before_year_def)
  moreover have "days_before_year 1900 \<le> 0" by (simp add: days_before_year_def)
  ultimately have "nat (3652 + d - days_before_year 1900) =
      nat (days_before_year (1900 + int 80) - days_before_year 1900) + nat d"
    using assms(3) by (simp add: nat_add_distrib [symmetric])
  then have "year_from 1900 (nat (3652 + d - days_before_year 1900)) = year_from (1900 + int 80) (nat d)"
    using year_from_skip [of 1900 80 "nat d"] by simp
  also have "\<dots> = (1980 + int y, r)" using years_loop_calendar [OF assms(1)] by simp
  finally show ?thesis using assms(2) by (simp add: gmtime_def t)
qed

lemma gps_time_calendar:
  assumes "0 \<le> wn" "wn < 2 ^ 28" "0 \<le> tow" "tow < 2 ^ 31 - 86400"
  shows "GpsToUtcTime z wn (d_of_int tow) = Some (fst (mktime z ((gmtime (gps_moment wn tow))\<lparr>tm_isdst := - 1\<rparr>)))"
proof -
  define d where "d = wn * 7 + tow div 86400 + 5"
  define s where "s = tow mod 86400"
  obtain y r where y: "years_loop 0 (nat d) = (y, r)" by fastforce
  obtain m k where m: "month_from (month_days (1980 + int y)) r = (m, k)" by fastforce
  have "tow div 86400 \<le> 2 ^ 31 div 86400" by (rule zdiv_mono1) (use assms(4) in simp_all)
  then have td: "0 \<le> tow div 86400" "tow div 86400 < 2 ^ 15" using assms(3) by simp_all
  have d: "0 \<le> d" "d < 2 ^ 31" "in_int (wn * 7) = Some (wn * 7)"
    "in_int (wn * 7 + tow div 86400) = Some (wn * 7 + tow div 86400)" "in_int d = Some d"
    using assms td by (simp_all add: d_def in_int_def)
  have s: "0 \<le> s" "s < 86400" by (simp_all add: s_def)
  have "r < year_days (1980 + int y)" using years_loop_calendar [OF y] year_from_days by fastforce
  note mon = month_loop_calendar [OF m this, unfolded leap_1980]
  have t: "gps_moment wn tow = 315532800 + 86400 * d + s"
    using mult_div_mod_eq [of 86400 tow] by (simp add: gps_moment_def d_def s_def)
  note g = gmtime_days [OF y m d(1) t s]
  have clock: "s mod 3600 div 60 = s div 60 mod 60"
    using zmod_zmult2_eq [of 60 s 60] by simp
  note sec = seconds_of_day [OF assms(3) _ refl, folded s_def]
  have "tow < 2 ^ 31" using assms(4) by simp
  note sec = sec [OF this]
  show ?thesis
    unfolding GpsToUtcTime_def g
    using d_of_int_nat [of tow] assms(3,4) d sec s mon y
    by (simp add: sdiv_pos d_def [symmetric] clock Let_def)
qed

text \<open>C17. \<open>GpsToUtcTime\<close> with its own calendar computes what the C library computes: the
  local-time reading of the UTC date and time of the GPS moment. In particular the loop over the years ends, and
  neither the leap years, 2000 and 2100 among them, nor the arithmetic in doubles make a difference.\<close>

theorem gps_calendar:
  assumes "0 \<le> wn" "wn < 2 ^ 28" "0 \<le> tow" "tow < 2 ^ 31 - 86400"
  shows "GpsToUtcTime z wn (d_of_int tow) = Some (fst (mktime z ((gmtime (gps_moment wn tow))\<lparr>tm_isdst := - 1\<rparr>)))"
  using assms by (rule gps_time_calendar)

text \<open>A Thursday of May 2018.\<close>

theorem gps_calendar_witness:
  "GpsToUtcTime \<lparr>std_offset = 3600, dst = (\<lambda>_. False)\<rparr> 2000 (d_of_int 345600) =
    Some (fst (mktime \<lparr>std_offset = 3600, dst = (\<lambda>_. False)\<rparr> ((gmtime (gps_moment 2000 345600))\<lparr>tm_isdst := - 1\<rparr>)))"
  by (rule gps_calendar) simp_all

end
