(* ===== verification/Config_Text.thy ===== *)
theory Config_Text
  imports C_Text
begin

text \<open>
  The lines of a configuration file, as \<open>fgets\<close> reads them, and the key and value of a line: \<open>get_val\<close> of
  \<^verbatim>\<open>epo.c\<close> and \<open>get_prop\<close> of \<^verbatim>\<open>mnl_common.c\<close> are the same function but for the size of the
  line buffer.
\<close>

section \<open>Lines\<close>

text \<open>\<open>fgets\<close> into an array of \<open>n\<close> characters: the line, and the rest of the file.\<close>

definition fgets :: "nat \<Rightarrow> c_char list \<Rightarrow> c_char list \<times> c_char list" where
  "fgets n d =
     (let l = takeWhile (\<lambda>c. c \<noteq> 10) d;
          k = min (n - 1) (if length l < length d then length l + 1 else length l)
      in (take k d, drop k d))"

lemma fgets_less: "d \<noteq> [] \<Longrightarrow> 1 < n \<Longrightarrow> length (snd (fgets n d)) < length d"
proof -
  assume d: "d \<noteq> []" "1 < n"
  define l where "l = length (takeWhile (\<lambda>c. c \<noteq> 10) d)"
  define k where "k = min (n - 1) (if l < length d then l + 1 else l)"
  have "l \<le> length d" by (simp add: l_def length_takeWhile_le)
  then have "0 < k" using d by (simp add: k_def)
  moreover have "snd (fgets n d) = drop k d" by (simp add: fgets_def Let_def k_def l_def)
  ultimately show ?thesis using d(1) by simp
qed

abbreviation IS_SPACE :: "c_char \<Rightarrow> bool" where "IS_SPACE ch \<equiv> ch = 32 \<or> ch = 9 \<or> ch = 10"

text \<open>A key and its value from a line (a string without its NUL): \<open>None\<close> is -1, \<open>Some None\<close> a comment.\<close>

definition get_line :: "nat \<Rightarrow> c_char list \<Rightarrow> (c_char list \<times> c_char list) option option" where
  "get_line n s =
     (if s = [] then None
      else if hd s = 35 then Some None
      else if last s \<noteq> 10 \<and> n - 1 \<le> length s then None
      else
        let key = takeWhile (\<lambda>c. c \<noteq> 61) s; r = dropWhile (\<lambda>c. c \<noteq> 61) s
        in if r = [] then None
           else Some (Some (key, takeWhile (\<lambda>c. \<not> IS_SPACE c) (dropWhile (\<lambda>c. IS_SPACE c) (tl r)))))"

section \<open>A well-formed line\<close>

text \<open>\<open>key=value\<close> and the end of the line.\<close>

definition config_line :: "c_char list \<times> c_char list \<Rightarrow> c_char list" where
  "config_line kv = fst kv @ 61 # snd kv @ [10]"

definition line_ok :: "nat \<Rightarrow> c_char list \<times> c_char list \<Rightarrow> bool" where
  "line_ok n kv \<longleftrightarrow> fst kv \<noteq> [] \<and> hd (fst kv) \<noteq> 35 \<and> (\<forall>c\<in>set (fst kv). c \<noteq> 61 \<and> c \<noteq> 10 \<and> c \<noteq> 0) \<and>
     (\<forall>c\<in>set (snd kv). \<not> IS_SPACE c \<and> c \<noteq> 0) \<and> length (config_line kv) < n"

lemma fgets_line:
  assumes "\<forall>c\<in>set xs. c \<noteq> 10" "length xs + 1 < n"
  shows "fgets n (xs @ 10 # d) = (xs @ [10], d)"
proof -
  have "takeWhile (\<lambda>c. c \<noteq> 10) (xs @ 10 # d) = xs" using assms(1) by (simp add: takeWhile_append2)
  moreover have "min (n - 1) (length xs + 1) = length xs + 1" using assms(2) by simp
  ultimately show ?thesis by (simp add: fgets_def Let_def)
qed

lemma config_line_read:
  assumes "line_ok n kv"
  shows "fgets n (config_line kv @ d) = (config_line kv, d)"
    "takeWhile (\<lambda>c. c \<noteq> 0) (config_line kv) = config_line kv" "get_line n (config_line kv) = Some (Some kv)"
proof -
  obtain k v where kv: "kv = (k, v)" by (cases kv)
  have ok: "k \<noteq> []" "hd k \<noteq> 35" "\<forall>c\<in>set k. c \<noteq> 61 \<and> c \<noteq> 10 \<and> c \<noteq> 0" "\<forall>c\<in>set v. \<not> IS_SPACE c \<and> c \<noteq> 0"
    "length k + length v + 2 < n"
    using assms by (auto simp: line_ok_def kv config_line_def)
  have "fgets n ((k @ 61 # v) @ 10 # d) = ((k @ 61 # v) @ [10], d)"
    by (rule fgets_line) (use ok in auto)
  then show "fgets n (config_line kv @ d) = (config_line kv, d)" by (simp add: config_line_def kv)
  show "takeWhile (\<lambda>c. c \<noteq> 0) (config_line kv) = config_line kv"
    using ok by (auto simp: config_line_def kv takeWhile_eq_all_conv)
  have k: "takeWhile (\<lambda>c. c \<noteq> 61) (config_line kv) = k" "dropWhile (\<lambda>c. c \<noteq> 61) (config_line kv) = 61 # v @ [10]"
    using ok(3) by (simp_all add: config_line_def kv takeWhile_append2 dropWhile_append2)
  have "dropWhile (\<lambda>c. IS_SPACE c) (v @ [10]) = (if v = [] then [] else v @ [10])"
    using ok(4) by (cases v) auto
  moreover have "takeWhile (\<lambda>c. \<not> IS_SPACE c) (v @ [10]) = v" using ok(4) by (simp add: takeWhile_append2)
  ultimately have v: "takeWhile (\<lambda>c. \<not> IS_SPACE c) (dropWhile (\<lambda>c. IS_SPACE c) (v @ [10])) = v" by auto
  have "hd (config_line kv) \<noteq> 35" "last (config_line kv) = 10" "config_line kv \<noteq> []"
    using ok(1,2) by (simp_all add: config_line_def kv)
  then show "get_line n (config_line kv) = Some (Some kv)" using k v by (simp add: get_line_def kv)
qed

text \<open>An empty line is an error.\<close>

lemma empty_line_read: "1 < n \<Longrightarrow> fgets n (10 # d) = ([10], d)" "get_line n [10] = None"
  using fgets_line [of "[]" n d] by (simp_all add: get_line_def)

end
