(* ===== verification/Epo_File.thy ===== *)
theory Epo_File
  imports Epo_Time Config_Text Mnld_Main
begin

text \<open>
  The EPO files of \<^verbatim>\<open>mnld_entity/src/epo.c\<close>: their names, the period of time a file covers, and when it
  has to be downloaded again; and the configuration file. The file system maps a path to the contents of the
  file. \<open>None\<close> is undefined behaviour, an error of a function is a value.
\<close>

type_synonym files = "string \<Rightarrow> c_char list option"

abbreviation EPO_FILE :: string where "EPO_FILE \<equiv> ''/data/misc/gps/EPO.DAT''"
abbreviation EPO_UPDATE_HAL :: string where "EPO_UPDATE_HAL \<equiv> ''/data/misc/gps/EPOHAL.DAT''"
abbreviation EPO_CONTROL_FILE_PATH :: string where "EPO_CONTROL_FILE_PATH \<equiv> ''/data/misc/gps/gps.conf''"
abbreviation MTK_EPO_ONE_SV_SIZE :: nat where "MTK_EPO_ONE_SV_SIZE \<equiv> 72"
abbreviation MTK_EPO_MAX_DAY :: int where "MTK_EPO_MAX_DAY \<equiv> 30"
abbreviation GPS_CONF_FILE_SIZE :: nat where "GPS_CONF_FILE_SIZE \<equiv> 100"

definition unlink :: "string \<Rightarrow> files \<Rightarrow> files" where
  "unlink p fs = fs(p := None)"

text \<open>What the calls of one run of a function find: the clock, the zone, which paths can be opened when they
  exist, whether the lock is granted, and modification times.\<close>

record file_env =
  fe_now :: int
  fe_zone :: zone
  fe_opens :: "string \<Rightarrow> bool"
  fe_lock :: bool
  fe_mtime :: "string \<Rightarrow> int"

definition open_read :: "file_env \<Rightarrow> files \<Rightarrow> string \<Rightarrow> c_char list option" where
  "open_read e fs p = (if fe_opens e p then fs p else None)"

section \<open>The period a file covers\<close>

text \<open>The hours of a record, in GPS seconds with 32 bits, as UTC.\<close>

definition epo_seconds :: "c_char list \<Rightarrow> c_int" where
  "epo_seconds b = (le32 b AND 0x00FFFFFF) * 3600"

definition epo_time :: "zone \<Rightarrow> c_int \<Rightarrow> int option" where
  "epo_time z u4GpsSecs = GpsToUtcTime z (uint (u4GpsSecs div 604800)) (d_of_int (uint (u4GpsSecs mod 604800)))"

text \<open>The time of the first record of an open file; \<open>Some None\<close> is the result -1.\<close>

definition mtk_gps_sys_epo_period_start :: "zone \<Rightarrow> c_char list \<Rightarrow> int option option" where
  "mtk_gps_sys_epo_period_start z d =
     (if length d < MTK_EPO_ONE_SV_SIZE then Some None
      else map_option Some (epo_time z (epo_seconds (take MTK_EPO_ONE_SV_SIZE d))))"

text \<open>The size as the \<open>int\<close> the caller keeps.\<close>

definition mtk_gps_sys_get_file_size :: "files \<Rightarrow> int" where
  "mtk_gps_sys_get_file_size fs =
     (case fs EPO_UPDATE_HAL of Some d \<Rightarrow> int (length d)
      | None \<Rightarrow> (case fs EPO_FILE of Some d \<Rightarrow> int (length d) | None \<Rightarrow> - 1))"

text \<open>The last record, six hours long, of an open file whose size is \<open>n\<close>.\<close>

definition period_end :: "zone \<Rightarrow> int \<Rightarrow> c_char list \<Rightarrow> int option option" where
  "period_end z n d =
     (if n < int MTK_EPO_ONE_SV_SIZE then Some None
      else let r = take MTK_EPO_ONE_SV_SIZE (drop (nat n - MTK_EPO_ONE_SV_SIZE) d)
        in if length r < MTK_EPO_ONE_SV_SIZE then Some None
           else map_option Some (epo_time z (epo_seconds r + 21600)))"

definition mtk_gps_sys_epo_period_end :: "zone \<Rightarrow> files \<Rightarrow> c_char list \<Rightarrow> int option option" where
  "mtk_gps_sys_epo_period_end z fs d = period_end z (mtk_gps_sys_get_file_size fs) d"

text \<open>The result and \<open>uTime\<close>, of which an error leaves a part unchanged.\<close>

definition mtk_gps_epo_file_time_hal ::
  "file_env \<Rightarrow> files \<Rightarrow> int \<times> int \<times> int \<Rightarrow> (int \<times> int \<times> int \<times> int) option" where
  "mtk_gps_epo_file_time_hal e fs uTime =
     (let (t0, t1, t2) = uTime
      in if fs EPO_FILE = None \<and> fs EPO_UPDATE_HAL = None then Some (- 1, uTime)
         else
           let epofile = (if fs EPO_UPDATE_HAL \<noteq> None then EPO_UPDATE_HAL else EPO_FILE)
           in (case open_read e fs epofile of
                 None \<Rightarrow> Some (- 1, uTime)
               | Some d \<Rightarrow>
                   if \<not> fe_lock e then Some (- 1, uTime)
                   else do {
                     s \<leftarrow> mtk_gps_sys_epo_period_start (fe_zone e) d;
                     (case s of
                        None \<Rightarrow> Some (- 1, uTime)
                      | Some t0 \<Rightarrow> do {
                          x \<leftarrow> mtk_gps_sys_epo_period_end (fe_zone e) fs d;
                          (case x of
                             None \<Rightarrow> Some (- 1, t0, fe_mtime e epofile, t2)
                           | Some t2 \<Rightarrow> Some (0, t0, fe_mtime e epofile, t2))
                        })
                   }))"

text \<open>\<open>gmtime_r(&now, &tm_utc); mktime(&tm_utc)\<close>.\<close>

definition time_utc :: "file_env \<Rightarrow> int" where
  "time_utc e = fst (mktime (fe_zone e) (gmtime (fe_now e)))"

text \<open>The age after which a file is downloaded again; \<open>wifi_epo_period\<close> and \<open>gps_epo_period\<close> are 3 days.\<close>

definition expired_after :: "bool \<Rightarrow> int \<Rightarrow> int" where
  "expired_after wifi_tragger download_day =
     (if wifi_tragger then 3 * 24 * 60 * 60
      else if download_day < 3 then 0
      else if download_day < 6 then 2 * 24 * 60 * 60
      else if 6 \<le> download_day \<and> download_day < 9 then 5 * 24 * 60 * 60
      else if 9 \<le> download_day \<and> download_day < 12 then 7 * 24 * 60 * 60
      else if 12 \<le> download_day \<and> download_day < 15 then 7 * 24 * 60 * 60
      else if 15 \<le> download_day \<and> download_day < 18 then 7 * 24 * 60 * 60
      else if 18 \<le> download_day then 7 * 24 * 60 * 60
      else 3 * 24 * 60 * 60)"

definition mtk_epo_is_expired :: "file_env \<Rightarrow> bool \<Rightarrow> files \<Rightarrow> bool option" where
  "mtk_epo_is_expired e wifi_tragger fs = do {
     (_, t0, _, t2) \<leftarrow> mtk_gps_epo_file_time_hal e fs (0, 0, 0);
     span \<leftarrow> (if wifi_tragger then Some 0 else in_int (t2 - t0));
     age \<leftarrow> in_int (time_utc e - t0);
     Some (expired_after wifi_tragger (span sdiv (24 * 60 * 60)) \<le> age \<or> age < 0)
   }"

section \<open>The configuration\<close>

definition get_val :: "c_char list \<Rightarrow> (c_char list \<times> c_char list) option option" where
  "get_val s = get_line GPS_CONF_FILE_SIZE s"

record epo_config =
  gps_epo_enable :: int
  gps_epo_download_days :: int
  gps_epo_wifi_trigger :: int

definition epo_set_config :: "c_char list \<Rightarrow> c_char list \<Rightarrow> epo_config \<Rightarrow> epo_config option" where
  "epo_set_config key val c =
     (if key = ascii ''EPO_ENABLE'' then do {
        v \<leftarrow> str2int val;
        Some (c\<lparr>gps_epo_enable := (if v \<noteq> 1 \<and> v \<noteq> 0 then 1 else v)\<rparr>)
      }
      else if key = ascii ''DW_DAYS'' then do {
        v \<leftarrow> str2int val;
        Some (c\<lparr>gps_epo_download_days := (if v > MTK_EPO_MAX_DAY \<or> v < 0 then 9 else v)\<rparr>)
      }
      else if key = ascii ''EPO_WIFI_TRIGGER'' then do {
        v \<leftarrow> str2int val;
        Some (c\<lparr>gps_epo_wifi_trigger := (if v \<noteq> 1 \<and> v \<noteq> 0 then 0 else v)\<rparr>)
      }
      else Some c)"

text \<open>The lines up to the end of the file or the first one that is not understood. A line ends at
  its first NUL.\<close>

function config_lines :: "c_char list \<Rightarrow> epo_config \<Rightarrow> epo_config option" where
  "config_lines d c =
     (if d = [] then Some c
      else case get_val (takeWhile (\<lambda>ch. ch \<noteq> 0) (fst (fgets GPS_CONF_FILE_SIZE d))) of
             None \<Rightarrow> Some c
           | Some None \<Rightarrow> config_lines (snd (fgets GPS_CONF_FILE_SIZE d)) c
           | Some (Some (key, val)) \<Rightarrow> do {
               c \<leftarrow> epo_set_config key val c;
               config_lines (snd (fgets GPS_CONF_FILE_SIZE d)) c
             })"
  by pat_completeness auto

termination
  by (relation "measure (length \<circ> fst)") (auto simp: fgets_less)

declare config_lines.simps [simp del]

definition epo_read_cust_config :: "file_env \<Rightarrow> files \<Rightarrow> epo_config \<Rightarrow> epo_config option" where
  "epo_read_cust_config e fs c =
     (case open_read e fs EPO_CONTROL_FILE_PATH of None \<Rightarrow> Some c | Some d \<Rightarrow> config_lines d c)"

end
