(* ===== verification/Epo.thy ===== *)
theory Epo
  imports Epo_File
begin

text \<open>
  The EPO downloader of \<^verbatim>\<open>mnld_entity/src/epo.c\<close>: a file is downloaded in up to ten pieces of three
  days, each after its MD5 file, and the pieces are appended to \<^verbatim>\<open>EPOHAL.DAT\<close>. One pass of the loop of
  the download thread runs in an environment of its own, so that a list of environments is a run of the thread.
  \<open>None\<close> is undefined behaviour, an error of a function is a value.
\<close>

section \<open>State\<close>

abbreviation CURLE_OK :: int where "CURLE_OK \<equiv> 0"
abbreviation CURLE_FAILED_INIT :: int where "CURLE_FAILED_INIT \<equiv> 2"
abbreviation EPO_DOWNLOAD_RESULT_SUCCESS :: int where "EPO_DOWNLOAD_RESULT_SUCCESS \<equiv> 0"
abbreviation EPO_DOWNLOAD_RESULT_FAIL :: int where "EPO_DOWNLOAD_RESULT_FAIL \<equiv> - 1"

text \<open>The variables of the file, the two static ones of \<open>epo_file_update_retry\<close> among them, the timer of the
  retries, and the files. The flags are booleans.\<close>

record epo_state =
  epo_data_updated :: bool
  epo_config :: epo_config
  gps_epo_file_count :: nat
  gps_epo_file_name :: string
  gps_epo_md_file_name :: string
  gps_epo_type :: int
  epo_download_failed :: bool
  epo_download_retry :: bool
  epo_counter :: int
  delay_time :: nat
  file_retrying :: nat
  retry_time :: nat
  retry_timer :: bool
  epo_files :: files

definition epo_init :: epo_state where
  "epo_init = \<lparr>epo_data_updated = False,
     epo_config = \<lparr>gps_epo_enable = 1, gps_epo_download_days = 9, gps_epo_wifi_trigger = 0\<rparr>,
     gps_epo_file_count = 0, gps_epo_file_name = '''', gps_epo_md_file_name = '''', gps_epo_type = 0,
     epo_download_failed = False, epo_download_retry = True, epo_counter = 1, delay_time = 0, file_retrying = 50,
     retry_time = 0, retry_timer = False, epo_files = (\<lambda>_. None)\<rparr>"

text \<open>What curl does: no handle, no file, or the bytes it writes and its result.\<close>

datatype transfer = No_handle | No_file | Transfer "c_char list" int

text \<open>What one pass of the loop finds: files and clock, the server, which \<open>getEpoUrl\<close> and curl stand for, the
  state of the daemon and of the network, and whether the retry timer has fired since the last pass.\<close>

record epo_env =
  ee_file :: file_env
  get_url :: "string \<Rightarrow> c_char list \<Rightarrow> c_char list option"
  fetch :: "c_char list \<Rightarrow> string \<Rightarrow> transfer"
  qepo_finished :: bool
  gps_started :: bool
  wifi_connected :: bool
  network_connected :: bool
  alarm :: bool

definition data_path :: "string \<Rightarrow> string" where
  "data_path n = ''/data/misc/gps/'' @ n"

section \<open>File names\<close>

definition epo_gps_names :: "(string \<times> string) list" where
  "epo_gps_names =
     [(''EPO_GPS_3_1.DAT'', ''EPO_GPS_3_1.MD5''), (''EPO_GPS_3_2.DAT'', ''EPO_GPS_3_2.MD5''),
      (''EPO_GPS_3_3.DAT'', ''EPO_GPS_3_3.MD5''), (''EPO_GPS_3_4.DAT'', ''EPO_GPS_3_4.MD5''),
      (''EPO_GPS_3_5.DAT'', ''EPO_GPS_3_5.MD5''), (''EPO_GPS_3_6.DAT'', ''EPO_GPS_3_6.MD5''),
      (''EPO_GPS_3_7.DAT'', ''EPO_GPS_3_7.MD5''), (''EPO_GPS_3_8.DAT'', ''EPO_GPS_3_8.MD5''),
      (''EPO_GPS_3_9.DAT'', ''EPO_GPS_3_9.MD5''), (''EPO_GPS_3_10.DAT'', ''EPO_GPS_3_10.MD5'')]"

definition epo_gr_names :: "(string \<times> string) list" where
  "epo_gr_names =
     [(''EPO_GR_3_1.DAT'', ''EPO_GR_3_1.MD5''), (''EPO_GR_3_2.DAT'', ''EPO_GR_3_2.MD5''),
      (''EPO_GR_3_3.DAT'', ''EPO_GR_3_3.MD5''), (''EPO_GR_3_4.DAT'', ''EPO_GR_3_4.MD5''),
      (''EPO_GR_3_5.DAT'', ''EPO_GR_3_5.MD5''), (''EPO_GR_3_6.DAT'', ''EPO_GR_3_6.MD5''),
      (''EPO_GR_3_7.DAT'', ''EPO_GR_3_7.MD5''), (''EPO_GR_3_8.DAT'', ''EPO_GR_3_8.MD5''),
      (''EPO_GR_3_9.DAT'', ''EPO_GR_3_9.MD5''), (''EPO_GR_3_10.DAT'', ''EPO_GR_3_10.MD5'')]"

definition gps_download_epo_file_name :: "nat \<Rightarrow> epo_state \<Rightarrow> epo_state" where
  "gps_download_epo_file_name n s =
     (let names = (if gps_epo_type s = 1 then epo_gps_names else if gps_epo_type s = 0 then epo_gr_names else [])
      in if n < length names
         then s\<lparr>gps_epo_file_name := fst (names ! n), gps_epo_md_file_name := snd (names ! n)\<rparr>
         else s)"

section \<open>Downloading a piece\<close>

text \<open>\<open>fopen(filename, "w+")\<close> empties the file, which then gets what curl receives.\<close>

definition curl_easy_download :: "transfer \<Rightarrow> string \<Rightarrow> files \<Rightarrow> int \<times> files" where
  "curl_easy_download t filename fs =
     (case t of No_handle \<Rightarrow> (CURLE_FAILED_INIT, fs) | No_file \<Rightarrow> (CURLE_FAILED_INIT, fs)
      | Transfer d res \<Rightarrow> (res, fs(filename \<mapsto> d)))"

text \<open>The key of a request: sixteen characters, the number of tries, and whether it is the first.\<close>

definition request_key :: "c_char list \<Rightarrow> int \<Rightarrow> c_char list" where
  "request_key md counter =
     md @ ascii ''&counter='' @ show_int counter @ (if counter \<le> 1 then ascii ''&url=1'' else ascii ''&url=0'')"

definition no_md :: "c_char list" where
  "no_md = ascii ''0000000000000000''"

text \<open>The characters 32 to 47 of the MD5 file, up to a NUL; the array was zero before.\<close>

definition md_key :: "c_char list \<Rightarrow> c_char list" where
  "md_key d = takeWhile (\<lambda>c. c \<noteq> 0) (take 16 (drop 32 (take 48 d)))"

text \<open>The loop that copies a file in blocks of 256 bytes.\<close>

function copy_loop :: "c_char list \<Rightarrow> c_char list \<Rightarrow> c_char list" where
  "copy_loop acc d = (if d = [] then acc else copy_loop (acc @ take 256 d) (drop 256 d))"
  by pat_completeness auto

termination
  by (relation "measure (length \<circ> snd)") auto

declare copy_loop.simps [simp del]

text \<open>Appending a piece: \<open>fopen(EPO_UPDATE_HAL, "at")\<close> creates the file.\<close>

definition append_piece :: "file_env \<Rightarrow> string \<Rightarrow> files \<Rightarrow> files" where
  "append_piece e path fs =
     (if fe_opens e EPO_UPDATE_HAL then
        let old = (case fs EPO_UPDATE_HAL of Some d \<Rightarrow> d | None \<Rightarrow> []);
            fs = fs(EPO_UPDATE_HAL \<mapsto> old)
        in case open_read e fs path of Some d \<Rightarrow> fs(EPO_UPDATE_HAL \<mapsto> copy_loop old d) | None \<Rightarrow> fs
      else fs)"

text \<open>Fetching the MD5 file: the next key and the counter.\<close>

definition fetch_md :: "epo_env \<Rightarrow> c_char list \<Rightarrow> epo_state \<Rightarrow> (c_char list \<times> epo_state) option" where
  "fetch_md e url s =
     (let path = data_path (gps_epo_md_file_name s);
          (res, fs) = curl_easy_download (fetch e url path) path (epo_files s);
          s = s\<lparr>epo_files := fs\<rparr>
      in if res = 0 then
           case open_read (ee_file e) fs path of
             Some d \<Rightarrow> Some (md_key d, s\<lparr>epo_files := unlink path fs, epo_counter := 1\<rparr>)
           | None \<Rightarrow> Some (no_md, s\<lparr>epo_counter := 1\<rparr>)
         else do { c \<leftarrow> in_int (epo_counter s + 1); Some (no_md, s\<lparr>epo_counter := c\<rparr>) })"

definition fetch_piece :: "epo_env \<Rightarrow> c_char list \<Rightarrow> epo_state \<Rightarrow> (int \<times> epo_state) option" where
  "fetch_piece e url s =
     (let path = data_path (gps_epo_file_name s);
          (res, fs) = curl_easy_download (fetch e url path) path (epo_files s)
      in if res = CURLE_OK then
           let fs = (if gps_epo_file_count s = 0 then unlink EPO_UPDATE_HAL fs else fs)
           in Some (res, s\<lparr>epo_counter := 1, epo_files := append_piece (ee_file e) path fs\<rparr>)
         else do {
           c \<leftarrow> in_int (epo_counter s + 1);
           Some (res, s\<lparr>epo_counter := c, epo_files := unlink path fs\<rparr>)
         })"

definition curl_easy_download_epo :: "epo_env \<Rightarrow> epo_state \<Rightarrow> (int \<times> epo_state) option" where
  "curl_easy_download_epo e s =
     (case get_url e (gps_epo_md_file_name s) (request_key no_md (epo_counter s)) of
        None \<Rightarrow> Some (CURLE_FAILED_INIT, s)
      | Some url \<Rightarrow> do {
          (md, s) \<leftarrow> fetch_md e url s;
          case get_url e (gps_epo_file_name s) (request_key md (epo_counter s)) of
            None \<Rightarrow> Some (CURLE_FAILED_INIT, s)
          | Some url \<Rightarrow> fetch_piece e url s
        })"

definition mtk_gps_epo_file_update_hal :: "epo_env \<Rightarrow> epo_state \<Rightarrow> (int \<times> epo_state) option" where
  "mtk_gps_epo_file_update_hal e s = do {
     (res, s) \<leftarrow> curl_easy_download_epo e s;
     Some (if res \<noteq> CURLE_OK then (- 1, s\<lparr>epo_download_failed := True\<rparr>) else (0, s))
   }"

section \<open>Has the server changed its data?\<close>

definition mtk_gps_epo_get_piece_file_size :: "epo_state \<Rightarrow> nat" where
  "mtk_gps_epo_get_piece_file_size s =
     (case epo_files s (data_path (gps_epo_file_name s)) of Some d \<Rightarrow> length d | None \<Rightarrow> 0)"

definition mtk_gps_epo_piece_data_start :: "zone \<Rightarrow> c_char list \<Rightarrow> int option option" where
  "mtk_gps_epo_piece_data_start z d =
     (if length d < MTK_EPO_ONE_SV_SIZE then Some None
      else map_option Some (epo_time z (epo_seconds (take MTK_EPO_ONE_SV_SIZE d))))"

definition mtk_gps_epo_piece_data_end :: "zone \<Rightarrow> epo_state \<Rightarrow> c_char list \<Rightarrow> int option option" where
  "mtk_gps_epo_piece_data_end z s d = period_end z (int (mtk_gps_epo_get_piece_file_size s)) d"

text \<open>A time read from a piece: the time, or 0 with the result 1 and the failure noted.\<close>

definition piece_time :: "int option \<Rightarrow> int \<Rightarrow> epo_state \<Rightarrow> int \<times> int \<times> epo_state" where
  "piece_time t ret s =
     (case t of Some t \<Rightarrow> (t, ret, s) | None \<Rightarrow> (0, 1, s\<lparr>epo_download_failed := True\<rparr>))"

text \<open>The loop that removes pieces, from \<open>i\<close> down to 0; it leaves the name of the last one.\<close>

fun unlink_pieces :: "nat list \<Rightarrow> epo_state \<Rightarrow> epo_state" where
  "unlink_pieces [] s = s"
| "unlink_pieces (i # is) s =
     (let s = gps_download_epo_file_name i s
      in unlink_pieces is (s\<lparr>epo_files := unlink (data_path (gps_epo_file_name s)) (epo_files s)\<rparr>))"

definition start_of_piece :: "epo_env \<Rightarrow> epo_state \<Rightarrow> (int \<times> int \<times> epo_state) option" where
  "start_of_piece e s =
     (case open_read (ee_file e) (epo_files s) (data_path (gps_epo_file_name s)) of
        Some d \<Rightarrow> do {
          t \<leftarrow> mtk_gps_epo_piece_data_start (fe_zone (ee_file e)) d;
          Some (piece_time t 0 s)
        }
      | None \<Rightarrow> Some (0, 0, s))"

definition end_of_previous :: "epo_env \<Rightarrow> int \<Rightarrow> int \<Rightarrow> epo_state \<Rightarrow> (int \<times> int \<times> epo_state) option" where
  "end_of_previous e uTime_start ret s =
     (if 0 < gps_epo_file_count s then
        let s = gps_download_epo_file_name (gps_epo_file_count s - 1) s
        in case open_read (ee_file e) (epo_files s) (data_path (gps_epo_file_name s)) of
             Some d \<Rightarrow> do {
               t \<leftarrow> mtk_gps_epo_piece_data_end (fe_zone (ee_file e)) s d;
               Some (piece_time t ret s)
             }
           | None \<Rightarrow> Some (0, ret, s)
      else Some (uTime_start, ret, s))"

definition mtk_gps_epo_server_data_is_changed :: "epo_env \<Rightarrow> epo_state \<Rightarrow> (int \<times> epo_state) option" where
  "mtk_gps_epo_server_data_is_changed e s = do {
     (uTime_start, ret, s) \<leftarrow> start_of_piece e s;
     (uTime_end, ret, s) \<leftarrow> end_of_previous e uTime_start ret s;
     limit \<leftarrow> in_int (24 * 60 * 60 + uTime_end);
     if limit \<le> uTime_start then
       let s = unlink_pieces (rev [0..<gps_epo_file_count s + 1]) s
       in Some (1, s\<lparr>epo_files := unlink EPO_UPDATE_HAL (epo_files s), gps_epo_file_count := 0\<rparr>)
     else Some (ret, s)
   }"

section \<open>The download\<close>

text \<open>The number of pieces for the configured days.\<close>

definition pieces_of_days :: "int \<Rightarrow> int" where
  "pieces_of_days days = (let n = days sdiv 3 in if 0 < days smod 3 then n + 1 else n)"

definition mtk_gps_epo_file_update :: "epo_env \<Rightarrow> epo_state \<Rightarrow> (int \<times> epo_state) option" where
  "mtk_gps_epo_file_update e s = do {
     (ret, s) \<leftarrow> mtk_gps_epo_file_update_hal e s;
     if ret < 0 then Some (- 1, s)
     else do {
       (is_changed, s) \<leftarrow> mtk_gps_epo_server_data_is_changed e s;
       if is_changed = 1 then Some (- 1, s)
       else do {
         let s = s\<lparr>gps_epo_file_count := gps_epo_file_count s + 1\<rparr>;
         let count_temp = pieces_of_days (gps_epo_download_days (epo_config s));
         if gps_epo_file_count s < 10 \<and> int (gps_epo_file_count s) < count_temp then Some (0, s)
         else do {
           let s = unlink_pieces [0..<nat count_temp] s;
           Some (ret, s\<lparr>epo_data_updated := False, gps_epo_file_count := 0, epo_download_failed := False\<rparr>)
         }
       }
     }
   }"

text \<open>The retry of a failed piece, and what follows it when the count has not changed.\<close>

definition count_retry :: "epo_state \<Rightarrow> epo_state" where
  "count_retry s =
     (let s = (if file_retrying s = gps_epo_file_count s then s\<lparr>retry_time := retry_time s + 1\<rparr>
               else s\<lparr>file_retrying := gps_epo_file_count s, retry_time := 0\<rparr>)
      in if retry_time s < 10 then s\<lparr>epo_download_retry := False, retry_timer := True\<rparr>
         else s\<lparr>epo_download_failed := False, retry_time := 0, file_retrying := 50, delay_time := 0\<rparr>)"

definition epo_retry_download :: "epo_env \<Rightarrow> epo_state \<Rightarrow> epo_state option" where
  "epo_retry_download e s = do {
     let s = (if file_retrying s = 50 then s\<lparr>file_retrying := gps_epo_file_count s\<rparr> else s);
     let file_count_temp = gps_epo_file_count s;
     (ret, t0, _) \<leftarrow> mtk_gps_epo_file_time_hal (ee_file e) (epo_files s) (0, 0, 0);
     limit \<leftarrow> (if 0 \<le> ret then in_int (t0 + 24 * 60 * 60) else Some 0);
     s \<leftarrow> (if 0 \<le> ret \<and> limit \<le> time_utc (ee_file e) then
            Some (s\<lparr>epo_download_failed := False, gps_epo_file_count := 0, epo_data_updated := True,
              epo_files := unlink EPO_UPDATE_HAL (epo_files s), delay_time := 0\<rparr>)
          else map_option snd (mtk_gps_epo_file_update e (gps_download_epo_file_name (gps_epo_file_count s) s)));
     Some (if file_count_temp = gps_epo_file_count s then count_retry s else s)
   }"

definition epo_file_update_retry :: "epo_env \<Rightarrow> epo_state \<Rightarrow> epo_state option" where
  "epo_file_update_retry e s =
     (if gps_started e \<or> wifi_connected e then
        if network_connected e \<and> epo_download_retry s then epo_retry_download e s
        else if epo_download_retry s then
          Some (if 10 \<le> delay_time s then s\<lparr>epo_download_failed := False, delay_time := 0\<rparr>
                else s\<lparr>delay_time := delay_time s + 1\<rparr>)
        else Some s
      else Some (s\<lparr>epo_download_failed := False, delay_time := 0\<rparr>))"

definition retry_alarm_timeout_handler :: "epo_state \<Rightarrow> epo_state" where
  "retry_alarm_timeout_handler s = s\<lparr>epo_download_retry := True, retry_timer := False\<rparr>"

text \<open>One pass of the loop, with the timer before it: whether the loop ends, and the state.\<close>

definition epo_pass :: "epo_env \<Rightarrow> epo_state \<Rightarrow> (bool \<times> epo_state) option" where
  "epo_pass e s = do {
     let s = (if alarm e \<and> retry_timer s then retry_alarm_timeout_handler s else s);
     if qepo_finished e then
       if epo_data_updated s then do {
         let s = s\<lparr>epo_download_failed := False\<rparr>;
         (_, s) \<leftarrow> mtk_gps_epo_file_update e (gps_download_epo_file_name (gps_epo_file_count s) s);
         Some (False, if epo_download_failed s then s\<lparr>epo_data_updated := False\<rparr> else s)
       }
       else if epo_download_failed s then map_option (Pair False) (epo_file_update_retry e s)
       else Some (True, s)
     else Some (False, s)
   }"

text \<open>The loop, as far as the environments go; the first component tells whether it has ended.\<close>

fun epo_loop :: "epo_env list \<Rightarrow> epo_state \<Rightarrow> (bool \<times> epo_state) option" where
  "epo_loop [] s = Some (False, s)"
| "epo_loop (e # es) s = do {
     (ended, s) \<leftarrow> epo_pass e s;
     if ended then Some (True, s) else epo_loop es s
   }"

definition epo_start :: "epo_state \<Rightarrow> epo_state" where
  "epo_start s = s\<lparr>epo_data_updated := True, epo_download_failed := False, gps_epo_file_count := 0,
     epo_files := unlink EPO_FILE (unlink EPO_UPDATE_HAL (epo_files s))\<rparr>"

definition epo_result :: "epo_state \<Rightarrow> int" where
  "epo_result s = (if gps_epo_file_count s \<noteq> 0 then EPO_DOWNLOAD_RESULT_FAIL else EPO_DOWNLOAD_RESULT_SUCCESS)"

text \<open>The result is \<open>Some None\<close> while the loop still runs.\<close>

definition epo_file_update_impl :: "epo_env list \<Rightarrow> epo_state \<Rightarrow> (int option \<times> epo_state) option" where
  "epo_file_update_impl es s = do {
     (ended, s) \<leftarrow> epo_loop es (epo_start s);
     Some (if ended then Some (epo_result s) else None, s)
   }"

section \<open>The thread and its callers\<close>

text \<open>The download and the report to the main thread.\<close>

definition mnld_epo_download ::
  "epo_env list \<Rightarrow> epo_state \<Rightarrow> (((dest \<times> c_char list) option) \<times> epo_state) option" where
  "mnld_epo_download es s = do {
     (res, s) \<leftarrow> epo_file_update_impl es s;
     case res of
       None \<Rightarrow> Some (None, s)
     | Some r \<Rightarrow> do { m \<leftarrow> mnld_epo_download_done (word_of_int r); Some (Some m, s) }
   }"

definition epo_downloader_is_file_invalid :: "file_env \<Rightarrow> epo_state \<Rightarrow> (bool \<times> epo_state) option" where
  "epo_downloader_is_file_invalid e s = do {
     x \<leftarrow> mtk_epo_is_expired e False (epo_files s);
     Some (x, if x then s\<lparr>gps_epo_file_count := 0\<rparr> else s)
   }"

definition epo_is_wifi_trigger_enabled :: "epo_state \<Rightarrow> bool" where
  "epo_is_wifi_trigger_enabled s = (gps_epo_wifi_trigger (epo_config s) \<noteq> 0)"

definition epo_is_epo_download_enabled :: "epo_state \<Rightarrow> bool" where
  "epo_is_epo_download_enabled s = (gps_epo_enable (epo_config s) \<noteq> 0)"

abbreviation MAIN2EPO_EVENT_START :: c_int where "MAIN2EPO_EVENT_START \<equiv> 0"

definition epo_downloader_start :: "c_char list option" where
  "epo_downloader_start = do {
     c \<leftarrow> put_int (zero_buff MNLD_INTERNAL_BUFF_SIZE) MAIN2EPO_EVENT_START;
     Some (sent c)
   }"

text \<open>\<open>epo_event_hdlr\<close>: its result, the report if one was sent, and the state.\<close>

definition epo_event_hdlr ::
  "epo_env list \<Rightarrow> rx list \<Rightarrow> epo_state \<Rightarrow> (int \<times> (dest \<times> c_char list) option \<times> epo_state \<times> rx list) option" where
  "epo_event_hdlr es rs s =
     (case safe_recvfrom MNLD_INTERNAL_BUFF_SIZE rs of
        (ret, d, rs) \<Rightarrow>
          if ret \<le> 0 then Some (- 1, None, s, rs)
          else do {
            (cmd, c) \<leftarrow> get_int (recv_buff MNLD_INTERNAL_BUFF_SIZE d);
            if cmd = MAIN2EPO_EVENT_START then do {
              (m, s) \<leftarrow> mnld_epo_download es s;
              Some (0, m, s, rs)
            }
            else Some (- 1, None, s, rs)
          })"

text \<open>\<open>epo_update_epo_file()\<close>, with the answer of the AGPS agent.\<close>

definition epo_update_epo_file :: "bool \<Rightarrow> files \<Rightarrow> files" where
  "epo_update_epo_file agent_ok fs = (if agent_ok then unlink EPO_UPDATE_HAL fs else fs)"

end
