(* ===== verification/Epo_Pieces.thy ===== *)
theory Epo_Pieces
  imports Epo
begin

text \<open>
  One piece of the EPO data: the paths of the pieces, a server that does not change its data, and the three
  ways a download of a piece ends.
\<close>

section \<open>Paths\<close>

definition piece_names :: "int \<Rightarrow> (string \<times> string) list" where
  "piece_names ty = (if ty = 1 then epo_gps_names else epo_gr_names)"

definition piece_path :: "int \<Rightarrow> nat \<Rightarrow> string" where
  "piece_path ty i = data_path (fst (piece_names ty ! i))"

definition md_path :: "int \<Rightarrow> nat \<Rightarrow> string" where
  "md_path ty i = data_path (snd (piece_names ty ! i))"

lemma length_piece_names [simp]: "length (piece_names ty) = 10"
  by (simp add: piece_names_def epo_gps_names_def epo_gr_names_def)

lemma distinct_piece_names: "distinct (map fst (piece_names ty) @ map snd (piece_names ty) @ [''EPOHAL.DAT'', ''EPO.DAT''])"
  by (simp add: piece_names_def epo_gps_names_def epo_gr_names_def)

lemma distinct_others:
  assumes "distinct (A @ B @ [h, e])"
  shows "x \<in> set A \<Longrightarrow> x \<noteq> h \<and> x \<noteq> e" "x \<in> set B \<Longrightarrow> x \<noteq> h \<and> x \<noteq> e"
    "x \<in> set A \<Longrightarrow> y \<in> set B \<Longrightarrow> x \<noteq> y"
  using assms by auto

lemma piece_path_eq:
  assumes "i < 10" "j < 10"
  shows "piece_path ty i = piece_path ty j \<longleftrightarrow> i = j" "piece_path ty i \<noteq> md_path ty j"
proof -
  have "fst (piece_names ty ! i) = fst (piece_names ty ! j) \<longleftrightarrow> i = j"
    using distinct_piece_names [of ty] assms nth_eq_iff_index_eq [of "map fst (piece_names ty)" i j] by simp
  then show "piece_path ty i = piece_path ty j \<longleftrightarrow> i = j" by (simp add: piece_path_def data_path_def)
  have "fst (piece_names ty ! i) \<in> set (map fst (piece_names ty))" "snd (piece_names ty ! j) \<in> set (map snd (piece_names ty))"
    using assms by simp_all
  from distinct_others(3) [OF distinct_piece_names this]
  show "piece_path ty i \<noteq> md_path ty j" by (simp add: piece_path_def md_path_def data_path_def)
qed

lemma piece_path_other:
  assumes "i < 10"
  shows "piece_path ty i \<noteq> EPO_UPDATE_HAL" "piece_path ty i \<noteq> EPO_FILE" "md_path ty i \<noteq> EPO_UPDATE_HAL" "md_path ty i \<noteq> EPO_FILE"
proof -
  have "fst (piece_names ty ! i) \<in> set (map fst (piece_names ty))" "snd (piece_names ty ! i) \<in> set (map snd (piece_names ty))"
    using assms by simp_all
  note distinct_others(1) [OF distinct_piece_names this(1)] distinct_others(2) [OF distinct_piece_names this(2)]
  then show "piece_path ty i \<noteq> EPO_UPDATE_HAL" "piece_path ty i \<noteq> EPO_FILE" "md_path ty i \<noteq> EPO_UPDATE_HAL" "md_path ty i \<noteq> EPO_FILE"
    by (simp_all add: piece_path_def md_path_def data_path_def)
qed

lemma names_of_piece:
  assumes "gps_epo_type s = ty" "ty = 0 \<or> ty = 1" "i < 10"
  shows "gps_download_epo_file_name i s =
    s\<lparr>gps_epo_file_name := fst (piece_names ty ! i), gps_epo_md_file_name := snd (piece_names ty ! i)\<rparr>"
  using assms length_piece_names [of ty] by (auto simp: gps_download_epo_file_name_def piece_names_def Let_def)

lemma copy_loop_append: "copy_loop acc d = acc @ d"
proof (induction acc d rule: copy_loop.induct)
  case (1 acc d)
  then show ?case by (subst copy_loop.simps) simp
qed

section \<open>A server with fixed data\<close>

text \<open>The \<open>n\<close> pieces the server has: each has a record, and starts less than a day after the end of the one
  before. The times are in the zone \<open>z\<close>.\<close>

definition piece_ok :: "zone \<Rightarrow> c_char list \<Rightarrow> int \<Rightarrow> int \<Rightarrow> bool" where
  "piece_ok z d t u \<longleftrightarrow> mtk_gps_epo_piece_data_start z d = Some (Some t) \<and> period_end z (int (length d)) d = Some (Some u) \<and>
     in_int (24 * 60 * 60 + t) = Some (24 * 60 * 60 + t) \<and> in_int (24 * 60 * 60 + u) = Some (24 * 60 * 60 + u)"

definition server_data :: "zone \<Rightarrow> (nat \<Rightarrow> c_char list) \<Rightarrow> (nat \<Rightarrow> int) \<Rightarrow> (nat \<Rightarrow> int) \<Rightarrow> nat \<Rightarrow> bool" where
  "server_data z P b f n \<longleftrightarrow> (\<forall>i<n. piece_ok z (P i) (b i) (f i)) \<and> (\<forall>i. Suc i < n \<longrightarrow> b (Suc i) < 24 * 60 * 60 + f i)"

text \<open>A transfer of piece \<open>i\<close> that succeeds delivers that piece; any transfer may fail.\<close>

definition serves :: "zone \<Rightarrow> int \<Rightarrow> (nat \<Rightarrow> c_char list) \<Rightarrow> nat \<Rightarrow> epo_env \<Rightarrow> bool" where
  "serves z ty P n e \<longleftrightarrow> fe_zone (ee_file e) = z \<and> (\<forall>p. fe_opens (ee_file e) p) \<and>
     (\<forall>url i d. i < n \<longrightarrow> fetch e url (piece_path ty i) = Transfer d 0 \<longrightarrow> d = P i)"

text \<open>The first \<open>k\<close> pieces are on disk, and in the file for the agent.\<close>

definition have_pieces :: "int \<Rightarrow> (nat \<Rightarrow> c_char list) \<Rightarrow> nat \<Rightarrow> files \<Rightarrow> bool" where
  "have_pieces ty P k fs \<longleftrightarrow> fs EPO_FILE = None \<and>
     fs EPO_UPDATE_HAL = (if k = 0 then None else Some (concat (map P [0..<k]))) \<and>
     (\<forall>j<k. fs (piece_path ty j) = Some (P j))"

lemma have_pieces_cong:
  assumes "have_pieces ty P k fs" "\<forall>p. p \<noteq> piece_path ty i \<and> p \<noteq> md_path ty i \<longrightarrow> fs' p = fs p" "k \<le> i" "i < 10"
  shows "have_pieces ty P k fs'"
proof -
  have "fs' EPO_FILE = fs EPO_FILE" "fs' EPO_UPDATE_HAL = fs EPO_UPDATE_HAL"
    using assms(2) piece_path_other [OF assms(4), of ty] by metis+
  moreover have "fs' (piece_path ty j) = fs (piece_path ty j)" if "j < k" for j
    using that assms(2-4) piece_path_eq [of j i ty] by simp
  ultimately show ?thesis using assms(1) by (simp add: have_pieces_def)
qed

text \<open>Everything but the files, the counter and the names of the current files; and, in the second version, but
  the count of pieces and the flags that a download changes.\<close>

definition core :: "epo_state \<Rightarrow> epo_state" where
  "core s = s\<lparr>epo_files := \<lambda>_. None, epo_counter := 1, gps_epo_file_name := [], gps_epo_md_file_name := []\<rparr>"

definition frame :: "epo_state \<Rightarrow> epo_state" where
  "frame s = (core s)\<lparr>gps_epo_file_count := 0, epo_data_updated := False, epo_download_failed := False\<rparr>"

lemma coreD:
  assumes "core s' = core s"
  shows "gps_epo_file_count s' = gps_epo_file_count s" "epo_data_updated s' = epo_data_updated s"
    "epo_download_failed s' = epo_download_failed s" "epo_config s' = epo_config s" "gps_epo_type s' = gps_epo_type s"
    "frame s' = frame s"
proof -
  have "gps_epo_file_count (core s') = gps_epo_file_count (core s)" "epo_data_updated (core s') = epo_data_updated (core s)"
    "epo_download_failed (core s') = epo_download_failed (core s)" "epo_config (core s') = epo_config (core s)"
    "gps_epo_type (core s') = gps_epo_type (core s)"
    by (simp_all only: assms)
  then show "gps_epo_file_count s' = gps_epo_file_count s" "epo_data_updated s' = epo_data_updated s"
    "epo_download_failed s' = epo_download_failed s" "epo_config s' = epo_config s" "gps_epo_type s' = gps_epo_type s"
    by (simp_all add: core_def)
  show "frame s' = frame s" by (simp add: frame_def assms)
qed

lemma frameD:
  assumes "frame s' = frame s"
  shows "epo_config s' = epo_config s" "gps_epo_type s' = gps_epo_type s" "epo_download_retry s' = epo_download_retry s"
    "file_retrying s' = file_retrying s" "retry_time s' = retry_time s" "retry_timer s' = retry_timer s"
    "delay_time s' = delay_time s"
proof -
  have "epo_config (frame s') = epo_config (frame s)" "gps_epo_type (frame s') = gps_epo_type (frame s)"
    "epo_download_retry (frame s') = epo_download_retry (frame s)" "file_retrying (frame s') = file_retrying (frame s)"
    "retry_time (frame s') = retry_time (frame s)" "retry_timer (frame s') = retry_timer (frame s)"
    "delay_time (frame s') = delay_time (frame s)"
    by (simp_all only: assms)
  then show "epo_config s' = epo_config s" "gps_epo_type s' = gps_epo_type s" "epo_download_retry s' = epo_download_retry s"
    "file_retrying s' = file_retrying s" "retry_time s' = retry_time s" "retry_timer s' = retry_timer s"
    "delay_time s' = delay_time s"
    by (simp_all add: core_def frame_def)
qed

lemma core_upd [simp]:
  "core (s\<lparr>epo_files := fs\<rparr>) = core s" "core (s\<lparr>epo_counter := c\<rparr>) = core s"
  "core (s\<lparr>gps_epo_file_name := n, gps_epo_md_file_name := m\<rparr>) = core s"
  by (simp_all add: core_def)

lemma frame_upd [simp]:
  "frame (s\<lparr>epo_files := fs\<rparr>) = frame s" "frame (s\<lparr>epo_counter := c\<rparr>) = frame s"
  "frame (s\<lparr>gps_epo_file_name := n, gps_epo_md_file_name := m\<rparr>) = frame s"
  "frame (s\<lparr>gps_epo_file_count := k\<rparr>) = frame s" "frame (s\<lparr>epo_data_updated := b\<rparr>) = frame s"
  "frame (s\<lparr>epo_download_failed := b\<rparr>) = frame s"
  by (simp_all add: core_def frame_def)

section \<open>Downloading a piece\<close>

text \<open>The counter has room for \<open>k\<close> more failures.\<close>

definition room :: "nat \<Rightarrow> epo_state \<Rightarrow> bool" where
  "room k s \<longleftrightarrow> 0 < epo_counter s \<and> epo_counter s + int k < 2 ^ 31"

lemma room_mono: "room k s \<Longrightarrow> j \<le> k \<Longrightarrow> room j s"
  by (simp add: room_def)

lemma room_next: "room (Suc k) s \<Longrightarrow> in_int (epo_counter s + 1) = Some (epo_counter s + 1)"
  by (simp add: room_def in_int_def)

lemma room_upd [simp]:
  "room k (s\<lparr>epo_files := fs\<rparr>) = room k s" "room k (s\<lparr>gps_epo_file_count := n\<rparr>) = room k s"
  "room k (s\<lparr>epo_data_updated := x\<rparr>) = room k s" "room k (s\<lparr>epo_download_failed := x\<rparr>) = room k s"
  "room k (s\<lparr>gps_epo_file_name := f, gps_epo_md_file_name := m\<rparr>) = room k s"
  by (simp_all add: room_def)

lemma fetch_md_result:
  assumes "room (Suc k) s"
  shows "\<exists>md s'. fetch_md e url s = Some (md, s') \<and> core s' = core s \<and> gps_epo_file_name s' = gps_epo_file_name s \<and>
    room k s' \<and> (\<forall>p. p \<noteq> data_path (gps_epo_md_file_name s) \<longrightarrow> epo_files s' p = epo_files s p)"
proof -
  have "room k (s\<lparr>epo_counter := epo_counter s + 1\<rparr>)" "room k (s\<lparr>epo_counter := 1\<rparr>)"
    using assms by (simp_all add: room_def)
  then show ?thesis
    using room_next [OF assms]
    by (cases "fetch e url (data_path (gps_epo_md_file_name s))")
      (auto simp: fetch_md_def curl_easy_download_def Let_def unlink_def room_def split: option.split)
qed

text \<open>What a download of piece \<open>i\<close> may do with the files: it fails, or the piece is stored and appended.\<close>

definition piece_result :: "int \<Rightarrow> (nat \<Rightarrow> c_char list) \<Rightarrow> nat \<Rightarrow> int \<Rightarrow> files \<Rightarrow> bool" where
  "piece_result ty P i res fs \<longleftrightarrow> (if res = 0 then have_pieces ty P (Suc i) fs else have_pieces ty P i fs)"

text \<open>Piece \<open>i\<close> can always be had, or never.\<close>

definition always_ok :: "int \<Rightarrow> (nat \<Rightarrow> c_char list) \<Rightarrow> nat \<Rightarrow> epo_env \<Rightarrow> bool" where
  "always_ok ty P i e \<longleftrightarrow> (\<forall>n k. get_url e n k \<noteq> None) \<and> (\<forall>url. fetch e url (piece_path ty i) = Transfer (P i) 0)"

definition never_ok :: "int \<Rightarrow> nat \<Rightarrow> epo_env \<Rightarrow> bool" where
  "never_ok ty i e \<longleftrightarrow> (\<forall>url d. fetch e url (piece_path ty i) \<noteq> Transfer d 0)"

definition result_ok :: "int \<Rightarrow> (nat \<Rightarrow> c_char list) \<Rightarrow> nat \<Rightarrow> epo_env \<Rightarrow> int \<Rightarrow> int \<Rightarrow> bool" where
  "result_ok ty P i e res c \<longleftrightarrow> (always_ok ty P i e \<longrightarrow> res = 0) \<and> (never_ok ty i e \<longrightarrow> res \<noteq> 0) \<and> (res = 0 \<longrightarrow> c = 1)"

lemma fetch_piece_result:
  assumes "room (Suc k) s" "serves z ty P n e" "i < n" "n \<le> 10" "gps_epo_file_count s = i"
    "gps_epo_file_name s = fst (piece_names ty ! i)" "have_pieces ty P i (epo_files s)"
  shows "\<exists>res s'. fetch_piece e url s = Some (res, s') \<and> core s' = core s \<and> gps_epo_file_name s' = gps_epo_file_name s \<and>
    room k s' \<and> piece_result ty P i res (epo_files s') \<and> result_ok ty P i e res (epo_counter s')"
proof -
  define p where "p = piece_path ty i"
  have i: "i < 10" using assms(3,4) by simp
  have path: "data_path (gps_epo_file_name s) = p" by (simp add: p_def piece_path_def assms(6))
  note ne = piece_path_other [OF i, of ty, folded p_def]
  have r: "room k (s\<lparr>epo_counter := epo_counter s + 1\<rparr>)" "room k (s\<lparr>epo_counter := 1\<rparr>)"
    using assms(1) by (simp_all add: room_def)
  have keep: "have_pieces ty P i fs" if "\<forall>q. q \<noteq> p \<longrightarrow> fs q = epo_files s q" for fs
    by (rule have_pieces_cong [OF assms(7)]) (use that i in \<open>auto simp: p_def\<close>)
  show ?thesis
  proof (cases "\<exists>d. fetch e url p = Transfer d 0")
    case True
    then have f: "fetch e url p = Transfer (P i) 0" using assms(2,3) by (auto simp: serves_def p_def)
    have opens: "fe_opens (ee_file e) q" for q using assms(2) by (simp add: serves_def)
    define fs where "fs = (if i = 0 then unlink EPO_UPDATE_HAL ((epo_files s)(p \<mapsto> P i)) else (epo_files s)(p \<mapsto> P i))"
    have "append_piece (ee_file e) p fs = fs(EPO_UPDATE_HAL \<mapsto> concat (map P [0..<i]) @ P i)"
      using opens ne assms(7) by (auto simp: append_piece_def open_read_def copy_loop_append fs_def unlink_def have_pieces_def)
    moreover have "have_pieces ty P (Suc i) (fs(EPO_UPDATE_HAL \<mapsto> concat (map P [0..<i]) @ P i))"
    proof -
      have q: "fs q = ((epo_files s)(p \<mapsto> P i)) q" if "q \<noteq> EPO_UPDATE_HAL" for q using that by (simp add: fs_def unlink_def)
      have "fs EPO_FILE = None" using q [of EPO_FILE] ne(2) assms(7) by (simp add: have_pieces_def)
      moreover have "fs (piece_path ty j) = Some (P j)" if "j < Suc i" for j
        using q [of "piece_path ty j"] piece_path_other(1) [of j ty] piece_path_eq(1) [of j i ty] that i assms(7)
        by (auto simp: have_pieces_def p_def less_Suc_eq)
      ultimately show ?thesis using piece_path_other(1) [of _ ty] i by (simp add: have_pieces_def)
    qed
    ultimately have "piece_result ty P i 0 (append_piece (ee_file e) p fs)" by (simp add: piece_result_def)
    moreover have "\<not> never_ok ty i e" using f by (auto simp: never_ok_def p_def)
    ultimately show ?thesis
      using f r by (auto simp: result_ok_def fetch_piece_def path curl_easy_download_def assms(5) fs_def Let_def room_def)
  next
    case False
    then have "\<not> always_ok ty P i e" by (auto simp: always_ok_def p_def)
    then show ?thesis
      using False room_next [OF assms(1)] r keep
      by (cases "fetch e url p") (auto simp: result_ok_def fetch_piece_def path curl_easy_download_def Let_def piece_result_def unlink_def room_def)
  qed
qed

lemma curl_result:
  assumes "room (Suc (Suc k)) s" "serves z ty P n e" "i < n" "n \<le> 10" "gps_epo_file_count s = i"
    "gps_epo_file_name s = fst (piece_names ty ! i)" "gps_epo_md_file_name s = snd (piece_names ty ! i)"
    "have_pieces ty P i (epo_files s)"
  shows "\<exists>res s'. curl_easy_download_epo e s = Some (res, s') \<and> core s' = core s \<and>
    gps_epo_file_name s' = gps_epo_file_name s \<and> room k s' \<and> piece_result ty P i res (epo_files s') \<and>
    result_ok ty P i e res (epo_counter s')"
proof (cases "get_url e (gps_epo_md_file_name s) (request_key no_md (epo_counter s))")
  case None
  moreover have "room k s" by (rule room_mono [OF assms(1)]) simp
  moreover have "\<not> always_ok ty P i e" using None by (auto simp: always_ok_def)
  ultimately show ?thesis using assms(8) by (simp add: curl_easy_download_epo_def piece_result_def result_ok_def)
next
  case (Some url)
  have i: "i < 10" using assms(3,4) by simp
  obtain md s1 where s1: "fetch_md e url s = Some (md, s1)" "core s1 = core s" "gps_epo_file_name s1 = gps_epo_file_name s"
    "room (Suc k) s1" "\<forall>p. p \<noteq> md_path ty i \<longrightarrow> epo_files s1 p = epo_files s p"
    using fetch_md_result [OF assms(1), of e url] assms(7) by (auto simp: md_path_def)
  have h: "have_pieces ty P i (epo_files s1)"
    by (rule have_pieces_cong [OF assms(8)]) (use s1(5) i in auto)
  show ?thesis
  proof (cases "get_url e (gps_epo_file_name s1) (request_key md (epo_counter s1))")
    case None
    moreover have "room k s1" by (rule room_mono [OF s1(4)]) simp
    moreover have "\<not> always_ok ty P i e" using None by (auto simp: always_ok_def)
    ultimately show ?thesis using Some s1(1-3) h by (simp add: curl_easy_download_epo_def piece_result_def result_ok_def)
  next
    case (Some url')
    obtain res s2 where "fetch_piece e url' s1 = Some (res, s2)" "core s2 = core s1"
      "gps_epo_file_name s2 = gps_epo_file_name s1" "room k s2" "piece_result ty P i res (epo_files s2)"
      "result_ok ty P i e res (epo_counter s2)"
      using fetch_piece_result [OF s1(4) assms(2-4) _ _ h, of url'] coreD(1) [OF s1(2)] s1(3) assms(5,6) by fastforce
    then show ?thesis
      using Some \<open>get_url e (gps_epo_md_file_name s) _ = Some url\<close> s1 by (simp add: curl_easy_download_epo_def)
  qed
qed

section \<open>The check of the server's data, and the end\<close>

lemma server_unchanged:
  assumes "serves z ty P n e" "server_data z P b f n" "i < n" "n \<le> 10" "ty = 0 \<or> ty = 1"
    "gps_epo_type s = ty" "gps_epo_file_count s = i" "gps_epo_file_name s = fst (piece_names ty ! i)"
    "have_pieces ty P (Suc i) (epo_files s)"
  shows "\<exists>s'. mtk_gps_epo_server_data_is_changed e s = Some (0, s') \<and> core s' = core s \<and> epo_files s' = epo_files s \<and>
    epo_counter s' = epo_counter s"
proof -
  have z: "fe_zone (ee_file e) = z" and opens: "fe_opens (ee_file e) q" for q using assms(1) by (simp_all add: serves_def)
  have d: "open_read (ee_file e) (epo_files s) (piece_path ty j) = Some (P j)" if "j < Suc i" for j
    using assms(9) that opens by (simp add: open_read_def have_pieces_def)
  have ok: "piece_ok z (P j) (b j) (f j)" if "j < n" for j using assms(2) that by (simp add: server_data_def)
  have start: "start_of_piece e s = Some (b i, 0, s)"
    using ok [OF assms(3)] d [of i]
    by (simp add: start_of_piece_def assms(8) piece_path_def [symmetric] z piece_ok_def piece_time_def)
  show ?thesis
  proof (cases i)
    case 0
    then show ?thesis
      using ok [OF assms(3)] start assms(7)
      by (simp add: mtk_gps_epo_server_data_is_changed_def end_of_previous_def piece_ok_def)
  next
    case (Suc j)
    define s1 where "s1 = gps_download_epo_file_name j s"
    have j: "j < 10" "j < n" "j < Suc i" using Suc assms(3,4) by simp_all
    have s1: "s1 = s\<lparr>gps_epo_file_name := fst (piece_names ty ! j), gps_epo_md_file_name := snd (piece_names ty ! j)\<rparr>"
      unfolding s1_def by (rule names_of_piece [OF assms(6,5) j(1)])
    have size: "mtk_gps_epo_get_piece_file_size s1 = length (P j)"
      using assms(9) j(3) by (simp add: mtk_gps_epo_get_piece_file_size_def s1 piece_path_def [symmetric] have_pieces_def)
    have "mtk_gps_epo_piece_data_end z s1 (P j) = Some (Some (f j))"
      using ok [OF j(2)] by (simp add: mtk_gps_epo_piece_data_end_def size piece_ok_def)
    moreover have "open_read (ee_file e) (epo_files s1) (data_path (gps_epo_file_name s1)) = Some (P j)"
      using d [OF j(3)] by (simp add: s1 piece_path_def)
    ultimately have "end_of_previous e (b i) 0 s = Some (f j, 0, s1)"
      by (simp add: end_of_previous_def assms(7) Suc s1_def [symmetric] z piece_time_def)
    moreover have "b i < 24 * 60 * 60 + f j" using assms(2,3) Suc by (auto simp: server_data_def)
    ultimately show ?thesis
      using ok [OF j(2)] start by (simp add: mtk_gps_epo_server_data_is_changed_def piece_ok_def s1)
  qed
qed

lemma unlink_pieces_result:
  assumes "\<forall>i\<in>set is. i < 10" "ty = 0 \<or> ty = 1" "gps_epo_type s = ty"
  shows "core (unlink_pieces is s) = core s \<and> epo_counter (unlink_pieces is s) = epo_counter s \<and>
    epo_files (unlink_pieces is s) EPO_UPDATE_HAL = epo_files s EPO_UPDATE_HAL \<and>
    epo_files (unlink_pieces is s) EPO_FILE = epo_files s EPO_FILE"
  using assms
proof (induction "is" arbitrary: s)
  case (Cons i "is")
  define s1 where "s1 = s\<lparr>gps_epo_file_name := fst (piece_names ty ! i), gps_epo_md_file_name := snd (piece_names ty ! i)\<rparr>"
  define s2 where "s2 = s1\<lparr>epo_files := unlink (piece_path ty i) (epo_files s1)\<rparr>"
  have i: "i < 10" using Cons.prems(1) by simp
  have "unlink_pieces (i # is) s = unlink_pieces is s2"
    by (simp add: names_of_piece [OF Cons.prems(3,2) i] s2_def s1_def piece_path_def)
  moreover have "core s2 = core s" "epo_counter s2 = epo_counter s" by (simp_all add: s2_def s1_def)
  moreover have "epo_files s2 EPO_UPDATE_HAL = epo_files s EPO_UPDATE_HAL" "epo_files s2 EPO_FILE = epo_files s EPO_FILE"
    using piece_path_other [OF i, of ty] by (auto simp: s2_def s1_def unlink_def)
  moreover have "gps_epo_type s2 = ty" using Cons.prems(3) by (simp add: s2_def s1_def)
  ultimately show ?case using Cons.IH [of s2] Cons.prems(1,2) by simp
qed simp

text \<open>The three ways a download of piece \<open>i\<close> of \<open>n\<close> ends: failure, the next piece, or completion.\<close>

definition failed_piece :: "int \<Rightarrow> (nat \<Rightarrow> c_char list) \<Rightarrow> nat \<Rightarrow> epo_state \<Rightarrow> epo_state \<Rightarrow> bool" where
  "failed_piece ty P i s s' \<longleftrightarrow> have_pieces ty P i (epo_files s') \<and> gps_epo_file_count s' = i \<and> epo_download_failed s' \<and>
     epo_data_updated s' = epo_data_updated s"

definition next_piece :: "int \<Rightarrow> (nat \<Rightarrow> c_char list) \<Rightarrow> nat \<Rightarrow> epo_state \<Rightarrow> epo_state \<Rightarrow> bool" where
  "next_piece ty P i s s' \<longleftrightarrow> have_pieces ty P (Suc i) (epo_files s') \<and> gps_epo_file_count s' = Suc i \<and>
     epo_download_failed s' = epo_download_failed s \<and> epo_data_updated s' = epo_data_updated s \<and> epo_counter s' = 1"

definition all_pieces :: "(nat \<Rightarrow> c_char list) \<Rightarrow> nat \<Rightarrow> epo_state \<Rightarrow> bool" where
  "all_pieces P n s' \<longleftrightarrow> epo_files s' EPO_UPDATE_HAL = Some (concat (map P [0..<n])) \<and> epo_files s' EPO_FILE = None \<and>
     gps_epo_file_count s' = 0 \<and> \<not> epo_download_failed s' \<and> \<not> epo_data_updated s'"

definition wanted :: "epo_state \<Rightarrow> nat" where
  "wanted s = nat (max 1 (pieces_of_days (gps_epo_download_days (epo_config s))))"

lemma update_result:
  assumes "room (Suc (Suc k)) s" "serves z ty P n e" "server_data z P b f n" "i < n" "n \<le> 10" "n = wanted s"
    "ty = 0 \<or> ty = 1" "gps_epo_type s = ty" "gps_epo_file_count s = i" "have_pieces ty P i (epo_files s)"
  shows "\<exists>ret s'. mtk_gps_epo_file_update e (gps_download_epo_file_name i s) = Some (ret, s') \<and> frame s' = frame s \<and>
    room k s' \<and> (failed_piece ty P i s s' \<or> Suc i < n \<and> next_piece ty P i s s' \<or> Suc i = n \<and> all_pieces P n s') \<and>
    (always_ok ty P i e \<longrightarrow> \<not> failed_piece ty P i s s') \<and> (never_ok ty i e \<longrightarrow> failed_piece ty P i s s')"
proof -
  define s0 where "s0 = gps_download_epo_file_name i s"
  have i: "i < 10" using assms(4,5) by simp
  have s0: "s0 = s\<lparr>gps_epo_file_name := fst (piece_names ty ! i), gps_epo_md_file_name := snd (piece_names ty ! i)\<rparr>"
    unfolding s0_def by (rule names_of_piece [OF assms(8,7) i])
  obtain res s1 where s1: "curl_easy_download_epo e s0 = Some (res, s1)" "core s1 = core s0"
    "gps_epo_file_name s1 = gps_epo_file_name s0" "room k s1" "piece_result ty P i res (epo_files s1)"
    "result_ok ty P i e res (epo_counter s1)"
    using curl_result [of k s0 z ty P n e i] assms(1,2,4,5,9,10) by (auto simp: s0)
  have c: "core s1 = core s" using s1(2) by (simp add: s0)
  show ?thesis
  proof (cases "res = 0")
    case False
    define s2 where "s2 = s1\<lparr>epo_download_failed := True\<rparr>"
    have "mtk_gps_epo_file_update e s0 = Some (- 1, s2)"
      using False s1(1) by (simp add: mtk_gps_epo_file_update_def mtk_gps_epo_file_update_hal_def s2_def)
    moreover have "failed_piece ty P i s s2"
      using False s1(5) coreD(1,2) [OF c] assms(9) by (simp add: s2_def failed_piece_def piece_result_def)
    moreover have "frame s2 = frame s" "room k s2" using coreD(6) [OF c] s1(4) by (simp_all add: s2_def)
    moreover have "\<not> always_ok ty P i e" using False s1(6) by (auto simp: result_ok_def)
    ultimately show ?thesis unfolding s0_def [symmetric] by blast
  next
    case True
    then have h: "have_pieces ty P (Suc i) (epo_files s1)" "epo_counter s1 = 1" "\<not> never_ok ty i e"
      using s1(5,6) by (auto simp: piece_result_def result_ok_def)
    obtain s2 where s2: "mtk_gps_epo_server_data_is_changed e s1 = Some (0, s2)" "core s2 = core s1"
      "epo_files s2 = epo_files s1" "epo_counter s2 = epo_counter s1"
      using server_unchanged [OF assms(2-5,7), of s1] coreD [OF c] assms(8,9) h(1) s1(3) by (auto simp: s0)
    have c2: "core s2 = core s" using s2(2) c by simp
    note cs = coreD [OF c2]
    define m where "m = pieces_of_days (gps_epo_download_days (epo_config s))"
    have m: "m \<le> 10" "int n = max 1 m" using assms(5,6) by (simp_all add: wanted_def m_def)
    define s3 where "s3 = s2\<lparr>gps_epo_file_count := Suc i\<rparr>"
    have upd: "mtk_gps_epo_file_update e s0 = (if Suc i < 10 \<and> int (Suc i) < m then Some (0, s3)
        else Some (0, (unlink_pieces [0..<nat m] s3)\<lparr>epo_data_updated := False, gps_epo_file_count := 0, epo_download_failed := False\<rparr>))"
      using s1(1) s2(1) True cs(1,4) assms(9)
      by (simp add: mtk_gps_epo_file_update_def mtk_gps_epo_file_update_hal_def m_def s3_def Let_def)
    show ?thesis
    proof (cases "Suc i < n")
      case True
      then have "int (Suc i) < m" "Suc i < 10" using m assms(5) by auto
      then have "mtk_gps_epo_file_update e s0 = Some (0, s3)" using upd by simp
      moreover have "next_piece ty P i s s3" using h(1,2) s2(3,4) cs(2,3) by (simp add: next_piece_def s3_def)
      moreover have "\<not> failed_piece ty P i s s3" by (simp add: failed_piece_def s3_def)
      moreover have "frame s3 = frame s" "room k s3" using cs(6) s2(4) s1(4) by (simp_all add: s3_def room_def)
      ultimately show ?thesis using True h(3) unfolding s0_def [symmetric] by blast
    next
      case False
      then have n: "Suc i = n" using assms(4) by simp
      define s4 where "s4 = (unlink_pieces [0..<nat m] s3)\<lparr>epo_data_updated := False, gps_epo_file_count := 0, epo_download_failed := False\<rparr>"
      have small: "\<forall>i\<in>set [0..<nat m]. i < 10" using m(1) by auto
      have u: "core (unlink_pieces [0..<nat m] s3) = core s3" "epo_counter (unlink_pieces [0..<nat m] s3) = epo_counter s3"
        "epo_files (unlink_pieces [0..<nat m] s3) EPO_UPDATE_HAL = epo_files s3 EPO_UPDATE_HAL"
        "epo_files (unlink_pieces [0..<nat m] s3) EPO_FILE = epo_files s3 EPO_FILE"
        using unlink_pieces_result [OF small assms(7), of s3] assms(8) cs(5) by (simp_all add: s3_def)
      have "frame s4 = frame s" using coreD(6) [OF u(1)] cs(6) by (simp add: s4_def s3_def)
      moreover have "room k s4" using u(2) s2(4) s1(4) by (simp add: s4_def s3_def room_def)
      moreover have "all_pieces P n s4" using u(3,4) h(1) s2(3) n by (simp add: all_pieces_def s4_def s3_def have_pieces_def)
      moreover have "\<not> (int (Suc i) < m)" using n m(2) by simp
      then have "mtk_gps_epo_file_update e s0 = Some (0, s4)" using upd by (simp add: s4_def)
      moreover have "\<not> failed_piece ty P i s s4" by (simp add: failed_piece_def s4_def)
      ultimately show ?thesis using n h(3) unfolding s0_def [symmetric] by blast
    qed
  qed
qed

end
