(* ===== verification/Epo_Properties.thy ===== *)
theory Epo_Properties
  imports Epo_Pieces
begin

text \<open>
  What a download of EPO data leaves behind: with a server that does not change its data, the file for the
  AGPS agent always holds whole pieces in order, and the download ends; and what happens with data more than a day
  old or a piece that is too short.
\<close>

section \<open>Passes of the loop\<close>

definition download_inv :: "int \<Rightarrow> (nat \<Rightarrow> c_char list) \<Rightarrow> nat \<Rightarrow> epo_state \<Rightarrow> bool" where
  "download_inv ty P n s \<longleftrightarrow> wanted s = n \<and> gps_epo_type s = ty \<and> retry_time s < 10 \<and> (epo_download_retry s \<or> retry_timer s) \<and>
     (all_pieces P n s \<or> gps_epo_file_count s < n \<and> have_pieces ty P (gps_epo_file_count s) (epo_files s))"

text \<open>How often a retry of the current piece has failed, from 0 to 10.\<close>

definition failures :: "epo_state \<Rightarrow> nat" where
  "failures s = (if file_retrying s = 50 \<or> file_retrying s = gps_epo_file_count s then retry_time s + 1 else 0)"

text \<open>What bounds the passes still to come.\<close>

definition work :: "nat \<Rightarrow> epo_state \<Rightarrow> nat" where
  "work n s =
     (if epo_data_updated s then 12 * (n - gps_epo_file_count s) + 12
      else if epo_download_failed s then 12 * (n - gps_epo_file_count s) + (11 - failures s) else 0)"

lemma frame_inv:
  assumes "frame s' = frame s"
  shows "wanted s' = wanted s"
  using frameD(1) [OF assms] by (simp add: wanted_def)

text \<open>The three ways keep the invariant, with the work that is left.\<close>

lemma download_inv_update:
  assumes "failed_piece ty P i s s' \<or> Suc i < n \<and> next_piece ty P i s s' \<or> Suc i = n \<and> all_pieces P n s'"
    "frame s' = frame s" "wanted s = n" "gps_epo_type s = ty" "retry_time s < 10" "epo_download_retry s \<or> retry_timer s" "i < n"
  shows "download_inv ty P n s'"
  using assms frame_inv [OF assms(2)] frameD [OF assms(2)]
  by (auto simp: download_inv_def failed_piece_def next_piece_def)

lemma count_retry_inv:
  assumes "download_inv ty P n s"
  shows "download_inv ty P n (count_retry s)"
  using assms by (auto simp: download_inv_def count_retry_def Let_def wanted_def all_pieces_def)

lemma count_retry_work:
  assumes "retry_time s < 10" "\<not> epo_data_updated s" "epo_download_failed s" "file_retrying s \<noteq> 50" "gps_epo_file_count s < 50"
  shows "work n (count_retry s) < work n s"
  using assms by (auto simp: work_def count_retry_def failures_def Let_def)

lemma period_end_append: "period_end z (int (length (xs @ d))) (xs @ d) = period_end z (int (length d)) d" if "72 \<le> length d"
proof -
  have "nat (int (length (xs @ d))) - 72 = length xs + (length d - 72)" using that by simp
  then show ?thesis using that by (simp add: period_end_def)
qed

text \<open>The times of the file for the agent are those of its first and last piece.\<close>

lemma file_time_result:
  assumes "have_pieces ty P k fs" "k \<le> n" "server_data z P b f n" "serves z ty P n e"
  shows "\<exists>ret t0 t. mtk_gps_epo_file_time_hal (ee_file e) fs (0, 0, 0) = Some (ret, t0, t) \<and> (0 \<le> ret \<longrightarrow> 0 < k \<and> t0 = b 0) \<and>
    (0 < k \<and> fe_lock (ee_file e) \<longrightarrow> 0 \<le> ret)"
proof (cases k)
  case 0
  then show ?thesis using assms(1) by (simp add: have_pieces_def mtk_gps_epo_file_time_hal_def)
next
  case (Suc j)
  define d where "d = concat (map P [0..<k])"
  have z: "fe_zone (ee_file e) = z" and opens: "fe_opens (ee_file e) q" for q using assms(4) by (simp_all add: serves_def)
  have ok: "piece_ok z (P i) (b i) (f i)" if "i < k" for i using assms(2,3) that by (simp add: server_data_def)
  have len: "72 \<le> length (P i)" if "i < k" for i
    using ok [OF that] by (auto simp: piece_ok_def period_end_def split: if_splits)
  have fs: "fs EPO_FILE = None" "fs EPO_UPDATE_HAL = Some d" using assms(1) Suc by (simp_all add: have_pieces_def d_def)
  have "[0..<k] = 0 # [1..<k]" using upt_conv_Cons [of 0 k] Suc by simp
  then have "d = P 0 @ concat (map P [1..<k])" by (simp only: d_def list.map concat.simps)
  then have start: "mtk_gps_sys_epo_period_start z d = Some (Some (b 0))"
    using ok [of 0] len [of 0] Suc by (simp add: mtk_gps_sys_epo_period_start_def piece_ok_def mtk_gps_epo_piece_data_start_def)
  have "d = concat (map P [0..<j]) @ P j" using Suc by (simp add: d_def)
  then have "mtk_gps_sys_epo_period_end z fs d = Some (Some (f j))"
    using ok [of j] len [of j] Suc period_end_append [of "P j" z "concat (map P [0..<j])"] fs
    by (simp add: mtk_gps_sys_epo_period_end_def mtk_gps_sys_get_file_size_def piece_ok_def)
  then show ?thesis
    using start fs opens Suc by (cases "fe_lock (ee_file e)") (simp_all add: mtk_gps_epo_file_time_hal_def open_read_def z)
qed

definition old_data :: "(nat \<Rightarrow> int) \<Rightarrow> epo_env \<Rightarrow> bool" where
  "old_data b e \<longleftrightarrow> b 0 + 24 * 60 * 60 \<le> time_utc (ee_file e)"

lemma retry_result:
  assumes "room (Suc (Suc k)) s" "serves z ty P n e" "server_data z P b f n" "n \<le> 10" "ty = 0 \<or> ty = 1"
    "download_inv ty P n s" "epo_download_failed s" "\<not> epo_data_updated s"
  shows "\<exists>s'. epo_retry_download e s = Some s' \<and> download_inv ty P n s' \<and> room k s' \<and> (\<not> old_data b e \<longrightarrow> work n s' < work n s) \<and>
    (old_data b e \<and> fe_lock (ee_file e) \<and> 0 < gps_epo_file_count s \<longrightarrow>
      epo_data_updated s' \<and> gps_epo_file_count s' = 0 \<and> epo_counter s' = epo_counter s)"
proof -
  define i where "i = gps_epo_file_count s"
  define s1 where "s1 = (if file_retrying s = 50 then s\<lparr>file_retrying := i\<rparr> else s)"
  have inv: "wanted s = n" "gps_epo_type s = ty" "retry_time s < 10" "epo_download_retry s \<or> retry_timer s" "i < n"
    "have_pieces ty P i (epo_files s)"
    using assms(6,7) by (auto simp: download_inv_def all_pieces_def i_def)
  have s1: "gps_epo_file_count s1 = i" "epo_files s1 = epo_files s" "gps_epo_type s1 = ty" "wanted s1 = n" "retry_time s1 < 10"
    "epo_download_retry s1 \<or> retry_timer s1" "room (Suc (Suc k)) s1" "epo_download_failed s1" "\<not> epo_data_updated s1"
    "file_retrying s1 \<noteq> 50" "work n s1 = work n s" "have_pieces ty P i (epo_files s1)"
    using inv assms(1,4,7,8) by (auto simp: s1_def i_def wanted_def room_def work_def failures_def)
  obtain ret t0 t where time: "mtk_gps_epo_file_time_hal (ee_file e) (epo_files s1) (0, 0, 0) = Some (ret, t0, t)"
    "0 \<le> ret \<longrightarrow> 0 < i \<and> t0 = b 0" "0 < i \<and> fe_lock (ee_file e) \<longrightarrow> 0 \<le> ret"
    using file_time_result [OF inv(6) _ assms(3,2)] inv(5) s1(2) by auto
  have "in_int (24 * 60 * 60 + b 0) = Some (24 * 60 * 60 + b 0)"
    using assms(3) inv(5) by (auto simp: server_data_def piece_ok_def)
  then have limit: "(if 0 \<le> ret then in_int (t0 + 24 * 60 * 60) else Some 0) = Some (if 0 \<le> ret then b 0 + 24 * 60 * 60 else 0)"
    using time(2) by (simp add: add.commute)
  define old where "old \<longleftrightarrow> 0 \<le> ret \<and> b 0 + 24 * 60 * 60 \<le> time_utc (ee_file e)"
  have s1_if: "(if file_retrying s = 50 then s\<lparr>file_retrying := gps_epo_file_count s\<rparr> else s) = s1"
    by (simp add: s1_def i_def)
  have run: "epo_retry_download e s = do {
      s' \<leftarrow> (if old then Some (s1\<lparr>epo_download_failed := False, gps_epo_file_count := 0, epo_data_updated := True,
               epo_files := unlink EPO_UPDATE_HAL (epo_files s1), delay_time := 0\<rparr>)
             else map_option snd (mtk_gps_epo_file_update e (gps_download_epo_file_name i s1)));
      Some (if i = gps_epo_file_count s' then count_retry s' else s')
    }"
    unfolding epo_retry_download_def s1_if Let_def s1(1) time(1) Option.bind_lunit prod.case limit
    by (simp add: old_def)
  show ?thesis
  proof (cases old)
    case True
    define s2 where "s2 = s1\<lparr>epo_download_failed := False, gps_epo_file_count := 0, epo_data_updated := True,
      epo_files := unlink EPO_UPDATE_HAL (epo_files s1), delay_time := 0\<rparr>"
    have "epo_retry_download e s = Some (if i = 0 then count_retry s2 else s2)" using True by (simp add: run s2_def)
    moreover have "0 < i" using True time(2) by (simp add: old_def)
    moreover have "download_inv ty P n s2"
      using s1 inv(5) by (simp add: download_inv_def s2_def wanted_def have_pieces_def unlink_def)
    moreover have "room k s2" using room_mono [OF s1(7), of k] by (simp add: s2_def room_def)
    moreover have "epo_data_updated s2" "gps_epo_file_count s2 = 0" "epo_counter s2 = epo_counter s"
      by (simp_all add: s2_def s1_def)
    ultimately show ?thesis using True by (auto simp: old_def old_data_def)
  next
    case False
    obtain r s2 where s2: "mtk_gps_epo_file_update e (gps_download_epo_file_name i s1) = Some (r, s2)" "frame s2 = frame s1"
      "room k s2" "failed_piece ty P i s1 s2 \<or> Suc i < n \<and> next_piece ty P i s1 s2 \<or> Suc i = n \<and> all_pieces P n s2"
      using update_result [OF s1(7) assms(2,3) inv(5) assms(4) s1(4) [symmetric] assms(5) s1(3,1,12)] by blast
    have run2: "epo_retry_download e s = Some (if i = gps_epo_file_count s2 then count_retry s2 else s2)"
      using False by (simp add: run s2(1))
    note fr = frameD [OF s2(2)]
    have inv2: "download_inv ty P n s2" by (rule download_inv_update [OF s2(4,2) s1(4,3,5,6) inv(5)])
    moreover have "room k (count_retry s2)" using s2(3) by (simp add: count_retry_def Let_def room_def)
    moreover have "work n (if i = gps_epo_file_count s2 then count_retry s2 else s2) < work n s"
      using s2(4)
    proof (elim disjE conjE)
      assume "failed_piece ty P i s1 s2"
      then have c: "gps_epo_file_count s2 = i" "epo_download_failed s2" "\<not> epo_data_updated s2"
        using s1(9) by (simp_all add: failed_piece_def)
      then have "work n s2 = work n s1" using s1(1,8,9) fr(4,5) by (simp add: work_def failures_def)
      then show ?thesis using count_retry_work [of s2 n] c s1(5,10,11) fr(4,5) inv(5) assms(4) by simp
    next
      assume "Suc i < n" "next_piece ty P i s1 s2"
      then have "gps_epo_file_count s2 = Suc i" "work n s2 \<le> 12 * (n - Suc i) + 11"
        using s1(9) by (simp_all add: next_piece_def work_def)
      moreover have "12 * (n - i) < work n s1" using s1(1,5,8,9) by (auto simp: work_def failures_def)
      ultimately show ?thesis using \<open>Suc i < n\<close> s1(11) by simp
    next
      assume "Suc i = n" "all_pieces P n s2"
      then have "work n s2 = 0" "work n (count_retry s2) = 0"
        by (auto simp: all_pieces_def work_def count_retry_def Let_def)
      moreover have "0 < work n s1" using s1(5,8,9) by (simp add: work_def failures_def)
      ultimately show ?thesis using s1(11) by simp
    qed
    moreover have "\<not> (old_data b e \<and> fe_lock (ee_file e) \<and> 0 < gps_epo_file_count s)"
      using False time(3) by (auto simp: old_def old_data_def i_def)
    ultimately show ?thesis using run2 s2(3) count_retry_inv [OF inv2] by auto
  qed
qed

text \<open>A pass that can do something: the network is there, and no retry is put off.\<close>

definition online :: "epo_env \<Rightarrow> bool" where
  "online e \<longleftrightarrow> qepo_finished e \<and> network_connected e \<and> (gps_started e \<or> wifi_connected e)"

lemma all_pieces_idle: "all_pieces P n s \<Longrightarrow> \<not> epo_data_updated s \<and> \<not> epo_download_failed s"
  by (simp add: all_pieces_def)

lemma download_inv_active:
  assumes "download_inv ty P n s" "epo_data_updated s \<or> epo_download_failed s"
  shows "gps_epo_file_count s < n" "have_pieces ty P (gps_epo_file_count s) (epo_files s)"
  using assms by (auto simp: download_inv_def all_pieces_def)

lemma update_pass:
  assumes "room (Suc (Suc k)) s" "serves z ty P n e" "server_data z P b f n" "n \<le> 10" "ty = 0 \<or> ty = 1"
    "download_inv ty P n s" "epo_data_updated s" "qepo_finished e" "\<not> (alarm e \<and> retry_timer s)"
  shows "\<exists>s'. epo_pass e s = Some (False, s') \<and> download_inv ty P n s' \<and> room k s' \<and> work n s' < work n s \<and>
    (always_ok ty P (gps_epo_file_count s) e \<and> Suc (gps_epo_file_count s) < n \<longrightarrow>
      epo_data_updated s' \<and> gps_epo_file_count s' = Suc (gps_epo_file_count s) \<and> epo_counter s' = 1) \<and>
    (never_ok ty (gps_epo_file_count s) e \<longrightarrow>
      epo_download_failed s' \<and> \<not> epo_data_updated s' \<and> gps_epo_file_count s' = gps_epo_file_count s)"
proof -
  define i where "i = gps_epo_file_count s"
  define s0 where "s0 = s\<lparr>epo_download_failed := False\<rparr>"
  have i: "i < n" "have_pieces ty P i (epo_files s)" using download_inv_active [OF assms(6)] assms(7) by (simp_all add: i_def)
  have s0: "gps_epo_file_count s0 = i" "epo_files s0 = epo_files s" "gps_epo_type s0 = ty" "wanted s0 = n" "retry_time s0 < 10"
    "epo_download_retry s0 \<or> retry_timer s0" "room (Suc (Suc k)) s0" "epo_data_updated s0" "have_pieces ty P i (epo_files s0)"
    using assms(1,6,7) i by (simp_all add: s0_def i_def download_inv_def wanted_def)
  obtain r s1 where s1: "mtk_gps_epo_file_update e (gps_download_epo_file_name i s0) = Some (r, s1)" "frame s1 = frame s0"
    "room k s1" "failed_piece ty P i s0 s1 \<or> Suc i < n \<and> next_piece ty P i s0 s1 \<or> Suc i = n \<and> all_pieces P n s1"
    "always_ok ty P i e \<longrightarrow> \<not> failed_piece ty P i s0 s1" "never_ok ty i e \<longrightarrow> failed_piece ty P i s0 s1"
    using update_result [OF s0(7) assms(2,3) i(1) assms(4) s0(4) [symmetric] assms(5) s0(3,1,9)] by blast
  define s2 where "s2 = (if epo_download_failed s1 then s1\<lparr>epo_data_updated := False\<rparr> else s1)"
  have not_alarm: "(if alarm e \<and> retry_timer s then retry_alarm_timeout_handler s else s) = s" using assms(9) by (rule if_not_P)
  have run: "epo_pass e s = Some (False, s2)"
    unfolding epo_pass_def not_alarm Let_def s0_def [symmetric] s0(1)
    using assms(7,8) s1(1) by (simp add: s2_def)
  have inv1: "download_inv ty P n s1" by (rule download_inv_update [OF s1(4,2) s0(4,3,5,6) i(1)])
  then have inv2: "download_inv ty P n s2" by (auto simp: s2_def download_inv_def all_pieces_def wanted_def)
  have "work n s = 12 * (n - i) + 12" using assms(7) by (simp add: work_def i_def)
  moreover have "work n s2 < 12 * (n - i) + 12"
    using s1(4)
  proof (elim disjE conjE)
    assume "failed_piece ty P i s0 s1"
    then have "epo_download_failed s2" "\<not> epo_data_updated s2" "gps_epo_file_count s2 = i"
      by (auto simp: failed_piece_def s2_def)
    then show ?thesis by (simp add: work_def)
  next
    assume "Suc i < n" "next_piece ty P i s0 s1"
    then show ?thesis by (auto simp: next_piece_def s2_def s0_def work_def)
  next
    assume "Suc i = n" "all_pieces P n s1"
    then show ?thesis by (auto simp: all_pieces_def s2_def work_def)
  qed
  moreover have "room k s2" using s1(3) by (simp add: s2_def)
  moreover have "epo_data_updated s2 \<and> gps_epo_file_count s2 = Suc i \<and> epo_counter s2 = 1"
    if "always_ok ty P i e \<and> Suc i < n"
  proof -
    have "next_piece ty P i s0 s1" using s1(4,5) that by blast
    then show ?thesis using s0(8) by (simp add: next_piece_def s2_def s0_def)
  qed
  moreover have "epo_download_failed s2 \<and> \<not> epo_data_updated s2 \<and> gps_epo_file_count s2 = i" if "never_ok ty i e"
    using s1(6) that by (simp add: failed_piece_def s2_def)
  ultimately show ?thesis unfolding i_def [symmetric] using run inv2 by (intro exI [of _ s2]) simp
qed

lemma epo_pass_alarm:
  "alarm e \<Longrightarrow> retry_timer s \<Longrightarrow> epo_pass e s = epo_pass e (retry_alarm_timeout_handler s)"
  by (simp add: epo_pass_def retry_alarm_timeout_handler_def)

lemma alarm_handler:
  "download_inv ty P n s \<Longrightarrow> download_inv ty P n (retry_alarm_timeout_handler s)"
  "room k (retry_alarm_timeout_handler s) = room k s" "work n (retry_alarm_timeout_handler s) = work n s"
  "\<not> retry_timer (retry_alarm_timeout_handler s)" "epo_download_retry (retry_alarm_timeout_handler s)"
  "epo_data_updated (retry_alarm_timeout_handler s) = epo_data_updated s"
  "epo_download_failed (retry_alarm_timeout_handler s) = epo_download_failed s"
  by (auto simp: retry_alarm_timeout_handler_def download_inv_def all_pieces_def wanted_def room_def work_def failures_def)

text \<open>What a pass does, the timer aside; it makes progress when the network is there and retries are not put off.\<close>

lemma quiet_pass:
  assumes "room (Suc (Suc k)) s" "serves z ty P n e" "server_data z P b f n" "n \<le> 10" "ty = 0 \<or> ty = 1"
    "download_inv ty P n s" "\<not> (alarm e \<and> retry_timer s)"
  shows "\<exists>d s'. epo_pass e s = Some (d, s') \<and> download_inv ty P n s' \<and> room k s' \<and>
    (d \<longrightarrow> s' = s \<and> work n s = 0) \<and>
    (online e \<and> \<not> old_data b e \<longrightarrow> work n s' \<le> work n s \<and> (epo_download_retry s \<longrightarrow> d \<or> work n s' < work n s))"
proof -
  have not_alarm: "(if alarm e \<and> retry_timer s then retry_alarm_timeout_handler s else s) = s" using assms(7) by (rule if_not_P)
  have rk: "room k s" by (rule room_mono [OF assms(1)]) simp
  have run: "epo_pass e s = (if qepo_finished e then
      if epo_data_updated s then epo_pass e s
      else if epo_download_failed s then map_option (Pair False) (epo_file_update_retry e s) else Some (True, s)
    else Some (False, s))"
    unfolding epo_pass_def not_alarm Let_def by simp
  consider "\<not> qepo_finished e" | "qepo_finished e" "epo_data_updated s" | "qepo_finished e" "\<not> epo_data_updated s" "\<not> epo_download_failed s"
    | "qepo_finished e" "\<not> epo_data_updated s" "epo_download_failed s" by blast
  then show ?thesis
  proof cases
    case 1
    then have "epo_pass e s = Some (False, s)" "\<not> online e" using run by (simp_all add: online_def)
    then show ?thesis using assms(6) rk by blast
  next
    case 2
    obtain s' where "epo_pass e s = Some (False, s')" "download_inv ty P n s'" "room k s'" "work n s' < work n s"
      using update_pass [OF assms(1-6) 2(2,1) assms(7)] by blast
    then show ?thesis by (metis less_imp_le)
  next
    case 3
    then have "epo_pass e s = Some (True, s)" "work n s = 0" using run by (simp_all add: work_def)
    then show ?thesis using assms(6) rk by blast
  next
    case 4
    define s1 where "s1 = s\<lparr>epo_download_failed := False, delay_time := 0\<rparr>"
    have s1: "download_inv ty P n s1" "room k s1" "work n s1 \<le> work n s" "work n s1 < work n s"
      using assms(6) rk 4 by (auto simp: s1_def download_inv_def wanted_def all_pieces_def room_def work_def failures_def)
    define s2 where "s2 = s\<lparr>delay_time := delay_time s + 1\<rparr>"
    have s2: "download_inv ty P n s2" "room k s2"
      using assms(6) rk by (auto simp: s2_def download_inv_def wanted_def all_pieces_def room_def)
    show ?thesis
    proof (cases "(gps_started e \<or> wifi_connected e) \<and> network_connected e \<and> epo_download_retry s")
      case True
      then have "epo_file_update_retry e s = epo_retry_download e s" by (auto simp: epo_file_update_retry_def)
      then show ?thesis
        using run 4 retry_result [OF assms(1-6) 4(3,2)] by (auto intro: less_imp_le)
    next
      case False
      have "epo_file_update_retry e s \<in> {Some s, Some s1, Some s2} \<and>
          (online e \<longrightarrow> epo_file_update_retry e s = Some s \<and> \<not> epo_download_retry s)"
        using False by (auto simp: epo_file_update_retry_def s1_def s2_def online_def)
      then show ?thesis using run 4 s1 s2 assms(6) rk by auto
    qed
  qed
qed

lemma pass_result:
  assumes "room (Suc (Suc k)) s" "serves z ty P n e" "server_data z P b f n" "n \<le> 10" "ty = 0 \<or> ty = 1"
    "download_inv ty P n s"
  shows "\<exists>d s'. epo_pass e s = Some (d, s') \<and> download_inv ty P n s' \<and> room k s' \<and>
    (d \<longrightarrow> \<not> epo_data_updated s' \<and> \<not> epo_download_failed s') \<and>
    (online e \<and> \<not> old_data b e \<longrightarrow> work n s' \<le> work n s \<and> (alarm e \<longrightarrow> d \<or> work n s' < work n s))"
proof (cases "alarm e \<and> retry_timer s")
  case True
  define s0 where "s0 = retry_alarm_timeout_handler s"
  note h = alarm_handler [where s = s, folded s0_def]
  have "\<not> (alarm e \<and> retry_timer s0)" using h(4) by simp
  moreover have "room (Suc (Suc k)) s0" using h(2) assms(1) by blast
  ultimately obtain d s' where d: "epo_pass e s0 = Some (d, s')" "download_inv ty P n s'" "room k s'"
    "d \<longrightarrow> s' = s0 \<and> work n s0 = 0"
    "online e \<and> \<not> old_data b e \<longrightarrow> work n s' \<le> work n s0 \<and> (epo_download_retry s0 \<longrightarrow> d \<or> work n s' < work n s0)"
    using quiet_pass [OF _ assms(2-5) h(1) [OF assms(6)]] by blast
  have "work n s0 = 0 \<Longrightarrow> \<not> epo_data_updated s0 \<and> \<not> epo_download_failed s0"
    using h(1) [OF assms(6)] by (auto simp: work_def failures_def download_inv_def split: if_splits)
  moreover have "epo_pass e s = Some (d, s')" using epo_pass_alarm [of e s] True d(1) by (simp add: s0_def)
  ultimately show ?thesis using d(2-5) h(3,5) by metis
next
  case False
  have "alarm e \<Longrightarrow> epo_download_retry s" using False assms(6) by (auto simp: download_inv_def)
  moreover have "work n s = 0 \<Longrightarrow> \<not> epo_data_updated s \<and> \<not> epo_download_failed s"
    using assms(6) by (auto simp: work_def failures_def download_inv_def split: if_splits)
  ultimately show ?thesis using quiet_pass [OF assms False] by metis
qed

section \<open>Runs\<close>

definition ready :: "epo_state \<Rightarrow> bool" where
  "ready s \<longleftrightarrow> (gps_epo_type s = 0 \<or> gps_epo_type s = 1) \<and> 0 \<le> gps_epo_download_days (epo_config s) \<and>
     gps_epo_download_days (epo_config s) \<le> 30 \<and> retry_time s < 10 \<and> (epo_download_retry s \<or> retry_timer s)"

lemma pieces_bounds: "0 \<le> d \<Longrightarrow> d \<le> 30 \<Longrightarrow> 0 \<le> pieces_of_days d \<and> pieces_of_days d \<le> 10"
proof -
  assume d: "0 \<le> d" "d \<le> 30"
  then have "d sdiv 3 = d div 3" "d smod 3 = d mod 3" by (simp_all add: sdiv_pos)
  moreover have "0 \<le> d div 3" "d div 3 < 10 \<or> d = 30" using d by auto
  ultimately show ?thesis by (auto simp: pieces_of_days_def Let_def)
qed

lemma wanted_bounds: "ready s \<Longrightarrow> 0 < wanted s \<and> wanted s \<le> 10"
  using pieces_bounds [of "gps_epo_download_days (epo_config s)"] by (auto simp: wanted_def ready_def max_def)

lemma start_inv:
  assumes "ready s" "n = wanted s"
  shows "download_inv (gps_epo_type s) P n (epo_start s)"
  using assms wanted_bounds [of s]
  by (auto simp: epo_start_def download_inv_def ready_def wanted_def have_pieces_def unlink_def)

lemma start_work [simp]:
  "room k (epo_start s) = room k s" "work n (epo_start s) = 12 * n + 12"
  "epo_data_updated (epo_start s)" "gps_epo_file_count (epo_start s) = 0"
  by (simp_all add: epo_start_def room_def work_def)

lemma loop_inv:
  assumes "\<forall>e\<in>set es. serves z ty P n e" "server_data z P b f n" "n \<le> 10" "ty = 0 \<or> ty = 1"
    "download_inv ty P n s" "room (2 * length es) s"
  shows "\<exists>d s'. epo_loop es s = Some (d, s') \<and> download_inv ty P n s' \<and>
    (d \<longrightarrow> \<not> epo_data_updated s' \<and> \<not> epo_download_failed s') \<and>
    ((\<forall>e\<in>set es. online e \<and> \<not> old_data b e) \<and> work n s < length (filter alarm es) \<longrightarrow> d)"
  using assms(1,5,6)
proof (induction es arbitrary: s)
  case (Cons e es)
  obtain d s1 where s1: "epo_pass e s = Some (d, s1)" "download_inv ty P n s1" "room (2 * length es) s1"
    "d \<longrightarrow> \<not> epo_data_updated s1 \<and> \<not> epo_download_failed s1"
    "online e \<and> \<not> old_data b e \<longrightarrow> work n s1 \<le> work n s \<and> (alarm e \<longrightarrow> d \<or> work n s1 < work n s)"
    using pass_result [of "2 * length es" s z ty P n e b f] assms(2-4) Cons.prems by auto
  show ?case
  proof (cases d)
    case True
    then have "epo_loop (e # es) s = Some (True, s1)" using s1(1) by simp
    then show ?thesis using s1(2,4) True by blast
  next
    case False
    then have "epo_loop (e # es) s = epo_loop es s1" using s1(1) by simp
    moreover have "\<forall>e\<in>set es. serves z ty P n e" using Cons.prems(1) by simp
    from Cons.IH [OF this s1(2,3)] obtain d' s2 where "epo_loop es s1 = Some (d', s2)" "download_inv ty P n s2"
      "d' \<longrightarrow> \<not> epo_data_updated s2 \<and> \<not> epo_download_failed s2"
      "(\<forall>e\<in>set es. online e \<and> \<not> old_data b e) \<and> work n s1 < length (filter alarm es) \<longrightarrow> d'" by blast
    ultimately show ?thesis using s1(5) False by (cases "alarm e") auto
  qed
next
  case Nil
  then show ?case by (intro exI [of _ False] exI [of _ s]) simp
qed

text \<open>C4. When the server keeps every piece it offers unchanged, each at least one record long, with times that
  can be read and less than a day between one and the next, the file for the AGPS agent holds whole pieces in order when the download ends,
  whatever transfers fail, however often and at whatever point the download is given up. The
  result is failure exactly when some but not all pieces are there; so a download that got nothing reports
  success like a complete one. With a piece that is shorter the file may keep fragments, see \<open>short_piece_kept\<close>.\<close>

theorem whole_pieces:
  assumes "ready s" "n = wanted s" "\<forall>e\<in>set es. serves z (gps_epo_type s) P n e" "server_data z P b f n"
    "room (2 * length es) s" "epo_file_update_impl es s = Some (Some r, s')"
  shows "\<exists>k\<le>n. epo_files s' EPO_UPDATE_HAL = (if k = 0 then None else Some (concat (map P [0..<k]))) \<and>
    r = (if 0 < k \<and> k < n then EPO_DOWNLOAD_RESULT_FAIL else EPO_DOWNLOAD_RESULT_SUCCESS)"
proof -
  have n: "0 < n" "n \<le> 10" using wanted_bounds [OF assms(1)] assms(2) by simp_all
  note st = start_inv [OF assms(1,2)]
  have "room (2 * length es) (epo_start s)" using assms(5) by simp
  from loop_inv [OF assms(3,4) n(2) _ st this] assms(1)
  have "download_inv (gps_epo_type s) P n s'" "\<not> epo_data_updated s'" "\<not> epo_download_failed s'" "r = epo_result s'"
    using assms(6) by (auto simp: epo_file_update_impl_def ready_def split: if_splits)
  then consider "all_pieces P n s'" | "gps_epo_file_count s' < n" "have_pieces (gps_epo_type s) P (gps_epo_file_count s') (epo_files s')"
    unfolding download_inv_def by blast
  then show ?thesis
  proof cases
    case 1
    then show ?thesis using n \<open>r = epo_result s'\<close> by (intro exI [of _ n]) (simp add: all_pieces_def epo_result_def)
  next
    case 2
    then show ?thesis using \<open>r = epo_result s'\<close>
      by (intro exI [of _ "gps_epo_file_count s'"]) (simp add: have_pieces_def epo_result_def)
  qed
qed

text \<open>C5. A download ends when the network is there, the data is less than a day old and the server does not
  change it: after at most \<open>12 * n + 12\<close> runs of the retry timer for \<open>n\<close> pieces, however the transfers fare.\<close>

theorem download_ends:
  assumes "ready s" "n = wanted s" "\<forall>e\<in>set es. serves z (gps_epo_type s) P n e \<and> online e \<and> \<not> old_data b e"
    "server_data z P b f n" "room (2 * length es) s" "12 * n + 12 < length (filter alarm es)"
  shows "\<exists>r s'. epo_file_update_impl es s = Some (Some r, s')"
proof -
  have n: "n \<le> 10" using wanted_bounds [OF assms(1)] assms(2) by simp
  note st = start_inv [OF assms(1,2)]
  have "room (2 * length es) (epo_start s)" using assms(5) by simp
  moreover have "\<forall>e\<in>set es. serves z (gps_epo_type s) P n e" using assms(3) by blast
  moreover have "gps_epo_type s = 0 \<or> gps_epo_type s = 1" using assms(1) by (simp add: ready_def)
  ultimately obtain d s' where "epo_loop es (epo_start s) = Some (d, s')"
    "(\<forall>e\<in>set es. online e \<and> \<not> old_data b e) \<and> work n (epo_start s) < length (filter alarm es) \<longrightarrow> d"
    using loop_inv [OF _ assms(4) n _ st] by blast
  then show ?thesis using assms(3,6) by (auto simp: epo_file_update_impl_def)
qed

section \<open>A download without end\<close>

definition cycling :: "int \<Rightarrow> (nat \<Rightarrow> c_char list) \<Rightarrow> nat \<Rightarrow> epo_state \<Rightarrow> bool" where
  "cycling ty P n s \<longleftrightarrow> download_inv ty P n s \<and> room 6 s \<and>
     (epo_data_updated s \<and> gps_epo_file_count s = 0 \<or>
      epo_data_updated s \<and> gps_epo_file_count s = 1 \<and> epo_counter s = 1 \<or>
      \<not> epo_data_updated s \<and> epo_download_failed s \<and> gps_epo_file_count s = 1)"

lemma cycling_quiet:
  assumes "cycling ty P n s" "serves z ty P n e" "server_data z P b f n" "2 \<le> n" "n \<le> 10" "ty = 0 \<or> ty = 1" "online e"
    "old_data b e" "fe_lock (ee_file e)" "always_ok ty P 0 e" "never_ok ty 1 e" "\<not> (alarm e \<and> retry_timer s)"
  shows "\<exists>s'. epo_pass e s = Some (False, s') \<and> cycling ty P n s'"
proof -
  have inv: "download_inv ty P n s" and room: "room (Suc (Suc 4)) s" using assms(1) by (simp_all add: cycling_def)
  have q: "qepo_finished e" using assms(7) by (simp add: online_def)
  consider "epo_data_updated s" "gps_epo_file_count s = 0" | "epo_data_updated s" "gps_epo_file_count s = 1" "epo_counter s = 1"
    | "\<not> epo_data_updated s" "epo_download_failed s" "gps_epo_file_count s = 1"
    using assms(1) by (auto simp: cycling_def)
  then show ?thesis
  proof cases
    case 1
    then obtain s' where "epo_pass e s = Some (False, s')" "download_inv ty P n s'" "epo_data_updated s'"
      "gps_epo_file_count s' = 1" "epo_counter s' = 1"
      using update_pass [OF room assms(2,3,5,6) inv 1(1) q assms(12)] assms(4,10) by auto
    then show ?thesis by (auto simp: cycling_def room_def)
  next
    case 2
    have "room (Suc (Suc 6)) s" using 2(3) by (simp add: room_def)
    then obtain s' where "epo_pass e s = Some (False, s')" "download_inv ty P n s'" "room 6 s'" "epo_download_failed s'"
      "\<not> epo_data_updated s'" "gps_epo_file_count s' = 1"
      using update_pass [OF _ assms(2,3,5,6) inv 2(1) q assms(12)] assms(11) 2(2) by fastforce
    then show ?thesis by (auto simp: cycling_def)
  next
    case 3
    have not_alarm: "(if alarm e \<and> retry_timer s then retry_alarm_timeout_handler s else s) = s" using assms(12) by (rule if_not_P)
    have run: "epo_pass e s = map_option (Pair False) (epo_file_update_retry e s)"
      unfolding epo_pass_def not_alarm Let_def using 3(1,2) q by simp
    show ?thesis
    proof (cases "epo_download_retry s")
      case True
      then have "epo_file_update_retry e s = epo_retry_download e s" using assms(7) by (auto simp: epo_file_update_retry_def online_def)
      moreover obtain s' where "epo_retry_download e s = Some s'" "download_inv ty P n s'" "epo_data_updated s'"
        "gps_epo_file_count s' = 0" "epo_counter s' = epo_counter s"
        using retry_result [OF room assms(2,3,5,6) inv 3(2,1)] 3(3) assms(8,9) by auto
      ultimately show ?thesis using run room by (auto simp: cycling_def room_def)
    next
      case False
      then have "epo_file_update_retry e s = Some s" using assms(7) by (auto simp: epo_file_update_retry_def online_def)
      then show ?thesis using run assms(1) by simp
    qed
  qed
qed

lemma cycling_pass:
  assumes "cycling ty P n s" "serves z ty P n e" "server_data z P b f n" "2 \<le> n" "n \<le> 10" "ty = 0 \<or> ty = 1" "online e"
    "old_data b e" "fe_lock (ee_file e)" "always_ok ty P 0 e" "never_ok ty 1 e"
  shows "\<exists>s'. epo_pass e s = Some (False, s') \<and> cycling ty P n s'"
proof (cases "alarm e \<and> retry_timer s")
  case True
  define s0 where "s0 = retry_alarm_timeout_handler s"
  have "gps_epo_file_count s0 = gps_epo_file_count s" "epo_counter s0 = epo_counter s"
    by (simp_all add: s0_def retry_alarm_timeout_handler_def)
  then have "cycling ty P n s0"
    using assms(1) alarm_handler [where s = s] by (simp add: cycling_def s0_def)
  moreover have "\<not> (alarm e \<and> retry_timer s0)" by (simp add: s0_def retry_alarm_timeout_handler_def)
  ultimately show ?thesis
    using cycling_quiet [OF _ assms(2-11), of s0] epo_pass_alarm [of e s] True by (simp add: s0_def)
next
  case False
  then show ?thesis by (rule cycling_quiet [OF assms])
qed

text \<open>C28. A download does not end when the server's data is more than a day old, its first piece
  can be had and its second cannot: every retry begins with the first piece, which counts as success and leaves the
  failures uncounted.\<close>

theorem download_never_ends:
  assumes "ready s" "n = wanted s" "serves z (gps_epo_type s) P n e" "server_data z P b f n" "2 \<le> n" "online e"
    "old_data b e" "fe_lock (ee_file e)" "always_ok (gps_epo_type s) P 0 e" "never_ok (gps_epo_type s) 1 e" "room 6 s"
  shows "\<exists>s'. epo_file_update_impl (replicate m e) s = Some (None, s')"
proof -
  have n: "n \<le> 10" using wanted_bounds [OF assms(1)] assms(2) by simp
  have ty: "gps_epo_type s = 0 \<or> gps_epo_type s = 1" using assms(1) by (simp add: ready_def)
  have "\<exists>s'. epo_loop (replicate m e) t = Some (False, s')" if "cycling (gps_epo_type s) P n t" for t
    using that
  proof (induction m arbitrary: t)
    case (Suc m)
    from cycling_pass [OF Suc.prems assms(3-5) n ty assms(6-10)] Suc.IH show ?case by auto
  qed simp
  moreover have "cycling (gps_epo_type s) P n (epo_start s)"
    using start_inv [OF assms(1,2)] assms(11) by (simp add: cycling_def)
  ultimately obtain s' where "epo_loop (replicate m e) (epo_start s) = Some (False, s')" by blast
  then show ?thesis by (simp add: epo_file_update_impl_def)
qed

section \<open>A piece that is too short\<close>

text \<open>A piece after the first that arrives without a whole record is appended to the file for the
  agent all the same, and then downloaded again: every try leaves another copy in the file.\<close>

theorem short_piece_kept:
  assumes "serves z ty P i e" "server_data z P b f i" "0 < i" "i < 10" "ty = 0 \<or> ty = 1" "gps_epo_type s = ty"
    "gps_epo_file_count s = i" "\<forall>j<i. epo_files s (piece_path ty j) = Some (P j)" "0 \<le> f (i - 1)"
    "epo_files s EPO_UPDATE_HAL = Some h" "always_ok ty (\<lambda>_. d) i e" "length d < MTK_EPO_ONE_SV_SIZE" "room 2 s"
  shows "\<exists>s'. mtk_gps_epo_file_update e (gps_download_epo_file_name i s) = Some (- 1, s') \<and>
    epo_files s' EPO_UPDATE_HAL = Some (h @ d) \<and> gps_epo_file_count s' = i \<and> epo_download_failed s'"
proof -
  define s0 where "s0 = gps_download_epo_file_name i s"
  have i: "i < 10" "i - 1 < 10" using assms(4) by simp_all
  have s0: "s0 = s\<lparr>gps_epo_file_name := fst (piece_names ty ! i), gps_epo_md_file_name := snd (piece_names ty ! i)\<rparr>"
    unfolding s0_def by (rule names_of_piece [OF assms(6,5) i(1)])
  have opens: "fe_opens (ee_file e) q" and z: "fe_zone (ee_file e) = z" for q using assms(1) by (simp_all add: serves_def)
  obtain url where url: "get_url e (gps_epo_md_file_name s0) (request_key no_md (epo_counter s0)) = Some url"
    using assms(11) unfolding always_ok_def by blast
  have "room (Suc 1) s0" using assms(13) by (simp add: s0 numeral_2_eq_2)
  then obtain md s1 where s1: "fetch_md e url s0 = Some (md, s1)" "core s1 = core s0" "gps_epo_file_name s1 = gps_epo_file_name s0"
    "\<forall>p. p \<noteq> md_path ty i \<longrightarrow> epo_files s1 p = epo_files s p"
    using fetch_md_result [of 1 s0 e url] by (auto simp: s0 md_path_def)
  obtain url' where url': "get_url e (gps_epo_file_name s1) (request_key md (epo_counter s1)) = Some url'"
    using assms(11) unfolding always_ok_def by blast
  note p = piece_path_other [OF i(1), of ty]
  define s2 where "s2 = s1\<lparr>epo_counter := 1, epo_files := (epo_files s1)(piece_path ty i \<mapsto> d, EPO_UPDATE_HAL \<mapsto> h @ d)\<rparr>"
  have c1: "gps_epo_file_count s1 = i" "gps_epo_type s1 = ty" using coreD(1,5) [OF s1(2)] assms(6,7) by (simp_all add: s0)
  have "epo_files s1 EPO_UPDATE_HAL = Some h" using s1(4) p(3) assms(10) by metis
  then have "fetch_piece e url' s1 = Some (0, s2)"
    using assms(3,11) c1 p(1) opens
    by (simp add: fetch_piece_def s1(3) s0 piece_path_def [symmetric] always_ok_def curl_easy_download_def append_piece_def
        open_read_def copy_loop_append s2_def Let_def)
  then have dl: "mtk_gps_epo_file_update_hal e s0 = Some (0, s2)"
    using url url' s1(1) by (simp add: mtk_gps_epo_file_update_hal_def curl_easy_download_epo_def)
  define s3 where "s3 = s2\<lparr>epo_download_failed := True\<rparr>"
  have name: "gps_epo_file_name s2 = fst (piece_names ty ! i)" using s1(3) by (simp add: s2_def s0)
  have "epo_files s2 (piece_path ty i) = Some d" using p(1) by (simp add: s2_def)
  then have start: "start_of_piece e s2 = Some (0, 1, s3)"
    using assms(12) opens \<open>epo_files s2 (piece_path ty i) = Some d\<close>
    by (simp add: start_of_piece_def name piece_path_def [symmetric] open_read_def mtk_gps_epo_piece_data_start_def piece_time_def s3_def)
  define j where "j = i - 1"
  have j: "j < i" "i = Suc j" using assms(3) by (simp_all add: j_def)
  have j10: "j < 10" "j \<noteq> i" using i(1) j by simp_all
  define s4 where "s4 = gps_download_epo_file_name j s3"
  have s4: "s4 = s3\<lparr>gps_epo_file_name := fst (piece_names ty ! j), gps_epo_md_file_name := snd (piece_names ty ! j)\<rparr>"
    unfolding s4_def by (rule names_of_piece [OF _ assms(5) j10(1)]) (use c1(2) in \<open>simp add: s3_def s2_def\<close>)
  have "epo_files s1 (piece_path ty j) = Some (P j)"
    using s1(4) piece_path_eq(2) [OF j10(1) i(1), of ty] assms(8) j(1) by metis
  then have stored: "epo_files s4 (piece_path ty j) = Some (P j)"
    using piece_path_eq(1) [OF j10(1) i(1), of ty] piece_path_other(1) [OF j10(1), of ty] j10(2) by (simp add: s4 s3_def s2_def)
  have ok: "piece_ok z (P j) (b j) (f j)" using assms(2) j(1) by (simp add: server_data_def)
  have "mtk_gps_epo_piece_data_end z s4 (P j) = Some (Some (f j))"
    using ok stored by (simp add: mtk_gps_epo_piece_data_end_def mtk_gps_epo_get_piece_file_size_def s4 piece_path_def [symmetric] piece_ok_def)
  moreover have "open_read (ee_file e) (epo_files s4) (data_path (gps_epo_file_name s4)) = Some (P j)"
    using stored opens by (simp add: s4 piece_path_def open_read_def)
  moreover have "gps_epo_file_count s3 = Suc j" using c1(1) j(2) by (simp add: s3_def s2_def)
  ultimately have "end_of_previous e 0 1 s3 = Some (f j, 1, s4)"
    by (simp add: end_of_previous_def s4_def [symmetric] z piece_time_def)
  moreover have "\<not> 24 * 60 * 60 + f j \<le> 0" using assms(9) by (simp add: j_def)
  ultimately have "mtk_gps_epo_server_data_is_changed e s2 = Some (1, s4)"
    using start ok by (simp add: mtk_gps_epo_server_data_is_changed_def piece_ok_def)
  then have "mtk_gps_epo_file_update e s0 = Some (- 1, s4)" using dl by (simp add: mtk_gps_epo_file_update_def)
  then show ?thesis using c1 by (simp add: s0_def [symmetric] s4 s3_def s2_def)
qed

section \<open>Witnesses\<close>

text \<open>Two pieces of one record each, six hours apart, on 6 May 2018; the second may be had or not.\<close>

definition utc :: zone where
  "utc = \<lparr>std_offset = 0, dst = (\<lambda>_. False)\<rparr>"

definition demo_piece :: "nat \<Rightarrow> c_char list" where
  "demo_piece i = [if i = 0 then 128 else 134, 0x20, 0x05, 0] @ replicate 68 0"

definition demo_start :: "nat \<Rightarrow> int" where
  "demo_start i = (if i = 0 then 1525564800 else 1525586400)"

definition demo_env :: "int \<Rightarrow> transfer \<Rightarrow> epo_env" where
  "demo_env now second = \<lparr>ee_file = \<lparr>fe_now = now, fe_zone = utc, fe_opens = (\<lambda>_. True), fe_lock = True, fe_mtime = (\<lambda>_. 0)\<rparr>,
     get_url = (\<lambda>_ _. Some []),
     fetch = (\<lambda>url p. if p = piece_path 0 0 then Transfer (demo_piece 0) 0
                      else if p = piece_path 0 1 then second else Transfer [] 7),
     qepo_finished = True, gps_started = True, wifi_connected = False, network_connected = True, alarm = True\<rparr>"

definition demo_state :: epo_state where
  "demo_state = epo_init\<lparr>epo_config := \<lparr>gps_epo_enable = 1, gps_epo_download_days = 6, gps_epo_wifi_trigger = 0\<rparr>\<rparr>"

lemma mktime_utc:
  assumes "in_int t = Some t" "b = - 1 \<or> b = 0"
  shows "fst (mktime utc ((gmtime t)\<lparr>tm_isdst := b\<rparr>)) = t"
proof -
  have "timegm ((gmtime t)\<lparr>tm_isdst := b\<rparr>) = timegm (gmtime t)" by (simp add: timegm_def)
  also have "\<dots> = t" by (rule timegm_gmtime) (use assms(1) in \<open>simp add: in_int_def days_before_year_def split: if_splits\<close>)
  finally show ?thesis using assms by (auto simp: mktime_def utc_def)
qed

lemma epo_time_utc:
  assumes "uint w < 1831000000"
  shows "epo_time utc w = Some (315964800 + uint w)"
proof -
  define wn tow where "wn = uint (w div 604800)" and "tow = uint (w mod 604800)"
  have wt: "wn = uint w div 604800" "tow = uint w mod 604800" by (simp_all add: wn_def tow_def uint_div_distrib uint_mod_distrib)
  have "604800 * wn + tow = uint w" unfolding wt by (rule mult_div_mod_eq)
  then have m: "gps_moment wn tow = 315964800 + uint w" by (simp add: gps_moment_def)
  have "0 \<le> wn" "wn < 2 ^ 28" "0 \<le> tow" "tow < 2 ^ 31 - 86400" using assms by (simp_all add: wt pos_imp_zdiv_nonneg_iff)
  then have "epo_time utc w = Some (fst (mktime utc ((gmtime (315964800 + uint w))\<lparr>tm_isdst := - 1\<rparr>)))"
    using gps_time_calendar [of wn tow utc] by (simp add: epo_time_def wn_def [symmetric] tow_def [symmetric] m)
  also have "\<dots> = Some (315964800 + uint w)" using assms by (subst mktime_utc) (simp_all add: in_int_def)
  finally show ?thesis .
qed

lemma demo_times:
  "epo_time utc (epo_seconds (demo_piece i)) = Some (demo_start i)"
  "epo_time utc (epo_seconds (demo_piece i) + 21600) = Some (demo_start i + 21600)"
proof -
  have "epo_seconds (demo_piece i) = (if i = 0 then 1209600000 else 1209621600)"
    by (simp add: epo_seconds_def demo_piece_def le32_def)
  then show "epo_time utc (epo_seconds (demo_piece i)) = Some (demo_start i)"
    "epo_time utc (epo_seconds (demo_piece i) + 21600) = Some (demo_start i + 21600)"
    using epo_time_utc [of "epo_seconds (demo_piece i)"] epo_time_utc [of "epo_seconds (demo_piece i) + 21600"]
    by (simp_all add: demo_start_def split: if_splits)
qed

lemma demo_pieces:
  "piece_ok utc (demo_piece i) (demo_start i) (demo_start i + 21600)"
  "server_data utc demo_piece demo_start (\<lambda>i. demo_start i + 21600) 2"
proof -
  have len: "length (demo_piece i) = 72" for i by (simp add: demo_piece_def)
  show ok: "piece_ok utc (demo_piece i) (demo_start i) (demo_start i + 21600)" for i
    using demo_times [of i] len [of i]
    by (simp add: piece_ok_def mtk_gps_epo_piece_data_start_def period_end_def) (simp add: demo_start_def in_int_def)
  show "server_data utc demo_piece demo_start (\<lambda>i. demo_start i + 21600) 2"
    using ok by (simp add: server_data_def) (simp add: demo_start_def)
qed

lemma demo_serves:
  assumes "\<forall>d. second = Transfer d 0 \<longrightarrow> d = demo_piece 1"
  shows "serves utc 0 demo_piece 2 (demo_env now second)"
  using assms piece_path_eq(1) [of 1 0 0] by (auto simp: serves_def demo_env_def less_2_cases_iff numeral_2_eq_2 less_Suc_eq)

lemma demo_ready: "ready demo_state" "wanted demo_state = 2" "gps_epo_type demo_state = 0" "room k demo_state \<longleftrightarrow> k < 2 ^ 31 - 1"
  by (auto simp: ready_def demo_state_def epo_init_def wanted_def pieces_of_days_def room_def sdiv_pos)

lemma demo_online: "online (demo_env now second)" "alarm (demo_env now second)" "fe_lock (ee_file (demo_env now second))"
  by (simp_all add: online_def demo_env_def)

lemma demo_old:
  assumes "in_int now = Some now"
  shows "old_data demo_start (demo_env now second) \<longleftrightarrow> 1525651200 \<le> now"
proof -
  have "time_utc (ee_file (demo_env now second)) = fst (mktime utc ((gmtime now)\<lparr>tm_isdst := 0\<rparr>))"
    by (simp add: time_utc_def demo_env_def gmtime_def Let_def split: prod.split)
  also have "\<dots> = now" using assms by (rule mktime_utc) simp
  finally show ?thesis by (simp add: old_data_def demo_start_def)
qed

text \<open>A run that gets the first piece only.\<close>

lemma demo_run:
  "\<exists>r s'. epo_file_update_impl (replicate 40 (demo_env 1525570000 (Transfer [] 7))) demo_state = Some (Some r, s')"
proof -
  define e where "e = demo_env 1525570000 (Transfer [] 7)"
  have "serves utc 0 demo_piece 2 e" "\<not> old_data demo_start e"
    using demo_serves [of "Transfer [] 7"] demo_old [of 1525570000 "Transfer [] 7"] by (simp_all add: e_def in_int_def)
  then obtain s' where "epo_loop (replicate 40 e) (epo_start demo_state) = Some (True, s')"
    using loop_inv [of "replicate 40 e" utc 0 demo_piece 2 demo_start "\<lambda>i. demo_start i + 21600" "epo_start demo_state"]
      demo_pieces(2) start_inv [OF demo_ready(1) demo_ready(2) [symmetric], of demo_piece]
      demo_online [of 1525570000 "Transfer [] 7", folded e_def] demo_ready
    by auto
  then show ?thesis by (simp add: epo_file_update_impl_def e_def)
qed

theorem whole_pieces_witness:
  "\<exists>r s'. epo_file_update_impl (replicate 40 (demo_env 1525570000 (Transfer [] 7))) demo_state = Some (Some r, s') \<and>
    (\<exists>k\<le>2. epo_files s' EPO_UPDATE_HAL = (if k = 0 then None else Some (concat (map demo_piece [0..<k]))) \<and>
      r = (if 0 < k \<and> k < 2 then EPO_DOWNLOAD_RESULT_FAIL else EPO_DOWNLOAD_RESULT_SUCCESS))"
proof -
  obtain r s' where run: "epo_file_update_impl (replicate 40 (demo_env 1525570000 (Transfer [] 7))) demo_state = Some (Some r, s')"
    using demo_run by blast
  have "serves utc 0 demo_piece 2 (demo_env 1525570000 (Transfer [] 7))" by (rule demo_serves) simp
  then show ?thesis
    using whole_pieces [OF demo_ready(1) demo_ready(2) [symmetric] _ demo_pieces(2) _ run] run by (auto simp: demo_ready)
qed

theorem download_ends_witness:
  "\<exists>r s'. epo_file_update_impl (replicate 40 (demo_env 1525570000 (Transfer (demo_piece 1) 0))) demo_state = Some (Some r, s')"
proof (rule download_ends [OF demo_ready(1) demo_ready(2) [symmetric] _ demo_pieces(2)])
  show "\<forall>e\<in>set (replicate 40 (demo_env 1525570000 (Transfer (demo_piece 1) 0))).
      serves utc (gps_epo_type demo_state) demo_piece 2 e \<and> online e \<and> \<not> old_data demo_start e"
    using demo_serves [of "Transfer (demo_piece 1) 0"] demo_old [of 1525570000 "Transfer (demo_piece 1) 0"] demo_online demo_ready
    by (simp add: in_int_def)
qed (simp_all add: demo_ready demo_online)

theorem download_never_ends_witness:
  "\<exists>s'. epo_file_update_impl (replicate 1000000 (demo_env 1525660000 (Transfer [] 7))) demo_state = Some (None, s')"
proof (rule download_never_ends [OF demo_ready(1) demo_ready(2) [symmetric] _ demo_pieces(2)])
  show "serves utc (gps_epo_type demo_state) demo_piece 2 (demo_env 1525660000 (Transfer [] 7))"
    using demo_serves [of "Transfer [] 7"] demo_ready by simp
  show "always_ok (gps_epo_type demo_state) demo_piece 0 (demo_env 1525660000 (Transfer [] 7))"
    by (simp add: always_ok_def demo_env_def demo_ready)
  show "never_ok (gps_epo_type demo_state) 1 (demo_env 1525660000 (Transfer [] 7))"
    using piece_path_eq(1) [of 1 0 0] by (simp add: never_ok_def demo_env_def demo_ready)
qed (simp_all add: demo_ready demo_online demo_old in_int_def)

theorem short_piece_kept_witness:
  "\<exists>s'. mtk_gps_epo_file_update (demo_env 1525570000 (Transfer [1] 0)) (gps_download_epo_file_name 1
      (demo_state\<lparr>gps_epo_file_count := 1, epo_files := [piece_path 0 0 \<mapsto> demo_piece 0, EPO_UPDATE_HAL \<mapsto> demo_piece 0]\<rparr>)) =
      Some (- 1, s') \<and>
    epo_files s' EPO_UPDATE_HAL = Some (demo_piece 0 @ [1]) \<and> gps_epo_file_count s' = 1 \<and> epo_download_failed s'"
proof (rule short_piece_kept [where z = utc and ty = 0 and P = demo_piece and b = demo_start and
      f = "\<lambda>i. demo_start i + 21600"])
  show "serves utc 0 demo_piece 1 (demo_env 1525570000 (Transfer [1] 0))"
    using piece_path_eq(1) [of 1 0 0] by (auto simp: serves_def demo_env_def)
  show "server_data utc demo_piece demo_start (\<lambda>i. demo_start i + 21600) 1"
    using demo_pieces by (simp add: server_data_def)
  show "always_ok 0 (\<lambda>_. [1]) 1 (demo_env 1525570000 (Transfer [1] 0))"
    using piece_path_eq(1) [of 1 0 0] by (simp add: always_ok_def demo_env_def)
qed (use piece_path_other [of 0 0] in \<open>simp_all add: demo_state_def epo_init_def demo_start_def room_def\<close>)

section \<open>The settings\<close>

definition settings_ok :: "epo_config \<Rightarrow> bool" where
  "settings_ok c \<longleftrightarrow> gps_epo_enable c \<in> {0, 1} \<and> gps_epo_wifi_trigger c \<in> {0, 1} \<and>
     0 \<le> gps_epo_download_days c \<and> gps_epo_download_days c \<le> MTK_EPO_MAX_DAY"

lemma set_config_ok: "epo_set_config key val c = Some c' \<Longrightarrow> settings_ok c \<Longrightarrow> settings_ok c'"
  by (cases c) (auto simp: epo_set_config_def settings_ok_def bind_eq_Some_conv split: if_splits)

lemma config_lines_ok: "config_lines d c = Some c' \<Longrightarrow> settings_ok c \<Longrightarrow> settings_ok c'"
proof (induction d c rule: config_lines.induct)
  case (1 d c)
  define x where "x = get_val (takeWhile (\<lambda>ch. ch \<noteq> 0) (fst (fgets GPS_CONF_FILE_SIZE d)))"
  consider "d = [] \<or> x = None" | "d \<noteq> []" "x = Some None" | key val where "d \<noteq> []" "x = Some (Some (key, val))"
    by (metis option.exhaust prod.exhaust)
  then show ?case
  proof cases
    case 1
    then show ?thesis using "1.prems" x_def by (auto simp: config_lines.simps [of d c] split: if_splits)
  next
    case 2
    then show ?thesis using "1.prems" "1.IH"(1) x_def by (simp add: config_lines.simps [of d c])
  next
    case 3
    then obtain c1 where "epo_set_config key val c = Some c1" "config_lines (snd (fgets GPS_CONF_FILE_SIZE d)) c1 = Some c'"
      using "1.prems"(1) x_def by (auto simp: config_lines.simps [of d c] bind_eq_Some_conv)
    with 3 show ?thesis using "1.IH"(2) [OF _ _ refl refl] set_config_ok [OF _ "1.prems"(2)] x_def by simp
  qed
qed

text \<open>C40. Whatever the configuration file holds, the settings read from it are in their ranges, and a
  download asks for at most the ten pieces there are names for.\<close>

theorem settings_in_range:
  assumes "settings_ok c" "epo_read_cust_config e fs c = Some c'"
  shows "settings_ok c' \<and> 0 \<le> pieces_of_days (gps_epo_download_days c') \<and> pieces_of_days (gps_epo_download_days c') \<le> 10"
proof -
  have "settings_ok c'" using assms config_lines_ok by (auto simp: epo_read_cust_config_def split: option.splits)
  then show ?thesis using pieces_bounds by (simp add: settings_ok_def)
qed

text \<open>A file that asks for 99 days.\<close>

definition days_file :: "c_char list" where
  "days_file = ascii ''DW_DAYS=99'' @ [10] @ ascii ''EPO_ENABLE=0'' @ [10]"

lemma days_file_read:
  "epo_read_cust_config \<lparr>fe_now = 0, fe_zone = utc, fe_opens = (\<lambda>_. True), fe_lock = True, fe_mtime = (\<lambda>_. 0)\<rparr>
     [EPO_CONTROL_FILE_PATH \<mapsto> days_file] (epo_config epo_init) =
     Some \<lparr>gps_epo_enable = 0, gps_epo_download_days = 9, gps_epo_wifi_trigger = 0\<rparr>"
  by code_simp

theorem settings_in_range_witness:
  "\<exists>c. epo_read_cust_config \<lparr>fe_now = 0, fe_zone = utc, fe_opens = (\<lambda>_. True), fe_lock = True, fe_mtime = (\<lambda>_. 0)\<rparr>
     [EPO_CONTROL_FILE_PATH \<mapsto> days_file] (epo_config epo_init) = Some c \<and>
   settings_ok c \<and> 0 \<le> pieces_of_days (gps_epo_download_days c) \<and> pieces_of_days (gps_epo_download_days c) \<le> 10"
  using settings_in_range [OF _ days_file_read] days_file_read by (simp add: settings_ok_def epo_init_def)

end
