(* ===== verification/Qepo.thy ===== *)
theory Qepo
  imports Epo
begin

text \<open>
  The downloader of quarter EPO data, \<^verbatim>\<open>mnld_entity/src/qepo.c\<close>: one file covers six hours of a day. The
  file is chosen by the time of day, checked against the time of the receiver, and downloaded again up to ten times.
  \<open>None\<close> is undefined behaviour, an error of a function is a value.
\<close>

section \<open>State\<close>

abbreviation QEPO_UPDATE_HAL :: string where "QEPO_UPDATE_HAL \<equiv> ''/data/misc/gps/QEPOHAL.DAT''"
abbreviation QUARTER_FILE_HAL :: string where "QUARTER_FILE_HAL \<equiv> ''/data/misc/gps/QEPOHAL.DAT''"
abbreviation CURLE_RECV_ERROR :: int where "CURLE_RECV_ERROR \<equiv> 56"
abbreviation MTK_QEPO_RSP_UPDATE_SUCCESS :: int where "MTK_QEPO_RSP_UPDATE_SUCCESS \<equiv> 0"
abbreviation MTK_QEPO_RSP_UPDATE_FAIL :: int where "MTK_QEPO_RSP_UPDATE_FAIL \<equiv> 1"
abbreviation MTK_QEPO_RSP_DOWNLOAD_FAIL :: int where "MTK_QEPO_RSP_DOWNLOAD_FAIL \<equiv> 2"

record qepo_state =
  quarter_epo_file_name :: string
  quarter_epo_md_file_name :: string
  gps_time_wn :: int
  gps_time_tow :: int
  gps_time_sys_time :: int
  qepo_download_finished :: bool
  qepo_type :: int
  pre_day :: bool
  server_not_updated :: bool
  Qepo_res :: int
  qepo_counter :: int
  qepo_files :: files

definition gps_mnl_set_gps_time :: "int \<Rightarrow> int \<Rightarrow> int \<Rightarrow> qepo_state \<Rightarrow> qepo_state" where
  "gps_mnl_set_gps_time wn tow sys_time s =
     s\<lparr>gps_time_wn := wn, gps_time_tow := tow, gps_time_sys_time := sys_time\<rparr>"

section \<open>One download\<close>

definition quarter_names :: "(string \<times> string) list" where
  "quarter_names = [(''QG_R_1.DAT'', ''QG_R_1.MD5''), (''QG_R_2.DAT'', ''QG_R_2.MD5''),
     (''QG_R_3.DAT'', ''QG_R_3.MD5''), (''QG_R_4.DAT'', ''QG_R_4.MD5''), (''QG_R_5.DAT'', ''QG_R_5.MD5'')]"

text \<open>The same names for both types.\<close>

definition gps_download_quarter_epo_file_name :: "nat \<Rightarrow> qepo_state \<Rightarrow> qepo_state" where
  "gps_download_quarter_epo_file_name i s =
     (if (qepo_type s = 1 \<or> qepo_type s = 0) \<and> 1 \<le> i \<and> i \<le> 5
      then s\<lparr>quarter_epo_file_name := fst (quarter_names ! (i - 1)),
             quarter_epo_md_file_name := snd (quarter_names ! (i - 1))\<rparr>
      else s)"

definition quarter_md :: "epo_env \<Rightarrow> c_char list \<Rightarrow> qepo_state \<Rightarrow> (c_char list \<times> qepo_state) option" where
  "quarter_md e url s =
     (let path = data_path (quarter_epo_md_file_name s);
          (res, fs) = curl_easy_download (fetch e url path) path (qepo_files s);
          s = s\<lparr>qepo_files := fs\<rparr>
      in if res = 0 then
           case open_read (ee_file e) fs path of
             None \<Rightarrow> Some (no_md, s\<lparr>qepo_counter := 1\<rparr>)
           | Some d \<Rightarrow> Some (md_key d, s\<lparr>qepo_files := unlink path fs, qepo_counter := 1\<rparr>)
         else do { c \<leftarrow> in_int (qepo_counter s + 1); Some (no_md, s\<lparr>qepo_counter := c\<rparr>) })"

definition quarter_data :: "epo_env \<Rightarrow> c_char list \<Rightarrow> qepo_state \<Rightarrow> (int \<times> qepo_state) option" where
  "quarter_data e url s =
     (let (res, fs) = curl_easy_download (fetch e url QUARTER_FILE_HAL) QUARTER_FILE_HAL (qepo_files s);
          s = s\<lparr>qepo_files := fs, Qepo_res := res\<rparr>
      in if res = 0 then Some (res, s\<lparr>qepo_counter := 1\<rparr>)
         else do { c \<leftarrow> in_int (qepo_counter s + 1); Some (res, s\<lparr>qepo_counter := c\<rparr>) })"

definition curl_easy_download_quarter_epo :: "epo_env \<Rightarrow> qepo_state \<Rightarrow> (int \<times> qepo_state) option" where
  "curl_easy_download_quarter_epo e s =
     (case get_url e (quarter_epo_md_file_name s) (request_key no_md (qepo_counter s)) of
        None \<Rightarrow> Some (CURLE_FAILED_INIT, s)
      | Some url \<Rightarrow> do {
          (md, s) \<leftarrow> quarter_md e url s;
          case get_url e (quarter_epo_file_name s) (request_key md (qepo_counter s)) of
            None \<Rightarrow> Some (CURLE_FAILED_INIT, s)
          | Some url \<Rightarrow> quarter_data e url s
        })"

text \<open>The file for a second of the day.\<close>

definition quarter_index :: "bool \<Rightarrow> int \<Rightarrow> nat" where
  "quarter_index not_updated SecofDay =
     (if SecofDay > 300 \<and> SecofDay \<le> 21900 then 1
      else if SecofDay > 21900 \<and> SecofDay \<le> 43500 then 2
      else if SecofDay > 43500 \<and> SecofDay \<le> 65100 then 3
      else if SecofDay > 65100 \<and> SecofDay \<le> 85500 then 4
      else if SecofDay \<le> 300 \<or> SecofDay > 85500 then (if not_updated then 4 else 5)
      else 1)"

definition quarter_epo_download_process :: "epo_env \<Rightarrow> qepo_state \<Rightarrow> qepo_state option" where
  "quarter_epo_download_process e s =
     (let i = quarter_index (server_not_updated s) (gps_time_tow s smod 86400);
          i = (if pre_day s then 5 else i)
      in map_option snd (curl_easy_download_quarter_epo e (gps_download_quarter_epo_file_name i s)))"

section \<open>Is the file valid?\<close>

definition is_quarter_epo_valid :: "file_env \<Rightarrow> qepo_state \<Rightarrow> (int \<times> qepo_state) option" where
  "is_quarter_epo_valid e s =
     (case open_read e (qepo_files s) QUARTER_FILE_HAL of
        None \<Rightarrow> Some (EPO_DOWNLOAD_RESULT_FAIL, s)
      | Some d \<Rightarrow> do {
          t \<leftarrow> mtk_gps_sys_epo_period_start (fe_zone e) d;
          case t of
            None \<Rightarrow> Some (EPO_DOWNLOAD_RESULT_FAIL, s)
          | Some uSecond_start \<Rightarrow> do {
              mnl_time \<leftarrow> GpsToUtcTime (fe_zone e) (gps_time_wn s) (d_of_int (gps_time_tow s));
              file_end \<leftarrow> in_int (6 * 60 * 60 + uSecond_start);
              if uSecond_start \<le> mnl_time \<and> mnl_time < file_end then Some (EPO_DOWNLOAD_RESULT_SUCCESS, s)
              else do {
                before \<leftarrow> in_int (18 * 60 * 60 + mnl_time);
                after \<leftarrow> in_int (24 * 60 * 60 + uSecond_start);
                Some (EPO_DOWNLOAD_RESULT_FAIL,
                  s\<lparr>pre_day := before \<le> uSecond_start, server_not_updated := after \<le> mnl_time\<rparr>)
              }
            }
        })"

section \<open>The download\<close>

text \<open>The loop after \<open>k + 1\<close> downloads, of which number \<open>k\<close> has met \<open>ev k\<close>, with \<open>try_time\<close> retries left. Each
  download is one of the MD5 file and one of the data.\<close>

fun qepo_retries :: "(nat \<Rightarrow> epo_env) \<Rightarrow> nat \<Rightarrow> nat \<Rightarrow> qepo_state \<Rightarrow> (int \<times> qepo_state) option" where
  "qepo_retries ev k try_time s = do {
     (qepo_valid, s) \<leftarrow> is_quarter_epo_valid (ee_file (ev k)) s;
     if qepo_valid = EPO_DOWNLOAD_RESULT_FAIL \<and> 0 < try_time \<and> network_connected (ev k) then do {
       s \<leftarrow> quarter_epo_download_process (ev (k + 1)) s;
       qepo_retries ev (k + 1) (try_time - 1) s
     }
     else Some (qepo_valid, s)
   }"

declare qepo_retries.simps [simp del]

definition qepo_file_update_impl :: "(nat \<Rightarrow> epo_env) \<Rightarrow> qepo_state \<Rightarrow> (int \<times> qepo_state) option" where
  "qepo_file_update_impl ev s = do {
     s \<leftarrow> quarter_epo_download_process (ev 0) s;
     (qepo_valid, s) \<leftarrow> qepo_retries ev 0 10 s;
     Some (qepo_valid, if server_not_updated s then s\<lparr>Qepo_res := CURLE_RECV_ERROR\<rparr> else s)
   }"

section \<open>The result\<close>

text \<open>The download and the report to the main thread.\<close>

definition mnld_qepo_download :: "(nat \<Rightarrow> epo_env) \<Rightarrow> qepo_state \<Rightarrow> ((dest \<times> c_char list) \<times> qepo_state) option" where
  "mnld_qepo_download ev s = do {
     (ret, s) \<leftarrow> qepo_file_update_impl ev (s\<lparr>qepo_download_finished := False\<rparr>);
     m \<leftarrow> mnld_qepo_download_done (word_of_int ret);
     Some (m, s\<lparr>qepo_download_finished := True\<rparr>)
   }"

abbreviation MAIN2QEPO_EVENT_START :: c_int where "MAIN2QEPO_EVENT_START \<equiv> 0"

definition qepo_downloader_start :: "c_char list option" where
  "qepo_downloader_start = do {
     c \<leftarrow> put_int (zero_buff MNLD_INTERNAL_BUFF_SIZE) MAIN2QEPO_EVENT_START;
     Some (sent c)
   }"

definition qepo_event_hdlr ::
  "(nat \<Rightarrow> epo_env) \<Rightarrow> rx list \<Rightarrow> qepo_state \<Rightarrow> (int \<times> (dest \<times> c_char list) option \<times> qepo_state \<times> rx list) option" where
  "qepo_event_hdlr ev rs s =
     (case safe_recvfrom MNLD_INTERNAL_BUFF_SIZE rs of
        (ret, d, rs) \<Rightarrow>
          if ret \<le> 0 then Some (- 1, None, s, rs)
          else do {
            (cmd, c) \<leftarrow> get_int (recv_buff MNLD_INTERNAL_BUFF_SIZE d);
            if cmd = MAIN2QEPO_EVENT_START then do {
              (m, s) \<leftarrow> mnld_qepo_download ev s;
              Some (0, Some m, s, rs)
            }
            else Some (- 1, None, s, rs)
          })"

text \<open>What the main thread makes of the report: the status it gives to the AGPS agent, whose own
  update succeeds or not.\<close>

definition qepo_update_quarter_epo_file :: "bool \<Rightarrow> int \<Rightarrow> qepo_state \<Rightarrow> int \<times> qepo_state" where
  "qepo_update_quarter_epo_file agent_ok qepo_valid s =
     (if qepo_valid = EPO_DOWNLOAD_RESULT_SUCCESS then
        if \<not> agent_ok then (MTK_QEPO_RSP_UPDATE_FAIL, s)
        else (MTK_QEPO_RSP_UPDATE_SUCCESS, s\<lparr>qepo_files := unlink QEPO_UPDATE_HAL (qepo_files s)\<rparr>)
      else (if 0 < Qepo_res s then MTK_QEPO_RSP_DOWNLOAD_FAIL else Qepo_res s, s))"

end
