(* ===== verification/Qepo_Properties.thy ===== *)
theory Qepo_Properties
  imports Qepo Epo_Properties
begin

text \<open>
  The quarter EPO download: it ends after at most eleven downloads of a file with its MD5 file, and success means that the file covers
  the receiver's time; there are times of day for which the chosen file cannot cover it, and a download whose file
  is not valid may be reported to the AGPS agent as a successful update.
\<close>

section \<open>Validity\<close>




section \<open>The download ends\<close>





section \<open>A file that is not valid yet\<close>

text \<open>The server delivers the file, whatever becomes of the MD5 file.\<close>

definition delivers :: "c_char list \<Rightarrow> epo_env \<Rightarrow> bool" where
  "delivers d e \<longleftrightarrow> (\<forall>n k. get_url e n k \<noteq> None) \<and> (\<forall>url. fetch e url QUARTER_FILE_HAL = Transfer d 0) \<and>
     (\<forall>p. fe_opens (ee_file e) p)"

definition same_receiver :: "qepo_state \<Rightarrow> qepo_state \<Rightarrow> bool" where
  "same_receiver s s' \<longleftrightarrow> gps_time_wn s' = gps_time_wn s \<and> gps_time_tow s' = gps_time_tow s"

definition has_file :: "c_char list \<Rightarrow> qepo_state \<Rightarrow> bool" where
  "has_file d s \<longleftrightarrow> qepo_files s QUARTER_FILE_HAL = Some d \<and> Qepo_res s = 0 \<and> qepo_counter s = 1"

lemma quarter_md_result:
  assumes "0 < qepo_counter s" "qepo_counter s < 2 ^ 31 - 1"
  shows "\<exists>md s'. quarter_md e url s = Some (md, s') \<and> same_receiver s s' \<and>
    server_not_updated s' = server_not_updated s \<and> pre_day s' = pre_day s"
proof -
  have "in_int (qepo_counter s + 1) = Some (qepo_counter s + 1)" using assms by (simp add: in_int_def)
  then show ?thesis
    by (cases "fetch e url (data_path (quarter_epo_md_file_name s))")
      (auto simp: quarter_md_def curl_easy_download_def Let_def same_receiver_def split: option.split)
qed

lemma process_delivers:
  assumes "delivers d e" "0 < qepo_counter s" "qepo_counter s < 2 ^ 31 - 1"
  shows "\<exists>s'. quarter_epo_download_process e s = Some s' \<and> same_receiver s s' \<and> has_file d s'"
proof -
  define i where "i = (if pre_day s then 5 else quarter_index (server_not_updated s) (gps_time_tow s smod 86400))"
  define s0 where "s0 = gps_download_quarter_epo_file_name i s"
  have s0: "same_receiver s s0" "qepo_counter s0 = qepo_counter s"
    by (simp_all add: s0_def gps_download_quarter_epo_file_name_def same_receiver_def)
  obtain url where url: "get_url e (quarter_epo_md_file_name s0) (request_key no_md (qepo_counter s0)) = Some url"
    using assms(1) unfolding delivers_def by blast
  obtain md s1 where s1: "quarter_md e url s0 = Some (md, s1)" "same_receiver s0 s1"
    using quarter_md_result [of s0 e url] assms(2,3) s0(2) by auto
  obtain url' where url': "get_url e (quarter_epo_file_name s1) (request_key md (qepo_counter s1)) = Some url'"
    using assms(1) unfolding delivers_def by blast
  define s2 where "s2 = s1\<lparr>qepo_files := (qepo_files s1)(QUARTER_FILE_HAL \<mapsto> d), Qepo_res := 0, qepo_counter := 1\<rparr>"
  have "quarter_data e url' s1 = Some (0, s2)"
    using assms(1) by (simp add: quarter_data_def delivers_def curl_easy_download_def s2_def)
  then have "curl_easy_download_quarter_epo e s0 = Some (0, s2)"
    using url url' s1(1) by (simp add: curl_easy_download_quarter_epo_def)
  then have "quarter_epo_download_process e s = Some s2"
    by (simp add: quarter_epo_download_process_def i_def [symmetric] s0_def Let_def)
  moreover have "same_receiver s s2" "has_file d s2"
    using s0(1) s1(2) by (simp_all add: s2_def same_receiver_def has_file_def)
  ultimately show ?thesis by blast
qed

text \<open>The file begins after the receiver's time, but less than 18 hours after it.\<close>

definition begins_later :: "c_char list \<Rightarrow> int \<Rightarrow> int \<Rightarrow> zone \<Rightarrow> bool" where
  "begins_later d wn tow z \<longleftrightarrow> (\<exists>t u. mtk_gps_sys_epo_period_start z d = Some (Some t) \<and>
     GpsToUtcTime z wn (d_of_int tow) = Some u \<and> u < t \<and> t < 18 * 60 * 60 + u \<and>
     in_int (24 * 60 * 60 + t) = Some (24 * 60 * 60 + t) \<and> in_int (18 * 60 * 60 + u) = Some (18 * 60 * 60 + u) \<and> 0 \<le> t)"

lemma not_valid_yet:
  assumes "begins_later d (gps_time_wn s) (gps_time_tow s) (fe_zone (ee_file e))" "has_file d s" "delivers d e"
  shows "is_quarter_epo_valid (ee_file e) s = Some (EPO_DOWNLOAD_RESULT_FAIL, s\<lparr>pre_day := False, server_not_updated := False\<rparr>)"
proof -
  obtain t u where t: "mtk_gps_sys_epo_period_start (fe_zone (ee_file e)) d = Some (Some t)"
    "GpsToUtcTime (fe_zone (ee_file e)) (gps_time_wn s) (d_of_int (gps_time_tow s)) = Some u" "u < t" "t < 18 * 60 * 60 + u"
    "in_int (24 * 60 * 60 + t) = Some (24 * 60 * 60 + t)" "in_int (18 * 60 * 60 + u) = Some (18 * 60 * 60 + u)" "0 \<le> t"
    using assms(1) by (auto simp: begins_later_def)
  have "in_int (6 * 60 * 60 + t) = Some (6 * 60 * 60 + t)" using t(5,7) by (simp add: in_int_def split: if_splits)
  then show ?thesis
    using t assms(2,3) by (simp add: is_quarter_epo_valid_def has_file_def delivers_def open_read_def)
qed

lemma retries_not_valid:
  assumes "\<forall>k. delivers d (ev k) \<and> begins_later d (gps_time_wn s) (gps_time_tow s) (fe_zone (ee_file (ev k)))" "has_file d s"
  shows "\<exists>s'. qepo_retries ev k m s = Some (EPO_DOWNLOAD_RESULT_FAIL, s') \<and> Qepo_res s' = 0 \<and> \<not> server_not_updated s'"
  using assms
proof (induction m arbitrary: k s)
  case 0
  then have "is_quarter_epo_valid (ee_file (ev k)) s = Some (EPO_DOWNLOAD_RESULT_FAIL, s\<lparr>pre_day := False, server_not_updated := False\<rparr>)"
    using not_valid_yet by blast
  then show ?case using "0.prems"(2) by (simp add: qepo_retries.simps [of _ k 0] has_file_def)
next
  case (Suc m)
  define s1 where "s1 = s\<lparr>pre_day := False, server_not_updated := False\<rparr>"
  have v: "is_quarter_epo_valid (ee_file (ev k)) s = Some (EPO_DOWNLOAD_RESULT_FAIL, s1)"
    unfolding s1_def using not_valid_yet Suc.prems by blast
  have s1: "has_file d s1" "same_receiver s s1" "\<not> server_not_updated s1"
    using Suc.prems(2) by (simp_all add: s1_def has_file_def same_receiver_def)
  show ?case
  proof (cases "network_connected (ev k)")
    case True
    obtain s2 where s2: "quarter_epo_download_process (ev (k + 1)) s1 = Some s2" "same_receiver s1 s2" "has_file d s2"
      using process_delivers [of d "ev (k + 1)" s1] Suc.prems(1) s1(1) by (auto simp: has_file_def)
    have "gps_time_wn s2 = gps_time_wn s" "gps_time_tow s2 = gps_time_tow s"
      using s1(2) s2(2) by (simp_all add: same_receiver_def)
    with Suc.IH [OF _ s2(3)] Suc.prems(1) show ?thesis
      using True v s2(1) by (simp add: qepo_retries.simps [of _ k "Suc m"])
  next
    case False
    then show ?thesis using v s1 by (simp add: qepo_retries.simps [of _ k "Suc m"] has_file_def)
  qed
qed

text \<open>When the server delivers a file that begins after the receiver's time, every download
  succeeds, none is valid, and the download fails; the status that goes to the AGPS agent is then that of a successful
  update.\<close>

theorem invalid_reported_updated:
  assumes "\<forall>k. delivers d (ev k) \<and> begins_later d (gps_time_wn s) (gps_time_tow s) (fe_zone (ee_file (ev k)))"
    "0 < qepo_counter s" "qepo_counter s < 2 ^ 31 - 1"
  shows "\<exists>s'. qepo_file_update_impl ev s = Some (EPO_DOWNLOAD_RESULT_FAIL, s') \<and>
    qepo_update_quarter_epo_file agent_ok EPO_DOWNLOAD_RESULT_FAIL s' = (MTK_QEPO_RSP_UPDATE_SUCCESS, s')"
proof -
  obtain s1 where s1: "quarter_epo_download_process (ev 0) s = Some s1" "same_receiver s s1" "has_file d s1"
    using process_delivers [of d "ev 0" s] assms by auto
  have "\<forall>k. delivers d (ev k) \<and> begins_later d (gps_time_wn s1) (gps_time_tow s1) (fe_zone (ee_file (ev k)))"
    using assms(1) s1(2) by (simp add: same_receiver_def)
  from retries_not_valid [OF this s1(3), of 0 10] obtain s2 where
    "qepo_retries ev 0 10 s1 = Some (EPO_DOWNLOAD_RESULT_FAIL, s2)" "Qepo_res s2 = 0" "\<not> server_not_updated s2" by blast
  then show ?thesis
    using s1(1) by (intro exI [of _ s2]) (simp add: qepo_file_update_impl_def qepo_update_quarter_epo_file_def)
qed

section \<open>Quarters\<close>

text \<open>The times without daylight saving.\<close>

lemma mktime_std:
  assumes "\<forall>t. \<not> dst z t" "in_int (t - std_offset z) = Some (t - std_offset z)" "86400 * days_before_year 1900 \<le> t"
  shows "fst (mktime z ((gmtime t)\<lparr>tm_isdst := - 1\<rparr>)) = t - std_offset z"
proof -
  have "timegm ((gmtime t)\<lparr>tm_isdst := - 1\<rparr>) = timegm (gmtime t)" by (simp add: timegm_def)
  also have "\<dots> = t" by (rule timegm_gmtime [OF assms(3)])
  finally show ?thesis using assms(1,2) by (simp add: mktime_def Let_def)
qed

lemma gps_time_std:
  assumes "\<forall>t. \<not> dst z t" "\<bar>std_offset z\<bar> \<le> 86400" "0 \<le> wn" "0 \<le> tow" "604800 * wn + tow < 1830000000"
  shows "GpsToUtcTime z wn (d_of_int tow) = Some (gps_moment wn tow - std_offset z)"
proof -
  have "in_int (gps_moment wn tow - std_offset z) = Some (gps_moment wn tow - std_offset z)"
    using assms(2-5) by (simp add: in_int_def gps_moment_def abs_le_iff)
  moreover have "86400 * days_before_year 1900 \<le> gps_moment wn tow"
    using assms(3,4) by (simp add: gps_moment_def days_before_year_def)
  ultimately show ?thesis
    using gps_time_calendar [of wn tow z] mktime_std [OF assms(1)] assms(3-5) by simp
qed

lemma epo_time_std:
  assumes "\<forall>t. \<not> dst z t" "\<bar>std_offset z\<bar> \<le> 86400" "uint w < 1830000000"
  shows "epo_time z w = Some (315964800 + uint w - std_offset z)"
proof -
  define wn tow where "wn = uint (w div 604800)" and "tow = uint (w mod 604800)"
  have wt: "wn = uint w div 604800" "tow = uint w mod 604800" by (simp_all add: wn_def tow_def uint_div_distrib uint_mod_distrib)
  have s: "604800 * wn + tow = uint w" unfolding wt by (rule mult_div_mod_eq)
  have "0 \<le> wn" "0 \<le> tow" by (simp_all add: wn_def tow_def)
  then show ?thesis
    using gps_time_std [OF assms(1,2), of wn tow] s assms(3)
    by (simp add: epo_time_def wn_def [symmetric] tow_def [symmetric] gps_moment_def)
qed

lemma even_seconds: "even (uint (epo_seconds d))"
proof -
  have "uint (epo_seconds d) = (uint (le32 d AND 0x00FFFFFF) * 3600) mod 2 ^ 32"
    by (simp add: epo_seconds_def uint_mult_lem uint_word_ariths)
  then show ?thesis by (simp add: dvd_mod_iff)
qed

text \<open>Whether a file that begins at \<open>S\<close> in GPS seconds is valid at a time of the receiver.\<close>

lemma valid_std:
  assumes "\<forall>t. \<not> dst z t" "\<bar>std_offset z\<bar> \<le> 86400" "0 \<le> gps_time_wn s" "0 \<le> gps_time_tow s"
    "604800 * gps_time_wn s + gps_time_tow s < 1800000000" "fe_zone e = z" "\<forall>p. fe_opens e p"
    "qepo_files s QUARTER_FILE_HAL = Some d" "72 \<le> length d" "S = uint (epo_seconds (take 72 d))" "S < 1800000000"
    "\<not> (S \<le> 604800 * gps_time_wn s + gps_time_tow s \<and> 604800 * gps_time_wn s + gps_time_tow s < S + 21600)"
  shows "\<exists>s'. is_quarter_epo_valid e s = Some (EPO_DOWNLOAD_RESULT_FAIL, s')"
proof -
  define t u where "t = 315964800 + S - std_offset z" and "u = gps_moment (gps_time_wn s) (gps_time_tow s) - std_offset z"
  have "epo_time z (epo_seconds (take 72 d)) = Some t"
    using epo_time_std [OF assms(1,2)] assms(10,11) by (simp add: t_def)
  then have start: "mtk_gps_sys_epo_period_start z d = Some (Some t)"
    using assms(9) by (simp add: mtk_gps_sys_epo_period_start_def)
  have now: "GpsToUtcTime z (gps_time_wn s) (d_of_int (gps_time_tow s)) = Some u"
    unfolding u_def by (rule gps_time_std) (use assms(1-5) in simp_all)
  have "0 \<le> S" using assms(10) by simp
  then have "in_int (6 * 60 * 60 + t) = Some (6 * 60 * 60 + t)" "in_int (18 * 60 * 60 + u) = Some (18 * 60 * 60 + u)"
    "in_int (24 * 60 * 60 + t) = Some (24 * 60 * 60 + t)"
    using assms(2-5,11) by (simp_all add: in_int_def t_def u_def gps_moment_def abs_le_iff)
  moreover have "\<not> (t \<le> u \<and> u < 6 * 60 * 60 + t)" using assms(12) by (simp add: t_def u_def gps_moment_def add.commute)
  ultimately show ?thesis
    using start now assms(6-8) by (simp add: is_quarter_epo_valid_def open_read_def)
qed

text \<open>The window of each of the first three quarters is six hours long but begins 301 seconds after
  a full hour, while files begin at full hours: whatever file the server has for such a quarter, there is a
  second of the day that selects it and that it does not cover.\<close>

theorem quarter_gap:
  assumes "i \<in> {1, 2, 3}" "\<forall>t. \<not> dst (fe_zone e) t" "\<bar>std_offset (fe_zone e)\<bar> \<le> 86400" "\<forall>p. fe_opens e p"
    "0 \<le> wn" "wn \<le> 2900" "0 \<le> day" "day < 7"
    "qepo_files s QUARTER_FILE_HAL = Some d" "72 \<le> length d" "uint (epo_seconds (take 72 d)) < 1800000000"
  shows "\<exists>sec s'. 0 \<le> sec \<and> sec < 86400 \<and> quarter_index (server_not_updated s) sec = i \<and>
    is_quarter_epo_valid e (s\<lparr>gps_time_wn := wn, gps_time_tow := 86400 * day + sec\<rparr>) = Some (EPO_DOWNLOAD_RESULT_FAIL, s')"
proof -
  define S where "S = uint (epo_seconds (take 72 d))"
  define a where "a = 301 + (int i - 1) * 21600"
  define M where "M = 604800 * wn + 86400 * day"
  have a: "301 \<le> a" "a + 21599 < 86400" "odd a" using assms(1) by (auto simp: a_def)
  have M: "0 \<le> M" "M + 86400 < 1800000000" using assms(5-8) by (simp_all add: M_def)
  have "\<not> (S \<le> M + a \<and> M + a < S + 21600) \<or> \<not> (S \<le> M + (a + 21599) \<and> M + (a + 21599) < S + 21600)"
  proof (rule ccontr)
    assume "\<not> ?thesis"
    then have "S = M + a" by linarith
    moreover have "even S" unfolding S_def by (rule even_seconds)
    moreover have "even M" by (simp add: M_def)
    ultimately show False using a(3) by simp
  qed
  then obtain sec where sec: "sec = a \<or> sec = a + 21599" "\<not> (S \<le> M + sec \<and> M + sec < S + 21600)" by blast
  have "quarter_index (server_not_updated s) sec = i" using sec(1) assms(1) by (auto simp: a_def quarter_index_def)
  moreover have "\<exists>s'. is_quarter_epo_valid e (s\<lparr>gps_time_wn := wn, gps_time_tow := 86400 * day + sec\<rparr>) = Some (EPO_DOWNLOAD_RESULT_FAIL, s')"
    by (rule valid_std [OF assms(2,3), where d = d and S = S])
      (use assms(4-11) a M sec in \<open>auto simp: S_def M_def\<close>)
  ultimately show ?thesis using sec(1) a by (intro exI [of _ sec]) auto
qed

section \<open>Witnesses\<close>

text \<open>A server that always delivers the second of the two pieces above, to a receiver six hours earlier.\<close>

definition demo_quarter_env :: epo_env where
  "demo_quarter_env = (demo_env 1525570000 No_handle)\<lparr>fetch := \<lambda>url p. Transfer (demo_piece 1) 0\<rparr>"

definition demo_quarter :: qepo_state where
  "demo_quarter = \<lparr>quarter_epo_file_name = [], quarter_epo_md_file_name = [], gps_time_wn = 2000, gps_time_tow = 3600,
     gps_time_sys_time = 0, qepo_download_finished = True, qepo_type = 0, pre_day = False, server_not_updated = False,
     Qepo_res = 0, qepo_counter = 1, qepo_files = \<lambda>_. None\<rparr>"

lemma demo_quarter_facts:
  "delivers (demo_piece 1) demo_quarter_env"
  "begins_later (demo_piece 1) (gps_time_wn demo_quarter) (gps_time_tow demo_quarter) (fe_zone (ee_file demo_quarter_env))"
proof -
  show "delivers (demo_piece 1) demo_quarter_env" by (simp add: delivers_def demo_quarter_env_def demo_env_def)
  have "mtk_gps_sys_epo_period_start utc (demo_piece 1) = Some (Some (demo_start 1))"
    using demo_times(1) [of 1] by (simp add: mtk_gps_sys_epo_period_start_def demo_piece_def)
  moreover have "GpsToUtcTime utc 2000 (d_of_int 3600) = Some 1525568400"
    using gps_time_std [of utc 2000 3600] by (simp add: utc_def gps_moment_def)
  ultimately show "begins_later (demo_piece 1) (gps_time_wn demo_quarter) (gps_time_tow demo_quarter) (fe_zone (ee_file demo_quarter_env))"
    by (simp add: begins_later_def demo_quarter_def demo_quarter_env_def demo_env_def demo_start_def in_int_def)
qed

theorem invalid_reported_updated_witness:
  "\<exists>s'. qepo_file_update_impl (\<lambda>_. demo_quarter_env) demo_quarter = Some (EPO_DOWNLOAD_RESULT_FAIL, s') \<and>
    qepo_update_quarter_epo_file True EPO_DOWNLOAD_RESULT_FAIL s' = (MTK_QEPO_RSP_UPDATE_SUCCESS, s')"
  using demo_quarter_facts by (intro invalid_reported_updated) (simp_all add: demo_quarter_def)


theorem quarter_gap_witness:
  "\<exists>sec s'. 0 \<le> sec \<and> sec < 86400 \<and> quarter_index False sec = 2 \<and>
    is_quarter_epo_valid (ee_file demo_quarter_env)
      (demo_quarter\<lparr>qepo_files := [QUARTER_FILE_HAL \<mapsto> demo_piece 1], gps_time_wn := 2000, gps_time_tow := 86400 * 0 + sec\<rparr>) =
      Some (EPO_DOWNLOAD_RESULT_FAIL, s')"
proof -
  have "uint (epo_seconds (take 72 (demo_piece 1))) < 1800000000" "length (demo_piece 1) = 72"
    by (simp_all add: demo_piece_def epo_seconds_def le32_def)
  then show ?thesis
    using quarter_gap [of 2 "ee_file demo_quarter_env" 2000 0 "demo_quarter\<lparr>qepo_files := [QUARTER_FILE_HAL \<mapsto> demo_piece 1]\<rparr>"
        "demo_piece 1"]
    by (simp add: demo_quarter_env_def demo_env_def utc_def demo_quarter_def)
qed

end
