(* ===== verification/Mnl_Common.thy ===== *)
theory Mnl_Common
  imports Config_Text Prelude
begin

text \<open>
  The settings of the daemon, \<^verbatim>\<open>mnld_entity/src/mnl_common.c\<close>: \<open>mnl.prop\<close> is read line by line into the record
  of the settings, and an Android property overrides some of them. \<open>None\<close> is undefined behaviour: \<open>atoi\<close> of
  a number that does not fit.
\<close>

section \<open>Numbers\<close>

text \<open>\<open>atoi\<close>, and \<open>strtol(val, NULL, 16)\<close>, which stops at the bounds of a 32-bit \<open>long\<close>.\<close>

definition atoi :: "c_char list \<Rightarrow> int option" where
  "atoi t =
     (let (neg, r) = read_sign (dropWhile is_space t); v = int (digits_val 10 (takeWhile is_dec r))
      in in_int (if neg then - v else v))"

definition strtol16 :: "c_char list \<Rightarrow> int" where
  "strtol16 t =
     (let (neg, r) = read_sign (dropWhile is_space t);
          r = (if take 2 (map to_lower r) = [48, 120] \<and> 2 < length r \<and> is_hex (r ! 2) then drop 2 r else r);
          v = int (digits_val 16 (takeWhile is_hex r));
          i = (if neg then - v else v)
      in if i < - (2 ^ 31) then - (2 ^ 31) else if 2 ^ 31 \<le> i then 2 ^ 31 - 1 else i)"

section \<open>Settings\<close>

abbreviation PROPBUF_SIZE :: nat where "PROPBUF_SIZE \<equiv> 512"
abbreviation PMTK_CONNECTION_SOCKET :: int where "PMTK_CONNECTION_SOCKET \<equiv> 1"
abbreviation PMTK_CONNECTION_SERIAL :: int where "PMTK_CONNECTION_SERIAL \<equiv> 2"

text \<open>The members of \<open>MNL_CONFIG_T\<close> that the file sets, and \<open>epo_setconfig\<close>.\<close>

record mnl_config =
  mc_init_speed :: int
  mc_link_speed :: int
  mc_debug_nmea :: int
  mc_debug_mnl :: int
  mc_pmtk_conn :: int
  mc_socket_port :: int
  mc_dev_dbg :: "c_char list"
  mc_dev_dsp :: "c_char list"
  mc_dev_gps :: "c_char list"
  mc_bee_path :: "c_char list"
  mc_delay_reset_dsp :: int
  mc_dbg2file :: int
  mc_dbglog_file_max_size :: int
  mc_dbglog_folder_max_size :: int
  mc_timeout_init :: int
  mc_timeout_monitor :: int
  mc_timeout_wakeup :: int
  mc_timeout_sleep :: int
  mc_timeout_pwroff :: int
  mc_timeout_ttff :: int
  mc_EPO_enabled :: int
  mc_BEE_enabled :: int
  mc_SUPL_enabled :: int
  mc_SUPLSI_enabled :: int
  mc_EPO_priority :: int
  mc_BEE_priority :: int
  mc_SUPL_priority :: int
  mc_AVAILIABLE_AGE :: int
  mc_RTC_DRIFT :: int
  mc_TIME_INTERVAL :: int
  mc_u1AgpsMachine :: int
  mc_ACCURACY_SNR :: int
  mc_GNSSOPMode :: int
  mc_OFFLOAD_enabled :: int
  mc_OFFLOAD_testMode :: int
  epo_setconfig :: int

text \<open>A text member is only set when it fits its 32 bytes.\<close>

definition fits :: "c_char list \<Rightarrow> bool" where
  "fits val \<longleftrightarrow> length val < 32"

definition set_prop :: "c_char list \<Rightarrow> c_char list \<Rightarrow> mnl_config \<Rightarrow> mnl_config option" where
  "set_prop key val c =
     (if key = ascii ''init.speed'' then do { v \<leftarrow> atoi val; Some (c\<lparr>mc_init_speed := v\<rparr>) }
      else if key = ascii ''link.speed'' then do { v \<leftarrow> atoi val; Some (c\<lparr>mc_link_speed := v\<rparr>) }
      else if key = ascii ''dev.dsp'' then Some (if fits val then c\<lparr>mc_dev_dsp := val\<rparr> else c)
      else if key = ascii ''dev.gps'' then Some (if fits val then c\<lparr>mc_dev_gps := val\<rparr> else c)
      else if key = ascii ''bee.path'' then Some (if fits val then c\<lparr>mc_bee_path := val\<rparr> else c)
      else if key = ascii ''pmtk.serial.dev'' then Some (if fits val then c\<lparr>mc_dev_dbg := val\<rparr> else c)
      else if key = ascii ''pmtk.conn'' then
        Some (if val = ascii ''serial'' then c\<lparr>mc_pmtk_conn := PMTK_CONNECTION_SERIAL\<rparr>
              else if val = ascii ''socket'' then c\<lparr>mc_pmtk_conn := PMTK_CONNECTION_SOCKET\<rparr> else c)
      else if key = ascii ''pmtk.serial.port'' then do { v \<leftarrow> atoi val; Some (c\<lparr>mc_socket_port := v\<rparr>) }
      else if key = ascii ''debug.debug_nmea'' then
        do { v \<leftarrow> atoi val; Some (c\<lparr>mc_debug_nmea := (if 0 < v then 1 else 0)\<rparr>) }
      else if key = ascii ''debug.mnl'' then Some (c\<lparr>mc_debug_mnl := strtol16 val\<rparr>)
      else if key = ascii ''debug.dbg2file'' then do { v \<leftarrow> atoi val; Some (c\<lparr>mc_dbg2file := v\<rparr>) }
      else if key = ascii ''timeout.monitor'' then do { v \<leftarrow> atoi val; Some (c\<lparr>mc_timeout_monitor := v\<rparr>) }
      else if key = ascii ''timeout.init'' then do { v \<leftarrow> atoi val; Some (c\<lparr>mc_timeout_init := v\<rparr>) }
      else if key = ascii ''timeout.sleep'' then do { v \<leftarrow> atoi val; Some (c\<lparr>mc_timeout_sleep := v\<rparr>) }
      else if key = ascii ''timeout.pwroff'' then do { v \<leftarrow> atoi val; Some (c\<lparr>mc_timeout_pwroff := v\<rparr>) }
      else if key = ascii ''timeout.wakeup'' then do { v \<leftarrow> atoi val; Some (c\<lparr>mc_timeout_wakeup := v\<rparr>) }
      else if key = ascii ''timeout.ttff'' then do { v \<leftarrow> atoi val; Some (c\<lparr>mc_timeout_ttff := v\<rparr>) }
      else if key = ascii ''delay.reset_dsp'' then do { v \<leftarrow> atoi val; Some (c\<lparr>mc_delay_reset_dsp := v\<rparr>) }
      else if key = ascii ''EPO_enabled'' then
        do { v \<leftarrow> atoi val; Some (c\<lparr>mc_EPO_enabled := v, epo_setconfig := 1\<rparr>) }
      else if key = ascii ''BEE_enabled'' then do { v \<leftarrow> atoi val; Some (c\<lparr>mc_BEE_enabled := v\<rparr>) }
      else if key = ascii ''SUPL_enabled'' then do { v \<leftarrow> atoi val; Some (c\<lparr>mc_SUPL_enabled := v\<rparr>) }
      else if key = ascii ''SUPLSI_enabled'' then do { v \<leftarrow> atoi val; Some (c\<lparr>mc_SUPLSI_enabled := v\<rparr>) }
      else if key = ascii ''EPO_priority'' then do { v \<leftarrow> atoi val; Some (c\<lparr>mc_EPO_priority := v\<rparr>) }
      else if key = ascii ''BEE_priority'' then do { v \<leftarrow> atoi val; Some (c\<lparr>mc_BEE_priority := v\<rparr>) }
      else if key = ascii ''SUPL_priority'' then do { v \<leftarrow> atoi val; Some (c\<lparr>mc_SUPL_priority := v\<rparr>) }
      else if key = ascii ''AVAILIABLE_AGE'' then do { v \<leftarrow> atoi val; Some (c\<lparr>mc_AVAILIABLE_AGE := v\<rparr>) }
      else if key = ascii ''RTC_DRIFT'' then do { v \<leftarrow> atoi val; Some (c\<lparr>mc_RTC_DRIFT := v\<rparr>) }
      else if key = ascii ''TIME_INTERVAL'' then do { v \<leftarrow> atoi val; Some (c\<lparr>mc_TIME_INTERVAL := v\<rparr>) }
      else if key = ascii ''TEST_MACHINE'' then do { v \<leftarrow> atoi val; Some (c\<lparr>mc_u1AgpsMachine := v mod 256\<rparr>) }
      else if key = ascii ''ACC_SNR'' then do { v \<leftarrow> atoi val; Some (c\<lparr>mc_ACCURACY_SNR := v\<rparr>) }
      else if key = ascii ''GNSS_MODE'' then do { v \<leftarrow> atoi val; Some (c\<lparr>mc_GNSSOPMode := v\<rparr>) }
      else if key = ascii ''DBGLOG_FILE_MAX'' then
        do { v \<leftarrow> atoi val; Some (c\<lparr>mc_dbglog_file_max_size := v mod 2 ^ 32\<rparr>) }
      else if key = ascii ''DBGLOG_FOLDER_MAX'' then
        do { v \<leftarrow> atoi val; Some (c\<lparr>mc_dbglog_folder_max_size := v mod 2 ^ 32\<rparr>) }
      else if key = ascii ''OFFLOAD_enabled'' then do { v \<leftarrow> atoi val; Some (c\<lparr>mc_OFFLOAD_enabled := v\<rparr>) }
      else if key = ascii ''OFFLOAD_testMode'' then do { v \<leftarrow> atoi val; Some (c\<lparr>mc_OFFLOAD_testMode := v\<rparr>) }
      else Some c)"

section \<open>The file\<close>

definition get_prop :: "c_char list \<Rightarrow> (c_char list \<times> c_char list) option option" where
  "get_prop s = get_line PROPBUF_SIZE s"

text \<open>The lines up to the end or the first that is not understood: the result, 0 or -1, and the settings.\<close>

function prop_lines :: "c_char list \<Rightarrow> mnl_config \<Rightarrow> (int \<times> mnl_config) option" where
  "prop_lines d c =
     (if d = [] then Some (0, c)
      else (case get_prop (takeWhile (\<lambda>ch. ch \<noteq> 0) (fst (fgets PROPBUF_SIZE d))) of
              None \<Rightarrow> Some (- 1, c)
            | Some None \<Rightarrow> prop_lines (snd (fgets PROPBUF_SIZE d)) c
            | Some (Some (key, val)) \<Rightarrow> do {
                c \<leftarrow> set_prop key val c;
                prop_lines (snd (fgets PROPBUF_SIZE d)) c
              }))"
  by pat_completeness auto

termination
  by (relation "measure (length \<circ> fst)") (auto simp: fgets_less)

declare prop_lines.simps [simp del]

definition read_prop :: "c_char list option \<Rightarrow> mnl_config \<Rightarrow> (int \<times> mnl_config) option" where
  "read_prop f c = (case f of None \<Rightarrow> Some (- 1, c) | Some d \<Rightarrow> prop_lines d c)"

text \<open>\<open>mnl_prop_path\<close> in turn, until one is read to its end.\<close>

fun load_files :: "c_char list option list \<Rightarrow> mnl_config \<Rightarrow> (int \<times> mnl_config) option" where
  "load_files [] c = Some (- 1, c)"
| "load_files (f # fs) c = do {
     (r, c) \<leftarrow> read_prop f c;
     if r = 0 then Some (0, c) else load_files fs c
   }"

text \<open>The property, in a zeroed array: its characters from the third on.\<close>

definition digit_at :: "c_char list \<Rightarrow> nat \<Rightarrow> int" where
  "digit_at p i = (if i < length p then uint (p ! i) else 0) - 48"

definition mnl_utl_load_property ::
  "c_char list option \<Rightarrow> c_char list option \<Rightarrow> c_char list \<Rightarrow> mnl_config \<Rightarrow> (int \<times> mnl_config) option" where
  "mnl_utl_load_property data_prop sbin_prop status c = do {
     (res, c) \<leftarrow> load_files [data_prop, sbin_prop] (c\<lparr>epo_setconfig := 0\<rparr>);
     Some (res,
       if status \<noteq> [] then
         c\<lparr>mc_dbg2file := digit_at status 2, mc_debug_nmea := digit_at status 3, mc_BEE_enabled := digit_at status 4\<rparr>
       else c)
   }"

section \<open>What a file does\<close>

text \<open>The settings of the lines, one after the other.\<close>

fun set_all :: "(c_char list \<times> c_char list) list \<Rightarrow> mnl_config \<Rightarrow> mnl_config option" where
  "set_all [] c = Some c"
| "set_all (kv # kvs) c = do { c \<leftarrow> set_prop (fst kv) (snd kv) c; set_all kvs c }"

lemma prop_line_step:
  assumes "line_ok PROPBUF_SIZE kv"
  shows "prop_lines (config_line kv @ d) c = do { c \<leftarrow> set_prop (fst kv) (snd kv) c; prop_lines d c }"
  using config_line_read [OF assms]
  by (subst prop_lines.simps) (simp add: get_prop_def config_line_def split: prod.split)

lemma prop_lines_read:
  assumes "\<forall>kv\<in>set kvs. line_ok PROPBUF_SIZE kv"
  shows "prop_lines (concat (map config_line kvs) @ d) c = do { c \<leftarrow> set_all kvs c; prop_lines d c }"
  using assms
proof (induction kvs arbitrary: c)
  case (Cons kv kvs)
  have "prop_lines (concat (map config_line (kv # kvs)) @ d) c =
      do { c \<leftarrow> set_prop (fst kv) (snd kv) c; prop_lines (concat (map config_line kvs) @ d) c }"
    using prop_line_step [of kv] Cons.prems by simp
  then show ?case using Cons by (cases "set_prop (fst kv) (snd kv) c") simp_all
qed simp

text \<open>A settings file of well-formed lines is read line by line, a later setting of a key
  replacing an earlier one, and nothing else is read. But an empty line ends the file: the lines before it have their
  effect, those after it have none, and the second file is read over them as if the first did not exist.\<close>

theorem empty_line_ends_settings:
  assumes "\<forall>kv\<in>set kvs. line_ok PROPBUF_SIZE kv" "set_all kvs (c\<lparr>epo_setconfig := 0\<rparr>) = Some c1"
  shows "mnl_utl_load_property (Some (concat (map config_line kvs))) sbin [] c = Some (0, c1) \<and>
    mnl_utl_load_property (Some (concat (map config_line kvs) @ 10 # rest)) sbin [] c = load_files [sbin] c1"
  using prop_lines_read [OF assms(1), of "[]"] prop_lines_read [OF assms(1), of "10 # rest"] assms(2)
    empty_line_read(1) [of 512 rest] empty_line_read(2) [of 512]
  by (simp_all add: mnl_utl_load_property_def read_prop_def prop_lines.simps [of "[]"] prop_lines.simps [of "10 # rest"] get_prop_def)

text \<open>Two settings, and the two files of which the first ends too early.\<close>

definition demo_config :: mnl_config where
  "demo_config = \<lparr>mc_init_speed = 38400, mc_link_speed = 921600, mc_debug_nmea = 1, mc_debug_mnl = 0, mc_pmtk_conn = 1,
     mc_socket_port = 7000, mc_dev_dbg = [], mc_dev_dsp = [], mc_dev_gps = [], mc_bee_path = [], mc_delay_reset_dsp = 0,
     mc_dbg2file = 0, mc_dbglog_file_max_size = 0, mc_dbglog_folder_max_size = 0, mc_timeout_init = 0,
     mc_timeout_monitor = 0, mc_timeout_wakeup = 0, mc_timeout_sleep = 0, mc_timeout_pwroff = 0, mc_timeout_ttff = 0,
     mc_EPO_enabled = 1, mc_BEE_enabled = 1, mc_SUPL_enabled = 1, mc_SUPLSI_enabled = 1, mc_EPO_priority = 64,
     mc_BEE_priority = 32, mc_SUPL_priority = 96, mc_AVAILIABLE_AGE = 2, mc_RTC_DRIFT = 30, mc_TIME_INTERVAL = 10,
     mc_u1AgpsMachine = 0, mc_ACCURACY_SNR = 1, mc_GNSSOPMode = 2, mc_OFFLOAD_enabled = 0, mc_OFFLOAD_testMode = 0,
     epo_setconfig = 1\<rparr>"

definition demo_settings :: "(c_char list \<times> c_char list) list" where
  "demo_settings = [(ascii ''dev.dsp'', ascii ''/dev/stpgps''), (ascii ''pmtk.conn'', ascii ''serial'')]"

lemma demo_settings_ok:
  "\<forall>kv\<in>set demo_settings. line_ok PROPBUF_SIZE kv"
  "set_all demo_settings (demo_config\<lparr>epo_setconfig := 0\<rparr>) =
     Some (demo_config\<lparr>epo_setconfig := 0, mc_dev_dsp := ascii ''/dev/stpgps'', mc_pmtk_conn := 2\<rparr>)"
  by (simp_all add: demo_settings_def line_ok_def config_line_def ascii_def of_char_def set_prop_def fits_def)

theorem empty_line_ends_settings_witness:
  "mnl_utl_load_property (Some (concat (map config_line demo_settings))) None [] demo_config =
     Some (0, demo_config\<lparr>epo_setconfig := 0, mc_dev_dsp := ascii ''/dev/stpgps'', mc_pmtk_conn := 2\<rparr>) \<and>
   mnl_utl_load_property (Some (concat (map config_line demo_settings) @ 10 # ascii ''GNSS_MODE=3'')) None [] demo_config =
     load_files [None] (demo_config\<lparr>epo_setconfig := 0, mc_dev_dsp := ascii ''/dev/stpgps'', mc_pmtk_conn := 2\<rparr>)"
  by (rule empty_line_ends_settings [OF demo_settings_ok])

end
