(* ===== verification/Log_Buffer.thy ===== *)
theory Log_Buffer
  imports Prelude "HOL-Library.Sublist"
begin

text \<open>
  The two buffers of the debug log in \<^verbatim>\<open>mnld_entity/src/gps_dbg_log.c\<close>. The GPS library copies messages into
  the one that is \<open>WRITING\<close>; the log thread writes the one that is \<open>READABLE\<close> to the file. The C code names the buffers
  1 and 2 and has every branch twice; here a buffer is a \<open>half\<close>. The functions are composed of the steps at
  which the two threads can meet. \<open>None\<close> is an access outside a buffer.
\<close>

section \<open>State\<close>

datatype buffer_state = NOTINIT | WRITABLE | WRITING | READABLE | READING

datatype half = B1 | B2

fun opposite :: "half \<Rightarrow> half" where
  "opposite B1 = B2"
| "opposite B2 = B1"

abbreviation PINGPANG_BUFFER_SIZE :: nat where "PINGPANG_BUFFER_SIZE \<equiv> 20 * 1024"
abbreviation MTK_GPS_SUCCESS :: int where "MTK_GPS_SUCCESS \<equiv> 0"
abbreviation MTK_GPS_ERROR :: int where "MTK_GPS_ERROR \<equiv> - 1"

text \<open>The variables of the buffers while they are allocated. \<open>next_write\<close> points into a buffer, or is null;
  \<open>num_loose\<close> is only printed.\<close>

record pingpang =
  pp_mem :: "half \<Rightarrow> c_char list"
  next_write :: "(half \<times> nat) option"
  lenth_to_write :: "half \<Rightarrow> nat"
  pp_state :: "half \<Rightarrow> buffer_state"
  num_loose :: nat

definition zero_mem :: "c_char list" where
  "zero_mem = replicate PINGPANG_BUFFER_SIZE 0"

text \<open>\<open>gps_dbg_log_pingpang_init\<close> for the outcomes of the two calls of \<open>calloc\<close>; \<open>None\<close> is its error.\<close>

definition gps_dbg_log_pingpang_init :: "bool \<Rightarrow> bool \<Rightarrow> pingpang option" where
  "gps_dbg_log_pingpang_init ok1 ok2 =
     (if ok1 \<and> ok2 then
        Some \<lparr>pp_mem = (\<lambda>_. zero_mem), next_write = Some (B1, 0), lenth_to_write = (\<lambda>_. 0),
          pp_state = (\<lambda>b. case b of B1 \<Rightarrow> WRITING | B2 \<Rightarrow> WRITABLE), num_loose = 0\<rparr>
      else None)"

section \<open>Copying a message\<close>

text \<open>Where the message goes: to the buffer as it is, to the other one, or to the start of this one.\<close>

datatype place = Here | Switch | Drop

definition choose_place :: "half \<Rightarrow> nat \<Rightarrow> pingpang \<Rightarrow> place option" where
  "choose_place b len p =
     (case next_write p of
        Some (c, n) \<Rightarrow>
          if c \<noteq> b then None
          else if n + len \<le> PINGPANG_BUFFER_SIZE - 2 then Some Here
          else if pp_state p (opposite b) = WRITABLE then Some Switch
          else Some Drop
      | None \<Rightarrow> None)"

text \<open>The steps of a switch before the release of the lock.\<close>

definition switch_to_other :: "half \<Rightarrow> pingpang \<Rightarrow> pingpang option" where
  "switch_to_other b p =
     (case next_write p of
        Some (c, n) \<Rightarrow>
          if c \<noteq> b then None
          else Some (p\<lparr>lenth_to_write := (lenth_to_write p)(b := n), next_write := Some (opposite b, 0),
            pp_state := (pp_state p)(opposite b := WRITING)\<rparr>)
      | None \<Rightarrow> None)"

definition make_readable :: "half \<Rightarrow> pingpang \<Rightarrow> pingpang" where
  "make_readable b p = p\<lparr>pp_state := (pp_state p)(b := READABLE)\<rparr>"

definition drop_buffer :: "half \<Rightarrow> pingpang \<Rightarrow> pingpang" where
  "drop_buffer b p = p\<lparr>pp_mem := (pp_mem p)(b := zero_mem), next_write := Some (b, 0), num_loose := num_loose p + 1\<rparr>"

definition memcpy_next :: "c_char list \<Rightarrow> pingpang \<Rightarrow> pingpang option" where
  "memcpy_next msg p =
     (case next_write p of
        Some (b, n) \<Rightarrow>
          if n + length msg \<le> length (pp_mem p b) then
            Some (p\<lparr>pp_mem := (pp_mem p)(b := take n (pp_mem p b) @ msg @ drop (n + length msg) (pp_mem p b)),
              next_write := Some (b, n + length msg)\<rparr>)
          else None
      | None \<Rightarrow> None)"

definition writing_half :: "pingpang \<Rightarrow> half option" where
  "writing_half p =
     (if pp_state p B1 = WRITING \<and> pp_state p B2 \<noteq> WRITING then Some B1
      else if pp_state p B2 = WRITING \<and> pp_state p B1 \<noteq> WRITING then Some B2
      else None)"

text \<open>The result, whether the lock of the log thread is released, and the buffers.\<close>

definition gps_dbg_log_pingpang_copy :: "c_char list \<Rightarrow> pingpang \<Rightarrow> (int \<times> bool \<times> pingpang) option" where
  "gps_dbg_log_pingpang_copy msg p =
     (case writing_half p of
        None \<Rightarrow> Some (MTK_GPS_ERROR, False, p)
      | Some b \<Rightarrow> do {
          pl \<leftarrow> choose_place b (length msg) p;
          p \<leftarrow> (case pl of Here \<Rightarrow> Some p | Switch \<Rightarrow> map_option (make_readable b) (switch_to_other b p)
                | Drop \<Rightarrow> Some (drop_buffer b p));
          p \<leftarrow> memcpy_next msg p;
          Some (MTK_GPS_SUCCESS, pl = Switch, p)
        })"

text \<open>\<open>mnl_sys_alps_gps_dbg2file_mnld\<close>: whether the log is enabled, and the buffers if there are any.\<close>

definition mnl_sys_alps_gps_dbg2file_mnld :: "bool \<Rightarrow> c_char list \<Rightarrow> pingpang option \<Rightarrow> (bool \<times> pingpang option) option" where
  "mnl_sys_alps_gps_dbg2file_mnld enabled msg pp =
     (case pp of
        Some p \<Rightarrow>
          if enabled \<and> next_write p \<noteq> None then do {
            (_, released, p) \<leftarrow> gps_dbg_log_pingpang_copy msg p;
            Some (released, Some p)
          }
          else Some (False, pp)
      | None \<Rightarrow> Some (False, pp))"

section \<open>Writing a buffer\<close>

definition readable :: "half \<Rightarrow> pingpang \<Rightarrow> bool" where
  "readable b p \<longleftrightarrow> pp_state p b = READABLE \<and> pp_state p (opposite b) \<noteq> READABLE \<and> lenth_to_write p b \<noteq> 0"

definition start_reading :: "half \<Rightarrow> pingpang \<Rightarrow> pingpang" where
  "start_reading b p = p\<lparr>pp_state := (pp_state p)(b := READING)\<rparr>"

text \<open>What \<open>fwrite\<close> is given, of which it takes at most \<open>room\<close> bytes.\<close>

definition written :: "half \<Rightarrow> nat \<Rightarrow> pingpang \<Rightarrow> c_char list option" where
  "written b n p = (if n \<le> length (pp_mem p b) then Some (take n (pp_mem p b)) else None)"

definition clear_half :: "half \<Rightarrow> pingpang \<Rightarrow> pingpang" where
  "clear_half b p = p\<lparr>pp_mem := (pp_mem p)(b := zero_mem), lenth_to_write := (lenth_to_write p)(b := 0)\<rparr>"

definition make_writable :: "half \<Rightarrow> pingpang \<Rightarrow> pingpang" where
  "make_writable b p = p\<lparr>pp_state := (pp_state p)(b := WRITABLE)\<rparr>"

definition write_half :: "half \<Rightarrow> nat \<Rightarrow> pingpang \<Rightarrow> (c_char list \<times> pingpang) option" where
  "write_half b room p = do {
     let p = start_reading b p;
     d \<leftarrow> written b (lenth_to_write p b) p;
     Some (take room d, make_writable b (clear_half b p))
   }"

text \<open>What goes to the file, whose length is the result, and the buffers.\<close>

definition gps_dbg_log_pingpang_write :: "nat \<Rightarrow> pingpang \<Rightarrow> (c_char list \<times> pingpang) option" where
  "gps_dbg_log_pingpang_write room p =
     (if readable B1 p then write_half B1 room p
      else if readable B2 p then write_half B2 room p
      else Some ([], p))"

section \<open>Flushing\<close>

text \<open>The flush without the waiting: what it writes, and the buffers with a null \<open>next_write\<close>.\<close>

definition gps_dbg_log_pingpang_flush :: "pingpang \<Rightarrow> (c_char list \<times> pingpang) option" where
  "gps_dbg_log_pingpang_flush p =
     (case writing_half p of
        None \<Rightarrow> Some ([], p\<lparr>next_write := None\<rparr>)
      | Some b \<Rightarrow> do {
          d \<leftarrow> (if pp_state p (opposite b) = READABLE then written (opposite b) (lenth_to_write p (opposite b)) p else Some []);
          d' \<leftarrow> (case next_write p of Some (c, n) \<Rightarrow> if c = b then written b n p else None | None \<Rightarrow> None);
          Some (d @ d', p\<lparr>next_write := None\<rparr>)
        })"

end
