(* ===== verification/Log_System.thy ===== *)
theory Log_System
  imports Log_Buffer
begin

text \<open>
  The library thread that copies messages and the log thread that writes buffers, interleaved at every access to
  the state of a buffer and to the lock. The file takes all it is given. The invariant of every reachable state relates what is in
  file and buffers to the messages given by an abstract log.
\<close>

section \<open>Steps\<close>

text \<open>Where the copying thread is in \<open>gps_dbg_log_pingpang_copy\<close>, and the log thread in its loop.\<close>

datatype copier = Idle | Switching half "c_char list" | Publishing half "c_char list" | Releasing "c_char list" | Copying "c_char list"

datatype logger = Waiting | Look half | Writing half | Clearing half | Finishing half

record log_sys =
  bufs :: pingpang
  condtion :: bool
  cpy :: copier
  lgr :: logger
  log_file :: "c_char list"
  given :: "c_char list list"

text \<open>\<open>given\<close> lists the messages the copying thread was called with, for the theorems.\<close>

definition log_start :: "pingpang \<Rightarrow> log_sys" where
  "log_start p = \<lparr>bufs = p, condtion = False, cpy = Idle, lgr = Waiting, log_file = [], given = []\<rparr>"

datatype act = Call "c_char list" | Copier | Logger

fun enabled :: "act \<Rightarrow> log_sys \<Rightarrow> bool" where
  "enabled (Call msg) s = (cpy s = Idle)"
| "enabled Copier s = (cpy s \<noteq> Idle)"
| "enabled Logger s = (lgr s = Waiting \<longrightarrow> condtion s)"

text \<open>The call looks at the states of the buffers once; dropping concerns the own buffer only.\<close>

definition call_copy :: "c_char list \<Rightarrow> log_sys \<Rightarrow> log_sys option" where
  "call_copy msg s =
     (let s = s\<lparr>given := given s @ [msg]\<rparr> in
      case writing_half (bufs s) of
        None \<Rightarrow> Some s
      | Some b \<Rightarrow> do {
          pl \<leftarrow> choose_place b (length msg) (bufs s);
          Some (case pl of Here \<Rightarrow> s\<lparr>cpy := Copying msg\<rparr> | Switch \<Rightarrow> s\<lparr>cpy := Switching b msg\<rparr>
                | Drop \<Rightarrow> s\<lparr>bufs := drop_buffer b (bufs s), cpy := Copying msg\<rparr>)
        })"

fun copier_step :: "copier \<Rightarrow> log_sys \<Rightarrow> log_sys option" where
  "copier_step Idle s = Some s"
| "copier_step (Switching b msg) s = do {
     p \<leftarrow> switch_to_other b (bufs s);
     Some (s\<lparr>bufs := p, cpy := Publishing b msg\<rparr>)
   }"
| "copier_step (Publishing b msg) s = Some (s\<lparr>bufs := make_readable b (bufs s), cpy := Releasing msg\<rparr>)"
| "copier_step (Releasing msg) s = Some (s\<lparr>condtion := True, cpy := Copying msg\<rparr>)"
| "copier_step (Copying msg) s = do {
     p \<leftarrow> memcpy_next msg (bufs s);
     Some (s\<lparr>bufs := p, cpy := Idle\<rparr>)
   }"

text \<open>The log thread takes the condition, looks at buffer 1, then at buffer 2, and writes the one that it finds.\<close>

fun logger_step :: "logger \<Rightarrow> log_sys \<Rightarrow> log_sys option" where
  "logger_step Waiting s = Some (s\<lparr>condtion := False, lgr := Look B1\<rparr>)"
| "logger_step (Look b) s =
     Some (if readable b (bufs s) then s\<lparr>bufs := start_reading b (bufs s), lgr := Writing b\<rparr>
           else s\<lparr>lgr := (case b of B1 \<Rightarrow> Look B2 | B2 \<Rightarrow> Waiting)\<rparr>)"
| "logger_step (Writing b) s = do {
     d \<leftarrow> written b (lenth_to_write (bufs s) b) (bufs s);
     Some (s\<lparr>log_file := log_file s @ d, lgr := Clearing b\<rparr>)
   }"
| "logger_step (Clearing b) s = Some (s\<lparr>bufs := clear_half b (bufs s), lgr := Finishing b\<rparr>)"
| "logger_step (Finishing b) s = Some (s\<lparr>bufs := make_writable b (bufs s), lgr := Waiting\<rparr>)"

fun perform :: "act \<Rightarrow> log_sys \<Rightarrow> log_sys option" where
  "perform (Call msg) s = call_copy msg s"
| "perform Copier s = copier_step (cpy s) s"
| "perform Logger s = logger_step (lgr s) s"

text \<open>Steps in which every message has at most \<open>n\<close> bytes.\<close>

fun fits :: "nat \<Rightarrow> act \<Rightarrow> bool" where
  "fits n (Call msg) = (length msg \<le> n)"
| "fits n _ = True"

inductive log_run :: "nat \<Rightarrow> log_sys \<Rightarrow> log_sys \<Rightarrow> bool" for n where
  run_refl: "log_run n s s"
| run_step: "log_run n s t \<Longrightarrow> enabled a t \<Longrightarrow> fits n a \<Longrightarrow> perform a t = Some u \<Longrightarrow> log_run n s u"

section \<open>The invariant\<close>

abbreviation LIMIT :: nat where "LIMIT \<equiv> PINGPANG_BUFFER_SIZE - 2"

lemma opposite_simps [simp]: "opposite (opposite b) = b" "opposite b \<noteq> b" "b \<noteq> opposite b"
  by (cases b; simp)+

lemma half_cases: "c = b \<or> c = opposite b"
  by (cases b; cases c) simp_all

text \<open>Where the copying thread is, and the log thread, with the current buffer and the place in it.\<close>

definition copier_ok :: "half \<Rightarrow> nat \<Rightarrow> log_sys \<Rightarrow> bool" where
  "copier_ok a n s \<longleftrightarrow> n \<le> LIMIT \<and>
     (case cpy s of
        Idle \<Rightarrow> True
      | Switching b msg \<Rightarrow> b = a \<and> length msg \<le> LIMIT \<and> LIMIT < n + length msg \<and> pp_state (bufs s) (opposite a) = WRITABLE
      | Publishing b msg \<Rightarrow> b = opposite a \<and> n = 0 \<and> length msg \<le> LIMIT \<and> pp_state (bufs s) (opposite a) = WRITING \<and>
          0 < lenth_to_write (bufs s) (opposite a) \<and> lenth_to_write (bufs s) (opposite a) \<le> LIMIT
      | Releasing msg \<Rightarrow> n + length msg \<le> LIMIT
      | Copying msg \<Rightarrow> n + length msg \<le> LIMIT)"

definition publishing :: "log_sys \<Rightarrow> bool" where
  "publishing s = (case cpy s of Publishing _ _ \<Rightarrow> True | _ \<Rightarrow> False)"

definition releasing :: "log_sys \<Rightarrow> bool" where
  "releasing s = (case cpy s of Releasing _ \<Rightarrow> True | _ \<Rightarrow> False)"

definition logger_ok :: "half \<Rightarrow> log_sys \<Rightarrow> bool" where
  "logger_ok a s \<longleftrightarrow> (let b = opposite a; st = pp_state (bufs s) b in
     (\<not> publishing s \<longrightarrow> st = WRITABLE \<or> st = READABLE \<or> st = READING) \<and>
     (st = READING \<longleftrightarrow> lgr s = Writing b \<or> lgr s = Clearing b \<or> lgr s = Finishing b) \<and>
     lgr s \<noteq> Writing a \<and> lgr s \<noteq> Clearing a \<and> lgr s \<noteq> Finishing a \<and>
     (st = READABLE \<or> lgr s = Writing b \<longrightarrow> 0 < lenth_to_write (bufs s) b \<and> lenth_to_write (bufs s) b \<le> LIMIT) \<and>
     (st = READABLE \<and> (lgr s = Waiting \<or> lgr s = Look B2 \<and> b = B1) \<longrightarrow> condtion s \<or> releasing s))"

definition control_ok :: "half \<Rightarrow> nat \<Rightarrow> log_sys \<Rightarrow> bool" where
  "control_ok a n s \<longleftrightarrow> next_write (bufs s) = Some (a, n) \<and> pp_state (bufs s) a = WRITING \<and>
     (\<forall>b. length (pp_mem (bufs s) b) = PINGPANG_BUFFER_SIZE) \<and> copier_ok a n s \<and> logger_ok a s"

lemmas control_defs = control_ok_def copier_ok_def logger_ok_def publishing_def releasing_def Let_def

lemma writing_current: "control_ok a n s \<Longrightarrow> \<not> publishing s \<Longrightarrow> writing_half (bufs s) = Some a"
  by (cases a) (auto simp: control_defs writing_half_def)

text \<open>The data: what is in the file, in the other buffer, in this one, and in the message being copied.\<close>

definition sealed :: "half \<Rightarrow> log_sys \<Rightarrow> c_char list" where
  "sealed a s = (let b = opposite a in
     if pp_state (bufs s) b = READABLE \<or> publishing s \<or> lgr s = Writing b
     then take (lenth_to_write (bufs s) b) (pp_mem (bufs s) b) else [])"

definition current :: "half \<Rightarrow> nat \<Rightarrow> log_sys \<Rightarrow> c_char list" where
  "current a n s = take n (pp_mem (bufs s) a)"

definition in_flight :: "log_sys \<Rightarrow> c_char list list" where
  "in_flight s = (case cpy s of Idle \<Rightarrow> [] | Switching _ m \<Rightarrow> [m] | Publishing _ m \<Rightarrow> [m] | Releasing m \<Rightarrow> [m] | Copying m \<Rightarrow> [m])"

text \<open>What a log with two buffers may do with the messages it is given: \<open>logged k g old cur\<close> says that of the messages \<open>g\<close> those of
  \<open>old\<close> have left the writing buffer, those of \<open>cur\<close> are in it, and \<open>k\<close> times the messages in it were dropped. A
  message goes behind the others if it fits. If it does not, it is the first one in its buffer, and those before it are handed on or,
  which is counted, dropped. No message is lost in another way.\<close>

inductive logged :: "nat \<Rightarrow> c_char list list \<Rightarrow> c_char list list \<Rightarrow> c_char list list \<Rightarrow> bool" where
  logged_none: "logged 0 [] [] []"
| logged_here: "logged k g old cur \<Longrightarrow> length (concat cur) + length m \<le> LIMIT \<Longrightarrow> logged k (g @ [m]) old (cur @ [m])"
| logged_switch: "logged k g old cur \<Longrightarrow> LIMIT < length (concat cur) + length m \<Longrightarrow> logged k (g @ [m]) (old @ cur) [m]"
| logged_drop: "logged k g old cur \<Longrightarrow> LIMIT < length (concat cur) + length m \<Longrightarrow> logged (Suc k) (g @ [m]) old [m]"

text \<open>So what is kept is in order, and without a drop it is everything.\<close>

lemma logged_subseq: "logged k g old cur \<Longrightarrow> subseq (old @ cur) g"
proof (induction rule: logged.induct)
  case (logged_drop k g old cur m)
  then have "subseq old g" using subseq_order.trans [of old "old @ cur" g] by (simp add: prefix_imp_subseq)
  then show ?case by (simp add: list_emb_append_mono)
qed (simp_all add: list_emb_append_mono flip: append_assoc)

lemma logged_all: "logged k g old cur \<Longrightarrow> k = 0 \<Longrightarrow> old @ cur = g"
  by (induction rule: logged.induct) auto

text \<open>The messages in the file and the other buffer, and those in this one. A message that is being copied counts as logged; while the
  buffers are switched for it, those before it are still in the buffer.\<close>

definition data_ok :: "half \<Rightarrow> nat \<Rightarrow> c_char list list \<Rightarrow> c_char list list \<Rightarrow> log_sys \<Rightarrow> bool" where
  "data_ok a n ms1 ms2 s \<longleftrightarrow> log_file s @ sealed a s = concat ms1 \<and> current a n s = concat ms2 \<and>
     (case cpy s of
        Switching _ m \<Rightarrow> logged (num_loose (bufs s)) (given s) (ms1 @ ms2) [m]
      | _ \<Rightarrow> logged (num_loose (bufs s)) (given s) ms1 (ms2 @ in_flight s))"

definition log_inv :: "log_sys \<Rightarrow> bool" where
  "log_inv s \<longleftrightarrow> (\<exists>a n ms1 ms2. control_ok a n s \<and> data_ok a n ms1 ms2 s)"

section \<open>Every step keeps it\<close>

lemma log_start_inv:
  assumes "gps_dbg_log_pingpang_init True True = Some p"
  shows "log_inv (log_start p)"
proof -
  have "control_ok B1 0 (log_start p)" "data_ok B1 0 [] [] (log_start p)"
    using assms by (auto simp: gps_dbg_log_pingpang_init_def log_start_def control_defs data_ok_def sealed_def
        current_def in_flight_def zero_mem_def intro: logged_none split: half.split)
  then show ?thesis unfolding log_inv_def by blast
qed

lemma current_length: "control_ok a n s \<Longrightarrow> length (current a n s) = n"
  by (simp add: control_ok_def copier_ok_def current_def)

lemma call_inv:
  assumes "control_ok a n s" "data_ok a n ms1 ms2 s" "cpy s = Idle" "length msg \<le> LIMIT"
  shows "\<exists>t. call_copy msg s = Some t \<and> log_inv t"
proof -
  have w: "writing_half (bufs s) = Some a" using assms(1,3) by (intro writing_current) (simp_all add: publishing_def)
  have nw: "next_write (bufs s) = Some (a, n)" using assms(1) by (simp add: control_ok_def)
  have n: "length (concat ms2) = n" using assms(1,2) current_length [of a n s] by (simp add: data_ok_def)
  have l: "logged (num_loose (bufs s)) (given s) ms1 ms2" using assms(2,3) by (simp add: data_ok_def in_flight_def)
  consider (here) "n + length msg \<le> LIMIT" | (sw) "LIMIT < n + length msg" "pp_state (bufs s) (opposite a) = WRITABLE"
    | (drop) "LIMIT < n + length msg" "pp_state (bufs s) (opposite a) \<noteq> WRITABLE" by linarith
  then show ?thesis
  proof cases
    case here
    define t where "t = s\<lparr>given := given s @ [msg], cpy := Copying msg\<rparr>"
    have "call_copy msg s = Some t" using w nw here by (simp add: call_copy_def choose_place_def t_def)
    moreover have "control_ok a n t" using assms(1,3) here by (auto simp: control_defs t_def)
    moreover have "data_ok a n ms1 ms2 t" using assms(2,3) logged_here [OF l] here n
      by (auto simp: data_ok_def t_def sealed_def current_def in_flight_def publishing_def Let_def)
    ultimately show ?thesis unfolding log_inv_def by blast
  next
    case sw
    define t where "t = s\<lparr>given := given s @ [msg], cpy := Switching a msg\<rparr>"
    have "call_copy msg s = Some t" using w nw sw by (simp add: call_copy_def choose_place_def t_def)
    moreover have "control_ok a n t" using assms(1,3,4) sw by (auto simp: control_defs t_def)
    moreover have "data_ok a n ms1 ms2 t" using assms(2,3) logged_switch [OF l] sw(1) n
      by (auto simp: data_ok_def t_def sealed_def current_def publishing_def Let_def)
    ultimately show ?thesis unfolding log_inv_def by blast
  next
    case drop
    define t where "t = s\<lparr>given := given s @ [msg], bufs := drop_buffer a (bufs s), cpy := Copying msg\<rparr>"
    have "call_copy msg s = Some t" using w nw drop by (simp add: call_copy_def choose_place_def t_def)
    moreover have "control_ok a 0 t" using assms(1,3,4) drop by (auto simp: control_defs t_def drop_buffer_def zero_mem_def)
    moreover have "data_ok a 0 ms1 [] t" using assms(2,3) logged_drop [OF l] drop(1) n
      by (auto simp: data_ok_def t_def sealed_def current_def in_flight_def publishing_def Let_def drop_buffer_def)
    ultimately show ?thesis unfolding log_inv_def by blast
  qed
qed

lemma copier_inv:
  assumes "control_ok a n s" "data_ok a n ms1 ms2 s" "cpy s \<noteq> Idle"
  shows "\<exists>t. copier_step (cpy s) s = Some t \<and> log_inv t"
proof (cases "cpy s")
  case Idle
  then show ?thesis using assms(3) by simp
next
  case (Switching b msg)
  then have b: "b = a" using assms(1) by (simp add: control_defs)
  obtain t where t: "copier_step (cpy s) s = Some t" "t = s\<lparr>bufs := (bufs s)\<lparr>lenth_to_write := (lenth_to_write (bufs s))(a := n),
      next_write := Some (opposite a, 0), pp_state := (pp_state (bufs s))(opposite a := WRITING)\<rparr>, cpy := Publishing a msg\<rparr>"
    using assms(1) Switching b by (simp add: control_ok_def switch_to_other_def)
  have "control_ok (opposite a) 0 t" using assms(1) Switching by (auto simp: control_defs t(2))
  moreover have "data_ok (opposite a) 0 (ms1 @ ms2) [] t" using assms(1,2) Switching
    by (auto simp: data_ok_def t(2) sealed_def current_def in_flight_def control_defs)
  ultimately show ?thesis using t(1) unfolding log_inv_def by blast
next
  case (Publishing b msg)
  then have b: "b = opposite a" using assms(1) by (simp add: control_defs)
  define t where "t = s\<lparr>bufs := make_readable (opposite a) (bufs s), cpy := Releasing msg\<rparr>"
  have "control_ok a n t" using assms(1) Publishing by (auto simp: control_defs t_def make_readable_def)
  moreover have "data_ok a n ms1 ms2 t" using assms(2) Publishing
    by (auto simp: data_ok_def t_def sealed_def current_def in_flight_def publishing_def make_readable_def)
  moreover have "copier_step (cpy s) s = Some t" by (simp add: Publishing b t_def)
  ultimately show ?thesis unfolding log_inv_def by blast
next
  case (Releasing msg)
  define t where "t = s\<lparr>condtion := True, cpy := Copying msg\<rparr>"
  have "control_ok a n t" using assms(1) Releasing by (auto simp: control_defs t_def)
  moreover have "data_ok a n ms1 ms2 t" using assms(2) Releasing
    by (auto simp: data_ok_def t_def sealed_def current_def in_flight_def publishing_def Let_def)
  moreover have "copier_step (cpy s) s = Some t" by (simp add: Releasing t_def)
  ultimately show ?thesis unfolding log_inv_def by blast
next
  case (Copying msg)
  define m where "m = pp_mem (bufs s) a"
  have l: "n + length msg \<le> length m" "next_write (bufs s) = Some (a, n)"
    using assms(1) Copying by (auto simp: control_defs m_def)
  define t where "t = s\<lparr>bufs := (bufs s)\<lparr>pp_mem := (pp_mem (bufs s))(a := take n m @ msg @ drop (n + length msg) m),
      next_write := Some (a, n + length msg)\<rparr>, cpy := Idle\<rparr>"
  have "control_ok a (n + length msg) t" using assms(1) Copying l(1) by (auto simp: control_defs t_def m_def)
  moreover have "current a (n + length msg) t = current a n s @ msg" "sealed a t = sealed a s"
    using Copying l(1) by (simp_all add: current_def sealed_def publishing_def t_def m_def Let_def)
  then have "data_ok a (n + length msg) ms1 (ms2 @ [msg]) t" using assms(2) Copying
    by (simp add: data_ok_def in_flight_def t_def)
  moreover have "copier_step (cpy s) s = Some t" using l by (simp add: Copying t_def m_def memcpy_next_def)
  ultimately show ?thesis unfolding log_inv_def by blast
qed

lemma logger_inv:
  assumes "control_ok a n s" "data_ok a n ms1 ms2 s" "lgr s = Waiting \<longrightarrow> condtion s"
  shows "\<exists>t. logger_step (lgr s) s = Some t \<and> log_inv t"
proof (cases "lgr s")
  case Waiting
  define t where "t = s\<lparr>condtion := False, lgr := Look B1\<rparr>"
  have "control_ok a n t" using assms(1) Waiting by (auto simp: control_defs t_def split: copier.splits)
  moreover have "data_ok a n ms1 ms2 t" using assms(2) Waiting
    by (auto simp: data_ok_def t_def sealed_def current_def in_flight_def publishing_def Let_def split: copier.splits)
  ultimately show ?thesis using Waiting unfolding log_inv_def by (auto simp: t_def)
next
  case (Look b)
  show ?thesis
  proof (cases "readable b (bufs s)")
    case True
    then have b: "b = opposite a" using assms(1) half_cases [of b a] by (auto simp: readable_def control_ok_def)
    define t where "t = s\<lparr>bufs := start_reading b (bufs s), lgr := Writing b\<rparr>"
    have "control_ok a n t" using assms(1) Look True
      by (auto simp: control_defs t_def b start_reading_def readable_def split: copier.splits)
    moreover have "data_ok a n ms1 ms2 t" using assms(2) Look True
      by (auto simp: data_ok_def t_def sealed_def current_def in_flight_def publishing_def Let_def b start_reading_def readable_def
          split: copier.splits)
    ultimately show ?thesis using Look True unfolding log_inv_def by (auto simp: t_def)
  next
    case False
    define t where "t = s\<lparr>lgr := (case b of B1 \<Rightarrow> Look B2 | B2 \<Rightarrow> Waiting)\<rparr>"
    have "control_ok a n t" using assms(1) Look False
      by (cases a; cases b) (auto simp: control_defs t_def readable_def split: copier.splits)
    moreover have "data_ok a n ms1 ms2 t" using assms(2) Look
      by (cases b) (auto simp: data_ok_def t_def sealed_def current_def in_flight_def publishing_def Let_def split: copier.splits)
    ultimately show ?thesis using Look False unfolding log_inv_def by (auto simp: t_def)
  qed
next
  case (Writing b)
  then have b: "b = opposite a" using assms(1) half_cases [of b a] by (auto simp: control_defs)
  define d where "d = take (lenth_to_write (bufs s) b) (pp_mem (bufs s) b)"
  define t where "t = s\<lparr>log_file := log_file s @ d, lgr := Clearing b\<rparr>"
  have "control_ok a n t" using assms(1) Writing by (auto simp: control_defs t_def b split: copier.splits)
  moreover have "data_ok a n ms1 ms2 t" using assms(1,2) Writing
    by (auto simp: data_ok_def t_def d_def sealed_def current_def in_flight_def control_defs b split: copier.splits)
  moreover have "logger_step (lgr s) s = Some t"
    using assms(1) Writing by (auto simp: t_def d_def written_def control_defs b)
  ultimately show ?thesis unfolding log_inv_def by blast
next
  case (Clearing b)
  then have b: "b = opposite a" using assms(1) half_cases [of b a] by (auto simp: control_defs)
  define t where "t = s\<lparr>bufs := clear_half b (bufs s), lgr := Finishing b\<rparr>"
  have "control_ok a n t" using assms(1) Clearing
    by (auto simp: control_defs t_def b clear_half_def zero_mem_def split: copier.splits)
  moreover have "data_ok a n ms1 ms2 t" using assms(1,2) Clearing
    by (auto simp: data_ok_def t_def sealed_def current_def in_flight_def control_defs b clear_half_def split: copier.splits)
  moreover have "logger_step (lgr s) s = Some t" by (simp add: Clearing t_def)
  ultimately show ?thesis unfolding log_inv_def by blast
next
  case (Finishing b)
  then have b: "b = opposite a" using assms(1) half_cases [of b a] by (auto simp: control_defs)
  define t where "t = s\<lparr>bufs := make_writable b (bufs s), lgr := Waiting\<rparr>"
  have "control_ok a n t" using assms(1) Finishing
    by (auto simp: control_defs t_def b make_writable_def split: copier.splits)
  moreover have "data_ok a n ms1 ms2 t" using assms(1,2) Finishing
    by (auto simp: data_ok_def t_def sealed_def current_def in_flight_def control_defs b make_writable_def split: copier.splits)
  moreover have "logger_step (lgr s) s = Some t" by (simp add: Finishing t_def)
  ultimately show ?thesis unfolding log_inv_def by blast
qed

section \<open>Reachable states\<close>

lemma step_inv:
  assumes "log_inv s" "enabled a s" "fits LIMIT a"
  shows "\<exists>t. perform a s = Some t \<and> log_inv t"
proof -
  obtain b n ms1 ms2 where i: "control_ok b n s" "data_ok b n ms1 ms2 s" using assms(1) unfolding log_inv_def by blast
  show ?thesis
    using assms(2,3) call_inv [OF i] copier_inv [OF i] logger_inv [OF i] by (cases a) auto
qed

lemma run_inv: "log_run LIMIT s t \<Longrightarrow> log_inv s \<Longrightarrow> log_inv t"
proof (induction rule: log_run.induct)
  case (run_step s t a u)
  then show ?case using step_inv [of t a] by auto
qed

section \<open>One thread at a time\<close>

text \<open>The steps of a thread that is not interrupted make up the function of the code.\<close>

lemma run_trans: "log_run n t u \<Longrightarrow> log_run n s t \<Longrightarrow> log_run n s u"
  by (induction rule: log_run.induct) (auto intro: log_run.intros)

lemma run_one: "enabled a s \<Longrightarrow> fits n a \<Longrightarrow> perform a s = Some t \<Longrightarrow> log_run n s t"
  by (rule run_step [OF run_refl])

lemma copying_step:
  assumes "memcpy_next msg (bufs s) = Some p" "cpy s = Copying msg"
  shows "log_run n s (s\<lparr>bufs := p, cpy := Idle\<rparr>)"
  using assms by (intro run_one [of Copier]) simp_all

lemma copy_steps:
  assumes "gps_dbg_log_pingpang_copy msg (bufs s) = Some (r, rel, p)" "cpy s = Idle"
  shows "log_run (length msg) s (s\<lparr>bufs := p, condtion := rel \<or> condtion s, given := given s @ [msg]\<rparr>)"
proof (cases "writing_half (bufs s)")
  case None
  then have "perform (Call msg) s = Some (s\<lparr>given := given s @ [msg]\<rparr>)" by (simp add: call_copy_def)
  then show ?thesis using assms None by (intro run_one [of "Call msg"]) (simp_all add: gps_dbg_log_pingpang_copy_def)
next
  case (Some b)
  obtain pl q where pl: "choose_place b (length msg) (bufs s) = Some pl" "rel = (pl = Switch)" "memcpy_next msg q = Some p"
    and q: "(case pl of Here \<Rightarrow> Some (bufs s) | Switch \<Rightarrow> map_option (make_readable b) (switch_to_other b (bufs s))
      | Drop \<Rightarrow> Some (drop_buffer b (bufs s))) = Some q"
    using assms(1) Some by (auto simp: gps_dbg_log_pingpang_copy_def bind_eq_Some_conv)
  let ?s = "s\<lparr>given := given s @ [msg]\<rparr>"
  have call: "perform (Call msg) s = Some u \<Longrightarrow> log_run (length msg) s u" for u
    using assms(2) by (intro run_one [of "Call msg"]) simp_all
  show ?thesis
  proof (cases pl)
    case Here
    then have "log_run (length msg) s (?s\<lparr>cpy := Copying msg\<rparr>)" using Some pl by (intro call) (simp add: call_copy_def)
    moreover have "log_run (length msg) (?s\<lparr>cpy := Copying msg\<rparr>) (?s\<lparr>bufs := p, cpy := Idle\<rparr>)"
      using copying_step [of msg "?s\<lparr>cpy := Copying msg\<rparr>" p] pl q Here by simp
    ultimately have "log_run (length msg) s (?s\<lparr>bufs := p, cpy := Idle\<rparr>)" using run_trans by blast
    then show ?thesis using Here pl(2) assms(2) by (cases s) simp
  next
    case Drop
    then have "log_run (length msg) s (?s\<lparr>bufs := q, cpy := Copying msg\<rparr>)" using Some pl q by (intro call) (simp add: call_copy_def)
    moreover have "log_run (length msg) (?s\<lparr>bufs := q, cpy := Copying msg\<rparr>) (?s\<lparr>bufs := p, cpy := Idle\<rparr>)"
      using copying_step [of msg "?s\<lparr>bufs := q, cpy := Copying msg\<rparr>" p] pl by simp
    ultimately have "log_run (length msg) s (?s\<lparr>bufs := p, cpy := Idle\<rparr>)" using run_trans by blast
    then show ?thesis using Drop pl(2) assms(2) by (cases s) simp
  next
    case Switch
    then obtain x where x: "switch_to_other b (bufs s) = Some x" "q = make_readable b x" using q by auto
    have "log_run (length msg) s (?s\<lparr>cpy := Switching b msg\<rparr>)" using Some pl Switch by (intro call) (simp add: call_copy_def)
    moreover have "log_run (length msg) (?s\<lparr>cpy := Switching b msg\<rparr>) (?s\<lparr>bufs := x, cpy := Publishing b msg\<rparr>)"
      using x by (intro run_one [of Copier]) simp_all
    moreover have "log_run (length msg) (?s\<lparr>bufs := x, cpy := Publishing b msg\<rparr>) (?s\<lparr>bufs := q, cpy := Releasing msg\<rparr>)"
      using x by (intro run_one [of Copier]) simp_all
    moreover have "log_run (length msg) (?s\<lparr>bufs := q, cpy := Releasing msg\<rparr>) (?s\<lparr>bufs := q, condtion := True, cpy := Copying msg\<rparr>)"
      by (intro run_one [of Copier]) simp_all
    moreover have "log_run (length msg) (?s\<lparr>bufs := q, condtion := True, cpy := Copying msg\<rparr>)
        (?s\<lparr>condtion := True, bufs := p, cpy := Idle\<rparr>)"
      using copying_step [of msg "?s\<lparr>bufs := q, condtion := True, cpy := Copying msg\<rparr>" p] pl by simp
    ultimately have "log_run (length msg) s (?s\<lparr>condtion := True, bufs := p, cpy := Idle\<rparr>)" using run_trans by blast
    then show ?thesis using Switch pl(2) assms(2) by (cases s) simp
  qed
qed

lemma write_half_steps:
  assumes "write_half b n (bufs s) = Some (d, p)" "lgr s = Look b" "readable b (bufs s)" "lenth_to_write (bufs s) b \<le> n"
  shows "log_run 0 s (s\<lparr>bufs := p, lgr := Waiting, log_file := log_file s @ d\<rparr>)"
proof -
  define q where "q = start_reading b (bufs s)"
  obtain w: "written b (lenth_to_write q b) q = Some d" "p = make_writable b (clear_half b q)"
    using assms(1,4) unfolding write_half_def Let_def q_def [symmetric]
    by (auto simp: bind_eq_Some_conv written_def q_def start_reading_def split: if_splits)
  have "log_run 0 s (s\<lparr>bufs := q, lgr := Writing b\<rparr>)" using assms(2,3) by (intro run_one [of Logger]) (simp_all add: q_def)
  moreover have "log_run 0 (s\<lparr>bufs := q, lgr := Writing b\<rparr>) (s\<lparr>bufs := q, log_file := log_file s @ d, lgr := Clearing b\<rparr>)"
    using w(1) by (intro run_one [of Logger]) simp_all
  moreover have "log_run 0 (s\<lparr>bufs := q, log_file := log_file s @ d, lgr := Clearing b\<rparr>)
      (s\<lparr>bufs := clear_half b q, log_file := log_file s @ d, lgr := Finishing b\<rparr>)"
    by (intro run_one [of Logger]) simp_all
  moreover have "log_run 0 (s\<lparr>bufs := clear_half b q, log_file := log_file s @ d, lgr := Finishing b\<rparr>)
      (s\<lparr>bufs := p, log_file := log_file s @ d, lgr := Waiting\<rparr>)"
    using w(2) by (intro run_one [of Logger]) simp_all
  ultimately have "log_run 0 s (s\<lparr>bufs := p, log_file := log_file s @ d, lgr := Waiting\<rparr>)" using run_trans by blast
  then show ?thesis by (cases s) simp
qed

lemma write_steps:
  assumes "gps_dbg_log_pingpang_write n (bufs s) = Some (d, p)" "lgr s = Waiting" "condtion s"
    "\<forall>b. lenth_to_write (bufs s) b \<le> n"
  shows "log_run 0 s (s\<lparr>bufs := p, condtion := False, log_file := log_file s @ d\<rparr>)"
proof -
  let ?s = "\<lambda>l. s\<lparr>condtion := False, lgr := l\<rparr>"
  have look1: "log_run 0 s (?s (Look B1))" using assms(2,3) by (intro run_one [of Logger]) simp_all
  show ?thesis
  proof (cases "readable B1 (bufs s)")
    case True
    then have "log_run 0 (?s (Look B1)) (s\<lparr>condtion := False, bufs := p, lgr := Waiting, log_file := log_file s @ d\<rparr>)"
      using write_half_steps [of B1 n "?s (Look B1)" d p] assms(1,4) by (simp add: gps_dbg_log_pingpang_write_def)
    then show ?thesis using run_trans [OF _ look1] assms(2) by (cases s) fastforce
  next
    case False
    then have "log_run 0 (?s (Look B1)) (?s (Look B2))" by (intro run_one [of Logger]) simp_all
    then have look2: "log_run 0 s (?s (Look B2))" using look1 run_trans by blast
    have "log_run 0 (?s (Look B2)) (s\<lparr>condtion := False, bufs := p, lgr := Waiting, log_file := log_file s @ d\<rparr>)"
    proof (cases "readable B2 (bufs s)")
      case True
      then show ?thesis using write_half_steps [of B2 n "?s (Look B2)" d p] False assms(1,4)
        by (simp add: gps_dbg_log_pingpang_write_def)
    next
      case F2: False
      then have "d = []" "p = bufs s" using False assms(1) by (simp_all add: gps_dbg_log_pingpang_write_def)
      then show ?thesis using F2 by (intro run_one [of Logger]) simp_all
    qed
    then show ?thesis using run_trans [OF _ look2] assms(2) by (cases s) fastforce
  qed
qed

end
