(* ===== verification/Log_Properties.thy ===== *)
theory Log_Properties
  imports Log_System
begin

text \<open>
  What becomes of the messages in the debug log: the file holds them in order, less those of dropped buffers;
  no full buffer is forgotten; the flush at the end completes the file; and the message that stops the log.
\<close>

section \<open>The order of the log\<close>

text \<open>What is in the buffers, the older one first.\<close>

definition pending :: "log_sys \<Rightarrow> c_char list" where
  "pending s = (case next_write (bufs s) of Some (a, n) \<Rightarrow> sealed a s @ current a n s | None \<Rightarrow> [])"

lemma log_reachable_inv:
  assumes "gps_dbg_log_pingpang_init True True = Some p" "log_run LIMIT (log_start p) s"
  obtains a n ms1 ms2 where "control_ok a n s" "data_ok a n ms1 ms2 s" "pending s = sealed a s @ current a n s"
  using run_inv [OF assms(2) log_start_inv [OF assms(1)]] unfolding log_inv_def pending_def
  by (auto simp: control_ok_def)

text \<open>The message that is being copied is not in a buffer yet.\<close>

lemma data_logged:
  assumes "data_ok a n ms1 ms2 s" "pending s = sealed a s @ current a n s"
  shows "\<exists>old cur. logged (num_loose (bufs s)) (given s) old cur \<and>
    log_file s @ pending s @ concat (in_flight s) = concat (old @ cur)"
proof -
  have data: "log_file s @ pending s = concat (ms1 @ ms2)" using assms by (simp add: data_ok_def flip: append_assoc)
  then have "log_file s @ pending s @ concat (in_flight s) = concat (ms1 @ ms2 @ in_flight s)" by (metis append_assoc concat_append)
  moreover have "\<exists>old cur. logged (num_loose (bufs s)) (given s) old cur \<and> old @ cur = ms1 @ ms2 @ in_flight s"
  proof (cases "cpy s")
    case (Switching b m)
    then have "logged (num_loose (bufs s)) (given s) (ms1 @ ms2) [m]" using assms(1) by (simp add: data_ok_def)
    then show ?thesis using Switching by (intro exI [of _ "ms1 @ ms2"] exI [of _ "[m]"]) (simp add: in_flight_def)
  qed (use assms(1) in \<open>auto simp: data_ok_def\<close>)
  ultimately show ?thesis by metis
qed

text \<open>C12. However the two threads are interleaved, the file, the buffers and the message that is being copied hold the messages in
  the order they were given, whole and each once, less what was dropped: a drop takes exactly the messages in the writing buffer, when the
  next one, which is kept, does not fit behind them, and \<open>num_loose\<close> counts the drops. A call drops them just when the log thread
  still has the other buffer. No step touches memory outside the buffers.\<close>

theorem log_in_order:
  assumes "gps_dbg_log_pingpang_init True True = Some p" "log_run LIMIT (log_start p) s"
  shows "(\<exists>old cur. logged (num_loose (bufs s)) (given s) old cur \<and>
      log_file s @ pending s @ concat (in_flight s) = concat (old @ cur) \<and> subseq (old @ cur) (given s) \<and>
      (num_loose (bufs s) = 0 \<longrightarrow> old @ cur = given s)) \<and>
    (\<exists>a n. next_write (bufs s) = Some (a, n) \<and>
      (\<forall>msg t. cpy s = Idle \<and> length msg \<le> LIMIT \<and> perform (Call msg) s = Some t \<longrightarrow>
        num_loose (bufs t) = num_loose (bufs s) +
          (if LIMIT < n + length msg \<and> pp_state (bufs s) (opposite a) \<in> {READABLE, READING} then 1 else 0))) \<and>
    (\<forall>a. enabled a s \<and> fits LIMIT a \<longrightarrow> perform a s \<noteq> None)"
proof (intro conjI)
  obtain a n ms1 ms2 where i: "control_ok a n s" "data_ok a n ms1 ms2 s" "pending s = sealed a s @ current a n s"
    using log_reachable_inv [OF assms] by metis
  from data_logged [OF i(2,3)]
  show "\<exists>old cur. logged (num_loose (bufs s)) (given s) old cur \<and>
      log_file s @ pending s @ concat (in_flight s) = concat (old @ cur) \<and> subseq (old @ cur) (given s) \<and>
      (num_loose (bufs s) = 0 \<longrightarrow> old @ cur = given s)"
    using logged_subseq logged_all by blast
  have nw: "next_write (bufs s) = Some (a, n)" using i(1) by (simp add: control_ok_def)
  have "num_loose (bufs t) = num_loose (bufs s) +
      (if LIMIT < n + length msg \<and> pp_state (bufs s) (opposite a) \<in> {READABLE, READING} then 1 else 0)"
    if "cpy s = Idle" "perform (Call msg) s = Some t" for msg t
  proof -
    have w: "writing_half (bufs s) = Some a" using i(1) that(1) by (intro writing_current) (simp_all add: publishing_def)
    have "pp_state (bufs s) (opposite a) = WRITABLE \<or> pp_state (bufs s) (opposite a) \<in> {READABLE, READING}"
      using i(1) that(1) by (auto simp: control_defs)
    then show ?thesis using that(2) w nw
      by (auto simp: call_copy_def choose_place_def drop_buffer_def Let_def split: if_splits)
  qed
  with nw show "\<exists>a n. next_write (bufs s) = Some (a, n) \<and>
      (\<forall>msg t. cpy s = Idle \<and> length msg \<le> LIMIT \<and> perform (Call msg) s = Some t \<longrightarrow>
        num_loose (bufs t) = num_loose (bufs s) +
          (if LIMIT < n + length msg \<and> pp_state (bufs s) (opposite a) \<in> {READABLE, READING} then 1 else 0))"
    by blast
  show "\<forall>a. enabled a s \<and> fits LIMIT a \<longrightarrow> perform a s \<noteq> None"
    using step_inv [OF run_inv [OF assms(2) log_start_inv [OF assms(1)]]] by blast
qed

text \<open>C22. No wake-up is lost: when the copying thread is outside its function and the log thread waits with
  nothing signalled, no buffer is left to be written.\<close>

theorem no_lost_wakeup:
  assumes "gps_dbg_log_pingpang_init True True = Some p" "log_run LIMIT (log_start p) s"
    "cpy s = Idle" "lgr s = Waiting" "\<not> condtion s"
  shows "pp_state (bufs s) b \<noteq> READABLE \<and> pp_state (bufs s) b \<noteq> READING"
proof -
  obtain a n ms1 ms2 where "control_ok a n s" using log_reachable_inv [OF assms(1,2)] by metis
  then show ?thesis using assms(3-5) half_cases [of b a] by (auto simp: control_defs)
qed

text \<open>C13. The flush at the end of the log completes the file: with it, the file holds the
  messages in order, all but those that were dropped with a buffer, and the last one is in any case there.\<close>

theorem flush_completes:
  assumes "gps_dbg_log_pingpang_init True True = Some p" "log_run LIMIT (log_start p) s" "cpy s = Idle" "lgr s = Waiting"
  shows "\<exists>d q old cur. gps_dbg_log_pingpang_flush (bufs s) = Some (d, q) \<and> next_write q = None \<and>
    log_file s @ d = concat (old @ cur) \<and> logged (num_loose (bufs s)) (given s) old cur \<and> subseq (old @ cur) (given s) \<and>
    (num_loose (bufs s) = 0 \<longrightarrow> old @ cur = given s) \<and> (given s \<noteq> [] \<longrightarrow> cur \<noteq> [] \<and> last cur = last (given s))"
proof -
  obtain a n ms1 ms2 where c: "control_ok a n s" "data_ok a n ms1 ms2 s" "pending s = sealed a s @ current a n s"
    using log_reachable_inv [OF assms(1,2)] by metis
  have w: "writing_half (bufs s) = Some a" using c(1) assms(3) by (intro writing_current) (simp_all add: publishing_def)
  have "gps_dbg_log_pingpang_flush (bufs s) = Some (pending s, (bufs s)\<lparr>next_write := None\<rparr>)"
    using c(1) w assms(3,4)
    by (auto simp: gps_dbg_log_pingpang_flush_def control_defs written_def c(3) sealed_def current_def)
  moreover obtain old cur where l: "logged (num_loose (bufs s)) (given s) old cur" "log_file s @ pending s = concat (old @ cur)"
    using data_logged [OF c(2,3)] assms(3) by (auto simp: in_flight_def)
  moreover have "given s \<noteq> [] \<longrightarrow> cur \<noteq> [] \<and> last cur = last (given s)" using l(1) by cases auto
  ultimately show ?thesis using logged_subseq [OF l(1)] logged_all [OF l(1)]
    by (intro exI [of _ "pending s"] exI [of _ "(bufs s)\<lparr>next_write := None\<rparr>"] exI [of _ old] exI [of _ cur]) simp
qed

section \<open>A message as long as a buffer\<close>

text \<open>The states after a first message that fits no buffer together with the two bytes kept free.\<close>

definition stalled :: "log_sys \<Rightarrow> bool" where
  "stalled s \<longleftrightarrow> log_file s = [] \<and> lgr s \<in> {Waiting, Look B1, Look B2} \<and>
     (case cpy s of
        Switching b m \<Rightarrow> b = B1 \<and> next_write (bufs s) = Some (B1, 0) \<and> pp_state (bufs s) B1 = WRITING \<and> pp_state (bufs s) B2 = WRITABLE
      | Publishing b m \<Rightarrow> b = B1 \<and> next_write (bufs s) = Some (B2, 0) \<and> pp_state (bufs s) B1 = WRITING \<and> pp_state (bufs s) B2 = WRITING \<and>
          lenth_to_write (bufs s) B1 = 0
      | _ \<Rightarrow> (\<exists>n. next_write (bufs s) = Some (B2, n)) \<and> pp_state (bufs s) B1 = READABLE \<and> pp_state (bufs s) B2 = WRITING \<and>
          lenth_to_write (bufs s) B1 = 0)"

lemma stalled_call: "stalled s \<Longrightarrow> cpy s = Idle \<Longrightarrow> call_copy m s = Some t \<Longrightarrow> stalled t"
  by (auto simp: stalled_def call_copy_def writing_half_def choose_place_def drop_buffer_def Let_def split: if_splits)

lemma stalled_copier: "stalled s \<Longrightarrow> copier_step (cpy s) s = Some t \<Longrightarrow> stalled t"
  by (cases "cpy s") (auto simp: stalled_def switch_to_other_def make_readable_def memcpy_next_def split: if_splits)

lemma stalled_not_readable: "stalled s \<Longrightarrow> \<not> readable b (bufs s)"
  by (cases b) (auto simp: stalled_def readable_def split: copier.splits)

lemma stalled_lgr: "stalled s \<Longrightarrow> l \<in> {Waiting, Look B1, Look B2} \<Longrightarrow> stalled (s\<lparr>lgr := l\<rparr>) \<and> stalled (s\<lparr>condtion := c, lgr := l\<rparr>)"
  by (simp add: stalled_def cong: copier.case_cong)

lemma stalled_logger:
  assumes "stalled s" "logger_step (lgr s) s = Some t"
  shows "stalled t"
proof -
  have "lgr s = Waiting \<or> (\<exists>b. lgr s = Look b)" using assms(1) by (auto simp: stalled_def)
  then show ?thesis
  proof
    assume "lgr s = Waiting"
    then show ?thesis using assms(2) stalled_lgr [OF assms(1), of "Look B1" False] by simp
  next
    assume "\<exists>b. lgr s = Look b"
    then obtain b where b: "lgr s = Look b" ..
    then have "t = s\<lparr>lgr := (case b of B1 \<Rightarrow> Look B2 | B2 \<Rightarrow> Waiting)\<rparr>"
      using assms(2) stalled_not_readable [OF assms(1)] by simp
    then show ?thesis using stalled_lgr [OF assms(1)] by (cases b) simp_all
  qed
qed

lemma stalled_step: "stalled s \<Longrightarrow> enabled a s \<Longrightarrow> perform a s = Some t \<Longrightarrow> stalled t"
  by (metis act.exhaust enabled.simps(1) perform.simps stalled_call stalled_copier stalled_logger)

lemma stalled_run: "log_run N s t \<Longrightarrow> stalled s \<Longrightarrow> stalled t"
  by (induction rule: log_run.induct) (auto intro: stalled_step)

text \<open>When the first message is longer than a buffer less two bytes, the empty first
  buffer is handed to the log thread, which ignores it for its length of 0 and never gives it back: nothing is written to the
  file again until the flush at the end.\<close>

theorem long_message_stalls:
  assumes "gps_dbg_log_pingpang_init True True = Some p" "LIMIT < length msg"
    "perform (Call msg) (log_start p) = Some s" "log_run N s t"
  shows "log_file t = [] \<and> pp_state (bufs t) B1 \<noteq> WRITABLE"
proof -
  have "stalled s" using assms(1-3)
    by (auto simp: gps_dbg_log_pingpang_init_def log_start_def call_copy_def writing_half_def choose_place_def stalled_def)
  then have "stalled t" using assms(4) stalled_run by blast
  then show ?thesis by (auto simp: stalled_def split: copier.splits)
qed

section \<open>Witnesses\<close>

text \<open>The log after one short message, and with a buffer handed over.\<close>

definition fresh :: pingpang where
  "fresh = the (gps_dbg_log_pingpang_init True True)"

lemma fresh_init: "gps_dbg_log_pingpang_init True True = Some fresh"
  by (simp add: fresh_def gps_dbg_log_pingpang_init_def)

definition short_log :: log_sys where
  "short_log = the (do { s \<leftarrow> perform (Call [65, 10]) (log_start fresh); perform Copier s })"

lemma short_log_run:
  "log_run LIMIT (log_start fresh) short_log" "cpy short_log = Idle" "lgr short_log = Waiting" "\<not> condtion short_log"
  "given short_log = [[65, 10]]"
proof -
  obtain s where s: "perform (Call [65, 10]) (log_start fresh) = Some s" "perform Copier s = Some short_log" "cpy s \<noteq> Idle"
    by (simp add: short_log_def log_start_def fresh_def gps_dbg_log_pingpang_init_def call_copy_def writing_half_def
        choose_place_def memcpy_next_def zero_mem_def)
  show "log_run LIMIT (log_start fresh) short_log"
    using run_step [OF run_step [OF run_refl _ _ s(1)] _ _ s(2), of LIMIT] s(3) by (simp add: log_start_def)
qed (simp_all add: short_log_def log_start_def fresh_def gps_dbg_log_pingpang_init_def call_copy_def writing_half_def
        choose_place_def memcpy_next_def zero_mem_def)

theorem log_in_order_witness:
  "log_file short_log @ pending short_log @ concat (in_flight short_log) = [65, 10] \<and> perform (Call [66]) short_log \<noteq> None"
proof -
  have "num_loose (bufs short_log) = 0"
    by (simp add: short_log_def log_start_def fresh_def gps_dbg_log_pingpang_init_def call_copy_def writing_half_def
        choose_place_def memcpy_next_def zero_mem_def)
  moreover have "enabled (Call [66]) short_log" "fits LIMIT (Call [66])" using short_log_run(2) by simp_all
  ultimately show ?thesis using log_in_order [OF fresh_init short_log_run(1)] short_log_run(5) by fastforce
qed

theorem no_lost_wakeup_witness: "pp_state (bufs short_log) B2 \<noteq> READABLE \<and> pp_state (bufs short_log) B2 \<noteq> READING"
  by (rule no_lost_wakeup [OF fresh_init short_log_run(1-4)])

theorem flush_completes_witness:
  "\<exists>d q. gps_dbg_log_pingpang_flush (bufs short_log) = Some (d, q) \<and> next_write q = None \<and> log_file short_log @ d = [65, 10]"
proof -
  have "num_loose (bufs short_log) = 0"
    by (simp add: short_log_def log_start_def fresh_def gps_dbg_log_pingpang_init_def call_copy_def writing_half_def
        choose_place_def memcpy_next_def zero_mem_def)
  then show ?thesis using flush_completes [OF fresh_init short_log_run(1-3)] short_log_run(5) by fastforce
qed

definition long_message :: "c_char list" where
  "long_message = replicate 20479 65"

definition long_log :: log_sys where
  "long_log = the (perform (Call long_message) (log_start fresh))"

theorem long_message_stalls_witness: "log_file long_log = [] \<and> pp_state (bufs long_log) B1 \<noteq> WRITABLE"
proof (rule long_message_stalls [OF fresh_init _ _ run_refl])
  show "LIMIT < length long_message" by (simp add: long_message_def)
  show "perform (Call long_message) (log_start fresh) = Some long_log"
    by (simp add: long_log_def log_start_def fresh_def gps_dbg_log_pingpang_init_def call_copy_def writing_half_def choose_place_def)
qed

end
