(* ===== verification/Log_Files.thy ===== *)
theory Log_Files
  imports C_Text "HOL-Library.Sublist"
begin

text \<open>
  The directory of log files in \<^verbatim>\<open>mnld_entity/src/gps_dbg_log.c\<close>: \<open>gps_log_dir_check\<close> removes the oldest
  files until the directory has room for another one. A directory is the list of its files in the order of \<open>readdir\<close>;
  one run of the outer loop takes one \<open>pass_env\<close>. \<open>None\<close> is a signed overflow.
\<close>

section \<open>Files\<close>

abbreviation GPS_DEBUG_LOG_FILE_NAME_MAX_LEN :: nat where "GPS_DEBUG_LOG_FILE_NAME_MAX_LEN \<equiv> 128"
abbreviation GPS_DBG_LOG_FILE_NUM_LIMIT :: nat where "GPS_DBG_LOG_FILE_NUM_LIMIT \<equiv> 1000"
abbreviation MAX_DBG_LOG_DIR_SIZE :: int where "MAX_DBG_LOG_DIR_SIZE \<equiv> 240 * 1024 * 1024"
abbreviation MAX_DBG_LOG_FILE_SIZE :: int where "MAX_DBG_LOG_FILE_SIZE \<equiv> 20 * 1024 * 1024"

definition log_filename_suffix :: "c_char list" where
  "log_filename_suffix = ascii ''gpsdebug.log''"

record dir_file =
  df_name :: "c_char list"
  df_size :: int
  df_mtime :: int

text \<open>\<open>snprintf\<close> of the directory and a name into an array of 128, and \<open>stat\<close> of the path.\<close>

definition log_path :: "c_char list \<Rightarrow> c_char list \<Rightarrow> c_char list" where
  "log_path sp name = take (GPS_DEBUG_LOG_FILE_NAME_MAX_LEN - 1) (sp @ name)"

definition stat_file :: "c_char list \<Rightarrow> dir_file list \<Rightarrow> c_char list \<Rightarrow> dir_file option" where
  "stat_file sp d name = find (\<lambda>f. sp @ df_name f = log_path sp name) d"

definition FindGPSlogFile :: "c_char list \<Rightarrow> bool" where
  "FindGPSlogFile name = prefix log_filename_suffix name"

definition GetFileSize :: "c_char list \<Rightarrow> dir_file list \<Rightarrow> c_char list \<Rightarrow> int" where
  "GetFileSize sp d name = (case stat_file sp d name of Some f \<Rightarrow> df_size f | None \<Rightarrow> 0)"

definition CmpFileTime :: "c_char list \<Rightarrow> dir_file list \<Rightarrow> c_char list \<Rightarrow> c_char list \<Rightarrow> int option" where
  "CmpFileTime sp d name1 name2 =
     (case (stat_file sp d name1, stat_file sp d name2) of
        (Some f, Some g) \<Rightarrow> in_int (df_mtime f - df_mtime g)
      | _ \<Rightarrow> Some 0)"

section \<open>The check\<close>

text \<open>What a file adds: the size, the number of log files, and the name of the oldest one.\<close>

definition scan_file :: "c_char list \<Rightarrow> dir_file list \<Rightarrow> dir_file \<Rightarrow> int \<times> nat \<times> c_char list \<Rightarrow> (int \<times> nat \<times> c_char list) option" where
  "scan_file sp d f = (\<lambda>(sz, n, OldGpsFile).
     let name = df_name f in
     if name = ascii ''.'' \<or> name = ascii ''..'' \<or> GPS_DEBUG_LOG_FILE_NAME_MAX_LEN \<le> length name \<or> \<not> FindGPSlogFile name
     then Some (sz, n, OldGpsFile)
     else do {
       sz \<leftarrow> in_int (GetFileSize sp d name + sz);
       if take (length log_filename_suffix) OldGpsFile \<noteq> take (length log_filename_suffix) name then Some (sz, n + 1, name)
       else do {
         c \<leftarrow> CmpFileTime sp d name OldGpsFile;
         Some (sz, n + 1, if c < 0 then name else OldGpsFile)
       }
     })"

fun scan_dir :: "c_char list \<Rightarrow> dir_file list \<Rightarrow> dir_file list \<Rightarrow> int \<times> nat \<times> c_char list \<Rightarrow> (int \<times> nat \<times> c_char list) option" where
  "scan_dir sp d [] r = Some r"
| "scan_dir sp d (f # fs) r = do { r \<leftarrow> scan_file sp d f r; scan_dir sp d fs r }"

text \<open>What one pass finds: whether the directory can be opened, how many entries it reads before the thread is told
  to exit, whether the removal works, and whether the thread is told to exit by its end.\<close>

record pass_env =
  pe_access :: bool
  pe_seen :: nat
  pe_remove :: bool
  pe_exit :: bool

definition over_limit :: "int \<Rightarrow> nat \<Rightarrow> bool" where
  "over_limit sz n \<longleftrightarrow> MAX_DBG_LOG_DIR_SIZE - MAX_DBG_LOG_FILE_SIZE < sz \<or> GPS_DBG_LOG_FILE_NUM_LIMIT < n"

definition dir_pass :: "c_char list \<Rightarrow> pass_env \<Rightarrow> dir_file list \<Rightarrow> (int \<times> nat \<times> dir_file list) option" where
  "dir_pass sp e d = do {
     (sz, n, OldGpsFile) \<leftarrow> scan_dir sp d (take (pe_seen e) d) (0, 0, []);
     if MAX_DBG_LOG_DIR_SIZE - MAX_DBG_LOG_FILE_SIZE \<le> sz \<or> GPS_DBG_LOG_FILE_NUM_LIMIT < n then do {
       sz \<leftarrow> in_int (sz - GetFileSize sp d OldGpsFile);
       Some (sz, n, if pe_remove e then filter (\<lambda>f. sp @ df_name f \<noteq> log_path sp OldGpsFile) d else d)
     }
     else Some (sz, n, d)
   }"

text \<open>The result is \<open>None\<close> while the loop still runs; then \<open>total_file_count\<close> and the directory.\<close>

fun gps_log_dir_check :: "c_char list \<Rightarrow> pass_env list \<Rightarrow> nat \<Rightarrow> dir_file list \<Rightarrow> (int option \<times> nat \<times> dir_file list) option" where
  "gps_log_dir_check sp [] n d = Some (None, n, d)"
| "gps_log_dir_check sp (e # es) n d =
     (if \<not> pe_access e then Some (Some (- 1), n, d)
      else do {
        (sz, n, d) \<leftarrow> dir_pass sp e d;
        if over_limit sz n \<and> \<not> pe_exit e then gps_log_dir_check sp es n d else Some (Some sz, n, d)
      })"

section \<open>A pass over a directory\<close>

definition is_log :: "dir_file \<Rightarrow> bool" where
  "is_log f = prefix log_filename_suffix (df_name f)"

definition logs :: "dir_file list \<Rightarrow> dir_file list" where
  "logs d = filter is_log d"

definition log_bytes :: "dir_file list \<Rightarrow> int" where
  "log_bytes d = sum_list (map df_size (logs d))"

text \<open>Directories the check can handle: names are distinct and fit with their path, the total size is an \<open>int\<close>.\<close>

definition dir_ok :: "c_char list \<Rightarrow> dir_file list \<Rightarrow> bool" where
  "dir_ok sp d \<longleftrightarrow> distinct (map df_name d) \<and> log_bytes d < 2 ^ 31 \<and>
     (\<forall>f\<in>set d. length sp + length (df_name f) < GPS_DEBUG_LOG_FILE_NAME_MAX_LEN \<and> 0 \<le> df_size f \<and> 0 \<le> df_mtime f \<and> df_mtime f < 2 ^ 31)"

lemma find_distinct: "distinct (map g xs) \<Longrightarrow> x \<in> set xs \<Longrightarrow> find (\<lambda>y. g y = g x) xs = Some x"
  by (induction xs) (auto simp: image_iff)

lemma log_path_fits: "dir_ok sp d \<Longrightarrow> f \<in> set d \<Longrightarrow> log_path sp (df_name f) = sp @ df_name f"
  unfolding log_path_def by (rule take_all) (auto simp: dir_ok_def)

lemma stat_member: "dir_ok sp d \<Longrightarrow> f \<in> set d \<Longrightarrow> stat_file sp d (df_name f) = Some f"
  using find_distinct [of df_name d f] by (simp add: stat_file_def log_path_fits) (simp add: dir_ok_def)

lemma logs_append [simp]: "logs (fs @ gs) = logs fs @ logs gs"
  by (simp add: logs_def)

lemma logs_single: "logs [f] = (if is_log f then [f] else [])"
  by (simp add: logs_def)

lemma GetFileSize_member: "dir_ok sp d \<Longrightarrow> f \<in> set d \<Longrightarrow> GetFileSize sp d (df_name f) = df_size f"
  by (simp add: GetFileSize_def stat_member)

lemma suffix_length: "length log_filename_suffix = 12"
  by (simp add: log_filename_suffix_def ascii_def)

lemma suffix_nonempty [simp]: "log_filename_suffix \<noteq> []" "[] \<noteq> log_filename_suffix"
  by (simp_all add: log_filename_suffix_def ascii_def)

lemma prefix_take: "prefix xs ys \<Longrightarrow> take (length xs) ys = xs"
  by (auto simp: prefix_def)

text \<open>The oldest log file so far.\<close>

definition oldest :: "dir_file list \<Rightarrow> c_char list \<Rightarrow> bool" where
  "oldest fs name \<longleftrightarrow> (if logs fs = [] then name = []
     else \<exists>f\<in>set (logs fs). name = df_name f \<and> (\<forall>g\<in>set (logs fs). df_mtime f \<le> df_mtime g))"

lemma scan_dir_append: "scan_dir sp d (fs @ gs) r = Option.bind (scan_dir sp d fs r) (scan_dir sp d gs)"
  by (induction fs arbitrary: r) (auto split: bind_splits)

lemma log_bytes_prefix:
  assumes "dir_ok sp (fs @ gs)"
  shows "0 \<le> log_bytes fs \<and> log_bytes fs \<le> log_bytes (fs @ gs)"
proof -
  have "0 \<le> sum_list (map df_size (logs hs))" if "set hs \<subseteq> set (fs @ gs)" for hs
    using that assms by (intro sum_list_nonneg) (auto simp: logs_def dir_ok_def)
  from this [of fs] this [of gs] show ?thesis by (simp add: log_bytes_def logs_def)
qed

lemma scan_result:
  assumes "dir_ok sp d" "prefix fs d"
  shows "\<exists>name. scan_dir sp d fs (0, 0, []) = Some (log_bytes fs, length (logs fs), name) \<and> oldest fs name"
  using assms(2)
proof (induction fs rule: rev_induct)
  case Nil
  then show ?case by (simp add: log_bytes_def logs_def oldest_def)
next
  case (snoc f fs)
  obtain name where IH: "scan_dir sp d fs (0, 0, []) = Some (log_bytes fs, length (logs fs), name)" "oldest fs name"
    using snoc by (auto dest: append_prefixD)
  have f: "f \<in> set d" "set fs \<subseteq> set d" using snoc.prems by (auto simp: prefix_def)
  obtain gs where d: "d = (fs @ [f]) @ gs" using snoc.prems by (auto simp: prefix_def)
  show ?case
  proof (cases "is_log f")
    case False
    then have "scan_file sp d f (log_bytes fs, length (logs fs), name) = Some (log_bytes fs, length (logs fs), name)"
      by (simp add: scan_file_def is_log_def FindGPSlogFile_def Let_def)
    then show ?thesis using IH False by (simp add: scan_dir_append log_bytes_def logs_single oldest_def)
  next
    case True
    have sz: "log_bytes (fs @ [f]) = log_bytes fs + df_size f" using True by (simp add: log_bytes_def logs_single)
    have "in_int (df_size f + log_bytes fs) = Some (log_bytes (fs @ [f]))"
      using log_bytes_prefix [of sp "fs @ [f]" gs] assms(1) d sz by (auto simp: in_int_def dir_ok_def)
    moreover have "df_name f \<noteq> ascii ''.''" "df_name f \<noteq> ascii ''..''" "length (df_name f) < 128"
      using True f(1) assms(1) by (auto simp: is_log_def log_filename_suffix_def ascii_def dir_ok_def prefix_def)
    ultimately have scan: "scan_file sp d f (log_bytes fs, length (logs fs), name) =
        (if take 12 name \<noteq> take 12 (df_name f) then Some (log_bytes (fs @ [f]), length (logs fs) + 1, df_name f)
         else do { c \<leftarrow> CmpFileTime sp d (df_name f) name;
           Some (log_bytes (fs @ [f]), length (logs fs) + 1, if c < 0 then df_name f else name) })"
      using True assms(1) f(1) by (simp add: scan_file_def is_log_def FindGPSlogFile_def Let_def GetFileSize_member suffix_length)
    show ?thesis
    proof (cases "logs fs = []")
      case Nil: True
      then have "take 12 name \<noteq> take 12 (df_name f)" using IH(2) prefix_take [of log_filename_suffix "df_name f"] True
        by (auto simp: oldest_def is_log_def suffix_length)
      then show ?thesis using IH(1) scan True Nil by (simp add: scan_dir_append logs_single oldest_def)
    next
      case False
      then obtain g where g: "g \<in> set (logs fs)" "name = df_name g" "\<forall>h\<in>set (logs fs). df_mtime g \<le> df_mtime h"
        using IH(2) by (auto simp: oldest_def)
      have gd: "g \<in> set d" "is_log g" using g(1) f(2) by (auto simp: logs_def)
      have times: "0 \<le> df_mtime x \<and> df_mtime x < 2 ^ 31" if "x \<in> set d" for x using assms(1) that by (simp add: dir_ok_def)
      have "take 12 name = take 12 (df_name f)"
        using prefix_take [of log_filename_suffix "df_name f"] prefix_take [of log_filename_suffix name] gd True g(2)
        by (simp add: is_log_def suffix_length)
      moreover have "CmpFileTime sp d (df_name f) name = Some (df_mtime f - df_mtime g)"
        using times [OF f(1)] times [OF gd(1)] stat_member [OF assms(1)] f(1) gd(1) g(2) by (simp add: CmpFileTime_def in_int_def)
      ultimately have "scan_file sp d f (log_bytes fs, length (logs fs), name) =
          Some (log_bytes (fs @ [f]), length (logs fs) + 1, if df_mtime f < df_mtime g then df_name f else name)"
        using scan by simp
      moreover have "oldest (fs @ [f]) (if df_mtime f < df_mtime g then df_name f else name)"
        using g True by (fastforce simp: oldest_def logs_single)
      ultimately show ?thesis using IH(1) True by (simp add: scan_dir_append logs_single)
    qed
  qed
qed

lemma drop_name:
  fixes fs :: "dir_file list"
  assumes "distinct (map df_name fs)" "f \<in> set fs"
  shows "sum_list (map df_size (filter (\<lambda>g. df_name g \<noteq> df_name f) fs)) = sum_list (map df_size fs) - df_size f \<and>
    length (filter (\<lambda>g. df_name g \<noteq> df_name f) fs) + 1 = length fs"
proof -
  obtain xs ys where fs: "fs = xs @ f # ys" using split_list [OF assms(2)] by blast
  have "filter (\<lambda>g. df_name g \<noteq> df_name f) zs = zs" if "df_name f \<notin> df_name ` set zs" for zs :: "dir_file list"
    using that by (induction zs) auto
  then have "filter (\<lambda>g. df_name g \<noteq> df_name f) fs = xs @ ys" using assms(1) fs by simp
  then show ?thesis using fs by simp
qed

lemma distinct_logs: "distinct (map df_name d) \<Longrightarrow> distinct (map df_name (logs d))"
  by (simp add: logs_def distinct_map_filter)

lemma log_bytes_member:
  assumes "dir_ok sp d" "f \<in> set (logs d)"
  shows "0 \<le> df_size f \<and> df_size f \<le> log_bytes d"
proof -
  have "0 \<le> sum_list (map df_size (filter (\<lambda>g. df_name g \<noteq> df_name f) (logs d)))"
    using assms(1) by (intro sum_list_nonneg) (auto simp: logs_def dir_ok_def)
  then show ?thesis using drop_name [OF distinct_logs assms(2)] assms by (simp add: log_bytes_def dir_ok_def logs_def)
qed

section \<open>The whole check\<close>

definition all_read :: "dir_file list \<Rightarrow> pass_env \<Rightarrow> bool" where
  "all_read d e \<longleftrightarrow> pe_access e \<and> \<not> pe_exit e \<and> length d \<le> pe_seen e"

definition full :: "dir_file list \<Rightarrow> bool" where
  "full d \<longleftrightarrow> MAX_DBG_LOG_DIR_SIZE - MAX_DBG_LOG_FILE_SIZE \<le> log_bytes d \<or> GPS_DBG_LOG_FILE_NUM_LIMIT < length (logs d)"

lemma dir_pass_result:
  assumes "dir_ok sp d" "all_read d e" "full d"
  obtains f where "f \<in> set (logs d)" "\<forall>g\<in>set (logs d). df_mtime f \<le> df_mtime g"
    "dir_pass sp e d = Some (log_bytes d - df_size f, length (logs d), if pe_remove e then filter (\<lambda>g. df_name g \<noteq> df_name f) d else d)"
proof -
  obtain name where s: "scan_dir sp d (take (pe_seen e) d) (0, 0, []) = Some (log_bytes d, length (logs d), name)" "oldest d name"
    using scan_result [OF assms(1) prefix_order.refl] assms(2) by (auto simp: all_read_def)
  have "logs d \<noteq> []" using assms(3) by (auto simp: full_def log_bytes_def)
  then obtain f where f: "f \<in> set (logs d)" "name = df_name f" "\<forall>g\<in>set (logs d). df_mtime f \<le> df_mtime g"
    using s(2) by (auto simp: oldest_def)
  have fd: "f \<in> set d" using f(1) by (simp add: logs_def)
  have "in_int (log_bytes d - df_size f) = Some (log_bytes d - df_size f)"
    using assms(1) log_bytes_member [OF assms(1) f(1)] by (simp add: in_int_def dir_ok_def)
  then have "dir_pass sp e d = Some (log_bytes d - df_size f, length (logs d), if pe_remove e then filter (\<lambda>g. df_name g \<noteq> df_name f) d else d)"
    using assms(1,3) s(1) f(2) fd by (simp add: dir_pass_def full_def GetFileSize_member log_path_fits)
  then show ?thesis using that f(1,3) by blast
qed

lemma remove_name:
  assumes "distinct (map df_name d)" "f \<in> set (logs d)" "d' = filter (\<lambda>g. df_name g \<noteq> df_name f) d"
  shows "log_bytes d' = log_bytes d - df_size f \<and> length (logs d') + 1 = length (logs d)"
proof -
  have "logs d' = filter (\<lambda>g. df_name g \<noteq> df_name f) (logs d)" using assms(3) by (simp add: logs_def conj_commute)
  then show ?thesis using drop_name [OF distinct_logs [OF assms(1)] assms(2)] by (simp add: log_bytes_def)
qed

lemma remove_ok: "dir_ok sp d \<Longrightarrow> f \<in> set (logs d) \<Longrightarrow> dir_ok sp (filter (\<lambda>g. df_name g \<noteq> df_name f) d)"
  using remove_name [of d f] by (auto simp: dir_ok_def distinct_map_filter logs_def)

text \<open>C21. When files can be removed, the check ends: it needs no more runs of its loop than there are log
  files. Afterwards the log files together have at most 220 MB and are at most a thousand; nothing but log files was removed,
  and none that is newer than one that is left.\<close>

theorem dir_check_ends:
  assumes "dir_ok sp d" "\<forall>e\<in>set es. all_read d e \<and> pe_remove e" "length (logs d) < length es"
  shows "\<exists>n' d' P. gps_log_dir_check sp es n d = Some (Some (log_bytes d'), n', d') \<and>
    log_bytes d' \<le> MAX_DBG_LOG_DIR_SIZE - MAX_DBG_LOG_FILE_SIZE \<and> length (logs d') \<le> GPS_DBG_LOG_FILE_NUM_LIMIT \<and>
    d' = filter P d \<and> (\<forall>f\<in>set d. \<not> P f \<longrightarrow> is_log f \<and> (\<forall>g\<in>set (logs d'). df_mtime f \<le> df_mtime g))"
  using assms
proof (induction es arbitrary: n d)
  case (Cons e es)
  have e: "all_read d e" "pe_remove e" using Cons.prems(2) by simp_all
  show ?case
  proof (cases "full d")
    case False
    then have "dir_pass sp e d = Some (log_bytes d, length (logs d), d)"
      using scan_result [OF Cons.prems(1) prefix_order.refl] e(1) by (auto simp: dir_pass_def full_def all_read_def)
    then show ?thesis using e False
      by (intro exI [of _ "length (logs d)"] exI [of _ d] exI [of _ "\<lambda>_. True"]) (auto simp: all_read_def full_def over_limit_def)
  next
    case True
    obtain f where f: "f \<in> set (logs d)" "\<forall>g\<in>set (logs d). df_mtime f \<le> df_mtime g"
      "dir_pass sp e d = Some (log_bytes d - df_size f, length (logs d), filter (\<lambda>g. df_name g \<noteq> df_name f) d)"
      using dir_pass_result [OF Cons.prems(1) e(1) True] e(2) by auto
    define Q :: "dir_file \<Rightarrow> bool" where "Q = (\<lambda>g. df_name g \<noteq> df_name f)"
    define d1 where "d1 = filter Q d"
    have d1: "dir_ok sp d1" "log_bytes d1 = log_bytes d - df_size f" "length (logs d1) + 1 = length (logs d)"
      using remove_ok [OF Cons.prems(1) f(1)] remove_name [OF _ f(1) refl] Cons.prems(1) by (simp_all add: d1_def Q_def dir_ok_def)
    have pass: "dir_pass sp e d = Some (log_bytes d1, length (logs d), d1)" using f(3) d1(2) by (simp add: d1_def Q_def)
    have rem: "is_log h \<and> (\<forall>g\<in>set (logs (filter P d1)). df_mtime h \<le> df_mtime g)" if "h \<in> set d" "\<not> Q h" for h P
    proof -
      have "h = f" using that f(1) Cons.prems(1) by (auto simp: Q_def logs_def dir_ok_def distinct_map inj_on_def)
      then show ?thesis using f(1,2) by (auto simp: logs_def d1_def)
    qed
    show ?thesis
    proof (cases "over_limit (log_bytes d1) (length (logs d))")
      case False
      then have "gps_log_dir_check sp (e # es) n d = Some (Some (log_bytes d1), length (logs d), d1)"
        using pass e(1) by (simp add: all_read_def)
      then show ?thesis using False rem [of _ "\<lambda>_. True"] d1(3)
        by (intro exI [of _ "length (logs d)"] exI [of _ d1] exI [of _ Q]) (auto simp: over_limit_def d1_def)
    next
      case True
      have "\<forall>e\<in>set es. all_read d1 e \<and> pe_remove e"
        using Cons.prems(2) le_trans [OF length_filter_le [of Q d]] by (simp add: all_read_def d1_def)
      from Cons.IH [OF d1(1) this, of "length (logs d)"] Cons.prems(3) d1(3)
      obtain n' d' P where IH: "gps_log_dir_check sp es (length (logs d)) d1 = Some (Some (log_bytes d'), n', d')"
        "log_bytes d' \<le> MAX_DBG_LOG_DIR_SIZE - MAX_DBG_LOG_FILE_SIZE" "length (logs d') \<le> GPS_DBG_LOG_FILE_NUM_LIMIT"
        "d' = filter P d1" "\<forall>f\<in>set d1. \<not> P f \<longrightarrow> is_log f \<and> (\<forall>g\<in>set (logs d'). df_mtime f \<le> df_mtime g)" by auto
      have "gps_log_dir_check sp (e # es) n d = Some (Some (log_bytes d'), n', d')"
        using pass e(1) True IH(1) by (simp add: all_read_def)
      moreover have "d' = filter (\<lambda>h. Q h \<and> P h) d" using IH(4) by (simp add: d1_def conj_commute)
      moreover have "\<forall>f\<in>set d. \<not> (Q f \<and> P f) \<longrightarrow> is_log f \<and> (\<forall>g\<in>set (logs d'). df_mtime f \<le> df_mtime g)"
        using rem [of _ P] IH(4,5) by (auto simp: d1_def)
      ultimately show ?thesis using IH(2,3) by blast
    qed
  qed
qed simp

text \<open>When files cannot be removed and the directory is too full by more than one file, the
  check never ends unless the thread is told to exit.\<close>

theorem dir_check_stuck:
  assumes "dir_ok sp d" "all_read d e" "\<not> pe_remove e"
    "GPS_DBG_LOG_FILE_NUM_LIMIT < length (logs d) \<or>
     (\<forall>f\<in>set (logs d). MAX_DBG_LOG_DIR_SIZE - MAX_DBG_LOG_FILE_SIZE < log_bytes d - df_size f) \<and> logs d \<noteq> []"
  shows "\<exists>n'. gps_log_dir_check sp (replicate m e) n d = Some (None, n', d)"
proof (induction m arbitrary: n)
  case (Suc m)
  have "full d"
    using assms(4)
  proof
    assume a: "(\<forall>f\<in>set (logs d). MAX_DBG_LOG_DIR_SIZE - MAX_DBG_LOG_FILE_SIZE < log_bytes d - df_size f) \<and> logs d \<noteq> []"
    then obtain f where f: "f \<in> set (logs d)" by (cases "logs d") auto
    with a have "MAX_DBG_LOG_DIR_SIZE - MAX_DBG_LOG_FILE_SIZE < log_bytes d - df_size f" by blast
    moreover have "0 \<le> df_size f" using log_bytes_member [OF assms(1) f] by simp
    ultimately show ?thesis by (simp add: full_def)
  qed (simp add: full_def)
  from dir_pass_result [OF assms(1,2) this] assms(3)
  obtain f where f: "f \<in> set (logs d)" "dir_pass sp e d = Some (log_bytes d - df_size f, length (logs d), d)" by auto
  have "over_limit (log_bytes d - df_size f) (length (logs d))" using assms(4) f(1) unfolding over_limit_def by blast
  then show ?case using Suc.IH [of "length (logs d)"] f(2) assms(2) by (simp add: all_read_def)
qed simp

section \<open>Witnesses\<close>

text \<open>Three files of 115 MB, of which the second is the oldest, and another file.\<close>

definition demo_dir :: "dir_file list" where
  "demo_dir = [\<lparr>df_name = log_filename_suffix @ ascii ''.1'', df_size = 120586240, df_mtime = 30\<rparr>,
     \<lparr>df_name = log_filename_suffix @ ascii ''.2'', df_size = 120586240, df_mtime = 10\<rparr>,
     \<lparr>df_name = ascii ''EPO.DAT'', df_size = 70000, df_mtime = 5\<rparr>,
     \<lparr>df_name = log_filename_suffix @ ascii ''.3'', df_size = 120586240, df_mtime = 20\<rparr>]"

lemma demo_dir_ok: "dir_ok (ascii ''/data/misc/gps/'') demo_dir"
  by (simp add: dir_ok_def demo_dir_def log_bytes_def logs_def is_log_def log_filename_suffix_def ascii_def)

lemma demo_logs: "logs demo_dir = [demo_dir ! 0, demo_dir ! 1, demo_dir ! 3]"
  by (simp add: demo_dir_def logs_def is_log_def log_filename_suffix_def ascii_def)

definition demo_pass :: "bool \<Rightarrow> pass_env" where
  "demo_pass ok = \<lparr>pe_access = True, pe_seen = 100, pe_remove = ok, pe_exit = False\<rparr>"

theorem dir_check_ends_witness:
  "\<exists>n' d' P. gps_log_dir_check (ascii ''/data/misc/gps/'') (replicate 4 (demo_pass True)) 0 demo_dir = Some (Some (log_bytes d'), n', d') \<and>
    log_bytes d' \<le> MAX_DBG_LOG_DIR_SIZE - MAX_DBG_LOG_FILE_SIZE \<and> length (logs d') \<le> GPS_DBG_LOG_FILE_NUM_LIMIT \<and>
    d' = filter P demo_dir \<and> (\<forall>f\<in>set demo_dir. \<not> P f \<longrightarrow> is_log f \<and> (\<forall>g\<in>set (logs d'). df_mtime f \<le> df_mtime g))"
  by (rule dir_check_ends [OF demo_dir_ok]) (simp_all add: demo_logs, simp_all add: all_read_def demo_pass_def demo_dir_def)

theorem dir_check_stuck_witness:
  "\<exists>n'. gps_log_dir_check (ascii ''/data/misc/gps/'') (replicate 7 (demo_pass False)) 0 demo_dir = Some (None, n', demo_dir)"
  by (rule dir_check_stuck [OF demo_dir_ok])
    (simp_all add: demo_logs log_bytes_def, simp_all add: all_read_def demo_pass_def demo_dir_def)

end
