(* ===== verification/Log_Control.thy ===== *)
theory Log_Control
  imports Log_Files Log_Buffer C_Time Lbs_Utility
begin

text \<open>
  The control of the debug log: the commands of the logger application (\<open>mtklogger2mnl_hdlr\<close>) and the log thread of
  \<^verbatim>\<open>mnld_entity/src/gps_dbg_log.c\<close>, and the message that tells the motion processing daemon about it
  (\<^verbatim>\<open>mpe.c\<close>). Texts are the bytes before the NUL; \<open>None\<close> is a text that does not fit its array, a
  null pointer, or a signed overflow.
\<close>

section \<open>State\<close>

text \<open>What the commands send: an answer, a property, the debug type for the library, a message to the motion processing
  daemon.\<close>

datatype log_effect = Answer "c_char list" | Property "c_char list" | Debug_type bool | To_mpe "c_char list"

text \<open>The variables of the file. The debug state is whether the log is enabled; \<open>log_pp\<close> is \<open>None\<close> while the buffers
  are not initialised; \<open>g_hLogFile\<close> is the path of the open file. \<open>log_data\<close> lists the files written, the last first.\<close>

record dbg_log =
  debuglog_enabled :: bool
  gps_debuglog_file_name :: "c_char list"
  storagePath :: "c_char list"
  gsGpsLogFileName :: "c_char list"
  total_file_count :: nat
  Current_FileSize :: int
  Filenum :: nat
  DirLogSize :: int
  g_hLogFile :: "c_char list option"
  g_gpsdbglogThreadExit :: bool
  log_pp :: "pingpang option"
  log_mode :: c_int
  log_data :: "(c_char list \<times> c_char list) list"
  log_out :: "log_effect list"

definition log_init :: dbg_log where
  "log_init = \<lparr>debuglog_enabled = False, gps_debuglog_file_name = ascii ''/mnt/sdcard/mtklog/gpsdbglog/gpsdebug.log'',
     storagePath = ascii ''/mnt/sdcard/mtklog/gpsdbglog/'', gsGpsLogFileName = [], total_file_count = 0, Current_FileSize = 0,
     Filenum = 0, DirLogSize = 0, g_hLogFile = None, g_gpsdbglogThreadExit = True, log_pp = None, log_mode = 0, log_data = [], log_out = []\<rparr>"

definition log_emit :: "log_effect \<Rightarrow> dbg_log \<Rightarrow> dbg_log" where
  "log_emit x s = s\<lparr>log_out := log_out s @ [x]\<rparr>"

text \<open>\<open>strcpy\<close> or \<open>sprintf\<close> of a text into an array of \<open>n\<close> bytes.\<close>

definition fit :: "nat \<Rightarrow> c_char list \<Rightarrow> c_char list option" where
  "fit n t = (if length t < n then Some t else None)"

text \<open>What the calls of one function find: paths that exist, that can be read and written, directories that can be made, the two \<open>calloc\<close>, the
  local time, whether files can be opened, how many bytes \<open>fwrite\<close> takes, the passes of \<open>gps_log_dir_check\<close> and its directory,
  whether GPS runs, and the messages that the library has copied since the last call.\<close>

record log_env =
  le_access :: "c_char list \<Rightarrow> bool"
  le_writable :: "c_char list \<Rightarrow> bool"
  le_mkdir :: "c_char list \<Rightarrow> bool"
  le_alloc :: "bool \<times> bool"
  le_time :: "tm option"
  le_open :: "c_char list \<Rightarrow> bool"
  le_room :: nat
  le_passes :: "pass_env list"
  le_dir :: "dir_file list"
  le_started :: bool
  le_copied :: "c_char list list"

section \<open>The message to the motion processing daemon\<close>

abbreviation CMD_SEND_FROM_MNLD :: c_int where "CMD_SEND_FROM_MNLD \<equiv> 0x40"

definition mnl2mpe_set_log_path :: "c_char list \<Rightarrow> c_int \<Rightarrow> c_int \<Rightarrow> c_char list option" where
  "mnl2mpe_set_log_path path status_flag mode_flag = do {
     path_tmp \<leftarrow> fit GPS_DEBUG_LOG_FILE_NAME_MAX_LEN path;
     Some (enc_int CMD_SEND_FROM_MNLD @ enc_int (word_of_nat (GPS_DEBUG_LOG_FILE_NAME_MAX_LEN + 2 * 4)) @ enc_int status_flag @ enc_int mode_flag @
       path_tmp @ replicate (GPS_DEBUG_LOG_FILE_NAME_MAX_LEN - length path_tmp) 0)
   }"

definition send_log_path :: "c_char list \<Rightarrow> c_int \<Rightarrow> c_int \<Rightarrow> dbg_log \<Rightarrow> dbg_log option" where
  "send_log_path path status mode s = map_option (\<lambda>m. log_emit (To_mpe m) s) (mnl2mpe_set_log_path path status mode)"

section \<open>The log file\<close>

definition FILE_FCLOSE :: "dbg_log \<Rightarrow> dbg_log" where
  "FILE_FCLOSE s = s\<lparr>g_hLogFile := None\<rparr>"

definition open_log :: "c_char list \<Rightarrow> dbg_log \<Rightarrow> dbg_log" where
  "open_log path s = s\<lparr>g_hLogFile := Some path, log_data := (path, []) # log_data s\<rparr>"

text \<open>Bytes for the file that was opened last.\<close>

definition append_log :: "c_char list \<Rightarrow> dbg_log \<Rightarrow> dbg_log" where
  "append_log d s = (case log_data s of (f, old) # fs \<Rightarrow> s\<lparr>log_data := (f, old @ d) # fs\<rparr> | [] \<Rightarrow> s)"

text \<open>\<open>%02d\<close> and \<open>%04d\<close> of numbers that are not negative.\<close>

definition padded :: "nat \<Rightarrow> int \<Rightarrow> c_char list" where
  "padded n v = (let t = show_int v in replicate (n - length t) 48 @ t)"

definition time_stamp :: "tm \<Rightarrow> c_char list" where
  "time_stamp p = padded 4 (1900 + tm_year p) @ padded 2 (1 + tm_mon p) @ padded 2 (tm_mday p) @
     padded 2 (tm_hour p) @ padded 2 (tm_min p) @ padded 2 (tm_sec p)"

text \<open>Whether the file was created, and the state.\<close>

definition create_debug_log_file :: "log_env \<Rightarrow> dbg_log \<Rightarrow> bool \<times> dbg_log" where
  "create_debug_log_file e s =
     (case le_time e of
        None \<Rightarrow> (False, s)
      | Some p \<Rightarrow>
          if gps_debuglog_file_name s = [] then (False, s)
          else if \<not> le_access e (storagePath s) \<and> \<not> le_mkdir e (storagePath s) then (False, s)
          else
            let name = take (GPS_DEBUG_LOG_FILE_NAME_MAX_LEN - 1) (gps_debuglog_file_name s @ ascii ''.'' @ time_stamp p);
                s = FILE_FCLOSE (s\<lparr>gsGpsLogFileName := name, Filenum := 0\<rparr>)
            in if le_open e name then (True, open_log name (s\<lparr>Current_FileSize := 0\<rparr>)) else (False, s))"

text \<open>\<open>None\<close> also when the check of the directory does not return.\<close>

definition check_dir :: "log_env \<Rightarrow> dbg_log \<Rightarrow> dbg_log option" where
  "check_dir e s =
     (case gps_log_dir_check (storagePath s) (le_passes e) (total_file_count s) (le_dir e) of
        Some (Some r, n, _) \<Rightarrow> Some (s\<lparr>DirLogSize := r, total_file_count := n\<rparr>)
      | _ \<Rightarrow> None)"

text \<open>The buffers are initialised when they are not.\<close>

definition ensure_buffers :: "log_env \<Rightarrow> dbg_log \<Rightarrow> dbg_log" where
  "ensure_buffers e s =
     (if log_pp s = None then
        case gps_dbg_log_pingpang_init (fst (le_alloc e)) (snd (le_alloc e)) of
          Some p \<Rightarrow> s\<lparr>log_pp := Some p\<rparr>
        | None \<Rightarrow> s\<lparr>g_gpsdbglogThreadExit := True\<rparr>
      else s)"

definition mtklog_gps_set_debug_file :: "log_env \<Rightarrow> c_char list \<Rightarrow> dbg_log \<Rightarrow> (int \<times> dbg_log) option" where
  "mtklog_gps_set_debug_file e file_name s =
     (if GPS_DEBUG_LOG_FILE_NAME_MAX_LEN \<le> length file_name + 1 then Some (MTK_GPS_ERROR, s)
      else
        let (created, s) = create_debug_log_file e (ensure_buffers e s)
        in if created then map_option (Pair MTK_GPS_SUCCESS) (check_dir e s) else Some (MTK_GPS_SUCCESS, s))"

section \<open>Commands of the logger\<close>

definition LOG_FILE_PATH :: "c_char list" where
  "LOG_FILE_PATH = ascii ''/data/misc/gps/''"

definition PATH_SUFFIX :: "c_char list" where
  "PATH_SUFFIX = ascii ''mtklog/gpsdbglog/''"

text \<open>The new text of \<open>logpath\<close>, an array of 128 that holds the whole message before.\<close>

definition get_mtklog_path :: "log_env \<Rightarrow> c_char list \<Rightarrow> c_char list option" where
  "get_mtklog_path e logpath =
     (case dropWhile (\<lambda>c. c \<noteq> 44) logpath of
        [] \<Rightarrow> Some LOG_FILE_PATH
      | _ # temp \<Rightarrow> do {
          let temp = (if temp \<noteq> [] \<and> last temp \<noteq> 47 then temp @ [47] else temp);
          logpath \<leftarrow> (if length temp \<le> GPS_DEBUG_LOG_FILE_NAME_MAX_LEN - length PATH_SUFFIX
            then fit GPS_DEBUG_LOG_FILE_NAME_MAX_LEN (temp @ PATH_SUFFIX) else Some logpath);
          if length temp \<le> GPS_DEBUG_LOG_FILE_NAME_MAX_LEN - 7 then do {
            mtklogpath \<leftarrow> fit GPS_DEBUG_LOG_FILE_NAME_MAX_LEN (temp @ ascii ''mtklog/'');
            Some (if \<not> le_access e mtklogpath \<and> \<not> le_mkdir e mtklogpath then LOG_FILE_PATH else logpath)
          }
          else Some logpath
        })"

text \<open>The debug type and the file of a running library.\<close>

definition start_library_log :: "log_env \<Rightarrow> dbg_log \<Rightarrow> dbg_log option" where
  "start_library_log e s =
     (if le_started e then map_option snd (mtklog_gps_set_debug_file e (gps_debuglog_file_name s) (log_emit (Debug_type True) s))
      else Some s)"

definition set_storage_path :: "log_env \<Rightarrow> c_char list \<Rightarrow> c_char list \<Rightarrow> dbg_log \<Rightarrow> dbg_log option" where
  "set_storage_path e buff_msg ans s = do {
     path \<leftarrow> fit GPS_DEBUG_LOG_FILE_NAME_MAX_LEN buff_msg;
     path \<leftarrow> get_mtklog_path e path;
     Some (log_emit (Answer ans) (s\<lparr>storagePath := path\<rparr>))
   }"

definition deep_start_1 :: "log_env \<Rightarrow> c_char list \<Rightarrow> dbg_log \<Rightarrow> dbg_log option" where
  "deep_start_1 e ans s = do {
     let s = log_emit (Answer ans) (log_emit (Property (ascii ''1'')) (s\<lparr>debuglog_enabled := True\<rparr>));
     s \<leftarrow> send_log_path (storagePath s) 1 0 s;
     file \<leftarrow> fit GPS_DEBUG_LOG_FILE_NAME_MAX_LEN (storagePath s @ log_filename_suffix);
     start_library_log e (s\<lparr>log_mode := 0, gps_debuglog_file_name := file\<rparr>)
   }"

definition deep_start_2 :: "log_env \<Rightarrow> c_char list \<Rightarrow> dbg_log \<Rightarrow> dbg_log option" where
  "deep_start_2 e ans s = do {
     let s = log_emit (Answer ans) (log_emit (Property (ascii ''1'')) (s\<lparr>debuglog_enabled := True\<rparr>));
     s \<leftarrow> start_library_log e (s\<lparr>gps_debuglog_file_name := LOG_FILE_PATH @ log_filename_suffix, storagePath := LOG_FILE_PATH\<rparr>);
     s \<leftarrow> send_log_path LOG_FILE_PATH 1 1 s;
     Some (s\<lparr>log_mode := 1\<rparr>)
   }"

definition deep_stop :: "log_env \<Rightarrow> c_char list \<Rightarrow> dbg_log \<Rightarrow> dbg_log option" where
  "deep_stop e ans s = do {
     let s = log_emit (Answer ans) (log_emit (Property (ascii ''0'')) (s\<lparr>debuglog_enabled := False\<rparr>));
     let s = (if le_started e then log_emit (Debug_type False) s else s);
     s \<leftarrow> send_log_path (storagePath s) 0 0 s;
     Some (s\<lparr>log_mode := 0\<rparr>)
   }"

text \<open>The array for the message has 253 bytes, of which the last stays zero. The result, the state and the outcomes that are left.\<close>

definition mtklogger2mnl_hdlr :: "log_env \<Rightarrow> rx list \<Rightarrow> dbg_log \<Rightarrow> (int \<times> dbg_log \<times> rx list) option" where
  "mtklogger2mnl_hdlr e rs s =
     (case safe_recvfrom 252 rs of
        (read_len, d, rs) \<Rightarrow>
          if read_len \<le> 0 then Some (- 1, s, rs)
          else do {
            let buff_msg = takeWhile (\<lambda>c. c \<noteq> 0) d;
            ans \<leftarrow> fit 255 (buff_msg @ ascii '',1'');
            s \<leftarrow> (if sublist (ascii ''set_storage_path'') buff_msg then set_storage_path e buff_msg ans s
              else if prefix (ascii ''deep_start,1'') buff_msg then deep_start_1 e ans s
              else if prefix (ascii ''deep_start,2'') buff_msg then deep_start_2 e ans s
              else if prefix (ascii ''deep_stop'') buff_msg then deep_stop e ans s
              else Some (log_emit (Answer ans) s));
            Some (0, s, rs)
          })"

definition mtklogger_mped_reboot_message_update :: "dbg_log \<Rightarrow> dbg_log option" where
  "mtklogger_mped_reboot_message_update s = send_log_path (storagePath s) (if debuglog_enabled s then 1 else 0) (log_mode s) s"

section \<open>The log thread\<close>

text \<open>\<open>gps_stop_dbglog_release_condition\<close>, less the releases of the locks.\<close>

definition gps_stop_dbglog_release_condition :: "dbg_log \<Rightarrow> dbg_log" where
  "gps_stop_dbglog_release_condition s = s\<lparr>g_gpsdbglogThreadExit := True\<rparr>"

definition log_thread_start :: "log_env \<Rightarrow> dbg_log \<Rightarrow> dbg_log option" where
  "log_thread_start e s = do {
     let s = FILE_FCLOSE (s\<lparr>g_gpsdbglogThreadExit := False\<rparr>);
     let s = (if debuglog_enabled s then snd (create_debug_log_file e (ensure_buffers e s)) else s);
     if le_writable e (storagePath s) then check_dir e s else Some s
   }"

text \<open>The next file, when a buffer may not fit this one: whether it could be opened.\<close>

definition next_file_name :: "dbg_log \<Rightarrow> c_char list" where
  "next_file_name s = take (GPS_DEBUG_LOG_FILE_NAME_MAX_LEN - 1) (gsGpsLogFileName s @ ascii ''-'' @ show_nat (Filenum s))"

definition next_log_file :: "log_env \<Rightarrow> dbg_log \<Rightarrow> (bool \<times> dbg_log) option" where
  "next_log_file e s =
     (if g_hLogFile s \<noteq> None \<and> MAX_DBG_LOG_FILE_SIZE < Current_FileSize s + int PINGPANG_BUFFER_SIZE then
        do {
          sz \<leftarrow> in_int (DirLogSize s + Current_FileSize s);
          let s = FILE_FCLOSE (s\<lparr>Filenum := Filenum s + 1, DirLogSize := sz\<rparr>);
          let name = next_file_name s;
          if le_open e name then do {
            let s = open_log name s;
            s \<leftarrow> (if over_limit (DirLogSize s) (total_file_count s + Filenum s) then check_dir e s else Some s);
            Some (True, s\<lparr>Current_FileSize := 0\<rparr>)
          }
          else Some (False, s)
        }
      else Some (True, s))"

text \<open>The run of the loop that follows a release of the lock, with the log enabled: whether the loop goes on.\<close>

definition log_pass_enabled :: "log_env \<Rightarrow> dbg_log \<Rightarrow> (bool \<times> dbg_log) option" where
  "log_pass_enabled e s = do {
     let s = (if le_writable e (storagePath s) then s
              else let s = (FILE_FCLOSE s)\<lparr>debuglog_enabled := False\<rparr>
                   in if le_started e then log_emit (Debug_type False) s else s);
     (go, s) \<leftarrow> next_log_file e s;
     if go \<and> g_hLogFile s \<noteq> None then do {
       p \<leftarrow> log_pp s;
       (d, p) \<leftarrow> gps_dbg_log_pingpang_write (le_room e) p;
       Some (True, (append_log d s)\<lparr>log_pp := Some p, Current_FileSize := int (length d) + Current_FileSize s\<rparr>)
     }
     else Some (go, s)
   }"

text \<open>Flushing, freeing and closing, once the lock of the flush is had.\<close>

definition log_finish :: "dbg_log \<Rightarrow> dbg_log option" where
  "log_finish s =
     (case log_pp s of
        None \<Rightarrow> Some s
      | Some p \<Rightarrow> do {
          s \<leftarrow> (if g_hLogFile s \<noteq> None then do { (d, _) \<leftarrow> gps_dbg_log_pingpang_flush p; Some (append_log d s) } else Some s);
          Some (FILE_FCLOSE (s\<lparr>log_pp := None\<rparr>))
        })"

definition log_pass :: "log_env \<Rightarrow> dbg_log \<Rightarrow> (bool \<times> dbg_log) option" where
  "log_pass e s = (if debuglog_enabled s then log_pass_enabled e s else map_option (Pair True) (log_finish s))"

text \<open>The end of the thread: buffers without a file are kept.\<close>

definition log_thread_end :: "dbg_log \<Rightarrow> dbg_log option" where
  "log_thread_end s = (if g_hLogFile s \<noteq> None then map_option FILE_FCLOSE (log_finish s) else Some s)"

text \<open>What the library has copied, as \<open>mnl_sys_alps_gps_dbg2file_mnld\<close> does.\<close>

fun copy_messages :: "c_char list list \<Rightarrow> dbg_log \<Rightarrow> dbg_log option" where
  "copy_messages [] s = Some s"
| "copy_messages (m # ms) s = do {
     (_, pp) \<leftarrow> mnl_sys_alps_gps_dbg2file_mnld (debuglog_enabled s) m (log_pp s);
     copy_messages ms (s\<lparr>log_pp := pp\<rparr>)
   }"

text \<open>A run of the thread: one environment for each time the lock is released before the thread is told to exit.\<close>

fun log_loop :: "log_env list \<Rightarrow> dbg_log \<Rightarrow> dbg_log option" where
  "log_loop [] s = Some s"
| "log_loop (e # es) s =
     (if g_gpsdbglogThreadExit s then Some s
      else do {
        s \<leftarrow> copy_messages (le_copied e) s;
        (go, s) \<leftarrow> log_pass e s;
        if go then log_loop es s else Some s
      })"

end
