(* ===== verification/Log_Control_Properties.thy ===== *)
theory Log_Control_Properties
  imports Log_Control
begin

text \<open>
  The path of the logs, and how long the log files get.
\<close>

section \<open>The path of the logs\<close>

text \<open>A directory without a slash at its end, and the message that sets it.\<close>

definition path_message :: "c_char list \<Rightarrow> c_char list" where
  "path_message P = ascii ''set_storage_path,'' @ P"

definition dir_path :: "c_char list \<Rightarrow> bool" where
  "dir_path P \<longleftrightarrow> P \<noteq> [] \<and> last P \<noteq> 47 \<and> 0 \<notin> set P"

lemma path_message_text:
  assumes "dir_path P"
  shows "takeWhile (\<lambda>c. c \<noteq> 0) (path_message P) = path_message P" "dropWhile (\<lambda>c. c \<noteq> 44) (path_message P) = 44 # P"
    "sublist (ascii ''set_storage_path'') (path_message P)" "length (path_message P) = 17 + length P"
proof -
  show "takeWhile (\<lambda>c. c \<noteq> 0) (path_message P) = path_message P"
    using assms by (auto simp: path_message_def dir_path_def ascii_def takeWhile_eq_all_conv)
  have "path_message P = [] @ ascii ''set_storage_path'' @ (44 # P)" by (simp add: path_message_def ascii_def)
  then show "sublist (ascii ''set_storage_path'') (path_message P)" by (metis sublist_def)
qed (simp_all add: path_message_def ascii_def)

text \<open>The message that starts the log.\<close>

lemma deep_start_text:
  "mtklogger2mnl_hdlr e [RxData (ascii ''deep_start,1'')] s = map_option (\<lambda>s. (0, s, [])) (deep_start_1 e (ascii ''deep_start,1,1'') s)"
proof -
  have t: "takeWhile (\<lambda>c. c \<noteq> 0) (ascii ''deep_start,1'') = ascii ''deep_start,1''" "safe_recvfrom 252 [RxData (ascii ''deep_start,1'')] = (12, ascii ''deep_start,1'', [])"
    "fit 255 (ascii ''deep_start,1'' @ ascii '',1'') = Some (ascii ''deep_start,1,1'')"
    by (simp_all add: ascii_def safe_recvfrom_def fit_def)
  have "\<not> sublist (ascii ''set_storage_path'') (ascii ''deep_start,1'')" by code_simp
  moreover have "prefix (ascii ''deep_start,1'') (ascii ''deep_start,1'')" by simp
  ultimately show ?thesis using t(2,3) by (simp add: mtklogger2mnl_hdlr_def t(1) bind_eq_map Let_def)
qed

text \<open>C37. The logger application sets the directory of the logs with a message. When the path does not end in a slash and its
  directories are all accessible, up to 109 bytes
  are taken, with the fixed rest appended; a longer path, of the 235 bytes that a message has room for, overruns an array. A path of 98
  bytes or more is taken, but the next start of the log overruns the file name.\<close>

theorem storage_path_bounds:
  assumes "dir_path P" "length P \<le> 235" "\<forall>p. le_access e p"
  shows "mtklogger2mnl_hdlr e [RxData (path_message P)] s =
      (if length P \<le> 109 then
         Some (0, log_emit (Answer (path_message P @ ascii '',1'')) (s\<lparr>storagePath := P @ ascii ''/mtklog/gpsdbglog/''\<rparr>), [])
       else None) \<and>
    (98 \<le> length P \<longrightarrow> mtklogger2mnl_hdlr e [RxData (ascii ''deep_start,1'')] (s\<lparr>storagePath := P @ ascii ''/mtklog/gpsdbglog/''\<rparr>) = None)"
proof
  note m = path_message_text [OF assms(1)]
  have recv: "safe_recvfrom 252 [RxData d] = (int (length d), d, [])" if "length d \<le> 252" for d
    using that by (simp add: safe_recvfrom_def)
  let ?ans = "path_message P @ ascii '',1''"
  have hdlr: "mtklogger2mnl_hdlr e [RxData (path_message P)] s = map_option (\<lambda>s. (0, s, [])) (set_storage_path e (path_message P) ?ans s)"
  proof -
    have "fit 255 ?ans = Some ?ans" "safe_recvfrom 252 [RxData (path_message P)] = (17 + int (length P), path_message P, [])"
      using assms(2) m(4) recv [of "path_message P"] by (simp_all add: fit_def ascii_def)
    then show ?thesis by (simp add: mtklogger2mnl_hdlr_def m(1,3) bind_eq_map Let_def)
  qed
  have slash: "(if P \<noteq> [] \<and> last P \<noteq> 47 then P @ [47] else P) = P @ [47]" using assms(1) by (simp add: dir_path_def)
  have path: "get_mtklog_path e (path_message P) = (if length P \<le> 109 then Some (P @ ascii ''/mtklog/gpsdbglog/'') else None)"
    if "length P \<le> 110"
    using assms(3) that by (auto simp: get_mtklog_path_def m(2) slash Let_def fit_def PATH_SUFFIX_def ascii_def)
  show "mtklogger2mnl_hdlr e [RxData (path_message P)] s =
      (if length P \<le> 109 then
         Some (0, log_emit (Answer ?ans) (s\<lparr>storagePath := P @ ascii ''/mtklog/gpsdbglog/''\<rparr>), [])
       else None)"
  proof (cases "length P \<le> 110")
    case True
    then show ?thesis using path m(4) by (simp add: hdlr set_storage_path_def fit_def)
  next
    case False
    then show ?thesis using m(4) by (simp add: hdlr set_storage_path_def fit_def)
  qed
  let ?p = "P @ ascii ''/mtklog/gpsdbglog/''"
  show "98 \<le> length P \<longrightarrow> mtklogger2mnl_hdlr e [RxData (ascii ''deep_start,1'')] (s\<lparr>storagePath := ?p\<rparr>) = None"
  proof
    assume "98 \<le> length P"
    then have "fit 128 (?p @ log_filename_suffix) = None" by (simp add: fit_def log_filename_suffix_def ascii_def)
    then have "deep_start_1 e a (s\<lparr>storagePath := ?p\<rparr>) = None" for a
      by (cases "mnl2mpe_set_log_path ?p 1 0") (simp_all add: deep_start_1_def send_log_path_def log_emit_def)
    then show "mtklogger2mnl_hdlr e [RxData (ascii ''deep_start,1'')] (s\<lparr>storagePath := ?p\<rparr>) = None"
      by (simp add: deep_start_text)
  qed
qed

section \<open>The length of the log files\<close>

definition mems_ok :: "pingpang \<Rightarrow> bool" where
  "mems_ok p \<longleftrightarrow> (\<forall>b. length (pp_mem p b) = PINGPANG_BUFFER_SIZE)"

definition buffers_ok :: "pingpang option \<Rightarrow> bool" where
  "buffers_ok pp \<longleftrightarrow> (\<forall>p. pp = Some p \<longrightarrow> mems_ok p)"

lemma zero_mem_length [simp]: "length zero_mem = PINGPANG_BUFFER_SIZE"
  by (simp add: zero_mem_def)

lemma init_mems: "gps_dbg_log_pingpang_init a b = Some p \<Longrightarrow> mems_ok p"
  by (auto simp: gps_dbg_log_pingpang_init_def mems_ok_def split: if_splits)

lemma memcpy_mems: "memcpy_next m p = Some q \<Longrightarrow> mems_ok p \<Longrightarrow> mems_ok q"
  by (auto simp: memcpy_next_def mems_ok_def split: option.splits if_splits)

lemma copy_mems: "gps_dbg_log_pingpang_copy m p = Some (r, rel, q) \<Longrightarrow> mems_ok p \<Longrightarrow> mems_ok q"
proof (cases "writing_half p")
  case (Some b)
  have "mems_ok p \<Longrightarrow> mems_ok (drop_buffer b p)" "switch_to_other b p = Some x \<Longrightarrow> mems_ok p \<Longrightarrow> mems_ok (make_readable b x)" for x
    by (auto simp: mems_ok_def drop_buffer_def switch_to_other_def make_readable_def split: option.splits if_splits)
  then show "gps_dbg_log_pingpang_copy m p = Some (r, rel, q) \<Longrightarrow> mems_ok p \<Longrightarrow> mems_ok q"
    using Some by (auto simp: gps_dbg_log_pingpang_copy_def bind_eq_Some_conv intro: memcpy_mems split: place.splits) (metis place.exhaust)
qed (simp add: gps_dbg_log_pingpang_copy_def)

lemma write_mems:
  assumes "gps_dbg_log_pingpang_write room p = Some (d, q)" "mems_ok p"
  shows "length d \<le> PINGPANG_BUFFER_SIZE \<and> mems_ok q"
proof -
  have "write_half b room p = Some (d, q) \<Longrightarrow> length d \<le> PINGPANG_BUFFER_SIZE \<and> mems_ok q" for b
    using assms(2) by (auto simp: write_half_def written_def mems_ok_def start_reading_def clear_half_def make_writable_def
        bind_eq_Some_conv Let_def split: if_splits)
  then show ?thesis using assms by (auto simp: gps_dbg_log_pingpang_write_def split: if_splits)
qed

lemma flush_length:
  assumes "gps_dbg_log_pingpang_flush p = Some (d, q)" "mems_ok p"
  shows "length d \<le> 2 * PINGPANG_BUFFER_SIZE"
proof -
  have w: "written b n p = Some x \<Longrightarrow> length x \<le> PINGPANG_BUFFER_SIZE" for b n x
    using assms(2) by (auto simp: written_def mems_ok_def split: if_splits)
  show ?thesis using assms(1)
    by (auto simp: gps_dbg_log_pingpang_flush_def bind_eq_Some_conv split: option.splits if_splits dest!: w)
qed

text \<open>A flush may add two buffers to a file; the length of the open file is \<open>Current_FileSize\<close>.\<close>

definition sizes_ok :: "dbg_log \<Rightarrow> bool" where
  "sizes_ok s \<longleftrightarrow> (\<forall>x\<in>set (log_data s). int (length (snd x)) \<le> MAX_DBG_LOG_FILE_SIZE + 2 * int PINGPANG_BUFFER_SIZE) \<and>
     buffers_ok (log_pp s) \<and>
     (g_hLogFile s \<noteq> None \<longrightarrow> log_data s \<noteq> [] \<and> Current_FileSize s = int (length (snd (hd (log_data s)))) \<and>
       int (length (snd (hd (log_data s)))) \<le> MAX_DBG_LOG_FILE_SIZE)"

lemma close_sizes: "sizes_ok s \<Longrightarrow> sizes_ok (FILE_FCLOSE s)"
  by (simp add: sizes_ok_def FILE_FCLOSE_def)

lemma check_dir_fields:
  "check_dir e s = Some t \<Longrightarrow> log_data t = log_data s \<and> log_pp t = log_pp s \<and> g_hLogFile t = g_hLogFile s \<and> Current_FileSize t = Current_FileSize s"
  by (auto simp: check_dir_def split: option.splits)

lemma check_dir_sizes: "check_dir e s = Some t \<Longrightarrow> sizes_ok s \<Longrightarrow> sizes_ok t"
  using check_dir_fields [of e s t] by (simp add: sizes_ok_def)

lemma start_sizes:
  assumes "log_thread_start e s = Some t" "sizes_ok s"
  shows "sizes_ok t"
proof -
  define s1 where "s1 = FILE_FCLOSE (s\<lparr>g_gpsdbglogThreadExit := False\<rparr>)"
  define s2 where "s2 = (if debuglog_enabled s1 then snd (create_debug_log_file e (ensure_buffers e s1)) else s1)"
  have "sizes_ok s1" using assms(2) by (simp add: sizes_ok_def s1_def FILE_FCLOSE_def)
  moreover have "sizes_ok u \<Longrightarrow> sizes_ok (ensure_buffers e u)" for u
    by (auto simp: ensure_buffers_def sizes_ok_def buffers_ok_def init_mems split: option.splits)
  moreover have "sizes_ok u \<Longrightarrow> sizes_ok (snd (create_debug_log_file e u))" for u
    by (auto simp: create_debug_log_file_def sizes_ok_def FILE_FCLOSE_def open_log_def Let_def split: option.splits)
  ultimately have "sizes_ok s2" by (simp add: s2_def)
  then show ?thesis using assms(1) check_dir_sizes
    by (auto simp: log_thread_start_def s1_def [symmetric] s2_def [symmetric] Let_def split: if_splits)
qed

lemma copies_sizes: "copy_messages ms s = Some t \<Longrightarrow> sizes_ok s \<Longrightarrow> sizes_ok t"
proof (induction ms arbitrary: s)
  case (Cons m ms)
  obtain rel pp where m: "mnl_sys_alps_gps_dbg2file_mnld (debuglog_enabled s) m (log_pp s) = Some (rel, pp)"
    "copy_messages ms (s\<lparr>log_pp := pp\<rparr>) = Some t" using Cons.prems(1) by (auto simp: bind_eq_Some_conv)
  have "buffers_ok pp" using m(1) Cons.prems(2)
    by (auto simp: mnl_sys_alps_gps_dbg2file_mnld_def sizes_ok_def buffers_ok_def bind_eq_Some_conv intro: copy_mems split: option.splits if_splits)
  then have "sizes_ok (s\<lparr>log_pp := pp\<rparr>)" using Cons.prems(2) by (simp add: sizes_ok_def)
  then show ?case by (rule Cons.IH [OF m(2)])
qed simp

text \<open>After a change of files there is room for a buffer.\<close>

lemma next_file_sizes:
  assumes "next_log_file e s = Some (go, t)" "sizes_ok s"
  shows "sizes_ok t \<and> (g_hLogFile t \<noteq> None \<longrightarrow> Current_FileSize t + int PINGPANG_BUFFER_SIZE \<le> MAX_DBG_LOG_FILE_SIZE)"
proof (cases "g_hLogFile s \<noteq> None \<and> MAX_DBG_LOG_FILE_SIZE < Current_FileSize s + int PINGPANG_BUFFER_SIZE")
  case False
  then show ?thesis using assms by (auto simp: next_log_file_def)
next
  case True
  obtain sz where sz: "in_int (DirLogSize s + Current_FileSize s) = Some sz"
    using assms(1) True by (auto simp: next_log_file_def bind_eq_Some_conv)
  define w where "w = FILE_FCLOSE (s\<lparr>Filenum := Filenum s + 1, DirLogSize := sz\<rparr>)"
  define name where "name = next_file_name w"
  define u where "u = open_log name w"
  have w: "log_data w = log_data s" "log_pp w = log_pp s" "g_hLogFile w = None" by (simp_all add: w_def FILE_FCLOSE_def)
  have step: "next_log_file e s = (if le_open e name then do {
      s \<leftarrow> (if over_limit (DirLogSize u) (total_file_count u + Filenum u) then check_dir e u else Some u);
      Some (True, s\<lparr>Current_FileSize := 0\<rparr>) } else Some (False, w))"
    using True sz unfolding next_log_file_def by (simp add: w_def name_def u_def Let_def)
  show ?thesis
  proof (cases "le_open e name")
    case o: True
    then obtain v where v: "v = u \<or> check_dir e u = Some v" "t = v\<lparr>Current_FileSize := 0\<rparr>"
      using assms(1) step by (auto simp: bind_eq_Some_conv split: if_splits)
    have "log_data v = (name, []) # log_data s" "log_pp v = log_pp s"
      using v(1) check_dir_fields [of e u v] w by (auto simp: u_def open_log_def)
    then show ?thesis using v(2) assms(2) by (simp add: sizes_ok_def)
  next
    case False
    then have "t = w" using assms(1) step by simp
    then show ?thesis using assms(2) w by (simp add: sizes_ok_def)
  qed
qed

lemma append_sizes:
  assumes "sizes_ok s" "g_hLogFile s \<noteq> None" "int (length d) \<le> n" "n \<le> 2 * int PINGPANG_BUFFER_SIZE"
  obtains f old fs where "log_data s = (f, old) # fs" "log_data (append_log d s) = (f, old @ d) # fs"
    "\<forall>x\<in>set (log_data (append_log d s)). int (length (snd x)) \<le> MAX_DBG_LOG_FILE_SIZE + 2 * int PINGPANG_BUFFER_SIZE"
    "Current_FileSize s = int (length old)"
proof -
  obtain x fs where "log_data s = x # fs" using assms(1,2) by (cases "log_data s") (auto simp: sizes_ok_def)
  then obtain f old where l: "log_data s = (f, old) # fs" by (cases x) auto
  have "log_data (append_log d s) = (f, old @ d) # fs" using l by (simp add: append_log_def)
  moreover have "Current_FileSize s = int (length old)" "int (length old) \<le> MAX_DBG_LOG_FILE_SIZE"
    using assms(1,2) l by (auto simp: sizes_ok_def)
  moreover have "\<forall>x\<in>set fs. int (length (snd x)) \<le> MAX_DBG_LOG_FILE_SIZE + 2 * int PINGPANG_BUFFER_SIZE"
    using assms(1) l by (simp add: sizes_ok_def)
  ultimately show ?thesis using that [OF l] assms(3,4) by auto
qed

lemma append_fields:
  "log_pp (append_log d s) = log_pp s" "g_hLogFile (append_log d s) = g_hLogFile s"
  "Current_FileSize (append_log d s) = Current_FileSize s"
  by (simp_all add: append_log_def split: list.split)

lemma finish_sizes:
  assumes "log_finish s = Some t" "sizes_ok s"
  shows "sizes_ok t"
proof (cases "log_pp s")
  case (Some p)
  have p: "mems_ok p" using assms(2) Some by (simp add: sizes_ok_def buffers_ok_def)
  show ?thesis
  proof (cases "g_hLogFile s = None")
    case True
    then show ?thesis using assms Some by (auto simp: log_finish_def sizes_ok_def FILE_FCLOSE_def buffers_ok_def)
  next
    case False
    then obtain d q where d: "gps_dbg_log_pingpang_flush p = Some (d, q)" "t = FILE_FCLOSE ((append_log d s)\<lparr>log_pp := None\<rparr>)"
      using assms(1) Some by (auto simp: log_finish_def bind_eq_Some_conv)
    have "int (length d) \<le> 2 * int PINGPANG_BUFFER_SIZE" using flush_length [OF d(1) p] by simp
    from append_sizes [OF assms(2) False this order_refl]
    have "\<forall>x\<in>set (log_data (append_log d s)). int (length (snd x)) \<le> MAX_DBG_LOG_FILE_SIZE + 2 * int PINGPANG_BUFFER_SIZE" by metis
    then show ?thesis by (simp add: d(2) sizes_ok_def FILE_FCLOSE_def buffers_ok_def)
  qed
qed (use assms in \<open>simp add: log_finish_def\<close>)

lemma enabled_sizes:
  assumes "log_pass_enabled e s = Some (go, t)" "sizes_ok s"
  shows "sizes_ok t"
proof -
  define s1 where "s1 = (if le_writable e (storagePath s) then s
    else let s = (FILE_FCLOSE s)\<lparr>debuglog_enabled := False\<rparr> in if le_started e then log_emit (Debug_type False) s else s)"
  have s1: "sizes_ok s1" using assms(2) by (auto simp: s1_def sizes_ok_def FILE_FCLOSE_def log_emit_def Let_def)
  obtain g u where u: "next_log_file e s1 = Some (g, u)"
    using assms(1) unfolding log_pass_enabled_def s1_def [symmetric] by (auto simp: bind_eq_Some_conv)
  note n = next_file_sizes [OF u s1]
  show ?thesis
  proof (cases "g \<and> g_hLogFile u \<noteq> None")
    case False
    then show ?thesis using assms(1) u n unfolding log_pass_enabled_def s1_def [symmetric] by (auto simp: Let_def)
  next
    case True
    then obtain p d q where w: "log_pp u = Some p" "gps_dbg_log_pingpang_write (le_room e) p = Some (d, q)"
      "t = (append_log d u)\<lparr>log_pp := Some q, Current_FileSize := int (length d) + Current_FileSize u\<rparr>"
      using assms(1) u unfolding log_pass_enabled_def s1_def [symmetric] by (auto simp: Let_def bind_eq_Some_conv)
    have "mems_ok p" using n w(1) by (simp add: sizes_ok_def buffers_ok_def)
    then have d: "int (length d) \<le> int PINGPANG_BUFFER_SIZE" "mems_ok q" using write_mems [OF w(2)] by simp_all
    have fo: "g_hLogFile u \<noteq> None" "sizes_ok u" using True n by simp_all
    from append_sizes [OF fo(2,1) d(1)] obtain f old fs where "log_data u = (f, old) # fs" "log_data (append_log d u) = (f, old @ d) # fs"
      "\<forall>x\<in>set (log_data (append_log d u)). int (length (snd x)) \<le> MAX_DBG_LOG_FILE_SIZE + 2 * int PINGPANG_BUFFER_SIZE"
      "Current_FileSize u = int (length old)" by auto
    then show ?thesis using n fo(1) d by (simp add: w(3) sizes_ok_def append_fields buffers_ok_def)
  qed
qed

lemma loop_sizes: "log_loop es s = Some t \<Longrightarrow> sizes_ok s \<Longrightarrow> sizes_ok t"
proof (induction es arbitrary: s)
  case (Cons e es)
  show ?case
  proof (cases "g_gpsdbglogThreadExit s")
    case False
    then obtain u go v where u: "copy_messages (le_copied e) s = Some u" "log_pass e u = Some (go, v)"
      "(if go then log_loop es v else Some v) = Some t"
      using Cons.prems(1) by (auto simp: bind_eq_Some_conv)
    have "sizes_ok u" using copies_sizes [OF u(1) Cons.prems(2)] .
    then have "sizes_ok v" using u(2) enabled_sizes finish_sizes by (auto simp: log_pass_def split: if_splits)
    then show ?thesis using u(3) Cons.IH by (cases go) simp_all
  qed (use Cons.prems in simp)
qed simp

text \<open>C23. A file of the log never gets longer than 20 MB while the log runs; the flush at the end adds at
  most two buffers.\<close>

theorem log_file_sizes:
  assumes "log_thread_start e s = Some s1" "log_loop es s1 = Some s2" "log_thread_end s2 = Some s3" "log_data s = []" "buffers_ok (log_pp s)"
  shows "(g_hLogFile s2 \<noteq> None \<longrightarrow> int (length (snd (hd (log_data s2)))) \<le> MAX_DBG_LOG_FILE_SIZE) \<and>
    (\<forall>x\<in>set (log_data s3). int (length (snd x)) \<le> MAX_DBG_LOG_FILE_SIZE + 2 * int PINGPANG_BUFFER_SIZE)"
proof -
  define s0 where "s0 = FILE_FCLOSE (s\<lparr>g_gpsdbglogThreadExit := False\<rparr>)"
  have "sizes_ok s0" using assms(4,5) by (simp add: s0_def sizes_ok_def FILE_FCLOSE_def)
  moreover have "log_thread_start e s0 = Some s1" using assms(1) by (simp add: log_thread_start_def s0_def FILE_FCLOSE_def)
  ultimately have s2: "sizes_ok s2" using loop_sizes [OF assms(2)] start_sizes by blast
  have "sizes_ok s3" using assms(3) s2 finish_sizes
    by (auto simp: log_thread_end_def close_sizes split: if_splits)
  with s2 show ?thesis by (auto simp: sizes_ok_def)
qed

section \<open>Witnesses\<close>

definition demo_log_env :: log_env where
  "demo_log_env = \<lparr>le_access = (\<lambda>_. True), le_writable = (\<lambda>_. True), le_mkdir = (\<lambda>_. True), le_alloc = (True, True),
     le_time = Some \<lparr>tm_sec = 5, tm_min = 4, tm_hour = 3, tm_mday = 2, tm_mon = 0, tm_year = 118, tm_isdst = 0\<rparr>,
     le_open = (\<lambda>_. True), le_room = 20480,
     le_passes = [\<lparr>pe_access = True, pe_seen = 9, pe_remove = True, pe_exit = False\<rparr>], le_dir = [], le_started = True,
     le_copied = [[65, 10]]\<rparr>"

definition long_path :: "c_char list" where
  "long_path = 47 # replicate 99 97"

theorem storage_path_bounds_witness:
  "mtklogger2mnl_hdlr demo_log_env [RxData (path_message long_path)] log_init =
      Some (0, log_emit (Answer (path_message long_path @ ascii '',1''))
           (log_init\<lparr>storagePath := long_path @ ascii ''/mtklog/gpsdbglog/''\<rparr>), []) \<and>
    mtklogger2mnl_hdlr demo_log_env [RxData (ascii ''deep_start,1'')] (log_init\<lparr>storagePath := long_path @ ascii ''/mtklog/gpsdbglog/''\<rparr>) = None"
proof -
  have "dir_path long_path" "length long_path = 100" by (simp_all add: dir_path_def long_path_def)
  then show ?thesis using storage_path_bounds [of long_path demo_log_env log_init] by (simp add: demo_log_env_def)
qed

text \<open>A log with one message in its buffer when the thread is told to exit.\<close>

definition demo_started :: dbg_log where
  "demo_started = the (log_thread_start demo_log_env (log_init\<lparr>debuglog_enabled := True\<rparr>))"

definition demo_looped :: dbg_log where
  "demo_looped = the (log_loop [demo_log_env] demo_started)"

definition demo_ended :: dbg_log where
  "demo_ended = the (log_thread_end demo_looped)"

lemmas demo_defs = log_thread_start_def log_init_def demo_log_env_def ensure_buffers_def gps_dbg_log_pingpang_init_def
  create_debug_log_file_def ascii_def FILE_FCLOSE_def open_log_def check_dir_def dir_pass_def over_limit_def Let_def
  mnl_sys_alps_gps_dbg2file_mnld_def gps_dbg_log_pingpang_copy_def writing_half_def choose_place_def memcpy_next_def
  log_pass_def log_pass_enabled_def next_log_file_def gps_dbg_log_pingpang_write_def readable_def

lemma demo_log:
  "log_thread_start demo_log_env (log_init\<lparr>debuglog_enabled := True\<rparr>) = Some demo_started"
  "log_loop [demo_log_env] demo_started = Some demo_looped"
  "log_thread_end demo_looped = Some demo_ended"
  by (simp_all add: demo_started_def demo_looped_def demo_ended_def demo_defs
      log_thread_end_def log_finish_def gps_dbg_log_pingpang_flush_def written_def append_log_def)

lemma demo_files: "g_hLogFile demo_looped \<noteq> None" "log_data demo_ended \<noteq> []"
  by (simp_all add: demo_started_def demo_looped_def demo_ended_def demo_defs
      log_thread_end_def log_finish_def gps_dbg_log_pingpang_flush_def written_def append_log_def)

theorem log_file_sizes_witness:
  "int (length (snd (hd (log_data demo_looped)))) \<le> MAX_DBG_LOG_FILE_SIZE \<and>
    int (length (snd (hd (log_data demo_ended)))) \<le> MAX_DBG_LOG_FILE_SIZE + 2 * int PINGPANG_BUFFER_SIZE"
  using log_file_sizes [OF demo_log] demo_files by (simp add: log_init_def buffers_ok_def)

end
