(* ===== verification/Mpe.thy ===== *)
theory Mpe
  imports Log_Control Mnl2Hal
begin

text \<open>
  The messages between \<open>mnld\<close> and the motion processing daemon, \<^verbatim>\<open>mnld_entity/src/mpe.c\<close>; the one about the log is
  \<open>mnl2mpe_set_log_path\<close> in \<open>Log_Control\<close>. The GPS library takes and makes the sensor data.
\<close>

abbreviation CMD_MPED_REBOOT_DONE :: c_int where "CMD_MPED_REBOOT_DONE \<equiv> 0x41"
abbreviation CMD_START_MPE_RES :: c_int where "CMD_START_MPE_RES \<equiv> 0x20"
abbreviation CMD_SEND_GPS_TIME_REQ :: c_int where "CMD_SEND_GPS_TIME_REQ \<equiv> 0x27"

text \<open>The same loop as \<open>safe_sendto\<close>.\<close>

definition mnl_sendto_mpe :: "bool \<Rightarrow> tx list \<Rightarrow> c_char list \<Rightarrow> int \<times> tx list" where
  "mnl_sendto_mpe socket_ok ts d = (if socket_ok then send_loop (length d) 10 ts else (- 1, ts))"

text \<open>What the library is given, the state of the log and the outcomes that are left. The array of 128 bytes is zero before.\<close>

definition mpe2mnl_hdlr :: "bool \<Rightarrow> rx list \<Rightarrow> dbg_log \<Rightarrow> (c_char list option \<times> dbg_log \<times> rx list) option" where
  "mpe2mnl_hdlr started rs s =
     (case safe_recvfrom 128 rs of
        (len, d, rs) \<Rightarrow>
          let ty = le32 (take 4 (d @ replicate 128 0)) in
          if ty = CMD_MPED_REBOOT_DONE then map_option (\<lambda>s. (None, s, rs)) (mtklogger_mped_reboot_message_update s)
          else if CMD_START_MPE_RES \<le> ty \<and> ty \<le> CMD_SEND_GPS_TIME_REQ then Some (if started \<and> 0 < len then Some d else None, s, rs)
          else Some (None, s, rs))"

text \<open>The datagram, if one is sent: \<open>len\<close> bytes of the message are copied into an array of 128.\<close>

definition mtk_gps_mnl_set_sensor_info :: "c_char list option \<Rightarrow> int \<Rightarrow> c_char list option option" where
  "mtk_gps_mnl_set_sensor_info msg len =
     (case msg of
        Some m \<Rightarrow> if 0 < len then (if nat len \<le> length m \<and> len \<le> 128 then Some (Some (take (nat len) m)) else None) else Some None
      | None \<Rightarrow> Some None)"

text \<open>The bytes that \<open>mtk_gps_set_mpe_info\<close> has written, and the result.\<close>

definition mtk_gps_mnl_trigger_mpe :: "bool \<Rightarrow> tx list \<Rightarrow> c_char list \<Rightarrow> int \<times> tx list" where
  "mtk_gps_mnl_trigger_mpe socket_ok ts info =
     (if info = [] then (MTK_GPS_ERROR, ts)
      else case mnl_sendto_mpe socket_ok ts info of (r, ts) \<Rightarrow> (if r = - 1 then MTK_GPS_ERROR else MTK_GPS_SUCCESS, ts))"

text \<open>A restarted daemon is told about the log as it is.\<close>

lemma reboot_told:
  assumes "length (storagePath s) < 128"
  shows "mpe2mnl_hdlr started [RxData (enc_int CMD_MPED_REBOOT_DONE @ d)] s =
    Some (None, log_emit (To_mpe (enc_int CMD_SEND_FROM_MNLD @ enc_int 136 @ enc_int (if debuglog_enabled s then 1 else 0) @
      enc_int (log_mode s) @ storagePath s @ replicate (128 - length (storagePath s)) 0)) s, [])"
proof -
  have "take 4 (take 128 (enc_int CMD_MPED_REBOOT_DONE @ d) @ replicate 128 0) = enc_int CMD_MPED_REBOOT_DONE" by simp
  moreover have "le32 (enc_int CMD_MPED_REBOOT_DONE) = CMD_MPED_REBOOT_DONE" by (rule le32_enc_int)
  ultimately show ?thesis using assms
    by (simp add: mpe2mnl_hdlr_def safe_recvfrom_def mtklogger_mped_reboot_message_update_def send_log_path_def
        mnl2mpe_set_log_path_def fit_def)
qed

end
