(* ===== verification/Mnl2Nlps.thy ===== *)
theory Mnl2Nlps
  imports Data_Coder
begin

text \<open>
  The request to the network location provider, \<^verbatim>\<open>mnl_nlp_interface/src/mnl2nlps.c\<close>: two commands of 16 bytes on
  a stream. The kernel is the list of what the calls of \<open>write\<close> return; \<open>- 1\<close> is an error.
\<close>

abbreviation MNL2NLP_BUFF_SIZE :: nat where "MNL2NLP_BUFF_SIZE \<equiv> 32"
abbreviation MNL_NLPS_CMD_QUIT :: c_int where "MNL_NLPS_CMD_QUIT \<equiv> 100"
abbreviation MNL_NLPS_CMD_GPS_NIJ_REQ :: c_int where "MNL_NLPS_CMD_GPS_NIJ_REQ \<equiv> 101"

definition fillCmd3 :: "c_int \<Rightarrow> c_int \<Rightarrow> c_int \<Rightarrow> c_int \<Rightarrow> c_char list option" where
  "fillCmd3 cmd data1 data2 data3 = do {
     c \<leftarrow> put_int (zero_buff MNL2NLP_BUFF_SIZE) cmd;
     c \<leftarrow> put_int c data1;
     c \<leftarrow> put_int c data2;
     c \<leftarrow> put_int c data3;
     Some (sent c)
   }"

text \<open>The result, the bytes on the stream, and what the next calls of \<open>write\<close> return.\<close>

definition write_cmd3 :: "int list \<Rightarrow> c_int \<Rightarrow> c_int \<Rightarrow> c_int \<Rightarrow> c_int \<Rightarrow> (int \<times> c_char list \<times> int list) option" where
  "write_cmd3 ws cmd data1 data2 data3 = do {
     buff \<leftarrow> fillCmd3 cmd data1 data2 data3;
     let wlen = (case ws of w # _ \<Rightarrow> w | [] \<Rightarrow> - 1);
     Some (if int (length buff) \<noteq> wlen then - 1 else 0, take (nat wlen) buff, drop 1 ws)
   }"

definition write_cmd0 :: "int list \<Rightarrow> c_int \<Rightarrow> (int \<times> c_char list \<times> int list) option" where
  "write_cmd0 ws cmd = write_cmd3 ws cmd 0x12345678 0x13572468 0x97651562"

definition mnl2nlp_send_cmd3_and_quit :: "bool \<Rightarrow> int list \<Rightarrow> c_int \<Rightarrow> c_int \<Rightarrow> c_int \<Rightarrow> c_int \<Rightarrow> (int \<times> c_char list) option" where
  "mnl2nlp_send_cmd3_and_quit connected_ok ws cmd data1 data2 data3 =
     (if connected_ok then do {
        (ret, d, ws) \<leftarrow> write_cmd3 ws cmd data1 data2 data3;
        if ret = 0 then do {
          (ret, d', ws) \<leftarrow> write_cmd0 ws MNL_NLPS_CMD_QUIT;
          Some (ret, d @ d')
        }
        else Some (ret, d)
      }
      else Some (- 1, []))"

definition mnl2nlp_send_cmd0_and_quit :: "bool \<Rightarrow> int list \<Rightarrow> c_int \<Rightarrow> (int \<times> c_char list) option" where
  "mnl2nlp_send_cmd0_and_quit ok ws cmd = mnl2nlp_send_cmd3_and_quit ok ws cmd 0 0 0"

definition mnl2nlp_request_nlp :: "bool \<Rightarrow> int list \<Rightarrow> (int \<times> c_char list) option" where
  "mnl2nlp_request_nlp ok ws = mnl2nlp_send_cmd0_and_quit ok ws MNL_NLPS_CMD_GPS_NIJ_REQ"

lemma fillCmd3_eq: "fillCmd3 cmd a b c = Some (enc_int cmd @ enc_int a @ enc_int b @ enc_int c)"
  by (simp add: fillCmd3_def zero_buff_rd sent_rd store_simps)

definition nlp_request :: "c_char list" where
  "nlp_request = enc_int MNL_NLPS_CMD_GPS_NIJ_REQ @ enc_int 0 @ enc_int 0 @ enc_int 0 @
     enc_int MNL_NLPS_CMD_QUIT @ enc_int 0x12345678 @ enc_int 0x13572468 @ enc_int 0x97651562"

lemma write_cmd3_eq:
  "write_cmd3 ws cmd a b c =
     (let d = enc_int cmd @ enc_int a @ enc_int b @ enc_int c; w = (case ws of w # _ \<Rightarrow> w | [] \<Rightarrow> - 1)
      in Some (if w = 16 then 0 else - 1, take (nat w) d, drop 1 ws))"
  by (auto simp: write_cmd3_def fillCmd3_eq Let_def)

text \<open>The provider gets a prefix of the two commands; the request succeeds exactly when it gets both.\<close>

lemma nlp_request_result:
  "\<exists>n. mnl2nlp_request_nlp ok ws = Some (if ok \<and> take 2 ws = [16, 16] then 0 else - 1, take n nlp_request)"
proof -
  define d1 where "d1 = enc_int MNL_NLPS_CMD_GPS_NIJ_REQ @ enc_int 0 @ enc_int 0 @ enc_int 0"
  define d2 where "d2 = enc_int MNL_NLPS_CMD_QUIT @ enc_int 0x12345678 @ enc_int 0x13572468 @ enc_int 0x97651562"
  have d: "nlp_request = d1 @ d2" "length d1 = 16" by (simp_all add: nlp_request_def d1_def d2_def)
  define w1 where "w1 = (case ws of w # _ \<Rightarrow> w | [] \<Rightarrow> - 1)"
  define w2 where "w2 = (case drop 1 ws of w # _ \<Rightarrow> w | [] \<Rightarrow> - 1)"
  have two: "take 2 ws = [16, 16] \<longleftrightarrow> w1 = 16 \<and> w2 = 16"
    by (cases ws; cases "drop 1 ws") (auto simp: w1_def w2_def numeral_2_eq_2)
  have run: "mnl2nlp_request_nlp ok ws =
      Some (if ok \<and> w1 = 16 \<and> w2 = 16 then 0 else - 1,
        if \<not> ok then [] else if w1 = 16 then d1 @ take (nat w2) d2 else take (nat w1) d1)"
    unfolding mnl2nlp_request_nlp_def mnl2nlp_send_cmd0_and_quit_def mnl2nlp_send_cmd3_and_quit_def write_cmd0_def
      write_cmd3_eq Let_def d1_def [symmetric] d2_def [symmetric] w1_def [symmetric]
    using d(2) by (simp add: w2_def)
  define n where "n = (if \<not> ok then 0 else if w1 = 16 then 16 + nat w2 else min 16 (nat w1))"
  have "(if \<not> ok then [] else if w1 = 16 then d1 @ take (nat w2) d2 else take (nat w1) d1) = take n nlp_request"
    by (simp add: n_def d min_def)
  then show ?thesis unfolding run two by blast
qed

end
