(* ===== verification/Wifi_Interface.thy ===== *)
theory Wifi_Interface
  imports Lbs_Utility Gnss_Data
begin

text \<open>
  The messages of the wifi bridge to the AGPS daemon: the senders of
  \<^verbatim>\<open>mtk/wifi2agps/interface/wifi2agps_interface.c\<close> and the receiver of \<^verbatim>\<open>agps2wifi_interface.c\<close> beside it.
  The coder functions are those of \<open>Data_Coder\<close>, the socket loops those of \<open>Lbs_Utility\<close>.
\<close>

section \<open>Access points\<close>

record wifi2agps_ap_info =
  ap_mac_addr :: "c_char list"
  ap_transmit_power_used :: c_char
  ap_transmit_power :: c_int
  ap_antenna_gain_used :: c_char
  ap_antenna_gain :: c_int
  ap_signal_noise_used :: c_char
  ap_signal_noise :: c_int
  ap_device_type_used :: c_char
  ap_device_type :: c_int
  ap_signal_strength_used :: c_char
  ap_signal_strength :: c_int
  ap_channel_frequency_used :: c_char
  ap_channel_frequency :: c_int
  ap_round_trip_delay_used :: c_char
  rtd_value :: c_int
  rtd_units :: c_int
  rtd_accuracy :: c_int
  set_transmit_power_used :: c_char
  set_transmit_power :: c_int
  set_antenna_gain_used :: c_char
  set_antenna_gain :: c_int
  set_signal_to_noise_used :: c_char
  set_signal_to_noise :: c_int
  set_signal_strength_used :: c_char
  set_signal_strength :: c_int
  reported_location_used :: c_char
  loc_encode_descriptor :: c_int
  location_accuracy_used :: c_char
  location_accuracy :: c_int
  location_value_length :: c_char
  location_value :: "c_char list"

abbreviation WIFI_AP_LIST_NUM_MAX :: nat where "WIFI_AP_LIST_NUM_MAX \<equiv> 32"

record wifi2agps_ap_info_list =
  ap_num :: c_char
  ap_list :: "wifi2agps_ap_info list"

text \<open>The members of the structure in the order of their addresses, with the arrays at its ends.\<close>

definition ap_numbers :: "wifi2agps_ap_info \<Rightarrow> c_val list" where
  "ap_numbers a = [
     V8 (ap_transmit_power_used a), V32 (ap_transmit_power a), V8 (ap_antenna_gain_used a),
     V32 (ap_antenna_gain a), V8 (ap_signal_noise_used a), V32 (ap_signal_noise a), V8 (ap_device_type_used a),
     V32 (ap_device_type a), V8 (ap_signal_strength_used a), V32 (ap_signal_strength a),
     V8 (ap_channel_frequency_used a), V32 (ap_channel_frequency a), V8 (ap_round_trip_delay_used a),
     V32 (rtd_value a), V32 (rtd_units a), V32 (rtd_accuracy a), V8 (set_transmit_power_used a),
     V32 (set_transmit_power a), V8 (set_antenna_gain_used a), V32 (set_antenna_gain a),
     V8 (set_signal_to_noise_used a), V32 (set_signal_to_noise a), V8 (set_signal_strength_used a),
     V32 (set_signal_strength a), V8 (reported_location_used a), V32 (loc_encode_descriptor a),
     V8 (location_accuracy_used a), V32 (location_accuracy a), V8 (location_value_length a)]"

definition ap_types :: "c_type list" where
  "ap_types = [
     T8, T32, T8, T32, T8, T32, T8, T32, T8, T32, T8, T32, T8, T32, T32, T32, T8, T32, T8, T32, T8, T32, T8,
     T32, T8, T32, T8, T32, T8]"

definition ap_of :: "c_char list \<Rightarrow> c_val list \<Rightarrow> c_char list \<Rightarrow> wifi2agps_ap_info" where
  "ap_of mac vs value = \<lparr>ap_mac_addr = mac,
     ap_transmit_power_used = v8 (vs ! 0), ap_transmit_power = v32 (vs ! 1),
     ap_antenna_gain_used = v8 (vs ! 2), ap_antenna_gain = v32 (vs ! 3), ap_signal_noise_used = v8 (vs ! 4),
     ap_signal_noise = v32 (vs ! 5), ap_device_type_used = v8 (vs ! 6), ap_device_type = v32 (vs ! 7),
     ap_signal_strength_used = v8 (vs ! 8), ap_signal_strength = v32 (vs ! 9),
     ap_channel_frequency_used = v8 (vs ! 10), ap_channel_frequency = v32 (vs ! 11),
     ap_round_trip_delay_used = v8 (vs ! 12), rtd_value = v32 (vs ! 13), rtd_units = v32 (vs ! 14),
     rtd_accuracy = v32 (vs ! 15), set_transmit_power_used = v8 (vs ! 16), set_transmit_power = v32 (vs ! 17),
     set_antenna_gain_used = v8 (vs ! 18), set_antenna_gain = v32 (vs ! 19),
     set_signal_to_noise_used = v8 (vs ! 20), set_signal_to_noise = v32 (vs ! 21),
     set_signal_strength_used = v8 (vs ! 22), set_signal_strength = v32 (vs ! 23),
     reported_location_used = v8 (vs ! 24), loc_encode_descriptor = v32 (vs ! 25),
     location_accuracy_used = v8 (vs ! 26), location_accuracy = v32 (vs ! 27),
     location_value_length = v8 (vs ! 28),
     location_value = value\<rparr>"

definition ap_members :: "wifi2agps_ap_info \<Rightarrow> c_val list" where
  "ap_members a = map V8 (ap_mac_addr a) @ ap_numbers a @ map V8 (location_value a)"

definition ap_member_types :: "c_type list" where
  "ap_member_types = replicate 6 T8 @ ap_types @ replicate 128 T8"

definition ap_info_bytes :: "wifi2agps_ap_info \<Rightarrow> c_char list" where
  "ap_info_bytes a = struct_bytes 4 (ap_members a)"

definition ap_info_of :: "c_char list \<Rightarrow> wifi2agps_ap_info" where
  "ap_info_of b =
     (let vs = struct_members ap_member_types b
      in ap_of (map v8 (take 6 vs)) (take 29 (drop 6 vs)) (map v8 (drop 35 vs)))"

definition ap_info_list_bytes :: "wifi2agps_ap_info_list \<Rightarrow> c_char list" where
  "ap_info_list_bytes l = ap_num l # [0, 0, 0] @ concat (map ap_info_bytes (ap_list l))"

definition ap_info_list_of :: "c_char list \<Rightarrow> wifi2agps_ap_info_list" where
  "ap_info_list_of b = \<lparr>ap_num = b ! 0,
     ap_list = map ap_info_of (chunks (struct_size 4 ap_member_types) WIFI_AP_LIST_NUM_MAX (drop 4 b))\<rparr>"

text \<open>\<open>memset(&ap_info, 0, sizeof(ap_info))\<close>.\<close>

definition zero_ap_info :: wifi2agps_ap_info where
  "zero_ap_info = \<lparr>
     ap_mac_addr = replicate 6 0, ap_transmit_power_used = 0, ap_transmit_power = 0, ap_antenna_gain_used = 0,
     ap_antenna_gain = 0, ap_signal_noise_used = 0, ap_signal_noise = 0, ap_device_type_used = 0,
     ap_device_type = 0, ap_signal_strength_used = 0, ap_signal_strength = 0, ap_channel_frequency_used = 0,
     ap_channel_frequency = 0, ap_round_trip_delay_used = 0, rtd_value = 0, rtd_units = 0, rtd_accuracy = 0,
     set_transmit_power_used = 0, set_transmit_power = 0, set_antenna_gain_used = 0, set_antenna_gain = 0,
     set_signal_to_noise_used = 0, set_signal_to_noise = 0, set_signal_strength_used = 0,
     set_signal_strength = 0, reported_location_used = 0, loc_encode_descriptor = 0,
     location_accuracy_used = 0, location_accuracy = 0, location_value_length = 0,
     location_value = replicate 128 0\<rparr>"

text \<open>Arrays of the declared sizes.\<close>

definition ap_ok :: "wifi2agps_ap_info \<Rightarrow> bool" where
  "ap_ok a \<longleftrightarrow> length (ap_mac_addr a) = 6 \<and> length (location_value a) = 128"

definition ap_list_ok :: "wifi2agps_ap_info_list \<Rightarrow> bool" where
  "ap_list_ok l \<longleftrightarrow> length (ap_list l) = WIFI_AP_LIST_NUM_MAX \<and> (\<forall>a\<in>set (ap_list l). ap_ok a)"

text \<open>\<open>sizeof\<close> of the structures, as the comments of the header have it.\<close>

lemma ap_info_size: "struct_size 4 ap_member_types = 248"
  by code_simp

lemma ap_numbers_types: "map type_of (ap_numbers a) = ap_types"
  by (simp add: ap_numbers_def ap_types_def)

lemma length_ap_numbers: "length (ap_numbers a) = 29"
  by (simp add: ap_numbers_def)

lemma ap_of_numbers: "ap_of (ap_mac_addr a) (ap_numbers a) (location_value a) = a"
  by (simp add: ap_of_def ap_numbers_def)

lemma ap_members_types: "ap_ok a \<Longrightarrow> map type_of (ap_members a) = ap_member_types"
  by (simp add: ap_members_def ap_member_types_def ap_ok_def ap_numbers_types map_replicate_const comp_def)

lemma length_ap_info_bytes: "ap_ok a \<Longrightarrow> length (ap_info_bytes a) = 248"
  by (simp add: ap_info_bytes_def ap_members_types ap_info_size)

lemma ap_info_of_bytes: "ap_ok a \<Longrightarrow> ap_info_of (ap_info_bytes a @ r) = a"
  using struct_round_trip [of "ap_members a" 4 r]
  by (simp add: ap_info_of_def ap_info_bytes_def ap_members_types)
    (simp add: ap_members_def ap_ok_def length_ap_numbers comp_def ap_of_numbers)

lemma length_ap_info_list_bytes: "ap_list_ok l \<Longrightarrow> length (ap_info_list_bytes l) = 7940"
  by (simp add: ap_info_list_bytes_def ap_list_ok_def length_concat comp_def length_ap_info_bytes sum_list_triv
      cong: map_cong)

lemma ap_info_list_of_bytes: "ap_list_ok l \<Longrightarrow> ap_info_list_of (ap_info_list_bytes l) = l"
  using map_chunks_concat [of "ap_list l" ap_info_bytes 248 ap_info_of WIFI_AP_LIST_NUM_MAX "[]"]
  by (simp add: ap_info_list_of_def ap_info_list_bytes_def ap_list_ok_def ap_info_size length_ap_info_bytes ap_info_of_bytes)

end
