(* ===== verification/Wifi_Messages.thy ===== *)
theory Wifi_Messages
  imports Wifi_Interface
begin

text \<open>
  The senders and the receiver of the messages of the wifi bridge, \<^verbatim>\<open>wifi2agps_interface.c\<close> and
  \<^verbatim>\<open>agps2wifi_interface.c\<close>, and the round trip.
\<close>

abbreviation WIFI2AGPS_MAX_BUFF_SIZE :: nat where "WIFI2AGPS_MAX_BUFF_SIZE \<equiv> 10000"
abbreviation WIFI2AGPS_INTERFACE_VERSION :: c_int where "WIFI2AGPS_INTERFACE_VERSION \<equiv> 1"
abbreviation WIFI2AGPS_CMD_TYPE_ENABLED :: c_int where "WIFI2AGPS_CMD_TYPE_ENABLED \<equiv> 0"
abbreviation WIFI2AGPS_CMD_TYPE_DISABLED :: c_int where "WIFI2AGPS_CMD_TYPE_DISABLED \<equiv> 1"
abbreviation WIFI2AGPS_CMD_TYPE_ASSOCIATED :: c_int where "WIFI2AGPS_CMD_TYPE_ASSOCIATED \<equiv> 2"
abbreviation WIFI2AGPS_CMD_TYPE_DISASSOCIATED :: c_int where "WIFI2AGPS_CMD_TYPE_DISASSOCIATED \<equiv> 3"
abbreviation WIFI2AGPS_CMD_TYPE_SCANNED :: c_int where "WIFI2AGPS_CMD_TYPE_SCANNED \<equiv> 4"

section \<open>Senders\<close>

text \<open>What each sender hands to \<open>send2agps\<close>.\<close>

definition wifi2agps_enabled :: "(dest \<times> c_char list) option" where
  "wifi2agps_enabled = do {
     c \<leftarrow> put_int (zero_buff WIFI2AGPS_MAX_BUFF_SIZE) WIFI2AGPS_INTERFACE_VERSION;
     c \<leftarrow> put_int c WIFI2AGPS_CMD_TYPE_ENABLED;
     Some (WIFI_2_AGPS, sent c)
   }"

definition wifi2agps_disabled :: "(dest \<times> c_char list) option" where
  "wifi2agps_disabled = do {
     c \<leftarrow> put_int (zero_buff WIFI2AGPS_MAX_BUFF_SIZE) WIFI2AGPS_INTERFACE_VERSION;
     c \<leftarrow> put_int c WIFI2AGPS_CMD_TYPE_DISABLED;
     Some (WIFI_2_AGPS, sent c)
   }"

definition wifi2agps_associated :: "wifi2agps_ap_info \<Rightarrow> (dest \<times> c_char list) option" where
  "wifi2agps_associated ap_info = do {
     c \<leftarrow> put_int (zero_buff WIFI2AGPS_MAX_BUFF_SIZE) WIFI2AGPS_INTERFACE_VERSION;
     c \<leftarrow> put_int c WIFI2AGPS_CMD_TYPE_ASSOCIATED;
     c \<leftarrow> put_struct c (ap_info_bytes ap_info);
     Some (WIFI_2_AGPS, sent c)
   }"

definition wifi2agps_disassociated :: "(dest \<times> c_char list) option" where
  "wifi2agps_disassociated = do {
     c \<leftarrow> put_int (zero_buff WIFI2AGPS_MAX_BUFF_SIZE) WIFI2AGPS_INTERFACE_VERSION;
     c \<leftarrow> put_int c WIFI2AGPS_CMD_TYPE_DISASSOCIATED;
     Some (WIFI_2_AGPS, sent c)
   }"

definition wifi2agps_scanned :: "wifi2agps_ap_info_list \<Rightarrow> (dest \<times> c_char list) option" where
  "wifi2agps_scanned ap_info_list = do {
     c \<leftarrow> put_int (zero_buff WIFI2AGPS_MAX_BUFF_SIZE) WIFI2AGPS_INTERFACE_VERSION;
     c \<leftarrow> put_int c WIFI2AGPS_CMD_TYPE_SCANNED;
     c \<leftarrow> put_struct c (ap_info_list_bytes ap_info_list);
     Some (WIFI_2_AGPS, sent c)
   }"

text \<open>A descriptor that could not be had makes \<open>sendto\<close> fail.\<close>

definition send2agps :: "bool \<Rightarrow> tx list \<Rightarrow> c_char list \<Rightarrow> int \<times> tx list" where
  "send2agps socket_ok ts d = (case safe_sendto socket_ok ts d of (r, ts) \<Rightarrow> (if r < 0 then - 1 else 0, ts))"

section \<open>The receiver\<close>

text \<open>The callbacks of the AGPS daemon; \<open>None\<close> is a null pointer.\<close>

record 's wifi2agpsInterface =
  wifi_enabled :: "('s \<Rightarrow> 's option) option"
  wifi_disabled :: "('s \<Rightarrow> 's option) option"
  wifi_associated :: "(wifi2agps_ap_info \<Rightarrow> 's \<Rightarrow> 's option) option"
  wifi_disassociated :: "('s \<Rightarrow> 's option) option"
  wifi_scanned :: "(wifi2agps_ap_info_list \<Rightarrow> 's \<Rightarrow> 's option) option"

definition wifi2agps_switch :: "c_int \<Rightarrow> cursor \<Rightarrow> 's wifi2agpsInterface \<Rightarrow> 's \<Rightarrow> (int \<times> 's) option" where
  "wifi2agps_switch type c h s =
     (if type = WIFI2AGPS_CMD_TYPE_ENABLED then
        case wifi_enabled h of Some f \<Rightarrow> map_option (Pair 0) (f s) | None \<Rightarrow> Some (- 1, s)
      else if type = WIFI2AGPS_CMD_TYPE_DISABLED then
        case wifi_disabled h of Some f \<Rightarrow> map_option (Pair 0) (f s) | None \<Rightarrow> Some (- 1, s)
      else if type = WIFI2AGPS_CMD_TYPE_ASSOCIATED then
        case wifi_associated h of
          Some f \<Rightarrow> do {
            (ap_info, c) \<leftarrow> get_struct (replicate 248 0) c;
            map_option (Pair 0) (f (ap_info_of ap_info) s)
          }
        | None \<Rightarrow> Some (- 1, s)
      else if type = WIFI2AGPS_CMD_TYPE_DISASSOCIATED then
        case wifi_disassociated h of Some f \<Rightarrow> map_option (Pair 0) (f s) | None \<Rightarrow> Some (- 1, s)
      else if type = WIFI2AGPS_CMD_TYPE_SCANNED then
        case wifi_scanned h of
          Some f \<Rightarrow> do {
            (ap_info_list, c) \<leftarrow> get_struct (replicate 7940 0) c;
            map_option (Pair 0) (f (ap_info_list_of ap_info_list) s)
          }
        | None \<Rightarrow> Some (- 1, s)
      else Some (- 1, s))"

definition wifi2agps_handler :: "rx list \<Rightarrow> 's wifi2agpsInterface \<Rightarrow> 's \<Rightarrow> (int \<times> 's \<times> rx list) option" where
  "wifi2agps_handler rs h s =
     (case safe_recvfrom WIFI2AGPS_MAX_BUFF_SIZE rs of
        (ret, d, rs) \<Rightarrow>
          if ret = - 1 then Some (- 1, s, rs)
          else do {
            (version, c) \<leftarrow> get_int (recv_buff WIFI2AGPS_MAX_BUFF_SIZE d);
            (type, c) \<leftarrow> get_int c;
            (r, s) \<leftarrow> wifi2agps_switch type c h s;
            Some (r, s, rs)
          })"

section \<open>Messages as data\<close>

datatype wifi2agps_msg = W2A_enabled | W2A_disabled | W2A_associated wifi2agps_ap_info | W2A_disassociated
  | W2A_scanned wifi2agps_ap_info_list

fun wifi2agps_ok :: "wifi2agps_msg \<Rightarrow> bool" where
  "wifi2agps_ok (W2A_associated a) = ap_ok a"
| "wifi2agps_ok (W2A_scanned l) = ap_list_ok l"
| "wifi2agps_ok _ = True"

fun send_wifi2agps :: "wifi2agps_msg \<Rightarrow> (dest \<times> c_char list) option" where
  "send_wifi2agps W2A_enabled = wifi2agps_enabled"
| "send_wifi2agps W2A_disabled = wifi2agps_disabled"
| "send_wifi2agps (W2A_associated a) = wifi2agps_associated a"
| "send_wifi2agps W2A_disassociated = wifi2agps_disassociated"
| "send_wifi2agps (W2A_scanned l) = wifi2agps_scanned l"

fun call_with :: "('s \<Rightarrow> 's option) option \<Rightarrow> 's \<Rightarrow> (int \<times> 's) option" where
  "call_with None s = Some (- 1, s)"
| "call_with (Some f) s = map_option (Pair 0) (f s)"

fun call_wifi2agps :: "'s wifi2agpsInterface \<Rightarrow> wifi2agps_msg \<Rightarrow> 's \<Rightarrow> (int \<times> 's) option" where
  "call_wifi2agps h W2A_enabled s = call_with (wifi_enabled h) s"
| "call_wifi2agps h W2A_disabled s = call_with (wifi_disabled h) s"
| "call_wifi2agps h (W2A_associated a) s = call_with (map_option (\<lambda>f. f a) (wifi_associated h)) s"
| "call_wifi2agps h W2A_disassociated s = call_with (wifi_disassociated h) s"
| "call_wifi2agps h (W2A_scanned l) s = call_with (map_option (\<lambda>f. f l) (wifi_scanned h)) s"

fun wire_wifi2agps :: "wifi2agps_msg \<Rightarrow> c_char list" where
  "wire_wifi2agps W2A_enabled = enc_int 1 @ enc_int WIFI2AGPS_CMD_TYPE_ENABLED"
| "wire_wifi2agps W2A_disabled = enc_int 1 @ enc_int WIFI2AGPS_CMD_TYPE_DISABLED"
| "wire_wifi2agps (W2A_associated a) = enc_int 1 @ enc_int WIFI2AGPS_CMD_TYPE_ASSOCIATED @ enc_binary (ap_info_bytes a)"
| "wire_wifi2agps W2A_disassociated = enc_int 1 @ enc_int WIFI2AGPS_CMD_TYPE_DISASSOCIATED"
| "wire_wifi2agps (W2A_scanned l) = enc_int 1 @ enc_int WIFI2AGPS_CMD_TYPE_SCANNED @ enc_binary (ap_info_list_bytes l)"

text \<open>Every message fits the buffer, so every sender sends.\<close>

lemmas wifi_sender_defs = wifi2agps_enabled_def wifi2agps_disabled_def wifi2agps_associated_def
  wifi2agps_disassociated_def wifi2agps_scanned_def

lemma send_wifi2agps_eq:
  "wifi2agps_ok m \<Longrightarrow> send_wifi2agps m = Some (WIFI_2_AGPS, wire_wifi2agps m)"
  by (cases m)
    (simp_all add: wifi_sender_defs zero_buff_rd sent_rd store_simps binary_ok_def length_ap_info_bytes
      length_ap_info_list_bytes)

lemma length_wire_wifi2agps: "wifi2agps_ok m \<Longrightarrow> length (wire_wifi2agps m) \<le> WIFI2AGPS_MAX_BUFF_SIZE"
  by (cases m) (simp_all add: length_ap_info_bytes length_ap_info_list_bytes)

lemma wifi2agps_run:
  "wifi2agps_ok m \<Longrightarrow>
    do { (ver, c) \<leftarrow> get_int (rd WIFI2AGPS_MAX_BUFF_SIZE [] (wire_wifi2agps m));
         (type, c) \<leftarrow> get_int c; wifi2agps_switch type c h s } = call_wifi2agps h m s"
  by (cases m)
    (simp_all add: store_simps wifi2agps_switch_def length_ap_info_bytes length_ap_info_list_bytes
      ap_info_of_bytes [of _ "[]", simplified] ap_info_list_of_bytes split: option.split)

lemma wifi2agps_delivered:
  assumes "wifi2agps_ok m" "send_wifi2agps m = Some (q, d)"
  shows "wifi2agps_handler (RxData d # rs) h s = map_option (\<lambda>(r, s). (r, s, rs)) (call_wifi2agps h m s)"
proof -
  have d: "d = wire_wifi2agps m" using assms by (simp add: send_wifi2agps_eq)
  have "wifi2agps_handler (RxData d # rs) h s =
      map_option (\<lambda>(r, s). (r, s, rs))
        (do { (ver, c) \<leftarrow> get_int (rd WIFI2AGPS_MAX_BUFF_SIZE [] d); (type, c) \<leftarrow> get_int c; wifi2agps_switch type c h s })"
    using length_wire_wifi2agps [OF assms(1)]
    by (auto simp: wifi2agps_handler_def safe_recvfrom_def recv_buff_rd d split: Option.bind_splits)
  then show ?thesis by (simp add: d wifi2agps_run [OF assms(1)])
qed

interpretation w2a: channel "\<lambda>m. map_option snd (send_wifi2agps m)"
    "\<lambda>rs s. wifi2agps_handler rs h s" "call_wifi2agps h" wifi2agps_ok for h
  by unfold_locales (auto simp: wifi2agps_delivered)

section \<open>Properties\<close>

text \<open>C25. Every message of the wifi bridge is sent whole and runs exactly its callback in the AGPS
  daemon, on the access points that were sent.\<close>

theorem wifi2agps_round_trip:
  assumes "wifi2agps_ok m"
  shows "\<exists>d. send_wifi2agps m = Some (WIFI_2_AGPS, d) \<and>
    wifi2agps_handler (RxData d # rs) h s = map_option (\<lambda>(r, s). (r, s, rs)) (call_wifi2agps h m s)"
  using send_wifi2agps_eq [OF assms] wifi2agps_delivered [OF assms send_wifi2agps_eq [OF assms], of rs h s] by auto

definition heard :: "wifi2agps_msg list wifi2agpsInterface" where
  "heard = \<lparr>wifi_enabled = Some (\<lambda>s. Some (s @ [W2A_enabled])), wifi_disabled = Some (\<lambda>s. Some (s @ [W2A_disabled])),
     wifi_associated = Some (\<lambda>a s. Some (s @ [W2A_associated a])), wifi_disassociated = Some (\<lambda>s. Some (s @ [W2A_disassociated])),
     wifi_scanned = Some (\<lambda>l s. Some (s @ [W2A_scanned l]))\<rparr>"

lemma call_heard: "call_wifi2agps heard m s = Some (0, s @ [m])"
  by (cases m) (simp_all add: heard_def)

definition demo_ap :: wifi2agps_ap_info where
  "demo_ap = zero_ap_info\<lparr>ap_mac_addr := [2, 0, 0, 0, 0, 7], ap_signal_strength_used := 1, ap_signal_strength := - 60\<rparr>"

theorem wifi2agps_round_trip_witness:
  "\<exists>d. send_wifi2agps (W2A_associated demo_ap) = Some (WIFI_2_AGPS, d) \<and>
    wifi2agps_handler [RxData d] heard [] = Some (0, [W2A_associated demo_ap], [])"
proof -
  have "wifi2agps_ok (W2A_associated demo_ap)" by (simp add: ap_ok_def demo_ap_def zero_ap_info_def)
  from wifi2agps_round_trip [OF this, of "[]" heard "[]"] show ?thesis
    by (simp add: call_heard del: call_wifi2agps.simps send_wifi2agps.simps)
qed

text \<open>The receiver does not compare the length of a structure with its own: a longer one overruns the stack.\<close>

lemma long_ap_info_overruns:
  assumes "248 < length x" "length x \<le> 9988" "wifi_associated h = Some f"
  shows "wifi2agps_handler [RxData (enc_int v @ enc_int WIFI2AGPS_CMD_TYPE_ASSOCIATED @ enc_binary x)] h s = None"
proof -
  have "get_binary (replicate 248 0) (rd n (enc_int v @ enc_int WIFI2AGPS_CMD_TYPE_ASSOCIATED) (enc_binary x)) = None"
    if "n = WIFI2AGPS_MAX_BUFF_SIZE" for n
    using assms(1,2) that by (auto simp: get_binary_def enc_binary_def get_int_rd sint_of_nat_small)
  then show ?thesis using assms
    by (simp add: wifi2agps_handler_def safe_recvfrom_def recv_buff_rd store_simps wifi2agps_switch_def get_struct_def)
qed

end
