(* ===== verification/Netlink.thy ===== *)
theory Netlink
  imports Prelude
begin

text \<open>
  An attribute of a netlink message, as the netlink library gives it: its payload, and what
  \<open>nla_get_u8\<close>, \<open>nla_get_u16\<close> and \<open>nla_get_u32\<close> read from it. The library is a parameter of the model: an event or a reply
  is the attributes that it finds in it.
\<close>

record nlattr =
  nla_data :: "c_char list"
  nla_u8 :: c_char
  nla_u16 :: c_short
  nla_u32 :: c_int

end
