(* ===== verification/Wifi_Driver.thy ===== *)
theory Wifi_Driver
  imports Wifi_Messages Netlink C_Text "HOL-Library.Sublist"
begin

text \<open>
  The events of the wifi driver in \<^verbatim>\<open>mtk/wifi2agps/libwifi2agps/nl80211.c\<close>. The netlink library is a parameter: an event comes
  with what \<open>nla_find\<close> and \<open>nla_parse_nested\<close> give, an attribute with its payload and what
  \<open>nla_get_u8\<close>, \<open>nla_get_u16\<close> and \<open>nla_get_u32\<close> read from it. \<open>None\<close> is a null pointer or an access outside an object.
\<close>

abbreviation NL80211_CMD_TESTMODE :: c_char where "NL80211_CMD_TESTMODE \<equiv> 45"
abbreviation NL80211_CMD_CONNECT :: c_char where "NL80211_CMD_CONNECT \<equiv> 46"
abbreviation NL80211_CMD_ROAM :: c_char where "NL80211_CMD_ROAM \<equiv> 47"
abbreviation NL80211_CMD_DISCONNECT :: c_char where "NL80211_CMD_DISCONNECT \<equiv> 48"
abbreviation NL80211_ATTR_IFINDEX :: nat where "NL80211_ATTR_IFINDEX \<equiv> 3"
abbreviation NL80211_ATTR_MAC :: nat where "NL80211_ATTR_MAC \<equiv> 6"
abbreviation NL80211_ATTR_TESTDATA :: nat where "NL80211_ATTR_TESTDATA \<equiv> 69"
abbreviation NL80211_ATTR_STATUS_CODE :: nat where "NL80211_ATTR_STATUS_CODE \<equiv> 72"
abbreviation MTK_NL80211_ATTR_CMD :: nat where "MTK_NL80211_ATTR_CMD \<equiv> 1"
abbreviation MTK_NL80211_ATTR_DATA :: nat where "MTK_NL80211_ATTR_DATA \<equiv> 2"
abbreviation MTK_NL80211_ATTR_IFINDEX :: nat where "MTK_NL80211_ATTR_IFINDEX \<equiv> 3"
abbreviation MTK_NL80211_ATTR_IFNAME :: nat where "MTK_NL80211_ATTR_IFNAME \<equiv> 4"
abbreviation AGPS_EVENT_WIFI_ON :: c_char where "AGPS_EVENT_WIFI_ON \<equiv> 0"
abbreviation AGPS_EVENT_WIFI_OFF :: c_char where "AGPS_EVENT_WIFI_OFF \<equiv> 1"
abbreviation AGPS_EVENT_WIFI_AP_INFO :: c_char where "AGPS_EVENT_WIFI_AP_INFO \<equiv> 2"

section \<open>Events and state\<close>

text \<open>\<open>ne_stack\<close> is what the local \<open>drv_ap_list\<close> holds before it is written.\<close>

record nl_event =
  ne_cmd :: c_char
  ne_find :: "nat \<Rightarrow> nlattr option"
  ne_nested :: "nat \<Rightarrow> nlattr option"
  ne_stack :: "c_char list"

text \<open>The selected interface, and the calls of the callbacks, which are the senders of the bridge.\<close>

record nl80211_cfg =
  ifindex :: c_int
  w_calls :: "wifi2agps_msg list"

definition cfg_init :: nl80211_cfg where
  "cfg_init = \<lparr>ifindex = - 1, w_calls = []\<rparr>"

definition tell :: "wifi2agps_msg \<Rightarrow> nl80211_cfg \<Rightarrow> nl80211_cfg" where
  "tell m s = s\<lparr>w_calls := w_calls s @ [m]\<rparr>"

section \<open>Associations\<close>

definition mlme_event_connect :: "c_char \<Rightarrow> nlattr option \<Rightarrow> nlattr option \<Rightarrow> nl80211_cfg \<Rightarrow> nl80211_cfg option" where
  "mlme_event_connect cmd status addr s = do {
     rejected \<leftarrow> (if cmd = NL80211_CMD_CONNECT then map_option (\<lambda>a. nla_u16 a \<noteq> 0) status else Some False);
     if rejected then Some s
     else case addr of
       None \<Rightarrow> Some (tell (W2A_associated zero_ap_info) s)
     | Some a \<Rightarrow>
         if 6 \<le> length (nla_data a) then Some (tell (W2A_associated (zero_ap_info\<lparr>ap_mac_addr := take 6 (nla_data a)\<rparr>)) s)
         else None
   }"

definition checkIfIndex :: "nl80211_cfg \<Rightarrow> nlattr option \<Rightarrow> bool" where
  "checkIfIndex s tb = (case tb of None \<Rightarrow> False | Some a \<Rightarrow> nla_u32 a = ifindex s)"

section \<open>Scan results\<close>

record driver_ap_info =
  bssid :: "c_char list"
  ap_rssi :: c_short
  ap_channel :: c_short
  phy_type :: c_int

definition driver_ap_types :: "c_type list" where
  "driver_ap_types = replicate 6 T8 @ [T16, T16, T32]"

definition driver_ap_bytes :: "driver_ap_info \<Rightarrow> c_char list" where
  "driver_ap_bytes a = struct_bytes 4 (map V8 (bssid a) @ [V16 (ap_rssi a), V16 (ap_channel a), V32 (phy_type a)])"

definition driver_ap_of :: "c_char list \<Rightarrow> driver_ap_info" where
  "driver_ap_of b =
     (let vs = struct_members driver_ap_types b
      in \<lparr>bssid = map v8 (take 6 vs), ap_rssi = v16 (vs ! 6), ap_channel = v16 (vs ! 7), phy_type = v32 (vs ! 8)\<rparr>)"

definition sizeof_driver_ap_list :: nat where
  "sizeof_driver_ap_list = 4 + 32 * 16"

text \<open>The body of the loop.\<close>

definition copy_ap :: "driver_ap_info \<Rightarrow> wifi2agps_ap_info \<Rightarrow> wifi2agps_ap_info" where
  "copy_ap d a = a\<lparr>ap_mac_addr := bssid d, ap_signal_strength_used := 1, ap_signal_strength := scast (ap_rssi d),
     ap_channel_frequency_used := 1, ap_channel_frequency := ucast (ap_channel d)\<rparr>"

text \<open>The loop over the two arrays; beyond their ends it is undefined.\<close>

fun copy_aps :: "nat \<Rightarrow> driver_ap_info list \<Rightarrow> wifi2agps_ap_info list \<Rightarrow> wifi2agps_ap_info list option" where
  "copy_aps 0 ds as = Some as"
| "copy_aps (Suc n) (d # ds) (a # as) = map_option ((#) (copy_ap d a)) (copy_aps n ds as)"
| "copy_aps (Suc n) _ _ = None"

definition scan_results :: "c_char list \<Rightarrow> nlattr option \<Rightarrow> nl80211_cfg \<Rightarrow> nl80211_cfg option" where
  "scan_results stack data s = do {
     d \<leftarrow> map_option nla_data data;
     drv \<leftarrow> (if length d \<le> sizeof_driver_ap_list then Some (d @ drop (length d) stack) else None);
     let num = drv ! 0;
     l \<leftarrow> copy_aps (unat num) (map driver_ap_of (chunks 16 32 (drop 4 drv))) (replicate WIFI_AP_LIST_NUM_MAX zero_ap_info);
     Some (tell (W2A_scanned \<lparr>ap_num = num, ap_list = l\<rparr>) s)
   }"

section \<open>The event handler\<close>

text \<open>\<open>strncmp(name, "wlan", 4) == 0\<close>, which reads until the texts differ.\<close>

definition is_wlan :: "c_char list \<Rightarrow> bool option" where
  "is_wlan name =
     (if take 4 name = ascii ''wlan'' then Some True
      else if prefix name (ascii ''wlan'') then None
      else Some False)"

definition testmode_event :: "nl_event \<Rightarrow> nl80211_cfg \<Rightarrow> nl80211_cfg option" where
  "testmode_event e s =
     (case ne_nested e MTK_NL80211_ATTR_IFNAME of
        None \<Rightarrow> Some s
      | Some name \<Rightarrow> do {
          wlan \<leftarrow> is_wlan (nla_data name);
          if \<not> wlan then Some s
          else do {
            idx \<leftarrow> ne_nested e MTK_NL80211_ATTR_IFINDEX;
            let s = s\<lparr>ifindex := ucast (nla_u8 idx)\<rparr>;
            cmd \<leftarrow> ne_nested e MTK_NL80211_ATTR_CMD;
            if nla_u8 cmd = AGPS_EVENT_WIFI_ON then Some (tell W2A_enabled s)
            else if nla_u8 cmd = AGPS_EVENT_WIFI_OFF then Some (tell W2A_disabled s)
            else if nla_u8 cmd = AGPS_EVENT_WIFI_AP_INFO then scan_results (ne_stack e) (ne_nested e MTK_NL80211_ATTR_DATA) s
            else Some s
          }
        })"

definition process_nl_event :: "nl_event \<Rightarrow> nl80211_cfg \<Rightarrow> nl80211_cfg option" where
  "process_nl_event e s =
     (if ne_cmd e = NL80211_CMD_CONNECT \<or> ne_cmd e = NL80211_CMD_ROAM then
        if checkIfIndex s (ne_find e NL80211_ATTR_IFINDEX)
        then mlme_event_connect (ne_cmd e) (ne_find e NL80211_ATTR_STATUS_CODE) (ne_find e NL80211_ATTR_MAC) s
        else Some s
      else if ne_cmd e = NL80211_CMD_DISCONNECT then
        if checkIfIndex s (ne_find e NL80211_ATTR_IFINDEX) then Some (tell W2A_disassociated s) else Some s
      else if ne_cmd e = NL80211_CMD_TESTMODE then
        case ne_find e NL80211_ATTR_TESTDATA of None \<Rightarrow> Some s | Some _ \<Rightarrow> testmode_event e s
      else Some s)"

text \<open>The events that are received, one call of the handler for each.\<close>

fun receive_events :: "nl_event list \<Rightarrow> nl80211_cfg \<Rightarrow> nl80211_cfg option" where
  "receive_events [] s = Some s"
| "receive_events (e # es) s = do { s \<leftarrow> process_nl_event e s; receive_events es s }"

section \<open>Scan results reach the AGPS daemon\<close>

definition driver_ap_ok :: "driver_ap_info \<Rightarrow> bool" where
  "driver_ap_ok a \<longleftrightarrow> length (bssid a) = 6"

lemma driver_ap_size: "struct_size 4 driver_ap_types = 16"
  by code_simp

lemma driver_ap_members: "driver_ap_ok a \<Longrightarrow>
    map type_of (map V8 (bssid a) @ [V16 (ap_rssi a), V16 (ap_channel a), V32 (phy_type a)]) = driver_ap_types"
  by (simp add: driver_ap_ok_def driver_ap_types_def map_replicate_const comp_def)

lemma length_driver_ap_bytes: "driver_ap_ok a \<Longrightarrow> length (driver_ap_bytes a) = 16"
  using driver_ap_members [of a] by (simp add: driver_ap_bytes_def driver_ap_size del: map_append)

lemma driver_ap_of_bytes:
  assumes "driver_ap_ok a"
  shows "driver_ap_of (driver_ap_bytes a @ r) = a"
proof -
  have "struct_members driver_ap_types (driver_ap_bytes a @ r) = map V8 (bssid a) @ [V16 (ap_rssi a), V16 (ap_channel a), V32 (phy_type a)]"
    using struct_round_trip [of "map V8 (bssid a) @ [V16 (ap_rssi a), V16 (ap_channel a), V32 (phy_type a)]" 4 r]
    unfolding driver_ap_members [OF assms] driver_ap_bytes_def by blast
  then show ?thesis using assms by (simp add: driver_ap_of_def driver_ap_ok_def comp_def nth_append)
qed

definition driver_list :: "driver_ap_info list \<Rightarrow> c_char list" where
  "driver_list aps = word_of_nat (length aps) # [0, 0, 0] @ concat (map driver_ap_bytes aps)"

lemma length_driver_list: "\<forall>a\<in>set aps. driver_ap_ok a \<Longrightarrow> length (driver_list aps) = 4 + 16 * length aps"
  by (simp add: driver_list_def length_concat comp_def length_driver_ap_bytes sum_list_triv cong: map_cong)

lemma copy_aps_copies:
  "copy_aps (length xs) (xs @ ys) (replicate (length xs + k) a) = Some (map (\<lambda>d. copy_ap d a) xs @ replicate k a)"
  by (induction xs) auto

lemma copy_aps_overrun: "length as < n \<Longrightarrow> copy_aps n ds as = None"
proof (induction n ds as rule: copy_aps.induct)
qed auto

lemma chunks_append: "chunks k (m + n) xs = chunks k m xs @ chunks k n (drop (k * m) xs)"
  by (induction m arbitrary: xs) (auto simp: add.commute)

end
