(* ===== verification/Wifi_Properties.thy ===== *)
theory Wifi_Properties
  imports Wifi_Driver
begin

text \<open>
  From the events of the driver to the callbacks of the AGPS daemon: scans, and the associations of the interface that is selected.
\<close>

section \<open>Scan results\<close>

text \<open>An event of the driver with access points, for the interface with the number \<open>idx\<close>.\<close>

definition scan_event :: "nl_event \<Rightarrow> c_char \<Rightarrow> driver_ap_info list \<Rightarrow> bool" where
  "scan_event e idx aps \<longleftrightarrow> ne_cmd e = NL80211_CMD_TESTMODE \<and> ne_find e NL80211_ATTR_TESTDATA \<noteq> None \<and>
     (\<exists>name. ne_nested e MTK_NL80211_ATTR_IFNAME = Some name \<and> take 4 (nla_data name) = ascii ''wlan'') \<and>
     (\<exists>i. ne_nested e MTK_NL80211_ATTR_IFINDEX = Some i \<and> nla_u8 i = idx) \<and>
     (\<exists>c. ne_nested e MTK_NL80211_ATTR_CMD = Some c \<and> nla_u8 c = AGPS_EVENT_WIFI_AP_INFO) \<and>
     (\<exists>d. ne_nested e MTK_NL80211_ATTR_DATA = Some d \<and> nla_data d = driver_list aps) \<and>
     (\<forall>a\<in>set aps. driver_ap_ok a) \<and> length aps \<le> 255 \<and> length (ne_stack e) = sizeof_driver_ap_list"

text \<open>What the AGPS daemon should get for them.\<close>

definition scanned_list :: "driver_ap_info list \<Rightarrow> wifi2agps_ap_info_list" where
  "scanned_list aps = \<lparr>ap_num = word_of_nat (length aps),
     ap_list = map (\<lambda>a. zero_ap_info\<lparr>ap_mac_addr := bssid a,
         ap_signal_strength_used := 1, ap_signal_strength := word_of_int (sint (ap_rssi a)),
         ap_channel_frequency_used := 1, ap_channel_frequency := word_of_int (uint (ap_channel a))\<rparr>) aps @
       replicate (32 - length aps) zero_ap_info\<rparr>"

lemma zero_ap_ok: "ap_ok zero_ap_info"
  by (simp add: ap_ok_def zero_ap_info_def)

lemma scanned_list_ok: "\<forall>a\<in>set aps. driver_ap_ok a \<Longrightarrow> length aps \<le> 32 \<Longrightarrow> ap_list_ok (scanned_list aps)"
  using zero_ap_ok by (auto simp: scanned_list_def ap_list_ok_def ap_ok_def driver_ap_ok_def)

lemma copy_ap_zero: "copy_ap d zero_ap_info = zero_ap_info\<lparr>ap_mac_addr := bssid d,
    ap_signal_strength_used := 1, ap_signal_strength := word_of_int (sint (ap_rssi d)),
    ap_channel_frequency_used := 1, ap_channel_frequency := word_of_int (uint (ap_channel d))\<rparr>"
  by (simp add: copy_ap_def)

lemma driver_aps_read:
  assumes "\<forall>a\<in>set aps. driver_ap_ok a" "length aps \<le> 32"
  shows "\<exists>ys. map driver_ap_of (chunks 16 32 (drop 4 (driver_list aps @ r))) = aps @ ys"
proof -
  have "chunks 16 32 xs = chunks 16 (length aps) xs @ chunks 16 (32 - length aps) (drop (16 * length aps) xs)" for xs :: "c_char list"
    using chunks_append [of 16 "length aps" "32 - length aps" xs] assms(2) by simp
  moreover have "map driver_ap_of (chunks 16 (length aps) (concat (map driver_ap_bytes aps) @ r)) = aps"
    using assms(1) by (intro map_chunks_concat) (auto simp: length_driver_ap_bytes driver_ap_of_bytes)
  ultimately show ?thesis by (simp add: driver_list_def)
qed

lemma scan_results_copied:
  assumes "\<forall>a\<in>set aps. driver_ap_ok a" "nla_data d = driver_list aps" "length stack = sizeof_driver_ap_list" "length aps \<le> 255"
  shows "scan_results stack (Some d) s = (if length aps \<le> 32 then Some (tell (W2A_scanned (scanned_list aps)) s) else None)"
proof (cases "length aps \<le> 32")
  case True
  obtain ys where ys: "map driver_ap_of (chunks 16 32 (drop 4 (driver_list aps @ drop (length (driver_list aps)) stack))) = aps @ ys"
    using driver_aps_read [OF assms(1) True] by blast
  have "replicate 32 zero_ap_info = replicate (length aps + (32 - length aps)) zero_ap_info" using True by simp
  moreover have "unat (word_of_nat (length aps) :: c_char) = length aps"
    using True by (simp add: unat_of_nat take_bit_nat_eq_self)
  moreover have "driver_list aps ! 0 = word_of_nat (length aps)" "driver_list aps \<noteq> []" by (simp_all add: driver_list_def)
  moreover have "length (driver_list aps) \<le> sizeof_driver_ap_list"
    using True by (simp add: length_driver_list [OF assms(1)] sizeof_driver_ap_list_def)
  ultimately show ?thesis
    using True copy_aps_copies [of aps ys "32 - length aps" zero_ap_info]
    by (simp add: scan_results_def assms(2) ys nth_append scanned_list_def copy_ap_zero del: drop_append)
next
  case False
  then show ?thesis
    by (simp add: scan_results_def assms(2) length_driver_list [OF assms(1)] sizeof_driver_ap_list_def)
qed

lemma scan_event_handled:
  assumes "scan_event e idx aps"
  shows "process_nl_event e s =
    (if length aps \<le> 32 then Some (tell (W2A_scanned (scanned_list aps)) (s\<lparr>ifindex := ucast idx\<rparr>)) else None)"
  using assms unfolding scan_event_def
  by (auto simp: process_nl_event_def testmode_event_def is_wlan_def scan_results_copied)

text \<open>C11. Up to 32 access points of a scan reach the callback of the AGPS daemon with their addresses, signal strengths
  and channels, and nothing else; with more, the bridge writes behind its structure.\<close>

theorem scan_delivered:
  assumes "scan_event e idx aps"
  shows "if length aps \<le> 32
    then process_nl_event e s = Some (tell (W2A_scanned (scanned_list aps)) (s\<lparr>ifindex := ucast idx\<rparr>)) \<and>
      (\<exists>d. wifi2agps_scanned (scanned_list aps) = Some (WIFI_2_AGPS, d) \<and>
        wifi2agps_handler (RxData d # rs) h t =
          map_option (\<lambda>(r, t). (r, t, rs)) (call_with (map_option (\<lambda>f. f (scanned_list aps)) (wifi_scanned h)) t))
    else process_nl_event e s = None"
proof (cases "length aps \<le> 32")
  case True
  have "\<forall>a\<in>set aps. driver_ap_ok a" using assms by (simp add: scan_event_def)
  then have ok: "wifi2agps_ok (W2A_scanned (scanned_list aps))" using scanned_list_ok True by simp
  show ?thesis
    using True scan_event_handled [OF assms, of s] send_wifi2agps_eq [OF ok]
      wifi2agps_delivered [OF ok send_wifi2agps_eq [OF ok], of rs h t] by simp
next
  case False
  then show ?thesis using scan_event_handled [OF assms, of s] by simp
qed

definition demo_attr :: "c_char list \<Rightarrow> nlattr" where
  "demo_attr d = \<lparr>nla_data = d, nla_u8 = d ! 0, nla_u16 = le16 d, nla_u32 = le32 d\<rparr>"

definition demo_scan :: "c_char \<Rightarrow> driver_ap_info list \<Rightarrow> nl_event" where
  "demo_scan idx aps = \<lparr>ne_cmd = NL80211_CMD_TESTMODE, ne_find = [69 \<mapsto> demo_attr []],
     ne_nested = [4 \<mapsto> demo_attr (ascii ''wlan0'' @ [0]), 3 \<mapsto> demo_attr [idx], 1 \<mapsto> demo_attr [AGPS_EVENT_WIFI_AP_INFO],
       2 \<mapsto> demo_attr (driver_list aps)], ne_stack = replicate sizeof_driver_ap_list 170\<rparr>"

definition demo_driver_ap :: driver_ap_info where
  "demo_driver_ap = \<lparr>bssid = [2, 0, 0, 0, 0, 7], ap_rssi = - 60, ap_channel = 11, phy_type = 1\<rparr>"

lemma demo_scan_event: "scan_event (demo_scan 5 [demo_driver_ap]) 5 [demo_driver_ap]"
  by (simp add: scan_event_def demo_scan_def demo_attr_def ascii_def driver_ap_ok_def demo_driver_ap_def)

theorem scan_delivered_witness:
  "\<exists>d. wifi2agps_scanned (scanned_list [demo_driver_ap]) = Some (WIFI_2_AGPS, d) \<and>
    wifi2agps_handler [RxData d] heard [] = Some (0, [W2A_scanned (scanned_list [demo_driver_ap])], [])"
  using scan_delivered [OF demo_scan_event, of cfg_init "[]" heard "[]"] by (simp add: heard_def)

section \<open>Runs of the bridge\<close>

lemma receive_events_snoc: "receive_events (es @ [e]) s = do { s \<leftarrow> receive_events es s; process_nl_event e s }"
  by (induction es arbitrary: s) (auto split: Option.bind_splits)

lemma driver_ap_of_ok: "driver_ap_ok (driver_ap_of b)"
  by (simp add: driver_ap_ok_def driver_ap_of_def driver_ap_types_def Let_def)

lemma copy_aps_ok:
  "copy_aps n ds as = Some l \<Longrightarrow> \<forall>d\<in>set ds. driver_ap_ok d \<Longrightarrow> \<forall>a\<in>set as. ap_ok a \<Longrightarrow>
    (\<forall>a\<in>set l. ap_ok a) \<and> length l = length as"
proof (induction n ds as arbitrary: l rule: copy_aps.induct)
  case (2 n d ds a as)
  then show ?case by (auto simp: copy_ap_def ap_ok_def driver_ap_ok_def)
qed auto

lemma scan_results_calls:
  assumes "scan_results stack d s = Some s'"
  shows "\<exists>l. w_calls s' = w_calls s @ [W2A_scanned l] \<and> ap_list_ok l \<and> ifindex s' = ifindex s"
proof -
  obtain n b l where l: "copy_aps n (map driver_ap_of b) (replicate WIFI_AP_LIST_NUM_MAX zero_ap_info) = Some l"
    and s': "\<exists>m. s' = tell (W2A_scanned \<lparr>ap_num = m, ap_list = l\<rparr>) s"
    using assms by (auto simp: scan_results_def Let_def split: Option.bind_splits if_splits)
  have "(\<forall>a\<in>set l. ap_ok a) \<and> length l = WIFI_AP_LIST_NUM_MAX"
    using copy_aps_ok [OF l] by (simp add: driver_ap_of_ok zero_ap_ok)
  with s' show ?thesis by (auto simp: tell_def ap_list_ok_def)
qed

text \<open>The interface that an event selects, and the access point of an association with the interface it is for.\<close>

definition selects :: "nl_event \<Rightarrow> c_int option" where
  "selects e =
     (if ne_cmd e = NL80211_CMD_TESTMODE \<and> ne_find e NL80211_ATTR_TESTDATA \<noteq> None then
        case ne_nested e MTK_NL80211_ATTR_IFNAME of
          Some name \<Rightarrow>
            if take 4 (nla_data name) = ascii ''wlan''
            then map_option (\<lambda>i. ucast (nla_u8 i)) (ne_nested e MTK_NL80211_ATTR_IFINDEX) else None
        | None \<Rightarrow> None
      else None)"

definition associates :: "nl_event \<Rightarrow> (c_int \<times> wifi2agps_ap_info) option" where
  "associates e =
     (if ne_cmd e = NL80211_CMD_ROAM \<or>
         ne_cmd e = NL80211_CMD_CONNECT \<and> (\<forall>a. ne_find e NL80211_ATTR_STATUS_CODE = Some a \<longrightarrow> nla_u16 a = 0)
      then map_option (\<lambda>i. (nla_u32 i, case ne_find e NL80211_ATTR_MAC of
          Some a \<Rightarrow> zero_ap_info\<lparr>ap_mac_addr := take 6 (nla_data a)\<rparr> | None \<Rightarrow> zero_ap_info)) (ne_find e NL80211_ATTR_IFINDEX)
      else None)"

text \<open>What an event adds to the associations that were told, when interface \<open>i\<close> is selected.\<close>

definition told :: "c_int \<Rightarrow> nl_event \<Rightarrow> wifi2agps_ap_info list" where
  "told i e = (case associates e of Some (j, a) \<Rightarrow> if j = i then [a] else [] | None \<Rightarrow> [])"

definition next_selected :: "c_int \<Rightarrow> nl_event \<Rightarrow> c_int" where
  "next_selected i e = (case selects e of Some j \<Rightarrow> j | None \<Rightarrow> i)"

definition associations :: "wifi2agps_msg list \<Rightarrow> wifi2agps_ap_info list" where
  "associations ms = concat (map (\<lambda>m. case m of W2A_associated a \<Rightarrow> [a] | _ \<Rightarrow> []) ms)"

lemma associations_simps [simp]:
  "associations [] = []" "associations (xs @ ys) = associations xs @ associations ys"
  "associations [m] = (case m of W2A_associated a \<Rightarrow> [a] | _ \<Rightarrow> [])"
  by (simp_all add: associations_def)

lemma connect_calls:
  assumes "mlme_event_connect cmd st addr s = Some s'"
  shows "ifindex s' = ifindex s \<and>
    (if cmd = NL80211_CMD_CONNECT \<and> (\<exists>a. st = Some a \<and> nla_u16 a \<noteq> 0) then w_calls s' = w_calls s
     else \<exists>a. a = (case addr of Some d \<Rightarrow> zero_ap_info\<lparr>ap_mac_addr := take 6 (nla_data d)\<rparr> | None \<Rightarrow> zero_ap_info) \<and>
       ap_ok a \<and> w_calls s' = w_calls s @ [W2A_associated a])"
  using assms
  by (auto simp: mlme_event_connect_def tell_def ap_ok_def zero_ap_info_def split: Option.bind_splits if_splits option.splits)

lemma testmode_calls:
  assumes "testmode_event e s = Some s'" "ne_cmd e = NL80211_CMD_TESTMODE" "ne_find e NL80211_ATTR_TESTDATA \<noteq> None"
  shows "ifindex s' = next_selected (ifindex s) e \<and> associations (w_calls s') = associations (w_calls s) \<and>
    (w_calls s' = w_calls s \<or> (\<exists>m. w_calls s' = w_calls s @ [m] \<and> wifi2agps_ok m))"
proof (cases "ne_nested e MTK_NL80211_ATTR_IFNAME")
  case None
  then show ?thesis using assms by (simp add: testmode_event_def next_selected_def selects_def)
next
  case (Some name)
  obtain wlan where w: "is_wlan (nla_data name) = Some wlan" "wlan \<longleftrightarrow> take 4 (nla_data name) = ascii ''wlan''"
    using assms(1) Some by (auto simp: testmode_event_def is_wlan_def split: if_splits)
  show ?thesis
  proof (cases wlan)
    case False
    then show ?thesis using assms Some w by (simp add: testmode_event_def next_selected_def selects_def)
  next
    case True
    then obtain idx cmd where n: "ne_nested e MTK_NL80211_ATTR_IFINDEX = Some idx" "ne_nested e MTK_NL80211_ATTR_CMD = Some cmd"
      using assms(1) Some w(1) by (auto simp: testmode_event_def Let_def split: Option.bind_splits)
    define s1 where "s1 = s\<lparr>ifindex := ucast (nla_u8 idx)\<rparr>"
    have sel: "ifindex s1 = next_selected (ifindex s) e"
      using assms(2,3) Some True w(2) n by (simp add: s1_def next_selected_def selects_def)
    have "s' = tell W2A_enabled s1 \<or> s' = tell W2A_disabled s1 \<or> s' = s1 \<or>
        scan_results (ne_stack e) (ne_nested e MTK_NL80211_ATTR_DATA) s1 = Some s'"
      using assms(1) Some True w(1) n by (auto simp: testmode_event_def s1_def Let_def split: if_splits)
    moreover have "ifindex s' = ifindex s1 \<and> (\<exists>l. w_calls s' = w_calls s1 @ [W2A_scanned l] \<and> ap_list_ok l)"
      if "scan_results (ne_stack e) (ne_nested e MTK_NL80211_ATTR_DATA) s1 = Some s'"
      using scan_results_calls [OF that] by blast
    moreover have "w_calls s1 = w_calls s" by (simp add: s1_def)
    ultimately show ?thesis using sel by (auto simp: tell_def)
  qed
qed

text \<open>What one event does: the selected interface, the associations, and at most one call.\<close>

lemma event_calls:
  assumes "process_nl_event e s = Some s'"
  shows "ifindex s' = next_selected (ifindex s) e \<and>
    associations (w_calls s') = associations (w_calls s) @ told (ifindex s) e \<and>
    (w_calls s' = w_calls s \<or> (\<exists>m. w_calls s' = w_calls s @ [m] \<and> wifi2agps_ok m))"
proof (cases "ne_cmd e = NL80211_CMD_CONNECT \<or> ne_cmd e = NL80211_CMD_ROAM")
  case True
  then have sel: "next_selected (ifindex s) e = ifindex s" by (auto simp: next_selected_def selects_def)
  show ?thesis
  proof (cases "checkIfIndex s (ne_find e NL80211_ATTR_IFINDEX)")
    case checked: True
    then obtain i where i: "ne_find e NL80211_ATTR_IFINDEX = Some i" "nla_u32 i = ifindex s"
      by (auto simp: checkIfIndex_def split: option.splits)
    have "mlme_event_connect (ne_cmd e) (ne_find e NL80211_ATTR_STATUS_CODE) (ne_find e NL80211_ATTR_MAC) s = Some s'"
      using assms True checked by (simp add: process_nl_event_def)
    note c = connect_calls [OF this]
    show ?thesis
    proof (cases "ne_cmd e = NL80211_CMD_CONNECT \<and> (\<exists>a. ne_find e NL80211_ATTR_STATUS_CODE = Some a \<and> nla_u16 a \<noteq> 0)")
      case rejected: True
      then have "associates e = None" by (auto simp: associates_def)
      then show ?thesis using c rejected sel by (simp add: told_def)
    next
      case False
      then have "associates e = Some (ifindex s, case ne_find e NL80211_ATTR_MAC of
          Some d \<Rightarrow> zero_ap_info\<lparr>ap_mac_addr := take 6 (nla_data d)\<rparr> | None \<Rightarrow> zero_ap_info)"
        using True i by (auto simp: associates_def)
      then show ?thesis using c False sel by (auto simp: told_def)
    qed
  next
    case False
    then have "s' = s" using assms True by (simp add: process_nl_event_def)
    moreover have "told (ifindex s) e = []"
      using False by (auto simp: told_def associates_def checkIfIndex_def split: option.splits)
    ultimately show ?thesis using sel by simp
  qed
next
  case other: False
  then have no: "told (ifindex s) e = []" by (simp add: told_def associates_def)
  show ?thesis
  proof (cases "ne_cmd e = NL80211_CMD_TESTMODE \<and> ne_find e NL80211_ATTR_TESTDATA \<noteq> None")
    case True
    then have "testmode_event e s = Some s'" using assms by (auto simp: process_nl_event_def split: option.splits)
    then show ?thesis using testmode_calls True no by simp
  next
    case False
    then have "s' = s \<or> s' = tell W2A_disassociated s"
      using assms other by (auto simp: process_nl_event_def split: if_splits option.splits)
    moreover have "next_selected (ifindex s) e = ifindex s" using False by (auto simp: next_selected_def selects_def)
    ultimately show ?thesis using no by (auto simp: tell_def)
  qed
qed

lemma run_calls_ok: "receive_events es cfg_init = Some s \<Longrightarrow> \<forall>m\<in>set (w_calls s). wifi2agps_ok m"
proof (induction es arbitrary: s rule: rev_induct)
  case (snoc e es)
  then obtain s0 where s0: "receive_events es cfg_init = Some s0" "process_nl_event e s0 = Some s"
    by (auto simp: receive_events_snoc split: Option.bind_splits)
  show ?case using event_calls [OF s0(2)] snoc.IH [OF s0(1)] by auto
qed (simp add: cfg_init_def)

text \<open>The AGPS daemon gets the calls of the bridge in their order.\<close>

lemma bridge_in_order:
  assumes "receive_events es cfg_init = Some s"
  shows "\<exists>ds. map (\<lambda>m. map_option snd (send_wifi2agps m)) (w_calls s) = map Some ds \<and>
    serve (\<lambda>rs t. wifi2agps_handler rs h t) (length ds) (map RxData ds) t =
      map_option (\<lambda>t. (t, [])) (calls (call_wifi2agps h) (w_calls s) t)"
proof -
  have ok: "\<forall>m\<in>set (w_calls s). wifi2agps_ok m" using run_calls_ok [OF assms] .
  define ds where "ds = map wire_wifi2agps (w_calls s)"
  have ds: "map (\<lambda>m. map_option snd (send_wifi2agps m)) (w_calls s) = map Some ds"
    using ok by (simp add: ds_def send_wifi2agps_eq)
  have "length (w_calls s) = length ds" by (simp add: ds_def)
  with w2a.serve_calls [OF ok ds, of h "[]" t]
  have "serve (\<lambda>rs t. wifi2agps_handler rs h t) (length ds) (map RxData ds) t =
      map_option (\<lambda>t. (t, [])) (calls (call_wifi2agps h) (w_calls s) t)"
    by (simp only: append_Nil2)
  with ds show ?thesis by blast
qed

lemma low_byte: "unat (ucast (x :: c_char) :: c_int) < 256"
proof -
  have "unat x < 256" using unsigned_less [of x] by simp
  then show ?thesis using le_less_trans [OF take_bit_nat_less_eq_self] by (simp add: unsigned_ucast_eq)
qed

text \<open>The interface that the last of the events selected, \<open>- 1\<close> before the first.\<close>

definition selected :: "nl_event list \<Rightarrow> c_int" where
  "selected es = foldl next_selected (- 1) es"

lemma selected_small: "selected es = - 1 \<or> unat (selected es) < 256"
proof (induction es rule: rev_induct)
  case (snoc e es)
  then show ?case using low_byte by (auto simp: selected_def next_selected_def selects_def split: option.splits if_splits)
qed (simp add: selected_def)

text \<open>C24. The associations that the AGPS daemon is told of are exactly those of the events for the interface that the last
  selecting event before them selected, in their order, with their access points; rejected ones are left out. Selecting keeps the low
  eight bits of the number of an interface, so that an association of one numbered above 255 is never told.\<close>

theorem associations_of_selected:
  assumes "receive_events es cfg_init = Some s"
  shows "ifindex s = selected es \<and>
    associations (w_calls s) = concat (map (\<lambda>k. told (selected (take k es)) (es ! k)) [0..<length es]) \<and>
    (\<forall>k e i a. k < length es \<and> es ! k = e \<and> associates e = Some (i, a) \<and> 256 \<le> unat i \<and> i \<noteq> - 1 \<longrightarrow>
      told (selected (take k es)) e = [])"
proof (intro conjI)
  have "ifindex s = selected es \<and>
    associations (w_calls s) = concat (map (\<lambda>k. told (selected (take k es)) (es ! k)) [0..<length es])"
    using assms
  proof (induction es arbitrary: s rule: rev_induct)
    case Nil
    then show ?case by (auto simp: cfg_init_def selected_def)
  next
    case (snoc e es)
    then obtain s0 where s0: "receive_events es cfg_init = Some s0" "process_nl_event e s0 = Some s"
      by (auto simp: receive_events_snoc split: Option.bind_splits)
    have "map (\<lambda>k. told (selected (take k (es @ [e]))) ((es @ [e]) ! k)) [0..<length es] =
        map (\<lambda>k. told (selected (take k es)) (es ! k)) [0..<length es]"
      by (simp add: nth_append)
    moreover have "map f [0..<length (es @ [e])] = map f [0..<length es] @ [f (length es)]" for f :: "nat \<Rightarrow> wifi2agps_ap_info list" by simp
    ultimately have "concat (map (\<lambda>k. told (selected (take k (es @ [e]))) ((es @ [e]) ! k)) [0..<length (es @ [e])]) =
        concat (map (\<lambda>k. told (selected (take k es)) (es ! k)) [0..<length es]) @ told (selected es) e"
      by (simp only: concat_append) simp
    moreover have "selected (es @ [e]) = next_selected (selected es) e" by (simp add: selected_def)
    ultimately show ?case using event_calls [OF s0(2)] snoc.IH [OF s0(1)] by (simp only:)
  qed
  then show "ifindex s = selected es" "associations (w_calls s) = concat (map (\<lambda>k. told (selected (take k es)) (es ! k)) [0..<length es])"
    by simp_all
  have "told (selected xs) e = []" if "associates e = Some (i, a)" "256 \<le> unat i" "i \<noteq> - 1" for xs e i a
    using that selected_small [of xs] by (auto simp: told_def)
  then show "\<forall>k e i a. k < length es \<and> es ! k = e \<and> associates e = Some (i, a) \<and> 256 \<le> unat i \<and> i \<noteq> - 1 \<longrightarrow>
      told (selected (take k es)) e = []" by blast
qed

definition demo_connect :: "c_int \<Rightarrow> nl_event" where
  "demo_connect idx = \<lparr>ne_cmd = NL80211_CMD_CONNECT,
     ne_find = [3 \<mapsto> demo_attr (enc_int idx), 72 \<mapsto> demo_attr [0, 0], 6 \<mapsto> demo_attr [2, 0, 0, 0, 0, 7]],
     ne_nested = Map.empty, ne_stack = []\<rparr>"

definition demo_on :: nl_event where
  "demo_on = \<lparr>ne_cmd = NL80211_CMD_TESTMODE, ne_find = [69 \<mapsto> demo_attr []],
     ne_nested = [4 \<mapsto> demo_attr (ascii ''wlan0'' @ [0]), 3 \<mapsto> demo_attr [5], 1 \<mapsto> demo_attr [AGPS_EVENT_WIFI_ON]], ne_stack = []\<rparr>"

theorem associations_of_selected_witness:
  "\<exists>s. receive_events [demo_on, demo_connect 5, demo_connect 6] cfg_init = Some s \<and> ifindex s = 5 \<and>
    associations (w_calls s) = [zero_ap_info\<lparr>ap_mac_addr := [2, 0, 0, 0, 0, 7]\<rparr>]"
proof -
  let ?es = "[demo_on, demo_connect 5, demo_connect 6]"
  have five: "le32 (enc_int 5) = 5" "le32 (enc_int 6) = 6" "le16 [0, 0] = 0" by (simp_all add: le16_def le32_enc_int)
  have "\<exists>s. receive_events ?es cfg_init = Some s"
    by (simp add: process_nl_event_def demo_on_def demo_connect_def demo_attr_def testmode_event_def is_wlan_def ascii_def
        cfg_init_def tell_def checkIfIndex_def mlme_event_connect_def five)
  then obtain s where s: "receive_events ?es cfg_init = Some s" ..
  have "selects demo_on = Some 5" "selects (demo_connect i) = None" "associates demo_on = None" for i
    by (simp_all add: selects_def associates_def demo_on_def demo_connect_def demo_attr_def ascii_def)
  moreover have "associates (demo_connect i) = Some (le32 (enc_int i), zero_ap_info\<lparr>ap_mac_addr := [2, 0, 0, 0, 0, 7]\<rparr>)" for i
    by (simp add: associates_def demo_connect_def demo_attr_def five)
  ultimately show ?thesis
    using associations_of_selected [OF s] s by (simp add: selected_def next_selected_def told_def upt_conv_Cons five)
qed

end
