(* ===== verification/Wifi_Events.thy ===== *)
theory Wifi_Events
  imports Prelude
begin

text \<open>
  The event loop of the wifi bridge, \<^verbatim>\<open>mtk/wifi2agps/libwifi2agps/event_loop.c\<close>. The bridge itself adds only
  an event without a time; the functions for timed events are modelled as they are written. A callback is a
  number. Times are 32-bit words.
\<close>

section \<open>State\<close>

record time_value =
  second :: c_int
  usecond :: c_int

record socket_data =
  sock_fd :: int
  sock_cb :: nat
  timeout :: time_value

text \<open>The two lists; \<open>wait_context\<close> is \<open>None\<close> when the pointer to its head dangles.\<close>

record event_loop =
  wait_context :: "socket_data list option"
  wait_context_no_timeout :: "socket_data list"
  max_fd :: int
  gexit :: bool

definition event_loop_init :: event_loop where
  "event_loop_init = \<lparr>wait_context = Some [], wait_context_no_timeout = [], max_fd = 0, gexit = False\<rparr>"

text \<open>The comparison writes to its first argument: the result, and what becomes of it.\<close>

definition time_before :: "time_value \<Rightarrow> time_value \<Rightarrow> bool \<times> time_value" where
  "time_before a b =
     (if second b < second a then (False, a)
      else let a = a\<lparr>second := second b\<rparr>
           in if second a \<noteq> 0 \<and> usecond b < usecond a then (False, a) else (True, a))"

section \<open>Adding and removing\<close>

text \<open>The loop that looks for the place: \<open>tail\<close> is the address of \<open>wait_context\<close>, whose \<open>next\<close> is the head
  of the list, and never moves. \<open>None\<close> is a loop that has not ended after \<open>n\<close> runs.\<close>

fun insert_loop :: "nat \<Rightarrow> socket_data \<Rightarrow> socket_data \<Rightarrow> socket_data list \<Rightarrow> socket_data list option" where
  "insert_loop 0 new h t = None"
| "insert_loop (Suc n) new h t =
     (let (before, tm) = time_before (timeout new) (timeout h); new = new\<lparr>timeout := tm\<rparr>
      in if before then Some (new # h # t) else insert_loop n new h t)"

definition add_timed :: "nat \<Rightarrow> socket_data \<Rightarrow> socket_data list \<Rightarrow> socket_data list option" where
  "add_timed n new l =
     (case l of
        [] \<Rightarrow> Some [new]
      | h # t \<Rightarrow>
          let (before, tm) = time_before (timeout new) (timeout h); new = new\<lparr>timeout := tm\<rparr>
          in if before then Some (new # h # t) else insert_loop n new h t)"

definition event_loop_add_event_timeout :: "nat \<Rightarrow> time_value \<Rightarrow> int \<Rightarrow> nat \<Rightarrow> c_int \<Rightarrow> c_int \<Rightarrow> event_loop \<Rightarrow> event_loop option" where
  "event_loop_add_event_timeout n now sock cb sec usec s =
     (let new = \<lparr>sock_fd = sock, sock_cb = cb, timeout = \<lparr>second = 0, usecond = 0\<rparr>\<rparr>;
          s = s\<lparr>max_fd := max sock (max_fd s)\<rparr>
      in if sec = 0 \<and> usec = 0 then Some (s\<lparr>wait_context_no_timeout := wait_context_no_timeout s @ [new]\<rparr>)
         else do {
           l \<leftarrow> wait_context s;
           l \<leftarrow> add_timed n (new\<lparr>timeout := \<lparr>second = sec + second now, usecond = usec + usecond now\<rparr>\<rparr>) l;
           Some (s\<lparr>wait_context := Some l\<rparr>)
         })"

definition event_loop_add_event :: "int \<Rightarrow> nat \<Rightarrow> event_loop \<Rightarrow> event_loop option" where
  "event_loop_add_event sock cb s = event_loop_add_event_timeout 0 \<lparr>second = 0, usecond = 0\<rparr> sock cb 0 0 s"

text \<open>Whether an event was freed. The head is freed but stays in the list; without a head the code follows a null pointer.\<close>

fun unlink_later :: "int \<Rightarrow> socket_data list \<Rightarrow> bool \<times> socket_data list" where
  "unlink_later sock [] = (False, [])"
| "unlink_later sock (x # xs) = (if sock_fd x = sock then (True, xs) else map_prod id ((#) x) (unlink_later sock xs))"

definition event_loop_remove_event :: "int \<Rightarrow> event_loop \<Rightarrow> (bool \<times> event_loop) option" where
  "event_loop_remove_event sock s =
     (case wait_context s of
        Some (h # t) \<Rightarrow>
          if sock_fd h = sock then Some (True, s\<lparr>wait_context := None\<rparr>)
          else (case unlink_later sock t of (found, t) \<Rightarrow> Some (found, s\<lparr>wait_context := Some (h # t)\<rparr>))
      | _ \<Rightarrow> None)"

definition event_loop_terminate :: "event_loop \<Rightarrow> event_loop" where
  "event_loop_terminate s = s\<lparr>gexit := True\<rparr>"

section \<open>The loop\<close>

text \<open>What one pass finds: the time before \<open>select\<close>, its result and the sockets it leaves in the set, and the time after it.\<close>

record loop_pass =
  lp_now :: time_value
  lp_res :: int
  lp_ready :: "int list"
  lp_then :: time_value

text \<open>The variables of the loop: whether \<open>select\<close> gets a limit, the limit, and the limits it got.\<close>

record loop_vars =
  lv_limited :: bool
  lv_tv :: time_value
  lv_selects :: "time_value option list"

definition remaining :: "time_value \<Rightarrow> time_value \<Rightarrow> time_value" where
  "remaining t now =
     (if usecond t < usecond now
      then \<lparr>second = second t - second now - 1, usecond = usecond t - usecond now + 1000000\<rparr>
      else \<lparr>second = second t - second now, usecond = usecond t - usecond now\<rparr>)"

definition set_limit :: "time_value \<Rightarrow> socket_data list \<Rightarrow> loop_vars \<Rightarrow> socket_data list \<times> loop_vars" where
  "set_limit now l v =
     (case l of
        [] \<Rightarrow> (l, v)
      | h # t \<Rightarrow>
          let (before, tm) = time_before (timeout h) now; l = h\<lparr>timeout := tm\<rparr> # t
          in if before then (l, v\<lparr>lv_limited := False, lv_tv := now\<rparr>)
             else (l, v\<lparr>lv_limited := True, lv_tv := remaining tm now\<rparr>))"

text \<open>The sockets that \<open>FD_ISSET\<close> finds: after an error the set is the one that was given.\<close>

definition fd_isset :: "loop_pass \<Rightarrow> event_loop \<Rightarrow> int \<Rightarrow> bool" where
  "fd_isset p s fd \<longleftrightarrow> (if lp_res p < 0 then True else if lp_res p = 0 then False else fd \<in> set (lp_ready p))"

text \<open>A pass with the callbacks \<open>run\<close> on the state \<open>x\<close> of the program.\<close>

definition loop_body :: "(nat \<Rightarrow> 'x \<Rightarrow> 'x) \<Rightarrow> loop_pass \<Rightarrow> event_loop \<times> loop_vars \<times> 'x \<Rightarrow> (event_loop \<times> loop_vars \<times> 'x) option" where
  "loop_body run p = (\<lambda>(s, v, x). do {
     l \<leftarrow> wait_context s;
     let (l, v) = set_limit (lp_now p) l v;
     let v = v\<lparr>lv_selects := lv_selects v @ [if lv_limited v then Some (lv_tv v) else None]\<rparr>;
     case l of
       h # t \<Rightarrow>
         if lp_res p \<le> 0 then
           let (before, tm) = time_before (timeout h) (lp_then p)
           in if before then Some (s\<lparr>wait_context := Some t\<rparr>, v\<lparr>lv_tv := lp_then p\<rparr>, run (sock_cb h) x)
              else Some (s\<lparr>wait_context := Some (h\<lparr>timeout := tm\<rparr> # t)\<rparr>, v\<lparr>lv_tv := lp_then p\<rparr>, x)
         else Some (s\<lparr>wait_context := Some l\<rparr>, v, fold (\<lambda>d. if fd_isset p s (sock_fd d) then run (sock_cb d) else id) (wait_context_no_timeout s) x)
     | [] \<Rightarrow> Some (s, v, fold (\<lambda>d. if fd_isset p s (sock_fd d) then run (sock_cb d) else id) (wait_context_no_timeout s) x)
   })"

text \<open>The loop, with one element of the list for each pass; the flag says whether it has ended.\<close>

fun event_loop_run :: "(nat \<Rightarrow> 'x \<Rightarrow> 'x) \<Rightarrow> loop_pass list \<Rightarrow> event_loop \<times> loop_vars \<times> 'x \<Rightarrow> (bool \<times> event_loop \<times> loop_vars \<times> 'x) option" where
  "event_loop_run run [] c = Some (False, c)"
| "event_loop_run run (p # ps) c =
     (if gexit (fst c) \<or> wait_context (fst c) = Some [] \<and> wait_context_no_timeout (fst c) = []
      then Some (True, (fst c)\<lparr>wait_context := Some [], wait_context_no_timeout := []\<rparr>, snd c)
      else do { c \<leftarrow> loop_body run p c; event_loop_run run ps c })"

section \<open>Timed events\<close>

lemma time_before_again:
  "time_before a b = (False, a') \<Longrightarrow> time_before a' b = (False, a')"
  by (auto simp: time_before_def Let_def split: if_splits)

lemma insert_loop_stuck: "time_before (timeout new) (timeout h) = (False, timeout new) \<Longrightarrow> insert_loop n new h t = None"
  by (induction n) auto

lemma time_before_iff:
  "fst (time_before a b) \<longleftrightarrow> second a \<le> second b \<and> (second b = 0 \<or> usecond a \<le> usecond b)"
  by (auto simp: time_before_def Let_def simp flip: word_neq_0_conv)

text \<open>A second timed event can only be added before the first one: the function returns when both the
  seconds and the microseconds of the new time are at most those of the head (or the seconds of the head are zero), and
  loops for ever otherwise, also for some earlier times.\<close>

theorem later_timer_hangs:
  assumes "wait_context s = Some (h # t)" "sec \<noteq> 0 \<or> usec \<noteq> 0"
  shows "(\<exists>n. event_loop_add_event_timeout n now sock cb sec usec s \<noteq> None) \<longleftrightarrow>
    sec + second now \<le> second (timeout h) \<and> (second (timeout h) = 0 \<or> usec + usecond now \<le> usecond (timeout h))"
proof -
  define new where "new = \<lparr>sock_fd = sock, sock_cb = cb, timeout = \<lparr>second = sec + second now, usecond = usec + usecond now\<rparr>\<rparr>"
  obtain b tm where b: "time_before (timeout new) (timeout h) = (b, tm)" by fastforce
  have "event_loop_add_event_timeout n now sock cb sec usec s \<noteq> None \<longleftrightarrow> add_timed n new (h # t) \<noteq> None" for n
    using assms by (auto simp: event_loop_add_event_timeout_def new_def split: Option.bind_splits)
  moreover have "add_timed n new (h # t) \<noteq> None \<longleftrightarrow> b" for n
  proof (cases b)
    case False
    then have "insert_loop n (new\<lparr>timeout := tm\<rparr>) h t = None"
      using time_before_again b by (intro insert_loop_stuck) simp
    then show ?thesis using False b by (simp add: add_timed_def)
  qed (simp add: add_timed_def b)
  ultimately show ?thesis using time_before_iff [of "timeout new" "timeout h"] b by (simp add: new_def)
qed

definition demo_loop :: event_loop where
  "demo_loop = event_loop_init\<lparr>wait_context := Some [\<lparr>sock_fd = 3, sock_cb = 0, timeout = \<lparr>second = 105, usecond = 10\<rparr>\<rparr>]\<rparr>"

theorem later_timer_hangs_witness:
  "(\<forall>n. event_loop_add_event_timeout n \<lparr>second = 100, usecond = 20\<rparr> 4 1 2 0 demo_loop = None) \<and>
   (\<exists>n. event_loop_add_event_timeout n \<lparr>second = 100, usecond = 5\<rparr> 4 1 2 0 demo_loop \<noteq> None)"
  using later_timer_hangs [of demo_loop "\<lparr>sock_fd = 3, sock_cb = 0, timeout = \<lparr>second = 105, usecond = 10\<rparr>\<rparr>" "[]" 2 0 "\<lparr>second = 100, usecond = 20\<rparr>" 4 1]
    later_timer_hangs [of demo_loop "\<lparr>sock_fd = 3, sock_cb = 0, timeout = \<lparr>second = 105, usecond = 10\<rparr>\<rparr>" "[]" 2 0 "\<lparr>second = 100, usecond = 5\<rparr>" 4 1]
  by (simp add: demo_loop_def)

text \<open>When the time of the first timed event has come before \<open>select\<close>, \<open>select\<close> gets no limit and the callback is
  not called as long as sockets are ready; only an error of \<open>select\<close> makes the loop call it.\<close>

theorem due_timer_waits:
  assumes "wait_context s = Some (h # t)" "second (timeout h) \<le> second (lp_now p)"
    "usecond (timeout h) \<le> usecond (lp_now p)" "0 < lp_res p"
  shows "\<exists>h' v'. loop_body run p (s, v, x) =
      Some (s\<lparr>wait_context := Some (h' # t)\<rparr>, v', fold (\<lambda>d. if sock_fd d \<in> set (lp_ready p) then run (sock_cb d) else id) (wait_context_no_timeout s) x) \<and>
    lv_selects v' = lv_selects v @ [None] \<and> sock_cb h' = sock_cb h"
proof -
  obtain tm where tm: "time_before (timeout h) (lp_now p) = (True, tm)"
    using time_before_iff [of "timeout h" "lp_now p"] assms(2,3) by (cases "time_before (timeout h) (lp_now p)") simp
  then show ?thesis using assms(1,4)
    by (intro exI [of _ "h\<lparr>timeout := tm\<rparr>"]) (simp add: loop_body_def set_limit_def fd_isset_def)
qed

definition demo_pass_due :: loop_pass where
  "demo_pass_due = \<lparr>lp_now = \<lparr>second = 107, usecond = 30\<rparr>, lp_res = 1, lp_ready = [9], lp_then = \<lparr>second = 107, usecond = 40\<rparr>\<rparr>"

definition demo_vars :: loop_vars where
  "demo_vars = \<lparr>lv_limited = False, lv_tv = \<lparr>second = 0, usecond = 0\<rparr>, lv_selects = []\<rparr>"

theorem due_timer_waits_witness:
  "\<exists>h' v'. loop_body (\<lambda>n x. x @ [n]) demo_pass_due (demo_loop, demo_vars, []) = Some (demo_loop\<lparr>wait_context := Some [h']\<rparr>, v', []) \<and>
    lv_selects v' = [None] \<and> sock_cb h' = 0"
  using due_timer_waits [of demo_loop "\<lparr>sock_fd = 3, sock_cb = 0, timeout = \<lparr>second = 105, usecond = 10\<rparr>\<rparr>" "[]" demo_pass_due
      "\<lambda>n x. x @ [n]" demo_vars "[]"]
  by (simp add: demo_loop_def demo_pass_due_def demo_vars_def event_loop_init_def)

end
