(* ===== verification/Wifi_Bridge.thy ===== *)
theory Wifi_Bridge
  imports Wifi_Properties Wifi_Events
begin

text \<open>
  The start of the wifi bridge (\<open>nl80211_init_nl\<close> and what it calls in \<^verbatim>\<open>nl80211.c\<close>, \<^verbatim>\<open>main.c\<close>), and the whole program: its
  event loop with the events of the driver. What the netlink library returns is a parameter.
\<close>

abbreviation ENOENT :: int where "ENOENT \<equiv> 2"
abbreviation ENOMEM :: int where "ENOMEM \<equiv> 12"

section \<open>Requests\<close>

text \<open>The callbacks that one call of \<open>nl_recvmsgs\<close> makes; \<open>Valid\<close> has the multicast groups of a reply, each with
  its name and number.\<close>

datatype reply = Valid "(c_char list option \<times> int option) list option" | Finish | Ack | Nlerr int

text \<open>\<open>strncmp(a, b, n) == 0\<close> of texts that end within their first \<open>n\<close> bytes or are longer.\<close>

definition strneq :: "nat \<Rightarrow> c_char list \<Rightarrow> c_char list \<Rightarrow> bool" where
  "strneq n a b \<longleftrightarrow> take n (takeWhile (\<lambda>c. c \<noteq> 0) a) = take n (takeWhile (\<lambda>c. c \<noteq> 0) b)"

fun group_loop :: "c_char list \<Rightarrow> (c_char list option \<times> int option) list \<Rightarrow> int \<Rightarrow> int" where
  "group_loop grp [] gid = gid"
| "group_loop grp ((Some name, Some n) # gs) gid = (if strneq (length name) name grp then n else group_loop grp gs gid)"
| "group_loop grp (_ # gs) gid = group_loop grp gs gid"

definition family_handler :: "c_char list \<Rightarrow> (c_char list option \<times> int option) list option \<Rightarrow> int \<Rightarrow> int" where
  "family_handler grp groups gid = (case groups of None \<Rightarrow> gid | Some gs \<Rightarrow> group_loop grp gs gid)"

text \<open>The custom callbacks set \<open>err\<close>, the one for valid messages the number: both after one callback.\<close>

fun on_reply :: "c_char list \<Rightarrow> reply \<Rightarrow> int \<times> int \<Rightarrow> int \<times> int" where
  "on_reply grp (Valid gs) (err, gid) = (err, family_handler grp gs gid)"
| "on_reply grp Finish (err, gid) = (0, gid)"
| "on_reply grp Ack (err, gid) = (0, gid)"
| "on_reply grp (Nlerr e) (err, gid) = (e, gid)"

text \<open>The loop over \<open>nl_recvmsgs\<close>; \<open>None\<close> while it waits for another one.\<close>

fun recv_loop_msgs :: "c_char list \<Rightarrow> reply list list \<Rightarrow> int \<times> int \<Rightarrow> (int \<times> int) option" where
  "recv_loop_msgs grp [] (err, gid) = (if 0 < err then None else Some (err, gid))"
| "recv_loop_msgs grp (r # rs) (err, gid) = (if 0 < err then recv_loop_msgs grp rs (fold (on_reply grp) r (err, gid)) else Some (err, gid))"

text \<open>What a request meets: \<open>nlmsg_alloc\<close>, \<open>nl_cb_clone\<close>, the result of \<open>nl_send_auto_complete\<close>, and the replies.\<close>

record request_env =
  rq_alloc :: bool
  rq_clone :: bool
  rq_sent :: int
  rq_replies :: "reply list list"

definition send_and_recv_msgs :: "request_env \<Rightarrow> c_char list \<Rightarrow> int \<Rightarrow> (int \<times> int) option" where
  "send_and_recv_msgs q grp gid =
     (if \<not> rq_clone q then Some (- ENOMEM, gid)
      else if rq_sent q < 0 then Some (rq_sent q, gid)
      else recv_loop_msgs grp (rq_replies q) (1, gid))"

definition nl_get_multicast_id :: "request_env \<Rightarrow> c_char list \<Rightarrow> int option" where
  "nl_get_multicast_id q grp =
     (if \<not> rq_alloc q then Some (- ENOMEM)
      else do {
        (ret, gid) \<leftarrow> send_and_recv_msgs q grp (- ENOENT);
        Some (if ret = 0 then gid else ret)
      })"

section \<open>The start\<close>

text \<open>What the start meets: \<open>nl_cb_alloc\<close>, whether each handle is allocated and connected, the family (\<open>None\<close> when the cache or the
  name is not found), the two requests with the results of the memberships, and the descriptor of the socket.\<close>

record init_env =
  in_cb :: bool
  in_nl :: bool
  in_family :: "int option"
  in_event :: bool
  in_testmode :: request_env
  in_mlme :: request_env
  in_join :: "int \<Rightarrow> int"
  in_fd :: int

definition android_genl_ctrl_resolve :: "init_env \<Rightarrow> int" where
  "android_genl_ctrl_resolve e = (case in_family e of Some gid \<Rightarrow> gid | None \<Rightarrow> - 1)"

definition join_group :: "init_env \<Rightarrow> request_env \<Rightarrow> c_char list \<Rightarrow> bool option" where
  "join_group e q grp = do {
     ret \<leftarrow> nl_get_multicast_id q grp;
     let ret = (if 0 \<le> ret then in_join e ret else ret);
     Some (0 \<le> ret)
   }"

text \<open>The result and the loop; \<open>None\<close> is a request that still waits. The interface is none, as in \<open>cfg_init\<close>.\<close>

definition nl80211_init_nl :: "init_env \<Rightarrow> event_loop \<Rightarrow> (int \<times> event_loop) option" where
  "nl80211_init_nl e s =
     (if \<not> in_cb e \<or> \<not> in_nl e \<or> android_genl_ctrl_resolve e < 0 \<or> \<not> in_event e then Some (- 1, s)
      else do {
        ok \<leftarrow> join_group e (in_testmode e) (ascii ''testmode'');
        if \<not> ok then Some (- 1, s)
        else do {
          ok \<leftarrow> join_group e (in_mlme e) (ascii ''mlme'');
          if \<not> ok then Some (- 1, s)
          else do { s \<leftarrow> event_loop_add_event (in_fd e) 0 s; Some (0, s) }
        }
      })"

text \<open>The only callback receives a batch of events: those that wait on the socket. The state is the batches to come and the
  configuration, undefined after a fault.\<close>

definition nl80211_event_receive :: "nat \<Rightarrow> nl_event list list \<times> nl80211_cfg option \<Rightarrow> nl_event list list \<times> nl80211_cfg option" where
  "nl80211_event_receive cb = (\<lambda>(bs, c). case bs of [] \<Rightarrow> (bs, c) | b # bs \<Rightarrow> (bs, c \<bind> receive_events b))"

text \<open>\<open>main\<close> for a process that \<open>init\<close> has started.\<close>

definition bridge_main :: "init_env \<Rightarrow> loop_pass list \<Rightarrow> nl_event list list \<Rightarrow> (bool \<times> event_loop \<times> loop_vars \<times> nl_event list list \<times> nl80211_cfg option) option" where
  "bridge_main e ps bs = do {
     (_, s) \<leftarrow> nl80211_init_nl e event_loop_init;
     event_loop_run nl80211_event_receive ps
       (s, \<lparr>lv_limited = False, lv_tv = \<lparr>second = 0, usecond = 0\<rparr>, lv_selects = []\<rparr>, bs, Some cfg_init)
   }"

section \<open>The program\<close>

lemma init_result:
  assumes "nl80211_init_nl e event_loop_init = Some (r, s)"
  shows "r = 0 \<and> wait_context s = Some [] \<and> \<not> gexit s \<and> (\<exists>d. wait_context_no_timeout s = [d] \<and> sock_fd d = in_fd e \<and> sock_cb d = 0) \<or>
    r = - 1 \<and> s = event_loop_init"
  using assms
  by (auto simp: nl80211_init_nl_def event_loop_add_event_def event_loop_add_event_timeout_def event_loop_init_def
      split: if_splits Option.bind_splits)

text \<open>A pass in which \<open>select\<close> finds the socket.\<close>

definition ready_pass :: "init_env \<Rightarrow> loop_pass \<Rightarrow> bool" where
  "ready_pass e p \<longleftrightarrow> 0 < lp_res p \<and> in_fd e \<in> set (lp_ready p)"

lemma receive_events_append: "receive_events (xs @ ys) s = receive_events xs s \<bind> receive_events ys"
  by (induction xs arbitrary: s) (auto split: Option.bind_splits)

lemma ready_run:
  assumes "wait_context s = Some []" "\<not> gexit s" "wait_context_no_timeout s = [d]" "sock_fd d = in_fd e"
    "\<forall>p\<in>set ps. ready_pass e p" "length ps = length bs"
  shows "\<exists>v'. event_loop_run nl80211_event_receive ps (s, v, bs, c) = Some (False, s, v', [], c \<bind> receive_events (concat bs))"
  using assms(5,6)
proof (induction ps arbitrary: bs v c)
  case Nil
  then show ?case by (cases c) auto
next
  case (Cons p ps)
  then obtain b bs' where bs: "bs = b # bs'" by (cases bs) auto
  have "fd_isset p s (sock_fd d)" using Cons.prems(1) assms(4) by (simp add: ready_pass_def fd_isset_def)
  then obtain v1 where "loop_body nl80211_event_receive p (s, v, bs, c) = Some (s, v1, bs', c \<bind> receive_events b)"
    using assms(1,3) by (simp add: loop_body_def set_limit_def nl80211_event_receive_def bs)
  then show ?case using Cons.IH [of bs' v1 "c \<bind> receive_events b"] Cons.prems assms(1-3)
    by (cases c) (auto simp: bs receive_events_append)
qed

text \<open>C10. The bridge handles every batch of events once and in order, and the AGPS daemon gets the calls
  they make in order; when the start fails, the program ends without serving anything.\<close>

theorem bridge_serves:
  assumes "nl80211_init_nl e event_loop_init = Some (r, s)" "ps \<noteq> []" "length ps = length bs"
    "\<forall>p\<in>set ps. ready_pass e p" "receive_events (concat bs) cfg_init = Some c"
  shows "if r = 0
    then (\<exists>s v. bridge_main e ps bs = Some (False, s, v, [], Some c)) \<and>
      (\<exists>ds. map (\<lambda>m. map_option snd (send_wifi2agps m)) (w_calls c) = map Some ds \<and>
        serve (\<lambda>rs t. wifi2agps_handler rs h t) (length ds) (map RxData ds) t =
          map_option (\<lambda>t. (t, [])) (calls (call_wifi2agps h) (w_calls c) t))
    else \<exists>v. bridge_main e ps bs = Some (True, event_loop_init, v, bs, Some cfg_init)"
proof (cases "r = 0")
  case True
  then obtain d where s: "wait_context s = Some []" "\<not> gexit s" "wait_context_no_timeout s = [d]" "sock_fd d = in_fd e"
    using init_result [OF assms(1)] by auto
  define v where "v = \<lparr>lv_limited = False, lv_tv = \<lparr>second = 0, usecond = 0\<rparr>, lv_selects = []\<rparr>"
  obtain v' where "event_loop_run nl80211_event_receive ps (s, v, bs, Some cfg_init) = Some (False, s, v', [], Some c)"
    using ready_run [OF s assms(4,3), of v "Some cfg_init"] assms(5) by auto
  then have "bridge_main e ps bs = Some (False, s, v', [], Some c)" by (simp add: bridge_main_def assms(1) v_def)
  then show ?thesis using True bridge_in_order [OF assms(5), of h t] by simp
next
  case False
  then have "s = event_loop_init" using init_result [OF assms(1)] by auto
  moreover obtain p ps' where "ps = p # ps'" using assms(2) by (cases ps) auto
  ultimately show ?thesis using False assms(1) by (simp add: bridge_main_def event_loop_init_def)
qed

definition demo_init :: "bool \<Rightarrow> init_env" where
  "demo_init ok =
     (let q = (\<lambda>n. \<lparr>rq_alloc = True, rq_clone = True, rq_sent = 0,
         rq_replies = [[Valid (Some [(Some (ascii ''config'' @ [0]), Some 1), (Some (n @ [0]), Some 3)])], [Ack]]\<rparr>)
      in \<lparr>in_cb = True, in_nl = True, in_family = Some 19, in_event = ok, in_testmode = q (ascii ''testmode''),
        in_mlme = q (ascii ''mlme''), in_join = (\<lambda>_. 0), in_fd = 5\<rparr>)"

definition demo_ready :: loop_pass where
  "demo_ready = \<lparr>lp_now = \<lparr>second = 7, usecond = 0\<rparr>, lp_res = 1, lp_ready = [5], lp_then = \<lparr>second = 7, usecond = 0\<rparr>\<rparr>"

theorem bridge_serves_witness:
  "(\<exists>s v c. bridge_main (demo_init True) [demo_ready] [[demo_on]] = Some (False, s, v, [], Some c)) \<and>
   (\<exists>v. bridge_main (demo_init False) [demo_ready] [[demo_on]] = Some (True, event_loop_init, v, [[demo_on]], Some cfg_init))"
proof -
  define c where "c = \<lparr>ifindex = 5, w_calls = [W2A_enabled]\<rparr>"
  have c: "receive_events (concat [[demo_on]]) cfg_init = Some c"
    by (simp add: process_nl_event_def demo_on_def demo_attr_def testmode_event_def is_wlan_def ascii_def cfg_init_def tell_def c_def)
  have rd: "\<forall>p\<in>set [demo_ready]. ready_pass (demo_init b) p" for b
    by (simp add: ready_pass_def demo_ready_def demo_init_def Let_def)
  obtain s where s: "nl80211_init_nl (demo_init True) event_loop_init = Some (0, s)"
    by (simp add: nl80211_init_nl_def demo_init_def Let_def android_genl_ctrl_resolve_def join_group_def nl_get_multicast_id_def
        send_and_recv_msgs_def family_handler_def strneq_def ascii_def event_loop_add_event_def event_loop_add_event_timeout_def)
  have f: "nl80211_init_nl (demo_init False) event_loop_init = Some (- 1, event_loop_init)"
    by (simp add: nl80211_init_nl_def demo_init_def Let_def)
  show ?thesis
    using bridge_serves [OF s _ _ rd c, of heard "[]"] bridge_serves [OF f _ _ rd c, of heard "[]"] by auto
qed

end
