(* ===== verification/Wpa_Statistics.thy ===== *)
theory Wpa_Statistics
  imports Netlink C_Text Mnl2Hal
begin

text \<open>
  The statistics of a station in \<^verbatim>\<open>wpa_supplicant_8_lib/mediatek_driver_cmd_nl80211.c\<close>: the reply of the driver,
  attribute by attribute, and the text that is made of it.
\<close>

section \<open>The reply\<close>

text \<open>The structure, with arrays as their bytes; \<open>tx_rate\<close> is twice the \<open>double\<close> of the structure, which is half of a
  16-bit number.\<close>

record sta_statistics =
  st_version :: c_char
  st_addr :: "c_char list"
  st_flag :: c_int
  link_score :: c_int
  st_per :: c_char
  st_rssi :: int
  phy_mode :: c_int
  tx_rate :: nat
  tx_total_cnt :: c_int
  enqueue_total_cnt :: c_int
  dequeue_total_cnt :: c_int
  enqueue_sta_total_cnt :: c_int
  dequeue_sta_total_cnt :: c_int
  tx_exc_threshold_cnt :: c_int
  tx_avg_process_time :: c_int
  tx_max_process_time :: c_int
  tx_avg_hif_process_time :: c_int
  tx_max_hif_process_time :: c_int
  tx_fail_cnt :: c_int
  tx_timeout_cnt :: c_int
  tx_avg_air_time :: c_int
  tc_buf_full_cnt :: "c_char list"
  tc_que_len :: "c_char list"
  tc_back_count :: "c_char list"
  dequeue_no_tc_res :: "c_char list"
  tc_wanted_res :: "c_char list"
  tc_used_res :: "c_char list"
  isr_cnt :: c_int
  isr_pass_cnt :: c_int
  isr_task_cnt :: c_int
  isr_ab_cnt :: c_int
  isr_sw_cnt :: c_int
  isr_tx_cnt :: c_int
  isr_rx_cnt :: c_int
  tc_avg_que_len :: "c_char list"
  tc_cur_que_len :: "c_char list"
  st_reserved :: "c_char list"

definition zero_statistics :: sta_statistics where
  "zero_statistics = \<lparr>
     st_version = 0, st_addr = replicate 6 0, st_flag = 0, link_score = 0, st_per = 0, st_rssi = 0, phy_mode = 0,
     tx_rate = 0, tx_total_cnt = 0, enqueue_total_cnt = 0, dequeue_total_cnt = 0, enqueue_sta_total_cnt = 0,
     dequeue_sta_total_cnt = 0, tx_exc_threshold_cnt = 0, tx_avg_process_time = 0, tx_max_process_time = 0,
     tx_avg_hif_process_time = 0, tx_max_hif_process_time = 0, tx_fail_cnt = 0, tx_timeout_cnt = 0,
     tx_avg_air_time = 0, tc_buf_full_cnt = replicate 16 0, tc_que_len = replicate 16 0,
     tc_back_count = replicate 16 0, dequeue_no_tc_res = replicate 16 0, tc_wanted_res = replicate 16 0,
     tc_used_res = replicate 16 0, isr_cnt = 0, isr_pass_cnt = 0, isr_task_cnt = 0, isr_ab_cnt = 0, isr_sw_cnt = 0,
     isr_tx_cnt = 0, isr_rx_cnt = 0, tc_avg_que_len = replicate 16 0, tc_cur_que_len = replicate 16 0,
     st_reserved = replicate 32 0\<rparr>"

abbreviation STA_STATISTICS_VERSION :: nat where "STA_STATISTICS_VERSION \<equiv> 1"
abbreviation STA_STATISTICS_MAC :: nat where "STA_STATISTICS_MAC \<equiv> 2"
abbreviation STA_STATISTICS_LINK_SCORE :: nat where "STA_STATISTICS_LINK_SCORE \<equiv> 3"
abbreviation STA_STATISTICS_FLAG :: nat where "STA_STATISTICS_FLAG \<equiv> 4"
abbreviation STA_STATISTICS_PER :: nat where "STA_STATISTICS_PER \<equiv> 5"
abbreviation STA_STATISTICS_RSSI :: nat where "STA_STATISTICS_RSSI \<equiv> 6"
abbreviation STA_STATISTICS_PHY_MODE :: nat where "STA_STATISTICS_PHY_MODE \<equiv> 7"
abbreviation STA_STATISTICS_TX_RATE :: nat where "STA_STATISTICS_TX_RATE \<equiv> 8"
abbreviation STA_STATISTICS_TOTAL_CNT :: nat where "STA_STATISTICS_TOTAL_CNT \<equiv> 9"
abbreviation STA_STATISTICS_THRESHOLD_CNT :: nat where "STA_STATISTICS_THRESHOLD_CNT \<equiv> 10"
abbreviation STA_STATISTICS_AVG_PROCESS_TIME :: nat where "STA_STATISTICS_AVG_PROCESS_TIME \<equiv> 11"
abbreviation STA_STATISTICS_MAX_PROCESS_TIME :: nat where "STA_STATISTICS_MAX_PROCESS_TIME \<equiv> 12"
abbreviation STA_STATISTICS_AVG_HIF_PROCESS_TIME :: nat where "STA_STATISTICS_AVG_HIF_PROCESS_TIME \<equiv> 13"
abbreviation STA_STATISTICS_MAX_HIF_PROCESS_TIME :: nat where "STA_STATISTICS_MAX_HIF_PROCESS_TIME \<equiv> 14"
abbreviation STA_STATISTICS_FAIL_CNT :: nat where "STA_STATISTICS_FAIL_CNT \<equiv> 15"
abbreviation STA_STATISTICS_TIMEOUT_CNT :: nat where "STA_STATISTICS_TIMEOUT_CNT \<equiv> 16"
abbreviation STA_STATISTICS_AVG_AIR_TIME :: nat where "STA_STATISTICS_AVG_AIR_TIME \<equiv> 17"
abbreviation STA_STATISTICS_TC_EMPTY_CNT_ARRAY :: nat where "STA_STATISTICS_TC_EMPTY_CNT_ARRAY \<equiv> 18"
abbreviation STA_STATISTICS_TC_QUE_LEN_ARRAY :: nat where "STA_STATISTICS_TC_QUE_LEN_ARRAY \<equiv> 19"
abbreviation STA_STATISTICS_TC_AVG_QUE_LEN_ARRAY :: nat where "STA_STATISTICS_TC_AVG_QUE_LEN_ARRAY \<equiv> 20"
abbreviation STA_STATISTICS_TC_CUR_QUE_LEN_ARRAY :: nat where "STA_STATISTICS_TC_CUR_QUE_LEN_ARRAY \<equiv> 21"
abbreviation STA_STATISTICS_ENQUEUE :: nat where "STA_STATISTICS_ENQUEUE \<equiv> 22"
abbreviation STA_STATISTICS_STA_ENQUEUE :: nat where "STA_STATISTICS_STA_ENQUEUE \<equiv> 23"
abbreviation STA_STATISTICS_DEQUEUE :: nat where "STA_STATISTICS_DEQUEUE \<equiv> 24"
abbreviation STA_STATISTICS_STA_DEQUEUE :: nat where "STA_STATISTICS_STA_DEQUEUE \<equiv> 25"
abbreviation STA_STATISTICS_RB_ARRAY :: nat where "STA_STATISTICS_RB_ARRAY \<equiv> 26"
abbreviation STA_STATISTICS_NO_TC_ARRAY :: nat where "STA_STATISTICS_NO_TC_ARRAY \<equiv> 27"
abbreviation STA_STATISTICS_TC_USED_ARRAY :: nat where "STA_STATISTICS_TC_USED_ARRAY \<equiv> 28"
abbreviation STA_STATISTICS_TC_WANTED_ARRAY :: nat where "STA_STATISTICS_TC_WANTED_ARRAY \<equiv> 29"
abbreviation STA_STATISTICS_IRQ_ISR_CNT :: nat where "STA_STATISTICS_IRQ_ISR_CNT \<equiv> 30"
abbreviation STA_STATISTICS_IRQ_ISR_PASS_CNT :: nat where "STA_STATISTICS_IRQ_ISR_PASS_CNT \<equiv> 31"
abbreviation STA_STATISTICS_IRQ_TASK_CNT :: nat where "STA_STATISTICS_IRQ_TASK_CNT \<equiv> 32"
abbreviation STA_STATISTICS_IRQ_AB_CNT :: nat where "STA_STATISTICS_IRQ_AB_CNT \<equiv> 33"
abbreviation STA_STATISTICS_IRQ_SW_CNT :: nat where "STA_STATISTICS_IRQ_SW_CNT \<equiv> 34"
abbreviation STA_STATISTICS_IRQ_TX_CNT :: nat where "STA_STATISTICS_IRQ_TX_CNT \<equiv> 35"
abbreviation STA_STATISTICS_IRQ_RX_CNT :: nat where "STA_STATISTICS_IRQ_RX_CNT \<equiv> 36"
abbreviation STA_STATISTICS_RESERVED_ARRAY :: nat where "STA_STATISTICS_RESERVED_ARRAY \<equiv> 37"
abbreviation STA_STATISTICS_NUM :: nat where "STA_STATISTICS_NUM \<equiv> 38"

text \<open>\<open>nla_memcpy\<close> copies at most the payload.\<close>

definition nla_memcpy :: "c_char list \<Rightarrow> nlattr \<Rightarrow> nat \<Rightarrow> c_char list" where
  "nla_memcpy old a n = (let d = take n (nla_data a) in d @ drop (length d) old)"

definition set_statistic :: "nat \<Rightarrow> nlattr \<Rightarrow> sta_statistics \<Rightarrow> sta_statistics" where
  "set_statistic i a s =
     (if i = STA_STATISTICS_VERSION then s\<lparr>st_version := nla_u8 a\<rparr>
      else if i = STA_STATISTICS_MAC then s\<lparr>st_addr := nla_memcpy (st_addr s) a 6\<rparr>
      else if i = STA_STATISTICS_LINK_SCORE then s\<lparr>link_score := nla_u32 a\<rparr>
      else if i = STA_STATISTICS_FLAG then s\<lparr>st_flag := nla_u32 a\<rparr>
      else if i = STA_STATISTICS_PER then s\<lparr>st_per := nla_u8 a\<rparr>
      else if i = STA_STATISTICS_RSSI then s\<lparr>st_rssi := (int (unat (nla_u8 a)) - 220) sdiv 2\<rparr>
      else if i = STA_STATISTICS_PHY_MODE then s\<lparr>phy_mode := nla_u32 a\<rparr>
      else if i = STA_STATISTICS_TX_RATE then s\<lparr>tx_rate := unat (nla_u16 a)\<rparr>
      else if i = STA_STATISTICS_FAIL_CNT then s\<lparr>tx_fail_cnt := nla_u32 a\<rparr>
      else if i = STA_STATISTICS_TIMEOUT_CNT then s\<lparr>tx_timeout_cnt := nla_u32 a\<rparr>
      else if i = STA_STATISTICS_AVG_AIR_TIME then s\<lparr>tx_avg_air_time := nla_u32 a\<rparr>
      else if i = STA_STATISTICS_TOTAL_CNT then s\<lparr>tx_total_cnt := nla_u32 a\<rparr>
      else if i = STA_STATISTICS_THRESHOLD_CNT then s\<lparr>tx_exc_threshold_cnt := nla_u32 a\<rparr>
      else if i = STA_STATISTICS_AVG_PROCESS_TIME then s\<lparr>tx_avg_process_time := nla_u32 a\<rparr>
      else if i = STA_STATISTICS_MAX_PROCESS_TIME then s\<lparr>tx_max_process_time := nla_u32 a\<rparr>
      else if i = STA_STATISTICS_AVG_HIF_PROCESS_TIME then s\<lparr>tx_avg_hif_process_time := nla_u32 a\<rparr>
      else if i = STA_STATISTICS_MAX_HIF_PROCESS_TIME then s\<lparr>tx_max_hif_process_time := nla_u32 a\<rparr>
      else if i = STA_STATISTICS_TC_EMPTY_CNT_ARRAY then s\<lparr>tc_buf_full_cnt := nla_memcpy (tc_buf_full_cnt s) a 16\<rparr>
      else if i = STA_STATISTICS_TC_QUE_LEN_ARRAY then s\<lparr>tc_que_len := nla_memcpy (tc_que_len s) a 16\<rparr>
      else if i = STA_STATISTICS_TC_AVG_QUE_LEN_ARRAY then s\<lparr>tc_avg_que_len := nla_memcpy (tc_avg_que_len s) a 16\<rparr>
      else if i = STA_STATISTICS_TC_CUR_QUE_LEN_ARRAY then s\<lparr>tc_cur_que_len := nla_memcpy (tc_cur_que_len s) a 16\<rparr>
      else if i = STA_STATISTICS_ENQUEUE then s\<lparr>enqueue_total_cnt := nla_u32 a\<rparr>
      else if i = STA_STATISTICS_DEQUEUE then s\<lparr>dequeue_total_cnt := nla_u32 a\<rparr>
      else if i = STA_STATISTICS_STA_ENQUEUE then s\<lparr>enqueue_sta_total_cnt := nla_u32 a\<rparr>
      else if i = STA_STATISTICS_STA_DEQUEUE then s\<lparr>dequeue_sta_total_cnt := nla_u32 a\<rparr>
      else if i = STA_STATISTICS_IRQ_ISR_CNT then s\<lparr>isr_cnt := nla_u32 a\<rparr>
      else if i = STA_STATISTICS_IRQ_ISR_PASS_CNT then s\<lparr>isr_pass_cnt := nla_u32 a\<rparr>
      else if i = STA_STATISTICS_IRQ_TASK_CNT then s\<lparr>isr_task_cnt := nla_u32 a\<rparr>
      else if i = STA_STATISTICS_IRQ_AB_CNT then s\<lparr>isr_ab_cnt := nla_u32 a\<rparr>
      else if i = STA_STATISTICS_IRQ_SW_CNT then s\<lparr>isr_sw_cnt := nla_u32 a\<rparr>
      else if i = STA_STATISTICS_IRQ_TX_CNT then s\<lparr>isr_tx_cnt := nla_u32 a\<rparr>
      else if i = STA_STATISTICS_IRQ_RX_CNT then s\<lparr>isr_rx_cnt := nla_u32 a\<rparr>
      else if i = STA_STATISTICS_NO_TC_ARRAY then s\<lparr>dequeue_no_tc_res := nla_memcpy (dequeue_no_tc_res s) a 16\<rparr>
      else if i = STA_STATISTICS_TC_USED_ARRAY then s\<lparr>tc_used_res := nla_memcpy (tc_used_res s) a 16\<rparr>
      else if i = STA_STATISTICS_TC_WANTED_ARRAY then s\<lparr>tc_wanted_res := nla_memcpy (tc_wanted_res s) a 16\<rparr>
      else if i = STA_STATISTICS_RB_ARRAY then s\<lparr>tc_back_count := nla_memcpy (tc_back_count s) a 16\<rparr>
      else if i = STA_STATISTICS_RESERVED_ARRAY then s\<lparr>st_reserved := nla_memcpy (st_reserved s) a 32\<rparr>
      else s)"

text \<open>\<open>None\<close> is a reply without test data or with attributes that the policy refuses.\<close>

definition testmode_sta_statistics_handler :: "(nat \<Rightarrow> nlattr option) option \<Rightarrow> sta_statistics \<Rightarrow> sta_statistics" where
  "testmode_sta_statistics_handler reply s =
     (case reply of
        None \<Rightarrow> s
      | Some sinfo \<Rightarrow> fold (\<lambda>i s. case sinfo i of Some a \<Rightarrow> set_statistic i a s | None \<Rightarrow> s) [1..<STA_STATISTICS_NUM] s)"

section \<open>The text\<close>

definition hex_letter :: "bool \<Rightarrow> nat \<Rightarrow> c_char" where
  "hex_letter upper n = (if n < 10 then 48 + word_of_nat n else (if upper then 55 else 87) + word_of_nat n)"

text \<open>\<open>%02x\<close>, \<open>%02X\<close> and \<open>%08X\<close> of numbers of that many digits.\<close>

definition hex_text :: "bool \<Rightarrow> nat \<Rightarrow> nat \<Rightarrow> c_char list" where
  "hex_text upper w v = map (\<lambda>i. hex_letter upper (v div 16 ^ (w - 1 - i) mod 16)) [0..<w]"

text \<open>The format \<open>MACSTR\<close>.\<close>

fun mac_text :: "c_char list \<Rightarrow> c_char list" where
  "mac_text [] = []"
| "mac_text [b] = hex_text False 2 (unat b)"
| "mac_text (b # bs) = hex_text False 2 (unat b) @ ascii '':'' @ mac_text bs"

text \<open>\<open>%d\<close> of an unsigned number, and of the four counters of an array.\<close>

definition show_u32 :: "c_int \<Rightarrow> c_char list" where
  "show_u32 v = show_int (sint v)"

definition counter :: "c_char list \<Rightarrow> nat \<Rightarrow> c_char list" where
  "counter d k = show_u32 (le32 (drop (4 * k) d))"

definition counters :: "string \<Rightarrow> c_char list \<Rightarrow> c_char list" where
  "counters name d = ascii name @ ascii ''='' @ counter d 0 @ ascii '':'' @ counter d 1 @ ascii '':'' @ counter d 2 @ ascii '':'' @ counter d 3 @ [10]"

definition line :: "string \<Rightarrow> c_char list \<Rightarrow> c_char list" where
  "line name v = ascii name @ ascii ''='' @ v @ [10]"

text \<open>What a call of \<open>os_snprintf\<close> prints with the argument \<open>reserved[i]\<close>; \<open>None\<close> is an argument behind the array.\<close>

definition reserved_call :: "c_char list \<Rightarrow> nat \<Rightarrow> (c_char \<Rightarrow> c_char list) \<Rightarrow> c_char list option" where
  "reserved_call d i show = (if i < length d then Some (show (d ! i)) else None)"

text \<open>Sixteen bytes from \<open>i\<close> on, with a space after every fourth.\<close>

definition reserved_parts :: "nat \<Rightarrow> c_char list \<Rightarrow> c_char list option list" where
  "reserved_parts i d = concat (map (\<lambda>k. reserved_call d k (\<lambda>b. hex_text True 2 (unat b)) #
     (if (k + 1) mod 4 = 0 then [reserved_call d k (\<lambda>_. ascii '' '')] else [])) [i..<i + 16])"

text \<open>What each call before the bytes of \<open>reserved\<close> prints.\<close>

definition statistics_head :: "sta_statistics \<Rightarrow> c_char list list" where
  "statistics_head s =
     [line ''sta_addr'' (mac_text (st_addr s)), line ''link_score'' (show_u32 (link_score s)), line ''per'' (show_nat (unat (st_per s))),
      line ''rssi'' (show_int (st_rssi s)), line ''phy'' (ascii ''0x'' @ hex_text True 8 (unat (phy_mode s))),
      line ''rate'' (show_nat (tx_rate s div 2) @ ascii (if even (tx_rate s) then ''.0'' else ''.5'')),
      line ''total_cnt'' (show_u32 (tx_total_cnt s)), line ''threshold_cnt'' (show_u32 (tx_exc_threshold_cnt s)),
      line ''fail_cnt'' (show_u32 (tx_fail_cnt s)), line ''timeout_cnt'' (show_u32 (tx_timeout_cnt s)),
      line ''apt'' (show_u32 (tx_avg_process_time s)), line ''aat'' (show_u32 (tx_avg_air_time s)),
      counters ''TC_buf_full_cnt'' (tc_buf_full_cnt s), counters ''TC_sta_que_len'' (tc_que_len s),
      counters ''TC_avg_que_len'' (tc_avg_que_len s), counters ''TC_cur_que_len'' (tc_cur_que_len s),
      line ''flag'' (ascii ''0x'' @ hex_text True 8 (unat (st_flag s))), ascii ''reserved0='']"

text \<open>What all calls print. The newline after each half of \<open>reserved\<close> has as its argument, which the format does not use, the
  element after the half; after the second half that is \<open>reserved[32]\<close>.\<close>

definition statistics_parts :: "sta_statistics \<Rightarrow> c_char list option list" where
  "statistics_parts s = map Some (statistics_head s) @
     reserved_parts 0 (st_reserved s) @ [reserved_call (st_reserved s) 16 (\<lambda>_. [10]), Some (ascii ''reserved1='')] @
     reserved_parts 16 (st_reserved s) @ [reserved_call (st_reserved s) 32 (\<lambda>_. [10]), Some (ascii ''===='' @ [10])]"

text \<open>The calls one after the other, until one does not fit: whether all did, and the text. A call that is reached evaluates its
  argument.\<close>

fun put_parts :: "nat \<Rightarrow> c_char list option list \<Rightarrow> (bool \<times> c_char list) option" where
  "put_parts room [] = Some (True, [])"
| "put_parts room (None # ps) = None"
| "put_parts room (Some p # ps) =
     (if room \<le> length p then Some (False, take (room - 1) p)
      else map_option (\<lambda>(ok, t). (ok, p @ t)) (put_parts (room - length p) ps))"

definition print_sta_statistics :: "sta_statistics \<Rightarrow> nat \<Rightarrow> (int \<times> c_char list) option" where
  "print_sta_statistics s buflen =
     map_option (\<lambda>(ok, t). (if ok then int (length t) else 0, t)) (put_parts buflen (statistics_parts s))"

text \<open>The calls before the first one with a bad argument do what one would: the text is cut at the end of the buffer.\<close>

lemma put_parts_eq:
  "0 < room \<or> ps \<noteq> [] \<Longrightarrow>
   put_parts room (map Some ps @ None # qs) =
     (if length (concat ps) < room then None else Some (False, take (room - 1) (concat ps)))"
proof (induction ps arbitrary: room)
  case (Cons p ps)
  then show ?case by (cases "room \<le> length p") (auto simp: not_le)
qed simp

text \<open>The text of half of \<open>reserved\<close>, in groups of four bytes.\<close>

definition reserved_text :: "c_char list \<Rightarrow> c_char list" where
  "reserved_text d = concat (map (\<lambda>k. concat (map (\<lambda>b. hex_text True 2 (unat b)) (take 4 (drop (4 * k) d))) @ ascii '' '') [0..<4])"

lemma numbers:
  "[0..<4] = [0, 1, 2, 3]"
  "[0..<16] = [0, 1, 2, 3, 4, 5, 6, 7, 8, 9, 10, 11, 12, 13, 14, 15]"
  "[16..<32] = [16, 17, 18, 19, 20, 21, 22, 23, 24, 25, 26, 27, 28, 29, 30, 31]"
  "[0..<32] = [0, 1, 2, 3, 4, 5, 6, 7, 8, 9, 10, 11, 12, 13, 14, 15, 16, 17, 18, 19, 20, 21, 22, 23, 24, 25, 26, 27, 28, 29, 30, 31]"
  by code_simp+

lemma reserved_parts_map:
  assumes "d = map f [0..<32]"
  shows "reserved_parts 0 d = map Some (concat (map (\<lambda>k. hex_text True 2 (unat (f k)) # (if (k + 1) mod 4 = 0 then [ascii '' ''] else [])) [0..<16]))"
    "reserved_parts 16 d = map Some (concat (map (\<lambda>k. hex_text True 2 (unat (f k)) # (if (k + 1) mod 4 = 0 then [ascii '' ''] else [])) [16..<32]))"
    "reserved_text (take 16 d) = concat (concat (map (\<lambda>k. hex_text True 2 (unat (f k)) # (if (k + 1) mod 4 = 0 then [ascii '' ''] else [])) [0..<16]))"
    "reserved_text (drop 16 d) = concat (concat (map (\<lambda>k. hex_text True 2 (unat (f k)) # (if (k + 1) mod 4 = 0 then [ascii '' ''] else [])) [16..<32]))"
  by (simp_all add: assms reserved_parts_def reserved_call_def reserved_text_def numbers)

lemma reserved_parts_eq:
  assumes "length d = 32"
  obtains ps qs where "reserved_parts 0 d = map Some ps" "concat ps = reserved_text (take 16 d)"
    "reserved_parts 16 d = map Some qs" "concat qs = reserved_text (drop 16 d)"
    "reserved_call d 16 f = Some (f (d ! 16))" "reserved_call d 32 f = None"
proof -
  have "d = map (\<lambda>k. d ! k) [0..<32]" using map_nth [of d] assms by simp
  note m = reserved_parts_map [OF this]
  show ?thesis
    by (rule that [OF m(1) m(3) [symmetric] m(2) m(4) [symmetric]]) (simp_all add: reserved_call_def assms)
qed

end
