(* ===== verification/Wpa_Commands.thy ===== *)
theory Wpa_Commands
  imports Wpa_Statistics Struct_Layout "HOL-Library.Sublist"
begin

text \<open>
  The private commands of the wifi driver, \<open>wpa_driver_nl80211_driver_cmd\<close> in
  \<^verbatim>\<open>wpa_supplicant_8_lib/mediatek_driver_cmd_nl80211.c\<close>, with the options that the makefile sets. The functions of
  wpa_supplicant, the kernel and the netlink library are a parameter. \<open>None\<close> is an access outside an object or through an
  uninitialised pointer.
\<close>

abbreviation ETH_ALEN :: nat where "ETH_ALEN \<equiv> 6"
abbreviation PRIV_CMD_SIZE :: nat where "PRIV_CMD_SIZE \<equiv> 512"

section \<open>State\<close>

text \<open>What the command sends: a test mode message, the text of the country request, the flag of the interface, a deauthentication, a
  message to the framework, a changed channel list, a private request.\<close>

datatype wpa_effect = Testmode "c_char list" | Country_ioctl "c_char list" | Iface_flags bool | Deauthenticate
  | Ctrl_event "c_char list" | Channel_list "c_char list" | Private_ioctl "c_char list"

text \<open>The counter of errors, the text in the buffer of the answer, and the effects.\<close>

record wpa_state =
  drv_errors :: nat
  wpa_buf :: "c_char list"
  wpa_out :: "wpa_effect list"

text \<open>What a command meets: the pointers that are not null, the name of the interface, whether it is associated, its address,
  \<open>hwaddr_aton\<close>, the allocation and filling of a test mode message, the result of sending it with the attributes of the
  reply, the results of the system calls,
  \<open>DRV_NUMBER_SEQUENTIAL_ERRORS\<close>, and of the stack the pointer to the statistics and the padding of a
  structure.\<close>

record wpa_env =
  wv_drv :: bool
  wv_ctx :: bool
  wv_conf :: bool
  wv_ifname :: "c_char list"
  wv_associated :: bool
  wv_own_addr :: "c_char list"
  wv_hwaddr_aton :: "c_char list \<Rightarrow> c_char list option"
  wv_alloc :: bool
  wv_put :: bool
  wv_reply :: "int \<times> (nat \<Rightarrow> nlattr option) option"
  wv_socket :: bool
  wv_country :: int
  wv_flags :: int
  wv_deauth :: int
  wv_private :: int
  wv_max_errors :: nat
  wv_ptr :: c_int
  wv_padding :: "c_char list"

definition wpa_emit :: "wpa_effect \<Rightarrow> wpa_state \<Rightarrow> wpa_state" where
  "wpa_emit x s = s\<lparr>wpa_out := wpa_out s @ [x]\<rparr>"

text \<open>\<open>snprintf(buf, buf_len, ...)\<close> of a text.\<close>

definition print_answer :: "nat \<Rightarrow> c_char list \<Rightarrow> wpa_state \<Rightarrow> int \<times> wpa_state" where
  "print_answer buf_len t s = (int (length t), if buf_len = 0 then s else s\<lparr>wpa_buf := take (buf_len - 1) t\<rparr>)"

section \<open>Numbers in commands\<close>

text \<open>\<open>strtol\<close> with a 32-bit \<open>long\<close>, for a base of 16 or, with 0, the base that the text has; \<open>None\<close> when there are no digits, so
  that \<open>endp\<close> is the text.\<close>

definition strtol :: "nat \<Rightarrow> c_char list \<Rightarrow> int option" where
  "strtol base str =
     (let (neg, cs) = read_sign (dropWhile is_space str);
          hex = take 2 (map to_lower cs) = [48, 120] \<and> 2 < length cs \<and> is_hex (cs ! 2);
          b = (if base = 0 then if hex then 16 else if take 1 cs = [48] then 8 else 10 else base);
          cs = (if hex \<and> b = 16 then drop 2 cs else cs);
          ds = takeWhile (\<lambda>c. is_hex c \<and> digit c < b) cs;
          v = (if neg then - int (digits_val b ds) else int (digits_val b ds))
      in if ds = [] then None else Some (max (- (2 ^ 31)) (min (2 ^ 31 - 1) v)))"

section \<open>Test mode messages\<close>

abbreviation TESTMODE_SW_CMD :: c_int where "TESTMODE_SW_CMD \<equiv> 1"
abbreviation TESTMODE_STATISTICS :: c_int where "TESTMODE_STATISTICS \<equiv> 0x10"
abbreviation TESTMODE_SUSPEND :: c_int where "TESTMODE_SUSPEND \<equiv> 101"
abbreviation TESTMODE_STR_CMD :: c_int where "TESTMODE_STR_CMD \<equiv> 102"
abbreviation TESTMODE_RXFILTER :: c_int where "TESTMODE_RXFILTER \<equiv> 103"
abbreviation ENOBUFS :: int where "ENOBUFS \<equiv> 105"

text \<open>\<open>params.hdr.index | (0x01 << 24)\<close>, and the mask \<open>BITS(0, 23)\<close>.\<close>

definition versioned :: "c_int \<Rightarrow> c_int" where
  "versioned index = index OR push_bit 24 1"

definition index_of_data :: "c_char list \<Rightarrow> c_int" where
  "index_of_data data = le32 data AND 0xFFFFFF"

text \<open>The result, the statistics behind the pointer in the message, and the state.\<close>

definition wpa_driver_nl80211_testmode :: "wpa_env \<Rightarrow> c_char list \<Rightarrow> sta_statistics \<Rightarrow> wpa_state \<Rightarrow> int \<times> sta_statistics \<times> wpa_state" where
  "wpa_driver_nl80211_testmode e data stats s =
     (if \<not> wv_alloc e then (- 1, stats, s)
      else if \<not> wv_put e then (- ENOBUFS, stats, s)
      else if index_of_data data = TESTMODE_STATISTICS
      then (fst (wv_reply e), testmode_sta_statistics_handler (snd (wv_reply e)) stats, wpa_emit (Testmode data) s)
      else (fst (wv_reply e), stats, wpa_emit (Testmode data) s))"

definition testmode :: "wpa_env \<Rightarrow> c_char list \<Rightarrow> wpa_state \<Rightarrow> int \<times> wpa_state" where
  "testmode e data s = (case wpa_driver_nl80211_testmode e data zero_statistics s of (r, _, s) \<Rightarrow> (r, s))"

text \<open>The same for the first \<open>n\<close> bytes of an array, which \<open>NLA_PUT\<close> reads when there is a message and room in it.\<close>

definition testmode_array :: "wpa_env \<Rightarrow> c_char list \<Rightarrow> nat \<Rightarrow> wpa_state \<Rightarrow> (int \<times> wpa_state) option" where
  "testmode_array e a n s =
     (if wv_alloc e \<and> wv_put e \<and> length a < n then None else Some (testmode e (take n a) s))"

definition sw_cmd_data :: "bool \<Rightarrow> c_int \<Rightarrow> c_int \<Rightarrow> c_char list" where
  "sw_cmd_data st adr dat = struct_bytes 4 [V32 (versioned TESTMODE_SW_CMD), V32 20, V8 (if st then 1 else 0), V32 adr, V32 dat]"

definition wpa_driver_nl80211_driver_sw_cmd :: "wpa_env \<Rightarrow> bool \<Rightarrow> c_int \<Rightarrow> c_int \<Rightarrow> wpa_state \<Rightarrow> int \<times> wpa_state" where
  "wpa_driver_nl80211_driver_sw_cmd e st adr dat s = (0, snd (testmode e (sw_cmd_data st adr dat) s))"

section \<open>Statistics of a station\<close>

definition statistics_data :: "c_char list \<Rightarrow> c_int \<Rightarrow> c_char list" where
  "statistics_data addr ptr =
     struct_bytes 4 ([V32 (versioned TESTMODE_STATISTICS), V32 28, V32 0, V32 0] @ map V8 addr @ [V32 ptr])"

definition wpas_get_sta_statistics :: "wpa_env \<Rightarrow> c_char list \<Rightarrow> wpa_state \<Rightarrow> int \<times> sta_statistics \<times> wpa_state" where
  "wpas_get_sta_statistics e sta_addr s = wpa_driver_nl80211_testmode e (statistics_data sta_addr (wv_ptr e)) zero_statistics s"

text \<open>The first argument says whether \<open>wpa_s\<close> is initialised.\<close>

definition wpa_driver_get_sta_statistics :: "bool \<Rightarrow> wpa_env \<Rightarrow> c_char list \<Rightarrow> nat \<Rightarrow> wpa_state \<Rightarrow> (int \<times> wpa_state) option" where
  "wpa_driver_get_sta_statistics ok e addr buflen s =
     (case wv_hwaddr_aton e addr of
        None \<Rightarrow> Some (- 1, s)
      | Some sta_addr \<Rightarrow>
          if \<not> ok then None
          else case wpas_get_sta_statistics e sta_addr s of (r, stats, s) \<Rightarrow>
            if r < 0 then Some (- 1, s)
            else do {
              (len, t) \<leftarrow> print_sta_statistics stats buflen;
              Some (len, if buflen = 0 then s else s\<lparr>wpa_buf := t\<rparr>)
            })"

section \<open>The country\<close>

text \<open>The array for the request has 11 bytes.\<close>

definition wpa_driver_mediatek_set_country :: "wpa_env \<Rightarrow> c_char list \<Rightarrow> wpa_state \<Rightarrow> (int \<times> wpa_state) option" where
  "wpa_driver_mediatek_set_country e alpha2_arg s =
     (if \<not> wv_socket e then Some (- 1, s)
      else if 11 \<le> length (ascii ''COUNTRY '' @ alpha2_arg) then None
      else Some (if wv_country e < 0 then wv_country e else 0, wpa_emit (Country_ioctl (ascii ''COUNTRY '' @ alpha2_arg)) s))"

definition wpa_driver_notify_country_change :: "bool \<Rightarrow> c_char list \<Rightarrow> wpa_state \<Rightarrow> wpa_state option" where
  "wpa_driver_notify_country_change ok cmd s =
     (if \<not> ok then None else Some (wpa_emit (Channel_list (if 9 < length cmd then [cmd ! 8, cmd ! 9] else [0, 0])) s))"

section \<open>Which command\<close>

text \<open>\<open>os_strncasecmp(cmd, name, strlen(name)) == 0\<close>.\<close>

definition cmd_is :: "string \<Rightarrow> c_char list \<Rightarrow> bool" where
  "cmd_is name cmd \<longleftrightarrow> map to_lower (take (length name) cmd) = map to_lower (ascii name)"

datatype wpa_cmd = Powermode | Sta_statistics | Macaddr | Country | Start | Stop | Getpower | Get_rts | Set_rts
  | Rxfilter nat c_int | Rxfilter_all c_int | Btcoex | Smt_rate | Smt c_int | Suspendmode | Packet_filter | Transparent

text \<open>The commands of the tests, in the order of their branches.\<close>

definition smt_table :: "(string \<times> c_int) list" where
  "smt_table = [(''smt-test-on'', 0xFFFF1234), (''smt-test-off'', 0xFFFF1235), (''smt-test-scan-on'', 0xFFFF1260),
     (''smt-test-scan-off'', 0xFFFF1261), (''smt-test-roam-on'', 0xFFFF1262), (''smt-test-roam-off'', 0xFFFF1263),
     (''smt-test-cam-on'', 0xFFFF1264), (''smt-test-cam-off'', 0xFFFF1265), (''smt-test-bcn-on'', 0xFFFF1266),
     (''smt-test-bcn-off'', 0xFFFF1267), (''smt-test-power-on'', 0xFFFF1268), (''smt-test-power-off'', 0xFFFF1269),
     (''smt-test-fifo-on'', 0xFFFF1270), (''smt-test-fifo-off'', 0xFFFF1271)]"

definition classify :: "c_char list \<Rightarrow> wpa_cmd" where
  "classify cmd =
     (if cmd_is ''POWERMODE '' cmd then Powermode
      else if cmd_is ''GET_STA_STATISTICS '' cmd then Sta_statistics
      else if prefix (ascii ''MACADDR'') cmd then Macaddr
      else if cmd_is ''COUNTRY'' cmd then Country
      else if map to_lower cmd = ascii ''start'' then Start
      else if map to_lower cmd = ascii ''stop'' then Stop
      else if cmd_is ''getpower'' cmd then Getpower
      else if cmd_is ''get-rts-threshold'' cmd then Get_rts
      else if cmd_is ''set-rts-threshold'' cmd then Set_rts
      else if cmd_is ''rxfilter-add'' cmd then Rxfilter 12 0x00900200
      else if cmd_is ''rxfilter-remove'' cmd then Rxfilter 15 0x00900300
      else if cmd_is ''rxfilter-stop'' cmd then Rxfilter_all 0x00900000
      else if cmd_is ''rxfilter-start'' cmd then Rxfilter_all 0x00900100
      else if map to_lower cmd = ascii ''btcoexscan-start'' \<or> map to_lower cmd = ascii ''btcoexscan-stop'' \<or> cmd_is ''btcoexmode'' cmd then Btcoex
      else if cmd_is ''smt-rate'' cmd then Smt_rate
      else case find (\<lambda>(name, _). cmd_is name cmd) smt_table of
          Some (_, sw_cmd) \<Rightarrow> Smt sw_cmd
        | None \<Rightarrow>
            if cmd_is ''SETSUSPENDMODE '' cmd then Suspendmode
            else if cmd_is ''mtk_rx_packet_filter '' cmd then Packet_filter
            else Transparent)"

section \<open>Single commands\<close>

definition set_iface :: "wpa_env \<Rightarrow> bool \<Rightarrow> string \<Rightarrow> wpa_state \<Rightarrow> int \<times> wpa_state" where
  "set_iface e up event s =
     (let s = wpa_emit (Iface_flags up) s
      in (wv_flags e, if wv_flags e \<noteq> 0 then s else wpa_emit (Ctrl_event (ascii ''CTRL-EVENT-DRIVER-STATE '' @ ascii event)) s))"

text \<open>The number after a command of \<open>n\<close> bytes goes to the driver, if there is one.\<close>

definition number_cmd :: "wpa_env \<Rightarrow> nat \<Rightarrow> c_int \<Rightarrow> c_int \<Rightarrow> c_char list \<Rightarrow> wpa_state \<Rightarrow> int \<times> wpa_state" where
  "number_cmd e n sw_cmd base cmd s =
     (case strtol 0 (drop n cmd) of
        Some idx \<Rightarrow> wpa_driver_nl80211_driver_sw_cmd e True sw_cmd (word_of_int idx + base) s
      | None \<Rightarrow> (- 1, s))"

text \<open>\<open>*(cmd + 15) - '0'\<close>; the last three bytes of the structure are not written.\<close>

definition suspend_data :: "wpa_env \<Rightarrow> c_char list \<Rightarrow> c_char list" where
  "suspend_data e cmd = enc_int (versioned TESTMODE_SUSPEND) @ enc_int 12 @ [(cmd @ [0]) ! 15 - 48] @ take 3 (wv_padding e)"

text \<open>\<open>strtol\<close> with the address of an object of \<open>room\<close> bytes for \<open>endp\<close>, to which it stores a pointer of four bytes: \<open>None\<close> when
  the object is too small for that.\<close>

definition strtol_store :: "nat \<Rightarrow> nat \<Rightarrow> c_char list \<Rightarrow> int option" where
  "strtol_store room base str =
     (if room < 4 then None else Some (case strtol base str of Some v \<Rightarrow> v | None \<Rightarrow> 0))"

text \<open>Six words of eight hexadecimal digits, in pairs with a space between, read with an object of \<open>room\<close> bytes for the end. In the
  code that object is \<open>errChar\<close>, of one byte.\<close>

definition filter_words :: "nat \<Rightarrow> c_char list \<Rightarrow> c_int list option" where
  "filter_words room cmd =
     those (map (\<lambda>pos. map_option word_of_int (strtol_store room 16 (take 8 (drop pos cmd)))) [21, 29, 38, 46, 55, 63])"

definition filter_data :: "c_int list \<Rightarrow> c_char list" where
  "filter_data ws = struct_bytes 4 ([V32 (versioned TESTMODE_RXFILTER), V32 32] @ map V32 ws)"

definition packet_filter :: "wpa_env \<Rightarrow> c_char list \<Rightarrow> wpa_state \<Rightarrow> (int \<times> wpa_state) option" where
  "packet_filter e cmd s =
     (if length cmd \<noteq> 71 then Some (- 1, s)
      else do {
        ws \<leftarrow> filter_words 1 cmd;
        Some (testmode e (filter_data ws) s)
      })"

text \<open>The array of 100 bytes after the header and \<open>strncpy\<close>; the message takes eight more bytes of it than the command has.\<close>

definition transparent_data :: "c_char list \<Rightarrow> c_char list" where
  "transparent_data cmd =
     enc_int (versioned TESTMODE_STR_CMD) @ enc_int (word_of_nat (8 + length cmd)) @ take 92 (cmd @ replicate 92 0)"

section \<open>Private requests\<close>

definition wpa_driver_send_hang_msg :: "wpa_env \<Rightarrow> wpa_state \<Rightarrow> wpa_state" where
  "wpa_driver_send_hang_msg e s =
     (let n = drv_errors s + 1 in s\<lparr>drv_errors := (if wv_max_errors e < n then 0 else n)\<rparr>)"

text \<open>The structure: the first 512 bytes of the command with its NUL, and the two lengths.\<close>

definition private_data :: "c_char list \<Rightarrow> c_char list" where
  "private_data cmd =
     (let cmd_len = (if PRIV_CMD_SIZE \<le> length cmd then PRIV_CMD_SIZE - 1 else length cmd)
      in take PRIV_CMD_SIZE (take (cmd_len + 1) (cmd @ [0]) @ replicate PRIV_CMD_SIZE 0) @
         enc_int (word_of_nat (cmd_len + 1)) @ enc_int (word_of_nat PRIV_CMD_SIZE))"

definition private_cmd :: "wpa_env \<Rightarrow> c_char list \<Rightarrow> nat \<Rightarrow> wpa_state \<Rightarrow> int \<times> wpa_state" where
  "private_cmd e cmd buf_len s =
     (let s = wpa_emit (Private_ioctl (private_data cmd)) (s\<lparr>wpa_buf := []\<rparr>)
      in if wv_private e < 0 then print_answer buf_len (ascii ''FAIL'' @ [10]) (wpa_driver_send_hang_msg e s)
         else case print_answer buf_len (ascii ''OK'' @ [10]) (s\<lparr>drv_errors := 0\<rparr>) of
           (ret, s) \<Rightarrow> (if cmd_is ''WLS_BATCHING'' cmd then int (length (wpa_buf s)) else ret, s))"

section \<open>The command function\<close>

text \<open>For the interface \<open>ap0\<close> the pointer \<open>wpa_s\<close> is not set.\<close>

definition run_cmd :: "bool \<Rightarrow> wpa_env \<Rightarrow> c_char list \<Rightarrow> nat \<Rightarrow> wpa_state \<Rightarrow> (int \<times> wpa_state) option" where
  "run_cmd ok e cmd buf_len s =
     (case classify cmd of
        Powermode \<Rightarrow> Some (- 1, s)
      | Sta_statistics \<Rightarrow> wpa_driver_get_sta_statistics ok e (drop 19 cmd) buf_len s
      | Macaddr \<Rightarrow> if ok then Some (print_answer buf_len (ascii ''Macaddr = '' @ mac_text (wv_own_addr e) @ [10]) s) else None
      | Country \<Rightarrow>
          if length cmd \<noteq> 10 then Some (0, s)
          else do {
            (ret, s) \<leftarrow> wpa_driver_mediatek_set_country e (drop 8 cmd) s;
            s \<leftarrow> (if ret = 0 then wpa_driver_notify_country_change ok cmd s else Some s);
            Some (ret, s)
          }
      | Start \<Rightarrow> Some (set_iface e True ''STARTED'' s)
      | Stop \<Rightarrow>
          if wv_associated e \<and> \<not> ok then None
          else Some (set_iface e False ''STOPPED'' (if wv_associated e then wpa_emit Deauthenticate s else s))
      | Getpower \<Rightarrow> Some (- 1, s)
      | Get_rts \<Rightarrow> Some (- 1, s)
      | Set_rts \<Rightarrow> Some (- 1, s)
      | Rxfilter n base \<Rightarrow> Some (number_cmd e n 0x9F000000 base cmd s)
      | Rxfilter_all idx \<Rightarrow> Some (wpa_driver_nl80211_driver_sw_cmd e True 0x9F000000 idx s)
      | Btcoex \<Rightarrow> Some (0, s)
      | Smt_rate \<Rightarrow> Some (number_cmd e 8 0xFFFF0123 0 cmd s)
      | Smt sw_cmd \<Rightarrow> Some (wpa_driver_nl80211_driver_sw_cmd e True sw_cmd 0 s)
      | Suspendmode \<Rightarrow> Some (private_cmd e cmd buf_len (snd (testmode e (suspend_data e cmd) s)))
      | Packet_filter \<Rightarrow> packet_filter e cmd s
      | Transparent \<Rightarrow> do {
          (ret, s) \<leftarrow> testmode_array e (transparent_data cmd) (8 + length cmd) s;
          Some (private_cmd e cmd buf_len s)
        })"

definition wpa_driver_nl80211_driver_cmd :: "wpa_env \<Rightarrow> c_char list \<Rightarrow> nat \<Rightarrow> wpa_state \<Rightarrow> (int \<times> wpa_state) option" where
  "wpa_driver_nl80211_driver_cmd e cmd buf_len s =
     (if \<not> wv_drv e \<or> \<not> wv_ctx e then Some (- 1, s)
      else if wv_ifname e = ascii ''ap0'' then run_cmd False e cmd buf_len s
      else if \<not> wv_conf e then Some (- 1, s)
      else run_cmd True e cmd buf_len s)"

end
