(* ===== verification/Wpa_Properties.thy ===== *)
theory Wpa_Properties
  imports Wpa_Commands
begin

text \<open>
  What the private commands of the wifi driver do, and where they leave their arrays: the report on a station as a function of the
  attributes of the reply, the cases in which a command is undefined, and the words of a packet filter.
\<close>

section \<open>The statistics of a reply\<close>

text \<open>An operation on a member of the structure that only the attribute \<open>k\<close> changes.\<close>

lemma fold_statistics:
  assumes "\<And>i a s. g (set_statistic i a s) = (if i = k then h a (g s) else g s)" "distinct xs"
  shows "g (fold (\<lambda>i s. case sinfo i of Some a \<Rightarrow> set_statistic i a s | None \<Rightarrow> s) xs s) =
    (if k \<in> set xs then case sinfo k of Some a \<Rightarrow> h a (g s) | None \<Rightarrow> g s else g s)"
  using assms(2)
proof (induction xs arbitrary: s)
  case (Cons x xs)
  then show ?case by (cases "sinfo x") (auto simp: assms(1) split: option.split)
qed simp

text \<open>The attributes of a reply, and the statistics that they describe: what is absent is zero.\<close>

definition attributes :: "(nat \<Rightarrow> nlattr option) option \<Rightarrow> nat \<Rightarrow> nlattr option" where
  "attributes reply = (case reply of Some sinfo \<Rightarrow> sinfo | None \<Rightarrow> (\<lambda>_. None))"

definition reported :: "(nat \<Rightarrow> nlattr option) \<Rightarrow> sta_statistics" where
  "reported sinfo = testmode_sta_statistics_handler (Some sinfo) zero_statistics"

lemma reported_fold:
  "reported sinfo = fold (\<lambda>i s. case sinfo i of Some a \<Rightarrow> set_statistic i a s | None \<Rightarrow> s) [1..<STA_STATISTICS_NUM] zero_statistics"
  by (simp only: reported_def testmode_sta_statistics_handler_def option.case)

lemma reported_reply: "testmode_sta_statistics_handler reply zero_statistics = reported (attributes reply)"
proof (cases reply)
  case None
  have "fold (\<lambda>i s. s) xs s = s" for xs :: "nat list" and s :: sta_statistics by (induction xs) simp_all
  then show ?thesis using None by (simp only: attributes_def reported_fold testmode_sta_statistics_handler_def option.case)
qed (simp add: attributes_def reported_def)

lemma reported_field:
  assumes "\<And>i a s. g (set_statistic i a s) = (if i = k then h a (g s) else g s)" "g zero_statistics = z" "1 \<le> k" "k < STA_STATISTICS_NUM"
  shows "g (reported sinfo) = (case sinfo k of Some a \<Rightarrow> h a z | None \<Rightarrow> z)"
proof -
  have "k \<in> set [1..<STA_STATISTICS_NUM]" using assms(3,4) by simp
  then show ?thesis
    using fold_statistics [of g k h "[1..<STA_STATISTICS_NUM]" sinfo zero_statistics] assms(1,2)
    by (simp only: reported_fold distinct_upt if_True)
qed

lemma st_addr_set: "st_addr (set_statistic i a s) = (if i = STA_STATISTICS_MAC then nla_memcpy (st_addr s) a 6 else st_addr s)"
  unfolding set_statistic_def if_distrib [of st_addr] sta_statistics.simps by simp

lemma link_score_set: "link_score (set_statistic i a s) = (if i = STA_STATISTICS_LINK_SCORE then nla_u32 a else link_score s)"
  unfolding set_statistic_def if_distrib [of link_score] sta_statistics.simps by simp

lemma st_per_set: "st_per (set_statistic i a s) = (if i = STA_STATISTICS_PER then nla_u8 a else st_per s)"
  unfolding set_statistic_def if_distrib [of st_per] sta_statistics.simps by simp

lemma st_rssi_set: "st_rssi (set_statistic i a s) = (if i = STA_STATISTICS_RSSI then (int (unat (nla_u8 a)) - 220) sdiv 2 else st_rssi s)"
  unfolding set_statistic_def if_distrib [of st_rssi] sta_statistics.simps by simp

lemma phy_mode_set: "phy_mode (set_statistic i a s) = (if i = STA_STATISTICS_PHY_MODE then nla_u32 a else phy_mode s)"
  unfolding set_statistic_def if_distrib [of phy_mode] sta_statistics.simps by simp

lemma tx_rate_set: "tx_rate (set_statistic i a s) = (if i = STA_STATISTICS_TX_RATE then unat (nla_u16 a) else tx_rate s)"
  unfolding set_statistic_def if_distrib [of tx_rate] sta_statistics.simps by simp

lemma tx_total_cnt_set: "tx_total_cnt (set_statistic i a s) = (if i = STA_STATISTICS_TOTAL_CNT then nla_u32 a else tx_total_cnt s)"
  unfolding set_statistic_def if_distrib [of tx_total_cnt] sta_statistics.simps by simp

lemma tx_exc_threshold_cnt_set: "tx_exc_threshold_cnt (set_statistic i a s) = (if i = STA_STATISTICS_THRESHOLD_CNT then nla_u32 a else tx_exc_threshold_cnt s)"
  unfolding set_statistic_def if_distrib [of tx_exc_threshold_cnt] sta_statistics.simps by simp

lemma tx_fail_cnt_set: "tx_fail_cnt (set_statistic i a s) = (if i = STA_STATISTICS_FAIL_CNT then nla_u32 a else tx_fail_cnt s)"
  unfolding set_statistic_def if_distrib [of tx_fail_cnt] sta_statistics.simps by simp

lemma tx_timeout_cnt_set: "tx_timeout_cnt (set_statistic i a s) = (if i = STA_STATISTICS_TIMEOUT_CNT then nla_u32 a else tx_timeout_cnt s)"
  unfolding set_statistic_def if_distrib [of tx_timeout_cnt] sta_statistics.simps by simp

lemma tx_avg_process_time_set: "tx_avg_process_time (set_statistic i a s) = (if i = STA_STATISTICS_AVG_PROCESS_TIME then nla_u32 a else tx_avg_process_time s)"
  unfolding set_statistic_def if_distrib [of tx_avg_process_time] sta_statistics.simps by simp

lemma tx_avg_air_time_set: "tx_avg_air_time (set_statistic i a s) = (if i = STA_STATISTICS_AVG_AIR_TIME then nla_u32 a else tx_avg_air_time s)"
  unfolding set_statistic_def if_distrib [of tx_avg_air_time] sta_statistics.simps by simp

lemma tc_buf_full_cnt_set: "tc_buf_full_cnt (set_statistic i a s) = (if i = STA_STATISTICS_TC_EMPTY_CNT_ARRAY then nla_memcpy (tc_buf_full_cnt s) a 16 else tc_buf_full_cnt s)"
  unfolding set_statistic_def if_distrib [of tc_buf_full_cnt] sta_statistics.simps by simp

lemma tc_que_len_set: "tc_que_len (set_statistic i a s) = (if i = STA_STATISTICS_TC_QUE_LEN_ARRAY then nla_memcpy (tc_que_len s) a 16 else tc_que_len s)"
  unfolding set_statistic_def if_distrib [of tc_que_len] sta_statistics.simps by simp

lemma tc_avg_que_len_set: "tc_avg_que_len (set_statistic i a s) = (if i = STA_STATISTICS_TC_AVG_QUE_LEN_ARRAY then nla_memcpy (tc_avg_que_len s) a 16 else tc_avg_que_len s)"
  unfolding set_statistic_def if_distrib [of tc_avg_que_len] sta_statistics.simps by simp

lemma tc_cur_que_len_set: "tc_cur_que_len (set_statistic i a s) = (if i = STA_STATISTICS_TC_CUR_QUE_LEN_ARRAY then nla_memcpy (tc_cur_que_len s) a 16 else tc_cur_que_len s)"
  unfolding set_statistic_def if_distrib [of tc_cur_que_len] sta_statistics.simps by simp

lemma st_flag_set: "st_flag (set_statistic i a s) = (if i = STA_STATISTICS_FLAG then nla_u32 a else st_flag s)"
  unfolding set_statistic_def if_distrib [of st_flag] sta_statistics.simps by simp

lemma st_reserved_set: "st_reserved (set_statistic i a s) = (if i = STA_STATISTICS_RESERVED_ARRAY then nla_memcpy (st_reserved s) a 32 else st_reserved s)"
  unfolding set_statistic_def if_distrib [of st_reserved] sta_statistics.simps by simp

lemma zero_fields:
  "st_addr zero_statistics = replicate 6 0"
  "link_score zero_statistics = 0"
  "st_per zero_statistics = 0"
  "st_rssi zero_statistics = 0"
  "phy_mode zero_statistics = 0"
  "tx_rate zero_statistics = 0"
  "tx_total_cnt zero_statistics = 0"
  "tx_exc_threshold_cnt zero_statistics = 0"
  "tx_fail_cnt zero_statistics = 0"
  "tx_timeout_cnt zero_statistics = 0"
  "tx_avg_process_time zero_statistics = 0"
  "tx_avg_air_time zero_statistics = 0"
  "tc_buf_full_cnt zero_statistics = replicate 16 0"
  "tc_que_len zero_statistics = replicate 16 0"
  "tc_avg_que_len zero_statistics = replicate 16 0"
  "tc_cur_que_len zero_statistics = replicate 16 0"
  "st_flag zero_statistics = 0"
  "st_reserved zero_statistics = replicate 32 0"
  unfolding zero_statistics_def by simp_all

text \<open>The value of an attribute, zero if it is absent: a number, or the bytes of an array of \<open>n\<close>, filled up with zeroes.\<close>

definition u32_of :: "(nat \<Rightarrow> nlattr option) \<Rightarrow> nat \<Rightarrow> c_int" where
  "u32_of sinfo k = (case sinfo k of Some a \<Rightarrow> nla_u32 a | None \<Rightarrow> 0)"

definition u16_of :: "(nat \<Rightarrow> nlattr option) \<Rightarrow> nat \<Rightarrow> nat" where
  "u16_of sinfo k = (case sinfo k of Some a \<Rightarrow> unat (nla_u16 a) | None \<Rightarrow> 0)"

definition u8_of :: "(nat \<Rightarrow> nlattr option) \<Rightarrow> nat \<Rightarrow> c_char" where
  "u8_of sinfo k = (case sinfo k of Some a \<Rightarrow> nla_u8 a | None \<Rightarrow> 0)"

definition bytes_of :: "(nat \<Rightarrow> nlattr option) \<Rightarrow> nat \<Rightarrow> nat \<Rightarrow> c_char list" where
  "bytes_of sinfo k n = (case sinfo k of Some a \<Rightarrow> take n (nla_data a @ replicate n 0) | None \<Rightarrow> replicate n 0)"

text \<open>The signal in dBm: half of the byte less 220.\<close>

definition signal_of :: "(nat \<Rightarrow> nlattr option) \<Rightarrow> int" where
  "signal_of sinfo = (case sinfo STA_STATISTICS_RSSI of Some a \<Rightarrow> (int (unat (nla_u8 a)) - 220) sdiv 2 | None \<Rightarrow> 0)"

lemmas attribute_defs = u32_of_def u16_of_def u8_of_def bytes_of_def signal_of_def

lemma memcpy_zero: "nla_memcpy (replicate n 0) a n = take n (nla_data a @ replicate n 0)"
  by (simp add: nla_memcpy_def Let_def min_def)

lemma bytes_length: "length (bytes_of sinfo k n) = n"
  by (auto simp: bytes_of_def split: option.split)

lemma reported_fields:
  "st_addr (reported sinfo) = bytes_of sinfo STA_STATISTICS_MAC 6"
  "link_score (reported sinfo) = u32_of sinfo STA_STATISTICS_LINK_SCORE"
  "st_per (reported sinfo) = u8_of sinfo STA_STATISTICS_PER"
  "st_rssi (reported sinfo) = signal_of sinfo"
  "phy_mode (reported sinfo) = u32_of sinfo STA_STATISTICS_PHY_MODE"
  "tx_rate (reported sinfo) = u16_of sinfo STA_STATISTICS_TX_RATE"
  "tx_total_cnt (reported sinfo) = u32_of sinfo STA_STATISTICS_TOTAL_CNT"
  "tx_exc_threshold_cnt (reported sinfo) = u32_of sinfo STA_STATISTICS_THRESHOLD_CNT"
  "tx_fail_cnt (reported sinfo) = u32_of sinfo STA_STATISTICS_FAIL_CNT"
  "tx_timeout_cnt (reported sinfo) = u32_of sinfo STA_STATISTICS_TIMEOUT_CNT"
  "tx_avg_process_time (reported sinfo) = u32_of sinfo STA_STATISTICS_AVG_PROCESS_TIME"
  "tx_avg_air_time (reported sinfo) = u32_of sinfo STA_STATISTICS_AVG_AIR_TIME"
  "tc_buf_full_cnt (reported sinfo) = bytes_of sinfo STA_STATISTICS_TC_EMPTY_CNT_ARRAY 16"
  "tc_que_len (reported sinfo) = bytes_of sinfo STA_STATISTICS_TC_QUE_LEN_ARRAY 16"
  "tc_avg_que_len (reported sinfo) = bytes_of sinfo STA_STATISTICS_TC_AVG_QUE_LEN_ARRAY 16"
  "tc_cur_que_len (reported sinfo) = bytes_of sinfo STA_STATISTICS_TC_CUR_QUE_LEN_ARRAY 16"
  "st_flag (reported sinfo) = u32_of sinfo STA_STATISTICS_FLAG"
  "st_reserved (reported sinfo) = bytes_of sinfo STA_STATISTICS_RESERVED_ARRAY 32"
  subgoal by (subst reported_field [OF st_addr_set zero_fields(1)]) (simp_all add: attribute_defs memcpy_zero split: option.split)
  subgoal by (subst reported_field [OF link_score_set zero_fields(2)]) (simp_all add: attribute_defs)
  subgoal by (subst reported_field [OF st_per_set zero_fields(3)]) (simp_all add: attribute_defs)
  subgoal by (subst reported_field [OF st_rssi_set zero_fields(4)]) (simp_all add: attribute_defs)
  subgoal by (subst reported_field [OF phy_mode_set zero_fields(5)]) (simp_all add: attribute_defs)
  subgoal by (subst reported_field [OF tx_rate_set zero_fields(6)]) (simp_all add: attribute_defs)
  subgoal by (subst reported_field [OF tx_total_cnt_set zero_fields(7)]) (simp_all add: attribute_defs)
  subgoal by (subst reported_field [OF tx_exc_threshold_cnt_set zero_fields(8)]) (simp_all add: attribute_defs)
  subgoal by (subst reported_field [OF tx_fail_cnt_set zero_fields(9)]) (simp_all add: attribute_defs)
  subgoal by (subst reported_field [OF tx_timeout_cnt_set zero_fields(10)]) (simp_all add: attribute_defs)
  subgoal by (subst reported_field [OF tx_avg_process_time_set zero_fields(11)]) (simp_all add: attribute_defs)
  subgoal by (subst reported_field [OF tx_avg_air_time_set zero_fields(12)]) (simp_all add: attribute_defs)
  subgoal by (subst reported_field [OF tc_buf_full_cnt_set zero_fields(13)]) (simp_all add: attribute_defs memcpy_zero split: option.split)
  subgoal by (subst reported_field [OF tc_que_len_set zero_fields(14)]) (simp_all add: attribute_defs memcpy_zero split: option.split)
  subgoal by (subst reported_field [OF tc_avg_que_len_set zero_fields(15)]) (simp_all add: attribute_defs memcpy_zero split: option.split)
  subgoal by (subst reported_field [OF tc_cur_que_len_set zero_fields(16)]) (simp_all add: attribute_defs memcpy_zero split: option.split)
  subgoal by (subst reported_field [OF st_flag_set zero_fields(17)]) (simp_all add: attribute_defs)
  subgoal by (subst reported_field [OF st_reserved_set zero_fields(18)]) (simp_all add: attribute_defs memcpy_zero split: option.split)
  done

text \<open>The report on a reply, up to the newline at the end of its last line but one.\<close>

fun joined :: "c_char list list \<Rightarrow> c_char list" where
  "joined [] = []"
| "joined [t] = t"
| "joined (t # ts) = t @ ascii '':'' @ joined ts"

definition report :: "(nat \<Rightarrow> nlattr option) \<Rightarrow> c_char list" where
  "report sinfo =
     (let row = (\<lambda>name v. ascii name @ v @ [10]);
          num = (\<lambda>v. show_int (sint (v :: c_int)));
          number = (\<lambda>k. num (u32_of sinfo k));
          mask = (\<lambda>k. hex_text True 8 (unat (u32_of sinfo k)));
          four = (\<lambda>k. joined (map (\<lambda>i. num (le32 (drop (4 * i) (bytes_of sinfo k 16)))) [0, 1, 2, 3]));
          rate = u16_of sinfo STA_STATISTICS_TX_RATE;
          rest = bytes_of sinfo STA_STATISTICS_RESERVED_ARRAY 32
      in row ''sta_addr='' (joined (map (\<lambda>b. hex_text False 2 (unat b)) (bytes_of sinfo STA_STATISTICS_MAC 6))) @
         row ''link_score='' (number STA_STATISTICS_LINK_SCORE) @
         row ''per='' (show_nat (unat (u8_of sinfo STA_STATISTICS_PER))) @
         row ''rssi='' (show_int (signal_of sinfo)) @
         row ''phy=0x'' (mask STA_STATISTICS_PHY_MODE) @
         row ''rate='' (show_nat (rate div 2) @ ascii (if even rate then ''.0'' else ''.5'')) @
         row ''total_cnt='' (number STA_STATISTICS_TOTAL_CNT) @
         row ''threshold_cnt='' (number STA_STATISTICS_THRESHOLD_CNT) @
         row ''fail_cnt='' (number STA_STATISTICS_FAIL_CNT) @
         row ''timeout_cnt='' (number STA_STATISTICS_TIMEOUT_CNT) @
         row ''apt='' (number STA_STATISTICS_AVG_PROCESS_TIME) @
         row ''aat='' (number STA_STATISTICS_AVG_AIR_TIME) @
         row ''TC_buf_full_cnt='' (four STA_STATISTICS_TC_EMPTY_CNT_ARRAY) @
         row ''TC_sta_que_len='' (four STA_STATISTICS_TC_QUE_LEN_ARRAY) @
         row ''TC_avg_que_len='' (four STA_STATISTICS_TC_AVG_QUE_LEN_ARRAY) @
         row ''TC_cur_que_len='' (four STA_STATISTICS_TC_CUR_QUE_LEN_ARRAY) @
         row ''flag=0x'' (mask STA_STATISTICS_FLAG) @
         row ''reserved0='' (reserved_text (take 16 rest)) @
         ascii ''reserved1='' @ reserved_text (drop 16 rest))"

lemma mac_joined: "mac_text bs = joined (map (\<lambda>b. hex_text False 2 (unat b)) bs)"
  by (induction bs rule: mac_text.induct) simp_all

lemma row_texts:
  "line name v = ascii (name @ ''='') @ v @ [10]"
  "counters name d = ascii (name @ ''='') @ joined (map (\<lambda>i. show_int (sint (le32 (drop (4 * i) d)))) [0, 1, 2, 3]) @ [10]"
  by (simp_all add: line_def counters_def counter_def show_u32_def ascii_def)

lemma reported_parts:
  obtains ps qs where "statistics_parts (reported sinfo) = map Some ps @ None # qs" "concat ps = report sinfo" "ps \<noteq> []"
proof -
  let ?d = "bytes_of sinfo STA_STATISTICS_RESERVED_ARRAY 32"
  obtain xs ys where r: "reserved_parts 0 ?d = map Some xs" "concat xs = reserved_text (take 16 ?d)"
    "reserved_parts 16 ?d = map Some ys" "concat ys = reserved_text (drop 16 ?d)"
    "reserved_call ?d 16 (\<lambda>_. [10]) = Some [10]" "reserved_call ?d 32 (\<lambda>_. [10]) = None"
    by (rule reserved_parts_eq [of ?d "\<lambda>_. [10]"]) (simp_all add: bytes_length reserved_call_def)
  show ?thesis
  proof (rule that [of "statistics_head (reported sinfo) @ xs @ [[10], ascii ''reserved1=''] @ ys" "[Some (ascii ''===='' @ [10])]"])
    show "statistics_parts (reported sinfo) =
        map Some (statistics_head (reported sinfo) @ xs @ [[10], ascii ''reserved1=''] @ ys) @ None # [Some (ascii ''===='' @ [10])]"
      by (simp only: statistics_parts_def reported_fields r map_append list.map append_Cons append_Nil append_assoc)
    show "concat (statistics_head (reported sinfo) @ xs @ [[10], ascii ''reserved1=''] @ ys) = report sinfo"
      by (simp add: statistics_head_def reported_fields r report_def Let_def mac_joined row_texts show_u32_def ascii_def)
  qed simp
qed

lemma report_printed:
  "print_sta_statistics (reported sinfo) n =
    (if length (report sinfo) < n then None else Some (0, take (n - 1) (report sinfo)))"
proof -
  obtain ps qs where p: "statistics_parts (reported sinfo) = map Some ps @ None # qs" "concat ps = report sinfo" "ps \<noteq> []"
    by (rule reported_parts)
  then show ?thesis using put_parts_eq [of n ps qs] by (simp add: print_sta_statistics_def)
qed

section \<open>Memory\<close>

lemma first_member: "le32 (struct_bytes al (V32 x # vs)) = x"
  by (simp add: struct_bytes_def padding_def Let_def)

lemma statistics_index: "index_of_data (statistics_data addr ptr) = TESTMODE_STATISTICS"
  by (simp only: index_of_data_def statistics_data_def append_Cons first_member versioned_def) simp

lemma transparent_length: "length (transparent_data cmd) = 100"
  by (simp add: transparent_data_def)

lemma filter_words_None: "filter_words (Suc 0) cmd = None"
  by (simp add: filter_words_def strtol_store_def)

lemma sta_statistics_result:
  "wpa_driver_get_sta_statistics True e a n s =
    (case wv_hwaddr_aton e a of
       None \<Rightarrow> Some (- 1, s)
     | Some addr \<Rightarrow>
         let t = report (attributes (snd (wv_reply e)));
             s' = wpa_emit (Testmode (statistics_data addr (wv_ptr e))) s
         in if \<not> wv_alloc e \<or> \<not> wv_put e then Some (- 1, s)
            else if fst (wv_reply e) < 0 then Some (- 1, s')
            else if length t < n then None
            else Some (0, if n = 0 then s' else s'\<lparr>wpa_buf := take (n - 1) t\<rparr>))"
  by (simp add: wpa_driver_get_sta_statistics_def wpas_get_sta_statistics_def wpa_driver_nl80211_testmode_def statistics_index
      reported_reply report_printed Let_def split: option.split)

text \<open>C27. A command leaves its arrays exactly in these cases. A command that is passed on is longer than 92 bytes and is put into
  a message. A packet filter has the right length, so that the end of its first word is stored in \<open>errChar\<close>, which has one byte. The
  report on a station has room for its last line but one, whose newline reads \<open>reserved[32]\<close>. Or the interface is \<open>ap0\<close> and the
  command needs the pointer that is not set for it.\<close>

theorem commands_out_of_bounds:
  "wpa_driver_nl80211_driver_cmd e cmd n s = None \<longleftrightarrow>
    (let ap0 = wv_ifname e = ascii ''ap0'' in
     wv_drv e \<and> wv_ctx e \<and> (ap0 \<or> wv_conf e) \<and>
     (case classify cmd of
        Transparent \<Rightarrow> 92 < length cmd \<and> wv_alloc e \<and> wv_put e
      | Packet_filter \<Rightarrow> length cmd = 71
      | Sta_statistics \<Rightarrow> wv_hwaddr_aton e (drop 19 cmd) \<noteq> None \<and>
          (ap0 \<or> wv_alloc e \<and> wv_put e \<and> 0 \<le> fst (wv_reply e) \<and> length (report (attributes (snd (wv_reply e)))) < n)
      | Macaddr \<Rightarrow> ap0
      | Country \<Rightarrow> ap0 \<and> length cmd = 10 \<and> wv_socket e \<and> 0 \<le> wv_country e
      | Stop \<Rightarrow> ap0 \<and> wv_associated e
      | _ \<Rightarrow> False))"
proof -
  have run: "run_cmd ok e cmd n s = None \<longleftrightarrow>
     (case classify cmd of
        Transparent \<Rightarrow> 92 < length cmd \<and> wv_alloc e \<and> wv_put e
      | Packet_filter \<Rightarrow> length cmd = 71
      | Sta_statistics \<Rightarrow> wv_hwaddr_aton e (drop 19 cmd) \<noteq> None \<and>
          (\<not> ok \<or> wv_alloc e \<and> wv_put e \<and> 0 \<le> fst (wv_reply e) \<and> length (report (attributes (snd (wv_reply e)))) < n)
      | Macaddr \<Rightarrow> \<not> ok
      | Country \<Rightarrow> \<not> ok \<and> length cmd = 10 \<and> wv_socket e \<and> 0 \<le> wv_country e
      | Stop \<Rightarrow> \<not> ok \<and> wv_associated e
      | _ \<Rightarrow> False)" for ok
  proof (cases "classify cmd")
    case Sta_statistics
    then show ?thesis
      by (cases ok; cases "wv_hwaddr_aton e (drop 19 cmd)")
        (auto simp: run_cmd_def sta_statistics_result Let_def not_less, auto simp: wpa_driver_get_sta_statistics_def)
  next
    case Country
    then show ?thesis
      by (auto simp: run_cmd_def wpa_driver_mediatek_set_country_def wpa_driver_notify_country_change_def ascii_def
          split: Option.bind_splits if_splits)
  next
    case Transparent
    then show ?thesis
      by (cases "testmode e (take (8 + length cmd) (transparent_data cmd)) s")
        (auto simp: run_cmd_def testmode_array_def transparent_length)
  qed (auto simp: run_cmd_def packet_filter_def filter_words_None)
  have driver: "wpa_driver_nl80211_driver_cmd e cmd n s = None \<longleftrightarrow>
     wv_drv e \<and> wv_ctx e \<and>
     (if wv_ifname e = ascii ''ap0'' then run_cmd False e cmd n s = None else wv_conf e \<and> run_cmd True e cmd n s = None)"
    by (auto simp: wpa_driver_nl80211_driver_cmd_def)
  show ?thesis
    unfolding driver run Let_def by (cases "wv_ifname e = ascii ''ap0''"; cases "classify cmd"; simp)
qed

section \<open>The answer\<close>

text \<open>C26. The command for the statistics of a station asks the driver about the station and answers with the report on
  what the driver replies, every line of it from its attribute, zero if the attribute is absent, cut at the end of a buffer that
  the report fills; the length is then given as zero. In a longer buffer the call for the newline after \<open>reserved1\<close> is
  reached, which reads behind the array.\<close>

theorem statistics_reported:
  assumes "classify cmd = Sta_statistics" "wv_drv e" "wv_ctx e" "wv_conf e" "wv_ifname e \<noteq> ascii ''ap0''"
    and "wv_hwaddr_aton e (drop 19 cmd) = Some addr" "wv_alloc e" "wv_put e" "wv_reply e = (r, Some sinfo)" "0 \<le> r" "0 < n"
  shows "wpa_driver_nl80211_driver_cmd e cmd n s =
    (if n \<le> length (report sinfo)
     then Some (0, s\<lparr>wpa_buf := take (n - 1) (report sinfo),
                   wpa_out := wpa_out s @ [Testmode (statistics_data addr (wv_ptr e))]\<rparr>)
     else None)"
  using assms
  by (simp add: wpa_driver_nl80211_driver_cmd_def run_cmd_def sta_statistics_result attributes_def wpa_emit_def Let_def)

section \<open>Packet filters\<close>

lemma hex_facts:
  assumes "is_hex c"
  shows "\<not> is_space c" "c \<noteq> 45" "c \<noteq> 43" "to_lower c \<noteq> 120" "digit c < 16"
proof -
  show "\<not> is_space c" "c \<noteq> 45" "c \<noteq> 43" "to_lower c \<noteq> 120"
    using assms unat_char_lt [of c]
    by (auto simp: is_hex_def is_dec_def is_space_def to_lower_def word_le_nat_alt word_unat_eq_iff unat_word_ariths split: if_splits)
  show "digit c < 16"
    using assms by (auto simp: digit_def is_hex_def is_dec_def word_le_nat_alt split: if_splits)
qed

lemma strtol_hex:
  assumes "\<forall>c\<in>set ds. is_hex c" "ds \<noteq> []"
  shows "strtol 16 ds = Some (min (2 ^ 31 - 1) (int (digits_val 16 ds)))"
proof -
  obtain c cs where ds: "ds = c # cs" using assms(2) by (cases ds) auto
  have c: "is_hex c" using assms(1) ds by simp
  have sign: "read_sign (dropWhile is_space ds) = (False, ds)" using hex_facts [OF c] by (simp add: ds)
  have tw: "takeWhile (\<lambda>c. is_hex c \<and> digit c < 16) ds = ds" using assms(1) hex_facts(5) by (simp add: takeWhile_eq_all_conv)
  have "take 2 (map to_lower ds) \<noteq> [48, 120]"
    using assms(1) hex_facts(4) by (cases cs) (auto simp: ds)
  then show ?thesis using assms(2) by (simp add: strtol_def sign Let_def tw)
qed

definition filter_positions :: "nat list" where
  "filter_positions = [21, 29, 38, 46, 55, 63]"

text \<open>With an object for a pointer in the place of \<open>errChar\<close>, a packet filter of six words of hexadecimal digits would be read in the
  order of its words, but a word of \<open>0x80000000\<close> or more as \<open>0x7FFFFFFF\<close>.\<close>

theorem filter_words_saturate:
  assumes "length cmd = 71" "\<forall>pos\<in>set filter_positions. \<forall>c\<in>set (take 8 (drop pos cmd)). is_hex c" "4 \<le> room"
  shows "filter_words room cmd =
    Some (map (\<lambda>pos. word_of_int (min (2 ^ 31 - 1) (int (digits_val 16 (take 8 (drop pos cmd)))))) filter_positions)"
proof -
  have "strtol_store room 16 (take 8 (drop pos cmd)) = Some (min (2 ^ 31 - 1) (int (digits_val 16 (take 8 (drop pos cmd)))))"
    if "pos \<in> set filter_positions" for pos
  proof -
    have "take 8 (drop pos cmd) \<noteq> []" using that assms(1) by (auto simp: filter_positions_def)
    then show ?thesis using strtol_hex assms(2,3) that by (simp add: strtol_store_def)
  qed
  then show ?thesis by (simp add: filter_words_def filter_positions_def)
qed

section \<open>Witnesses\<close>

definition demo_signal :: "nat \<Rightarrow> nlattr option" where
  "demo_signal i = (if i = STA_STATISTICS_RSSI then Some \<lparr>nla_data = [120], nla_u8 = 120, nla_u16 = 120, nla_u32 = 120\<rparr> else None)"

definition demo_wpa_env :: wpa_env where
  "demo_wpa_env = \<lparr>
     wv_drv = True, wv_ctx = True, wv_conf = True, wv_ifname = ascii ''wlan0'', wv_associated = True,
     wv_own_addr = replicate 6 2, wv_hwaddr_aton = (\<lambda>_. Some [0, 17, 34, 51, 68, 85]), wv_alloc = True, wv_put = True,
     wv_reply = (0, Some demo_signal), wv_socket = True, wv_country = 0, wv_flags = 0, wv_deauth = 0, wv_private = 0,
     wv_max_errors = 4, wv_ptr = 0x1000, wv_padding = []\<rparr>"

definition demo_wpa :: wpa_state where
  "demo_wpa = \<lparr>drv_errors = 0, wpa_buf = [], wpa_out = []\<rparr>"

definition demo_statistics :: "c_char list" where
  "demo_statistics = ascii ''GET_STA_STATISTICS 00:11:22:33:44:55''"

definition demo_filter :: "c_char list" where
  "demo_filter = ascii ''mtk_rx_packet_filter 00000000000000FE 0000000080000000 0000000000000000''"

lemma demo_env_facts:
  "wv_drv demo_wpa_env" "wv_ctx demo_wpa_env" "wv_conf demo_wpa_env" "wv_ifname demo_wpa_env \<noteq> ascii ''ap0''"
  "wv_alloc demo_wpa_env" "wv_put demo_wpa_env" "wv_reply demo_wpa_env = (0, Some demo_signal)"
  "wv_hwaddr_aton demo_wpa_env a = Some [0, 17, 34, 51, 68, 85]"
  by (simp_all add: demo_wpa_env_def ascii_def)

lemma demo_env_ptr: "wv_ptr demo_wpa_env = 0x1000"
  by (simp add: demo_wpa_env_def)

lemma demo_statistics_cmd: "classify demo_statistics = Sta_statistics"
  by code_simp

lemma demo_filter_cmd: "classify demo_filter = Packet_filter" "length demo_filter = 71"
  by code_simp+

lemma demo_filter_digits: "\<forall>pos\<in>set filter_positions. \<forall>c\<in>set (take 8 (drop pos demo_filter)). is_hex c"
  by code_simp

lemma demo_filter_words:
  "digits_val 16 (take 8 (drop 29 demo_filter)) = 0xFE" "digits_val 16 (take 8 (drop 46 demo_filter)) = 0x80000000"
  by (simp_all add: demo_filter_def ascii_def digits_val_def digit_def is_dec_def to_lower_def)

lemma demo_report: "take 10 (report demo_signal) = ascii ''sta_addr=0''" "11 \<le> length (report demo_signal)"
proof -
  let ?mac = "joined (map (\<lambda>b. hex_text False 2 (unat (b :: c_char))) (replicate 6 0))"
  have mac: "bytes_of demo_signal STA_STATISTICS_MAC 6 = replicate 6 0" by (simp add: bytes_of_def demo_signal_def)
  have "\<exists>r. report demo_signal = (ascii ''sta_addr='' @ ?mac @ [10]) @ r"
    unfolding report_def Let_def mac by (rule exI, rule refl)
  then obtain r where r: "report demo_signal = (ascii ''sta_addr='' @ ?mac @ [10]) @ r" ..
  have "?mac = ascii ''00:00:00:00:00:00''" by code_simp
  then show "take 10 (report demo_signal) = ascii ''sta_addr=0''" "11 \<le> length (report demo_signal)"
    by (simp_all add: r ascii_def)
qed

theorem statistics_reported_witness:
  "wpa_driver_nl80211_driver_cmd demo_wpa_env demo_statistics 11 demo_wpa =
     Some (0, \<lparr>drv_errors = 0, wpa_buf = ascii ''sta_addr=0'', wpa_out = [Testmode (statistics_data [0, 17, 34, 51, 68, 85] 0x1000)]\<rparr>) \<and>
   signal_of demo_signal = - 50"
proof -
  have "signal_of demo_signal = - 50" by (simp add: signal_of_def demo_signal_def signed_divide_int_def sgn_if)
  then show ?thesis
    using statistics_reported [of demo_statistics demo_wpa_env "[0, 17, 34, 51, 68, 85]" 0 demo_signal 11 demo_wpa]
    by (simp add: demo_statistics_cmd demo_env_facts demo_env_ptr demo_wpa_def demo_report)
qed

theorem filter_words_saturate_witness:
  "map_option (\<lambda>ws. (ws ! 1, ws ! 3)) (filter_words 4 demo_filter) = Some (0xFE, 0x7FFFFFFF)"
  using filter_words_saturate [OF demo_filter_cmd(2) demo_filter_digits, of 4]
  by (simp add: filter_positions_def demo_filter_words)

end
