(* ===== verification/Gps_Init.thy ===== *)
theory Gps_Init
  imports Mnl_Common Gps_Control
begin

text \<open>
  The set-up of the GPS library in \<^verbatim>\<open>mtk/gps/mtk_mnld/mnld_entity/src/gps_controller.c\<close>: what \<open>linux_gps_init\<close> finds out about
  the chip, what it tells the library, and \<open>mnld_gps_start_impl\<close> around it. The library, the driver, the files and
  the properties are a parameter. \<open>None\<close> is a text that does not fit its array.
\<close>

section \<open>What the library is given\<close>

text \<open>The members of \<open>MTK_GPS_INIT_CFG\<close> and \<open>MTK_GPS_DRIVER_CFG\<close> that are set; \<open>reserved\<close> of the second is \<open>dc_BEE\<close>.\<close>

record init_cfg =
  if_type :: c_int
  pps_mode :: c_int
  ic_datum :: c_int
  dgps_mode :: c_int
  pps_duty :: c_short
  u1ClockType :: c_char
  hw_Clock_Drift :: c_short
  hw_Clock_Freq :: c_int
  if_link_spd :: c_int
  fix_interval :: c_int
  Int_LNA_Config :: c_char
  reservedx :: c_int
  reservedy :: c_int
  ic_GNSSOPMode :: int
  ic_C0 :: c_int
  ic_C1 :: c_int
  ic_initU :: c_int
  ic_lastU :: c_int
  mtk_gps_version_mode :: c_int

record driver_cfg =
  dc_DebugType :: c_char
  nv_file_name :: "c_char list"
  dbg_file_name :: "c_char list"
  dsp_port_name :: "c_char list"
  nmea_port_name :: "c_char list"
  nmeain_port_name :: "c_char list"
  bee_path_name :: "c_char list"
  epo_file_name :: "c_char list"
  epo_update_file_name :: "c_char list"
  qepo_file_name :: "c_char list"
  qepo_update_file_name :: "c_char list"
  dc_u1AgpsMachine :: c_char
  dc_BEE :: c_char
  log_file_max_size :: c_int
  log_folder_max_size :: c_int

record user_profile =
  up_EPO_enabled :: c_char
  up_BEE_enabled :: c_char
  up_SUPL_enabled :: c_char
  up_EPO_priority :: c_char
  up_BEE_priority :: c_char
  up_SUPL_priority :: c_char
  up_fgGpsAosp_Ver :: c_char

section \<open>State\<close>

datatype init_effect = Set_prop "c_char list" "c_char list" | Ofl_user c_int | Delete_nv c_int | Ofl_option c_int | Log_thread
  | Mnl_run init_cfg driver_cfg | Mpe_thread | Epo_update | Qepo_update | Profile user_profile | Location_sync c_double c_double c_int
  | Mnl_stop | Log_release | Sys_uninit | Alarm_off

text \<open>The settings, the name of the chip, whether the device is open, the kind of EPO files, the state of the debug log with its file,
  the debug mode of raw data, and the effects.\<close>

record engine =
  en_cfg :: mnl_config
  en_chip :: "c_char list"
  en_dsp_open :: bool
  en_epo_type :: nat
  en_debuglog_state :: c_char
  en_debuglog_file :: "c_char list"
  en_raw_debug_mode :: int
  en_out :: "init_effect list"

text \<open>The calibration of the configuration record: frequency, drift, type and LNA mode.\<close>

record nvram_gps =
  gps_tcxo_hz :: c_int
  gps_tcxo_ppb :: c_int
  gps_tcxo_type :: c_char
  gps_lna_mode :: c_char

text \<open>What the set-up meets: the four words of the calibration file (\<open>None\<close> when it cannot be opened), the configuration record when it
  is valid, whether one position a second is wanted, whether the device opens, the chip that \<open>chip_detector\<close> finds, the
  results of \<open>ioctl\<close> by number (for 7 and 8 with the word that is stored), the results of the library, whether the files
  of orbits are there, the status property, the results of sending the profile, the last position, whether
  offload is enabled, the file of the raw data mode, and the file of the almanac.\<close>

record setup_env =
  ie_cali :: "(c_int \<times> c_int \<times> c_int \<times> c_int) option"
  ie_nvram :: "nvram_gps option"
  ie_1Hz :: bool
  ie_dsp :: bool
  ie_chip :: "c_char list"
  ie_ioctl :: "nat \<Rightarrow> c_int"
  ie_version :: "nat \<Rightarrow> c_int option"
  ie_delete_nv :: int
  ie_run_ok :: bool
  ie_epo_there :: bool
  ie_qepo_there :: bool
  ie_status :: "c_char list"
  ie_profile :: "nat \<Rightarrow> int"
  ie_position :: "(c_double \<times> c_double \<times> c_int) option"
  ie_offload :: bool
  ie_raw_conf :: "c_char list option"
  ie_almanac :: "c_char list option"

definition en_emit :: "init_effect \<Rightarrow> engine \<Rightarrow> engine" where
  "en_emit x s = s\<lparr>en_out := en_out s @ [x]\<rparr>"

definition chip_in :: "string list \<Rightarrow> engine \<Rightarrow> bool" where
  "chip_in names s \<longleftrightarrow> en_chip s \<in> set (map ascii names)"

section \<open>Defaults\<close>

abbreviation MTK_IF_UART_NO_HW_FLOW_CTRL :: c_int where "MTK_IF_UART_NO_HW_FLOW_CTRL \<equiv> 1"
abbreviation MTK_PPS_DISABLE :: c_int where "MTK_PPS_DISABLE \<equiv> 0"
abbreviation MTK_DATUM_WGS84 :: c_int where "MTK_DATUM_WGS84 \<equiv> 0"
abbreviation MTK_AGPS_MODE_AUTO :: c_int where "MTK_AGPS_MODE_AUTO \<equiv> 16"
abbreviation MTK_GPS_AOSP_MODE :: c_int where "MTK_GPS_AOSP_MODE \<equiv> 1"

text \<open>Without a calibration the four words are zero. A drift of zero, in its 16 bits, is replaced.\<close>

definition default_cfg :: "setup_env \<Rightarrow> init_cfg" where
  "default_cfg e =
     (let (c0, c1, iu, lu) = (case ie_cali e of Some w \<Rightarrow> w | None \<Rightarrow> (0, 0, 0, 0));
          (freq, drift, lna, clock) =
            (case ie_nvram e of
               Some n \<Rightarrow> (gps_tcxo_hz n, ucast (gps_tcxo_ppb n), gps_lna_mode n, gps_tcxo_type n)
             | None \<Rightarrow> (26000000, 2000, 0, 0xFF))
      in \<lparr>if_type = MTK_IF_UART_NO_HW_FLOW_CTRL, pps_mode = MTK_PPS_DISABLE, ic_datum = MTK_DATUM_WGS84,
          dgps_mode = MTK_AGPS_MODE_AUTO, pps_duty = 100, u1ClockType = clock,
          hw_Clock_Drift = (if drift = 0 then 2000 else drift), hw_Clock_Freq = freq, if_link_spd = 115200,
          fix_interval = (if ie_1Hz e then 1000 else 200), Int_LNA_Config = lna, reservedx = 0, reservedy = 0,
          ic_GNSSOPMode = 0, ic_C0 = c0, ic_C1 = c1, ic_initU = iu, ic_lastU = lu, mtk_gps_version_mode = 0\<rparr>)"

section \<open>The clock\<close>

text \<open>The kinds of clock that the driver knows, with the number in the property.\<close>

definition clock_table :: "(c_int \<times> c_char \<times> string) list" where
  "clock_table = [(0x00, 0xFF, ''20''), (0x10, 0xFF, ''10''), (0x20, 0xFF, ''20''), (0x30, 0xFF, ''30''), (0x40, 0xFF, ''40''),
     (0x01, 0xFE, ''21''), (0x02, 0xFF, ''20''), (0x03, 0xFF, ''20''), (0x11, 0xFE, ''11''), (0x21, 0xFE, ''21''),
     (0x31, 0xFE, ''31''), (0x41, 0xFE, ''41'')]"

definition set_clock_prop :: "string \<Rightarrow> engine \<Rightarrow> engine" where
  "set_clock_prop v s = en_emit (Set_prop (ascii ''gps.clock.type'') (ascii v)) s"

definition set_clock :: "setup_env \<Rightarrow> init_cfg \<Rightarrow> engine \<Rightarrow> init_cfg \<times> engine" where
  "set_clock e c s =
     (if chip_in [''0x6592'', ''0x6571'', ''0x6580'', ''0x0321'', ''0x0335'', ''0x0337'', ''0x6735'', ''0x8163'', ''0x8127'',
                  ''0x6755'', ''0x6797'', ''0x6757''] s then
        case map_of clock_table (ie_ioctl e 11 AND 0xFF) of
          Some (t, v) \<Rightarrow> (c\<lparr>u1ClockType := t\<rparr>, set_clock_prop v s)
        | None \<Rightarrow> (c, s)
      else if chip_in [''0x6572'', ''0x6582'', ''0x6630'', ''0x6752'', ''0x6632''] s then
        (c, if u1ClockType c = 0xFF then set_clock_prop ''90'' s
            else if u1ClockType c = 0xFE then set_clock_prop ''91'' s
            else s)
      else (c, s))"

section \<open>The chip\<close>

abbreviation MT6630_E1 :: c_int where "MT6630_E1 \<equiv> 0x80"
abbreviation MT6630_E2 :: c_int where "MT6630_E2 \<equiv> 0x81"
abbreviation MT6632_E1 :: c_int where "MT6632_E1 \<equiv> 0x100"
abbreviation MT6632_E3 :: c_int where "MT6632_E3 \<equiv> 0x101"

text \<open>The key and the version of each chip; 0x6630 and 0x6632 have a key only.\<close>

definition chip_table :: "(c_char list \<times> c_int \<times> c_int) list" where
  "chip_table = map (\<lambda>(n, k, v). (ascii n, k, v))
     [(''0x6628'', 0xFFFF6628, 0x10), (''0x6572'', 0xFFFF6572, 0x40), (''0x6571'', 0xFFFF6571, 0x70), (''0x8127'', 0xFFFF6571, 0x70),
      (''0x6582'', 0xFFFF6582, 0x50), (''0x6592'', 0xFFFF6592, 0x60), (''0x3332'', 0xFFFF3332, 0x21), (''0x6752'', 0xFFFF6752, 0x90),
      (''0x8163'', 0xFFFE6735, 0xB0), (''0x6580'', 0xFFFF6580, 0xD0), (''0x0321'', 0xFFFF6735, 0xA0), (''0x0335'', 0xFFFE6735, 0xB0),
      (''0x0337'', 0xFFFF6753, 0xC0), (''0x6755'', 0xFFFF6755, 0xE0), (''0x6797'', 0xFFFF6797, 0xF0), (''0x6757'', 0xFFFF6757, 0x110)]"

definition set_mode :: "int \<Rightarrow> engine \<Rightarrow> engine" where
  "set_mode m s = s\<lparr>en_cfg := (en_cfg s)\<lparr>mc_GNSSOPMode := m\<rparr>\<rparr>"

text \<open>A fuse of the chip says that it is for GPS alone.\<close>

definition gps_fuse :: "setup_env \<Rightarrow> bool" where
  "gps_fuse e \<longleftrightarrow> ie_ioctl e 9 AND 0x01000000 \<noteq> 0 \<and> ie_ioctl e 9 AND 0x02000000 = 0"

text \<open>\<open>None\<close> is \<open>MTK_GPS_ERROR\<close>: a version that cannot be read.\<close>

definition select_chip :: "setup_env \<Rightarrow> init_cfg \<Rightarrow> engine \<Rightarrow> (init_cfg \<times> engine) option" where
  "select_chip e c s =
     (if chip_in [''0x6630''] s then
        case (ie_version e 7, ie_version e 8) of
          (Some hw, Some fw) \<Rightarrow>
            Some (c\<lparr>reservedy := 0xFFFF6630, reservedx := (if hw = 0x8A00 \<and> fw = 0x8A00 then MT6630_E1 else MT6630_E2)\<rparr>, s)
        | _ \<Rightarrow> None
      else if chip_in [''0x6632''] s then
        case (ie_version e 7, ie_version e 8) of
          (Some hw, Some fw) \<Rightarrow>
            if hw = 0x8A00 \<and> fw = 0x8A00 then Some (c\<lparr>reservedy := 0xFFFF6632, reservedx := MT6632_E1\<rparr>, set_mode 2 s)
            else Some (c\<lparr>reservedy := 0xFFFF6632, reservedx := MT6632_E3\<rparr>, set_mode 6 s)
        | _ \<Rightarrow> None
      else
        case map_of chip_table (en_chip s) of
          Some (k, v) \<Rightarrow>
            Some (c\<lparr>reservedy := k, reservedx := v\<rparr>,
                  if chip_in [''0x8163''] s \<or> chip_in [''0x0321'', ''0x6755'', ''0x6757''] s \<and> gps_fuse e then set_mode 3 s else s)
        | None \<Rightarrow> Some (c, s))"

text \<open>The kind of EPO files: 1 for GPS only, 0 for GPS and Glonass.\<close>

definition set_epo_type :: "engine \<Rightarrow> engine" where
  "set_epo_type s =
     (let t = (if chip_in [''0x6572'', ''0x6582'', ''0x6580'', ''0x6592'', ''0x6571'', ''0x8127'', ''0x0335'', ''0x8163''] s then 1 else 0)
      in s\<lparr>en_epo_type := (if t = 0 \<and> mc_GNSSOPMode (en_cfg s) \<noteq> 0 \<and> mc_GNSSOPMode (en_cfg s) \<noteq> 2 then 1 else t)\<rparr>)"

definition accuracy_bits :: "int \<Rightarrow> c_int" where
  "accuracy_bits a = (if a = 1 then 0x80000000 else if a = 2 then 0x40000000 else if a = 3 then 0xC0000000 else 0)"

section \<open>Names\<close>

text \<open>\<open>strcpy\<close> into an array of \<open>n\<close> characters.\<close>

definition copy_name :: "nat \<Rightarrow> c_char list \<Rightarrow> c_char list option" where
  "copy_name n t = (if length t < n then Some t else None)"

text \<open>The names of the settings have arrays of 32 characters, those of the library 30; the files of orbits have fixed names.\<close>

definition set_driver_cfg :: "engine \<Rightarrow> driver_cfg option" where
  "set_driver_cfg s = do {
     let c = en_cfg s;
     nmeain \<leftarrow> copy_name 30 (mc_dev_dbg c);
     nmea \<leftarrow> copy_name 30 (mc_dev_gps c);
     dsp \<leftarrow> copy_name 30 (mc_dev_dsp c);
     bee \<leftarrow> copy_name 30 (mc_bee_path c);
     dbg \<leftarrow> copy_name 128 (en_debuglog_file s);
     Some \<lparr>dc_DebugType = en_debuglog_state s, nv_file_name = ascii ''/data/misc/gps/mtkgps.dat'', dbg_file_name = dbg,
       dsp_port_name = dsp, nmea_port_name = nmea, nmeain_port_name = nmeain, bee_path_name = bee,
       epo_file_name = ascii ''/data/misc/gps/EPO.DAT'', epo_update_file_name = ascii ''/data/misc/gps/EPOHAL.DAT'',
       qepo_file_name = ascii ''/data/misc/gps/QEPO.DAT'', qepo_update_file_name = ascii ''/data/misc/gps/QEPOHAL.DAT'',
       dc_u1AgpsMachine = word_of_int (mc_u1AgpsMachine c), dc_BEE = word_of_int (mc_BEE_enabled c),
       log_file_max_size = word_of_int (mc_dbglog_file_max_size c), log_folder_max_size = word_of_int (mc_dbglog_folder_max_size c)\<rparr>
   }"

section \<open>The mode of raw data\<close>

text \<open>The mode after the lines of the file, up to the first that is not understood.\<close>

function raw_lines :: "c_char list \<Rightarrow> int \<Rightarrow> int option" where
  "raw_lines d m =
     (if d = [] then Some m
      else (case get_line 100 (takeWhile (\<lambda>ch. ch \<noteq> 0) (fst (fgets 100 d))) of
              None \<Rightarrow> Some m
            | Some None \<Rightarrow> raw_lines (snd (fgets 100 d)) m
            | Some (Some (key, val)) \<Rightarrow>
                if key = ascii ''RAW_DEBUG_MODE'' then do {
                  v \<leftarrow> str2int val;
                  raw_lines (snd (fgets 100 d)) (if v \<noteq> 1 \<and> v \<noteq> 0 then 0 else v)
                }
                else raw_lines (snd (fgets 100 d)) m))"
  by pat_completeness auto

termination
  by (relation "measure (length \<circ> fst)") (auto simp: fgets_less)

declare raw_lines.simps [simp del]

definition gps_raw_data_enable :: "c_char list option \<Rightarrow> engine \<Rightarrow> engine option" where
  "gps_raw_data_enable f s =
     (case f of
        None \<Rightarrow> Some s
      | Some d \<Rightarrow> map_option (\<lambda>m. s\<lparr>en_raw_debug_mode := m\<rparr>) (raw_lines d (en_raw_debug_mode s)))"

section \<open>The almanac\<close>

text \<open>\<open>fseek\<close> to \<open>i\<close> from the end leaves the position when it would be before the start. The loop goes back to the last newline or to the start;
  the result is the position after the character it has read.\<close>

definition seek_end :: "c_char list \<Rightarrow> int \<Rightarrow> nat \<Rightarrow> nat" where
  "seek_end d i pos = (if 0 \<le> int (length d) + i then nat (int (length d) + i) else pos)"

text \<open>\<open>fgetc\<close>, with 255 at the end of the file.\<close>

definition fgetc :: "c_char list \<Rightarrow> nat \<Rightarrow> c_char \<times> nat" where
  "fgetc d pos = (if pos < length d then (d ! pos, pos + 1) else (255, pos))"

partial_function (option) almanac_loop :: "c_char list \<Rightarrow> int \<Rightarrow> nat \<Rightarrow> c_char \<Rightarrow> nat \<Rightarrow> nat option" where
  "almanac_loop d i sz ch pos =
     (if ch \<noteq> 10 \<and> sz \<noteq> 0 then
        almanac_loop d (i - 1) (seek_end d (i - 1) pos) (fst (fgetc d (seek_end d (i - 1) pos))) (snd (fgetc d (seek_end d (i - 1) pos)))
      else Some pos)"

text \<open>The digits and commas of the last line have to fit an array of 32 characters with a NUL. The result is the text, \<open>Some None\<close> when it does not
  fit, \<open>None\<close> when the loop does not end.\<close>

definition almanac_text :: "c_char list \<Rightarrow> c_char list option option" where
  "almanac_text d =
     map_option (\<lambda>pos. let t = filter (\<lambda>c. is_dec c \<or> c = 44) (drop pos d) in if length t < 32 then Some t else None)
       (case fgetc d (seek_end d (- 1) (length d)) of (ch, pos) \<Rightarrow> almanac_loop d (- 1) (length d) ch pos)"

definition set_almanac :: "c_char list \<Rightarrow> engine \<Rightarrow> (int \<times> engine) option" where
  "set_almanac t s =
     (if 44 \<in> set t then do {
        n \<leftarrow> atoi (takeWhile (\<lambda>c. c \<noteq> 44) t);
        if 25 \<le> n then Some (1, en_emit (Set_prop (ascii ''gps.almanac'') (tl (dropWhile (\<lambda>c. c \<noteq> 44) t))) s)
        else Some (0, en_emit (Set_prop (ascii ''gps.almanac'') (ascii ''0'')) s)
      }
      else Some (0, s))"

text \<open>\<open>None\<close> when it does not return, \<open>Some None\<close> when it leaves its arrays.\<close>

definition hasAlmanac :: "c_char list option \<Rightarrow> engine \<Rightarrow> (int \<times> engine) option option" where
  "hasAlmanac f s =
     (case f of
        None \<Rightarrow> Some (Some (0, s))
      | Some d \<Rightarrow>
          if d = [] then Some (Some (0, s))
          else map_option (\<lambda>t. t \<bind> (\<lambda>t. set_almanac t s)) (almanac_text d))"

section \<open>The profile\<close>

text \<open>The character of the status property, 1 when the property is not set.\<close>

definition epo_status :: "setup_env \<Rightarrow> int" where
  "epo_status e = (if ie_status e \<noteq> [] then digit_at (ie_status e) 7 else 1)"

definition user_profile_of :: "setup_env \<Rightarrow> mnl_config \<Rightarrow> user_profile" where
  "user_profile_of e c = \<lparr>
     up_EPO_enabled = word_of_int (if epo_setconfig c = 1 then mc_EPO_enabled c else epo_status e),
     up_BEE_enabled = word_of_int (mc_BEE_enabled c), up_SUPL_enabled = word_of_int (mc_SUPL_enabled c),
     up_EPO_priority = word_of_int (mc_EPO_priority c), up_BEE_priority = word_of_int (mc_BEE_priority c),
     up_SUPL_priority = word_of_int (mc_SUPL_priority c), up_fgGpsAosp_Ver = 1\<rparr>"

text \<open>Up to \<open>n\<close> rounds, each of which sends the profile a second time when it fails; \<open>k\<close> counts what was sent.\<close>

fun send_profile :: "nat \<Rightarrow> (nat \<Rightarrow> int) \<Rightarrow> user_profile \<Rightarrow> nat \<Rightarrow> engine \<Rightarrow> engine" where
  "send_profile 0 r u k s = s"
| "send_profile (Suc n) r u k s =
     (if r k \<noteq> 0 then send_profile n r u (k + 2) (en_emit (Profile u) (en_emit (Profile u) s))
      else en_emit (Profile u) s)"

section \<open>The set-up\<close>

definition orbit_updates :: "setup_env \<Rightarrow> engine \<Rightarrow> engine" where
  "orbit_updates e s =
     (let s = (if ie_epo_there e then en_emit Epo_update s else s)
      in if ie_qepo_there e then en_emit Qepo_update s else s)"

text \<open>A last position with an accuracy below 100 is sent to the AGPS daemon.\<close>

definition sync_position :: "setup_env \<Rightarrow> engine \<Rightarrow> engine" where
  "sync_position e s =
     (case ie_position e of
        Some (lat, lng, acc) \<Rightarrow> if sint acc < 100 then en_emit (Location_sync lat lng acc) s else s
      | None \<Rightarrow> s)"

text \<open>What follows when the library runs.\<close>

definition after_run :: "setup_env \<Rightarrow> engine \<Rightarrow> engine option" where
  "after_run e s = do {
     s \<leftarrow> gps_raw_data_enable (ie_raw_conf e) (orbit_updates e (en_emit Mpe_thread s));
     r \<leftarrow> hasAlmanac (ie_almanac e) (sync_position e (send_profile 3 (ie_profile e) (user_profile_of e (en_cfg s)) 0 s));
     map_option snd r
   }"

definition library_cfg :: "init_cfg \<Rightarrow> engine \<Rightarrow> init_cfg" where
  "library_cfg c s = c\<lparr>reservedx := reservedx c OR accuracy_bits (mc_ACCURACY_SNR (en_cfg s)),
     mtk_gps_version_mode := MTK_GPS_AOSP_MODE, ic_GNSSOPMode := mc_GNSSOPMode (en_cfg s)\<rparr>"

definition set_log_state :: "engine \<Rightarrow> engine" where
  "set_log_state s = s\<lparr>en_debuglog_state := en_debuglog_state s OR word_of_int (mc_dbg2file (en_cfg s))\<rparr>"

definition set_options :: "setup_env \<Rightarrow> c_int \<Rightarrow> engine \<Rightarrow> engine" where
  "set_options e assist s =
     en_emit (Ofl_option (if chip_in [''0x6797'', ''0x6632''] s \<and> ie_offload e then 1 else 0)) (en_emit (Delete_nv assist) s)"

definition run_library :: "setup_env \<Rightarrow> c_int \<Rightarrow> init_cfg \<Rightarrow> engine \<Rightarrow> (int \<times> engine) option" where
  "run_library e assist c s = do {
     let s = set_log_state (set_epo_type s);
     d \<leftarrow> set_driver_cfg s;
     let s = en_emit (Mnl_run (library_cfg c s) d) (en_emit Log_thread (set_options e assist s));
     if \<not> ie_run_ok e then Some (MTK_GPS_ERROR, s)
     else map_option (Pair (ie_delete_nv e)) (after_run e s)
   }"

text \<open>The chip is looked for only once.\<close>

definition open_dsp :: "setup_env \<Rightarrow> engine \<Rightarrow> engine" where
  "open_dsp e s = s\<lparr>en_dsp_open := True, en_chip := (if en_chip s = [] then ie_chip e else en_chip s)\<rparr>"

text \<open>The word \<open>delete_aiding_data\<close>, which \<open>ioctl\<close> 10 may set, is not used.\<close>

definition linux_gps_init :: "setup_env \<Rightarrow> c_int \<Rightarrow> engine \<Rightarrow> (int \<times> engine) option" where
  "linux_gps_init e assist s =
     (if \<not> ie_dsp e then Some (MTK_GPS_ERROR, s\<lparr>en_dsp_open := False\<rparr>)
      else case set_clock e (default_cfg e) (open_dsp e s) of (c, s) \<Rightarrow>
        (case select_chip e c s of
           None \<Rightarrow> Some (MTK_GPS_ERROR, s)
         | Some (c, s) \<Rightarrow> run_library e assist c s))"

section \<open>Start and stop\<close>

text \<open>\<open>log_runs\<close>: the log thread is there. The result is that of \<open>mtk_gps_sys_uninit\<close>, which is always 0.\<close>

definition stop_impl :: "bool \<Rightarrow> engine \<Rightarrow> int \<times> engine" where
  "stop_impl log_runs s =
     (let s = en_emit Mnl_stop s;
          s = (if log_runs then en_emit Log_release s else s);
          s = en_emit Alarm_off ((en_emit Sys_uninit s)\<lparr>en_dsp_open := False\<rparr>)
      in (0, s))"

definition get_gps_version :: "engine \<Rightarrow> engine" where
  "get_gps_version s =
     en_emit (Set_prop (ascii ''gps.gps.version'')
       (if chip_in [''0x0321'', ''0x0335'', ''0x0337'', ''0x6735''] s then ascii ''0x6735'' else en_chip s)) s"

text \<open>The settings are read again at every start; \<open>user\<close> is what the clients are, \<open>sig\<close> whether the signal handler can be set up.\<close>

definition start_impl :: "setup_env \<Rightarrow> c_char list option \<Rightarrow> c_char list option \<Rightarrow> c_int \<Rightarrow> bool \<Rightarrow> bool \<Rightarrow> c_int \<Rightarrow> engine \<Rightarrow> (int \<times> engine) option" where
  "start_impl e data_prop sbin_prop user sig log_runs assist s = do {
     (_, c) \<leftarrow> mnl_utl_load_property data_prop sbin_prop (ie_status e) (en_cfg s);
     let s = en_emit (Ofl_user user) (s\<lparr>en_cfg := c\<rparr>);
     (ret, s) \<leftarrow> linux_gps_init e assist s;
     if ret \<noteq> 0 then Some (ret, snd (stop_impl log_runs s))
     else if \<not> sig then Some (- 1, snd (stop_impl log_runs s))
     else Some (0, get_gps_version s)
   }"

end
