(* ===== verification/Gps_Init_Properties.thy ===== *)
theory Gps_Init_Properties
  imports Gps_Init
begin

text \<open>
  The set-up of the GPS library: when it succeeds and what it leaves behind, what the library is told, and what is read from the
  almanac.
\<close>

section \<open>The almanac\<close>

text \<open>What follows the last newline of a file.\<close>

definition last_line :: "c_char list \<Rightarrow> c_char list" where
  "last_line d = rev (takeWhile (\<lambda>c. c \<noteq> 10) (rev d))"

lemma last_line_snoc [simp]: "last_line (d @ [c]) = (if c = 10 then [] else last_line d @ [c])"
  by (simp add: last_line_def)

text \<open>The line that the loop finds, when it has come back to the position \<open>q\<close>.\<close>

definition found_line :: "c_char list \<Rightarrow> c_char list" where
  "found_line d = (if 10 \<in> set d then last_line d else tl d)"

lemma almanac_loop_found:
  assumes "q < length d" "sz = 0 \<longleftrightarrow> q = 0"
  shows "\<exists>pos. almanac_loop d (int q - int (length d)) sz (d ! q) (q + 1) = Some pos \<and>
    drop pos d = found_line (take (q + 1) d) @ drop (q + 1) d"
  using assms
proof (induction q arbitrary: sz)
  case 0
  then obtain c r where "d = c # r" by (cases d) auto
  then show ?case using 0 by (subst almanac_loop.simps) (auto simp: found_line_def last_line_def)
next
  case (Suc q)
  have take: "take (Suc (Suc q)) d = take (Suc q) d @ [d ! Suc q]" using Suc.prems(1) by (simp add: take_Suc_conv_app_nth)
  show ?case
  proof (cases "d ! Suc q = 10")
    case True
    then show ?thesis by (subst almanac_loop.simps) (simp add: found_line_def take)
  next
    case False
    have step: "almanac_loop d (int (Suc q) - int (length d)) sz (d ! Suc q) (Suc q + 1) =
        almanac_loop d (int q - int (length d)) q (d ! q) (q + 1)"
      using False Suc.prems by (subst almanac_loop.simps) (simp add: seek_end_def fgetc_def)
    obtain pos where pos: "almanac_loop d (int q - int (length d)) q (d ! q) (q + 1) = Some pos"
        "drop pos d = found_line (take (q + 1) d) @ drop (q + 1) d"
      using Suc.IH [of q] Suc.prems by auto
    have "drop (q + 1) d = d ! Suc q # drop (Suc q + 1) d" using Suc.prems(1) by (simp add: Cons_nth_drop_Suc)
    moreover have "take (q + 1) d \<noteq> []" using Suc.prems(1) by auto
    ultimately have "found_line (take (Suc q + 1) d) @ drop (Suc q + 1) d = found_line (take (q + 1) d) @ drop (q + 1) d"
      using False by (simp add: found_line_def take)
    then show ?thesis using step pos by auto
  qed
qed

text \<open>In a file of one byte the loop reads the end of the file again and again.\<close>

lemma almanac_loop_stuck:
  assumes "length d = 1" "sz \<noteq> 0" "ch \<noteq> 10" "i \<le> - 1"
  shows "almanac_loop d i sz ch 1 = None"
proof -
  have "\<not> (length d = 1 \<and> sz \<noteq> 0 \<and> ch \<noteq> 10 \<and> i \<le> - 1 \<and> pos = 1)" if "almanac_loop d i sz ch pos = Some y" for d i sz pos y and ch :: c_char
  proof (rule almanac_loop.raw_induct [OF _ that, of "\<lambda>d i sz ch pos _. \<not> (length d = 1 \<and> sz \<noteq> 0 \<and> ch \<noteq> 10 \<and> i \<le> - 1 \<and> pos = 1)"], rule notI)
    fix f :: "c_char list \<Rightarrow> int \<Rightarrow> nat \<Rightarrow> c_char \<Rightarrow> nat \<Rightarrow> nat option" and d i sz pos y and ch :: c_char
    assume IH: "\<And>d i sz ch pos y. f d i sz ch pos = Some y \<Longrightarrow> \<not> (length d = 1 \<and> sz \<noteq> 0 \<and> ch \<noteq> 10 \<and> i \<le> - 1 \<and> pos = 1)"
      and step: "(if ch \<noteq> 10 \<and> sz \<noteq> 0 then f d (i - 1) (seek_end d (i - 1) pos) (fst (fgetc d (seek_end d (i - 1) pos)))
          (snd (fgetc d (seek_end d (i - 1) pos))) else Some pos) = Some y"
      and a: "length d = 1 \<and> sz \<noteq> 0 \<and> ch \<noteq> 10 \<and> i \<le> - 1 \<and> pos = 1"
    have "seek_end d (i - 1) pos = 1" using a by (simp add: seek_end_def)
    then have "f d (i - 1) 1 255 1 = Some y" using step a by (simp add: fgetc_def)
    from IH [OF this] a show False by simp
  qed
  then show ?thesis using assms by (cases "almanac_loop d i sz ch 1") blast+
qed

lemma almanac_text_eq:
  assumes "d \<noteq> []"
  shows "almanac_text d =
    (if length d = 1 \<and> d \<noteq> [10] then None
     else Some (let t = filter (\<lambda>c. is_dec c \<or> c = 44) (found_line d) in if length t < 32 then Some t else None))"
proof -
  define n where "n = length d"
  have n: "n \<noteq> 0" using assms by (simp add: n_def)
  have start: "fgetc d (seek_end d (- 1) (length d)) = (d ! (n - 1), n)"
    using n by (simp add: seek_end_def fgetc_def n_def [symmetric] nat_diff_distrib)
  show ?thesis
  proof (cases "length d = 1 \<and> d \<noteq> [10]")
    case True
    then obtain c where "d = [c]" "c \<noteq> 10" by (cases d) auto
    then show ?thesis using almanac_loop_stuck [of d 1 c "- 1"] start by (simp add: almanac_text_def n_def)
  next
    case False
    have "\<exists>pos. almanac_loop d (- 1) n (d ! (n - 1)) n = Some pos \<and> drop pos d = found_line d"
    proof (cases "n = 1")
      case True
      then have "d = [10]" using False by (auto simp: n_def length_Suc_conv)
      then show ?thesis by (subst almanac_loop.simps) (simp add: n_def found_line_def last_line_def)
    next
      case n1: False
      then show ?thesis using almanac_loop_found [of "n - 1" d n] n
        by (simp add: n_def of_nat_diff Suc_leI)
    qed
    then show ?thesis using False start by (auto simp: almanac_text_def n_def)
  qed
qed

text \<open>C29. From the file of the almanac the daemon takes the digits and commas after the last newline; a file without a newline loses its first
  character, a file that ends in a newline gives nothing, one with more than 31 digits and commas in the line overruns an array, and at a file of
  a single other byte the daemon stands still.\<close>

theorem almanac_last_line:
  "hasAlmanac (Some d) s =
    (if d = [] then Some (Some (0, s))
     else if length d = 1 \<and> d \<noteq> [10] then None
     else let t = filter (\<lambda>c. is_dec c \<or> c = 44) (if 10 \<in> set d then rev (takeWhile (\<lambda>c. c \<noteq> 10) (rev d)) else tl d)
          in Some (if length t < 32 then set_almanac t s else None))"
  using almanac_text_eq [of d] by (simp add: hasAlmanac_def found_line_def last_line_def Let_def)

section \<open>Start\<close>

text \<open>Whether the library runs after some effects.\<close>

fun library_runs :: "bool \<Rightarrow> init_effect list \<Rightarrow> bool" where
  "library_runs b [] = b"
| "library_runs b (Mnl_run _ _ # xs) = library_runs True xs"
| "library_runs b (Mnl_stop # xs) = library_runs False xs"
| "library_runs b (_ # xs) = library_runs b xs"

lemma running_append [simp]: "library_runs b (xs @ ys) = library_runs (library_runs b xs) ys"
  by (induction b xs rule: library_runs.induct) auto

text \<open>Steps that neither start nor stop the library.\<close>

definition steady :: "engine \<Rightarrow> engine \<Rightarrow> bool" where
  "steady s s' \<longleftrightarrow> en_dsp_open s' = en_dsp_open s \<and> en_chip s' = en_chip s \<and> (\<forall>b. library_runs b (en_out s') = library_runs b (en_out s))"

lemma steady_refl [simp]: "steady s s"
  by (simp add: steady_def)

lemma steady_trans: "steady s s' \<Longrightarrow> steady s' s'' \<Longrightarrow> steady s s''"
  by (simp add: steady_def)

lemma steady_emit:
  "steady s (en_emit Log_thread s)" "steady s (en_emit Mpe_thread s)" "steady s (en_emit Epo_update s)" "steady s (en_emit Qepo_update s)"
  "steady s (en_emit (Set_prop k v) s)" "steady s (en_emit (Ofl_user u) s)" "steady s (en_emit (Delete_nv f) s)"
  "steady s (en_emit (Ofl_option f) s)" "steady s (en_emit (Profile p) s)" "steady s (en_emit (Location_sync x y a) s)"
  by (simp_all add: steady_def en_emit_def)

lemmas steady_after = steady_emit [THEN [2] steady_trans]

lemma steady_send_profile: "steady s (send_profile n r u k s)"
proof (induction n r u k s rule: send_profile.induct)
  case (2 n r u k s)
  have "steady s (en_emit (Profile u) (en_emit (Profile u) s))" by (blast intro: steady_trans steady_emit)
  then show ?case using 2 steady_emit(9) [of s u] by (auto intro: steady_trans)
qed simp

lemma steady_almanac: "set_almanac t s = Some (r, s') \<Longrightarrow> steady s s'"
  by (auto simp: set_almanac_def intro: steady_emit split: if_splits Option.bind_splits)

lemma steady_hasAlmanac: "hasAlmanac f s = Some (Some (r, s')) \<Longrightarrow> steady s s'"
  by (auto simp: hasAlmanac_def intro: steady_almanac split: if_splits option.splits Option.bind_splits)

lemma steady_raw: "gps_raw_data_enable f s = Some s' \<Longrightarrow> steady s s'"
  by (auto simp: gps_raw_data_enable_def steady_def split: option.splits)

lemma steady_after_run:
  assumes "after_run e s = Some s'"
  shows "steady s s'"
proof -
  obtain s1 where s1: "gps_raw_data_enable (ie_raw_conf e) (orbit_updates e (en_emit Mpe_thread s)) = Some s1"
    using assms by (auto simp: after_run_def split: Option.bind_splits)
  define s2 where "s2 = send_profile 3 (ie_profile e) (user_profile_of e (en_cfg s1)) 0 s1"
  obtain r where r: "hasAlmanac (ie_almanac e) (sync_position e s2) = Some (Some (r, s'))"
    using assms s1 by (auto simp: after_run_def s2_def split: Option.bind_splits)
  have "steady s (orbit_updates e (en_emit Mpe_thread s))"
    by (simp add: orbit_updates_def Let_def steady_after)
  moreover have "steady s1 (sync_position e s2)"
    using steady_send_profile by (auto simp: sync_position_def s2_def intro: steady_after split: option.split)
  ultimately show ?thesis using steady_raw [OF s1] steady_hasAlmanac [OF r] by (blast intro: steady_trans)
qed

lemma steady_set_clock: "set_clock e c s = (c', s') \<Longrightarrow> steady s s'"
  by (auto simp: set_clock_def set_clock_prop_def intro: steady_emit split: if_splits option.splits)

lemma set_mode_keeps [simp]: "en_chip (set_mode m s) = en_chip s" "en_dsp_open (set_mode m s) = en_dsp_open s" "en_out (set_mode m s) = en_out s"
  by (simp_all add: set_mode_def)

definition version_read :: "setup_env \<Rightarrow> c_char list \<Rightarrow> bool" where
  "version_read e chip \<longleftrightarrow> chip = ascii ''0x6630'' \<or> chip = ascii ''0x6632'' \<longrightarrow> ie_version e 7 \<noteq> None \<and> ie_version e 8 \<noteq> None"

lemma select_chip_result:
  "case select_chip e c s of
     None \<Rightarrow> \<not> version_read e (en_chip s)
   | Some (c', s') \<Rightarrow> version_read e (en_chip s) \<and> steady s s'"
  by (auto simp: select_chip_def version_read_def steady_def chip_in_def ascii_def of_char_def split: option.splits)

lemma run_library_result:
  assumes "run_library e assist c s = Some (r, s')" "en_dsp_open s"
  shows "(r = 0 \<longleftrightarrow> ie_run_ok e \<and> ie_delete_nv e = 0) \<and> en_dsp_open s' \<and> library_runs b (en_out s')"
proof -
  obtain d where d: "set_driver_cfg (set_log_state (set_epo_type s)) = Some d"
    using assms(1) by (auto simp: run_library_def Let_def split: Option.bind_splits)
  define s1 where "s1 = en_emit (Mnl_run (library_cfg c (set_log_state (set_epo_type s))) d)
    (en_emit Log_thread (set_options e assist (set_log_state (set_epo_type s))))"
  have s': "(if ie_run_ok e then map_option (Pair (ie_delete_nv e)) (after_run e s1) else Some (MTK_GPS_ERROR, s1)) = Some (r, s')"
    using assms(1) d by (auto simp: run_library_def Let_def s1_def)
  have s1: "en_dsp_open s1" "library_runs b (en_out s1)"
    using assms(2) by (simp_all add: s1_def en_emit_def set_epo_type_def set_log_state_def set_options_def Let_def)
  show ?thesis
  proof (cases "ie_run_ok e")
    case True
    then have "steady s1 s'" "r = ie_delete_nv e" using s' by (auto intro: steady_after_run)
    then show ?thesis using s1 True by (simp add: steady_def)
  qed (use s1 s' in simp)
qed

text \<open>C6. A start succeeds exactly when the device opens, the version of a chip that has one can be read, the library runs, the deletion
  of aiding data is reported as done and the signal handler can be set up. After a start that succeeds the device is open and the library runs, after one
  that does not the device is closed and the library is stopped.\<close>

theorem start_all_or_nothing:
  assumes "start_impl e data_prop sbin_prop user sig log_runs assist s = Some (r, s')"
  shows "(r = 0 \<longleftrightarrow> ie_dsp e \<and> version_read e (if en_chip s = [] then ie_chip e else en_chip s) \<and> ie_run_ok e \<and> ie_delete_nv e = 0 \<and> sig) \<and>
    en_dsp_open s' = (r = 0) \<and> library_runs b (en_out s') = (r = 0)"
proof -
  obtain c res where c: "mnl_utl_load_property data_prop sbin_prop (ie_status e) (en_cfg s) = Some (res, c)"
    using assms by (auto simp: start_impl_def split: Option.bind_splits)
  define s1 where "s1 = en_emit (Ofl_user user) (s\<lparr>en_cfg := c\<rparr>)"
  obtain r1 s2 where init: "linux_gps_init e assist s1 = Some (r1, s2)"
    using assms c by (auto simp: start_impl_def s1_def split: Option.bind_splits)
  define s3 where "s3 = open_dsp e s1"
  obtain cf s4 where clock: "set_clock e (default_cfg e) s3 = (cf, s4)" by fastforce
  have s3: "en_chip s3 = (if en_chip s = [] then ie_chip e else en_chip s)" "en_dsp_open s3"
    by (simp_all add: s3_def s1_def open_dsp_def en_emit_def)
  have s4: "en_chip s4 = en_chip s3" "en_dsp_open s4" using steady_set_clock [OF clock] s3 by (simp_all add: steady_def)
  have ret: "(r1 = 0 \<longleftrightarrow> ie_dsp e \<and> version_read e (en_chip s3) \<and> ie_run_ok e \<and> ie_delete_nv e = 0) \<and>
      (r1 = 0 \<longrightarrow> en_dsp_open s2 \<and> library_runs b (en_out s2))"
  proof (cases "ie_dsp e")
    case dsp: True
    show ?thesis
    proof (cases "select_chip e cf s4")
      case None
      then show ?thesis using init dsp clock select_chip_result [where e = e and c = cf and s = s4] s4
        by (auto simp: linux_gps_init_def s3_def [symmetric])
    next
      case (Some p)
      obtain c5 s5 where p: "p = (c5, s5)" by fastforce
      have sel: "version_read e (en_chip s3)" "en_dsp_open s5"
        using select_chip_result [where e = e and c = cf and s = s4] Some p s4 by (simp_all add: steady_def)
      have "run_library e assist c5 s5 = Some (r1, s2)"
        using init dsp clock Some p by (simp add: linux_gps_init_def s3_def [symmetric])
      then show ?thesis using run_library_result [of e assist c5 s5 r1 s2 b] sel dsp by blast
    qed
  qed (use init in \<open>simp add: linux_gps_init_def\<close>)
  have "(if r1 \<noteq> 0 then Some (r1, snd (stop_impl log_runs s2)) else if \<not> sig then Some (- 1, snd (stop_impl log_runs s2)) else Some (0, get_gps_version s2)) =
      Some (r, s')"
    using assms c init by (simp add: start_impl_def s1_def [symmetric])
  moreover have "\<not> en_dsp_open (snd (stop_impl log_runs s2)) \<and> \<not> library_runs b (en_out (snd (stop_impl log_runs s2)))"
    by (simp add: stop_impl_def en_emit_def Let_def)
  moreover have "steady s2 (get_gps_version s2)" by (simp add: get_gps_version_def steady_emit)
  ultimately show ?thesis using ret s3(1) by (auto simp: steady_def split: if_splits)
qed

section \<open>Names\<close>

text \<open>The names that the library gets.\<close>

definition names :: "engine \<Rightarrow> c_char list list" where
  "names s = [mc_dev_dbg (en_cfg s), mc_dev_gps (en_cfg s), mc_dev_dsp (en_cfg s), mc_bee_path (en_cfg s), en_debuglog_file s]"

definition names_fit :: "engine \<Rightarrow> bool" where
  "names_fit s \<longleftrightarrow> length (mc_dev_dbg (en_cfg s)) < 30 \<and> length (mc_dev_gps (en_cfg s)) < 30 \<and> length (mc_dev_dsp (en_cfg s)) < 30 \<and>
     length (mc_bee_path (en_cfg s)) < 30 \<and> length (en_debuglog_file s) < 128"

lemma names_fit_cong: "names s' = names s \<Longrightarrow> names_fit s' = names_fit s"
  by (simp add: names_def names_fit_def)

lemma set_driver_cfg_None: "set_driver_cfg s = None \<longleftrightarrow> \<not> names_fit s"
  by (auto simp: set_driver_cfg_def names_fit_def copy_name_def Let_def split: Option.bind_splits if_splits)

lemma names_kept [simp]:
  "names (en_emit x s) = names s" "names (set_mode m s) = names s" "names (set_epo_type s) = names s" "names (set_log_state s) = names s"
  "names (open_dsp e s) = names s"
  by (simp_all add: names_def en_emit_def set_mode_def set_epo_type_def set_log_state_def open_dsp_def Let_def)

lemma set_clock_names: "set_clock e c s = (c', s') \<Longrightarrow> names s' = names s"
  by (auto simp: set_clock_def set_clock_prop_def split: if_splits option.splits)

lemma select_chip_names: "select_chip e c s = Some (c', s') \<Longrightarrow> names s' = names s"
  by (auto simp: select_chip_def split: if_splits option.splits)

lemma run_library_None:
  "\<not> names_fit s \<Longrightarrow> run_library e assist c s = None"
  "names_fit s \<Longrightarrow> ie_raw_conf e = None \<Longrightarrow> ie_almanac e = None \<Longrightarrow> run_library e assist c s \<noteq> None"
proof -
  have "set_driver_cfg (set_log_state (set_epo_type s)) = None \<longleftrightarrow> \<not> names_fit s"
    using names_fit_cong [of "set_log_state (set_epo_type s)" s] by (simp add: set_driver_cfg_None)
  then show "\<not> names_fit s \<Longrightarrow> run_library e assist c s = None"
    "names_fit s \<Longrightarrow> ie_raw_conf e = None \<Longrightarrow> ie_almanac e = None \<Longrightarrow> run_library e assist c s \<noteq> None"
    by (auto simp: run_library_def after_run_def gps_raw_data_enable_def hasAlmanac_def Let_def split: Option.bind_splits)
qed

lemma linux_gps_init_None:
  assumes "ie_dsp e" "version_read e (if en_chip s = [] then ie_chip e else en_chip s)"
  shows "\<not> names_fit s \<Longrightarrow> linux_gps_init e assist s = None"
    "names_fit s \<Longrightarrow> ie_raw_conf e = None \<Longrightarrow> ie_almanac e = None \<Longrightarrow> linux_gps_init e assist s \<noteq> None"
proof -
  obtain c s1 where clock: "set_clock e (default_cfg e) (open_dsp e s) = (c, s1)" by fastforce
  have chip: "version_read e (en_chip s1)" using steady_set_clock [OF clock] assms(2) by (simp add: steady_def open_dsp_def)
  obtain c2 s2 where sel: "select_chip e c s1 = Some (c2, s2)"
    using select_chip_result [where e = e and c = c and s = s1] chip by (cases "select_chip e c s1") auto
  have "linux_gps_init e assist s = run_library e assist c2 s2" using assms(1) clock sel by (simp add: linux_gps_init_def)
  moreover have "names_fit s2 = names_fit s"
    using set_clock_names [OF clock] select_chip_names [OF sel] by (intro names_fit_cong) simp
  ultimately show "\<not> names_fit s \<Longrightarrow> linux_gps_init e assist s = None"
    "names_fit s \<Longrightarrow> ie_raw_conf e = None \<Longrightarrow> ie_almanac e = None \<Longrightarrow> linux_gps_init e assist s \<noteq> None"
    using run_library_None [of s2] by simp_all
qed

text \<open>C30. The settings may hold the names of three devices and of a directory with up to 31 characters each, but the library has arrays of
  30 for them, and of 128 for the name of the log file. Once the device is open and the version of the chip is read, a start leaves the
  arrays when any of the names, as the settings now give them, has as many characters as its array. When all are shorter, and no file for
  raw data and no almanac are there, it does not.\<close>

theorem long_name_overruns:
  assumes "mnl_utl_load_property data_prop sbin (ie_status e) (en_cfg s) = Some (x, c)"
    and "ie_dsp e" "version_read e (if en_chip s = [] then ie_chip e else en_chip s)"
  shows "((\<exists>name\<in>{mc_dev_dbg c, mc_dev_gps c, mc_dev_dsp c, mc_bee_path c}. 30 \<le> length name) \<or> 128 \<le> length (en_debuglog_file s) \<longrightarrow>
      start_impl e data_prop sbin user sig log_runs assist s = None) \<and>
    ((\<forall>name\<in>{mc_dev_dbg c, mc_dev_gps c, mc_dev_dsp c, mc_bee_path c}. length name < 30) \<and> length (en_debuglog_file s) < 128 \<and>
      ie_raw_conf e = None \<and> ie_almanac e = None \<longrightarrow>
      start_impl e data_prop sbin user sig log_runs assist s \<noteq> None)"
proof -
  define s1 where "s1 = en_emit (Ofl_user user) (s\<lparr>en_cfg := c\<rparr>)"
  have fit: "names_fit s1 \<longleftrightarrow> (\<forall>name\<in>{mc_dev_dbg c, mc_dev_gps c, mc_dev_dsp c, mc_bee_path c}. length name < 30) \<and>
      length (en_debuglog_file s) < 128"
    by (simp add: names_fit_def s1_def en_emit_def conj_ac)
  have chip: "version_read e (if en_chip s1 = [] then ie_chip e else en_chip s1)" using assms(3) by (simp add: s1_def en_emit_def split: if_splits)
  have "start_impl e data_prop sbin user sig log_runs assist s = None \<longleftrightarrow> linux_gps_init e assist s1 = None"
    using assms(1) by (auto simp: start_impl_def s1_def Let_def split: Option.bind_splits prod.splits if_splits)
  then show ?thesis using linux_gps_init_None [OF assms(2) chip] fit by (auto simp: not_less)
qed

text \<open>The name of a device in a settings file.\<close>

lemma device_named:
  assumes "\<forall>c\<in>set v. \<not> IS_SPACE c \<and> c \<noteq> 0" "length v < 32"
  shows "mnl_utl_load_property (Some (config_line (ascii ''dev.dsp'', v))) sbin [] c = Some (0, c\<lparr>epo_setconfig := 0, mc_dev_dsp := v\<rparr>)"
proof -
  have "line_ok PROPBUF_SIZE (ascii ''dev.dsp'', v)"
    using assms by (simp add: line_ok_def config_line_def ascii_def of_char_def)
  then have "prop_lines (config_line (ascii ''dev.dsp'', v)) (c\<lparr>epo_setconfig := 0\<rparr>) = Some (0, c\<lparr>epo_setconfig := 0, mc_dev_dsp := v\<rparr>)"
    using prop_line_step [of "(ascii ''dev.dsp'', v)" "[]"] assms(2)
    by (simp add: set_prop_def ascii_def of_char_def fits_def prop_lines.simps [of "[]"])
  then show ?thesis by (simp add: mnl_utl_load_property_def read_prop_def)
qed

section \<open>Witnesses\<close>

definition demo_setup_env :: setup_env where
  "demo_setup_env = \<lparr>
     ie_cali = None, ie_nvram = None, ie_1Hz = True, ie_dsp = True, ie_chip = ascii ''0x6632'', ie_ioctl = (\<lambda>_. 0),
     ie_version = (\<lambda>_. Some 0x8A10), ie_delete_nv = 0, ie_run_ok = True, ie_epo_there = True, ie_qepo_there = False, ie_status = [],
     ie_profile = (\<lambda>_. 0), ie_position = None, ie_offload = False, ie_raw_conf = None, ie_almanac = None\<rparr>"

definition demo_engine :: engine where
  "demo_engine = \<lparr>
     en_cfg = demo_config\<lparr>mc_dev_dbg := ascii ''/dev/ttygserial'', mc_dev_gps := ascii ''UseCallback'', mc_bee_path := ascii ''/data/misc/gps/''\<rparr>,
     en_chip = [], en_dsp_open = False, en_epo_type = 0, en_debuglog_state = 0, en_debuglog_file = [], en_raw_debug_mode = 0, en_out = []\<rparr>"

definition demo_name :: "nat \<Rightarrow> c_char list" where
  "demo_name n = replicate n 100"

theorem long_name_overruns_witness:
  "start_impl demo_setup_env (Some (config_line (ascii ''dev.dsp'', demo_name 30))) None 1 True True 0 demo_engine = None \<and>
   start_impl demo_setup_env (Some (config_line (ascii ''dev.dsp'', demo_name 29))) None 1 True True 0 demo_engine \<noteq> None"
proof -
  have "mnl_utl_load_property (Some (config_line (ascii ''dev.dsp'', demo_name n))) None (ie_status demo_setup_env) (en_cfg demo_engine) =
      Some (0, (en_cfg demo_engine)\<lparr>epo_setconfig := 0, mc_dev_dsp := demo_name n\<rparr>)" if "n < 32" for n
    using that by (simp add: device_named demo_name_def demo_setup_env_def)
  note load = this [of 30] this [of 29]
  show ?thesis
    using long_name_overruns [OF load(1), of 1 True True 0] long_name_overruns [OF load(2), of 1 True True 0]
    by (simp add: demo_name_def demo_engine_def demo_config_def demo_setup_env_def version_read_def ascii_def)
qed

theorem start_all_or_nothing_witness:
  "\<exists>r s'. start_impl demo_setup_env None None 1 True True 0 demo_engine = Some (r, s') \<and> r = 0 \<and> en_dsp_open s' \<and> library_runs False (en_out s')"
proof -
  have load: "mnl_utl_load_property None None [] (en_cfg demo_engine) = Some (- 1, (en_cfg demo_engine)\<lparr>epo_setconfig := 0\<rparr>)"
    by (simp add: mnl_utl_load_property_def read_prop_def)
  define s where "s = en_emit (Ofl_user 1) (demo_engine\<lparr>en_cfg := (en_cfg demo_engine)\<lparr>epo_setconfig := 0\<rparr>\<rparr>)"
  have "linux_gps_init demo_setup_env 0 s \<noteq> None"
    using linux_gps_init_None [of demo_setup_env s 0]
    by (simp add: s_def en_emit_def names_fit_def demo_engine_def demo_config_def demo_setup_env_def version_read_def ascii_def)
  then obtain r s' where start: "start_impl demo_setup_env None None 1 True True 0 demo_engine = Some (r, s')"
    using load by (cases "start_impl demo_setup_env None None 1 True True 0 demo_engine")
      (auto simp: start_impl_def s_def demo_setup_env_def Let_def split: if_splits)
  show ?thesis
    using start start_all_or_nothing [OF start, of False] by (auto simp: demo_setup_env_def demo_engine_def version_read_def)
qed

end
