(* ===== verification/Gps_Driver.thy ===== *)
theory Gps_Driver
  imports C_Text C_Time Gps_Control
begin

text \<open>
  The driver below the GPS daemon: the attributes of the driver (\<^verbatim>\<open>mnld_entity/src/gps_controller.c\<close>), the configuration record and the
  messages of frame synchronisation (\<^verbatim>\<open>mnl/src/pseudo_mnl.c\<close>), and the name of the chip (\<^verbatim>\<open>mnld_entity/src/mnld_uti.c\<close>).
\<close>

section \<open>Attributes\<close>

abbreviation EINTR :: int where "EINTR \<equiv> 4"

text \<open>What the system calls on an attribute give: the error of \<open>open\<close>, the results of \<open>read\<close> or \<open>write\<close> with \<open>errno\<close> after each,
  the byte that is read, and the error of \<open>close\<close>.\<close>

record attr_io =
  io_open :: "int option"
  io_calls :: "(int \<times> int) list"
  io_byte :: c_char
  io_close :: "int option"

text \<open>A call is repeated while it is interrupted; \<open>None\<close> when it still is after all results.\<close>

fun retry_eintr :: "(int \<times> int) list \<Rightarrow> (int \<times> int) option" where
  "retry_eintr [] = None"
| "retry_eintr ((r, en) # xs) = (if r < 0 \<and> en = EINTR then retry_eintr xs else Some (r, en))"

text \<open>The result, and what \<open>*attr\<close> becomes. A file that cannot be opened is no error, and leaves it.\<close>

definition mnl_read_attr :: "attr_io \<Rightarrow> c_char \<Rightarrow> (int \<times> c_char) option" where
  "mnl_read_attr io attr =
     (case io_open io of
        Some _ \<Rightarrow> Some (0, attr)
      | None \<Rightarrow> do {
          (r, _) \<leftarrow> retry_eintr (io_calls io);
          let err = (if r \<noteq> 1 then - 1 else 0);
          let err = (if io_close io \<noteq> None \<and> err = 0 then - 1 else err);
          Some (err, if err = 0 then io_byte io - 48 else 0xFF)
        })"

text \<open>The result of writing \<open>len\<close> bytes.\<close>

definition write_file :: "attr_io \<Rightarrow> nat \<Rightarrow> int option" where
  "write_file io len =
     (case io_open io of
        Some en \<Rightarrow> Some (- en)
      | None \<Rightarrow> do {
          (r, en) \<leftarrow> retry_eintr (io_calls io);
          let err = (if r \<noteq> int len then - en else 0);
          Some (case io_close io of Some en \<Rightarrow> if err \<noteq> 0 then err else - en | None \<Rightarrow> err)
        })"

definition mnl_write_attr :: "attr_io \<Rightarrow> c_char \<Rightarrow> int option" where
  "mnl_write_attr io attr = write_file io 1"

text \<open>The bound of each attribute.\<close>

abbreviation GPS_PWRCTL_MAX :: c_char where "GPS_PWRCTL_MAX \<equiv> 5"
abbreviation MNL_GPS_STATE_MAX :: c_char where "MNL_GPS_STATE_MAX \<equiv> 6"
abbreviation GPS_PWRSAVE_MAX :: c_char where "GPS_PWRSAVE_MAX \<equiv> 3"
abbreviation GPS_PWR_MAX :: c_char where "GPS_PWR_MAX \<equiv> 2"
abbreviation GPS_PWRSAVE_SLEEP :: c_char where "GPS_PWRSAVE_SLEEP \<equiv> 1"
abbreviation GPS_PWR_RESUME :: c_char where "GPS_PWR_RESUME \<equiv> 0"
abbreviation MNL_GPS_STATE_INIT :: c_char where "MNL_GPS_STATE_INIT \<equiv> 1"

datatype attr = Attr_pwrctl | Attr_state | Attr_pwrsave | Attr_suspend | Attr_status

definition attr_max :: "attr \<Rightarrow> c_char" where
  "attr_max a = (case a of Attr_pwrctl \<Rightarrow> GPS_PWRCTL_MAX | Attr_state \<Rightarrow> MNL_GPS_STATE_MAX | Attr_pwrsave \<Rightarrow> GPS_PWRSAVE_MAX
     | Attr_suspend \<Rightarrow> GPS_PWR_MAX | Attr_status \<Rightarrow> 0)"

definition set_attr :: "(attr \<Rightarrow> attr_io) \<Rightarrow> attr \<Rightarrow> c_char \<Rightarrow> int option" where
  "set_attr io a v = (if v < attr_max a then mnl_write_attr (io a) v else Some (- 1))"

text \<open>The text of the status; the year is that of \<open>struct tm\<close>.\<close>

definition status_text :: "tm \<Rightarrow> int \<Rightarrow> int \<Rightarrow> c_char list" where
  "status_text p n reason =
     take 47 (ascii ''('' @ show_int (tm_year p) @ ascii ''/'' @ show_int (1 + tm_mon p) @ ascii ''/'' @ show_int (tm_mday p) @ ascii '' '' @
       show_int (tm_hour p) @ ascii '':'' @ show_int (tm_min p) @ ascii '':'' @ show_int (tm_sec p) @ ascii '') - '' @
       show_int n @ ascii ''/'' @ show_int reason)"

text \<open>The attributes one after the other, up to the first error.\<close>

fun set_attrs :: "(attr \<Rightarrow> attr_io) \<Rightarrow> (attr \<times> c_char) list \<Rightarrow> int option" where
  "set_attrs io [] = Some 0"
| "set_attrs io ((a, v) # xs) = do { err \<leftarrow> set_attr io a v; if err \<noteq> 0 then Some err else set_attrs io xs }"

text \<open>The status is written with all 48 bytes of its array: \<open>garbage\<close> is what the array held. The result and the bytes of the status.\<close>

definition mnl_attr_init :: "(attr \<Rightarrow> attr_io) \<Rightarrow> tm option \<Rightarrow> c_char list \<Rightarrow> (int \<times> c_char list) option" where
  "mnl_attr_init io p garbage =
     (case p of
        None \<Rightarrow> Some (- 1, [])
      | Some p \<Rightarrow> do {
          let buf = status_text p 0 0 @ [0];
          let buf = buf @ drop (length buf) garbage;
          err \<leftarrow> write_file (io Attr_status) 48;
          if err \<noteq> 0 then Some (err, buf)
          else do {
            err \<leftarrow> set_attrs io [(Attr_pwrctl, GPS_PWRCTL_OFF), (Attr_suspend, GPS_PWR_RESUME), (Attr_state, MNL_GPS_STATE_PWROFF),
                              (Attr_pwrsave, GPS_PWRSAVE_SLEEP)];
            Some (err, buf)
          }
        })"

definition gps_driver_state_init :: "(attr \<Rightarrow> attr_io) \<Rightarrow> int option" where
  "gps_driver_state_init io = set_attrs io [(Attr_pwrctl, GPS_PWRCTL_OFF), (Attr_state, MNL_GPS_STATE_INIT)]"

text \<open>The count of restarts, and the status that is written.\<close>

definition gps_control_mnl_set_status :: "tm option \<Rightarrow> int \<Rightarrow> int \<times> c_char list option" where
  "gps_control_mnl_set_status p restart_count =
     (restart_count + 1, map_option (\<lambda>p. status_text p (restart_count + 1) 2) p)"

section \<open>The configuration record\<close>

abbreviation MAX_RETRY_COUNT :: nat where "MAX_RETRY_COUNT \<equiv> 20"

text \<open>How often the property was read, which the function gives at the \<open>k\<close>-th time, until it says that the records are there.\<close>

definition nvram_ready :: "c_char list \<Rightarrow> bool" where
  "nvram_ready v \<longleftrightarrow> v = ascii ''Ready'' \<or> v = ascii ''Pre_Ready''"

function nvram_wait :: "(nat \<Rightarrow> c_char list) \<Rightarrow> nat \<Rightarrow> nat" where
  "nvram_wait get k =
     (if k < MAX_RETRY_COUNT then if nvram_ready (get (k + 1)) then k + 1 else nvram_wait get (k + 1) else k)"
  by auto

termination by (relation "measure (\<lambda>(_, k). MAX_RETRY_COUNT - k)") auto

declare nvram_wait.simps [simp del]

text \<open>The record, and whether it is valid, which is never taken back.\<close>

record nvram =
  nv_dsp_dev :: "c_char list"
  nv_hz :: c_int
  nv_ppb :: c_int
  nv_valid :: bool

definition mtk_gps_sys_init :: "(nat \<Rightarrow> c_char list) \<Rightarrow> (c_char list \<times> c_int \<times> c_int) option \<Rightarrow> nvram \<Rightarrow> int \<times> nvram" where
  "mtk_gps_sys_init get file nv =
     (if MAX_RETRY_COUNT \<le> nvram_wait get 0 then (MTK_GPS_ERROR, nv)
      else let nv = nv\<lparr>nv_dsp_dev := [], nv_hz := 0, nv_ppb := 0\<rparr>
        in case file of
             Some (dev, hz, ppb) \<Rightarrow>
               (0, nv\<lparr>nv_dsp_dev := dev, nv_hz := hz, nv_ppb := ppb, nv_valid := (dev \<noteq> [] \<or> nv_valid nv)\<rparr>)
           | None \<Rightarrow> (0, nv))"

section \<open>The name of the chip\<close>

text \<open>\<open>read_NVRAM\<close>: 1 when the device is not a serial port.\<close>

definition read_NVRAM :: "(nat \<Rightarrow> c_char list) \<Rightarrow> (c_char list \<times> c_int \<times> c_int) option \<Rightarrow> nvram \<Rightarrow> int \<times> nvram" where
  "read_NVRAM get file nv =
     (case mtk_gps_sys_init get file nv of (ret, nv) \<Rightarrow> (if nv_dsp_dev nv = ascii ''/dev/stpgps'' then 1 else ret, nv))"

definition hw_ack :: "c_char list" where
  "hw_ack = [0xaa, 0xf0, 0x0e, 0x00, 0x31, 0xfe]"

text \<open>Whether all 131 bytes of the command were written, and the bytes of the answer: 0 when they are those of a 3332.\<close>

definition hw_test_3332 :: "bool \<Rightarrow> c_char list \<Rightarrow> int" where
  "hw_test_3332 written ack = (if written \<and> ack = hw_ack then 0 else 1)"

text \<open>\<open>port\<close>: the device cannot be opened, or what was written to it and read.\<close>

definition hand_shake :: "(nat \<Rightarrow> c_char list) \<Rightarrow> (c_char list \<times> c_int \<times> c_int) option \<Rightarrow> (bool \<times> c_char list) option \<Rightarrow> nvram \<Rightarrow> int \<times> nvram" where
  "hand_shake get file port nv =
     (case read_NVRAM get file nv of (r, nv) \<Rightarrow>
        (if r = 1 then 1 else if r = - 1 then - 1
         else case port of None \<Rightarrow> - 1 | Some (written, ack) \<Rightarrow> hw_test_3332 written ack, nv))"

text \<open>The chip property is read up to twenty times, until it has six characters; a value that is too short is kept as the name.\<close>

fun chip_wait :: "nat \<Rightarrow> nat \<Rightarrow> (nat \<Rightarrow> c_char list) \<Rightarrow> c_char list \<Rightarrow> c_char list" where
  "chip_wait 0 k v chip = chip"
| "chip_wait (Suc n) k v chip = (if length (v k) < 6 then chip_wait n (k + 1) v (v k) else v k)"

definition chip_detector :: "(nat \<Rightarrow> c_char list) \<Rightarrow> (nat \<Rightarrow> c_char list) \<Rightarrow> (c_char list \<times> c_int \<times> c_int) option \<Rightarrow> (bool \<times> c_char list) option \<Rightarrow>
    c_char list \<times> nvram \<Rightarrow> c_char list \<times> nvram" where
  "chip_detector v get file port s =
     (case s of (chip, nv) \<Rightarrow>
        let chip = chip_wait 20 0 v chip
        in if length chip < 6 then (chip, nv)
           else case hand_shake get file port nv of (res, nv) \<Rightarrow> (if res = 0 then ascii ''0x3332'' else chip, nv))"

section \<open>Frame synchronisation\<close>

definition calc_nmea_checksum1 :: "c_char list \<Rightarrow> c_char" where
  "calc_nmea_checksum1 t = fold (\<lambda>c x. x XOR c) t 0"

text \<open>\<open>%02X\<close>.\<close>

definition hex_upper :: "c_char \<Rightarrow> c_char list" where
  "hex_upper b =
     map (\<lambda>n. if n < 10 then 48 + word_of_nat n else 55 + word_of_nat n) [unat b div 16, unat b mod 16]"

definition pmtk_sentence :: "c_char list \<Rightarrow> c_char list" where
  "pmtk_sentence t = ascii ''$'' @ t @ ascii ''*'' @ hex_upper (calc_nmea_checksum1 t) @ [13, 10]"

text \<open>The three messages of the library to the AGPS daemon.\<close>

datatype frame_sync = Meas_req c_int | Sleep_mode c_char | Meas_req_by_network

definition frame_sync_text :: "frame_sync \<Rightarrow> c_char list" where
  "frame_sync_text m =
     (case m of
        Meas_req mode \<Rightarrow> ascii ''PMTK736,1,'' @ show_int (sint mode)
      | Sleep_mode mode \<Rightarrow> ascii ''PMTK738,'' @ show_nat (unat mode)
      | Meas_req_by_network \<Rightarrow> ascii ''PMTK736,0,0'')"

text \<open>Arrays of 64 bytes.\<close>

definition send_frame_sync :: "ctl_env \<Rightarrow> frame_sync \<Rightarrow> gps_ctl \<Rightarrow> (int \<times> gps_ctl) option" where
  "send_frame_sync e m s =
     (let t = pmtk_sentence (frame_sync_text m)
      in if length t < 64
         then map_option (\<lambda>(_, s). (0, s))
           (mtk_gps_sys_agps_disaptcher_callback e MTK_AGPS_CB_SUPL_PMTK (word_of_nat (length t)) (Some (t @ [0])) s)
         else None)"

end
