(* ===== verification/Gps_Driver_Properties.thy ===== *)
theory Gps_Driver_Properties
  imports Gps_Driver
begin

text \<open>
  The wait for the configuration record, and the messages of frame synchronisation.
\<close>

section \<open>The configuration record\<close>

lemma nvram_wait_bounds:
  assumes "k \<le> MAX_RETRY_COUNT"
  shows "k \<le> nvram_wait get k \<and> nvram_wait get k \<le> MAX_RETRY_COUNT"
  using assms
proof (induction get k rule: nvram_wait.induct)
  case (1 get k)
  have step: "nvram_wait get k =
      (if k < MAX_RETRY_COUNT then if nvram_ready (get (k + 1)) then k + 1 else nvram_wait get (k + 1) else k)"
    by (rule nvram_wait.simps)
  consider "MAX_RETRY_COUNT \<le> k" | "k < MAX_RETRY_COUNT" "nvram_ready (get (k + 1))" | "k < MAX_RETRY_COUNT" "\<not> nvram_ready (get (k + 1))"
    by linarith
  then show ?case
  proof cases
    case 3
    then have "k + 1 \<le> nvram_wait get (k + 1) \<and> nvram_wait get (k + 1) \<le> MAX_RETRY_COUNT" using 1(1) by simp
    then show ?thesis using step 3 by simp
  qed (use step 1(2) in simp_all)
qed

lemma nvram_wait_end:
  "k < MAX_RETRY_COUNT \<Longrightarrow> nvram_wait get k = MAX_RETRY_COUNT \<longleftrightarrow> (\<forall>i\<in>{k + 1..<MAX_RETRY_COUNT}. \<not> nvram_ready (get i))"
proof (induction get k rule: nvram_wait.induct)
  case (1 get k)
  show ?case
  proof (cases "nvram_ready (get (k + 1)) \<or> k + 1 = MAX_RETRY_COUNT")
    case True
    then show ?thesis using 1(2) by (subst nvram_wait.simps) (auto simp: nvram_wait.simps [of _ 20])
  next
    case False
    then have "nvram_wait get k = nvram_wait get (k + 1)" using 1(2) by (subst nvram_wait.simps) simp
    moreover have "{k + 1..<MAX_RETRY_COUNT} = insert (k + 1) {k + 1 + 1..<MAX_RETRY_COUNT}" using 1(2) False by auto
    ultimately show ?thesis using 1(1) 1(2) False by auto
  qed
qed

text \<open>The property is read up to twenty times, but a value that is there at the twentieth reading comes too late: the set-up of the
  library's resources fails exactly when the first nineteen readings do not find it.\<close>

lemma sys_init_fails:
  "fst (mtk_gps_sys_init get file nv) = MTK_GPS_ERROR \<longleftrightarrow> (\<forall>i\<in>{1..19}. \<not> nvram_ready (get i))"
proof -
  have "{1..<20} = {1..19 :: nat}" by auto
  then show ?thesis using nvram_wait_end [of 0 get] nvram_wait_bounds [of 0 get]
    by (auto simp: mtk_gps_sys_init_def Let_def split: option.split)
qed

section \<open>Frame synchronisation\<close>

lemma length_show_nat: "n < 10 ^ k \<Longrightarrow> 0 < k \<Longrightarrow> length (show_nat n) \<le> k"
proof (induction k arbitrary: n)
  case (Suc k)
  show ?case
  proof (cases "n < 10")
    case False
    then have "0 < k" using Suc.prems by (cases k) auto
    moreover have "n div 10 < 10 ^ k" using Suc.prems(1) by (simp add: less_mult_imp_div_less mult.commute)
    ultimately show ?thesis using Suc.IH [of "n div 10"] False by (subst show_nat.simps) simp
  qed (subst show_nat.simps, simp)
qed simp

lemma length_show_sint: "length (show_int (sint (v :: c_int))) \<le> 11"
proof -
  have b: "- (2 ^ 31) \<le> sint v" "sint v < 2 ^ 31" using sint_ge [of v] sint_lt [of v] by simp_all
  then have "length (show_nat (nat (- sint v))) \<le> 10 \<or> 0 \<le> sint v" "length (show_nat (nat (sint v))) \<le> 10"
    using length_show_nat [of "nat (- sint v)" 10] length_show_nat [of "nat (sint v)" 10] by auto
  then show ?thesis by (auto simp: show_int_def)
qed

lemma show_nat_chars: "c \<in> set (show_nat n) \<Longrightarrow> 48 \<le> c \<and> c \<le> 57"
proof (induction n rule: show_nat.induct)
  case (1 n)
  have digit: "48 \<le> (48 :: c_char) + word_of_nat d \<and> (48 :: c_char) + word_of_nat d \<le> 57" if "d < 10" for d
    using that by (simp add: word_le_nat_alt unat_word_ariths unat_of_nat)
  show ?case using 1(2) 1(1) digit [of n] digit [of "n mod 10"]
    by (subst (asm) show_nat.simps) (auto split: if_splits)
qed

lemma show_int_chars: "c \<in> set (show_int i) \<Longrightarrow> c \<noteq> 0"
  using show_nat_chars by (fastforce simp: show_int_def split: if_splits)

lemma hex_upper_chars: "c \<in> set (hex_upper b) \<Longrightarrow> c \<noteq> 0"
proof -
  have "(48 :: c_char) + word_of_nat n \<noteq> 0" if "n < 10" for n
    using that by (simp add: word_unat_eq_iff unat_word_ariths unat_of_nat)
  moreover have "(55 :: c_char) + word_of_nat n \<noteq> 0" if "n < 16" for n
    using that by (simp add: word_unat_eq_iff unat_word_ariths unat_of_nat)
  moreover have "unat b div 16 < 16" "unat b mod 16 < 16" using unat_char_lt [of b] by simp_all
  ultimately show "c \<in> set (hex_upper b) \<Longrightarrow> c \<noteq> 0" by (auto simp: hex_upper_def split: if_splits)
qed

lemma frame_sync_fits: "length (pmtk_sentence (frame_sync_text m)) \<le> 27" "\<forall>c\<in>set (pmtk_sentence (frame_sync_text m)). c \<noteq> 0"
proof -
  show "length (pmtk_sentence (frame_sync_text m)) \<le> 27"
  proof (cases m)
    case (Meas_req mode)
    then show ?thesis using length_show_sint [of mode] by (simp add: pmtk_sentence_def frame_sync_text_def ascii_def hex_upper_def)
  next
    case (Sleep_mode mode)
    then show ?thesis using length_show_nat [of "unat mode" 3] unat_char_lt [of mode]
      by (simp add: pmtk_sentence_def frame_sync_text_def ascii_def hex_upper_def)
  qed (simp add: pmtk_sentence_def frame_sync_text_def ascii_def hex_upper_def)
  show "\<forall>c\<in>set (pmtk_sentence (frame_sync_text m)). c \<noteq> 0"
    using show_int_chars hex_upper_chars show_nat_chars
    by (cases m) (fastforce simp: pmtk_sentence_def frame_sync_text_def ascii_def of_char_def)+
qed

text \<open>When SUPL is enabled, a message of frame synchronisation reaches the AGPS daemon whole, between the start and the checksum of its
  characters; its arrays of 64 bytes are large enough.\<close>

lemma frame_sync_sent:
  assumes "SUPL_enabled s"
  shows "send_frame_sync e m s = Some (0, ctl_emit (Ctl_agps (M2A_pmtk (Some (pmtk_sentence (frame_sync_text m))))) s)"
proof -
  define t where "t = pmtk_sentence (frame_sync_text m)"
  have t: "length t \<le> 27" "\<forall>c\<in>set t. c \<noteq> 0" using frame_sync_fits by (simp_all add: t_def)
  have "0 < length t" by (simp add: t_def pmtk_sentence_def)
  then have "word_of_nat (length t) \<noteq> (0 :: c_short)" using t(1) by (simp add: word_unat_eq_iff unat_of_nat)
  moreover have "takeWhile (\<lambda>b. b \<noteq> 0) (t @ [0]) = t" using t(2) by (simp add: takeWhile_append2)
  moreover have "send_mnl2agps (M2A_pmtk (Some t)) = Some (MNL_TO_AGPS, wire_mnl2agps (M2A_pmtk (Some t)))"
    using t by (subst send_mnl2agps_eq) auto
  ultimately show ?thesis
    using assms t(1) by (simp add: send_frame_sync_def t_def [symmetric] mtk_gps_sys_agps_disaptcher_callback_def Let_def)
qed

end
