(* ===== verification/Gps_Fix.thy ===== *)
theory Gps_Fix
  imports Gnss_Data Gps_Init Mnl_Flp
begin

text \<open>
  What the GPS daemon does at every position of the library: \<open>mtk_gps_sys_gps_mnl_callback\<close> in
  \<^verbatim>\<open>mnld_entity/src/gps_controller.c\<close>. \<open>None\<close> is an access outside an array, a conversion that does not fit, or a null pointer.
\<close>

section \<open>Comparisons of doubles\<close>

fun d_le :: "fp \<Rightarrow> fp \<Rightarrow> bool" where
  "d_le (NaN _) y = False"
| "d_le x (NaN _) = False"
| "d_le (Inf True) y = True"
| "d_le x (Inf False) = True"
| "d_le (Inf False) y = False"
| "d_le x (Inf True) = False"
| "d_le x y = (fpval x \<le> fpval y)"

definition d_less :: "fp \<Rightarrow> fp \<Rightarrow> bool" where
  "d_less x y \<longleftrightarrow> d_le x y \<and> \<not> d_le y x"

section \<open>State\<close>

abbreviation MTK_GPS_MSG_FIX_READY :: nat where "MTK_GPS_MSG_FIX_READY \<equiv> 0"
abbreviation MTK_GPS_MSG_FIX_PROHIBITED :: nat where "MTK_GPS_MSG_FIX_PROHIBITED \<equiv> 7"
abbreviation FLPMNL_GPS_REPORT_LOC :: c_int where "FLPMNL_GPS_REPORT_LOC \<equiv> 9"

text \<open>The drift that the FM driver is told: the thresholds, the age, the drift and the time.\<close>

record fm_gps_rtc_info =
  fm_ageThd :: int
  fm_driftThd :: int
  fm_tvThd :: int
  fm_age :: int
  fm_drift :: int
  fm_tv :: int

datatype fix_effect = Fix_notify dest "c_char list" | Fm_rtc fm_gps_rtc_info | Raw_meas | Fix_hal mnl2hal_msg | Fix_flp "c_char list"

text \<open>\<open>last_send_time\<close> is never assigned.\<close>

record fix_state =
  last_send_time :: int
  raw_meas_flag :: bool
  fix_out :: "fix_effect list"

text \<open>What the function meets: the clients, whether offload is enabled, the drift and the age of the clock, the first byte of \<open>/proc/fm\<close>
  when it can be read, whether \<open>dev/fm\<close> opens, the time, the result of asking for raw data, whether the state of the driver is
  \<open>MNL_GPS_STATE_START\<close>, the raw data of the library, and the position for the FLP daemon with its length.\<close>

record fix_env =
  fx_user :: c_int
  fx_offload :: bool
  fx_rtc :: "(fp \<times> fp) option"
  fx_fm :: c_char
  fx_fm_dev :: bool
  fx_time :: int
  fx_raw_ret :: int
  fx_started :: bool
  fx_lib :: gnss_lib
  fx_payload :: "c_char list"
  fx_payload_len :: nat

definition fix_emit :: "fix_effect \<Rightarrow> fix_state \<Rightarrow> fix_state" where
  "fix_emit x s = s\<lparr>fix_out := fix_out s @ [x]\<rparr>"

section \<open>The clock for the FM receiver\<close>

definition drift_matters :: "mnl_config \<Rightarrow> fp \<Rightarrow> fp \<Rightarrow> bool" where
  "drift_matters c rtc age \<longleftrightarrow>
     d_le age (d_of_int (mc_AVAILIABLE_AGE c)) \<and>
     (d_le (d_of_int (mc_RTC_DRIFT c)) rtc \<or> d_le rtc (d_of_int (- mc_RTC_DRIFT c))) \<and> d_less rtc (d_of_int 5000)"

definition tell_fm :: "fix_env \<Rightarrow> mnl_config \<Rightarrow> fix_state \<Rightarrow> fix_state option" where
  "tell_fm e c s =
     (case fx_rtc e of
        None \<Rightarrow> Some s
      | Some (rtc, age) \<Rightarrow>
          if drift_matters c rtc age \<and> fx_fm e = 50 \<and>
             (last_send_time s = 0 \<or> mc_TIME_INTERVAL c < fx_time e - last_send_time s) \<and> fx_fm_dev e
          then do {
            a \<leftarrow> d_to_int age;
            d \<leftarrow> d_to_int rtc;
            Some (fix_emit (Fm_rtc \<lparr>fm_ageThd = mc_AVAILIABLE_AGE c, fm_driftThd = mc_RTC_DRIFT c, fm_tvThd = mc_TIME_INTERVAL c,
                                     fm_age = a, fm_drift = d, fm_tv = fx_time e\<rparr>) s)
          }
          else Some s)"

section \<open>The callback\<close>

text \<open>\<open>send_active_notify\<close>, whose result is not used.\<close>

definition notify_active :: "fix_env \<Rightarrow> mnl_config \<Rightarrow> fix_state \<Rightarrow> fix_state option" where
  "notify_active e c s = do {
     m \<leftarrow> send_active_notify (fx_user e) (fx_offload e) (word_of_int (mc_debug_mnl c));
     Some (case m of Some (d, b) \<Rightarrow> fix_emit (Fix_notify d b) s | None \<Rightarrow> s)
   }"

text \<open>Raw data is asked for once, in the debug mode.\<close>

definition ask_raw :: "fix_env \<Rightarrow> int \<Rightarrow> fix_state \<Rightarrow> fix_state" where
  "ask_raw e mode s =
     (if mode \<noteq> 0 \<and> \<not> raw_meas_flag s then (fix_emit Raw_meas s)\<lparr>raw_meas_flag := (fx_raw_ret e = 0)\<rparr> else s)"

text \<open>The position for the FLP daemon: the header and the payload in a zeroed array of 1024 bytes.\<close>

definition flp_report :: "fix_env \<Rightarrow> c_char list option" where
  "flp_report e =
     (if fx_payload_len e \<le> OFFLOAD_PAYLOAD_LEN
      then let b = flp_bytes \<lparr>flp_type = FLPMNL_GPS_REPORT_LOC, flp_length = word_of_nat (fx_payload_len e),
                 flp_data = take (fx_payload_len e) (fx_payload e)\<rparr>
           in mnl2flp_data_send (b @ replicate (1024 - length b) 0) 1024
      else None)"

definition tell_flp :: "fix_env \<Rightarrow> mnld_context \<Rightarrow> fix_state \<Rightarrow> fix_state option" where
  "tell_flp e g s =
     (if is_flp_user_exist g \<and> \<not> fx_offload e then map_option (\<lambda>b. fix_emit (Fix_flp b) s) (flp_report e) else Some s)"

definition mtk_gps_sys_gps_mnl_callback :: "fix_env \<Rightarrow> mnl_config \<Rightarrow> int \<Rightarrow> mnld_context \<Rightarrow> nat \<Rightarrow> fix_state \<Rightarrow> fix_state option" where
  "mtk_gps_sys_gps_mnl_callback e c mode g msg s =
     (if msg = MTK_GPS_MSG_FIX_READY then do {
        s \<leftarrow> notify_active e c s;
        s \<leftarrow> tell_fm e c s;
        let s = ask_raw e mode s;
        ms \<leftarrow> raw_data_reports (fx_started e) (fx_lib e) g;
        tell_flp e g (fold (\<lambda>m. fix_emit (Fix_hal m)) ms s)
      }
      else if msg = MTK_GPS_MSG_FIX_PROHIBITED then notify_active e c s
      else Some s)"

section \<open>The drift is told at every position\<close>

definition rtc_told :: "fix_state \<Rightarrow> nat" where
  "rtc_told s = length (filter (\<lambda>x. case x of Fm_rtc _ \<Rightarrow> True | _ \<Rightarrow> False) (fix_out s))"

lemma fold_reports: "rtc_told (fold (\<lambda>m. fix_emit (Fix_hal m)) ms s) = rtc_told s" "last_send_time (fold (\<lambda>m. fix_emit (Fix_hal m)) ms s) = last_send_time s"
  by (induction ms arbitrary: s) (auto simp: fix_emit_def rtc_told_def)

text \<open>The time of the last message is never kept, so that the interval of the settings has no effect: as long as the receiver is on, the drift is
  told with every position for which it matters.\<close>

lemma drift_told:
  assumes "mtk_gps_sys_gps_mnl_callback e c mode g MTK_GPS_MSG_FIX_READY s = Some s'" "last_send_time s = 0" "fx_rtc e = Some (rtc, age)"
  shows "rtc_told s' = rtc_told s + (if drift_matters c rtc age \<and> fx_fm e = 50 \<and> fx_fm_dev e then 1 else 0) \<and> last_send_time s' = 0"
proof -
  obtain s1 where s1: "notify_active e c s = Some s1" using assms(1) by (auto simp: mtk_gps_sys_gps_mnl_callback_def split: Option.bind_splits)
  obtain s2 where s2: "tell_fm e c s1 = Some s2" using assms(1) s1 by (auto simp: mtk_gps_sys_gps_mnl_callback_def split: Option.bind_splits)
  obtain ms where ms: "raw_data_reports (fx_started e) (fx_lib e) g = Some ms"
    using assms(1) s1 s2 by (auto simp: mtk_gps_sys_gps_mnl_callback_def Let_def split: Option.bind_splits)
  define s3 where "s3 = fold (\<lambda>m. fix_emit (Fix_hal m)) ms (ask_raw e mode s2)"
  have flp: "tell_flp e g s3 = Some s'"
    using assms(1) s1 s2 ms by (simp add: mtk_gps_sys_gps_mnl_callback_def Let_def s3_def)
  have ask: "rtc_told (ask_raw e mode s2) = rtc_told s2" "last_send_time (ask_raw e mode s2) = last_send_time s2"
    by (simp_all add: ask_raw_def fix_emit_def rtc_told_def)
  have "rtc_told s1 = rtc_told s" "last_send_time s1 = 0"
    using s1 assms(2) by (auto simp: notify_active_def fix_emit_def rtc_told_def split: Option.bind_splits option.splits)
  moreover have "rtc_told s2 = rtc_told s1 + (if drift_matters c rtc age \<and> fx_fm e = 50 \<and> fx_fm_dev e then 1 else 0)" "last_send_time s2 = last_send_time s1"
    using s2 assms(3) \<open>last_send_time s1 = 0\<close>
    by (auto simp: tell_fm_def fix_emit_def rtc_told_def split: if_splits Option.bind_splits)
  moreover have "rtc_told s3 = rtc_told s2" "last_send_time s3 = last_send_time s2"
    by (simp_all add: s3_def fold_reports ask)
  moreover have "rtc_told s' = rtc_told s3" "last_send_time s' = last_send_time s3"
    using flp by (auto simp: tell_flp_def fix_emit_def rtc_told_def split: if_splits)
  ultimately show ?thesis by simp
qed

end
