(* ===== verification/Spec2Isabelle.thy ===== *)
theory Spec2Isabelle
  imports Mnld_Properties Mnld_Handlers Mnld_Liveness Gpshal_Properties Nmea_Numbers Nmea_Time Nmea_System At_Properties Epo_Properties Qepo_Properties Mnl_Common
    Log_Properties Log_Control_Properties Mpe Mnl2Nlps Wifi_Bridge Wpa_Properties
    Gps_Init_Properties Gps_Driver_Properties Gps_Fix
begin

text \<open>
  The GPS stack of the Samsung Galaxy Grand Prime Plus (\<open>grandppltedx\<close>), \<open>src/mtk/gps\<close>, with
  the wifi bridge \<open>src/mtk/wifi2agps\<close> of its AGPS daemon, and the private wifi commands of \<^verbatim>\<open>src/wpa_supplicant_8_lib\<close>.

  \<^bold>\<open>The program.\<close> Applications talk to the GPS HAL (\<open>gps_hal\<close>), a library inside the system
  server. The HAL exchanges datagrams with the daemon \<open>mnld\<close> (\<open>mtk_mnld/mnld_entity\<close>), which
  switches the GPS engine on and off for six kinds of clients: the HAL, the AGPS daemon, the
  FLP (offload) daemon, its loop-back test, the AT-command interface and the factory test. Inside
  \<open>mnld\<close> the main thread (\<open>mnld.c\<close>) keeps the session state; the engine thread
  (\<open>gps_controller.c\<close>) drives a closed GPS library and reports back over a socket. Everything
  that crosses a socket is coded by \<open>data_coder.c\<close> and moved by \<open>mtk_lbs_utility.c\<close>.

  \<^bold>\<open>The machine.\<close> 32-bit little-endian ARM: \<open>char\<close> is unsigned (\<open>8 word\<close>), \<open>int\<close> is
  \<open>32 word\<close>, \<open>long long\<close> \<open>64 word\<close>; arithmetic wraps. \<open>float\<close> and \<open>double\<close> values that are only
  transported are their bits; where the code computes with them, they are exact rationals rounded
  as IEEE single precision (the location throttle, \<open>C_Float\<close>) or the numbers, infinities and NaN of
  IEEE double precision (the NMEA parser, \<open>C_Double\<close>). An access outside a C object, and
  \<open>CRASH_TO_DEBUG()\<close>, is \<open>None\<close>; every theorem that says a result is \<open>Some\<close> says that neither
  happens. The C type \<open>char*\<close> is \<open>c_string\<close> (\<open>None\<close> for a null pointer).

  \<^bold>\<open>The theories\<close>, in the order of the code's layers:
  \<^item> \<open>Prelude\<close>: machine types, and buffers as cursors (capacity, memory, offset).
  \<^item> \<open>Data_Coder\<close> (\<open>utility/src/data_coder.c\<close>): every \<open>get_\<close> and \<open>put_\<close> function as written,
    and the locale \<open>codec\<close>: what the writer puts, the reader gets. Every type is an instance.
  \<^item> \<open>Lbs_Utility\<close> (\<open>utility/src/mtk_lbs_utility.c\<close>): the retry loops of \<open>safe_sendto\<close> and
    \<open>safe_recvfrom\<close> (EAGAIN is retried ten times; the recursion is on the outcomes of the system call), timers, UCS-2 and
    hexadecimal text; and the locale \<open>channel\<close>: a sender and a receiver that deliver one message
    deliver queues of messages in order. Every interface below is an instance.
  \<^item> \<open>Hal2Mnl\<close>, \<open>Mnl2Hal\<close>, \<open>Mnl2Agps\<close>, \<open>Agps2Mnl\<close>: for each of the four interfaces the senders,
    the table of callbacks, the receiver's switch, and the round trip: a message that is sent runs
    its callback on the sender's arguments. A datatype of messages names the calls.
  \<^item> \<open>Mnl_Flp\<close> (\<open>mnl_flp_interface\<close>): the FLP messages and the offload loop-back test.
  \<^item> \<open>Mnld\<close> (\<open>mnld.c\<close>): the context record, the state machine \<open>mnld_fsm\<close> with its four state
    functions, and every client handler. What a handler sends is appended to \<open>out\<close>.
  \<^item> \<open>Mnld_Fsm\<close>: closed forms of the state machine and its invariant \<open>mnld_inv\<close>; ledgers over the
    effects (wakelock, stop commands, deletion flags), each kept by every handler.
  \<^item> \<open>Mnld_Main\<close> (\<open>mnld.c\<close>): the internal events and \<open>main_event_hdlr\<close>.
  \<^item> \<open>Gps_Control\<close> (\<open>gps_controller.c\<close>): the engine thread, and the AGPS dispatcher the library
    calls. What the library, its set-up and the driver return is a parameter (\<open>ctl_env\<close>).
  \<^item> \<open>Gps_Driver\<close> (\<open>gps_controller.c\<close>, \<open>pseudo_mnl.c\<close>, \<open>mnld_uti.c\<close>): the attributes of the driver, the configuration record,
    the name of the chip, frame synchronisation. \<open>Gps_Init\<close> (\<open>gps_controller.c\<close>): the set-up of the library, and start and stop around
    it. \<open>Gps_Fix\<close>: what is done at every position. \<open>Gps_Init_Properties\<close>, \<open>Gps_Driver_Properties\<close>: their properties.
  \<^item> \<open>Mnld_System\<close>: main thread, engine thread and their two sockets as a step relation, under any
    order of client requests, library callbacks and reports; reachable states and their invariant.
  \<^item> \<open>Mnld_Properties\<close>, \<open>Mnld_Handlers\<close>, \<open>Mnld_Liveness\<close>: the properties of the daemon.
  \<^item> \<open>Struct_Layout\<close>: the bytes of C structures, with alignment and padding. \<open>Gnss_Data\<close>
    (\<open>gps_controller.c\<close>, \<open>gpshal_worker.c\<close>): raw measurements and navigation messages, from the
    library to the HAL's copies. \<open>Gnss_Sv\<close>: the satellites in view.
  \<^item> \<open>Gpshal\<close> (\<open>gps_hal/src/gpshal.c\<close>, \<open>gpsinf.c\<close>, \<open>agpsinf.c\<close>, \<open>gpshal_worker.c\<close>): the HAL. Its
    state says what the framework wants and what the daemon was told; calls into the framework are
    appended to \<open>app_calls\<close>. \<open>Gpshal_Properties\<close>: its properties, alone and with the daemon.
  \<^item> \<open>C_Double\<close>, \<open>C_Time\<close>: what the code uses of the C library: \<open>strtod\<close>, \<open>strtoul\<close>, \<open>floor\<close>, the
    operations on \<open>double\<close> with a bound for each rounding, and \<open>mktime\<close>, \<open>gmtime_r\<close>, \<open>localtime_r\<close> for
    a time zone with daylight saving.
  \<^item> \<open>At_Interface\<close> (\<open>mnl_at_interface.c\<close>): the production test; the block of samples is a pointer
    that may be null, freed or a list. \<open>At_Properties\<close>: its results against a reference.
  \<^item> \<open>Nmea_Reader\<close>, \<open>Nmea_Parser\<close> (\<open>nmea_parser.c\<close>): tokens, numbers, the fix and the satellites,
    the sentences and the reports. \<open>Nmea_Numbers\<close>, \<open>Nmea_Time\<close>, \<open>Nmea_Properties\<close>: what the numbers
    are worth, and what becomes of lines and buffers. \<open>Nmea_System\<close>: from the parser to the framework.
  \<^item> \<open>C_Text\<close>, \<open>Config_Text\<close>: numbers as text, \<open>fgets\<close> and the lines of configuration files.
    \<open>Mnl_Common\<close> (\<open>mnl_common.c\<close>): the settings of the daemon.
  \<^item> \<open>Epo_Time\<close>, \<open>Epo_File\<close>, \<open>Epo\<close> (\<open>epo.c\<close>): the calendar, the files on disk and the download of predicted
    orbits. A run of the download thread is a list of environments, one for each pass of its loop, with what
    the clock, the network and curl do in it. \<open>Epo_Pieces\<close>, \<open>Epo_Properties\<close>: one piece, and whole runs.
  \<^item> \<open>Qepo\<close>, \<open>Qepo_Properties\<close> (\<open>qepo.c\<close>): the data for a quarter of a day. A run takes at most eleven
    environments, one for each attempt, which is a transfer of the MD5 file and one of the data.

  \<^item> \<open>Log_Buffer\<close>, \<open>Log_Files\<close>, \<open>Log_Control\<close> (\<open>gps_dbg_log.c\<close>): the two buffers of the debug log, the directory of its
    files, and the commands of the logger with the log thread. \<open>Log_System\<close>: the copying thread and the log thread as a step
    relation, interleaved at every access they share; its invariant says that the run is one of an abstract log \<open>logged\<close>, in which a
    message is only lost when its buffer is dropped and counted. \<open>Log_Properties\<close>, \<open>Log_Control_Properties\<close>: what reaches
    the files. \<open>Mpe\<close> (\<open>mpe.c\<close>): the messages of the motion processing daemon. \<open>Mnl2Nlps\<close> (\<open>mnl2nlps.c\<close>):
    the request to the network location provider.
  \<^item> \<open>Wifi_Interface\<close>, \<open>Wifi_Messages\<close>, \<open>Wifi_Driver\<close>, \<open>Wifi_Events\<close>, \<open>Wifi_Bridge\<close> (\<^verbatim>\<open>mtk/wifi2agps\<close>): the program that tells
    the AGPS daemon about access points. Its messages, the events of the wifi driver, its event loop, and its start; an event is
    what the netlink library gives for it. \<open>Wifi_Properties\<close>: from the events of the driver to the callbacks of the AGPS daemon.
  \<^item> \<open>Netlink\<close>: an attribute of a netlink message, as the library gives it. \<open>Wpa_Statistics\<close>, \<open>Wpa_Commands\<close>
    (\<^verbatim>\<open>mediatek_driver_cmd_nl80211.c\<close>): the statistics of a station with their report, and the private commands of
    wpa_supplicant with the messages they send to the driver. \<open>Wpa_Properties\<close>: what they do, and where they leave their arrays.

  \<^bold>\<open>What is shown.\<close> Messages: each interface is a round trip and keeps the order; where senders
  or receivers lack a length check, the exact bound at which they overrun their buffers. Sessions:
  in every reachable state the main thread never crashes on a report, requests of clients are
  served, acknowledgements fit the state, the wakelock is held exactly while the engine is not
  idle, the supervision timers run exactly where something is awaited, no deletion of aiding
  data is lost, and a run to rest exists. Handlers: the exact effect of the ones with data in them.
  The HAL: a session survives a restart of the daemon, and nothing is reported unasked. Data: fixes,
  satellites and raw measurements reach the framework as they were made, once; tokens, coordinates
  and time stamps against their definition; the result of a production test against the mean and
  deviation of its samples; the sample block is never used after it was freed. Downloads: the file holds
  whole pieces in order, a download ends when it should, a valid quarter covers the present. The debug log: messages
  keep their order under every interleaving of the two threads, no wake-up is lost, files and directory keep their limits. The wifi
  bridge: events are handled once and in order, scans arrive whole, associations are those of the selected interface. The private
  commands: the exact cases in which one leaves its arrays, and the report on a station line by line. The set-up: a start leaves
  device and library both on or both off. The places where the
  code loses, forges or overruns something are theorems as well.

  \<^bold>\<open>Assumptions.\<close> Sockets keep datagrams in order and lose none; timers do not fire (their
  handlers only crash the daemon, \<open>supervision_timers\<close> says when they can); the GPS library calls
  the dispatcher with any arguments at any time. A handler runs to its end before the next one of
  its thread, and the two threads of \<open>Mnld_System\<close> share no state but the sockets. In \<open>Log_System\<close>, memory is sequentially
  consistent; in \<open>Log_Control\<close> a pass of the log thread is not interrupted by a copy.

  \<^bold>\<open>Not modelled.\<close> Start-up and the epoll loops (system calls), the closed library and the dumps of its
  structures, the operation log (\<open>op01_log.c\<close>), and the parts of the
  repository outside \<open>mtk/gps\<close>, \<^verbatim>\<open>mtk/wifi2agps\<close> and \<^verbatim>\<open>wpa_supplicant_8_lib\<close>: C++ services, symbols for
  closed binaries and headers of other projects. Of the private commands, what the makefile does not compile.
  The transfers of \<open>epo.c\<close> and \<open>qepo.c\<close> use libcurl, which is a parameter.
\<close>

section \<open>From the HAL to the AGPS daemon\<close>

text \<open>The messages of the HAL that the daemon only passes on, and what they become.\<close>

fun forwarded :: "hal2mnl_msg \<Rightarrow> mnl2agps_msg option" where
  "forwarded (H2M_data_conn_open apn) = Some (M2A_data_conn_open apn)"
| "forwarded (H2M_data_conn_open_with_apn_ip_type apn ip_type) = Some (M2A_data_conn_open_ip_type apn ip_type)"
| "forwarded H2M_data_conn_closed = Some M2A_data_conn_closed"
| "forwarded H2M_data_conn_failed = Some M2A_data_conn_failed"
| "forwarded (H2M_set_server ty hostname port) = Some (M2A_set_server ty hostname port)"
| "forwarded (H2M_set_ref_location ty mcc mnc lac cid) = Some (M2A_set_ref_loc ty mcc mnc lac cid)"
| "forwarded (H2M_set_id ty setid) = Some (M2A_set_set_id ty setid)"
| "forwarded (H2M_ni_message msg) = Some (M2A_ni_message msg)"
| "forwarded (H2M_ni_respond notif_id user_response) = Some (M2A_ni_respond notif_id user_response)"
| "forwarded (H2M_update_network_availability available apn) = Some (M2A_update_network_availability available apn)"
| "forwarded _ = None"

lemma forwarded_ok: "forwarded m = Some m' \<Longrightarrow> hal2mnl_ok m \<Longrightarrow> mnl2agps_ok m'"
  by (cases m) auto

lemma forwarded_call:
  assumes "forwarded m = Some m'" "hal2mnl_ok m" "length (wire_mnl2agps m') \<le> MNL_AGPS_MAX_BUFF_SIZE"
  shows "call_hal2mnl (g_hal2mnl_interface env) m s = Some (0, s\<lparr>out := out s @ [To_agps m']\<rparr>)"
proof -
  have send: "send_mnl2agps m' = Some (MNL_TO_AGPS, wire_mnl2agps m')"
    using assms forwarded_ok by (simp add: send_mnl2agps_eq)
  then have "to_agps m' s = Some (s\<lparr>out := out s @ [To_agps m']\<rparr>)"
    by (simp add: to_agps_def emit_def)
  moreover have "hal_ni_message (msg @ xs) (word_of_nat (length msg)) s =
      do { _ \<leftarrow> mnl2agps_ni_message msg (word_of_nat (length msg)); emit (To_agps (M2A_ni_message msg)) s }"
    if "length msg \<le> 1024" for msg xs
    using that by (simp add: hal_ni_message_def mnl2agps_ni_message_def put_binary_prefix sint_of_nat_small)
  ultimately show ?thesis
    using assms(1,2) send
    by (cases m) (auto simp: g_hal2mnl_interface_def ret0_def hal_data_conn_open_def
        hal_data_conn_open_with_apn_ip_type_def hal_data_conn_closed_def hal_data_conn_failed_def
        hal_set_server_def hal_set_ref_location_def hal_set_id_def hal_ni_respond_def
        hal_update_network_availability_def emit_def)
qed

text \<open>C33. What the HAL sends for the AGPS daemon arrives there unchanged. This is about the ten kinds of messages that
  \<open>forwarded\<close> lists, with C strings as arguments and NI messages of at most 1024 bytes (longer ones overrun the daemon, see
  \<open>hal2mnl_ni_message_overflow\<close>), when the message also fits the smaller buffer of the AGPS interface: the daemon passes the
  message on with the same arguments and changes nothing else, and its datagram runs exactly the
  matching callback of the AGPS daemon.\<close>

theorem hal_reaches_agps:
  assumes "forwarded m = Some m'" "hal2mnl_ok m" "send_hal2mnl m = Some (q, d)"
    and "length (wire_mnl2agps m') \<le> MNL_AGPS_MAX_BUFF_SIZE"
  shows "\<exists>d'. hal2mnl_hdlr (RxData d # rs) (g_hal2mnl_interface env) s =
      Some (0, s\<lparr>out := out s @ [To_agps m']\<rparr>, rs) \<and>
    send_mnl2agps m' = Some (MNL_TO_AGPS, d') \<and>
    mnl2agps_hdlr (RxData d' # rs') h t = map_option (\<lambda>t. (t, rs')) (call_mnl2agps h m' t)"
proof -
  have send: "send_mnl2agps m' = Some (MNL_TO_AGPS, wire_mnl2agps m')"
    using assms forwarded_ok by (simp add: send_mnl2agps_eq)
  show ?thesis
    using hal2mnl_delivered [OF assms(2,3), of rs "g_hal2mnl_interface env" s]
      forwarded_call [OF assms(1,2,4), of env s] send
      mnl2agps_delivered [OF forwarded_ok [OF assms(1,2)] send, of rs' h t] by simp
qed

theorem hal_reaches_agps_witness:
  "hal2mnl_hdlr [RxData (wire_hal2mnl (H2M_ni_message [7, 8]))] (g_hal2mnl_interface env0) ctx_init =
    Some (0, ctx_init\<lparr>out := [To_agps (M2A_ni_message [7, 8])]\<rparr>, [])"
proof -
  have "send_hal2mnl (H2M_ni_message [7, 8]) = Some (MTK_HAL2MNL, wire_hal2mnl (H2M_ni_message [7, 8]))"
    by (subst send_hal2mnl_eq) auto
  moreover have "out ctx_init = []" by (simp add: ctx_init_def Let_def)
  ultimately show ?thesis
    using hal_reaches_agps [of "H2M_ni_message [7, 8]" "M2A_ni_message [7, 8]" MTK_HAL2MNL
        "wire_hal2mnl (H2M_ni_message [7, 8])" "[]" env0 ctx_init "[]" no_mnl2agps_callbacks "()"]
    by (simp del: wire_hal2mnl.simps send_hal2mnl.simps)
qed

end
